(* ===== verification/Prelude.thy ===== *)
theory Prelude
  imports Main "HOL-Library.Word" "HOL-Library.Sublist" "HOL-Library.Char_ord"
begin

text \<open>
  Shared vocabulary of the development. Go strings and byte slices are lists: a Go
  \<open>string\<close> is a \<open>string\<close> (a list of bytes, so a non-ASCII rune is the bytes of its UTF-8
  encoding) and a \<open>[]byte\<close> is a list of 8-bit words. Go's unsigned integers are words of
  their width, its \<open>int\<close> and \<open>int64\<close> values are \<open>int\<close> where no operation of the source can
  leave the 64-bit range. A Go function that returns \<open>(T, error)\<close> returns a sum, \<open>Inl\<close> the
  error; a pointer that may be nil is an \<open>option\<close>.

  The theory models the parts of the Go packages \<open>strings\<close> and \<open>strconv\<close> the program calls
  and collects the generic list, option and word facts the components share.
\<close>

unbundle bit_operations_syntax

named_theorems go_defs \<open>definitions of small helpers, unfolded on concrete inputs\<close>
named_theorems byte_simps \<open>lengths and element facts of byte strings\<close>

type_synonym byte = "8 word"
type_synonym bytes = "byte list"
type_synonym u32 = "32 word"
type_synonym u64 = "64 word"

subsection \<open>Package strings\<close>

text \<open>
  The UTF-8 encodings of the runes for which \<open>unicode.IsSpace\<close> holds: six ASCII control
  and space characters, U+0085, U+00A0, U+1680, U+2000 to U+200A, U+2028, U+2029, U+202F,
  U+205F and U+3000.
\<close>

definition space_runes :: "string list" where
  "space_runes =
     [[CHR 0x20], [CHR 0x09], [CHR 0x0A], [CHR 0x0B], [CHR 0x0C], [CHR 0x0D],
      [CHR 0xC2, CHR 0x85], [CHR 0xC2, CHR 0xA0], [CHR 0xE1, CHR 0x9A, CHR 0x80],
      [CHR 0xE2, CHR 0x80, CHR 0x80], [CHR 0xE2, CHR 0x80, CHR 0x81],
      [CHR 0xE2, CHR 0x80, CHR 0x82], [CHR 0xE2, CHR 0x80, CHR 0x83],
      [CHR 0xE2, CHR 0x80, CHR 0x84], [CHR 0xE2, CHR 0x80, CHR 0x85],
      [CHR 0xE2, CHR 0x80, CHR 0x86], [CHR 0xE2, CHR 0x80, CHR 0x87],
      [CHR 0xE2, CHR 0x80, CHR 0x88], [CHR 0xE2, CHR 0x80, CHR 0x89],
      [CHR 0xE2, CHR 0x80, CHR 0x8A], [CHR 0xE2, CHR 0x80, CHR 0xA8],
      [CHR 0xE2, CHR 0x80, CHR 0xA9], [CHR 0xE2, CHR 0x80, CHR 0xAF],
      [CHR 0xE2, CHR 0x81, CHR 0x9F], [CHR 0xE3, CHR 0x80, CHR 0x80]]"

text \<open>Removes leading members of \<open>ws\<close> as long as one of them is a prefix.\<close>

function trim_runes :: "string list \<Rightarrow> string \<Rightarrow> string" where
  "trim_runes ws s =
     (case find (\<lambda>w. w \<noteq> [] \<and> prefix w s) ws of
        None \<Rightarrow> s
      | Some w \<Rightarrow> trim_runes ws (drop (length w) s))"
  by pat_completeness auto
termination
  by (relation "measure (\<lambda>(ws, s). length s)")
     (auto simp: find_Some_iff prefix_def)

declare trim_runes.simps [simp del]

definition TrimSpace :: "string \<Rightarrow> string" where
  "TrimSpace s = rev (trim_runes (map rev space_runes) (rev (trim_runes space_runes s)))"

definition HasPrefix :: "string \<Rightarrow> string \<Rightarrow> bool" where
  "HasPrefix s p = prefix p s"

definition TrimPrefix :: "string \<Rightarrow> string \<Rightarrow> string" where
  "TrimPrefix s p = (if HasPrefix s p then drop (length p) s else s)"

text \<open>\<open>strings.TrimRight\<close> and \<open>strings.Trim\<close> with an ASCII cutset.\<close>

definition TrimRight :: "string \<Rightarrow> string \<Rightarrow> string" where
  "TrimRight s cutset = rev (dropWhile (\<lambda>c. c \<in> set cutset) (rev s))"

definition TrimCutset :: "string \<Rightarrow> string \<Rightarrow> string" where
  "TrimCutset s cutset = TrimRight (dropWhile (\<lambda>c. c \<in> set cutset) s) cutset"

fun Contains :: "string \<Rightarrow> string \<Rightarrow> bool" where
  "Contains [] sub = (sub = [])"
| "Contains (c # s) sub = (prefix sub (c # s) \<or> Contains s sub)"

text \<open>\<open>strings.Split\<close> with a one-byte separator: always at least one part.\<close>

fun Split :: "string \<Rightarrow> char \<Rightarrow> string list" where
  "Split [] sep = [[]]"
| "Split (c # s) sep =
     (if c = sep then [] # Split s sep
      else (case Split s sep of [] \<Rightarrow> [[c]] | p # ps \<Rightarrow> (c # p) # ps))"

text \<open>
  \<open>strings.ToLower\<close> on the ASCII letters; a byte of a non-ASCII rune is left as it is, so
  the model covers the inputs the program lowers (e-mail addresses, host names, flags)
  when these are ASCII.
\<close>

definition lower_char :: "char \<Rightarrow> char" where
  "lower_char c = (if 65 \<le> (of_char c :: nat) \<and> (of_char c :: nat) \<le> 90 then char_of (of_char c + 32 :: nat) else c)"

definition ToLower :: "string \<Rightarrow> string" where
  "ToLower s = map lower_char s"

subsection \<open>Package strconv\<close>

definition is_digit :: "char \<Rightarrow> bool" where
  "is_digit c \<longleftrightarrow> 48 \<le> (of_char c :: nat) \<and> (of_char c :: nat) \<le> 57"

definition digit_val :: "char \<Rightarrow> nat" where
  "digit_val c = of_char c - 48"

definition digit_char :: "nat \<Rightarrow> char" where
  "digit_char d = char_of (48 + d)"

fun decimal_val :: "string \<Rightarrow> nat \<Rightarrow> nat" where
  "decimal_val [] acc = acc"
| "decimal_val (c # s) acc = decimal_val s (10 * acc + digit_val c)"

text \<open>
  \<open>strconv.Atoi\<close> on a 64-bit platform: an optional sign, at least one digit, and a value
  within \<open>int64\<close>; \<open>None\<close> is the syntax or range error.
\<close>

definition Atoi :: "string \<Rightarrow> int option" where
  "Atoi s =
     (let neg = HasPrefix s ''-'';
          ds = (if neg \<or> HasPrefix s ''+'' then tl s else s);
          v = int (decimal_val ds 0)
      in if ds = [] \<or> \<not> list_all is_digit ds then None
         else if neg then (if v \<le> 2 ^ 63 then Some (- v) else None)
         else (if v < 2 ^ 63 then Some v else None))"

fun nat_digits :: "nat \<Rightarrow> string" where
  "nat_digits n = (if n < 10 then [digit_char n] else nat_digits (n div 10) @ [digit_char (n mod 10)])"

declare nat_digits.simps [simp del]

definition Itoa :: "int \<Rightarrow> string" where
  "Itoa i = (if i < 0 then CHR ''-'' # nat_digits (nat (- i)) else nat_digits (nat i))"

text \<open>\<open>strings.Join\<close>\<close>

fun Join_with :: "string \<Rightarrow> string list \<Rightarrow> string" where
  "Join_with sep [] = []"
| "Join_with sep [p] = p"
| "Join_with sep (p # q # ps) = p @ sep @ Join_with sep (q # ps)"

subsection \<open>Package utf8\<close>

text \<open>\<open>utf8.ValidString\<close>. JSON carries such strings unchanged; other bytes are replaced.\<close>

fun utf8_ok :: "nat list \<Rightarrow> bool" where
  "utf8_ok [] = True"
| "utf8_ok (b # bs) =
     (let cont = (\<lambda>c. 0x80 \<le> c \<and> c \<le> 0xBF)
      in if b < 0x80 then utf8_ok bs
         else if 0xC2 \<le> b \<and> b \<le> 0xDF then (case bs of c # r \<Rightarrow> cont c \<and> utf8_ok r | [] \<Rightarrow> False)
         else if 0xE0 \<le> b \<and> b \<le> 0xEF then
           (case bs of c # d # r \<Rightarrow> (if b = 0xE0 then 0xA0 else 0x80) \<le> c \<and> c \<le> (if b = 0xED then 0x9F else 0xBF) \<and> cont d \<and> utf8_ok r
            | _ \<Rightarrow> False)
         else if 0xF0 \<le> b \<and> b \<le> 0xF4 then
           (case bs of c # d # e # r \<Rightarrow> (if b = 0xF0 then 0x90 else 0x80) \<le> c \<and> c \<le> (if b = 0xF4 then 0x8F else 0xBF) \<and>
              cont d \<and> cont e \<and> utf8_ok r
            | _ \<Rightarrow> False)
         else False)"

definition ValidString :: "string \<Rightarrow> bool" where
  "ValidString s = utf8_ok (map of_char s)"

subsection \<open>Lemmas on strings\<close>

lemma trim_runes_stop: "find (\<lambda>w. w \<noteq> [] \<and> prefix w s) ws = None \<Longrightarrow> trim_runes ws s = s"
  by (subst trim_runes.simps) simp

lemma trim_runes_fixed: "find (\<lambda>w. w \<noteq> [] \<and> prefix w (trim_runes ws s)) ws = None"
proof (induction ws s rule: trim_runes.induct)
  case (1 ws s)
  show ?case
  proof (cases "find (\<lambda>w. w \<noteq> [] \<and> prefix w s) ws")
    case None
    then show ?thesis by (simp add: trim_runes_stop)
  next
    case (Some w)
    with 1 show ?thesis by (simp add: trim_runes.simps [of ws s])
  qed
qed

lemma trim_runes_suffix: "suffix (trim_runes ws s) s"
proof (induction ws s rule: trim_runes.induct)
  case (1 ws s)
  show ?case
  proof (cases "find (\<lambda>w. w \<noteq> [] \<and> prefix w s) ws")
    case None
    then show ?thesis by (simp add: trim_runes_stop)
  next
    case (Some w)
    with 1 have "suffix (trim_runes ws (drop (length w) s)) (drop (length w) s)" by simp
    then have "suffix (trim_runes ws (drop (length w) s)) s"
      using suffix_drop suffix_order.trans by blast
    with Some show ?thesis by (simp add: trim_runes.simps [of ws s])
  qed
qed

lemma trim_runes_no_rune_head:
  "s = [] \<or> hd s \<notin> set (map hd ws) \<Longrightarrow> trim_runes ws s = s"
  by (rule trim_runes_stop) (cases s; force simp: find_None_iff prefix_def neq_Nil_conv)

lemma TrimSpace_Nil [simp]: "TrimSpace [] = []"
  by (simp add: TrimSpace_def trim_runes_no_rune_head)

text \<open>A string that neither starts nor ends with a byte of a white-space rune is kept.\<close>

definition space_heads :: "char list" where
  "space_heads = [CHR 0x20, CHR 0x09, CHR 0x0A, CHR 0x0B, CHR 0x0C, CHR 0x0D, CHR 0xC2, CHR 0xE1, CHR 0xE2, CHR 0xE3]"

definition space_lasts :: "char list" where
  "space_lasts = map last space_runes"

lemma hd_space_runes: "set (map hd space_runes) = set space_heads"
  by (auto simp: space_runes_def space_heads_def)

lemma hd_rev_space_runes: "set (map hd (map rev space_runes)) = set space_lasts"
  by (simp add: space_lasts_def space_runes_def)

lemma TrimSpace_id:
  assumes "s \<noteq> []" "hd s \<notin> set space_heads" "last s \<notin> set space_lasts"
  shows "TrimSpace s = s"
proof -
  have "trim_runes space_runes s = s"
    by (rule trim_runes_no_rune_head) (use assms(2) hd_space_runes in auto)
  moreover have "trim_runes (map rev space_runes) (rev s) = rev s"
    by (rule trim_runes_no_rune_head) (use assms(1,3) hd_rev_space_runes in \<open>auto simp: hd_rev\<close>)
  ultimately show ?thesis by (simp add: TrimSpace_def)
qed

lemma Contains_append: "Contains s sub \<Longrightarrow> Contains (t @ s) sub"
  by (induction t) auto

lemma Contains_prefix: "prefix sub s \<Longrightarrow> Contains s sub"
  by (cases s) auto

subsection \<open>Lemmas on decimal numbers\<close>

lemma of_char_digit_char: "d < 10 \<Longrightarrow> (of_char (digit_char d) :: nat) = 48 + d"
  by (simp add: digit_char_def)

lemma is_digit_digit_char [simp]: "d < 10 \<Longrightarrow> is_digit (digit_char d)"
  by (simp add: is_digit_def of_char_digit_char)

lemma digit_val_digit_char [simp]: "d < 10 \<Longrightarrow> digit_val (digit_char d) = d"
  by (simp add: digit_val_def of_char_digit_char)

lemma digit_val_less: "is_digit c \<Longrightarrow> digit_val c < 10"
  by (auto simp: is_digit_def digit_val_def)

lemma decimal_val_append: "decimal_val (s @ t) acc = decimal_val t (decimal_val s acc)"
  by (induction s arbitrary: acc) auto

lemma nat_digits_nonempty [simp]: "nat_digits n \<noteq> []"
  by (subst nat_digits.simps) simp

lemma nat_digits_all_digits: "list_all is_digit (nat_digits n)"
proof (induction n rule: nat_digits.induct)
  case (1 n)
  show ?case
    by (cases "n < 10") (use 1 in \<open>auto simp: nat_digits.simps [of n]\<close>)
qed

lemma decimal_val_nat_digits: "decimal_val (nat_digits n) 0 = n"
proof (induction n rule: nat_digits.induct)
  case (1 n)
  show ?case
  proof (cases "n < 10")
    case True
    then show ?thesis by (simp add: nat_digits.simps [of n])
  next
    case False
    with 1 show ?thesis by (simp add: nat_digits.simps [of n] decimal_val_append)
  qed
qed

lemma is_digit_neq_sign: "is_digit c \<Longrightarrow> c \<noteq> CHR ''-'' \<and> c \<noteq> CHR ''+'' \<and> c \<noteq> CHR ''.'' \<and> c \<noteq> CHR ''/'' \<and> c \<noteq> CHR '':''"
  by (auto simp: is_digit_def)

lemma nat_digits_hd_digit: "is_digit (hd (nat_digits n))"
  using nat_digits_all_digits [of n] by (cases "nat_digits n") auto

lemma Atoi_digits:
  assumes "ds \<noteq> []" "list_all is_digit ds" "decimal_val ds 0 < 2 ^ 63"
  shows "Atoi ds = Some (int (decimal_val ds 0))"
proof -
  have "is_digit (hd ds)" using assms(1,2) by (cases ds) auto
  then have "\<not> HasPrefix ds ''-''" "\<not> HasPrefix ds ''+''"
    using is_digit_neq_sign [of "hd ds"] assms(1) by (auto simp: HasPrefix_def prefix_def)
  moreover have "int (decimal_val ds 0) < 2 ^ 63" using assms(3) by simp
  ultimately show ?thesis using assms(1,2) by (simp add: Atoi_def Let_def)
qed

lemma Atoi_Itoa: "0 \<le> i \<Longrightarrow> i < 2 ^ 63 \<Longrightarrow> Atoi (Itoa i) = Some i"
  using Atoi_digits [of "nat_digits (nat i)"]
  by (simp add: Itoa_def nat_digits_all_digits decimal_val_nat_digits)

lemma Itoa_digits: "0 \<le> i \<Longrightarrow> list_all is_digit (Itoa i) \<and> Itoa i \<noteq> []"
  by (simp add: Itoa_def nat_digits_all_digits)

subsection \<open>Lemmas on lists and options\<close>

lemma find_Some_set: "find P xs = Some x \<Longrightarrow> x \<in> set xs \<and> P x"
  by (auto simp: find_Some_iff)

lemma find_None_set: "find P xs = None \<longleftrightarrow> (\<forall>x \<in> set xs. \<not> P x)"
  by (auto simp: find_None_iff)

lemma distinct_map_filter: "distinct (map f xs) \<Longrightarrow> distinct (map f (filter P xs))"
  by (induction xs) auto

lemma distinct_map_nth: "distinct (map f xs) \<Longrightarrow> i < length xs \<Longrightarrow> j < length xs \<Longrightarrow> i \<noteq> j \<Longrightarrow> f (xs ! i) \<noteq> f (xs ! j)"
  using nth_eq_iff_index_eq [of "map f xs" i j] by simp

lemma distinct_map_filter_nth:
  "distinct (map f (filter P xs)) \<Longrightarrow> i < length xs \<Longrightarrow> j < length xs \<Longrightarrow> i \<noteq> j \<Longrightarrow> P (xs ! i) \<Longrightarrow> P (xs ! j) \<Longrightarrow>
   f (xs ! i) \<noteq> f (xs ! j)"
proof (induction xs arbitrary: i j)
  case (Cons x xs)
  have tl: "distinct (map f (filter P xs))" using Cons.prems(1) by (auto split: if_splits)
  have hd: "f x \<noteq> f (xs ! k)" if "P x" "k < length xs" "P (xs ! k)" for k
    using Cons.prems(1) that by (force simp: image_iff)
  show ?case
    using Cons.prems hd Cons.IH [OF tl] by (cases i; cases j) (auto dest: not_sym)
qed simp

lemma nth_apply_at: "xs[p := f (xs ! p)] ! q = xs ! q \<or> xs[p := f (xs ! p)] ! q = f (xs ! q)"
proof (cases "p < length xs \<and> q = p")
  case True
  then show ?thesis by simp
next
  case False
  then show ?thesis by (cases "p < length xs") (auto simp: list_update_beyond not_less)
qed

lemma Split_no_sep: "sep \<notin> set s \<Longrightarrow> Split s sep = [s]"
  by (induction s) auto

lemma Split_sep: "sep \<notin> set s \<Longrightarrow> Split (s @ sep # t) sep = s # Split t sep"
  by (induction s) auto

lemma Split_nonempty [simp]: "Split s sep \<noteq> []"
  by (induction s) (auto split: list.splits)

end
