(* ===== verification/Replay.thy ===== *)
theory Replay
  imports Prelude
begin

text \<open>
  The anti-replay window of the transport (\<open>pkg/noise/replay.go\<close>): a 2048-bit bitmap of
  32 words that slides with the highest accepted counter. The model keeps the array, the
  in-place shift loops and the 64-bit arithmetic of the source; the mutex makes every
  method one atomic step. The abstract specification is a filter over the set of all
  counters accepted so far; \<open>Accept\<close> refines it, and the run theorems are proved once in
  the locale \<open>replay_filter\<close>.
\<close>

subsection \<open>State and operations\<close>

definition replayWindowBits :: nat where
  "replayWindowBits = 2048"

definition replayWindowWords :: nat where
  "replayWindowWords = replayWindowBits div 64"

record ReplayWindow =
  highestSeen :: u64
  initialized :: bool
  bitmap :: "u64 list"

definition NewReplayWindow :: ReplayWindow where
  "NewReplayWindow = \<lparr>highestSeen = 0, initialized = False, bitmap = replicate replayWindowWords 0\<rparr>"

definition hasDeltaLocked :: "ReplayWindow \<Rightarrow> u64 \<Rightarrow> bool" where
  "hasDeltaLocked rw delta =
     (let w = unat (delta div 64); b = unat (delta mod 64)
      in (bitmap rw ! w) AND (push_bit b 1) \<noteq> 0)"

definition markDeltaLocked :: "ReplayWindow \<Rightarrow> u64 \<Rightarrow> ReplayWindow" where
  "markDeltaLocked rw delta =
     (let w = unat (delta div 64); b = unat (delta mod 64)
      in rw\<lparr>bitmap := (bitmap rw)[w := (bitmap rw ! w) OR (push_bit b 1)]\<rparr>)"

text \<open>
  The two loops of \<open>advanceLocked\<close> run \<open>i\<close> from the last word down to 0 and update the
  array in place; \<open>shift_words s n\<close> runs the iterations \<open>n - 1, \<dots>, 0\<close>.
\<close>

fun shift_words :: "nat \<Rightarrow> nat \<Rightarrow> u64 list \<Rightarrow> u64 list" where
  "shift_words wordShift 0 bm = bm"
| "shift_words wordShift (Suc i) bm =
     shift_words wordShift i (bm[i := (if wordShift \<le> i then bm ! (i - wordShift) else 0)])"

fun shift_bits :: "nat \<Rightarrow> nat \<Rightarrow> u64 list \<Rightarrow> u64 list" where
  "shift_bits bitShift 0 bm = bm"
| "shift_bits bitShift (Suc i) bm =
     (let carry = (if 0 < i then drop_bit (64 - bitShift) (bm ! (i - 1)) else 0)
      in shift_bits bitShift i (bm[i := push_bit bitShift (bm ! i) OR carry]))"

definition advanceLocked :: "ReplayWindow \<Rightarrow> u64 \<Rightarrow> ReplayWindow" where
  "advanceLocked rw delta =
     (if delta \<ge> of_nat replayWindowBits
      then rw\<lparr>bitmap := replicate replayWindowWords 0\<rparr>
      else
        let wordShift = unat (delta div 64);
            bitShift = unat (delta mod 64);
            bm1 = (if wordShift > 0 then shift_words wordShift replayWindowWords (bitmap rw) else bitmap rw);
            bm2 = (if bitShift > 0 then shift_bits bitShift replayWindowWords bm1 else bm1)
        in rw\<lparr>bitmap := bm2\<rparr>)"

definition Accept :: "ReplayWindow \<Rightarrow> u64 \<Rightarrow> bool \<times> ReplayWindow" where
  "Accept rw counter =
     (if \<not> initialized rw then
        (True, markDeltaLocked (rw\<lparr>initialized := True, highestSeen := counter\<rparr>) 0)
      else if counter > highestSeen rw then
        (let delta = counter - highestSeen rw;
             rw1 = advanceLocked rw delta
         in (True, markDeltaLocked (rw1\<lparr>highestSeen := counter\<rparr>) 0))
      else
        (let delta = highestSeen rw - counter
         in if delta \<ge> of_nat replayWindowBits then (False, rw)
            else if hasDeltaLocked rw delta then (False, rw)
            else (True, markDeltaLocked rw delta)))"

definition HighestSeen :: "ReplayWindow \<Rightarrow> u64" where
  "HighestSeen rw = highestSeen rw"

subsection \<open>The abstract filter\<close>

text \<open>
  \<open>A\<close> is the set of all counters accepted so far. A counter is fresh when it is above all
  of them, or is less than 2048 below the highest and not among them.
\<close>

definition fresh_counter :: "u64 set \<Rightarrow> u64 \<Rightarrow> bool" where
  "fresh_counter A c \<longleftrightarrow>
     A = {} \<or> Max A < c \<or> (unat (Max A) - unat c < replayWindowBits \<and> c \<notin> A)"

text \<open>The bit at distance \<open>d\<close> below the highest counter.\<close>

definition window_bit :: "u64 list \<Rightarrow> nat \<Rightarrow> bool" where
  "window_bit bm d = bit (bm ! (d div 64)) (d mod 64)"

definition window_rel :: "ReplayWindow \<Rightarrow> u64 set \<Rightarrow> bool" where
  "window_rel rw A \<longleftrightarrow>
     length (bitmap rw) = replayWindowWords \<and>
     (initialized rw \<longleftrightarrow> A \<noteq> {}) \<and>
     (A \<noteq> {} \<longrightarrow> highestSeen rw = Max A) \<and>
     (\<forall>d < replayWindowBits. window_bit (bitmap rw) d \<longleftrightarrow> (\<exists>a \<in> A. unat a + d = unat (Max A)))"

text \<open>
  The interface a receiver relies on: a filter state, its \<open>accept\<close> step, and the set of
  accepted values it stands for.
\<close>

fun filter_run :: "('s \<Rightarrow> 'c \<Rightarrow> bool \<times> 's) \<Rightarrow> 's \<Rightarrow> 'c list \<Rightarrow> 'c list \<times> 's" where
  "filter_run acc s [] = ([], s)"
| "filter_run acc s (c # cs) =
     (case acc s c of (ok, s') \<Rightarrow>
        (case filter_run acc s' cs of (out, s'') \<Rightarrow> (if ok then c # out else out, s'')))"

locale replay_filter =
  fixes init :: 's
    and acc :: "'s \<Rightarrow> 'c \<Rightarrow> bool \<times> 's"
    and rel :: "'s \<Rightarrow> 'c set \<Rightarrow> bool"
    and fresh :: "'c set \<Rightarrow> 'c \<Rightarrow> bool"
  assumes rel_init: "rel init {}"
    and acc_iff: "rel s A \<Longrightarrow> fst (acc s c) \<longleftrightarrow> fresh A c"
    and rel_acc: "rel s A \<Longrightarrow> fresh A c \<Longrightarrow> rel (snd (acc s c)) (insert c A)"
    and rel_rej: "rel s A \<Longrightarrow> \<not> fresh A c \<Longrightarrow> rel (snd (acc s c)) A"
    and fresh_new: "fresh A c \<Longrightarrow> c \<notin> A"
begin

lemma run_rel: "rel s A \<Longrightarrow> rel (snd (filter_run acc s cs)) (A \<union> set (fst (filter_run acc s cs)))"
proof (induction cs arbitrary: s A)
  case Nil
  then show ?case by simp
next
  case (Cons c cs)
  show ?case
  proof (cases "fresh A c")
    case True
    with Cons show ?thesis
      using acc_iff [OF Cons.prems, of c] Cons.IH [OF rel_acc [OF Cons.prems True]]
      by (auto split: prod.splits)
  next
    case False
    with Cons show ?thesis
      using acc_iff [OF Cons.prems, of c] Cons.IH [OF rel_rej [OF Cons.prems False]]
      by (auto split: prod.splits)
  qed
qed

lemma run_distinct: "rel s A \<Longrightarrow> distinct (fst (filter_run acc s cs)) \<and> set (fst (filter_run acc s cs)) \<inter> A = {}"
proof (induction cs arbitrary: s A)
  case Nil
  then show ?case by simp
next
  case (Cons c cs)
  show ?case
  proof (cases "fresh A c")
    case True
    with Cons.prems Cons.IH [OF rel_acc [OF Cons.prems True]] show ?thesis
      using acc_iff [OF Cons.prems, of c] fresh_new [OF True] by (auto split: prod.splits)
  next
    case False
    with Cons.prems Cons.IH [OF rel_rej [OF Cons.prems False]] show ?thesis
      using acc_iff [OF Cons.prems, of c] by (auto split: prod.splits)
  qed
qed

lemma run_accepts_iff:
  "fst (acc (snd (filter_run acc init cs)) c) \<longleftrightarrow> fresh (set (fst (filter_run acc init cs))) c"
  using acc_iff [OF run_rel [OF rel_init]] by simp

end

subsection \<open>The bitmap loops\<close>

lemma length_shift_words [simp]: "length (shift_words ws n bm) = length bm"
  by (induction ws n bm rule: shift_words.induct) auto

lemma length_shift_bits [simp]: "length (shift_bits bs n bm) = length bm"
  by (induction bs n bm rule: shift_bits.induct) (auto simp: Let_def)

lemma nth_shift_words:
  "n \<le> length bm \<Longrightarrow> j < length bm \<Longrightarrow>
   shift_words ws n bm ! j = (if j < n then (if ws \<le> j then bm ! (j - ws) else 0) else bm ! j)"
proof (induction n arbitrary: bm)
  case 0
  then show ?case by simp
next
  case (Suc i)
  then show ?case by (auto simp: nth_list_update less_Suc_eq)
qed

lemma nth_shift_bits:
  "n \<le> length bm \<Longrightarrow> j < length bm \<Longrightarrow>
   shift_bits bs n bm ! j =
     (if j < n then push_bit bs (bm ! j) OR (if 0 < j then drop_bit (64 - bs) (bm ! (j - 1)) else 0)
      else bm ! j)"
proof (induction n arbitrary: bm)
  case 0
  then show ?case by simp
next
  case (Suc i)
  then show ?case by (auto simp: Let_def nth_list_update less_Suc_eq)
qed

lemma window_bit_at: "b < 64 \<Longrightarrow> window_bit bm (64 * w + b) = bit (bm ! w) b"
  by (simp add: window_bit_def)

lemma window_index:
  assumes "(d::nat) < 2048"
  obtains w b where "d = 64 * w + b" "w < 32" "b < 64"
proof
  show "d = 64 * (d div 64) + d mod 64" by simp
  show "d div 64 < 32" using assms by auto
  show "d mod 64 < 64" by simp
qed

lemma window_bit_shift_words:
  assumes "length bm = 32" "d < 2048"
  shows "window_bit (shift_words ws 32 bm) d \<longleftrightarrow> 64 * ws \<le> d \<and> window_bit bm (d - 64 * ws)"
proof -
  obtain w b where d: "d = 64 * w + b" "w < 32" "b < 64"
    using assms(2) by (rule window_index)
  have le: "64 * ws \<le> d \<longleftrightarrow> ws \<le> w" using d by linarith
  have sub: "ws \<le> w \<Longrightarrow> d - 64 * ws = 64 * (w - ws) + b" using d by (simp add: diff_mult_distrib2)
  show ?thesis
    using assms(1) d(2,3) unfolding le
    by (auto simp: d(1) window_bit_at nth_shift_words sub [unfolded d(1)])
qed

lemma window_bit_shift_bits:
  assumes "length bm = 32" "d < 2048" "bs < 64"
  shows "window_bit (shift_bits bs 32 bm) d \<longleftrightarrow> bs \<le> d \<and> window_bit bm (d - bs)"
proof -
  obtain w b where d: "d = 64 * w + b" "w < 32" "b < 64"
    using assms(2) by (rule window_index)
  have nth: "shift_bits bs 32 bm ! w =
      push_bit bs (bm ! w) OR (if 0 < w then drop_bit (64 - bs) (bm ! (w - 1)) else 0)"
    using assms(1) d(2) by (simp add: nth_shift_bits)
  show ?thesis
  proof (cases "bs \<le> b")
    case True
    then have "64 * w + b - bs = 64 * w + (b - bs)" by simp
    then have old: "window_bit bm (d - bs) = bit (bm ! w) (b - bs)"
      using d(3) by (simp add: d(1) window_bit_at less_imp_diff_less)
    have "\<not> bit (bm ! (w - 1)) (64 - bs + b)"
      using True assms(3) bit_imp_le_length [of "bm ! (w - 1)" "64 - bs + b"] by auto
    then have "window_bit (shift_bits bs 32 bm) d = bit (bm ! w) (b - bs)"
      using True d(3) nth by (simp add: d(1) window_bit_at bit_simps)
    with old True d(1) show ?thesis by simp
  next
    case False
    show ?thesis
    proof (cases "w = 0")
      case True
      with False d(3) nth show ?thesis by (simp add: d(1) window_bit_def bit_simps)
    next
      case w: False
      then have "64 * w + b - bs = 64 * (w - 1) + (64 - bs + b)"
        using False assms(3) by (cases w) auto
      moreover have lt: "64 - bs + b < 64" and le: "bs \<le> d" using False w assms(3) d(1) by auto
      ultimately have "window_bit bm (d - bs) = bit (bm ! (w - 1)) (64 - bs + b)"
        by (simp only: d(1) window_bit_at)
      moreover have "window_bit (shift_bits bs 32 bm) d = bit (bm ! (w - 1)) (64 - bs + b)"
        using False w d(3) nth by (simp add: d(1) window_bit_at bit_simps)
      ultimately show ?thesis using le by simp
    qed
  qed
qed

lemma window_bit_zero: "d < 2048 \<Longrightarrow> \<not> window_bit (replicate 32 0) d"
  by (auto simp: window_bit_def)

lemma window_bit_mark:
  assumes "length bm = 32" "d < 2048" "e < 2048"
  shows "window_bit (bm[e div 64 := (bm ! (e div 64)) OR push_bit (e mod 64) 1]) d \<longleftrightarrow> d = e \<or> window_bit bm d"
proof -
  have "d div 64 < 32" "e div 64 < 32" "d mod 64 < 64" using assms by auto
  moreover have "d = e \<longleftrightarrow> d div 64 = e div 64 \<and> d mod 64 = e mod 64"
    by (metis mult_div_mod_eq)
  ultimately show ?thesis
    using assms(1) by (auto simp: window_bit_def nth_list_update bit_simps)
qed

lemma window_bit_advance:
  assumes "length (bitmap rw) = replayWindowWords" "d < replayWindowBits"
  shows "window_bit (bitmap (advanceLocked rw delta)) d \<longleftrightarrow>
           unat delta \<le> d \<and> window_bit (bitmap rw) (d - unat delta)"
proof (cases "delta \<ge> 2048")
  case True
  then have "2048 \<le> unat delta" by (simp add: word_le_nat_alt)
  with True assms show ?thesis
    by (simp add: advanceLocked_def replayWindowBits_def replayWindowWords_def window_bit_zero)
next
  case False
  define w where "w = unat delta div 64"
  define b where "b = unat delta mod 64"
  have wb: "unat (delta div 64) = w" "unat (delta mod 64) = b" "b < 64" "unat delta = 64 * w + b"
    by (simp_all add: w_def b_def unat_div unat_mod)
  have len: "length (bitmap rw) = 32" and d: "d < 2048"
    using assms by (simp_all add: replayWindowWords_def replayWindowBits_def)
  define bm1 where "bm1 = (if w > 0 then shift_words w 32 (bitmap rw) else bitmap rw)"
  have len1: "length bm1 = 32" using len by (simp add: bm1_def)
  have bm1: "window_bit bm1 e \<longleftrightarrow> 64 * w \<le> e \<and> window_bit (bitmap rw) (e - 64 * w)" if "e < 2048" for e
    using that len by (auto simp: bm1_def window_bit_shift_words)
  have "bitmap (advanceLocked rw delta) = (if b > 0 then shift_bits b 32 bm1 else bm1)"
    using False by (simp add: advanceLocked_def replayWindowBits_def replayWindowWords_def Let_def wb bm1_def)
  then have "window_bit (bitmap (advanceLocked rw delta)) d \<longleftrightarrow> b \<le> d \<and> window_bit bm1 (d - b)"
    using len1 d wb(3) by (auto simp: window_bit_shift_bits)
  also have "\<dots> \<longleftrightarrow> b \<le> d \<and> 64 * w \<le> d - b \<and> window_bit (bitmap rw) (d - b - 64 * w)"
    using bm1 [of "d - b"] d by auto
  also have "\<dots> \<longleftrightarrow> unat delta \<le> d \<and> window_bit (bitmap rw) (d - unat delta)"
    unfolding wb(4) by (auto simp: add.commute)
  finally show ?thesis .
qed

lemma length_advance: "length (bitmap rw) = replayWindowWords \<Longrightarrow> length (bitmap (advanceLocked rw delta)) = replayWindowWords"
  by (simp add: advanceLocked_def Let_def)

lemma mark_simps [simp]:
  "highestSeen (markDeltaLocked rw e) = highestSeen rw"
  "initialized (markDeltaLocked rw e) = initialized rw"
  "length (bitmap (markDeltaLocked rw e)) = length (bitmap rw)"
  by (simp_all add: markDeltaLocked_def Let_def)

lemma window_bit_markDelta:
  assumes "length (bitmap rw) = replayWindowWords" "d < replayWindowBits" "unat e < replayWindowBits"
  shows "window_bit (bitmap (markDeltaLocked rw e)) d \<longleftrightarrow> d = unat e \<or> window_bit (bitmap rw) d"
  using window_bit_mark [of "bitmap rw" d "unat e"] assms
  by (simp add: markDeltaLocked_def Let_def replayWindowWords_def replayWindowBits_def unat_div unat_mod)

lemma hasDelta_window_bit: "hasDeltaLocked rw e = window_bit (bitmap rw) (unat e)"
proof -
  have "x AND push_bit n 1 \<noteq> 0 \<longleftrightarrow> bit x n" for x :: u64 and n
    by (simp add: and_exp_eq_0_iff_not_bit push_bit_of_1)
  then show ?thesis
    by (simp add: hasDeltaLocked_def Let_def window_bit_def unat_div unat_mod)
qed

subsection \<open>Refinement of the abstract filter\<close>

lemma window_relD:
  assumes "window_rel rw A"
  shows "length (bitmap rw) = replayWindowWords" "initialized rw \<longleftrightarrow> A \<noteq> {}"
    "A \<noteq> {} \<Longrightarrow> highestSeen rw = Max A"
    "d < replayWindowBits \<Longrightarrow> window_bit (bitmap rw) d \<longleftrightarrow> (\<exists>a \<in> A. unat a + d = unat (Max A))"
  using assms by (auto simp: window_rel_def)

lemma window_relI:
  assumes "length (bitmap rw) = replayWindowWords" "initialized rw" "A \<noteq> {}" "highestSeen rw = Max A"
    "\<And>d. d < replayWindowBits \<Longrightarrow> window_bit (bitmap rw) d \<longleftrightarrow> (\<exists>a \<in> A. unat a + d = unat (Max A))"
  shows "window_rel rw A"
  using assms by (auto simp: window_rel_def)

lemma window_rel_new: "window_rel NewReplayWindow {}"
  by (simp add: window_rel_def NewReplayWindow_def replayWindowWords_def replayWindowBits_def window_bit_zero)

lemma replayWindowBits_pos [simp]: "0 < replayWindowBits"
  by (simp add: replayWindowBits_def)

lemma of_nat_window_le: "of_nat replayWindowBits \<le> (x :: u64) \<longleftrightarrow> replayWindowBits \<le> unat x"
  by (simp add: word_le_nat_alt replayWindowBits_def)

lemma Accept_first:
  assumes "window_rel rw {}"
  shows "fst (Accept rw c)" "window_rel (snd (Accept rw c)) {c}"
proof -
  note rel = window_relD [OF assms]
  from rel(2) have acc: "Accept rw c = (True, markDeltaLocked (rw\<lparr>initialized := True, highestSeen := c\<rparr>) 0)"
    by (simp add: Accept_def)
  then show "fst (Accept rw c)" by simp
  have "window_bit (bitmap (snd (Accept rw c))) d \<longleftrightarrow> d = 0" if "d < replayWindowBits" for d
    using that rel(1,4) by (simp add: acc window_bit_markDelta)
  then show "window_rel (snd (Accept rw c)) {c}"
    using rel(1) by (intro window_relI) (auto simp: acc)
qed

lemma Accept_above:
  assumes "window_rel rw A" "A \<noteq> {}" "Max A < c"
  shows "fst (Accept rw c)" "window_rel (snd (Accept rw c)) (insert c A)"
proof -
  note rel = window_relD [OF assms(1)]
  define delta where "delta = c - Max A"
  have acc: "Accept rw c = (True, markDeltaLocked ((advanceLocked rw delta)\<lparr>highestSeen := c\<rparr>) 0)"
    using rel(2,3) assms(2,3) by (simp add: Accept_def delta_def Let_def)
  then show "fst (Accept rw c)" by simp
  have sum: "unat (Max A) + unat delta = unat c"
    using assms(3) by (simp add: delta_def unat_sub order_less_imp_le word_less_nat_alt)
  have max: "Max (insert c A) = c" using assms(2,3) by (simp add: Max_insert del: Max_less_iff)
  have init: "initialized (snd (Accept rw c))"
    using rel(2) assms(2) by (simp add: acc advanceLocked_def Let_def)
  have bit: "window_bit (bitmap (snd (Accept rw c))) d \<longleftrightarrow> (\<exists>a \<in> insert c A. unat a + d = unat c)"
    if d: "d < replayWindowBits" for d
  proof -
    have "window_bit (bitmap (snd (Accept rw c))) d \<longleftrightarrow>
        d = 0 \<or> unat delta \<le> d \<and> window_bit (bitmap rw) (d - unat delta)"
      using d rel(1) by (simp add: acc window_bit_markDelta window_bit_advance length_advance)
    also have "\<dots> \<longleftrightarrow> d = 0 \<or> unat delta \<le> d \<and> (\<exists>a \<in> A. unat a + (d - unat delta) = unat (Max A))"
      using rel(4) [of "d - unat delta"] d by auto
    also have "\<dots> \<longleftrightarrow> d = 0 \<or> (\<exists>a \<in> A. unat a + d = unat c)"
    proof -
      have le: "unat a \<le> unat (Max A)" if "a \<in> A" for a
        using that Max_ge [of A a] by (simp add: word_le_nat_alt)
      have "unat delta \<le> d \<and> unat a + (d - unat delta) = unat (Max A) \<longleftrightarrow> unat a + d = unat c"
        if "a \<in> A" for a using le [OF that] sum by linarith
      then show ?thesis by blast
    qed
    finally show ?thesis by auto
  qed
  show "window_rel (snd (Accept rw c)) (insert c A)"
    using rel(1) init bit by (intro window_relI) (auto simp: acc max length_advance)
qed

lemma Accept_below:
  assumes "window_rel rw A" "A \<noteq> {}" "c \<le> Max A"
  shows "fst (Accept rw c) \<longleftrightarrow> fresh_counter A c"
    "fresh_counter A c \<Longrightarrow> window_rel (snd (Accept rw c)) (insert c A)"
    "\<not> fresh_counter A c \<Longrightarrow> snd (Accept rw c) = rw"
proof -
  note rel = window_relD [OF assms(1)]
  define delta where "delta = Max A - c"
  have delta: "unat c + unat delta = unat (Max A)"
    using assms(3) by (simp add: delta_def unat_sub word_le_nat_alt)
  have fresh: "fresh_counter A c \<longleftrightarrow> unat delta < replayWindowBits \<and> c \<notin> A"
    using assms(2,3) delta leD [OF assms(3)]
    by (auto simp: fresh_counter_def simp del: Max_less_iff)
  have acc: "Accept rw c =
      (if replayWindowBits \<le> unat delta \<or> hasDeltaLocked rw delta then (False, rw)
       else (True, markDeltaLocked rw delta))"
    using rel(2,3) assms(2) leD [OF assms(3)]
    by (simp add: Accept_def delta_def Let_def of_nat_window_le del: Max_less_iff)
  have seen: "hasDeltaLocked rw delta \<longleftrightarrow> c \<in> A" if "unat delta < replayWindowBits"
  proof -
    have "unat a + unat delta = unat (Max A) \<longleftrightarrow> a = c" for a
      unfolding delta [symmetric] by (simp add: word_unat_eq_iff)
    with rel(4) [OF that] show ?thesis by (simp add: hasDelta_window_bit)
  qed
  show "fst (Accept rw c) \<longleftrightarrow> fresh_counter A c" "\<not> fresh_counter A c \<Longrightarrow> snd (Accept rw c) = rw"
    using seen by (auto simp: acc fresh)
  assume f: "fresh_counter A c"
  then have "Accept rw c = (True, markDeltaLocked rw delta)" using seen by (auto simp: acc fresh)
  moreover have "Max (insert c A) = Max A" using assms(2,3) by (simp add: max_def)
  moreover have "window_bit (bitmap (markDeltaLocked rw delta)) d \<longleftrightarrow>
      (\<exists>a \<in> insert c A. unat a + d = unat (Max A))" if "d < replayWindowBits" for d
    using that f rel(1) rel(4) [OF that] delta fresh by (auto simp: window_bit_markDelta)
  ultimately show "window_rel (snd (Accept rw c)) (insert c A)"
    using rel(1,2,3) assms(2) by (intro window_relI) auto
qed

lemma Accept_refines:
  assumes "window_rel rw A"
  shows "fst (Accept rw c) \<longleftrightarrow> fresh_counter A c"
    "fresh_counter A c \<Longrightarrow> window_rel (snd (Accept rw c)) (insert c A)"
    "\<not> fresh_counter A c \<Longrightarrow> snd (Accept rw c) = rw"
proof -
  consider "A = {}" | "A \<noteq> {}" "Max A < c" | "A \<noteq> {}" "c \<le> Max A" by fastforce
  then have "(fst (Accept rw c) \<longleftrightarrow> fresh_counter A c) \<and>
      (fresh_counter A c \<longrightarrow> window_rel (snd (Accept rw c)) (insert c A)) \<and>
      (\<not> fresh_counter A c \<longrightarrow> snd (Accept rw c) = rw)"
  proof cases
    case 1
    with assms Accept_first [of rw c] show ?thesis by (simp add: fresh_counter_def)
  next
    case 2
    with assms Accept_above [of rw A c] show ?thesis by (simp add: fresh_counter_def)
  next
    case 3
    with assms Accept_below [of rw A c] show ?thesis by simp
  qed
  then show "fst (Accept rw c) \<longleftrightarrow> fresh_counter A c"
    "fresh_counter A c \<Longrightarrow> window_rel (snd (Accept rw c)) (insert c A)"
    "\<not> fresh_counter A c \<Longrightarrow> snd (Accept rw c) = rw" by blast+
qed

lemma fresh_counter_new: "fresh_counter A c \<Longrightarrow> c \<notin> A"
  using Max_ge [of A c] by (auto simp: fresh_counter_def simp del: Max_less_iff Max_ge)

interpretation rw: replay_filter NewReplayWindow Accept window_rel fresh_counter
  by unfold_locales (simp_all add: window_rel_new Accept_refines fresh_counter_new)

subsection \<open>Properties\<close>

text \<open>
  C1. Over any sequence of received counters, starting from a new window, no counter is
  accepted twice, whatever order the counters arrive in and however far the window moves.
\<close>

theorem replay_never_accepts_twice:
  "distinct (fst (filter_run Accept NewReplayWindow cs))"
  using rw.run_distinct [OF rw.rel_init] by blast

text \<open>
  C3. After any sequence of counters, the 2048-bit window answers exactly as the abstract
  filter over the whole set of accepted counters: a counter is accepted iff none was
  accepted before, or it is above all accepted ones, or it lies fewer than 2048 below the
  highest accepted one and was not accepted.
\<close>

theorem Accept_refines_abstract_filter:
  "fst (Accept (snd (filter_run Accept NewReplayWindow cs)) c) \<longleftrightarrow>
     fresh_counter (set (fst (filter_run Accept NewReplayWindow cs))) c"
  by (rule rw.run_accepts_iff)

text \<open>
  C33. \<open>advanceLocked\<close> moves the whole bitmap up by \<open>delta\<close> as one 2048-bit shift: bit \<open>d\<close>
  of the result is bit \<open>d - delta\<close> of the argument, the bits below \<open>delta\<close> are clear, and
  bits shifted past the end are dropped, although the source works in place, word by word.
\<close>

theorem advanceLocked_is_bitmap_shift:
  assumes "length (bitmap rw) = replayWindowWords" "d < replayWindowBits"
  shows "window_bit (bitmap (advanceLocked rw delta)) d \<longleftrightarrow>
           unat delta \<le> d \<and> window_bit (bitmap rw) (d - unat delta)"
  using assms by (rule window_bit_advance)

theorem advanceLocked_is_bitmap_shift_witness:
  "length (bitmap (markDeltaLocked NewReplayWindow 5)) = replayWindowWords \<and>
   (window_bit (bitmap (advanceLocked (markDeltaLocked NewReplayWindow 5) 70)) 75 \<longleftrightarrow>
      unat (70 :: u64) \<le> 75 \<and> window_bit (bitmap (markDeltaLocked NewReplayWindow 5)) (75 - unat (70 :: u64)))"
proof -
  have len: "length (bitmap (markDeltaLocked NewReplayWindow 5)) = replayWindowWords"
    by (simp add: NewReplayWindow_def)
  have d: "(75::nat) < replayWindowBits" by (simp add: replayWindowBits_def)
  show ?thesis using len advanceLocked_is_bitmap_shift [OF len d, of 70] by blast
qed

end
