(* ===== verification/GoNet.thy ===== *)
theory GoNet
  imports Prelude
begin

text \<open>
  The parts of Go's standard package \<open>net\<close> (with \<open>net/netip\<close> below it) that the program
  calls: textual IPv4 and IPv6 addresses, CIDR prefixes, address classes and host:port
  pairs. A non-nil 16-byte \<open>net.IP\<close> is a 128-bit word; an IPv4 address is the mapped form
  \<open>::ffff:a.b.c.d\<close>, exactly as in Go, where \<open>net.ParseIP\<close> returns the same value for
  \<open>1.2.3.4\<close> and \<open>::ffff:1.2.3.4\<close>. The error values of these functions are never inspected
  by the program beyond being non-nil, so they are \<open>None\<close>.
\<close>

type_synonym IP = "128 word"

subsection \<open>Addresses\<close>

definition of_v4 :: "u32 \<Rightarrow> IP" where
  "of_v4 a = push_bit 32 0xFFFF OR ucast a"

definition To4 :: "IP \<Rightarrow> u32 option" where
  "To4 ip = (if drop_bit 32 ip = 0xFFFF then Some (ucast ip) else None)"

definition octet :: "u32 \<Rightarrow> nat \<Rightarrow> nat" where
  "octet a i = unat (drop_bit (8 * (3 - i)) a AND 0xFF)"

definition group16 :: "IP \<Rightarrow> nat \<Rightarrow> nat" where
  "group16 ip i = unat (drop_bit (16 * (7 - i)) ip AND 0xFFFF)"

definition IsLoopback :: "IP \<Rightarrow> bool" where
  "IsLoopback ip = (case To4 ip of Some a \<Rightarrow> octet a 0 = 127 | None \<Rightarrow> ip = 1)"

definition IsPrivate :: "IP \<Rightarrow> bool" where
  "IsPrivate ip =
     (case To4 ip of
        Some a \<Rightarrow> octet a 0 = 10 \<or> (octet a 0 = 172 \<and> octet a 1 div 16 = 1) \<or> (octet a 0 = 192 \<and> octet a 1 = 168)
      | None \<Rightarrow> drop_bit 121 ip = 0x7E)"

definition IsUnspecified :: "IP \<Rightarrow> bool" where
  "IsUnspecified ip \<longleftrightarrow> ip = of_v4 0 \<or> ip = 0"

definition IsMulticast :: "IP \<Rightarrow> bool" where
  "IsMulticast ip = (case To4 ip of Some a \<Rightarrow> octet a 0 div 16 = 14 | None \<Rightarrow> drop_bit 120 ip = 0xFF)"

subsection \<open>Printing\<close>

definition IPv4_String :: "u32 \<Rightarrow> string" where
  "IPv4_String a =
     nat_digits (octet a 0) @ ''.'' @ nat_digits (octet a 1) @ ''.'' @
     nat_digits (octet a 2) @ ''.'' @ nat_digits (octet a 3)"

definition hex_char :: "nat \<Rightarrow> char" where
  "hex_char d = (if d < 10 then char_of (48 + d) else char_of (87 + d))"

fun hex_digits :: "nat \<Rightarrow> string" where
  "hex_digits n = (if n < 16 then [hex_char n] else hex_digits (n div 16) @ [hex_char (n mod 16)])"

declare hex_digits.simps [simp del]

text \<open>
  The run of zero groups an IPv6 address shows as a double colon: the first longest run of
  at least two; \<open>best\<close> is its start and end.
\<close>

fun zero_run :: "nat list \<Rightarrow> nat \<Rightarrow> nat \<times> nat \<Rightarrow> nat \<times> nat" where
  "zero_run [] i best = best"
| "zero_run (g # gs) i (s, e) =
     (let l = length (takeWhile (\<lambda>x. x = 0) (g # gs))
      in zero_run gs (i + 1) (if 2 \<le> l \<and> e - s < l then (i, i + l) else (s, e)))"

fun print_groups :: "nat list \<Rightarrow> bool \<Rightarrow> string" where
  "print_groups [] sep = []"
| "print_groups (g # gs) sep = (if sep then '':'' else []) @ hex_digits g @ print_groups gs True"

definition IPv6_String :: "IP \<Rightarrow> string" where
  "IPv6_String ip =
     (let gs = map (group16 ip) [0..<8];
          (s, e) = zero_run gs 0 (0, 0)
      in if s = e then print_groups gs False
         else print_groups (take s gs) False @ ''::'' @ print_groups (drop e gs) False)"

definition IP_String :: "IP \<Rightarrow> string" where
  "IP_String ip = (case To4 ip of Some a \<Rightarrow> IPv4_String a | None \<Rightarrow> IPv6_String ip)"

subsection \<open>Parsing\<close>

text \<open>
  The loop of \<open>parseIPv4Fields\<close>: \<open>dot\<close> holds at the start and after a dot, \<open>fs\<close> are the
  finished fields, \<open>v\<close> and \<open>n\<close> the value and the digit count of the current one.
\<close>

fun parse4_loop :: "string \<Rightarrow> bool \<Rightarrow> nat list \<Rightarrow> nat \<Rightarrow> nat \<Rightarrow> nat list option" where
  "parse4_loop [] dot fs v n = (if length fs < 3 then None else Some (fs @ [v]))"
| "parse4_loop (c # s) dot fs v n =
     (if is_digit c then
        (if n = 1 \<and> v = 0 then None
         else if 255 < 10 * v + digit_val c then None
         else parse4_loop s False fs (10 * v + digit_val c) (n + 1))
      else if c = CHR ''.'' then
        (if dot \<or> s = [] then None
         else if length fs = 3 then None
         else parse4_loop s True (fs @ [v]) 0 0)
      else None)"

definition v4_of_fields :: "nat list \<Rightarrow> u32" where
  "v4_of_fields fs = fold (\<lambda>b a. push_bit 8 a OR of_nat b) fs 0"

definition parseIPv4 :: "string \<Rightarrow> u32 option" where
  "parseIPv4 s = map_option v4_of_fields (parse4_loop s True [] 0 0)"

definition is_hex :: "char \<Rightarrow> bool" where
  "is_hex c \<longleftrightarrow> is_digit c \<or> (97 \<le> (of_char c :: nat) \<and> (of_char c :: nat) \<le> 102) \<or> (65 \<le> (of_char c :: nat) \<and> (of_char c :: nat) \<le> 70)"

definition hex_digit_val :: "char \<Rightarrow> nat" where
  "hex_digit_val c = (if is_digit c then digit_val c else if (97::nat) \<le> of_char c then of_char c - 87 else of_char c - 55)"

definition hex_val :: "string \<Rightarrow> nat" where
  "hex_val s = fold (\<lambda>c a. 16 * a + hex_digit_val c) s 0"

text \<open>
  The loop of \<open>netip.parseIPv6\<close>: \<open>gs\<close> are the 16-bit groups read so far, \<open>el\<close> the position
  of the double colon, and the first argument counts the groups that still fit.
\<close>

fun parse6_loop :: "nat \<Rightarrow> nat list \<Rightarrow> nat option \<Rightarrow> string \<Rightarrow> (nat list \<times> nat option \<times> string) option" where
  "parse6_loop 0 gs el s = Some (gs, el, s)"
| "parse6_loop (Suc n) gs el s =
     (let hs = takeWhile is_hex s; rest = dropWhile is_hex s; gs' = gs @ [hex_val hs]
      in if hs = [] \<or> 4 < length hs then None
         else if rest = [] then Some (gs', el, [])
         else if hd rest = CHR ''.'' then
           (if (el = None \<and> length gs \<noteq> 6) \<or> 6 < length gs then None
            else (case parse4_loop s True [] 0 0 of
                    Some [a, b, c, d] \<Rightarrow> Some (gs @ [256 * a + b, 256 * c + d], el, [])
                  | _ \<Rightarrow> None))
         else if hd rest \<noteq> CHR '':'' \<or> length rest = 1 then None
         else if hd (tl rest) = CHR '':'' then
           (if el \<noteq> None then None
            else if tl (tl rest) = [] then Some (gs', Some (length gs'), [])
            else parse6_loop n gs' (Some (length gs')) (tl (tl rest)))
         else parse6_loop n gs' el (tl rest))"

definition ip_of_groups :: "nat list \<Rightarrow> IP" where
  "ip_of_groups gs = fold (\<lambda>g a. push_bit 16 a OR of_nat g) gs 0"

definition parseIPv6 :: "string \<Rightarrow> IP option" where
  "parseIPv6 s =
     (if CHR ''%'' \<in> set s then None
      else if s = ''::'' then Some 0
      else
        let lead = HasPrefix s ''::'';
            r = parse6_loop 8 [] (if lead then Some 0 else None) (if lead then drop 2 s else s)
        in case r of
             None \<Rightarrow> None
           | Some (gs, el, rest) \<Rightarrow>
               if rest \<noteq> [] then None
               else (case el of
                       None \<Rightarrow> if length gs < 8 then None else Some (ip_of_groups gs)
                     | Some e \<Rightarrow> if length gs < 8
                                 then Some (ip_of_groups (take e gs @ replicate (8 - length gs) 0 @ drop e gs))
                                 else None))"

text \<open>
  \<open>netip.ParseAddr\<close> decides by the first dot, colon or percent sign. Its result is an IPv4
  or an IPv6 address: the two differ in \<open>BitLen\<close>. An address with a zone is refused by
  both callers of the package \<open>net\<close>, so it is \<open>None\<close> here.
\<close>

datatype Addr = Addr4 u32 | Addr6 IP

definition ParseAddr :: "string \<Rightarrow> Addr option" where
  "ParseAddr s =
     (case find (\<lambda>c. c = CHR ''.'' \<or> c = CHR '':'' \<or> c = CHR ''%'') s of
        Some c \<Rightarrow> if c = CHR ''.'' then map_option Addr4 (parseIPv4 s)
                  else if c = CHR '':'' then map_option Addr6 (parseIPv6 s)
                  else None
      | None \<Rightarrow> None)"

fun As16 :: "Addr \<Rightarrow> IP" where
  "As16 (Addr4 a) = of_v4 a"
| "As16 (Addr6 ip) = ip"

definition ParseIP :: "string \<Rightarrow> IP option" where
  "ParseIP s = map_option As16 (ParseAddr s)"

subsection \<open>CIDR prefixes\<close>

datatype IPNet = IPNet4 u32 u32 | IPNet6 IP IP

definition CIDRMask32 :: "nat \<Rightarrow> u32" where
  "CIDRMask32 n = NOT (mask (32 - n))"

definition CIDRMask128 :: "nat \<Rightarrow> IP" where
  "CIDRMask128 n = NOT (mask (128 - n))"

definition ParseCIDR :: "string \<Rightarrow> (IP \<times> IPNet) option" where
  "ParseCIDR s =
     (let addr = takeWhile (\<lambda>c. c \<noteq> CHR ''/'') s; rest = dropWhile (\<lambda>c. c \<noteq> CHR ''/'') s; m = tl rest
      in if rest = [] \<or> m = [] \<or> \<not> list_all is_digit m then None
         else (case ParseAddr addr of
                 None \<Rightarrow> None
               | Some (Addr4 a) \<Rightarrow>
                   (let n = decimal_val m 0 in if 32 < n then None
                    else Some (of_v4 a, IPNet4 (a AND CIDRMask32 n) (CIDRMask32 n)))
               | Some (Addr6 ip) \<Rightarrow>
                   (let n = decimal_val m 0 in if 128 < n then None
                    else Some (ip, IPNet6 (ip AND CIDRMask128 n) (CIDRMask128 n)))))"

definition IPNet_Contains :: "IPNet \<Rightarrow> IP \<Rightarrow> bool" where
  "IPNet_Contains net ip =
     (case net of
        IPNet4 nn m \<Rightarrow> (case To4 ip of Some a \<Rightarrow> nn AND m = a AND m | None \<Rightarrow> False)
      | IPNet6 nn m \<Rightarrow>
          (case (To4 nn, To4 ip) of
             (Some n4, Some a) \<Rightarrow> n4 AND ucast m = a AND ucast m
           | (None, None) \<Rightarrow> nn AND m = ip AND m
           | _ \<Rightarrow> False))"

subsection \<open>Host and port\<close>

definition SplitHostPort :: "string \<Rightarrow> (string \<times> string) option" where
  "SplitHostPort hp =
     (let port = rev (takeWhile (\<lambda>c. c \<noteq> CHR '':'') (rev hp));
          i = length hp - length port - 1
      in if CHR '':'' \<notin> set hp then None
         else if hd hp = CHR ''['' then
           (let host = takeWhile (\<lambda>c. c \<noteq> CHR '']'') (tl hp); e = length host + 1
            in if CHR '']'' \<notin> set (tl hp) \<or> e + 1 \<noteq> i then None
               else if CHR ''['' \<in> set (tl hp) \<or> CHR '']'' \<in> set (drop (e + 1) hp) then None
               else Some (host, port))
         else
           (let host = take i hp
            in if CHR '':'' \<in> set host \<or> CHR ''['' \<in> set hp \<or> CHR '']'' \<in> set hp then None
               else Some (host, port)))"

definition JoinHostPort :: "string \<Rightarrow> string \<Rightarrow> string" where
  "JoinHostPort host port =
     (if CHR '':'' \<in> set host then ''['' @ host @ '']:'' @ port else host @ '':'' @ port)"

subsection \<open>Address lemmas\<close>

lemma v4_prefix: "(0xFFFF :: IP) = mask 16"
  by (simp add: mask_eq_exp_minus_1)

lemma bit_v4: "bit a n \<Longrightarrow> n < 32" for a :: u32
  using bit_imp_le_length [of a n] by simp

lemma bit_of_v4: "bit (of_v4 a) n \<longleftrightarrow> 32 \<le> n \<and> n < 48 \<or> bit a n"
proof -
  have "bit (of_v4 a) n \<longleftrightarrow> bit (push_bit 32 (mask 16 :: IP)) n \<or> bit (ucast a :: IP) n"
    by (simp only: of_v4_def v4_prefix bit_or_iff)
  also have "bit (push_bit 32 (mask 16 :: IP)) n \<longleftrightarrow> 32 \<le> n \<and> n < 48"
    by (auto simp only: bit_push_bit_iff bit_mask_iff possible_bit_word) auto
  also have "bit (ucast a :: IP) n \<longleftrightarrow> bit a n"
    by (auto simp: bit_ucast_iff dest: bit_v4)
  finally show ?thesis .
qed

lemma To4_of_v4 [simp]: "To4 (of_v4 a) = Some a"
proof -
  have "drop_bit 32 (of_v4 a) = (mask 16 :: IP)"
    by (rule bit_eqI) (auto simp: bit_drop_bit_eq bit_of_v4 bit_mask_iff simp del: mask_numeral dest: bit_v4)
  moreover have "(ucast (of_v4 a) :: u32) = a"
    by (rule bit_eqI) (auto simp: bit_ucast_iff bit_of_v4)
  ultimately show ?thesis by (simp add: To4_def v4_prefix)
qed

lemma of_nat_octet: "(of_nat (octet a i) :: u32) = take_bit 8 (drop_bit (8 * (3 - i)) a)"
  by (simp add: octet_def take_bit_eq_mask mask_eq_exp_minus_1)

lemma octet_bound: "octet a i < 256"
proof -
  have "drop_bit (8 * (3 - i)) a AND 0xFF = take_bit 8 (drop_bit (8 * (3 - i)) a)"
    by (simp add: take_bit_eq_mask mask_eq_exp_minus_1)
  then show ?thesis
    using take_bit_nat_less_exp [of 8 "unat (drop_bit (8 * (3 - i)) a)"]
    by (simp add: octet_def unsigned_take_bit_eq)
qed

lemma v4_of_octets: "v4_of_fields [octet a 0, octet a 1, octet a 2, octet a 3] = a"
proof (rule bit_eqI)
  fix n
  assume "possible_bit TYPE(u32) n"
  then consider "n < 8" | "8 \<le> n" "n < 16" | "16 \<le> n" "n < 24" | "24 \<le> n" "n < 32"
    by (force simp: possible_bit_word)
  then show "bit (v4_of_fields [octet a 0, octet a 1, octet a 2, octet a 3]) n = bit a n"
    by cases (auto simp: v4_of_fields_def of_nat_octet bit_simps)
qed

lemma not_digit_dot: "\<not> is_digit (CHR ''.'')"
  by (simp add: is_digit_def)

text \<open>The digits of one octet are read back as its value.\<close>

lemma parse4_octet:
  assumes "n < 256"
  shows "\<exists>k. parse4_loop (nat_digits n @ s) dot fs 0 0 = parse4_loop s False fs n k"
proof -
  consider "n < 10" | "10 \<le> n" "n < 100" | "100 \<le> n" by linarith
  then show ?thesis
  proof cases
    case 1
    then show ?thesis by (auto simp: nat_digits.simps [of n])
  next
    case 2
    then have "n div 10 < 10" "n div 10 \<noteq> 0" by auto
    with 2 have "nat_digits n = [digit_char (n div 10), digit_char (n mod 10)]"
      by (simp add: nat_digits.simps [of n] nat_digits.simps [of "n div 10"])
    with 2 \<open>n div 10 < 10\<close> \<open>n div 10 \<noteq> 0\<close> show ?thesis by auto
  next
    case 3
    have d: "n div 100 < 10" "n div 100 \<noteq> 0" using 3 assms by auto
    have d10: "n div 10 div 10 = n div 100" by (simp add: div_mult2_eq [symmetric])
    have d100: "10 * (n div 100) + n div 10 mod 10 = n div 10"
      by (simp add: d10 [symmetric])
    have "nat_digits n = [digit_char (n div 100), digit_char (n div 10 mod 10), digit_char (n mod 10)]"
      using 3 d(1) by (simp add: nat_digits.simps [of n] nat_digits.simps [of "n div 10"] nat_digits.simps [of "n div 100"] d10)
    moreover have "n div 10 < 256" "10 \<le> n div 10" using assms 3 by auto
    ultimately show ?thesis using assms d d100 by auto
  qed
qed

lemma parse4_dot:
  "s \<noteq> [] \<Longrightarrow> length fs < 3 \<Longrightarrow>
   parse4_loop (CHR ''.'' # s) False fs v k = parse4_loop s True (fs @ [v]) 0 0"
  by (simp add: not_digit_dot)

lemma parse4_IPv4_String:
  "parse4_loop (IPv4_String a) True [] 0 0 = Some [octet a 0, octet a 1, octet a 2, octet a 3]"
proof -
  have step: "parse4_loop (nat_digits (octet a i) @ CHR ''.'' # s) True fs 0 0 =
      parse4_loop s True (fs @ [octet a i]) 0 0"
    if "s \<noteq> []" "length fs < 3" for i fs s
    using parse4_octet [OF octet_bound, of a i "CHR ''.'' # s" True fs] parse4_dot [OF that] by auto
  obtain k where k: "parse4_loop (nat_digits (octet a 3) @ []) True [octet a 0, octet a 1, octet a 2] 0 0 =
      parse4_loop [] False [octet a 0, octet a 1, octet a 2] (octet a 3) k"
    using parse4_octet [OF octet_bound] by blast
  show ?thesis using k by (simp add: IPv4_String_def step)
qed

lemma find_dot_digits: "list_all is_digit ds \<Longrightarrow>
   find (\<lambda>c. c = CHR ''.'' \<or> c = CHR '':'' \<or> c = CHR ''%'') (ds @ CHR ''.'' # s) = Some (CHR ''.'')"
  by (induction ds) (auto simp: is_digit_def)

lemma ParseAddr_IPv4_String [simp]: "ParseAddr (IPv4_String a) = Some (Addr4 a)"
proof -
  have "find (\<lambda>c. c = CHR ''.'' \<or> c = CHR '':'' \<or> c = CHR ''%'') (IPv4_String a) = Some (CHR ''.'')"
    by (simp add: IPv4_String_def find_dot_digits nat_digits_all_digits)
  then show ?thesis
    by (simp add: ParseAddr_def parseIPv4_def parse4_IPv4_String v4_of_octets [simplified])
qed

lemma ParseIP_IPv4_String [simp]: "ParseIP (IPv4_String a) = Some (of_v4 a)"
  by (simp add: ParseIP_def)

lemma IP_String_of_v4 [simp]: "IP_String (of_v4 a) = IPv4_String a"
  by (simp add: IP_String_def)

lemma IPv4_String_inject [simp]: "IPv4_String a = IPv4_String b \<longleftrightarrow> a = b"
  by (metis Addr.inject(1) ParseAddr_IPv4_String option.inject)

lemma IPv4_String_chars: "c \<in> set (IPv4_String a) \<Longrightarrow> is_digit c \<or> c = CHR ''.''"
  using nat_digits_all_digits by (auto simp: IPv4_String_def list_all_iff)

lemma IPv4_String_nonempty [simp]: "IPv4_String a \<noteq> []"
  by (simp add: IPv4_String_def)

lemma digit_or_dot_not_space:
  assumes "is_digit c \<or> c = CHR ''.'' \<or> c = CHR ''/''"
  shows "c \<notin> set space_heads" "c \<notin> set space_lasts"
proof -
  have "(of_char c :: nat) \<in> {46..57}" using assms by (auto simp: is_digit_def)
  moreover have "\<forall>x \<in> set space_heads. (of_char x :: nat) \<notin> {46..57}" by (simp add: space_heads_def)
  moreover have "\<forall>x \<in> set space_lasts. (of_char x :: nat) \<notin> {46..57}"
    by (simp add: space_lasts_def space_runes_def)
  ultimately show "c \<notin> set space_heads" "c \<notin> set space_lasts" by blast+
qed

lemma TrimSpace_digits_dots:
  assumes "s \<noteq> []" "\<And>c. c \<in> set s \<Longrightarrow> is_digit c \<or> c = CHR ''.'' \<or> c = CHR ''/''"
  shows "TrimSpace s = s"
  using assms digit_or_dot_not_space by (intro TrimSpace_id) simp_all

lemma TrimSpace_IPv4_String [simp]: "TrimSpace (IPv4_String a) = IPv4_String a"
  using IPv4_String_chars by (intro TrimSpace_digits_dots) auto

lemma ParseIP_with_slash: "CHR ''/'' \<in> set s \<Longrightarrow> parse4_loop s d fs v n = None"
proof (induction s d fs v n rule: parse4_loop.induct)
  case (2 c s dot fs v n)
  then show ?case using is_digit_neq_sign by (auto split: if_splits)
qed simp

lemma ParseCIDR_IPv4:
  assumes "n \<le> 32"
  shows "ParseCIDR (IPv4_String a @ ''/'' @ nat_digits n) =
           Some (of_v4 a, IPNet4 (a AND CIDRMask32 n) (CIDRMask32 n))"
proof -
  have "\<forall>c \<in> set (IPv4_String a). c \<noteq> CHR ''/''"
    using IPv4_String_chars is_digit_neq_sign by fastforce
  then have "takeWhile (\<lambda>c. c \<noteq> CHR ''/'') (IPv4_String a @ ''/'' @ nat_digits n) = IPv4_String a"
    "dropWhile (\<lambda>c. c \<noteq> CHR ''/'') (IPv4_String a @ ''/'' @ nat_digits n) = CHR ''/'' # nat_digits n"
    by (simp_all add: takeWhile_append dropWhile_append)
  with assms show ?thesis
    by (simp add: ParseCIDR_def Let_def nat_digits_all_digits decimal_val_nat_digits)
qed

end
