(* ===== verification/GoUrl.thy ===== *)
theory GoUrl
  imports GoNet
begin

text \<open>
  The parts of Go's standard package \<open>net/url\<close> the program calls: the host of a parsed URL
  (\<open>url.Parse\<close> with \<open>URL.Host\<close> and \<open>URL.Hostname\<close>) and the escaping of path segments and query
  values. A parse error is \<open>None\<close>: the callers only test it for nil.
\<close>

subsection \<open>String functions of the parser\<close>

text \<open>\<open>strings.Cut\<close> at a one-byte separator: the parts around its first occurrence.\<close>

definition Cut :: "string \<Rightarrow> char \<Rightarrow> string \<times> string \<times> bool" where
  "Cut s sep =
     (if sep \<in> set s then (takeWhile (\<lambda>c. c \<noteq> sep) s, tl (dropWhile (\<lambda>c. c \<noteq> sep) s), True) else (s, [], False))"

definition count_char :: "char \<Rightarrow> string \<Rightarrow> nat" where
  "count_char c s = length (filter (\<lambda>d. d = c) s)"

text \<open>The parts before and after the last occurrence of a byte.\<close>

definition before_last :: "char \<Rightarrow> string \<Rightarrow> string" where
  "before_last c s = rev (tl (dropWhile (\<lambda>d. d \<noteq> c) (rev s)))"

definition after_last :: "char \<Rightarrow> string \<Rightarrow> string" where
  "after_last c s = rev (takeWhile (\<lambda>d. d \<noteq> c) (rev s))"

definition is_alpha :: "char \<Rightarrow> bool" where
  "is_alpha c = (let n = (of_char c :: nat) in 65 \<le> n \<and> n \<le> 90 \<or> 97 \<le> n \<and> n \<le> 122)"

definition is_alnum :: "char \<Rightarrow> bool" where
  "is_alnum c \<longleftrightarrow> is_alpha c \<or> is_digit c"

definition is_ctl :: "char \<Rightarrow> bool" where
  "is_ctl c = (let n = (of_char c :: nat) in n < 32 \<or> n = 127)"

subsection \<open>Percent-encoding\<close>

text \<open>Every percent sign is followed by two hexadecimal digits.\<close>

fun escapes_ok :: "string \<Rightarrow> bool" where
  "escapes_ok (c # s) =
     (if c = CHR ''%'' then (case s of a # b # r \<Rightarrow> is_hex a \<and> is_hex b \<and> escapes_ok r | _ \<Rightarrow> False)
      else escapes_ok s)"
| "escapes_ok [] = True"

text \<open>
  \<open>unescape\<close> in the mode of hosts: an escape must encode a non-ASCII byte, or be \<open>%25\<close>; an
  unescaped ASCII byte must be allowed in hosts.
\<close>

definition host_char :: "char \<Rightarrow> bool" where
  "host_char c \<longleftrightarrow> 128 \<le> (of_char c :: nat) \<or> is_alnum c \<or> c \<in> set (''-_.~!$&()*+,;=:[]<>'' @ [CHR 0x27, CHR 0x22])"

fun unescape_host :: "string \<Rightarrow> string option" where
  "unescape_host [] = Some []"
| "unescape_host (c # s) =
     (if c = CHR ''%'' then
        (case s of
           a # b # r \<Rightarrow>
             if \<not> is_hex a \<or> \<not> is_hex b \<or> (hex_digit_val a < 8 \<and> [a, b] \<noteq> ''25'') then None
             else map_option (\<lambda>t. char_of (16 * hex_digit_val a + hex_digit_val b) # t) (unescape_host r)
         | _ \<Rightarrow> None)
      else if host_char c then map_option (\<lambda>t. c # t) (unescape_host s)
      else None)"

subsection \<open>Parsing\<close>

text \<open>\<open>getScheme\<close>: \<open>None\<close> is the missing scheme before a colon; otherwise the scheme and the rest.\<close>

fun scheme_loop :: "string \<Rightarrow> string \<Rightarrow> (string \<times> string) option" where
  "scheme_loop acc [] = Some ([], rev acc)"
| "scheme_loop acc (c # s) =
     (if is_alpha c then scheme_loop (c # acc) s
      else if is_digit c \<or> c \<in> set ''+-.'' then (if acc = [] then Some ([], c # s) else scheme_loop (c # acc) s)
      else if c = CHR '':'' then (if acc = [] then None else Some (rev acc, s))
      else Some ([], rev acc @ c # s))"

definition validOptionalPort :: "string \<Rightarrow> bool" where
  "validOptionalPort port \<longleftrightarrow> port = [] \<or> (hd port = CHR '':'' \<and> list_all is_digit (tl port))"

text \<open>
  \<open>parseHost\<close>; the zone of a bracketed IPv6 literal follows an escaped percent sign and may hold
  any escapes, which this model keeps to \<open>%25\<close> and non-ASCII bytes.
\<close>

definition parseHost :: "string \<Rightarrow> string option" where
  "parseHost host =
     (let colonPort =
            (if HasPrefix host ''['' then (if CHR '']'' \<in> set host then Some (after_last (CHR '']'') host) else None)
             else if CHR '':'' \<in> set host then Some (CHR '':'' # after_last (CHR '':'') host) else Some [])
      in case colonPort of
           None \<Rightarrow> None
         | Some p \<Rightarrow> if validOptionalPort p then unescape_host host else None)"

definition validUserinfo :: "string \<Rightarrow> bool" where
  "validUserinfo s = list_all (\<lambda>c. is_alnum c \<or> c \<in> set (''-._:~!$&()*+,;=%@'' @ [CHR 0x27])) s"

definition parseAuthority :: "string \<Rightarrow> string option" where
  "parseAuthority authority =
     (if CHR ''@'' \<in> set authority
      then (case parseHost (after_last (CHR ''@'') authority) of
              None \<Rightarrow> None
            | Some h \<Rightarrow> (let info = before_last (CHR ''@'') authority
                        in if validUserinfo info \<and> escapes_ok info then Some h else None))
      else parseHost authority)"

text \<open>\<open>url.Parse(raw)\<close> and the \<open>Host\<close> of its result, empty for a URL without an authority.\<close>

definition parse_rest :: "string \<Rightarrow> string \<Rightarrow> string option" where
  "parse_rest scheme rest =
     (if \<not> HasPrefix rest ''/'' \<and> scheme \<noteq> [] then Some []
      else if \<not> HasPrefix rest ''/'' \<and> CHR '':'' \<in> set (fst (Cut rest (CHR ''/''))) then None
      else if (scheme \<noteq> [] \<or> \<not> HasPrefix rest ''///'') \<and> HasPrefix rest ''//'' then
        (let auth = takeWhile (\<lambda>c. c \<noteq> CHR ''/'') (drop 2 rest);
             path = dropWhile (\<lambda>c. c \<noteq> CHR ''/'') (drop 2 rest)
         in case parseAuthority auth of None \<Rightarrow> None | Some h \<Rightarrow> if escapes_ok path then Some h else None)
      else if escapes_ok rest then Some [] else None)"

definition url_Host :: "string \<Rightarrow> string option" where
  "url_Host rawURL =
     (let (u, frag, hasFrag) = Cut rawURL (CHR ''#'')
      in if list_ex is_ctl u then None
         else if u = ''*'' then (if escapes_ok frag then Some [] else None)
         else case scheme_loop [] u of
                None \<Rightarrow> None
              | Some (scheme, rest) \<Rightarrow>
                  (case parse_rest scheme (fst (Cut rest (CHR ''?''))) of
                     None \<Rightarrow> None
                   | Some h \<Rightarrow> if escapes_ok frag then Some h else None))"

text \<open>\<open>URL.Hostname\<close>: the host without its port and brackets.\<close>

definition url_Hostname :: "string \<Rightarrow> string" where
  "url_Hostname hostPort =
     (let host = (if CHR '':'' \<in> set hostPort \<and> validOptionalPort (CHR '':'' # after_last (CHR '':'') hostPort)
                  then before_last (CHR '':'') hostPort else hostPort)
      in if HasPrefix host ''['' \<and> last host = CHR '']'' \<and> 2 \<le> length host then butlast (tl host) else host)"

subsection \<open>Escaping\<close>

definition upper_hex :: "nat \<Rightarrow> char" where
  "upper_hex d = (if d < 10 then char_of (48 + d) else char_of (55 + d))"

definition escape_byte :: "char \<Rightarrow> string" where
  "escape_byte c = (let n = (of_char c :: nat) in [CHR ''%'', upper_hex (n div 16), upper_hex (n mod 16)])"

definition unreserved :: "char \<Rightarrow> bool" where
  "unreserved c \<longleftrightarrow> is_alnum c \<or> c \<in> set ''-_.~''"

definition PathEscape :: "string \<Rightarrow> string" where
  "PathEscape s = concat (map (\<lambda>c. if unreserved c \<or> c \<in> set ''$&+=:@'' then [c] else escape_byte c) s)"

definition QueryEscape :: "string \<Rightarrow> string" where
  "QueryEscape s = concat (map (\<lambda>c. if c = CHR '' '' then ''+'' else if unreserved c then [c] else escape_byte c) s)"

lemma PathEscape_no_slash: "CHR ''/'' \<notin> set (PathEscape s)"
proof -
  have "CHR ''/'' \<notin> set (if unreserved c \<or> c \<in> set ''$&+=:@'' then [c] else escape_byte c)" for c
  proof (cases "unreserved c \<or> c \<in> set ''$&+=:@''")
    case True
    then show ?thesis by (auto simp: unreserved_def is_alnum_def is_alpha_def is_digit_def)
  next
    case False
    have hx: "CHR ''/'' \<noteq> upper_hex d" if "d < 16" for d
    proof
      assume "CHR ''/'' = upper_hex d"
      then have "(of_char (upper_hex d) :: nat) = of_char (CHR ''/'')" by simp
      with that show False by (simp add: upper_hex_def split: if_splits)
    qed
    have "(of_char c :: nat) div 16 < 16"
      by (rule less_mult_imp_div_less) (use nat_of_char_less_256 [of c] in simp)
    then show ?thesis
      using False hx [of "of_char c div 16"] hx [of "of_char c mod 16"] by (simp add: escape_byte_def Let_def)
  qed
  then show ?thesis unfolding PathEscape_def set_concat set_map by blast
qed

end
