(* ===== verification/Netutil.thy ===== *)
theory Netutil
  imports GoNet "HOL-Library.List_Lexorder"
begin

text \<open>
  Address utilities: \<open>pkg/netutil/ip.go\<close> (virtual address allocation, local address
  discovery), \<open>server/internal/coordinator/ip_allocator.go\<close> and the two normalisers of
  stored virtual addresses (\<open>queries.normalizeHostIPv4\<close>, \<open>api.normalizePeerVirtualIPv4\<close>).
  Addresses are 32-bit words with the wrap-around of \<open>uint32\<close>. The locale \<open>ip_allocator\<close>
  states what the HTTP handlers rely on.
\<close>

subsection \<open>pkg/netutil: conversions\<close>

definition ipToUint32 :: "IP \<Rightarrow> u32" where
  "ipToUint32 ip =
     (case To4 ip of
        None \<Rightarrow> 0
      | Some v \<Rightarrow> push_bit 24 (of_nat (octet v 0)) OR push_bit 16 (of_nat (octet v 1)) OR
                  push_bit 8 (of_nat (octet v 2)) OR of_nat (octet v 3))"

text \<open>\<open>net.IPv4\<close> builds the 16-byte form from four bytes.\<close>

definition uint32ToIP :: "u32 \<Rightarrow> IP" where
  "uint32ToIP v = of_v4 (v4_of_fields [octet v 0, octet v 1, octet v 2, octet v 3])"

text \<open>Byte \<open>i\<close> of a 16-byte \<open>net.IP\<close>.\<close>

definition ip_byte :: "IP \<Rightarrow> nat \<Rightarrow> nat" where
  "ip_byte ip i = unat (drop_bit (8 * (15 - i)) ip AND 0xFF)"

text \<open>\<open>maskToUint32\<close> gives 0 for a mask that is not four bytes long.\<close>

definition maskToUint32 :: "IPNet \<Rightarrow> u32" where
  "maskToUint32 ipnet = (case ipnet of IPNet4 _ m \<Rightarrow> m | IPNet6 _ _ \<Rightarrow> 0)"

lemma unat_plus_one: "unat a < unat b \<Longrightarrow> unat (a + 1) = Suc (unat a)" for a b :: u32
proof -
  assume "unat a < unat b"
  moreover have "unat b < 2 ^ LENGTH(32)" by (rule unsigned_less)
  ultimately show ?thesis by (simp add: unat_word_ariths)
qed

subsection \<open>pkg/netutil: AllocateIP\<close>

definition used_list :: "string list \<Rightarrow> u32 list" where
  "used_list existing =
     concat (map (\<lambda>raw. case ParseIP raw of
                          None \<Rightarrow> []
                        | Some ip \<Rightarrow> (case To4 ip of None \<Rightarrow> [] | Some _ \<Rightarrow> [ipToUint32 ip])) existing)"

function allocate_loop :: "IPNet \<Rightarrow> u32 list \<Rightarrow> u32 \<Rightarrow> u32 \<Rightarrow> string" where
  "allocate_loop ipnet used broadcast candidate =
     (if candidate < broadcast then
        (let ip = uint32ToIP candidate
         in if ip_byte ip 3 = 255 then allocate_loop ipnet used broadcast (candidate + 1)
            else if candidate \<in> set used then allocate_loop ipnet used broadcast (candidate + 1)
            else if \<not> IPNet_Contains ipnet ip then allocate_loop ipnet used broadcast (candidate + 1)
            else IP_String ip)
      else [])"
  by pat_completeness auto
termination
  by (relation "measure (\<lambda>(ipnet, used, broadcast, candidate). unat broadcast - unat candidate)")
     (auto simp: word_less_nat_alt unat_plus_one)

declare allocate_loop.simps [simp del]

definition AllocateIP :: "string \<Rightarrow> string list \<Rightarrow> string" where
  "AllocateIP cidr existing =
     (case ParseCIDR cidr of
        None \<Rightarrow> []
      | Some (_, ipnet) \<Rightarrow>
          (case (case ipnet of IPNet4 nw _ \<Rightarrow> Some nw | IPNet6 nw _ \<Rightarrow> To4 nw) of
             None \<Rightarrow> []
           | Some networkIP \<Rightarrow>
               let m = maskToUint32 ipnet
               in if m = 0 then []
                  else
                    let network = networkIP AND m;
                        broadcast = network OR NOT m
                    in if broadcast \<le> network + 2 then []
                       else allocate_loop ipnet (used_list existing) broadcast (network + 2)))"

text \<open>\<open>coordinator.AllocateIP\<close> turns the empty string into an error.\<close>

datatype alloc_error = NoAvailableAddresses string

definition coordinator_AllocateIP :: "string \<Rightarrow> string list \<Rightarrow> alloc_error + string" where
  "coordinator_AllocateIP networkCIDR usedIPs =
     (let allocated = AllocateIP networkCIDR usedIPs
      in if allocated = [] then Inl (NoAvailableAddresses networkCIDR) else Inr allocated)"

subsection \<open>pkg/netutil: address classes and local addresses\<close>

definition IsPrivateIP :: "string \<Rightarrow> bool" where
  "IsPrivateIP ip = (case ParseIP ip of None \<Rightarrow> False | Some p \<Rightarrow> IsPrivate p \<or> IsLoopback p)"

definition isVirtualInterface :: "string \<Rightarrow> bool" where
  "isVirtualInterface name =
     (let lower = ToLower name
      in list_ex (\<lambda>p. HasPrefix lower p)
           [''zt'', ''tun'', ''tap'', ''wg'', ''qtun'', ''docker'', ''br-'', ''virbr'', ''veth'',
            ''vmnet'', ''vboxnet'', ''utun'', ''awdl'', ''llw'', ''ppp'', ''gpd'', ''pdp_ip''])"

text \<open>
  What \<open>net.Interfaces\<close> and \<open>Interface.Addrs\<close> return: the operating system's view, an
  argument of the functions that read it. \<open>None\<close> is the error result.
\<close>

datatype if_addr = IPNetAddr IP | IPAddr IP | OtherAddr

record net_interface =
  if_name :: string
  if_up :: bool
  if_loopback :: bool
  if_addrs :: "if_addr list option"

definition local_ip_of :: "if_addr \<Rightarrow> string option" where
  "local_ip_of addr =
     (case (case addr of IPNetAddr ip \<Rightarrow> Some ip | IPAddr ip \<Rightarrow> Some ip | OtherAddr \<Rightarrow> None) of
        None \<Rightarrow> None
      | Some ip \<Rightarrow>
          (case To4 ip of
             None \<Rightarrow> None
           | Some v \<Rightarrow> if octet v 0 = 169 \<and> octet v 1 = 254 then None else Some (IPv4_String v)))"

fun collect_addrs :: "if_addr list \<Rightarrow> string list \<Rightarrow> string list" where
  "collect_addrs [] ips = ips"
| "collect_addrs (addr # addrs) ips =
     (case local_ip_of addr of
        None \<Rightarrow> collect_addrs addrs ips
      | Some v \<Rightarrow> collect_addrs addrs (if v \<in> set ips then ips else ips @ [v]))"

fun collect_interfaces :: "net_interface list \<Rightarrow> string list \<Rightarrow> string list" where
  "collect_interfaces [] ips = ips"
| "collect_interfaces (iface # ifaces) ips =
     (if \<not> if_up iface then collect_interfaces ifaces ips
      else if if_loopback iface then collect_interfaces ifaces ips
      else if isVirtualInterface (if_name iface) then collect_interfaces ifaces ips
      else (case if_addrs iface of
              None \<Rightarrow> collect_interfaces ifaces ips
            | Some addrs \<Rightarrow> collect_interfaces ifaces (collect_addrs addrs ips)))"

definition GetLocalIPs :: "net_interface list option \<Rightarrow> string list" where
  "GetLocalIPs interfaces =
     (case interfaces of None \<Rightarrow> [] | Some ifaces \<Rightarrow> sort (collect_interfaces ifaces []))"

text \<open>\<open>dialed\<close> is the local address of the UDP socket, if dialing gave one.\<close>

definition GetOutboundIP :: "IP option \<Rightarrow> net_interface list option \<Rightarrow> string" where
  "GetOutboundIP dialed interfaces =
     (case Option.bind dialed To4 of
        Some v \<Rightarrow> IPv4_String v
      | None \<Rightarrow> (let local = GetLocalIPs interfaces in if local = [] then [] else hd local))"

subsection \<open>Normalisers of stored virtual addresses\<close>

definition normalizeHostIPv4 :: "string \<Rightarrow> string" where
  "normalizeHostIPv4 raw =
     (let trimmed = TrimSpace raw
      in if trimmed = [] then []
         else (case ParseIP trimmed of
                 Some ip \<Rightarrow> (case To4 ip of Some v \<Rightarrow> IPv4_String v | None \<Rightarrow> trimmed)
               | None \<Rightarrow>
                   (case ParseCIDR trimmed of
                      None \<Rightarrow> trimmed
                    | Some (ip, _) \<Rightarrow> (case To4 ip of Some v \<Rightarrow> IPv4_String v | None \<Rightarrow> trimmed))))"

definition normalizePeerVirtualIPv4 :: "string \<Rightarrow> string" where
  "normalizePeerVirtualIPv4 raw =
     (let trimmed = TrimSpace raw
      in if trimmed = [] then []
         else (case ParseIP trimmed of
                 Some ip \<Rightarrow> (case To4 ip of Some v \<Rightarrow> IPv4_String v | None \<Rightarrow> [])
               | None \<Rightarrow>
                   (case ParseCIDR trimmed of
                      None \<Rightarrow> []
                    | Some (ip, _) \<Rightarrow> (case To4 ip of Some v \<Rightarrow> IPv4_String v | None \<Rightarrow> []))))"

subsection \<open>The interface the handlers rely on\<close>

text \<open>
  \<open>addr\<close> reads an address back from its text; \<open>inside\<close> says that an address belongs to the
  prefix of a network.
\<close>

locale ip_allocator =
  fixes alloc :: "string \<Rightarrow> string list \<Rightarrow> 'e + string"
    and addr :: "string \<Rightarrow> u32 option"
    and inside :: "string \<Rightarrow> u32 \<Rightarrow> bool"
  assumes alloc_parses: "alloc cidr used = Inr s \<Longrightarrow> \<exists>a. addr s = Some a \<and> inside cidr a"
    and alloc_fresh: "alloc cidr used = Inr s \<Longrightarrow> u \<in> set used \<Longrightarrow> addr u \<noteq> addr s"
begin

lemma alloc_not_used: "alloc cidr used = Inr s \<Longrightarrow> s \<notin> set used"
  using alloc_fresh by blast

lemma alloc_two_distinct:
  assumes "alloc cidr used = Inr s" "alloc cidr (s # used) = Inr t"
  shows "addr s \<noteq> addr t"
  using alloc_fresh [OF assms(2), of s] by simp

end

definition v4_text :: "string \<Rightarrow> u32 option" where
  "v4_text s = Option.bind (ParseIP s) To4"

definition cidr_contains :: "string \<Rightarrow> u32 \<Rightarrow> bool" where
  "cidr_contains cidr a = (case ParseCIDR cidr of None \<Rightarrow> False | Some (_, net) \<Rightarrow> IPNet_Contains net (of_v4 a))"

subsection \<open>Conversion lemmas\<close>

lemma octets_join:
  "push_bit 24 (of_nat (octet a 0)) OR push_bit 16 (of_nat (octet a 1)) OR
   push_bit 8 (of_nat (octet a 2)) OR of_nat (octet a 3) = a" (is "?w = a")
proof (rule bit_eqI)
  fix n
  assume "possible_bit TYPE(u32) n"
  then consider "n < 8" | "8 \<le> n" "n < 16" | "16 \<le> n" "n < 24" | "24 \<le> n" "n < 32"
    by (force simp: possible_bit_word)
  then show "bit ?w n = bit a n"
    by cases (auto simp: of_nat_octet bit_simps)
qed

lemma ipToUint32_of_v4 [simp]: "ipToUint32 (of_v4 a) = a"
  by (simp only: ipToUint32_def To4_of_v4 option.case octets_join)

lemma uint32ToIP_eq: "uint32ToIP a = of_v4 a"
  by (simp only: uint32ToIP_def v4_of_octets)

lemma ipToUint32_To4: "To4 ip = Some a \<Longrightarrow> ipToUint32 ip = a"
proof -
  assume *: "To4 ip = Some a"
  have "ipToUint32 ip = ipToUint32 (of_v4 a)" by (simp only: ipToUint32_def * To4_of_v4)
  then show ?thesis by simp
qed

text \<open>
  The fourth byte of the 16-byte form is a byte of the all-zero prefix, so the test
  \<open>ip[3] == 255\<close> of the allocation loop never holds.
\<close>

lemma ip_byte_3: "ip_byte (of_v4 a) 3 = 0"
proof -
  have "drop_bit (8 * (15 - 3)) (of_v4 a) = 0"
    by (rule bit_eqI) (auto simp: bit_drop_bit_eq bit_of_v4 dest: bit_v4)
  then show ?thesis by (simp add: ip_byte_def)
qed

lemma v4_text_IPv4_String [simp]: "v4_text (IPv4_String a) = Some a"
  by (simp add: v4_text_def)

lemma set_used_list: "set (used_list existing) = {a. \<exists>raw \<in> set existing. v4_text raw = Some a}"
proof (induction existing)
  case Nil
  show ?case by (simp add: used_list_def)
next
  case (Cons raw rest)
  have "used_list (raw # rest) = (case v4_text raw of None \<Rightarrow> [] | Some a \<Rightarrow> [a]) @ used_list rest"
    by (cases "ParseIP raw") (auto simp: used_list_def v4_text_def ipToUint32_To4 split: option.splits)
  with Cons show ?case by (auto split: option.splits)
qed

subsection \<open>The allocation loop\<close>

definition free_addr :: "IPNet \<Rightarrow> u32 list \<Rightarrow> u32 \<Rightarrow> bool" where
  "free_addr net used a \<longleftrightarrow> a \<notin> set used \<and> IPNet_Contains net (of_v4 a)"

lemma allocate_loop_step:
  "allocate_loop net used bc c =
     (if c < bc then if free_addr net used c then IPv4_String c else allocate_loop net used bc (c + 1) else [])"
  by (subst allocate_loop.simps) (simp add: uint32ToIP_eq ip_byte_3 free_addr_def Let_def)

lemma le_plus_one_cases: "c < bc \<Longrightarrow> c \<le> x \<longleftrightarrow> x = c \<or> c + 1 \<le> x" for c bc x :: u32
  using unat_plus_one [of c bc] by (auto simp: word_le_nat_alt word_less_nat_alt word_unat_eq_iff)

lemma allocate_loop_cases:
  "(allocate_loop net used bc c = [] \<and> (\<forall>x. c \<le> x \<longrightarrow> x < bc \<longrightarrow> \<not> free_addr net used x)) \<or>
   (\<exists>a. allocate_loop net used bc c = IPv4_String a \<and> c \<le> a \<and> a < bc \<and> free_addr net used a \<and>
        (\<forall>x. c \<le> x \<longrightarrow> x < a \<longrightarrow> \<not> free_addr net used x))"
proof (induction net used bc c rule: allocate_loop.induct)
  case (1 net used bc c)
  show ?case
  proof (cases "c < bc \<and> \<not> free_addr net used c")
    case False
    then show ?thesis by (subst (1 2) allocate_loop_step) (auto dest: leD)
  next
    case True
    then have IH: "(allocate_loop net used bc (c + 1) = [] \<and> (\<forall>x. c + 1 \<le> x \<longrightarrow> x < bc \<longrightarrow> \<not> free_addr net used x)) \<or>
        (\<exists>a. allocate_loop net used bc (c + 1) = IPv4_String a \<and> c + 1 \<le> a \<and> a < bc \<and> free_addr net used a \<and>
          (\<forall>x. c + 1 \<le> x \<longrightarrow> x < a \<longrightarrow> \<not> free_addr net used x))"
      using 1 by (auto simp: uint32ToIP_eq ip_byte_3 free_addr_def)
    have "allocate_loop net used bc c = allocate_loop net used bc (c + 1)"
      using True by (subst allocate_loop_step) simp
    moreover have "\<not> free_addr net used c" "c < bc" using True by auto
    ultimately show ?thesis using IH le_plus_one_cases [OF \<open>c < bc\<close>] by metis
  qed
qed

lemma ParseCIDR_net4:
  assumes "ParseCIDR cidr = Some (ip, IPNet4 nw m)"
  shows "\<exists>k a. k \<le> 32 \<and> m = NOT (mask k) \<and> nw = a AND m"
proof -
  have "\<exists>a n. nw = a AND CIDRMask32 n \<and> m = CIDRMask32 n"
    using assms by (auto simp: ParseCIDR_def Let_def split: if_splits option.splits Addr.splits)
  then show ?thesis by (metis CIDRMask32_def diff_le_self)
qed

lemma not_mask_drop: "x AND NOT (mask k) = push_bit k (drop_bit k x)" for x :: u32
  by (rule bit_eqI) (auto simp: bit_simps)

lemma drop_bit_mono: "a \<le> b \<Longrightarrow> drop_bit k a \<le> drop_bit k b" for a b :: u32
proof -
  assume "a \<le> b"
  have "unat (drop_bit k c) = unat c div 2 ^ k" for c :: u32
    using drop_bit_eq_div [of k "unat c"] by (metis unat_drop_bit_eq)
  with \<open>a \<le> b\<close> show ?thesis by (simp add: word_le_nat_alt div_le_mono)
qed

lemma prefix_interval:
  fixes nw x :: u32
  assumes "nw = a AND NOT (mask k)" "nw \<le> x" "x \<le> nw OR mask k"
  shows "x AND NOT (mask k) = nw"
proof -
  have nw: "nw AND NOT (mask k) = nw" by (simp add: assms(1) and.assoc)
  have "drop_bit k (nw OR mask k) = drop_bit k nw"
    by (rule bit_eqI) (auto simp: bit_simps)
  moreover have "drop_bit k nw \<le> drop_bit k x" "drop_bit k x \<le> drop_bit k (nw OR mask k)"
    using assms(2,3) by (blast intro: drop_bit_mono)+
  ultimately have "drop_bit k x = drop_bit k nw" by simp
  then show ?thesis using nw by (simp add: not_mask_drop)
qed

lemma AllocateIP_net4:
  assumes "ParseCIDR cidr = Some (ip, IPNet4 nw m)"
  shows "AllocateIP cidr existing =
     (if m = 0 \<or> nw OR NOT m \<le> nw + 2 then []
      else allocate_loop (IPNet4 nw m) (used_list existing) (nw OR NOT m) (nw + 2))"
proof -
  obtain a where "nw = a AND m" using ParseCIDR_net4 [OF assms] by blast
  then have "nw AND m = nw" by (simp add: and.assoc)
  then show ?thesis using assms by (simp add: AllocateIP_def maskToUint32_def Let_def)
qed

lemma AllocateIP_not4: "ParseCIDR cidr = None \<or> ParseCIDR cidr = Some (ip, IPNet6 nw m6) \<Longrightarrow> AllocateIP cidr existing = []"
  by (auto simp: AllocateIP_def maskToUint32_def Let_def split: option.splits)

lemma AllocateIP_nonempty:
  assumes "AllocateIP cidr existing = s" "s \<noteq> []"
  shows "\<exists>a. s = IPv4_String a \<and> cidr_contains cidr a \<and> (\<forall>raw \<in> set existing. v4_text raw \<noteq> Some a)"
proof -
  obtain ip nw m where cidr: "ParseCIDR cidr = Some (ip, IPNet4 nw m)"
    using assms AllocateIP_not4 by (metis IPNet.exhaust option.exhaust surj_pair)
  with assms have "allocate_loop (IPNet4 nw m) (used_list existing) (nw OR NOT m) (nw + 2) = s"
    by (simp add: AllocateIP_net4 split: if_splits)
  with assms(2) allocate_loop_cases [of "IPNet4 nw m" "used_list existing" "nw OR NOT m" "nw + 2"]
  obtain a where "s = IPv4_String a" "free_addr (IPNet4 nw m) (used_list existing) a" by auto
  then show ?thesis
    using cidr by (auto simp: free_addr_def set_used_list cidr_contains_def)
qed

lemma AllocateIP_least_free:
  assumes cidr: "ParseCIDR cidr = Some (ip, IPNet4 nw m)" and room: "unat nw + 2 < unat (nw OR NOT m)" "m \<noteq> 0"
  shows "(AllocateIP cidr existing = [] \<and>
            (\<forall>x. nw + 2 \<le> x \<longrightarrow> x < nw OR NOT m \<longrightarrow> (\<exists>raw \<in> set existing. v4_text raw = Some x))) \<or>
         (\<exists>a. AllocateIP cidr existing = IPv4_String a \<and> nw + 2 \<le> a \<and> a < nw OR NOT m \<and>
            (\<forall>raw \<in> set existing. v4_text raw \<noteq> Some a) \<and>
            (\<forall>x. nw + 2 \<le> x \<longrightarrow> x < a \<longrightarrow> (\<exists>raw \<in> set existing. v4_text raw = Some x)))"
proof -
  obtain k a where k: "m = NOT (mask k)" "nw = a AND m" using ParseCIDR_net4 [OF cidr] by blast
  have bound: "unat (nw OR NOT m) < 2 ^ LENGTH(32)" by (rule unsigned_less)
  have nw2: "unat (nw + 2) = unat nw + 2" using room(1) bound by (simp add: unat_word_ariths)
  have free: "free_addr (IPNet4 nw m) (used_list existing) x \<longleftrightarrow> (\<forall>raw \<in> set existing. v4_text raw \<noteq> Some x)"
    if "nw + 2 \<le> x" "x < nw OR NOT m" for x
  proof -
    have "nw \<le> x" using that(1) nw2 by (simp add: word_le_nat_alt)
    moreover have "x \<le> nw OR mask k" using that(2) k(1) by simp
    ultimately have "x AND m = nw AND m"
      using prefix_interval [of nw a k x] k by (simp add: and.assoc)
    then show ?thesis by (auto simp: free_addr_def set_used_list IPNet_Contains_def)
  qed
  have "AllocateIP cidr existing = allocate_loop (IPNet4 nw m) (used_list existing) (nw OR NOT m) (nw + 2)"
    using room nw2 by (simp add: AllocateIP_net4 [OF cidr] word_le_nat_alt)
  then show ?thesis
    using allocate_loop_cases [of "IPNet4 nw m" "used_list existing" "nw OR NOT m" "nw + 2"] free
    by (smt (verit) order_less_trans)
qed

lemma AllocateIP_hole:
  assumes "ParseCIDR cidr = Some (ip, IPNet4 nw m)" "unat nw + 2 < unat (nw OR NOT m)" "m \<noteq> 0"
    and "nw + 2 \<le> h" "h < nw OR NOT m" "\<not> (\<exists>raw \<in> set existing. v4_text raw = Some h)"
    and "\<And>x. nw + 2 \<le> x \<Longrightarrow> x < h \<Longrightarrow> \<exists>raw \<in> set existing. v4_text raw = Some x"
  shows "AllocateIP cidr existing = IPv4_String h"
  using AllocateIP_least_free [OF assms(1-3), of existing] assms(4-7) by (metis linorder_neqE)

lemma coordinator_AllocateIP_Inr:
  "coordinator_AllocateIP cidr used = Inr s \<longleftrightarrow> AllocateIP cidr used = s \<and> s \<noteq> []"
  by (auto simp: coordinator_AllocateIP_def Let_def)

interpretation coord: ip_allocator coordinator_AllocateIP v4_text cidr_contains
proof
  fix cidr used s u
  assume "coordinator_AllocateIP cidr used = Inr s"
  then obtain a where a: "s = IPv4_String a" "cidr_contains cidr a" "\<forall>raw \<in> set used. v4_text raw \<noteq> Some a"
    using AllocateIP_nonempty by (metis coordinator_AllocateIP_Inr)
  then show "\<exists>a. v4_text s = Some a \<and> cidr_contains cidr a" by simp
  assume "u \<in> set used"
  with a show "v4_text u \<noteq> v4_text s" by simp
qed

subsection \<open>Local addresses and normalisers: lemmas\<close>

definition physical_interface :: "net_interface \<Rightarrow> bool" where
  "physical_interface iface \<longleftrightarrow> if_up iface \<and> \<not> if_loopback iface \<and> \<not> isVirtualInterface (if_name iface)"

lemma collect_addrs_props:
  "distinct ips \<Longrightarrow> distinct (collect_addrs addrs ips)"
  "set (collect_addrs addrs ips) = set ips \<union> {v. \<exists>addr \<in> set addrs. local_ip_of addr = Some v}"
  by (induction addrs arbitrary: ips) (auto split: option.splits)

lemma collect_interfaces_props:
  "distinct ips \<Longrightarrow> distinct (collect_interfaces ifaces ips)"
  "set (collect_interfaces ifaces ips) = set ips \<union>
     {v. \<exists>iface \<in> set ifaces. physical_interface iface \<and>
           (\<exists>addrs addr. if_addrs iface = Some addrs \<and> addr \<in> set addrs \<and> local_ip_of addr = Some v)}"
proof (induction ifaces arbitrary: ips)
  case (Cons iface ifaces)
  {
    case 1
    then show ?case using Cons.IH(1) by (auto simp: collect_addrs_props split: option.splits)
  next
    case 2
    show ?case
      by (cases "if_addrs iface") (auto simp: Cons.IH(2) collect_addrs_props physical_interface_def)
  }
qed auto

lemma normalize_addr [simp]:
  "normalizeHostIPv4 (IPv4_String a) = IPv4_String a"
  "normalizePeerVirtualIPv4 (IPv4_String a) = IPv4_String a"
  by (simp_all add: normalizeHostIPv4_def normalizePeerVirtualIPv4_def Let_def)

lemma ParseIP_host_prefix: "ParseIP (IPv4_String a @ ''/32'') = None"
proof -
  have "find (\<lambda>c. c = CHR ''.'' \<or> c = CHR '':'' \<or> c = CHR ''%'') (IPv4_String a @ ''/32'') = Some (CHR ''.'')"
    by (simp add: IPv4_String_def find_dot_digits nat_digits_all_digits)
  then show ?thesis
    by (simp add: ParseIP_def ParseAddr_def parseIPv4_def ParseIP_with_slash)
qed

lemma nat_digits_32: "nat_digits 32 = ''32''"
  by code_simp

lemma normalizeHostIPv4_host_prefix: "normalizeHostIPv4 (IPv4_String a @ ''/32'') = IPv4_String a"
proof -
  have "TrimSpace (IPv4_String a @ ''/32'') = IPv4_String a @ ''/32''"
    by (rule TrimSpace_digits_dots) (auto dest: IPv4_String_chars simp: is_digit_def)
  moreover have "ParseCIDR (IPv4_String a @ ''/32'') = Some (of_v4 a, IPNet4 (a AND CIDRMask32 32) (CIDRMask32 32))"
    using ParseCIDR_IPv4 [of 32 a] by (simp add: nat_digits_32)
  ultimately show ?thesis by (simp add: normalizeHostIPv4_def Let_def ParseIP_host_prefix)
qed

text \<open>The addresses of a run of consecutive numbers.\<close>

lemma v4_text_run:
  "(\<exists>raw \<in> set (map (\<lambda>i. IPv4_String (b + of_nat i)) [m..<n]). v4_text raw = Some x) \<longleftrightarrow>
   (\<exists>i \<in> {m..<n}. b + of_nat i = x)"
  by (simp only: set_map set_upt bex_simps v4_text_IPv4_String option.inject)

subsection \<open>Properties\<close>

text \<open>
  Whatever \<open>coordinator.AllocateIP\<close> returns is the text of an IPv4 address that lies inside
  the network's prefix and that differs, as an address and not only as a string, from every
  address in use; and a second allocation made with the first one recorded gives another address.
\<close>

lemma allocation_fresh_and_inside:
  assumes "coordinator_AllocateIP cidr used = Inr s"
  shows "(\<exists>a. s = IPv4_String a \<and> cidr_contains cidr a \<and> (\<forall>u \<in> set used. v4_text u \<noteq> Some a)) \<and>
         (\<forall>t. coordinator_AllocateIP cidr (s # used) = Inr t \<longrightarrow> v4_text s \<noteq> v4_text t)"
  using AllocateIP_nonempty [of cidr used s] coord.alloc_two_distinct [of cidr used s] assms
  by (auto simp: coordinator_AllocateIP_Inr)

lemma allocation_fresh_and_inside_witness:
  "coordinator_AllocateIP ''10.7.0.0/24'' [''10.7.0.2'', ''10.7.0.4''] = Inr ''10.7.0.3'' \<and>
   (\<exists>a. ''10.7.0.3'' = IPv4_String a \<and> cidr_contains ''10.7.0.0/24'' a) \<and>
   v4_text ''10.7.0.3'' \<noteq> v4_text ''10.7.0.5''"
proof -
  have s: "coordinator_AllocateIP ''10.7.0.0/24'' [''10.7.0.2'', ''10.7.0.4''] = Inr ''10.7.0.3''" by code_simp
  have t: "coordinator_AllocateIP ''10.7.0.0/24'' [''10.7.0.3'', ''10.7.0.2'', ''10.7.0.4''] = Inr ''10.7.0.5''" by code_simp
  show ?thesis using s t allocation_fresh_and_inside [OF s] by blast
qed

text \<open>
  C9. On a network with room for hosts the allocator finds the smallest host address from
  \<open>network+2\<close> up to, and excluding, the broadcast address that no entry of \<open>existing\<close> denotes,
  and it gives the empty string only when every one of them is in use.
\<close>

theorem AllocateIP_first_free:
  assumes "ParseCIDR cidr = Some (ip, IPNet4 nw m)" "m \<noteq> 0" "unat nw + 2 < unat (nw OR NOT m)"
  shows "(AllocateIP cidr existing = [] \<longleftrightarrow>
            (\<forall>x. nw + 2 \<le> x \<longrightarrow> x < nw OR NOT m \<longrightarrow> (\<exists>raw \<in> set existing. v4_text raw = Some x))) \<and>
         (AllocateIP cidr existing \<noteq> [] \<longrightarrow>
           (\<exists>a. AllocateIP cidr existing = IPv4_String a \<and> nw + 2 \<le> a \<and> a < nw OR NOT m \<and>
            (\<forall>raw \<in> set existing. v4_text raw \<noteq> Some a) \<and>
            (\<forall>x. nw + 2 \<le> x \<longrightarrow> x < a \<longrightarrow> (\<exists>raw \<in> set existing. v4_text raw = Some x))))"
proof (cases "AllocateIP cidr existing = []")
  case True
  then show ?thesis using AllocateIP_least_free [OF assms(1,3,2), of existing] by (metis IPv4_String_nonempty)
next
  case False
  then show ?thesis using AllocateIP_least_free [OF assms(1,3,2), of existing] by blast
qed

theorem AllocateIP_first_free_witness:
  "AllocateIP ''192.168.1.0/29'' [''192.168.1.2''] = ''192.168.1.3'' \<and>
   AllocateIP ''192.168.1.0/29'' [''192.168.1.2''] \<noteq> [] \<and>
   (\<exists>a. AllocateIP ''192.168.1.0/29'' [''192.168.1.2''] = IPv4_String a \<and> 0xC0A80102 \<le> a \<and> a < 0xC0A80107)"
proof -
  have cidr: "ParseCIDR ''192.168.1.0/29'' = Some (of_v4 0xC0A80100, IPNet4 0xC0A80100 0xFFFFFFF8)" by code_simp
  have ne: "AllocateIP ''192.168.1.0/29'' [''192.168.1.2''] = ''192.168.1.3''" by code_simp
  have room: "(0xFFFFFFF8 :: u32) \<noteq> 0" "unat (0xC0A80100 :: u32) + 2 < unat (0xC0A80100 OR NOT 0xFFFFFFF8 :: u32)"
    by simp_all
  have bounds: "0xC0A80100 + 2 = (0xC0A80102 :: u32)" "0xC0A80100 OR NOT 0xFFFFFFF8 = (0xC0A80107 :: u32)"
    by simp_all
  have "AllocateIP ''192.168.1.0/29'' [''192.168.1.2''] \<noteq> []" unfolding ne by (rule list.distinct)
  with AllocateIP_first_free [OF cidr room, of "[''192.168.1.2'']", unfolded bounds] ne
  show ?thesis by blast
qed

text \<open>
  The loop means to skip addresses whose last octet is 255, but \<open>ip[3]\<close> indexes the 16-byte
  form of the address, where that byte is always 0: once 10.7.0.2 to 10.7.0.254 are taken in a
  /16 network, the next peer is given 10.7.0.255.
\<close>

lemma AllocateIP_hands_out_255:
  "AllocateIP ''10.7.0.0/16'' (map (\<lambda>i. IPv4_String (0x0A070000 + of_nat i)) [2..<255]) = ''10.7.0.255''"
proof -
  define used where "used = map (\<lambda>i. IPv4_String (0x0A070000 + of_nat i)) [2..<255]"
  have cidr: "ParseCIDR ''10.7.0.0/16'' = Some (of_v4 0x0A070000, IPNet4 0x0A070000 0xFFFF0000)" by code_simp
  have taken: "\<exists>raw \<in> set used. v4_text raw = Some x" if "0x0A070002 \<le> x" "x < 0x0A0700FF" for x
  proof -
    have "x = 0x0A070000 + of_nat (unat (x - 0x0A070000))" by simp
    moreover have "2 \<le> unat (x - 0x0A070000)" "unat (x - 0x0A070000) < 255"
      using that by (simp_all add: word_le_nat_alt word_less_nat_alt unat_sub)
    ultimately show ?thesis unfolding v4_text_run used_def by (metis atLeastLessThan_iff)
  qed
  have free: "\<not> (\<exists>raw \<in> set used. v4_text raw = Some 0x0A0700FF)"
  proof
    assume "\<exists>raw \<in> set used. v4_text raw = Some 0x0A0700FF"
    then obtain i where i: "i < 255" "(0x0A070000 + of_nat i :: u32) = 0x0A0700FF"
      unfolding v4_text_run used_def by auto
    have "(of_nat i :: u32) = 0x0A0700FF - 0x0A070000" using i(2) by (metis add_diff_cancel_left')
    then have "unat (of_nat i :: u32) = 255" by simp
    with i(1) show False by (simp add: unat_of_nat)
  qed
  have "AllocateIP ''10.7.0.0/16'' used = IPv4_String 0x0A0700FF"
    by (rule AllocateIP_hole [OF cidr]) (simp_all add: free taken)
  moreover have "IPv4_String 0x0A0700FF = ''10.7.0.255''" by code_simp
  ultimately show ?thesis unfolding used_def by (rule trans)
qed

text \<open>
  The announced local addresses are exactly the IPv4 addresses, link-local ones excepted, of
  the interfaces that are up, not loopback and not virtual, each once and in sorted order.
\<close>

lemma GetLocalIPs_exact:
  "sorted (GetLocalIPs (Some ifaces)) \<and> distinct (GetLocalIPs (Some ifaces)) \<and>
   (\<forall>v. v \<in> set (GetLocalIPs (Some ifaces)) \<longleftrightarrow>
      (\<exists>iface addrs addr. iface \<in> set ifaces \<and> physical_interface iface \<and> if_addrs iface = Some addrs \<and>
         addr \<in> set addrs \<and> local_ip_of addr = Some v))"
  by (auto simp: GetLocalIPs_def collect_interfaces_props)

text \<open>
  A virtual address survives the database: its host-prefix form \<open>a.b.c.d/32\<close>, which PostgreSQL's
  text cast of an \<open>inet\<close> value gives, is normalised back to \<open>a.b.c.d\<close> by both normalisers.
\<close>

lemma virtual_address_normalised:
  "normalizeHostIPv4 (IPv4_String a @ ''/32'') = IPv4_String a \<and>
   normalizePeerVirtualIPv4 (normalizeHostIPv4 (IPv4_String a @ ''/32'')) = IPv4_String a"
  by (simp add: normalizeHostIPv4_host_prefix)

end
