(* ===== verification/Effects.thy ===== *)
theory Effects
  imports Prelude
begin

text \<open>
  Effects. A Go method that mutates its receiver and returns \<open>(T, error)\<close> is a procedure: a
  function from the receiver's state to the result, \<open>Inl\<close> the error, and the state it leaves.
  The state is kept when an error is returned, because Go keeps the assignments made before an
  early return. Errors are Go error values: a message, a message wrapped around another error
  by \<open>fmt.Errorf\<close> with the verb \<open>%w\<close>, a package-level variable made by \<open>errors.New\<close>, which
  is compared by identity (two of them never have the same text in this program), or the
  \<open>HTTPError\<close> of \<open>client/internal/api_client/client.go\<close> with its status and message.
\<close>

datatype go_error = Errorf string | Wrapf string go_error | Sentinel string | HTTPError int string

text \<open>The \<open>Error\<close> method and \<open>errors.Is\<close>.\<close>

fun error_string :: "go_error \<Rightarrow> string" where
  "error_string (Errorf m) = m"
| "error_string (Wrapf ctx e) = ctx @ '': '' @ error_string e"
| "error_string (Sentinel m) = m"
| "error_string (HTTPError status m) = ''http error: status='' @ Itoa status @ '' message='' @ m"

fun errors_Is :: "go_error \<Rightarrow> go_error \<Rightarrow> bool" where
  "errors_Is (Wrapf ctx e) target = (Wrapf ctx e = target \<or> errors_Is e target)"
| "errors_Is e target = (e = target)"

text \<open>\<open>errors.As\<close> for the pointer type \<open>*HTTPError\<close>: the status of the first one in the chain.\<close>

fun as_HTTPError :: "go_error \<Rightarrow> int option" where
  "as_HTTPError (Wrapf ctx e) = as_HTTPError e"
| "as_HTTPError (HTTPError status m) = Some status"
| "as_HTTPError e = None"

type_synonym ('s, 'a) procedure = "'s \<Rightarrow> (go_error + 'a) \<times> 's"

definition return :: "'a \<Rightarrow> ('s, 'a) procedure" where
  "return a = (\<lambda>s. (Inr a, s))"

definition raise :: "go_error \<Rightarrow> ('s, 'a) procedure" where
  "raise e = (\<lambda>s. (Inl e, s))"

text \<open>Sequencing: an error ends the procedure in the state reached so far.\<close>

definition andThen :: "('s, 'a) procedure \<Rightarrow> ('a \<Rightarrow> ('s, 'b) procedure) \<Rightarrow> ('s, 'b) procedure" where
  "andThen m f = (\<lambda>s. case m s of (Inl e, s') \<Rightarrow> (Inl e, s') | (Inr a, s') \<Rightarrow> f a s')"

definition reads :: "('s \<Rightarrow> 'a) \<Rightarrow> ('s, 'a) procedure" where
  "reads f = (\<lambda>s. (Inr (f s), s))"

definition modifies :: "('s \<Rightarrow> 's) \<Rightarrow> ('s, unit) procedure" where
  "modifies f = (\<lambda>s. (Inr (), f s))"

text \<open>A pure result used inside a procedure.\<close>

definition result :: "go_error + 'a \<Rightarrow> ('s, 'a) procedure" where
  "result r = (\<lambda>s. (r, s))"

text \<open>\<open>if err != nil { return fmt.Errorf("ctx: %w", err) }\<close>\<close>

definition wrap :: "string \<Rightarrow> ('s, 'a) procedure \<Rightarrow> ('s, 'a) procedure" where
  "wrap ctx m = (\<lambda>s. case m s of (Inl e, s') \<Rightarrow> (Inl (Wrapf ctx e), s') | (Inr a, s') \<Rightarrow> (Inr a, s'))"

text \<open>A method of a struct field, run on the struct that holds the field.\<close>

definition on_field :: "('s \<Rightarrow> 't) \<Rightarrow> ('t \<Rightarrow> 's \<Rightarrow> 's) \<Rightarrow> ('t, 'a) procedure \<Rightarrow> ('s, 'a) procedure" where
  "on_field get put m = (\<lambda>s. case m (get s) of (r, t) \<Rightarrow> (r, put t s))"

lemmas procedure_defs = return_def raise_def andThen_def reads_def modifies_def result_def wrap_def on_field_def

text \<open>How a sequence runs once the outcome of its first step is known.\<close>

lemma andThen_Inr [simp]: "m s = (Inr a, s') \<Longrightarrow> andThen m f s = f a s'"
  by (simp add: andThen_def)

lemma andThen_Inl [simp]: "m s = (Inl e, s') \<Longrightarrow> andThen m f s = (Inl e, s')"
  by (simp add: andThen_def)

lemma wrap_Inr [simp]: "m s = (Inr a, s') \<Longrightarrow> wrap ctx m s = (Inr a, s')"
  by (simp add: wrap_def)

lemma wrap_Inl [simp]: "m s = (Inl e, s') \<Longrightarrow> wrap ctx m s = (Inl (Wrapf ctx e), s')"
  by (simp add: wrap_def)

lemma on_field_run [simp]: "m (get s) = (r, t) \<Longrightarrow> on_field get put m s = (r, put t s)"
  by (simp add: on_field_def)

lemma basic_runs [simp]:
  "return a s = (Inr a, s)" "raise e s = (Inl e, s)" "reads f s = (Inr (f s), s)"
  "modifies g s = (Inr (), g s)" "result r s = (r, s)"
  by (simp_all add: procedure_defs)

lemma andThen_basic [simp]:
  "andThen (reads f) g s = g (f s) s" "andThen (return a) g s = g a s" "andThen (raise e) h s = (Inl e, s)"
  "andThen (modifies u) k s = k () (u s)"
  by (simp_all add: procedure_defs)

lemma andThen_eq_Inr: "andThen m f s = (Inr b, s'') \<longleftrightarrow> (\<exists>a s'. m s = (Inr a, s') \<and> f a s' = (Inr b, s''))"
  by (auto simp: andThen_def split: prod.splits sum.splits)

lemma wrap_eq_Inr: "wrap ctx m s = (Inr a, s') \<longleftrightarrow> m s = (Inr a, s')"
  by (auto simp: wrap_def split: prod.splits sum.splits)

lemma on_field_eq_Inr: "on_field get put m s = (Inr a, s') \<longleftrightarrow> (\<exists>t. m (get s) = (Inr a, t) \<and> s' = put t s)"
  by (auto simp: on_field_def split: prod.splits)

lemma basic_eq_Inr:
  "return a s = (Inr b, s') \<longleftrightarrow> b = a \<and> s' = s" "raise e s = (Inr b, s') \<longleftrightarrow> False"
  "reads f s = (Inr b, s') \<longleftrightarrow> b = f s \<and> s' = s" "result r s = (Inr b, s') \<longleftrightarrow> r = Inr b \<and> s' = s"
  "modifies g s = (Inr u, s') \<longleftrightarrow> s' = g s"
  by auto

lemmas success_iff = andThen_eq_Inr wrap_eq_Inr on_field_eq_Inr basic_eq_Inr

subsection \<open>Kept predicates\<close>

text \<open>A procedure keeps a predicate of its state, whatever its result.\<close>

definition keeps :: "('w \<Rightarrow> bool) \<Rightarrow> ('w \<Rightarrow> 'r \<times> 'w) \<Rightarrow> bool" where
  "keeps I m \<longleftrightarrow> (\<forall>w. I w \<longrightarrow> I (snd (m w)))"

lemma keepsI: "(\<And>w. I w \<Longrightarrow> I (snd (m w))) \<Longrightarrow> keeps I m"
  by (simp add: keeps_def)

lemma keepsD: "keeps I m \<Longrightarrow> I w \<Longrightarrow> I (snd (m w))"
  by (simp add: keeps_def)

lemma keeps_andThen [intro]: "keeps I m \<Longrightarrow> (\<And>a. keeps I (f a)) \<Longrightarrow> keeps I (andThen m f)"
  by (auto simp: keeps_def andThen_def split: prod.splits sum.splits)

lemma keeps_wrap [intro]: "keeps I m \<Longrightarrow> keeps I (wrap ctx m)"
  by (auto simp: keeps_def wrap_def split: prod.splits sum.splits)

lemma keeps_return [intro, simp]: "keeps I (return a)" "keeps I (raise e)"
  by (simp_all add: keeps_def return_def raise_def)

lemma keeps_if: "keeps I m \<Longrightarrow> keeps I m' \<Longrightarrow> keeps I (if b then m else m')"
  by simp

lemma keeps_basic [intro, simp]: "keeps I (reads f)" "keeps I (result r)"
  by (simp_all add: keeps_def reads_def result_def)

lemma keeps_modifies [intro]: "(\<And>s. I s \<Longrightarrow> I (u s)) \<Longrightarrow> keeps I (modifies u)"
  by (simp add: keeps_def modifies_def)

subsection \<open>Byte slices\<close>

text \<open>The built-in \<open>copy(dst, src)\<close>: overwrites a prefix of \<open>dst\<close>, never changes its length.\<close>

definition copy_bytes :: "'a list \<Rightarrow> 'a list \<Rightarrow> 'a list" where
  "copy_bytes dst src = take (length dst) src @ drop (length src) dst"

lemma length_copy_bytes [simp]: "length (copy_bytes dst src) = length dst"
  by (simp add: copy_bytes_def)

lemma copy_bytes_same [simp]: "length src = length dst \<Longrightarrow> copy_bytes dst src = src"
  by (simp add: copy_bytes_def)

text \<open>\<open>binary.LittleEndian.PutUint64\<close>\<close>

definition le_bytes64 :: "u64 \<Rightarrow> bytes" where
  "le_bytes64 v = map (\<lambda>i. ucast (drop_bit (8 * i) v)) [0, 1, 2, 3, 4, 5, 6, 7]"

lemma length_le_bytes64 [simp]: "length (le_bytes64 v) = 8"
  by (simp add: le_bytes64_def)

lemma le_bytes64_inject: "le_bytes64 v = le_bytes64 w \<longleftrightarrow> v = w"
proof
  assume eq: "le_bytes64 v = le_bytes64 w"
  show "v = w"
  proof (rule bit_eqI)
    fix n
    assume "possible_bit TYPE(u64) n"
    then have n: "n < 64" by (simp add: possible_bit_word)
    have "le_bytes64 x ! (n div 8) = ucast (drop_bit (8 * (n div 8)) x)" for x
    proof -
      have "n div 8 < 8" using n by simp
      moreover have "[0, 1, 2, 3, 4, 5, 6, 7 :: nat] = [0..<8]" by (simp add: upt_rec)
      ultimately show ?thesis by (simp add: le_bytes64_def)
    qed
    with eq have "bit (ucast (drop_bit (8 * (n div 8)) v) :: byte) (n mod 8) =
        bit (ucast (drop_bit (8 * (n div 8)) w) :: byte) (n mod 8)" by metis
    then show "bit v n = bit w n"
      using n by (simp add: bit_simps)
  qed
qed simp

subsection \<open>Invariants of transition systems\<close>

text \<open>
  A component with state is a set of initial states and labelled steps. An invariant that
  holds initially and is kept by every step holds in every state a trace reaches.
\<close>

inductive reachable_by :: "('s \<Rightarrow> bool) \<Rightarrow> ('s \<Rightarrow> 'l \<Rightarrow> 's \<Rightarrow> bool) \<Rightarrow> 'l list \<Rightarrow> 's \<Rightarrow> bool"
  for start step where
  start: "start s \<Longrightarrow> reachable_by start step [] s"
| step: "reachable_by start step ls s \<Longrightarrow> step s l s' \<Longrightarrow> reachable_by start step (ls @ [l]) s'"

locale inductive_invariant =
  fixes start :: "'s \<Rightarrow> bool" and step :: "'s \<Rightarrow> 'l \<Rightarrow> 's \<Rightarrow> bool" and inv :: "'s \<Rightarrow> bool"
  assumes start_inv: "start s \<Longrightarrow> inv s"
    and step_inv: "inv s \<Longrightarrow> step s l s' \<Longrightarrow> inv s'"
begin

lemma reachable_inv: "reachable_by start step ls s \<Longrightarrow> inv s"
  by (induction rule: reachable_by.induct) (auto intro: start_inv step_inv)

lemma reachable_step_inv: "reachable_by start step ls s \<Longrightarrow> step s l s' \<Longrightarrow> inv s \<and> inv s'"
  using reachable_inv step_inv by blast

end

end
