(* ===== verification/Cipher.thy ===== *)
theory Cipher
  imports Effects
begin

text \<open>
  \<open>pkg/noise/cipher_state.go\<close> and \<open>pkg/noise/symmetric_state.go\<close>. The cryptographic packages
  \<open>golang.org/x/crypto\<close> are not part of the repository: their functions are the fields of the
  record \<open>noise_crypto\<close>, an argument of every definition that calls them. What the protocol
  relies on is the predicate \<open>crypto_ok\<close>, which states documented behaviour of these packages:
  lengths, that \<open>Open\<close> inverts \<open>Seal\<close>, and that X25519 on honestly derived public keys succeeds
  and commutes.
\<close>

subsection \<open>The external packages\<close>

text \<open>
  \<open>aead_new\<close> is the error of \<open>chacha20poly1305.New\<close>, \<open>seal\<close> and \<open>open\<close> take key, nonce, text and
  associated data, \<open>hkdf_block secret salt i\<close> is the outcome of the \<open>i\<close>-th 32-byte read from
  \<open>hkdf.New(blake2s, secret, salt, nil)\<close>, and \<open>x25519 scalar point\<close> fails on a low-order point.
\<close>

record noise_crypto =
  aead_new :: "bytes \<Rightarrow> go_error + unit"
  aead_seal :: "bytes \<Rightarrow> bytes \<Rightarrow> bytes \<Rightarrow> bytes \<Rightarrow> bytes"
  aead_open :: "bytes \<Rightarrow> bytes \<Rightarrow> bytes \<Rightarrow> bytes \<Rightarrow> go_error + bytes"
  blake2s256 :: "bytes \<Rightarrow> bytes"
  hkdf_block :: "bytes \<Rightarrow> bytes \<Rightarrow> nat \<Rightarrow> go_error + bytes"
  x25519 :: "bytes \<Rightarrow> bytes \<Rightarrow> go_error + bytes"
  basepoint :: bytes

subsection \<open>CipherState\<close>

definition KeyLen :: nat where "KeyLen = 32"
definition NonceSize :: nat where "NonceSize = 12"
definition Overhead :: nat where "Overhead = 16"
definition MaxUint64 :: u64 where "MaxUint64 = 0xFFFFFFFFFFFFFFFF"

text \<open>The AEAD instance is represented by the key it was created with.\<close>

record CipherState =
  cs_key :: bytes
  cs_nonce :: u64
  cs_hasKey :: bool
  cs_aead :: "bytes option"

definition zero_key :: bytes where
  "zero_key = replicate KeyLen 0"

definition CipherState_zero :: CipherState where
  "CipherState_zero = \<lparr>cs_key = zero_key, cs_nonce = 0, cs_hasKey = False, cs_aead = None\<rparr>"

definition cloneBytes :: "bytes \<Rightarrow> bytes" where
  "cloneBytes src = (if length src = 0 then [] else copy_bytes (replicate (length src) 0) src)"

definition formatNonce :: "u64 \<Rightarrow> bytes" where
  "formatNonce counter = (let nonce = replicate NonceSize 0 in take 4 nonce @ copy_bytes (drop 4 nonce) (le_bytes64 counter))"

definition InitializeKey :: "noise_crypto \<Rightarrow> bytes \<Rightarrow> (CipherState, unit) procedure" where
  "InitializeKey C key =
     (if length key = 0 then
        modifies (\<lambda>cs. cs\<lparr>cs_key := zero_key, cs_nonce := 0, cs_hasKey := False, cs_aead := None\<rparr>)
      else if length key \<noteq> KeyLen then
        raise (Errorf (''initialize key: expected '' @ Itoa (int KeyLen) @ ''-byte key, got '' @ Itoa (int (length key))))
      else
        andThen (modifies (\<lambda>cs. cs\<lparr>cs_key := copy_bytes (cs_key cs) key\<rparr>)) (\<lambda>_.
        andThen (reads cs_key) (\<lambda>k.
        andThen (wrap ''initialize key: create chacha20poly1305'' (result (aead_new C k))) (\<lambda>_.
        modifies (\<lambda>cs. cs\<lparr>cs_aead := Some k, cs_hasKey := True, cs_nonce := 0\<rparr>)))))"

definition HasKey :: "CipherState \<Rightarrow> bool" where
  "HasKey cs = cs_hasKey cs"

definition Nonce :: "CipherState \<Rightarrow> u64" where
  "Nonce cs = cs_nonce cs"

definition SetNonce :: "u64 \<Rightarrow> (CipherState, unit) procedure" where
  "SetNonce n = modifies (\<lambda>cs. cs\<lparr>cs_nonce := n\<rparr>)"

text \<open>
  \<open>hasKey\<close> is only set together with \<open>aead\<close> (the invariant \<open>cipher_wf\<close> below), so the nil
  dereference of \<open>cs.aead.Seal\<close> cannot happen; the model makes it an error value.
\<close>

definition nil_aead :: go_error where
  "nil_aead = Errorf ''panic: nil AEAD''"

definition EncryptWithAd :: "noise_crypto \<Rightarrow> bytes \<Rightarrow> bytes \<Rightarrow> (CipherState, bytes) procedure" where
  "EncryptWithAd C ad plaintext =
     (\<lambda>cs. if \<not> cs_hasKey cs then return (cloneBytes plaintext) cs
           else if cs_nonce cs = MaxUint64 then raise (Errorf ''encrypt with ad: nonce exhausted'') cs
           else (case cs_aead cs of
                   None \<Rightarrow> raise nil_aead cs
                 | Some k \<Rightarrow>
                     let ciphertext = aead_seal C k (formatNonce (cs_nonce cs)) plaintext ad
                     in return ciphertext (cs\<lparr>cs_nonce := cs_nonce cs + 1\<rparr>)))"

definition DecryptWithAd :: "noise_crypto \<Rightarrow> bytes \<Rightarrow> bytes \<Rightarrow> (CipherState, bytes) procedure" where
  "DecryptWithAd C ad ciphertext =
     (\<lambda>cs. if \<not> cs_hasKey cs then return (cloneBytes ciphertext) cs
           else if cs_nonce cs = MaxUint64 then raise (Errorf ''decrypt with ad: nonce exhausted'') cs
           else (case cs_aead cs of
                   None \<Rightarrow> raise nil_aead cs
                 | Some k \<Rightarrow>
                     (case aead_open C k (formatNonce (cs_nonce cs)) ciphertext ad of
                        Inl e \<Rightarrow> raise (Wrapf ''decrypt with ad: open ciphertext'' e) cs
                      | Inr plaintext \<Rightarrow> return plaintext (cs\<lparr>cs_nonce := cs_nonce cs + 1\<rparr>))))"

definition Rekey :: "noise_crypto \<Rightarrow> (CipherState, unit) procedure" where
  "Rekey C =
     (\<lambda>cs. if \<not> cs_hasKey cs then raise (Errorf ''rekey: cipher is not keyed'') cs
           else (case cs_aead cs of
                   None \<Rightarrow> raise nil_aead cs
                 | Some k \<Rightarrow>
                     let material = aead_seal C k (formatNonce MaxUint64) (replicate KeyLen 0) []
                     in if length material < KeyLen
                        then raise (Errorf (''rekey: insufficient key material '' @ Itoa (int (length material)))) cs
                        else InitializeKey C (take KeyLen material) cs))"

subsection \<open>SymmetricState\<close>

definition HashLen :: nat where "HashLen = 32"

record SymmetricState =
  ss_cs :: CipherState
  ss_ck :: bytes
  ss_h :: bytes

definition SymmetricState_zero :: SymmetricState where
  "SymmetricState_zero = \<lparr>ss_cs = CipherState_zero, ss_ck = replicate HashLen 0, ss_h = replicate HashLen 0\<rparr>"

definition on_cs :: "(CipherState, 'a) procedure \<Rightarrow> (SymmetricState, 'a) procedure" where
  "on_cs = on_field ss_cs (\<lambda>cs ss. ss\<lparr>ss_cs := cs\<rparr>)"

definition InitializeSymmetric :: "noise_crypto \<Rightarrow> bytes \<Rightarrow> (SymmetricState, unit) procedure" where
  "InitializeSymmetric C protocolName =
     andThen (modifies (\<lambda>ss. ss\<lparr>ss_h := if HashLen < length protocolName then blake2s256 C protocolName
                                          else copy_bytes (replicate HashLen 0) protocolName\<rparr>)) (\<lambda>_.
     andThen (modifies (\<lambda>ss. ss\<lparr>ss_ck := ss_h ss\<rparr>)) (\<lambda>_.
     wrap ''initialize symmetric: initialize cipher state'' (on_cs (InitializeKey C []))))"

definition MixHash :: "noise_crypto \<Rightarrow> bytes \<Rightarrow> (SymmetricState, unit) procedure" where
  "MixHash C data = modifies (\<lambda>ss. ss\<lparr>ss_h := copy_bytes (ss_h ss) (blake2s256 C (ss_h ss @ data))\<rparr>)"

fun hkdf_loop :: "noise_crypto \<Rightarrow> bytes \<Rightarrow> bytes \<Rightarrow> nat \<Rightarrow> nat \<Rightarrow> go_error + bytes list" where
  "hkdf_loop C chainingKey input i 0 = Inr []"
| "hkdf_loop C chainingKey input i (Suc n) =
     (case hkdf_block C input chainingKey i of
        Inl e \<Rightarrow> Inl (Wrapf (''hkdf material: read block '' @ Itoa (int i)) e)
      | Inr block \<Rightarrow>
          (case hkdf_loop C chainingKey input (Suc i) n of
             Inl e \<Rightarrow> Inl e
           | Inr rest \<Rightarrow> Inr (block # rest)))"

definition hkdfMaterial :: "noise_crypto \<Rightarrow> bytes \<Rightarrow> bytes \<Rightarrow> int \<Rightarrow> go_error + bytes list" where
  "hkdfMaterial C chainingKey input parts =
     (if parts \<le> 0 then Inl (Errorf ''hkdf material: parts must be positive'')
      else hkdf_loop C chainingKey input 0 (nat parts))"

definition MixKey :: "noise_crypto \<Rightarrow> bytes \<Rightarrow> (SymmetricState, unit) procedure" where
  "MixKey C input =
     andThen (reads ss_ck) (\<lambda>ck.
     andThen (wrap ''mix key: hkdf material'' (result (hkdfMaterial C ck input 2))) (\<lambda>material.
     andThen (modifies (\<lambda>ss. ss\<lparr>ss_ck := copy_bytes (ss_ck ss) (material ! 0)\<rparr>)) (\<lambda>_.
     wrap ''mix key: initialize cipher key'' (on_cs (InitializeKey C (material ! 1))))))"

definition MixKeyAndHash :: "noise_crypto \<Rightarrow> bytes \<Rightarrow> (SymmetricState, unit) procedure" where
  "MixKeyAndHash C input =
     andThen (reads ss_ck) (\<lambda>ck.
     andThen (wrap ''mix key and hash: hkdf material'' (result (hkdfMaterial C ck input 3))) (\<lambda>material.
     andThen (modifies (\<lambda>ss. ss\<lparr>ss_ck := copy_bytes (ss_ck ss) (material ! 0)\<rparr>)) (\<lambda>_.
     andThen (MixHash C (material ! 1)) (\<lambda>_.
     wrap ''mix key and hash: initialize cipher key'' (on_cs (InitializeKey C (material ! 2)))))))"

definition EncryptAndHash :: "noise_crypto \<Rightarrow> bytes \<Rightarrow> (SymmetricState, bytes) procedure" where
  "EncryptAndHash C plaintext =
     andThen (reads ss_h) (\<lambda>h.
     andThen (wrap ''encrypt and hash: encrypt with ad'' (on_cs (EncryptWithAd C h plaintext))) (\<lambda>ciphertext.
     andThen (MixHash C ciphertext) (\<lambda>_. return ciphertext)))"

definition DecryptAndHash :: "noise_crypto \<Rightarrow> bytes \<Rightarrow> (SymmetricState, bytes) procedure" where
  "DecryptAndHash C ciphertext =
     andThen (reads ss_h) (\<lambda>h.
     andThen (wrap ''decrypt and hash: decrypt with ad'' (on_cs (DecryptWithAd C h ciphertext))) (\<lambda>plaintext.
     andThen (MixHash C ciphertext) (\<lambda>_. return plaintext)))"

text \<open>\<open>Split\<close> does not change its receiver; the two ciphers start from the zero value.\<close>

definition split_cipher :: "noise_crypto \<Rightarrow> string \<Rightarrow> bytes \<Rightarrow> go_error + CipherState" where
  "split_cipher C ctx key =
     (case InitializeKey C key CipherState_zero of (Inl e, _) \<Rightarrow> Inl (Wrapf ctx e) | (Inr _, c) \<Rightarrow> Inr c)"

definition SymmetricState_Split :: "noise_crypto \<Rightarrow> SymmetricState \<Rightarrow> go_error + CipherState \<times> CipherState" where
  "SymmetricState_Split C ss =
     (case hkdfMaterial C (ss_ck ss) [] 2 of
        Inl e \<Rightarrow> Inl (Wrapf ''split: hkdf material'' e)
      | Inr material \<Rightarrow>
          (case split_cipher C ''split: initialize first cipher'' (material ! 0) of
             Inl e \<Rightarrow> Inl e
           | Inr c1 \<Rightarrow>
               (case split_cipher C ''split: initialize second cipher'' (material ! 1) of
                  Inl e \<Rightarrow> Inl e
                | Inr c2 \<Rightarrow> Inr (c1, c2))))"

definition SymmetricState_HandshakeHash :: "SymmetricState \<Rightarrow> bytes" where
  "SymmetricState_HandshakeHash ss = copy_bytes (replicate HashLen 0) (ss_h ss)"

definition ChainingKey :: "SymmetricState \<Rightarrow> bytes" where
  "ChainingKey ss = copy_bytes (replicate HashLen 0) (ss_ck ss)"

definition encryptedLen :: "nat \<Rightarrow> bool \<Rightarrow> nat" where
  "encryptedLen plainLen keyed = (if keyed then plainLen + Overhead else plainLen)"

subsection \<open>What the code relies on\<close>

definition aead_ok :: "noise_crypto \<Rightarrow> bool" where
  "aead_ok C \<longleftrightarrow>
     (\<forall>k. length k = KeyLen \<longrightarrow> aead_new C k = Inr ()) \<and>
     (\<forall>k n p a. length k = KeyLen \<longrightarrow> length n = NonceSize \<longrightarrow>
        aead_open C k n (aead_seal C k n p a) a = Inr p \<and> length (aead_seal C k n p a) = length p + Overhead) \<and>
     (\<forall>d. length (blake2s256 C d) = HashLen) \<and>
     (\<forall>secret salt i. i < 255 \<longrightarrow> (\<exists>b. hkdf_block C secret salt i = Inr b \<and> length b = HashLen))"

lemma aead_okD:
  assumes "aead_ok C"
  shows "length k = KeyLen \<Longrightarrow> aead_new C k = Inr ()"
    and "length k = KeyLen \<Longrightarrow> length n = NonceSize \<Longrightarrow> aead_open C k n (aead_seal C k n p a) a = Inr p"
    and "length k = KeyLen \<Longrightarrow> length n = NonceSize \<Longrightarrow> length (aead_seal C k n p a) = length p + Overhead"
    and "length (blake2s256 C d) = HashLen"
    and "i < 255 \<Longrightarrow> \<exists>b. hkdf_block C secret salt i = Inr b \<and> length b = HashLen"
  using assms by (auto simp: aead_ok_def)

subsection \<open>Well-formed cipher states\<close>

text \<open>An AEAD instance is present whenever \<open>hasKey\<close> is set, and keys have their array length.\<close>

definition cipher_wf :: "CipherState \<Rightarrow> bool" where
  "cipher_wf cs \<longleftrightarrow> length (cs_key cs) = KeyLen \<and>
     (cs_hasKey cs \<longrightarrow> (\<exists>k. cs_aead cs = Some k \<and> length k = KeyLen))"

definition symmetric_wf :: "SymmetricState \<Rightarrow> bool" where
  "symmetric_wf ss \<longleftrightarrow> cipher_wf (ss_cs ss) \<and> length (ss_ck ss) = HashLen \<and> length (ss_h ss) = HashLen"

lemma cipher_wf_zero: "cipher_wf CipherState_zero"
  by (simp add: cipher_wf_def CipherState_zero_def zero_key_def)

lemma InitializeKey_wf: "cipher_wf cs \<Longrightarrow> InitializeKey C key cs = (r, cs') \<Longrightarrow> cipher_wf cs'"
  by (auto simp: InitializeKey_def procedure_defs cipher_wf_def zero_key_def KeyLen_def
      split: if_splits sum.splits prod.splits)

lemma EncryptWithAd_wf: "cipher_wf cs \<Longrightarrow> EncryptWithAd C ad p cs = (r, cs') \<Longrightarrow> cipher_wf cs'"
  by (auto simp: EncryptWithAd_def procedure_defs cipher_wf_def Let_def split: if_splits option.splits)

lemma DecryptWithAd_wf: "cipher_wf cs \<Longrightarrow> DecryptWithAd C ad c cs = (r, cs') \<Longrightarrow> cipher_wf cs'"
  by (auto simp: DecryptWithAd_def procedure_defs cipher_wf_def split: if_splits option.splits sum.splits)

lemma Rekey_wf: "cipher_wf cs \<Longrightarrow> Rekey C cs = (r, cs') \<Longrightarrow> cipher_wf cs'"
  by (auto simp: Rekey_def Let_def dest: InitializeKey_wf split: if_splits option.splits)

subsection \<open>Nonces\<close>

lemma formatNonce_eq: "formatNonce c = replicate 4 0 @ le_bytes64 c"
  by (simp add: formatNonce_def NonceSize_def Let_def)

lemma length_formatNonce [simp]: "length (formatNonce c) = NonceSize"
  by (simp add: formatNonce_eq NonceSize_def)

lemma formatNonce_inject [simp]: "formatNonce c = formatNonce d \<longleftrightarrow> c = d"
  by (simp add: formatNonce_eq le_bytes64_inject)

lemma unat_MaxUint64: "unat MaxUint64 = 2 ^ 64 - 1"
  by (simp add: MaxUint64_def)

lemma unat_next_nonce: "n \<noteq> MaxUint64 \<Longrightarrow> unat (n + 1) = Suc (unat n)"
proof -
  assume "n \<noteq> MaxUint64"
  then have "unat n \<noteq> 2 ^ 64 - 1" by (metis unat_MaxUint64 word_unat_eq_iff)
  moreover have "unat n < 2 ^ LENGTH(64)" by (rule unsigned_less)
  ultimately show ?thesis by (simp add: unat_word_ariths)
qed

text \<open>A keyed cipher state with key \<open>k\<close> at counter \<open>n\<close>.\<close>

definition keyed :: "bytes \<Rightarrow> u64 \<Rightarrow> CipherState" where
  "keyed k n = \<lparr>cs_key = k, cs_nonce = n, cs_hasKey = True, cs_aead = Some k\<rparr>"

lemma InitializeKey_keyed:
  "aead_ok C \<Longrightarrow> length k = KeyLen \<Longrightarrow> length (cs_key cs) = KeyLen \<Longrightarrow> InitializeKey C k cs = (Inr (), keyed k 0)"
  by (simp add: InitializeKey_def aead_okD KeyLen_def keyed_def)

lemma InitializeKey_empty: "InitializeKey C [] cs = (Inr (), CipherState_zero)"
  by (simp add: InitializeKey_def CipherState_zero_def)

lemma EncryptWithAd_keyed:
  "n \<noteq> MaxUint64 \<Longrightarrow> EncryptWithAd C ad p (keyed k n) = (Inr (aead_seal C k (formatNonce n) p ad), keyed k (n + 1))"
  by (simp add: EncryptWithAd_def keyed_def)

lemma DecryptWithAd_keyed:
  "n \<noteq> MaxUint64 \<Longrightarrow> aead_open C k (formatNonce n) c ad = Inr p \<Longrightarrow>
   DecryptWithAd C ad c (keyed k n) = (Inr p, keyed k (n + 1))"
  by (simp add: DecryptWithAd_def keyed_def)

subsection \<open>An ordered channel\<close>

text \<open>
  Running an operation over a list of messages with their associated data, stopping at the
  first error.
\<close>

fun run_all :: "('a \<Rightarrow> 'm \<Rightarrow> ('s, 'c) procedure) \<Rightarrow> ('a \<times> 'm) list \<Rightarrow> ('s, ('a \<times> 'c) list) procedure" where
  "run_all act [] = return []"
| "run_all act ((ad, m) # ms) =
     andThen (act ad m) (\<lambda>c. andThen (run_all act ms) (\<lambda>cs. return ((ad, c) # cs)))"

locale ordered_channel =
  fixes enc :: "'a \<Rightarrow> 'm \<Rightarrow> ('s, 'c) procedure"
    and dec :: "'a \<Rightarrow> 'c \<Rightarrow> ('s, 'm) procedure"
    and synced :: "'s \<Rightarrow> 's \<Rightarrow> bool"
  assumes in_step: "synced s r \<Longrightarrow> enc ad m s = (Inr c, s') \<Longrightarrow> \<exists>r'. dec ad c r = (Inr m, r') \<and> synced s' r'"
begin

lemma delivers:
  "synced s r \<Longrightarrow> run_all enc ms s = (Inr cs, s') \<Longrightarrow> \<exists>r'. run_all dec cs r = (Inr ms, r') \<and> synced s' r'"
proof (induction ms arbitrary: s r cs s')
  case Nil
  then show ?case by (auto simp: basic_eq_Inr)
next
  case (Cons am ms)
  obtain ad m where am: "am = (ad, m)" by fastforce
  with Cons.prems obtain c s1 cs1 where
    1: "enc ad m s = (Inr c, s1)" "run_all enc ms s1 = (Inr cs1, s')" "cs = (ad, c) # cs1"
    by (auto simp: success_iff)
  obtain r1 where r1: "dec ad c r = (Inr m, r1)" "synced s1 r1" using in_step [OF Cons.prems(1) 1(1)] by blast
  obtain r2 where "run_all dec cs1 r1 = (Inr ms, r2)" "synced s' r2" using Cons.IH [OF r1(2) 1(2)] by blast
  with r1(1) show ?case by (auto simp: 1(3) am)
qed

end

definition same_cipher :: "noise_crypto \<Rightarrow> CipherState \<Rightarrow> CipherState \<Rightarrow> bool" where
  "same_cipher C s r \<longleftrightarrow> aead_ok C \<and> (\<exists>k n. length k = KeyLen \<and> s = keyed k n \<and> r = keyed k n)"

interpretation chan: ordered_channel "EncryptWithAd C" "DecryptWithAd C" "same_cipher C" for C
proof
  fix s r s' :: CipherState and ad m c
  assume *: "same_cipher C s r" "EncryptWithAd C ad m s = (Inr c, s')"
  then obtain k n where k: "aead_ok C" "length k = KeyLen" "s = keyed k n" "r = keyed k n"
    by (auto simp: same_cipher_def)
  have n: "n \<noteq> MaxUint64" using *(2) k(3) by (auto simp: EncryptWithAd_def keyed_def)
  then have "c = aead_seal C k (formatNonce n) m ad" "s' = keyed k (n + 1)"
    using *(2) by (simp_all add: k(3) EncryptWithAd_keyed)
  then have "DecryptWithAd C ad c r = (Inr m, s')"
    using k n by (simp add: DecryptWithAd_keyed aead_okD)
  then show "\<exists>r'. DecryptWithAd C ad c r = (Inr m, r') \<and> same_cipher C s' r'"
    using k \<open>s' = keyed k (n + 1)\<close> by (auto simp: same_cipher_def)
qed

lemma run_all_EncryptWithAd:
  assumes "unat n + length ms < 2 ^ 64"
  shows "run_all (EncryptWithAd C) ms (keyed k n) =
    (Inr (map (\<lambda>(i, ad, p). (ad, aead_seal C k (formatNonce (n + of_nat i)) p ad)) (enumerate 0 ms)), keyed k (n + of_nat (length ms)))"
  using assms
proof (induction ms arbitrary: n)
  case Nil
  then show ?case by simp
next
  case (Cons am ms)
  obtain ad p where am: "am = (ad, p)" by fastforce
  have n: "n \<noteq> MaxUint64"
  proof
    assume "n = MaxUint64"
    with Cons.prems unat_MaxUint64 show False by simp
  qed
  then have "unat (n + 1) + length ms < 2 ^ 64" using Cons.prems by (simp add: unat_next_nonce)
  note IH = Cons.IH [OF this]
  have "enumerate (Suc 0) ms = map (\<lambda>(i, x). (Suc i, x)) (enumerate 0 ms)"
    by (simp add: enumerate_eq_zip map_zip_map [symmetric] zip_map1 [symmetric] map_Suc_upt)
  then show ?case
    using IH n by (simp add: am EncryptWithAd_keyed comp_def split_def ac_simps)
qed

subsection \<open>States a cipher can be in\<close>

inductive cipher_reach :: "noise_crypto \<Rightarrow> CipherState \<Rightarrow> bool" for C where
  zero: "cipher_reach C CipherState_zero"
| init: "cipher_reach C cs \<Longrightarrow> cipher_reach C (snd (InitializeKey C key cs))"
| set: "cipher_reach C cs \<Longrightarrow> cipher_reach C (snd (SetNonce n cs))"
| enc: "cipher_reach C cs \<Longrightarrow> cipher_reach C (snd (EncryptWithAd C ad p cs))"
| dec: "cipher_reach C cs \<Longrightarrow> cipher_reach C (snd (DecryptWithAd C ad c cs))"
| rekey: "cipher_reach C cs \<Longrightarrow> cipher_reach C (snd (Rekey C cs))"

lemma cipher_reach_wf: "cipher_reach C cs \<Longrightarrow> cipher_wf cs"
proof (induction rule: cipher_reach.induct)
  case (set cs n)
  then show ?case by (simp add: SetNonce_def cipher_wf_def)
qed (auto intro: cipher_wf_zero InitializeKey_wf EncryptWithAd_wf DecryptWithAd_wf Rekey_wf prod.collapse [symmetric])

subsection \<open>A concrete instance of the external packages\<close>

text \<open>
  Functions of the right shape that satisfy the hypotheses, to show that these can hold. They
  are not cryptography.
\<close>

definition toy_digest :: "bytes \<Rightarrow> byte" where
  "toy_digest d = foldr (\<lambda>b acc. 31 * acc + b + 7) d 0"

definition toy_seal :: "bytes \<Rightarrow> bytes \<Rightarrow> bytes \<Rightarrow> bytes \<Rightarrow> bytes" where
  "toy_seal k n p a = p @ replicate Overhead (toy_digest (k @ n @ p @ a))"

definition toy_crypto :: noise_crypto where
  "toy_crypto =
     \<lparr>aead_new = (\<lambda>k. Inr ()),
      aead_seal = toy_seal,
      aead_open = (\<lambda>k n c a. let p = take (length c - Overhead) c
                             in if c = toy_seal k n p a then Inr p else Inl (Errorf ''message authentication failed'')),
      blake2s256 = (\<lambda>d. replicate HashLen (toy_digest d)),
      hkdf_block = (\<lambda>secret salt i. if i < 255 then Inr (replicate HashLen (toy_digest (secret @ salt) + of_nat i))
                                     else Inl (Errorf ''hkdf: entropy limit reached'')),
      x25519 = (\<lambda>s p. Inr (map2 (XOR) s p)),
      basepoint = replicate KeyLen 0\<rparr>"

lemma toy_aead_ok: "aead_ok toy_crypto"
  by (simp add: aead_ok_def toy_crypto_def toy_seal_def Let_def)

subsection \<open>Properties\<close>

text \<open>
  C29. Two cipher states with the same key and counter form a channel that delivers: as long as
  the 64-bit counter does not reach its maximum, every message is encrypted, and decrypting the
  ciphertexts in order on the other side gives back exactly the messages and the same counter.
\<close>

theorem transport_channel_delivers:
  assumes "aead_ok C" "length k = KeyLen" "unat n + length ms < 2 ^ 64"
  shows "\<exists>cts s'. run_all (EncryptWithAd C) ms (keyed k n) = (Inr cts, s') \<and>
                  run_all (DecryptWithAd C) cts (keyed k n) = (Inr ms, s')"
proof -
  obtain cts s' where e: "run_all (EncryptWithAd C) ms (keyed k n) = (Inr cts, s')"
    using run_all_EncryptWithAd [OF assms(3)] by blast
  have "same_cipher C (keyed k n) (keyed k n)" using assms by (auto simp: same_cipher_def)
  from chan.delivers [OF this e] show ?thesis using e by (auto simp: same_cipher_def)
qed

theorem transport_channel_delivers_witness:
  "\<exists>cts s'. run_all (EncryptWithAd toy_crypto) [([], [1, 2, 3]), ([9], [])] (keyed zero_key 41) = (Inr cts, s') \<and>
            run_all (DecryptWithAd toy_crypto) cts (keyed zero_key 41) = (Inr [([], [1, 2, 3]), ([9], [])], s')"
  by (rule transport_channel_delivers [OF toy_aead_ok]) (simp_all add: zero_key_def)

text \<open>
  C30. The nonces of one key never repeat: the \<open>i\<close>-th message is sealed with the encoding of
  counter \<open>n + i\<close>, these encodings are pairwise different 12-byte strings, and at the maximal
  counter both directions refuse to work and keep their state instead of wrapping around.
\<close>

theorem nonces_never_repeat:
  assumes "unat n + length ms < 2 ^ 64"
  shows "fst (run_all (EncryptWithAd C) ms (keyed k n)) =
           Inr (map (\<lambda>(i, ad, p). (ad, aead_seal C k (formatNonce (n + of_nat i)) p ad)) (enumerate 0 ms)) \<and>
         distinct (map (\<lambda>i. formatNonce (n + of_nat i)) [0..<length ms]) \<and>
         EncryptWithAd C ad p (keyed k MaxUint64) = (Inl (Errorf ''encrypt with ad: nonce exhausted''), keyed k MaxUint64) \<and>
         DecryptWithAd C ad p (keyed k MaxUint64) = (Inl (Errorf ''decrypt with ad: nonce exhausted''), keyed k MaxUint64)"
proof -
  have "inj_on (of_nat :: nat \<Rightarrow> u64) {0..<length ms}"
    using assms by (intro inj_onI) (simp add: of_nat_eq_iff word_of_nat_eq_iff take_bit_nat_eq_self)
  then have "distinct (map (\<lambda>i. formatNonce (n + of_nat i)) [0..<length ms])"
    by (simp add: distinct_map inj_on_def)
  then show ?thesis
    using run_all_EncryptWithAd [OF assms, of C k] by (simp add: EncryptWithAd_def DecryptWithAd_def keyed_def)
qed

theorem nonces_never_repeat_witness:
  "distinct (map (\<lambda>i. formatNonce (7 + of_nat i)) [0..<length [([], [1]), ([], [2 :: byte])]])"
  using nonces_never_repeat [of 7 "[([], [1]), ([], [2])]"] by simp

text \<open>
  In every state a \<open>CipherState\<close> can reach by its methods, whatever they were called with and
  whether they succeeded, \<open>hasKey\<close> implies a live AEAD instance: encrypting, decrypting and
  rekeying never dereference a nil AEAD, and a failed decryption changes nothing.
\<close>

lemma cipher_never_nil:
  assumes "cipher_reach C cs"
  shows "cipher_wf cs \<and> fst (EncryptWithAd C ad p cs) \<noteq> Inl nil_aead \<and> fst (DecryptWithAd C ad c cs) \<noteq> Inl nil_aead \<and>
         fst (Rekey C cs) \<noteq> Inl nil_aead \<and> (\<forall>e cs'. DecryptWithAd C ad c cs = (Inl e, cs') \<longrightarrow> cs' = cs)"
proof -
  have wf: "cipher_wf cs" using assms by (rule cipher_reach_wf)
  have "fst (Rekey C cs) \<noteq> Inl nil_aead"
    using wf by (auto simp: cipher_wf_def Rekey_def nil_aead_def InitializeKey_def procedure_defs Let_def KeyLen_def
        split: option.splits sum.splits prod.splits if_splits)
  with wf show ?thesis
    by (auto simp: cipher_wf_def EncryptWithAd_def DecryptWithAd_def nil_aead_def Let_def split: option.splits sum.splits)
qed

lemma cipher_never_nil_witness:
  "cs_hasKey (snd (InitializeKey toy_crypto zero_key CipherState_zero)) \<and>
   fst (EncryptWithAd toy_crypto [] [1] (snd (InitializeKey toy_crypto zero_key CipherState_zero))) \<noteq> Inl nil_aead"
proof -
  have "cipher_reach toy_crypto (snd (InitializeKey toy_crypto zero_key CipherState_zero))"
    by (intro cipher_reach.intros)
  from cipher_never_nil [OF this] show ?thesis
    by (simp add: InitializeKey_keyed toy_aead_ok zero_key_def CipherState_zero_def keyed_def)
qed

end
