(* ===== verification/Handshake.thy ===== *)
theory Handshake
  imports Cipher
begin

text \<open>
  \<open>pkg/noise/handshake_state.go\<close>, the two-message handshake, and the key helpers of
  \<open>pkg/crypto/keys.go\<close>. Key arrays are byte lists of length 32. The result of reading 32 bytes
  from the random source is the argument \<open>rnd\<close> of the operations that may generate an
  ephemeral key.
\<close>

subsection \<open>Keys\<close>

definition clampScalar :: "bytes \<Rightarrow> bytes" where
  "clampScalar s = (let s1 = s[0 := s ! 0 AND 248]; s2 = s1[31 := s1 ! 31 AND 127] in s2[31 := s2 ! 31 OR 64])"

definition publicFromPrivate :: "noise_crypto \<Rightarrow> bytes \<Rightarrow> go_error + bytes" where
  "publicFromPrivate C priv =
     (case x25519 C (clampScalar priv) (basepoint C) of
        Inl e \<Rightarrow> Inl (Wrapf ''public from private: x25519'' e)
      | Inr raw \<Rightarrow> Inr (copy_bytes zero_key raw))"

definition dh :: "noise_crypto \<Rightarrow> bytes \<Rightarrow> bytes \<Rightarrow> go_error + bytes" where
  "dh C localPrivate remotePublic =
     (case x25519 C (clampScalar localPrivate) remotePublic of
        Inl e \<Rightarrow> Inl (Wrapf ''dh: x25519'' e)
      | Inr raw \<Rightarrow> Inr (copy_bytes zero_key raw))"

subsection \<open>HandshakeState\<close>

text \<open>The bytes of the string constant \<open>Noise_IK_25519_ChaChaPoly_BLAKE2s\<close>.\<close>

definition ProtocolName :: bytes where
  "ProtocolName = map of_char ''Noise_IK_25519_ChaChaPoly_BLAKE2s''"

type_synonym Role = int

definition Initiator :: Role where "Initiator = 0"
definition Responder :: Role where "Responder = 1"

record HandshakeState =
  hs_ss :: SymmetricState
  hs_role :: Role
  hs_s :: bytes
  hs_e :: bytes
  hs_rs :: bytes
  hs_re :: bytes
  hs_hasE :: bool
  hs_hasRE :: bool
  hs_psk :: bytes

definition on_ss :: "(SymmetricState, 'a) procedure \<Rightarrow> (HandshakeState, 'a) procedure" where
  "on_ss = on_field hs_ss (\<lambda>ss hs. hs\<lparr>hs_ss := ss\<rparr>)"

definition new_handshake :: "noise_crypto \<Rightarrow> (HandshakeState, unit) procedure" where
  "new_handshake C =
     andThen (wrap ''new handshake state: initialize symmetric state'' (on_ss (InitializeSymmetric C ProtocolName))) (\<lambda>_.
     andThen (reads (\<lambda>hs. hs)) (\<lambda>hs.
     andThen (wrap ''new handshake state: derive local static public key'' (result (publicFromPrivate C (hs_s hs)))) (\<lambda>localPub.
     if hs_role hs = Initiator
     then andThen (on_ss (MixHash C localPub)) (\<lambda>_. on_ss (MixHash C (hs_rs hs)))
     else andThen (on_ss (MixHash C (hs_rs hs))) (\<lambda>_. on_ss (MixHash C localPub)))))"

definition NewHandshakeState :: "noise_crypto \<Rightarrow> Role \<Rightarrow> bytes \<Rightarrow> bytes \<Rightarrow> bytes \<Rightarrow> go_error + HandshakeState" where
  "NewHandshakeState C role localStatic remoteStatic psk =
     (if role \<noteq> Initiator \<and> role \<noteq> Responder then
        Inl (Errorf (''new handshake state: invalid role '' @ Itoa role))
      else if 0 < length psk \<and> length psk \<noteq> KeyLen then
        Inl (Errorf (''new handshake state: optional psk must be '' @ Itoa (int KeyLen) @ '' bytes''))
      else
        (case new_handshake C
                \<lparr>hs_ss = SymmetricState_zero, hs_role = role, hs_s = localStatic, hs_e = zero_key,
                 hs_rs = remoteStatic, hs_re = zero_key, hs_hasE = False, hs_hasRE = False,
                 hs_psk = cloneBytes psk\<rparr> of
           (Inl e, _) \<Rightarrow> Inl e
         | (Inr _, hs) \<Rightarrow> Inr hs))"

definition SetEphemeral :: "bytes \<Rightarrow> HandshakeState \<Rightarrow> HandshakeState" where
  "SetEphemeral priv hs = hs\<lparr>hs_e := priv, hs_hasE := True\<rparr>"

definition GenerateEphemeral :: "go_error + bytes \<Rightarrow> (HandshakeState, unit) procedure" where
  "GenerateEphemeral rnd =
     andThen (wrap ''generate ephemeral: read random bytes'' (result rnd)) (\<lambda>priv.
     modifies (\<lambda>hs. hs\<lparr>hs_e := clampScalar priv, hs_hasE := True\<rparr>))"

definition hasPSK :: "HandshakeState \<Rightarrow> bool" where
  "hasPSK hs \<longleftrightarrow> 0 < length (hs_psk hs)"

definition mixPSK :: "noise_crypto \<Rightarrow> (HandshakeState, unit) procedure" where
  "mixPSK C =
     andThen (reads hs_psk) (\<lambda>psk. if length psk = 0 then return () else on_ss (MixKeyAndHash C psk))"

text \<open>\<open>if hs.hasPSK() { hs.ss.MixKey(pub) }\<close>, the same lines in all four message functions.\<close>

definition psk_mix_key :: "noise_crypto \<Rightarrow> string \<Rightarrow> bytes \<Rightarrow> (HandshakeState, unit) procedure" where
  "psk_mix_key C ctx pub =
     andThen (reads hasPSK) (\<lambda>b. if b then wrap ctx (on_ss (MixKey C pub)) else return ())"

text \<open>\<open>dh\<close> of two keys and \<open>MixKey\<close> of the result, each with its error context.\<close>

definition dh_mix_key ::
  "noise_crypto \<Rightarrow> string \<Rightarrow> string \<Rightarrow> (HandshakeState \<Rightarrow> bytes) \<Rightarrow> (HandshakeState \<Rightarrow> bytes) \<Rightarrow> (HandshakeState, unit) procedure" where
  "dh_mix_key C ctx_dh ctx_mix priv pub =
     andThen (reads (\<lambda>hs. dh C (priv hs) (pub hs))) (\<lambda>r.
     andThen (wrap ctx_dh (result r)) (\<lambda>k. wrap ctx_mix (on_ss (MixKey C k))))"

definition WriteMessageA :: "noise_crypto \<Rightarrow> go_error + bytes \<Rightarrow> bytes \<Rightarrow> (HandshakeState, bytes) procedure" where
  "WriteMessageA C rnd payload =
     andThen (reads hs_role) (\<lambda>role.
     if role \<noteq> Initiator then raise (Errorf ''write message A: invalid role'') else
     andThen (reads hs_hasE) (\<lambda>hasE.
     andThen (if hasE then return () else wrap ''write message A: generate ephemeral'' (GenerateEphemeral rnd)) (\<lambda>_.
     andThen (reads hs_e) (\<lambda>e.
     andThen (wrap ''write message A: derive ephemeral public key'' (result (publicFromPrivate C e))) (\<lambda>ePub.
     andThen (on_ss (MixHash C ePub)) (\<lambda>_.
     andThen (psk_mix_key C ''write message A: mix key for psk mode'' ePub) (\<lambda>_.
     andThen (dh_mix_key C ''write message A: compute dh es'' ''write message A: mix key es'' hs_e hs_rs) (\<lambda>_.
     andThen (reads hs_s) (\<lambda>s.
     andThen (wrap ''write message A: derive static public key'' (result (publicFromPrivate C s))) (\<lambda>sPub.
     andThen (wrap ''write message A: encrypt static key'' (on_ss (EncryptAndHash C sPub))) (\<lambda>encryptedStatic.
     andThen (dh_mix_key C ''write message A: compute dh ss'' ''write message A: mix key ss'' hs_s hs_rs) (\<lambda>_.
     andThen (wrap ''write message A: encrypt payload'' (on_ss (EncryptAndHash C payload))) (\<lambda>encryptedPayload.
     return (ePub @ encryptedStatic @ encryptedPayload))))))))))))))"

definition ReadMessageA :: "noise_crypto \<Rightarrow> bytes \<Rightarrow> (HandshakeState, bytes) procedure" where
  "ReadMessageA C message =
     andThen (reads hs_role) (\<lambda>role.
     if role \<noteq> Responder then raise (Errorf ''read message A: invalid role'')
     else if length message < KeyLen then raise (Errorf ''read message A: message too short'') else
     andThen (modifies (\<lambda>hs. hs\<lparr>hs_re := copy_bytes (hs_re hs) (take KeyLen message), hs_hasRE := True\<rparr>)) (\<lambda>_.
     andThen (reads hs_re) (\<lambda>re.
     andThen (on_ss (MixHash C re)) (\<lambda>_.
     andThen (psk_mix_key C ''read message A: mix key for psk mode'' re) (\<lambda>_.
     andThen (dh_mix_key C ''read message A: compute dh es'' ''read message A: mix key es'' hs_s hs_re) (\<lambda>_.
     andThen (reads (\<lambda>hs. encryptedLen KeyLen (HasKey (ss_cs (hs_ss hs))))) (\<lambda>encryptedStaticLen.
     if length (drop KeyLen message) < encryptedStaticLen
     then raise (Errorf ''read message A: missing encrypted static key'') else
     andThen (wrap ''read message A: decrypt remote static key''
                (on_ss (DecryptAndHash C (take encryptedStaticLen (drop KeyLen message))))) (\<lambda>remoteStatic.
     if length remoteStatic \<noteq> KeyLen
     then raise (Errorf (''read message A: decrypted static key length '' @ Itoa (int (length remoteStatic)))) else
     andThen (reads hs_rs) (\<lambda>rs.
     if remoteStatic \<noteq> rs then raise (Errorf ''read message A: remote static key mismatch'') else
     andThen (dh_mix_key C ''read message A: compute dh ss'' ''read message A: mix key ss'' hs_s hs_rs) (\<lambda>_.
     wrap ''read message A: decrypt payload''
       (on_ss (DecryptAndHash C (drop (KeyLen + encryptedStaticLen) message)))))))))))))"

definition WriteMessageB :: "noise_crypto \<Rightarrow> go_error + bytes \<Rightarrow> bytes \<Rightarrow> (HandshakeState, bytes) procedure" where
  "WriteMessageB C rnd payload =
     andThen (reads (\<lambda>hs. hs)) (\<lambda>hs.
     if hs_role hs \<noteq> Responder then raise (Errorf ''write message B: invalid role'')
     else if \<not> hs_hasRE hs then raise (Errorf ''write message B: message A has not been read'') else
     andThen (if hs_hasE hs then return () else wrap ''write message B: generate ephemeral'' (GenerateEphemeral rnd)) (\<lambda>_.
     andThen (reads hs_e) (\<lambda>e.
     andThen (wrap ''write message B: derive ephemeral public key'' (result (publicFromPrivate C e))) (\<lambda>ePub.
     andThen (on_ss (MixHash C ePub)) (\<lambda>_.
     andThen (psk_mix_key C ''write message B: mix key for psk mode'' ePub) (\<lambda>_.
     andThen (dh_mix_key C ''write message B: compute dh ee'' ''write message B: mix key ee'' hs_e hs_re) (\<lambda>_.
     andThen (dh_mix_key C ''write message B: compute dh se'' ''write message B: mix key se'' hs_e hs_rs) (\<lambda>_.
     andThen (wrap ''write message B: mix psk'' (mixPSK C)) (\<lambda>_.
     andThen (wrap ''write message B: encrypt payload'' (on_ss (EncryptAndHash C payload))) (\<lambda>encryptedPayload.
     return (ePub @ encryptedPayload)))))))))))"

definition ReadMessageB :: "noise_crypto \<Rightarrow> bytes \<Rightarrow> (HandshakeState, bytes) procedure" where
  "ReadMessageB C message =
     andThen (reads (\<lambda>hs. hs)) (\<lambda>hs.
     if hs_role hs \<noteq> Initiator then raise (Errorf ''read message B: invalid role'')
     else if \<not> hs_hasE hs then raise (Errorf ''read message B: message A has not been written'')
     else if length message < KeyLen then raise (Errorf ''read message B: message too short'') else
     andThen (modifies (\<lambda>hs. hs\<lparr>hs_re := copy_bytes (hs_re hs) (take KeyLen message), hs_hasRE := True\<rparr>)) (\<lambda>_.
     andThen (reads hs_re) (\<lambda>re.
     andThen (on_ss (MixHash C re)) (\<lambda>_.
     andThen (psk_mix_key C ''read message B: mix key for psk mode'' re) (\<lambda>_.
     andThen (dh_mix_key C ''read message B: compute dh ee'' ''read message B: mix key ee'' hs_e hs_re) (\<lambda>_.
     andThen (dh_mix_key C ''read message B: compute dh se'' ''read message B: mix key se'' hs_s hs_re) (\<lambda>_.
     andThen (wrap ''read message B: mix psk'' (mixPSK C)) (\<lambda>_.
     wrap ''read message B: decrypt payload'' (on_ss (DecryptAndHash C (drop KeyLen message)))))))))))"

definition Transport :: "noise_crypto \<Rightarrow> HandshakeState \<Rightarrow> go_error + CipherState \<times> CipherState" where
  "Transport C hs =
     (case SymmetricState_Split C (hs_ss hs) of
        Inl e \<Rightarrow> Inl (Wrapf ''transport: split symmetric state'' e)
      | Inr (c1, c2) \<Rightarrow> if hs_role hs = Initiator then Inr (c1, c2) else Inr (c2, c1))"

definition HandshakeHash :: "HandshakeState \<Rightarrow> bytes" where
  "HandshakeHash hs = SymmetricState_HandshakeHash (hs_ss hs)"

subsection \<open>What the handshake relies on\<close>

text \<open>
  Documented behaviour of X25519: a public key can be derived from every scalar, and the shared
  secret of two honestly derived key pairs is computed without error and is the same from both
  sides.
\<close>

definition dh_ok :: "noise_crypto \<Rightarrow> bool" where
  "dh_ok C \<longleftrightarrow>
     (\<forall>a. length a = KeyLen \<longrightarrow> (\<exists>A. x25519 C (clampScalar a) (basepoint C) = Inr A \<and> length A = KeyLen)) \<and>
     (\<forall>a b A B. length a = KeyLen \<longrightarrow> length b = KeyLen \<longrightarrow>
        x25519 C (clampScalar a) (basepoint C) = Inr A \<longrightarrow> x25519 C (clampScalar b) (basepoint C) = Inr B \<longrightarrow>
        (\<exists>k. length k = KeyLen \<and> x25519 C (clampScalar a) B = Inr k \<and> x25519 C (clampScalar b) A = Inr k))"

lemma public_ok:
  assumes "dh_ok C" "length a = KeyLen"
  obtains A where "publicFromPrivate C a = Inr A" "length A = KeyLen"
  using assms by (auto simp: dh_ok_def publicFromPrivate_def zero_key_def dest!: spec [where x = a])

lemma length_zero_key [simp]: "length zero_key = KeyLen"
  by (simp add: zero_key_def)

lemma publicFromPrivate_length: "publicFromPrivate C a = Inr A \<Longrightarrow> length A = KeyLen"
  by (auto simp: publicFromPrivate_def split: sum.splits)

lemma publicFromPrivate_raw:
  assumes "dh_ok C" "length a = KeyLen" "publicFromPrivate C a = Inr A"
  shows "x25519 C (clampScalar a) (basepoint C) = Inr A"
proof -
  obtain A' where "x25519 C (clampScalar a) (basepoint C) = Inr A'" "length A' = KeyLen"
    using assms(1,2) by (auto simp: dh_ok_def)
  with assms(3) show ?thesis by (simp add: publicFromPrivate_def)
qed

lemma dh_agree:
  assumes "dh_ok C" "length a = KeyLen" "length b = KeyLen"
    "publicFromPrivate C a = Inr A" "publicFromPrivate C b = Inr B"
  obtains k where "dh C a B = Inr k" "dh C b A = Inr k" "length k = KeyLen"
proof -
  note raw = publicFromPrivate_raw [OF assms(1,2,4)] publicFromPrivate_raw [OF assms(1,3,5)]
  obtain k where "length k = KeyLen" "x25519 C (clampScalar a) B = Inr k" "x25519 C (clampScalar b) A = Inr k"
    using assms(1-3) raw unfolding dh_ok_def by blast
  then show ?thesis by (intro that [of k]) (simp_all add: dh_def)
qed

subsection \<open>Steps of the symmetric state\<close>

lemma MixHash_run: "MixHash C d ss = (Inr (), ss\<lparr>ss_h := copy_bytes (ss_h ss) (blake2s256 C (ss_h ss @ d))\<rparr>)"
  by (simp add: MixHash_def)

lemma MixHash_wf: "MixHash C d ss = (r, ss') \<Longrightarrow> symmetric_wf ss \<Longrightarrow> symmetric_wf ss'"
  by (auto simp: MixHash_run symmetric_wf_def)

lemma hkdf_loop_ok:
  assumes "aead_ok C"
  shows "i + n \<le> 255 \<Longrightarrow>
    \<exists>bs. hkdf_loop C ck input i n = Inr bs \<and> length bs = n \<and> (\<forall>b \<in> set bs. length b = HashLen)"
proof (induction n arbitrary: i)
  case (Suc n)
  then have "Suc i + n \<le> 255" by simp
  from Suc.IH [OF this]
  obtain bs where "hkdf_loop C ck input (Suc i) n = Inr bs" "length bs = n" "\<forall>b \<in> set bs. length b = HashLen"
    by blast
  moreover obtain b where "hkdf_block C input ck i = Inr b" "length b = HashLen"
    using aead_okD(5) [OF assms, of i] Suc.prems by fastforce
  ultimately show ?case by simp
qed simp

lemma hkdfMaterial_ok:
  assumes "aead_ok C" "0 < parts" "parts \<le> 255"
  obtains bs where "hkdfMaterial C ck input parts = Inr bs" "length bs = nat parts" "\<And>i. i < nat parts \<Longrightarrow> length (bs ! i) = KeyLen"
proof -
  have "0 + nat parts \<le> 255" using assms(3) by simp
  from hkdf_loop_ok [OF assms(1) this, of ck input]
  obtain bs where "hkdf_loop C ck input 0 (nat parts) = Inr bs" "length bs = nat parts" "\<forall>b \<in> set bs. length b = HashLen"
    by blast
  then show ?thesis using assms(2) by (intro that [of bs]) (auto simp: hkdfMaterial_def HashLen_def KeyLen_def)
qed

text \<open>A keyed symmetric state: the handshake's cipher has a fresh key at counter 0.\<close>

definition keyed_state :: "SymmetricState \<Rightarrow> u64 \<Rightarrow> bool" where
  "keyed_state ss n \<longleftrightarrow> symmetric_wf ss \<and> (\<exists>k. length k = KeyLen \<and> ss_cs ss = keyed k n)"

lemma keyed_wf: "length k = KeyLen \<Longrightarrow> cipher_wf (keyed k n)"
  by (simp add: cipher_wf_def keyed_def)

lemma MixKey_ok:
  assumes "aead_ok C" "symmetric_wf ss"
  obtains ss' where "MixKey C x ss = (Inr (), ss')" "keyed_state ss' 0"
proof -
  obtain bs where bs: "hkdfMaterial C (ss_ck ss) x 2 = Inr bs" "length (bs ! 0) = KeyLen" "length (bs ! 1) = KeyLen"
    by (rule hkdfMaterial_ok [OF assms(1), of 2 "ss_ck ss" x]) auto
  have "MixKey C x ss = (Inr (), ss\<lparr>ss_ck := bs ! 0, ss_cs := keyed (bs ! 1) 0\<rparr>)"
    using assms bs by (simp add: MixKey_def on_cs_def InitializeKey_keyed symmetric_wf_def cipher_wf_def HashLen_def KeyLen_def)
  moreover have "keyed_state (ss\<lparr>ss_ck := bs ! 0, ss_cs := keyed (bs ! 1) 0\<rparr>) 0"
    using assms(2) bs keyed_wf by (auto simp: keyed_state_def symmetric_wf_def HashLen_def KeyLen_def)
  ultimately show ?thesis using that by blast
qed

lemma MixKeyAndHash_ok:
  assumes "aead_ok C" "symmetric_wf ss"
  obtains ss' where "MixKeyAndHash C x ss = (Inr (), ss')" "keyed_state ss' 0"
proof -
  obtain bs where bs: "hkdfMaterial C (ss_ck ss) x 3 = Inr bs" "length (bs ! 0) = KeyLen" "length (bs ! 2) = KeyLen"
    by (rule hkdfMaterial_ok [OF assms(1), of 3 "ss_ck ss" x]) auto
  let ?h = "copy_bytes (ss_h ss) (blake2s256 C (ss_h ss @ bs ! 1))"
  have "MixKeyAndHash C x ss = (Inr (), ss\<lparr>ss_ck := bs ! 0, ss_h := ?h, ss_cs := keyed (bs ! 2) 0\<rparr>)"
    using assms bs
    by (simp add: MixKeyAndHash_def on_cs_def InitializeKey_keyed symmetric_wf_def cipher_wf_def MixHash_run HashLen_def KeyLen_def)
  moreover have "keyed_state (ss\<lparr>ss_ck := bs ! 0, ss_h := ?h, ss_cs := keyed (bs ! 2) 0\<rparr>) 0"
    using assms(2) bs keyed_wf by (auto simp: keyed_state_def symmetric_wf_def HashLen_def KeyLen_def)
  ultimately show ?thesis using that by blast
qed

lemma encrypt_decrypt:
  assumes "aead_ok C" "keyed_state ss n" "n \<noteq> MaxUint64"
  obtains c ss' where "EncryptAndHash C p ss = (Inr c, ss')" "DecryptAndHash C c ss = (Inr p, ss')"
    "length c = length p + Overhead" "keyed_state ss' (n + 1)"
proof -
  obtain k where k: "length k = KeyLen" "ss_cs ss = keyed k n" using assms(2) by (auto simp: keyed_state_def)
  let ?c = "aead_seal C k (formatNonce n) p (ss_h ss)"
  let ?ss = "ss\<lparr>ss_cs := keyed k (n + 1), ss_h := copy_bytes (ss_h ss) (blake2s256 C (ss_h ss @ ?c))\<rparr>"
  have "EncryptAndHash C p ss = (Inr ?c, ?ss)" "DecryptAndHash C ?c ss = (Inr p, ?ss)"
    using k assms(3) aead_okD(2) [OF assms(1) k(1), of "formatNonce n" p "ss_h ss"]
    by (simp_all add: EncryptAndHash_def DecryptAndHash_def on_cs_def EncryptWithAd_keyed DecryptWithAd_keyed MixHash_run)
  moreover have "length ?c = length p + Overhead" by (simp add: aead_okD [OF assms(1)] k)
  moreover have "keyed_state ?ss (n + 1)"
    using assms(2) k keyed_wf by (auto simp: keyed_state_def symmetric_wf_def)
  ultimately show ?thesis using that by blast
qed

lemma nonce0: "0 \<noteq> MaxUint64"
  by (simp add: MaxUint64_def)

lemma keyed_state_wf: "keyed_state ss n \<Longrightarrow> symmetric_wf ss"
  by (simp add: keyed_state_def)

lemma keyed_state_HasKey: "keyed_state ss n \<Longrightarrow> HasKey (ss_cs ss)"
  by (auto simp: keyed_state_def HasKey_def keyed_def)

subsection \<open>Steps of the handshake\<close>

lemma dh_mix_key_run:
  "dh C (priv hs) (pub hs) = Inr k \<Longrightarrow> MixKey C k (hs_ss hs) = (Inr (), ss') \<Longrightarrow>
   dh_mix_key C c1 c2 priv pub hs = (Inr (), hs\<lparr>hs_ss := ss'\<rparr>)"
  by (simp add: dh_mix_key_def on_ss_def)

lemma psk_mix_key_ok:
  assumes "aead_ok C" "symmetric_wf ss"
  obtains ss' where "symmetric_wf ss'"
    "\<And>ctx hs. hs_ss hs = ss \<Longrightarrow> hs_psk hs = psk \<Longrightarrow> psk_mix_key C ctx pub hs = (Inr (), hs\<lparr>hs_ss := ss'\<rparr>)"
proof (cases "psk = []")
  case True
  show ?thesis by (rule that [of ss]) (use True assms(2) in \<open>auto simp: psk_mix_key_def hasPSK_def\<close>)
next
  case False
  obtain ss' where ss': "MixKey C pub ss = (Inr (), ss')" "keyed_state ss' 0" using MixKey_ok [OF assms] .
  show ?thesis
    by (rule that [of ss']) (use False ss' keyed_state_wf in \<open>auto simp: psk_mix_key_def hasPSK_def on_ss_def\<close>)
qed

lemma mixPSK_ok:
  assumes "aead_ok C" "keyed_state ss 0"
  obtains ss' where "keyed_state ss' 0"
    "\<And>hs. hs_ss hs = ss \<Longrightarrow> hs_psk hs = psk \<Longrightarrow> mixPSK C hs = (Inr (), hs\<lparr>hs_ss := ss'\<rparr>)"
proof (cases "psk = []")
  case True
  show ?thesis by (rule that [of ss]) (use True assms(2) in \<open>auto simp: mixPSK_def\<close>)
next
  case False
  obtain ss' where "MixKeyAndHash C psk ss = (Inr (), ss')" "keyed_state ss' 0"
    using MixKeyAndHash_ok [OF assms(1) keyed_state_wf [OF assms(2)]] .
  then show ?thesis by (intro that [of ss']) (use False in \<open>auto simp: mixPSK_def on_ss_def\<close>)
qed

text \<open>The two parties agree: complementary static keys, same transcript, same pre-shared key.\<close>

definition paired :: "noise_crypto \<Rightarrow> HandshakeState \<Rightarrow> HandshakeState \<Rightarrow> bool" where
  "paired C hI hR \<longleftrightarrow>
     hs_role hI = Initiator \<and> hs_role hR = Responder \<and> hs_ss hI = hs_ss hR \<and> symmetric_wf (hs_ss hI) \<and>
     length (hs_s hI) = KeyLen \<and> length (hs_s hR) = KeyLen \<and> length (hs_e hI) = KeyLen \<and>
     length (hs_re hI) = KeyLen \<and> length (hs_re hR) = KeyLen \<and> hs_psk hI = hs_psk hR \<and>
     publicFromPrivate C (hs_s hI) = Inr (hs_rs hR) \<and> publicFromPrivate C (hs_s hR) = Inr (hs_rs hI)"

lemma messageA_ok:
  assumes C: "aead_ok C" "dh_ok C" and pr: "paired C hI hR" and hasE: "hs_hasE hI"
  obtains m P ss' where "publicFromPrivate C (hs_e hI) = Inr P" "symmetric_wf ss'"
    "WriteMessageA C rnd p hI = (Inr m, hI\<lparr>hs_ss := ss'\<rparr>)"
    "ReadMessageA C m hR = (Inr p, hR\<lparr>hs_re := P, hs_hasRE := True, hs_ss := ss'\<rparr>)"
proof -
  note pr' = pr [unfolded paired_def]
  obtain P where P: "publicFromPrivate C (hs_e hI) = Inr P" "length P = KeyLen"
    using public_ok [OF C(2)] pr' by metis
  obtain es where es: "dh C (hs_e hI) (hs_rs hI) = Inr es" "dh C (hs_s hR) P = Inr es"
    using dh_agree [OF C(2), of "hs_e hI" "hs_s hR" P "hs_rs hI"] P pr' by metis
  obtain ds where ds: "dh C (hs_s hI) (hs_rs hI) = Inr ds" "dh C (hs_s hR) (hs_rs hR) = Inr ds"
    using dh_agree [OF C(2), of "hs_s hI" "hs_s hR" "hs_rs hR" "hs_rs hI"] pr' by metis
  obtain ss1 where ss1: "MixHash C P (hs_ss hR) = (Inr (), ss1)" "symmetric_wf ss1"
    using MixHash_run MixHash_wf pr' by metis
  obtain ss2 where ss2: "symmetric_wf ss2"
    "\<And>ctx hs. hs_ss hs = ss1 \<Longrightarrow> hs_psk hs = hs_psk hR \<Longrightarrow> psk_mix_key C ctx P hs = (Inr (), hs\<lparr>hs_ss := ss2\<rparr>)"
    using psk_mix_key_ok [OF C(1) ss1(2)] by metis
  obtain ss3 where ss3: "MixKey C es ss2 = (Inr (), ss3)" "keyed_state ss3 0" using MixKey_ok [OF C(1) ss2(1)] .
  obtain c1 ss4 where ss4: "EncryptAndHash C (hs_rs hR) ss3 = (Inr c1, ss4)" "DecryptAndHash C c1 ss3 = (Inr (hs_rs hR), ss4)"
    "length c1 = length (hs_rs hR) + Overhead" "keyed_state ss4 (0 + 1)"
    using encrypt_decrypt [OF C(1) ss3(2) nonce0] .
  obtain ss5 where ss5: "MixKey C ds ss4 = (Inr (), ss5)" "keyed_state ss5 0"
    using MixKey_ok [OF C(1) keyed_state_wf [OF ss4(4)]] .
  obtain c2 ss6 where ss6: "EncryptAndHash C p ss5 = (Inr c2, ss6)" "DecryptAndHash C c2 ss5 = (Inr p, ss6)" "keyed_state ss6 (0 + 1)"
    using encrypt_decrypt [OF C(1) ss5(2) nonce0] by metis
  have len: "length (hs_rs hR) = KeyLen" using pr' publicFromPrivate_length by blast
  have W: "WriteMessageA C rnd p hI = (Inr (P @ c1 @ c2), hI\<lparr>hs_ss := ss6\<rparr>)"
    using pr' hasE P es ds ss1 ss2 ss3 ss4 ss5 ss6
    by (simp add: WriteMessageA_def on_ss_def dh_mix_key_run)
  have R: "ReadMessageA C (P @ c1 @ c2) hR = (Inr p, hR\<lparr>hs_re := P, hs_hasRE := True, hs_ss := ss6\<rparr>)"
    using pr' P es ds ss1 ss2 ss3 ss4 ss5 ss6 len keyed_state_HasKey [OF ss3(2)]
    by (simp add: ReadMessageA_def on_ss_def dh_mix_key_run encryptedLen_def)
  show ?thesis using that [OF P(1) keyed_state_wf [OF ss6(3)] W R] .
qed

lemma messageB_ok:
  assumes C: "aead_ok C" "dh_ok C" and pr: "paired C hI hR"
    and hasE: "hs_hasE hI" "hs_hasE hR" "length (hs_e hR) = KeyLen"
    and re: "hs_hasRE hR" "publicFromPrivate C (hs_e hI) = Inr (hs_re hR)"
  obtains m P ss' where "publicFromPrivate C (hs_e hR) = Inr P" "keyed_state ss' 1"
    "WriteMessageB C rnd p hR = (Inr m, hR\<lparr>hs_ss := ss'\<rparr>)"
    "ReadMessageB C m hI = (Inr p, hI\<lparr>hs_re := P, hs_hasRE := True, hs_ss := ss'\<rparr>)"
proof -
  note pr' = pr [unfolded paired_def]
  obtain P where P: "publicFromPrivate C (hs_e hR) = Inr P" "length P = KeyLen"
    using public_ok [OF C(2) hasE(3)] .
  obtain ee where ee: "dh C (hs_e hR) (hs_re hR) = Inr ee" "dh C (hs_e hI) P = Inr ee"
    using dh_agree [OF C(2), of "hs_e hR" "hs_e hI" P "hs_re hR"] P pr' hasE re by metis
  obtain se where se: "dh C (hs_e hR) (hs_rs hR) = Inr se" "dh C (hs_s hI) P = Inr se"
    using dh_agree [OF C(2), of "hs_e hR" "hs_s hI" P "hs_rs hR"] P pr' hasE by metis
  obtain ss1 where ss1: "MixHash C P (hs_ss hR) = (Inr (), ss1)" "symmetric_wf ss1"
    using MixHash_run MixHash_wf pr' by metis
  obtain ss2 where ss2: "symmetric_wf ss2"
    "\<And>ctx hs. hs_ss hs = ss1 \<Longrightarrow> hs_psk hs = hs_psk hR \<Longrightarrow> psk_mix_key C ctx P hs = (Inr (), hs\<lparr>hs_ss := ss2\<rparr>)"
    using psk_mix_key_ok [OF C(1) ss1(2)] by metis
  obtain ss3 where ss3: "MixKey C ee ss2 = (Inr (), ss3)" "keyed_state ss3 0" using MixKey_ok [OF C(1) ss2(1)] .
  obtain ss4 where ss4: "MixKey C se ss3 = (Inr (), ss4)" "keyed_state ss4 0"
    using MixKey_ok [OF C(1) keyed_state_wf [OF ss3(2)]] .
  obtain ss5 where ss5: "keyed_state ss5 0"
    "\<And>hs. hs_ss hs = ss4 \<Longrightarrow> hs_psk hs = hs_psk hR \<Longrightarrow> mixPSK C hs = (Inr (), hs\<lparr>hs_ss := ss5\<rparr>)"
    using mixPSK_ok [OF C(1) ss4(2)] by metis
  obtain c ss6 where ss6: "EncryptAndHash C p ss5 = (Inr c, ss6)" "DecryptAndHash C c ss5 = (Inr p, ss6)" "keyed_state ss6 (0 + 1)"
    using encrypt_decrypt [OF C(1) ss5(1) nonce0] by metis
  have W: "WriteMessageB C rnd p hR = (Inr (P @ c), hR\<lparr>hs_ss := ss6\<rparr>)"
    using pr' hasE re P ee se ss1 ss2 ss3 ss4 ss5 ss6
    by (simp add: WriteMessageB_def on_ss_def dh_mix_key_run)
  have R: "ReadMessageB C (P @ c) hI = (Inr p, hI\<lparr>hs_re := P, hs_hasRE := True, hs_ss := ss6\<rparr>)"
    using pr' hasE P ee se ss1 ss2 ss3 ss4 ss5 ss6
    by (simp add: ReadMessageB_def on_ss_def dh_mix_key_run Initiator_def)
  show ?thesis using that [OF P(1) ss6(3) [simplified] W R] .
qed

lemma InitializeSymmetric_ok:
  "aead_ok C \<Longrightarrow> \<exists>ss. InitializeSymmetric C name SymmetricState_zero = (Inr (), ss) \<and> symmetric_wf ss"
  by (simp add: InitializeSymmetric_def on_cs_def InitializeKey_empty SymmetricState_zero_def symmetric_wf_def
      cipher_wf_zero aead_okD)

lemma NewHandshakeState_paired:
  assumes C: "aead_ok C" "dh_ok C" and len: "length sI = KeyLen" "length sR = KeyLen" "psk = [] \<or> length psk = KeyLen"
    and pub: "publicFromPrivate C sI = Inr pI" "publicFromPrivate C sR = Inr pR"
  obtains hI hR where "NewHandshakeState C Initiator sI pR psk = Inr hI" "NewHandshakeState C Responder sR pI psk = Inr hR"
    "\<And>eI eR. length eI = KeyLen \<Longrightarrow> paired C (SetEphemeral eI hI) (SetEphemeral eR hR)"
proof -
  obtain ss0 where ss0: "InitializeSymmetric C ProtocolName SymmetricState_zero = (Inr (), ss0)" "symmetric_wf ss0"
    using InitializeSymmetric_ok [OF C(1)] by blast
  obtain ss1 where ss1: "MixHash C pI ss0 = (Inr (), ss1)" "symmetric_wf ss1"
    using MixHash_run MixHash_wf ss0(2) by metis
  obtain ss2 where ss2: "MixHash C pR ss1 = (Inr (), ss2)" "symmetric_wf ss2"
    using MixHash_run MixHash_wf ss1(2) by metis
  let ?h = "\<lambda>role s rs. \<lparr>hs_ss = ss2, hs_role = role, hs_s = s, hs_e = zero_key, hs_rs = rs, hs_re = zero_key,
              hs_hasE = False, hs_hasRE = False, hs_psk = cloneBytes psk\<rparr>"
  have "NewHandshakeState C Initiator sI pR psk = Inr (?h Initiator sI pR)"
    using ss0 ss1 ss2 len pub by (auto simp: NewHandshakeState_def new_handshake_def on_ss_def)
  moreover have "NewHandshakeState C Responder sR pI psk = Inr (?h Responder sR pI)"
    using ss0 ss1 ss2 len pub
    by (auto simp: NewHandshakeState_def new_handshake_def on_ss_def Initiator_def Responder_def)
  moreover have "paired C (SetEphemeral eI (?h Initiator sI pR)) (SetEphemeral eR (?h Responder sR pI))"
    if "length eI = KeyLen" for eI eR
    using that len pub ss2 by (simp add: paired_def SetEphemeral_def)
  ultimately show ?thesis using that by blast
qed

lemma Split_ok:
  assumes "aead_ok C"
  obtains k1 k2 where "SymmetricState_Split C ss = Inr (keyed k1 0, keyed k2 0)" "length k1 = KeyLen" "length k2 = KeyLen"
proof -
  obtain bs where bs: "hkdfMaterial C (ss_ck ss) [] 2 = Inr bs" "length (bs ! 0) = KeyLen" "length (bs ! 1) = KeyLen"
    by (rule hkdfMaterial_ok [OF assms(1), of 2 "ss_ck ss" "[]"]) auto
  have "SymmetricState_Split C ss = Inr (keyed (bs ! 0) 0, keyed (bs ! 1) 0)"
    using bs by (simp add: SymmetricState_Split_def split_cipher_def InitializeKey_keyed assms CipherState_zero_def)
  with bs that show ?thesis by blast
qed

text \<open>A run of the whole handshake between two parties with fixed ephemeral keys.\<close>

definition handshake_run ::
  "noise_crypto \<Rightarrow> HandshakeState \<Rightarrow> HandshakeState \<Rightarrow> bytes \<Rightarrow> bytes \<Rightarrow>
   (bytes \<times> bytes \<times> HandshakeState \<times> HandshakeState) option" where
  "handshake_run C hI hR pA pB =
     (case WriteMessageA C (Inl (Errorf ''unused'')) pA hI of
        (Inr mA, hI1) \<Rightarrow>
          (case ReadMessageA C mA hR of
             (Inr qA, hR1) \<Rightarrow>
               (case WriteMessageB C (Inl (Errorf ''unused'')) pB hR1 of
                  (Inr mB, hR2) \<Rightarrow>
                    (case ReadMessageB C mB hI1 of
                       (Inr qB, hI2) \<Rightarrow> Some (qA, qB, hI2, hR2)
                     | _ \<Rightarrow> None)
                | _ \<Rightarrow> None)
           | _ \<Rightarrow> None)
      | _ \<Rightarrow> None)"

lemma handshake_run_ok:
  assumes C: "aead_ok C" "dh_ok C" and pr: "paired C hI hR"
    and e: "hs_hasE hI" "hs_hasE hR" "length (hs_e hR) = KeyLen"
  obtains hI' hR' where "handshake_run C hI hR pA pB = Some (pA, pB, hI', hR')"
    "hs_ss hI' = hs_ss hR'" "hs_role hI' = Initiator" "hs_role hR' = Responder"
proof -
  obtain mA P ss1 where A: "publicFromPrivate C (hs_e hI) = Inr P" "symmetric_wf ss1"
    "WriteMessageA C (Inl (Errorf ''unused'')) pA hI = (Inr mA, hI\<lparr>hs_ss := ss1\<rparr>)"
    "ReadMessageA C mA hR = (Inr pA, hR\<lparr>hs_re := P, hs_hasRE := True, hs_ss := ss1\<rparr>)"
    using messageA_ok [OF C pr e(1), of "Inl (Errorf ''unused'')" pA] by metis
  let ?hI = "hI\<lparr>hs_ss := ss1\<rparr>" and ?hR = "hR\<lparr>hs_re := P, hs_hasRE := True, hs_ss := ss1\<rparr>"
  have "length P = KeyLen" by (rule publicFromPrivate_length [OF A(1)])
  then have pr1: "paired C ?hI ?hR" using pr A(2) by (simp add: paired_def)
  obtain mB Q ss2 where B:
    "WriteMessageB C (Inl (Errorf ''unused'')) pB ?hR = (Inr mB, ?hR\<lparr>hs_ss := ss2\<rparr>)"
    "ReadMessageB C mB ?hI = (Inr pB, ?hI\<lparr>hs_re := Q, hs_hasRE := True, hs_ss := ss2\<rparr>)"
    by (rule messageB_ok [OF C pr1, of "Inl (Errorf ''unused'')" pB]) (use e A(1) in \<open>simp_all add: that\<close>)
  show ?thesis
    by (rule that [of "?hI\<lparr>hs_re := Q, hs_hasRE := True, hs_ss := ss2\<rparr>" "?hR\<lparr>hs_ss := ss2\<rparr>"])
      (use A B pr in \<open>simp_all add: handshake_run_def paired_def\<close>)
qed

subsection \<open>Properties\<close>

text \<open>
  C5. The handshake completes and agrees. Two parties that hold each other's static public
  keys and the same optional pre-shared key, with any ephemeral keys and payloads, exchange
  both messages without error; each payload arrives as sent; both end with the same transcript
  hash; and the transport ciphers are crossed, so that what one side sends the other receives
  under the same key, from counter 0.
\<close>

theorem handshake_agreement:
  assumes "aead_ok C" "dh_ok C" "length sI = KeyLen" "length sR = KeyLen" "length eI = KeyLen" "length eR = KeyLen"
    and "psk = [] \<or> length psk = KeyLen"
    and "publicFromPrivate C sI = Inr pI" "publicFromPrivate C sR = Inr pR"
  shows "\<exists>hI hR hI' hR' k1 k2.
     NewHandshakeState C Initiator sI pR psk = Inr hI \<and> NewHandshakeState C Responder sR pI psk = Inr hR \<and>
     handshake_run C (SetEphemeral eI hI) (SetEphemeral eR hR) pA pB = Some (pA, pB, hI', hR') \<and>
     HandshakeHash hI' = HandshakeHash hR' \<and>
     Transport C hI' = Inr (keyed k1 0, keyed k2 0) \<and> Transport C hR' = Inr (keyed k2 0, keyed k1 0)"
proof -
  obtain hI hR where h: "NewHandshakeState C Initiator sI pR psk = Inr hI" "NewHandshakeState C Responder sR pI psk = Inr hR"
    "paired C (SetEphemeral eI hI) (SetEphemeral eR hR)"
    using NewHandshakeState_paired [OF assms(1-4,7-9)] assms(5) by metis
  obtain hI' hR' where run: "handshake_run C (SetEphemeral eI hI) (SetEphemeral eR hR) pA pB = Some (pA, pB, hI', hR')"
    "hs_ss hI' = hs_ss hR'" "hs_role hI' = Initiator" "hs_role hR' = Responder"
    by (rule handshake_run_ok [OF assms(1,2) h(3), of pA pB]) (use assms(6) in \<open>simp_all add: SetEphemeral_def\<close>)
  obtain k1 k2 where "SymmetricState_Split C (hs_ss hI') = Inr (keyed k1 0, keyed k2 0)" using Split_ok [OF assms(1)] .
  then have "Transport C hI' = Inr (keyed k1 0, keyed k2 0)" "Transport C hR' = Inr (keyed k2 0, keyed k1 0)"
    using run(2-4) by (simp_all add: Transport_def Initiator_def Responder_def)
  moreover have "HandshakeHash hI' = HandshakeHash hR'" using run(2) by (simp add: HandshakeHash_def)
  ultimately show ?thesis using h(1,2) run(1) by blast
qed

lemma toy_dh_ok: "dh_ok toy_crypto"
proof -
  have comm: "map2 (XOR) a (map2 (XOR) b z) = map2 (XOR) b (map2 (XOR) a z)"
    if "length a = n" "length b = n" "length z = n" for a b z :: bytes and n
    using that by (intro nth_equalityI) (auto simp: ac_simps)
  have "length (clampScalar a) = length a" for a by (simp add: clampScalar_def Let_def)
  then show ?thesis
    by (auto simp: dh_ok_def toy_crypto_def comm [of _ KeyLen])
qed

theorem handshake_agreement_witness:
  "\<exists>pI pR hI hR hI' hR' k1 k2.
     publicFromPrivate toy_crypto (replicate KeyLen 1) = Inr pI \<and> publicFromPrivate toy_crypto (replicate KeyLen 2) = Inr pR \<and>
     NewHandshakeState toy_crypto Initiator (replicate KeyLen 1) pR (replicate KeyLen 9) = Inr hI \<and>
     NewHandshakeState toy_crypto Responder (replicate KeyLen 2) pI (replicate KeyLen 9) = Inr hR \<and>
     handshake_run toy_crypto (SetEphemeral (replicate KeyLen 3) hI) (SetEphemeral (replicate KeyLen 4) hR) [5] [6, 7] =
       Some ([5], [6, 7], hI', hR') \<and>
     HandshakeHash hI' = HandshakeHash hR' \<and>
     Transport toy_crypto hI' = Inr (keyed k1 0, keyed k2 0) \<and> Transport toy_crypto hR' = Inr (keyed k2 0, keyed k1 0)"
proof -
  obtain pI where pI: "publicFromPrivate toy_crypto (replicate KeyLen 1) = Inr pI"
    using public_ok [OF toy_dh_ok, of "replicate KeyLen 1"] by auto
  obtain pR where pR: "publicFromPrivate toy_crypto (replicate KeyLen 2) = Inr pR"
    using public_ok [OF toy_dh_ok, of "replicate KeyLen 2"] by auto
  show ?thesis
    using pI pR handshake_agreement [OF toy_aead_ok toy_dh_ok, of "replicate KeyLen 1" "replicate KeyLen 2"
        "replicate KeyLen 3" "replicate KeyLen 4" "replicate KeyLen 9" pI pR "[5]" "[6, 7]"] by auto
qed

text \<open>
  C31. The responder completes message A only for the expected initiator: if \<open>ReadMessageA\<close>
  succeeds, then the field after the ephemeral key decrypts, under the key that the ephemeral
  key, the optional pre-shared-key mixing and the shared secret \<open>es\<close> determine, to exactly the
  static public key the responder was created with.
\<close>

theorem ReadMessageA_authenticates_static:
  assumes "ReadMessageA C message hs = (Inr payload, hs')" "length (hs_re hs) = KeyLen"
  shows "hs_role hs = Responder \<and> KeyLen \<le> length message \<and> hs_re hs' = take KeyLen message \<and>
         (let re = take KeyLen message;
              ss1 = snd (MixHash C re (hs_ss hs));
              ss2 = (if hasPSK hs then snd (MixKey C re ss1) else ss1)
          in \<exists>es. dh C (hs_s hs) re = Inr es \<and>
               (let ss3 = snd (MixKey C es ss2);
                    field = take (encryptedLen KeyLen (HasKey (ss_cs ss3))) (drop KeyLen message)
                in fst (DecryptAndHash C field ss3) = Inr (hs_rs hs) \<and> length (hs_rs hs) = KeyLen))"
  using assms
  by (auto simp: ReadMessageA_def success_iff on_ss_def psk_mix_key_def dh_mix_key_def Let_def hasPSK_def MixHash_run
      split: if_splits)

theorem ReadMessageA_authenticates_static_witness:
  "\<exists>pI pR hI hR message h' payload h''.
     NewHandshakeState toy_crypto Initiator (replicate KeyLen 1) pR [] = Inr hI \<and>
     NewHandshakeState toy_crypto Responder (replicate KeyLen 2) pI [] = Inr hR \<and>
     WriteMessageA toy_crypto (Inl (Errorf ''unused'')) [5] (SetEphemeral (replicate KeyLen 3) hI) = (Inr message, h') \<and>
     ReadMessageA toy_crypto message (SetEphemeral (replicate KeyLen 4) hR) = (Inr payload, h'') \<and>
     hs_re h'' = take KeyLen message \<and> KeyLen \<le> length message"
proof -
  let ?k = "\<lambda>n :: byte. replicate KeyLen n"
  obtain pI where pI: "publicFromPrivate toy_crypto (?k 1) = Inr pI" using public_ok [OF toy_dh_ok, of "?k 1"] by auto
  obtain pR where pR: "publicFromPrivate toy_crypto (?k 2) = Inr pR" using public_ok [OF toy_dh_ok, of "?k 2"] by auto
  obtain hI hR where h: "NewHandshakeState toy_crypto Initiator (?k 1) pR [] = Inr hI"
    "NewHandshakeState toy_crypto Responder (?k 2) pI [] = Inr hR"
    "paired toy_crypto (SetEphemeral (?k 3) hI) (SetEphemeral (?k 4) hR)"
    using NewHandshakeState_paired [OF toy_aead_ok toy_dh_ok _ _ _ pI pR, of "[]"] by (metis length_replicate)
  have "hs_hasE (SetEphemeral (?k 3) hI)" by (simp add: SetEphemeral_def)
  from messageA_ok [OF toy_aead_ok toy_dh_ok h(3) this]
  obtain m h' h'' where m: "WriteMessageA toy_crypto (Inl (Errorf ''unused'')) [5] (SetEphemeral (?k 3) hI) = (Inr m, h')"
    "ReadMessageA toy_crypto m (SetEphemeral (?k 4) hR) = (Inr [5], h'')" by metis
  have "length (hs_re (SetEphemeral (?k 4) hR)) = KeyLen" using h(3) by (simp add: paired_def)
  from ReadMessageA_authenticates_static [OF m(2) this] m h(1,2) show ?thesis by blast
qed


definition idle_party :: "Role \<Rightarrow> HandshakeState" where
  "idle_party role =
     \<lparr>hs_ss = SymmetricState_zero, hs_role = role, hs_s = zero_key, hs_e = zero_key, hs_rs = zero_key,
      hs_re = zero_key, hs_hasE = False, hs_hasRE = False, hs_psk = []\<rparr>"


end
