(* ===== verification/Relay.thy ===== *)
theory Relay
  imports Effects GoNet "HOL-Library.AList"
begin

text \<open>
  The UDP relay: \<open>relay/internal/relay_server.go\<close>, \<open>relay/internal/metrics.go\<close> and the
  configuration of \<open>relay/cmd/relay/main.go\<close>. Sessions are objects of a heap, because the
  listener keeps a pointer to a session after it released the lock while the cleanup goroutine
  may remove that session from the tables. The tables are association lists with distinct keys.
  Datagrams written to the socket are appended to \<open>rs_out\<close>.
\<close>

subsection \<open>Metrics\<close>

record Metrics =
  m_relayName :: string
  m_activeSessions :: int
  m_totalBytes :: u64
  m_packetCount :: u64
  m_packetsPerSec :: u64

definition NewMetrics :: "string \<Rightarrow> Metrics" where
  "NewMetrics relayName =
     \<lparr>m_relayName = relayName, m_activeSessions = 0, m_totalBytes = 0, m_packetCount = 0, m_packetsPerSec = 0\<rparr>"

text \<open>One tick of the goroutine started by \<open>Metrics.Start\<close>; \<open>prev\<close> is its local variable \<open>last\<close>.\<close>

definition metrics_tick :: "u64 \<Rightarrow> Metrics \<Rightarrow> u64 \<times> Metrics" where
  "metrics_tick prev m =
     (let current = m_packetCount m
      in (current, m\<lparr>m_packetsPerSec := if prev \<le> current then current - prev else 0\<rparr>))"

definition SetActiveSessions :: "int \<Rightarrow> Metrics \<Rightarrow> Metrics" where
  "SetActiveSessions count m = m\<lparr>m_activeSessions := count\<rparr>"

definition RecordPacket :: "int \<Rightarrow> Metrics \<Rightarrow> Metrics" where
  "RecordPacket sz m =
     (let sz' = (if sz < 0 then 0 else sz)
      in m\<lparr>m_packetCount := m_packetCount m + 1, m_totalBytes := m_totalBytes m + of_int sz'\<rparr>)"

record MetricsSnapshot =
  snap_RelayName :: string
  snap_ActiveSessions :: int
  snap_TotalBytesRelayed :: u64
  snap_PacketsPerSecond :: u64
  snap_Timestamp :: int

definition Snapshot :: "int \<Rightarrow> Metrics \<Rightarrow> MetricsSnapshot" where
  "Snapshot now m =
     \<lparr>snap_RelayName = m_relayName m, snap_ActiveSessions = m_activeSessions m,
      snap_TotalBytesRelayed = m_totalBytes m, snap_PacketsPerSecond = m_packetsPerSec m, snap_Timestamp = now\<rparr>"

text \<open>
  What \<open>StartReporter\<close> starts: nothing, or a loop posting to a URL every interval
  (in nanoseconds).
\<close>

definition StartReporter :: "string \<Rightarrow> int \<Rightarrow> (string \<times> int) option" where
  "StartReporter coordServerURL interval =
     (let trimmed = TrimSpace coordServerURL
      in if trimmed = [] then None
         else Some (TrimRight trimmed ''/'' @ ''/api/v1/relays/report'',
                    if interval \<le> 0 then 30000000000 else interval))"

text \<open>
  \<open>built\<close> is the outcome of building the request, \<open>performed\<close> that of performing it: the
  response's status code.
\<close>

definition reportOnce :: "go_error + bytes \<Rightarrow> go_error + unit \<Rightarrow> go_error + int \<Rightarrow> go_error + unit" where
  "reportOnce marshalled built performed =
     (case marshalled of
        Inl e \<Rightarrow> Inl (Wrapf ''report metrics: marshal snapshot'' e)
      | Inr _ \<Rightarrow>
          (case built of
             Inl e \<Rightarrow> Inl (Wrapf ''report metrics: build request'' e)
           | Inr _ \<Rightarrow>
               (case performed of
                  Inl e \<Rightarrow> Inl (Wrapf ''report metrics: perform request'' e)
                | Inr status \<Rightarrow>
                    if 300 \<le> status then Inl (Errorf (''report metrics: unexpected status '' @ Itoa status))
                    else Inr ())))"

subsection \<open>Sessions\<close>

record UDPAddr =
  ua_IP :: IP
  ua_Port :: int
  ua_Zone :: string

record Session =
  s_ID :: bytes
  s_Token :: string
  s_PeerAAddr :: "UDPAddr option"
  s_PeerBAddr :: "UDPAddr option"
  s_CreatedAt :: int
  s_LastActivity :: int

type_synonym session_ptr = nat

record RelayServer =
  rs_port :: int
  rs_heap :: "Session list"
  rs_sessions :: "(string \<times> session_ptr) list"
  rs_tokenToSession :: "(string \<times> string) list"
  rs_conn :: bool
  rs_metrics :: "Metrics option"
  rs_out :: "(bytes \<times> UDPAddr) list"

definition PacketTypeConnect :: byte where "PacketTypeConnect = 0x01"
definition PacketTypeData :: byte where "PacketTypeData = 0x02"
definition PacketTypeDisconnect :: byte where "PacketTypeDisconnect = 0x03"
definition PacketTypePing :: byte where "PacketTypePing = 0x04"

definition packetHeaderSize :: nat where "packetHeaderSize = 17"

text \<open>Five minutes in nanoseconds.\<close>

definition sessionIdleTimeout :: int where "sessionIdleTimeout = 5 * 60 * 1000000000"

record connectPayload =
  cp_SessionToken :: string
  cp_PeerID :: string

definition NewRelayServer :: "int \<Rightarrow> RelayServer" where
  "NewRelayServer port =
     \<lparr>rs_port = port, rs_heap = [], rs_sessions = [], rs_tokenToSession = [], rs_conn = False,
      rs_metrics = None, rs_out = []\<rparr>"

definition SetMetrics :: "Metrics \<Rightarrow> RelayServer \<Rightarrow> RelayServer" where
  "SetMetrics m s = s\<lparr>rs_metrics := Some m\<rparr>"

text \<open>
  What the environment supplies while one packet is handled: the clock, the random bytes
  (\<open>None\<close> when the source fails), the nanosecond clock of the fallback, whether the cleanup
  goroutine runs between the lookup of a session and its use, the outcome of socket writes,
  and the decoder of the JSON payload.
\<close>

record relay_env =
  env_now :: int
  env_rand :: "bytes option"
  env_nano :: nat
  env_between :: "int option"
  env_write :: "bytes \<Rightarrow> UDPAddr \<Rightarrow> go_error option"
  env_unmarshal :: "bytes \<Rightarrow> go_error + connectPayload"

definition bytes_of :: "string \<Rightarrow> bytes" where
  "bytes_of s = map (\<lambda>c. of_nat (of_char c)) s"

definition sessionKey :: "bytes \<Rightarrow> string" where
  "sessionKey raw = map (\<lambda>b. char_of (unat b)) raw"

definition cloneUDPAddr :: "UDPAddr option \<Rightarrow> UDPAddr option" where
  "cloneUDPAddr a =
     (case a of None \<Rightarrow> None | Some u \<Rightarrow> Some \<lparr>ua_IP = ua_IP u, ua_Port = ua_Port u, ua_Zone = ua_Zone u\<rparr>)"

definition sameAddr :: "UDPAddr option \<Rightarrow> UDPAddr option \<Rightarrow> bool" where
  "sameAddr a b = (case (a, b) of (Some x, Some y) \<Rightarrow> ua_Port x = ua_Port y \<and> ua_IP x = ua_IP y | _ \<Rightarrow> False)"

definition destinationAddr :: "Session \<Rightarrow> UDPAddr option \<Rightarrow> UDPAddr option" where
  "destinationAddr session from =
     (if s_PeerAAddr session \<noteq> None \<and> sameAddr (s_PeerAAddr session) from then cloneUDPAddr (s_PeerBAddr session)
      else if s_PeerBAddr session \<noteq> None \<and> sameAddr (s_PeerBAddr session) from then cloneUDPAddr (s_PeerAAddr session)
      else None)"

definition packetTypeForAck :: "bytes \<Rightarrow> byte" where
  "packetTypeForAck status = PacketTypePing"

definition randomSessionID :: "relay_env \<Rightarrow> go_error + bytes" where
  "randomSessionID env =
     (case env_rand env of None \<Rightarrow> Inl (Errorf ''random session id: read failed'') | Some raw \<Rightarrow> Inr (copy_bytes (replicate 16 0) raw))"

text \<open>\<open>fmt.Sprintf("%016x", now)\<close>\<close>

definition hex_digit :: "nat \<Rightarrow> char" where
  "hex_digit d = (if d < 10 then char_of (48 + d) else char_of (87 + d))"

fun hex_digits :: "nat \<Rightarrow> nat \<Rightarrow> string" where
  "hex_digits 0 n = []"
| "hex_digits (Suc k) n = hex_digits k (n div 16) @ [hex_digit (n mod 16)]"

definition new_session_id :: "relay_env \<Rightarrow> bytes" where
  "new_session_id env =
     (case randomSessionID env of
        Inr sid \<Rightarrow> sid
      | Inl _ \<Rightarrow> copy_bytes (replicate 16 0) (bytes_of (hex_digits 16 (env_nano env))))"

definition updateActiveSessionGaugeLocked :: "RelayServer \<Rightarrow> RelayServer" where
  "updateActiveSessionGaugeLocked s =
     (case rs_metrics s of
        None \<Rightarrow> s
      | Some m \<Rightarrow> s\<lparr>rs_metrics := Some (SetActiveSessions (int (length (rs_sessions s))) m)\<rparr>)"

text \<open>Assignment to a field of the session a pointer refers to.\<close>

definition update_session :: "session_ptr \<Rightarrow> (Session \<Rightarrow> Session) \<Rightarrow> RelayServer \<Rightarrow> RelayServer" where
  "update_session p f s = s\<lparr>rs_heap := (rs_heap s)[p := f (rs_heap s ! p)]\<rparr>"

definition getSessionByID :: "bytes \<Rightarrow> RelayServer \<Rightarrow> session_ptr option" where
  "getSessionByID raw s = map_of (rs_sessions s) (sessionKey raw)"

definition touchSession :: "int \<Rightarrow> session_ptr \<Rightarrow> RelayServer \<Rightarrow> RelayServer" where
  "touchSession now p = update_session p (\<lambda>ss. ss\<lparr>s_LastActivity := now\<rparr>)"

text \<open>The branch of \<open>createSession\<close> for a token that has a live session.\<close>

definition join_existing :: "int \<Rightarrow> UDPAddr \<Rightarrow> Session \<Rightarrow> Session" where
  "join_existing now peer existing0 =
     (let existing = existing0\<lparr>s_LastActivity := now\<rparr>
      in if s_PeerAAddr existing = None then existing\<lparr>s_PeerAAddr := cloneUDPAddr (Some peer)\<rparr>
         else if \<not> sameAddr (s_PeerAAddr existing) (Some peer) \<and> s_PeerBAddr existing = None
         then existing\<lparr>s_PeerBAddr := cloneUDPAddr (Some peer)\<rparr>
         else existing)"

definition new_session :: "relay_env \<Rightarrow> string \<Rightarrow> UDPAddr \<Rightarrow> RelayServer \<Rightarrow> session_ptr \<times> RelayServer" where
  "new_session env token peer s =
     (let sid = new_session_id env;
          session = \<lparr>s_ID = sid, s_Token = token, s_PeerAAddr = cloneUDPAddr (Some peer), s_PeerBAddr = None,
                     s_CreatedAt = env_now env, s_LastActivity = env_now env\<rparr>;
          p = length (rs_heap s);
          key = sessionKey sid
      in (p, updateActiveSessionGaugeLocked
               (s\<lparr>rs_heap := rs_heap s @ [session], rs_sessions := AList.update key p (rs_sessions s),
                  rs_tokenToSession := AList.update token key (rs_tokenToSession s)\<rparr>)))"

definition createSession :: "relay_env \<Rightarrow> string \<Rightarrow> UDPAddr \<Rightarrow> RelayServer \<Rightarrow> session_ptr \<times> RelayServer" where
  "createSession env token peer s =
     (case Option.bind (map_of (rs_tokenToSession s) token) (map_of (rs_sessions s)) of
        Some p \<Rightarrow> (p, updateActiveSessionGaugeLocked (update_session p (join_existing (env_now env) peer) s))
      | None \<Rightarrow> new_session env token peer s)"

text \<open>One iteration of the loop of \<open>removeStaleSessions\<close>.\<close>

definition remove_if_stale :: "int \<Rightarrow> string \<times> session_ptr \<Rightarrow> int \<times> RelayServer \<Rightarrow> int \<times> RelayServer" where
  "remove_if_stale now = (\<lambda>(key, p) (removed, s).
     let session = rs_heap s ! p
     in if now - s_LastActivity session \<le> sessionIdleTimeout then (removed, s)
        else (removed + 1, s\<lparr>rs_sessions := AList.delete key (rs_sessions s),
                             rs_tokenToSession := AList.delete (s_Token session) (rs_tokenToSession s)\<rparr>))"

definition removeStaleSessions :: "int \<Rightarrow> RelayServer \<Rightarrow> int \<times> RelayServer" where
  "removeStaleSessions now s =
     (let (removed, s') = fold (remove_if_stale now) (rs_sessions s) (0, s)
      in (removed, if 0 < removed then updateActiveSessionGaugeLocked s' else s'))"

definition removeSession :: "bytes \<Rightarrow> RelayServer \<Rightarrow> RelayServer" where
  "removeSession sid s =
     (let key = sessionKey sid
      in case map_of (rs_sessions s) key of
           None \<Rightarrow> s
         | Some p \<Rightarrow>
             updateActiveSessionGaugeLocked
               (s\<lparr>rs_sessions := AList.delete key (rs_sessions s),
                  rs_tokenToSession := AList.delete (s_Token (rs_heap s ! p)) (rs_tokenToSession s)\<rparr>))"

subsection \<open>Sending\<close>

text \<open>A write to the socket and, when it succeeded, the packet counters.\<close>

definition record_packet :: "nat \<Rightarrow> RelayServer \<Rightarrow> RelayServer" where
  "record_packet n s = (case rs_metrics s of None \<Rightarrow> s | Some m \<Rightarrow> s\<lparr>rs_metrics := Some (RecordPacket (int n) m)\<rparr>)"

definition write_udp :: "relay_env \<Rightarrow> string \<Rightarrow> bytes \<Rightarrow> UDPAddr \<Rightarrow> (RelayServer, unit) procedure" where
  "write_udp env ctx packet to =
     (\<lambda>s. case env_write env packet to of
            Some e \<Rightarrow> (Inl (Wrapf ctx e), s)
          | None \<Rightarrow> (Inr (), record_packet (length packet) (s\<lparr>rs_out := rs_out s @ [(packet, to)]\<rparr>)))"

definition sendPacket :: "relay_env \<Rightarrow> byte \<Rightarrow> bytes \<Rightarrow> bytes \<Rightarrow> UDPAddr \<Rightarrow> (RelayServer, unit) procedure" where
  "sendPacket env packetType sessionID payload to =
     (\<lambda>s. if \<not> rs_conn s then (Inl (Errorf ''send packet: udp connection is not initialized''), s)
          else write_udp env ''send packet: write udp''
                 ([packetType] @ copy_bytes (replicate 16 0) sessionID @ payload) to s)"

definition broadcastControl :: "relay_env \<Rightarrow> Session \<Rightarrow> byte \<Rightarrow> bytes \<Rightarrow> RelayServer \<Rightarrow> RelayServer" where
  "broadcastControl env session packetType payload s =
     (let s1 = (case s_PeerAAddr session of None \<Rightarrow> s | Some a \<Rightarrow> snd (sendPacket env packetType (s_ID session) payload a s))
      in case s_PeerBAddr session of None \<Rightarrow> s1 | Some b \<Rightarrow> snd (sendPacket env packetType (s_ID session) payload b s1))"

definition forwardPacket :: "relay_env \<Rightarrow> session_ptr \<Rightarrow> bytes \<Rightarrow> UDPAddr \<Rightarrow> (RelayServer, unit) procedure" where
  "forwardPacket env p data from =
     (\<lambda>s0. let s = touchSession (env_now env) p s0
           in case destinationAddr (rs_heap s ! p) (Some from) of
                None \<Rightarrow> (Inl (Errorf ''forward packet: sender is not part of session''), s)
              | Some to \<Rightarrow>
                  if \<not> rs_conn s then (Inl (Errorf ''forward packet: udp connection is not initialized''), s)
                  else write_udp env ''forward packet: write to destination'' data to s)"

subsection \<open>Packets\<close>

text \<open>The cleanup goroutine may take the lock between two critical sections of the listener.\<close>

definition interleave_cleanup :: "relay_env \<Rightarrow> RelayServer \<Rightarrow> RelayServer" where
  "interleave_cleanup env s = (case env_between env of None \<Rightarrow> s | Some now \<Rightarrow> snd (removeStaleSessions now s))"

definition handle_connect :: "relay_env \<Rightarrow> bytes \<Rightarrow> UDPAddr \<Rightarrow> (RelayServer, unit) procedure" where
  "handle_connect env payload from =
     (\<lambda>s0. case env_unmarshal env payload of
             Inl e \<Rightarrow> (Inl (Wrapf ''handle packet: parse connect payload'' e), s0)
           | Inr req \<Rightarrow>
               if cp_SessionToken req = [] then (Inl (Errorf ''handle packet: empty session token''), s0)
               else
                 let (p, s1) = createSession env (cp_SessionToken req) from s0;
                     session = rs_heap s1 ! p;
                     s2 = interleave_cleanup env s1;
                     both = (s_PeerAAddr session \<noteq> None \<and> s_PeerBAddr session \<noteq> None);
                     status = (if both then bytes_of ''paired'' else bytes_of ''waiting'');
                     s3 = (if both then broadcastControl env session PacketTypePing (bytes_of ''paired'') s2 else s2)
                 in wrap ''handle packet: send connect ack''
                      (sendPacket env (packetTypeForAck status) (s_ID session) status from) s3)"

definition handlePacket :: "relay_env \<Rightarrow> bytes \<Rightarrow> UDPAddr \<Rightarrow> (RelayServer, unit) procedure" where
  "handlePacket env data from =
     (\<lambda>s. if length data < packetHeaderSize
          then (Inl (Errorf (''handle packet: invalid packet length '' @ Itoa (int (length data)))), s)
          else
            let packetType = data ! 0;
                sessionID = take 16 (drop 1 data);
                payload = drop 17 data
            in if packetType = PacketTypeConnect then handle_connect env payload from s
               else if packetType = PacketTypeData then
                 (case getSessionByID sessionID s of
                    None \<Rightarrow> (Inl (Errorf ''handle packet: data for unknown session''), s)
                  | Some p \<Rightarrow> forwardPacket env p data from (interleave_cleanup env s))
               else if packetType = PacketTypePing then
                 (case getSessionByID sessionID s of
                    None \<Rightarrow> (Inl (Errorf ''handle packet: ping for unknown session''), s)
                  | Some p \<Rightarrow>
                      let s1 = touchSession (env_now env) p (interleave_cleanup env s)
                      in sendPacket env PacketTypePing (s_ID (rs_heap s1 ! p)) (bytes_of ''pong'') from s1)
               else if packetType = PacketTypeDisconnect then
                 (case getSessionByID sessionID s of
                    None \<Rightarrow> (Inr (), s)
                  | Some p \<Rightarrow> (let s1 = interleave_cleanup env s in (Inr (), removeSession (s_ID (rs_heap s1 ! p)) s1)))
               else (Inl (Errorf (''handle packet: unknown packet type 0x'' @ hex_digits 2 (unat packetType))), s))"

text \<open>
  The read loop of \<open>Start\<close> over the sequence of read results: an error from \<open>handlePacket\<close> is
  logged and the loop goes on; a read error ends it, without an error when the socket was
  closed or the context cancelled.
\<close>

datatype read_event = ReadPacket relay_env bytes UDPAddr | ReadClosed | ReadError go_error

fun read_loop :: "read_event list \<Rightarrow> (RelayServer, unit) procedure" where
  "read_loop [] s = (Inr (), s)"
| "read_loop (ReadPacket env packet from # evs) s = read_loop evs (snd (handlePacket env packet from s))"
| "read_loop (ReadClosed # evs) s = (Inr (), s)"
| "read_loop (ReadError e # evs) s = (Inl (Wrapf ''start relay: read udp'' e), s)"

definition relay_Start :: "go_error + unit \<Rightarrow> go_error + unit \<Rightarrow> read_event list \<Rightarrow> (RelayServer, unit) procedure" where
  "relay_Start resolved listening evs =
     andThen (wrap ''start relay: resolve address'' (result resolved)) (\<lambda>_.
     andThen (wrap ''start relay: listen udp'' (result listening)) (\<lambda>_.
     andThen (modifies (\<lambda>s. s\<lparr>rs_conn := True\<rparr>)) (\<lambda>_. read_loop evs)))"

subsection \<open>Configuration\<close>

definition relay_getEnv :: "(string \<Rightarrow> string) \<Rightarrow> string \<Rightarrow> string \<Rightarrow> string" where
  "relay_getEnv getenv key fallback = (let value = TrimSpace (getenv key) in if value = [] then fallback else value)"

definition relay_parsePort :: "string \<Rightarrow> go_error + int" where
  "relay_parsePort raw =
     (case Atoi (TrimSpace raw) of
        None \<Rightarrow> Inl (Wrapf ''parse port'' (Errorf ''strconv.Atoi''))
      | Some port \<Rightarrow> if port < 1 \<or> 65535 < port then Inl (Errorf ''parse port: out of range'') else Inr port)"

record 'level relay_Config =
  rc_RelayPort :: int
  rc_HealthPort :: int
  rc_CoordServerURL :: string
  rc_RelayName :: string
  rc_LogLevel :: 'level

definition relay_loadConfig :: "(string \<Rightarrow> go_error + 'level) \<Rightarrow> (string \<Rightarrow> string) \<Rightarrow> go_error + 'level relay_Config" where
  "relay_loadConfig parseLevel getenv =
     (case relay_parsePort (relay_getEnv getenv ''RELAY_PORT'' ''3478'') of
        Inl e \<Rightarrow> Inl (Wrapf ''load config: RELAY_PORT'' e)
      | Inr relayPort \<Rightarrow>
     (case relay_parsePort (relay_getEnv getenv ''HEALTH_PORT'' ''8081'') of
        Inl e \<Rightarrow> Inl (Wrapf ''load config: HEALTH_PORT'' e)
      | Inr healthPort \<Rightarrow>
     (case parseLevel (ToLower (relay_getEnv getenv ''LOG_LEVEL'' ''info'')) of
        Inl e \<Rightarrow> Inl (Wrapf ''load config: LOG_LEVEL'' e)
      | Inr level \<Rightarrow>
          let name = TrimSpace (relay_getEnv getenv ''RELAY_NAME'' ''relay-local'')
          in if name = [] then Inl (Errorf ''load config: RELAY_NAME is required'')
             else Inr \<lparr>rc_RelayPort = relayPort, rc_HealthPort = healthPort,
                       rc_CoordServerURL = TrimSpace (relay_getEnv getenv ''COORD_SERVER_URL'' ''http://localhost:8080''),
                       rc_RelayName = name, rc_LogLevel = level\<rparr>)))"

subsection \<open>The tables and their invariant\<close>

text \<open>
  Every session is stored under the key of its own identifier and under its token, every token
  leads to a live session with that token, the first peer is set and differs from the second.
\<close>

definition session_ok :: "Session \<Rightarrow> bool" where
  "session_ok ss \<longleftrightarrow> length (s_ID ss) = 16 \<and> s_PeerAAddr ss \<noteq> None \<and>
     (s_PeerBAddr ss \<noteq> None \<longrightarrow> \<not> sameAddr (s_PeerAAddr ss) (s_PeerBAddr ss))"

definition maps_ok :: "Session list \<Rightarrow> (string \<rightharpoonup> session_ptr) \<Rightarrow> (string \<rightharpoonup> string) \<Rightarrow> bool" where
  "maps_ok heap ses tok \<longleftrightarrow>
     (\<forall>key p. ses key = Some p \<longrightarrow>
        p < length heap \<and> session_ok (heap ! p) \<and> sessionKey (s_ID (heap ! p)) = key \<and> tok (s_Token (heap ! p)) = Some key) \<and>
     (\<forall>t key. tok t = Some key \<longrightarrow> (\<exists>p. ses key = Some p \<and> s_Token (heap ! p) = t))"

definition tables_ok :: "Session list \<Rightarrow> (string \<times> session_ptr) list \<Rightarrow> (string \<times> string) list \<Rightarrow> bool" where
  "tables_ok heap ses tok \<longleftrightarrow>
     distinct (map fst ses) \<and> distinct (map fst tok) \<and> maps_ok heap (map_of ses) (map_of tok)"

definition gauge_ok :: "RelayServer \<Rightarrow> bool" where
  "gauge_ok s \<longleftrightarrow> (\<forall>m. rs_metrics s = Some m \<longrightarrow> m_activeSessions m = int (length (rs_sessions s)))"

definition relay_inv :: "RelayServer \<Rightarrow> bool" where
  "relay_inv s \<longleftrightarrow> tables_ok (rs_heap s) (rs_sessions s) (rs_tokenToSession s) \<and> gauge_ok s"

lemma sessionKey_inject: "sessionKey a = sessionKey b \<longleftrightarrow> a = b"
proof -
  have "inj (\<lambda>b :: byte. char_of (unat b) :: char)"
  proof (rule injI)
    fix x y :: byte
    assume "(char_of (unat x) :: char) = char_of (unat y)"
    then have "unat x mod 256 = unat y mod 256" by (metis of_char_of)
    moreover have "unat x < 2 ^ LENGTH(8)" "unat y < 2 ^ LENGTH(8)" by (rule unsigned_less)+
    ultimately show "x = y" by (simp add: word_unat_eq_iff)
  qed
  then show ?thesis by (simp add: sessionKey_def inj_eq)
qed

lemma cloneUDPAddr_eq [simp]: "cloneUDPAddr a = a"
  by (auto simp: cloneUDPAddr_def split: option.splits)

lemma length_new_session_id: "length (new_session_id env) = 16"
  by (auto simp: new_session_id_def randomSessionID_def split: option.splits)

lemma maps_okD:
  assumes "maps_ok heap ses tok"
  shows "ses key = Some p \<Longrightarrow> p < length heap" "ses key = Some p \<Longrightarrow> session_ok (heap ! p)"
    "ses key = Some p \<Longrightarrow> sessionKey (s_ID (heap ! p)) = key" "ses key = Some p \<Longrightarrow> tok (s_Token (heap ! p)) = Some key"
    "tok t = Some key \<Longrightarrow> \<exists>p. ses key = Some p \<and> s_Token (heap ! p) = t"
  using assms by (auto simp: maps_ok_def)

lemma maps_ok_update:
  assumes "maps_ok heap ses tok" "\<And>ss. session_ok ss \<Longrightarrow> session_ok (f ss)"
    "\<And>ss. s_ID (f ss) = s_ID ss" "\<And>ss. s_Token (f ss) = s_Token ss"
  shows "maps_ok (heap[p := f (heap ! p)]) ses tok"
proof -
  let ?h = "heap[p := f (heap ! p)]"
  have q: "?h ! q = heap ! q \<or> ?h ! q = f (heap ! q)" for q by (rule nth_apply_at)
  have same: "s_ID (?h ! q) = s_ID (heap ! q)" "s_Token (?h ! q) = s_Token (heap ! q)"
    "session_ok (heap ! q) \<Longrightarrow> session_ok (?h ! q)" for q
    using q [of q] assms(2-4) by auto
  show ?thesis
    using assms(1) same(3) by (simp add: maps_ok_def same(1,2))
qed

lemma maps_ok_new:
  assumes ok: "maps_ok heap ses tok" and fresh: "ses (sessionKey (s_ID ss)) = None" "tok (s_Token ss) = None"
    and ss: "session_ok ss"
  shows "maps_ok (heap @ [ss]) (ses(sessionKey (s_ID ss) \<mapsto> length heap)) (tok(s_Token ss \<mapsto> sessionKey (s_ID ss)))"
    (is "maps_ok ?h ?s ?t")
proof -
  have old: "?h ! p = heap ! p" if "ses key = Some p" for key p
    using maps_okD(1) [OF ok that] by (simp add: nth_append)
  have new: "?h ! length heap = ss" by simp
  have 1: "p < length ?h \<and> session_ok (?h ! p) \<and> sessionKey (s_ID (?h ! p)) = key \<and> ?t (s_Token (?h ! p)) = Some key"
    if "?s key = Some p" for key p
  proof (cases "key = sessionKey (s_ID ss)")
    case True
    with that have "p = length heap" by simp
    then show ?thesis using True ss by (simp only: new) simp
  next
    case False
    with that have k: "ses key = Some p" by simp
    have "s_Token (heap ! p) \<noteq> s_Token ss" using maps_okD(4) [OF ok k] fresh(2) by auto
    then show ?thesis using maps_okD(1-4) [OF ok k] old [OF k] by simp
  qed
  have 2: "\<exists>p. ?s key = Some p \<and> s_Token (?h ! p) = t" if "?t t = Some key" for t key
  proof (cases "t = s_Token ss")
    case True
    with that show ?thesis by simp
  next
    case False
    with that have "tok t = Some key" by simp
    then obtain p where p: "ses key = Some p" "s_Token (heap ! p) = t" using maps_okD(5) [OF ok] by blast
    then have "key \<noteq> sessionKey (s_ID ss)" using fresh(1) by auto
    then show ?thesis using p old [OF p(1)] by simp
  qed
  show ?thesis unfolding maps_ok_def using 1 2 by blast
qed

text \<open>Removing the sessions whose keys are in \<open>K\<close> together with their tokens.\<close>

lemma maps_ok_remove:
  assumes ok: "maps_ok heap ses tok"
    and T: "\<And>t key. tok t = Some key \<Longrightarrow> t \<in> T \<longleftrightarrow> key \<in> K"
  shows "maps_ok heap (ses |` (- K)) (tok |` (- T))"
proof -
  have 1: "p < length heap \<and> session_ok (heap ! p) \<and> sessionKey (s_ID (heap ! p)) = key \<and> (tok |` (- T)) (s_Token (heap ! p)) = Some key"
    if "(ses |` (- K)) key = Some p" for key p
  proof -
    from that have k: "ses key = Some p" "key \<notin> K" by (auto simp: restrict_map_def split: if_splits)
    then have "s_Token (heap ! p) \<notin> T" using T maps_okD(4) [OF ok k(1)] by blast
    then show ?thesis using maps_okD(1-4) [OF ok k(1)] by simp
  qed
  have 2: "\<exists>p. (ses |` (- K)) key = Some p \<and> s_Token (heap ! p) = t" if "(tok |` (- T)) t = Some key" for t key
  proof -
    from that have k: "tok t = Some key" "t \<notin> T" by (auto simp: restrict_map_def split: if_splits)
    then show ?thesis using T maps_okD(5) [OF ok k(1)] by (auto simp: restrict_map_def)
  qed
  show ?thesis unfolding maps_ok_def using 1 2 by blast
qed

lemma map_of_filter_fst: "map_of (filter (\<lambda>(k, _). k \<notin> K) xs) = map_of xs |` (- K)"
  by (rule ext) (induction xs; auto simp: restrict_map_def)

lemma tables_ok_remove:
  assumes "tables_ok heap ses tok" "\<And>t key. map_of tok t = Some key \<Longrightarrow> t \<in> T \<longleftrightarrow> key \<in> K"
  shows "tables_ok heap (filter (\<lambda>(k, _). k \<notin> K) ses) (filter (\<lambda>(t, _). t \<notin> T) tok)"
proof -
  have "maps_ok heap (map_of ses |` (- K)) (map_of tok |` (- T))"
    using assms(1) by (intro maps_ok_remove assms(2)) (simp_all add: tables_ok_def)
  then show ?thesis
    using assms(1) by (simp add: tables_ok_def distinct_map_filter map_of_filter_fst)
qed

lemma gauge_update [simp]:
  "gauge_ok (updateActiveSessionGaugeLocked s)"
  "rs_heap (updateActiveSessionGaugeLocked s) = rs_heap s"
  "rs_sessions (updateActiveSessionGaugeLocked s) = rs_sessions s"
  "rs_tokenToSession (updateActiveSessionGaugeLocked s) = rs_tokenToSession s"
  "rs_out (updateActiveSessionGaugeLocked s) = rs_out s"
  "rs_conn (updateActiveSessionGaugeLocked s) = rs_conn s"
  by (simp_all add: gauge_ok_def updateActiveSessionGaugeLocked_def SetActiveSessions_def split: option.splits)

text \<open>Effect of an operation on everything but the counters and the sent datagrams.\<close>

definition same_tables :: "RelayServer \<Rightarrow> RelayServer \<Rightarrow> bool" where
  "same_tables s s' \<longleftrightarrow> rs_heap s' = rs_heap s \<and> rs_sessions s' = rs_sessions s \<and>
     rs_tokenToSession s' = rs_tokenToSession s \<and> rs_conn s' = rs_conn s \<and> (gauge_ok s \<longrightarrow> gauge_ok s')"

lemma same_tables_refl [simp]: "same_tables s s"
  by (simp add: same_tables_def)

lemma same_tables_trans: "same_tables s s' \<Longrightarrow> same_tables s' s'' \<Longrightarrow> same_tables s s''"
  by (simp add: same_tables_def)

lemma same_tables_inv: "same_tables s s' \<Longrightarrow> relay_inv s \<Longrightarrow> relay_inv s'"
  by (simp add: same_tables_def relay_inv_def)

lemma write_udp_same: "same_tables s (snd (write_udp env ctx packet to s))"
  by (auto simp: write_udp_def record_packet_def RecordPacket_def same_tables_def gauge_ok_def Let_def split: option.splits)

lemma sendPacket_same: "same_tables s (snd (sendPacket env ty sid payload to s))"
  by (auto simp: sendPacket_def write_udp_same)

lemma broadcastControl_same: "same_tables s (broadcastControl env session ty payload s)"
  using sendPacket_same same_tables_trans by (auto simp: broadcastControl_def Let_def split: option.splits; blast)

lemma snd_wrap [simp]: "snd (wrap ctx m s) = snd (m s)"
  by (auto simp: wrap_def split: prod.splits sum.splits)

subsection \<open>Stale sessions\<close>

definition stale :: "int \<Rightarrow> Session \<Rightarrow> bool" where
  "stale now ss \<longleftrightarrow> sessionIdleTimeout < now - s_LastActivity ss"

lemma delete_filter: "AList.delete k xs = filter (\<lambda>(k', _). k' \<notin> {k}) xs"
  by (auto simp: AList.delete_eq intro: filter_cong)

definition stale_keys :: "int \<Rightarrow> Session list \<Rightarrow> (string \<times> session_ptr) list \<Rightarrow> string set" where
  "stale_keys now heap xs = {k. \<exists>p. (k, p) \<in> set xs \<and> stale now (heap ! p)}"

definition stale_tokens :: "int \<Rightarrow> Session list \<Rightarrow> (string \<times> session_ptr) list \<Rightarrow> string set" where
  "stale_tokens now heap xs = {s_Token (heap ! p) |k p. (k, p) \<in> set xs \<and> stale now (heap ! p)}"

lemma stale_sets_Cons:
  "stale_keys now heap ((k, p) # xs) = (if stale now (heap ! p) then {k} else {}) \<union> stale_keys now heap xs"
  "stale_tokens now heap ((k, p) # xs) = (if stale now (heap ! p) then {s_Token (heap ! p)} else {}) \<union> stale_tokens now heap xs"
  by (auto simp: stale_keys_def stale_tokens_def)

lemma fold_remove_if_stale:
  "fold (remove_if_stale now) xs (n, s) =
     (n + int (length (filter (\<lambda>(k, p). stale now (rs_heap s ! p)) xs)),
      s\<lparr>rs_sessions := filter (\<lambda>(k, _). k \<notin> stale_keys now (rs_heap s) xs) (rs_sessions s),
         rs_tokenToSession := filter (\<lambda>(t, _). t \<notin> stale_tokens now (rs_heap s) xs) (rs_tokenToSession s)\<rparr>)"
proof (induction xs arbitrary: n s)
  case Nil
  show ?case by (simp add: stale_keys_def stale_tokens_def)
next
  case (Cons x xs)
  obtain k p where x: "x = (k, p)" by fastforce
  have step: "remove_if_stale now (k, p) (n, s) =
     (if stale now (rs_heap s ! p)
      then (n + 1, s\<lparr>rs_sessions := filter (\<lambda>(k', _). k' \<notin> {k}) (rs_sessions s),
                     rs_tokenToSession := filter (\<lambda>(t, _). t \<notin> {s_Token (rs_heap s ! p)}) (rs_tokenToSession s)\<rparr>)
      else (n, s))"
    by (simp add: remove_if_stale_def stale_def Let_def not_le delete_filter)
  show ?case
    by (cases "stale now (rs_heap s ! p)") (simp_all add: x step Cons.IH stale_sets_Cons case_prod_unfold)
qed

lemma removeStaleSessions_eq:
  "rs_heap (snd (removeStaleSessions now s)) = rs_heap s"
  "rs_sessions (snd (removeStaleSessions now s)) =
     filter (\<lambda>(k, _). k \<notin> stale_keys now (rs_heap s) (rs_sessions s)) (rs_sessions s)"
  "rs_tokenToSession (snd (removeStaleSessions now s)) =
     filter (\<lambda>(t, _). t \<notin> stale_tokens now (rs_heap s) (rs_sessions s)) (rs_tokenToSession s)"
  "rs_out (snd (removeStaleSessions now s)) = rs_out s" "rs_conn (snd (removeStaleSessions now s)) = rs_conn s"
  "fst (removeStaleSessions now s) = int (length (filter (\<lambda>(k, p). stale now (rs_heap s ! p)) (rs_sessions s)))"
  by (simp_all add: removeStaleSessions_def fold_remove_if_stale Let_def split_def)

lemma stale_tokens_keys:
  assumes "tables_ok heap ses tok" "map_of tok t = Some key"
  shows "t \<in> stale_tokens now heap ses \<longleftrightarrow> key \<in> stale_keys now heap ses"
proof -
  have dis: "distinct (map fst ses)" and ok: "maps_ok heap (map_of ses) (map_of tok)"
    using assms(1) by (simp_all add: tables_ok_def)
  obtain p where p: "map_of ses key = Some p" "s_Token (heap ! p) = t" using maps_okD(5) [OF ok assms(2)] by blast
  have uniq: "q = p \<and> k = key" if "(k, q) \<in> set ses" "s_Token (heap ! q) = t" for k q
  proof -
    have q: "map_of ses k = Some q" using that(1) dis by (simp add: map_of_eq_Some_iff)
    then have "map_of tok t = Some k" using maps_okD(4) [OF ok q] that(2) by simp
    with assms(2) q p(1) show ?thesis by simp
  qed
  have "(key, p) \<in> set ses" using p(1) by (rule map_of_SomeD)
  moreover have "q = p" if "(key, q) \<in> set ses" for q using that p(1) dis by (simp add: map_of_eq_Some_iff)
  ultimately show ?thesis
    using uniq p(2) unfolding stale_tokens_def stale_keys_def by blast
qed

lemma removeStaleSessions_inv: "relay_inv s \<Longrightarrow> relay_inv (snd (removeStaleSessions now s))"
proof -
  assume inv: "relay_inv s"
  have "gauge_ok (snd (removeStaleSessions now s))"
  proof (cases "0 < fst (removeStaleSessions now s)")
    case True
    then show ?thesis by (simp add: removeStaleSessions_def Let_def split_def)
  next
    case False
    then have "\<forall>(k, p) \<in> set (rs_sessions s). \<not> stale now (rs_heap s ! p)"
      by (auto simp: removeStaleSessions_eq filter_empty_conv)
    then have "rs_sessions (snd (removeStaleSessions now s)) = rs_sessions s"
      by (auto simp: removeStaleSessions_eq stale_keys_def intro!: filter_True)
    moreover have "rs_metrics (snd (removeStaleSessions now s)) = rs_metrics s"
      using False by (simp add: removeStaleSessions_def fold_remove_if_stale Let_def split_def)
    ultimately show ?thesis using inv by (simp add: relay_inv_def gauge_ok_def)
  qed
  moreover have ok: "tables_ok (rs_heap s) (rs_sessions s) (rs_tokenToSession s)" using inv by (simp add: relay_inv_def)
  ultimately show ?thesis
    using tables_ok_remove [OF ok stale_tokens_keys [OF ok]] by (simp only: relay_inv_def removeStaleSessions_eq simp_thms)
qed

lemma removeSession_inv: "relay_inv s \<Longrightarrow> relay_inv (removeSession sid s)"
proof (cases "map_of (rs_sessions s) (sessionKey sid)")
  case None
  then show "relay_inv s \<Longrightarrow> ?thesis" by (simp add: removeSession_def)
next
  case (Some p)
  assume inv: "relay_inv s"
  then have ok: "maps_ok (rs_heap s) (map_of (rs_sessions s)) (map_of (rs_tokenToSession s))"
    by (simp add: relay_inv_def tables_ok_def)
  have T: "t \<in> {s_Token (rs_heap s ! p)} \<longleftrightarrow> key \<in> {sessionKey sid}" if "map_of (rs_tokenToSession s) t = Some key" for t key
    using maps_okD(4) [OF ok Some] maps_okD(5) [OF ok that] Some that by auto
  have "tables_ok (rs_heap s) (rs_sessions s) (rs_tokenToSession s)" using inv by (simp add: relay_inv_def)
  from tables_ok_remove [OF this T] show ?thesis
    by (simp add: removeSession_def Some relay_inv_def Let_def delete_filter)
qed

lemma tables_ok_update:
  assumes "tables_ok heap ses tok" "\<And>ss. session_ok ss \<Longrightarrow> session_ok (f ss)"
    "\<And>ss. s_ID (f ss) = s_ID ss" "\<And>ss. s_Token (f ss) = s_Token ss"
  shows "tables_ok (heap[p := f (heap ! p)]) ses tok"
  using assms maps_ok_update [of heap _ _ f] by (simp add: tables_ok_def)

lemma touchSession_inv: "relay_inv s \<Longrightarrow> relay_inv (touchSession now p s)"
  using tables_ok_update [of _ _ _ "\<lambda>ss. ss\<lparr>s_LastActivity := now\<rparr>"]
  by (auto simp: relay_inv_def touchSession_def update_session_def gauge_ok_def session_ok_def)

lemma join_existing_ok: "session_ok ss \<Longrightarrow> session_ok (join_existing now peer ss)"
  by (auto simp: session_ok_def join_existing_def Let_def)

lemma join_existing_keeps [simp]:
  "s_ID (join_existing now peer ss) = s_ID ss" "s_Token (join_existing now peer ss) = s_Token ss"
  by (simp_all add: join_existing_def Let_def)

definition fresh_id :: "relay_env \<Rightarrow> RelayServer \<Rightarrow> bool" where
  "fresh_id env s \<longleftrightarrow> map_of (rs_sessions s) (sessionKey (new_session_id env)) = None"

lemma tables_ok_new:
  assumes "tables_ok heap ses tok" "map_of ses (sessionKey (s_ID ss)) = None" "map_of tok (s_Token ss) = None" "session_ok ss"
  shows "tables_ok (heap @ [ss]) (AList.update (sessionKey (s_ID ss)) (length heap) ses) (AList.update (s_Token ss) (sessionKey (s_ID ss)) tok)"
  using assms maps_ok_new [of heap _ _ ss] by (simp add: tables_ok_def distinct_update update_conv')

lemma createSession_inv: "relay_inv s \<Longrightarrow> fresh_id env s \<Longrightarrow> relay_inv (snd (createSession env token peer s))"
proof (cases "Option.bind (map_of (rs_tokenToSession s) token) (map_of (rs_sessions s))")
  case None
  assume inv: "relay_inv s" and fresh: "fresh_id env s"
  then have ok: "tables_ok (rs_heap s) (rs_sessions s) (rs_tokenToSession s)" by (simp add: relay_inv_def)
  have "map_of (rs_tokenToSession s) token = None"
    using None ok maps_okD(5) by (cases "map_of (rs_tokenToSession s) token") (fastforce simp: tables_ok_def)+
  then show ?thesis
    using tables_ok_new [OF ok, of "\<lparr>s_ID = new_session_id env, s_Token = token, s_PeerAAddr = Some peer, s_PeerBAddr = None,
        s_CreatedAt = env_now env, s_LastActivity = env_now env\<rparr>"] fresh
    by (simp add: createSession_def None new_session_def Let_def relay_inv_def fresh_id_def session_ok_def length_new_session_id)
next
  case (Some p)
  then show "relay_inv s \<Longrightarrow> ?thesis"
    using tables_ok_update [of _ _ _ "join_existing (env_now env) peer"] join_existing_ok
    by (simp add: createSession_def relay_inv_def update_session_def)
qed

lemma interleave_cleanup_inv: "relay_inv s \<Longrightarrow> relay_inv (interleave_cleanup env s)"
  by (simp add: interleave_cleanup_def removeStaleSessions_inv split: option.splits)

lemma interleave_cleanup_keeps [simp]:
  "rs_heap (interleave_cleanup env s) = rs_heap s" "rs_out (interleave_cleanup env s) = rs_out s"
  "rs_conn (interleave_cleanup env s) = rs_conn s"
  by (simp_all add: interleave_cleanup_def removeStaleSessions_eq split: option.splits)

lemma forwardPacket_inv: "relay_inv s \<Longrightarrow> relay_inv (snd (forwardPacket env p data from s))"
  using touchSession_inv same_tables_inv [OF write_udp_same]
  by (auto simp: forwardPacket_def Let_def split: option.splits)

lemma handle_connect_inv: "relay_inv s \<Longrightarrow> fresh_id env s \<Longrightarrow> relay_inv (snd (handle_connect env payload from s))"
  using same_tables_inv [OF sendPacket_same] same_tables_inv [OF broadcastControl_same] interleave_cleanup_inv createSession_inv
  by (auto simp: handle_connect_def Let_def split_def split: sum.splits)

lemma handlePacket_inv: "relay_inv s \<Longrightarrow> fresh_id env s \<Longrightarrow> relay_inv (snd (handlePacket env data from s))"
  using same_tables_inv [OF sendPacket_same] interleave_cleanup_inv handle_connect_inv forwardPacket_inv touchSession_inv removeSession_inv
  by (auto simp: handlePacket_def Let_def split: option.splits)

subsection \<open>The relay as a transition system\<close>

text \<open>
  The listener handles packets, the cleanup goroutine runs every 30 seconds and the metrics
  goroutine every second, in any interleaving of their critical sections. Session identifiers
  are 128 random bits: a new one is taken to differ from those in use.
\<close>

datatype relay_label = Handles relay_env bytes UDPAddr | Cleans int | Ticks u64 | Listens

inductive relay_step :: "RelayServer \<Rightarrow> relay_label \<Rightarrow> RelayServer \<Rightarrow> bool" where
  handle: "fresh_id env s \<Longrightarrow> relay_step s (Handles env data from) (snd (handlePacket env data from s))"
| clean: "relay_step s (Cleans now) (snd (removeStaleSessions now s))"
| tick: "rs_metrics s = Some m \<Longrightarrow> relay_step s (Ticks prev) (s\<lparr>rs_metrics := Some (snd (metrics_tick prev m))\<rparr>)"
| listen: "relay_step s Listens (s\<lparr>rs_conn := True\<rparr>)"

inductive_cases relay_stepE: "relay_step s l s'"

definition relay_start :: "RelayServer \<Rightarrow> bool" where
  "relay_start s \<longleftrightarrow> (\<exists>port name. s = NewRelayServer port \<or> s = SetMetrics (NewMetrics name) (NewRelayServer port))"

interpretation relay: inductive_invariant relay_start relay_step relay_inv
proof
  show "relay_start s \<Longrightarrow> relay_inv s" for s
    by (auto simp: relay_start_def relay_inv_def tables_ok_def maps_ok_def gauge_ok_def NewRelayServer_def SetMetrics_def NewMetrics_def)
  show "relay_inv s'" if inv: "relay_inv s" and "relay_step s l s'" for s l s'
    using that(2)
  proof (cases rule: relay_step.cases)
    case (handle env data "from")
    then show ?thesis using handlePacket_inv inv by simp
  next
    case (clean now)
    then show ?thesis using removeStaleSessions_inv inv by simp
  next
    case (tick m prev)
    then show ?thesis using inv by (simp add: relay_inv_def gauge_ok_def metrics_tick_def Let_def)
  next
    case listen
    then show ?thesis using inv by (simp add: relay_inv_def gauge_ok_def)
  qed
qed

lemma destinationAddr_Some:
  "destinationAddr session (Some from) = Some to \<Longrightarrow>
     sameAddr (s_PeerAAddr session) (Some from) \<and> s_PeerBAddr session = Some to \<or>
     sameAddr (s_PeerBAddr session) (Some from) \<and> s_PeerAAddr session = Some to"
  by (auto simp: destinationAddr_def split: if_splits)

lemma touchSession_peers:
  "s_PeerAAddr (rs_heap (touchSession now p s) ! q) = s_PeerAAddr (rs_heap s ! q)"
  "s_PeerBAddr (rs_heap (touchSession now p s) ! q) = s_PeerBAddr (rs_heap s ! q)"
  "rs_out (touchSession now p s) = rs_out s" "rs_conn (touchSession now p s) = rs_conn s"
proof -
  have "rs_heap (touchSession now p s) ! q = rs_heap s ! q \<or>
        rs_heap (touchSession now p s) ! q = (rs_heap s ! q)\<lparr>s_LastActivity := now\<rparr>"
    using nth_apply_at [of "rs_heap s" p "\<lambda>ss. ss\<lparr>s_LastActivity := now\<rparr>" q]
    unfolding touchSession_def update_session_def by simp
  then show "s_PeerAAddr (rs_heap (touchSession now p s) ! q) = s_PeerAAddr (rs_heap s ! q)"
    "s_PeerBAddr (rs_heap (touchSession now p s) ! q) = s_PeerBAddr (rs_heap s ! q)" by auto
qed (simp_all add: touchSession_def update_session_def)

lemma destinationAddr_touch:
  "destinationAddr (rs_heap (touchSession now p s) ! p) from = destinationAddr (rs_heap s ! p) from"
  by (simp add: destinationAddr_def touchSession_peers)

lemma record_packet_out [simp]: "rs_out (record_packet n s) = rs_out s"
  by (simp add: record_packet_def split: option.splits)

lemma forwardPacket_out:
  "rs_out (snd (forwardPacket env p data from s)) =
     (case destinationAddr (rs_heap s ! p) (Some from) of
        None \<Rightarrow> rs_out s
      | Some to \<Rightarrow> if rs_conn s \<and> env_write env data to = None then rs_out s @ [(data, to)] else rs_out s)"
  by (auto simp: forwardPacket_def Let_def destinationAddr_touch touchSession_peers write_udp_def split: option.splits)

subsection \<open>Concrete packets\<close>

text \<open>
  An environment in which writes succeed, no cleanup interferes and the payload names a token.
\<close>

definition quiet_env :: "int \<Rightarrow> bytes \<Rightarrow> string \<Rightarrow> relay_env" where
  "quiet_env now sid token =
     \<lparr>env_now = now, env_rand = Some sid, env_nano = 0, env_between = None, env_write = (\<lambda>_ _. None),
      env_unmarshal = (\<lambda>_. Inr \<lparr>cp_SessionToken = token, cp_PeerID = []\<rparr>)\<rparr>"

definition connect_packet :: bytes where
  "connect_packet = PacketTypeConnect # replicate 16 0"

definition data_packet :: "bytes \<Rightarrow> bytes \<Rightarrow> bytes" where
  "data_packet sid payload = PacketTypeData # sid @ payload"

definition status_packet :: "bytes \<Rightarrow> string \<Rightarrow> bytes" where
  "status_packet sid msg = PacketTypePing # sid @ bytes_of msg"

subsection \<open>Properties\<close>

text \<open>
  C27. In every state the relay reaches, under any interleaving of packets, cleanup and metrics
  ticks, the session table and the token table mirror each other: a session is stored under its
  own identifier and found by its token, every token leads to a live session with that token,
  two entries never share a token, the two peers of a session differ, and the active-session
  gauge equals the number of sessions.
\<close>

theorem relay_tables_consistent:
  assumes "reachable_by relay_start relay_step ls s"
  shows "relay_inv s \<and>
    (\<forall>k1 p1 k2 p2. map_of (rs_sessions s) k1 = Some p1 \<longrightarrow> map_of (rs_sessions s) k2 = Some p2 \<longrightarrow>
       s_Token (rs_heap s ! p1) = s_Token (rs_heap s ! p2) \<longrightarrow> k1 = k2 \<and> p1 = p2)"
proof -
  have inv: "relay_inv s" using assms by (rule relay.reachable_inv)
  then have ok: "maps_ok (rs_heap s) (map_of (rs_sessions s)) (map_of (rs_tokenToSession s))"
    by (simp add: relay_inv_def tables_ok_def)
  have "k1 = k2" if "map_of (rs_sessions s) k1 = Some p1" "map_of (rs_sessions s) k2 = Some p2"
    "s_Token (rs_heap s ! p1) = s_Token (rs_heap s ! p2)" for k1 p1 k2 p2
    using maps_okD(4) [OF ok that(1)] maps_okD(4) [OF ok that(2)] that(3) by simp
  then show ?thesis using inv by (metis option.inject)
qed

theorem relay_tables_consistent_witness:
  "relay_inv (snd (handlePacket (quiet_env 7 (replicate 16 1) ''tok'') connect_packet
      \<lparr>ua_IP = of_v4 0x0A000001, ua_Port = 4000, ua_Zone = []\<rparr> (NewRelayServer 3478)))"
proof -
  have r0: "reachable_by relay_start relay_step [] (NewRelayServer 3478)"
    by (rule reachable_by.start) (auto simp: relay_start_def)
  have "fresh_id (quiet_env 7 (replicate 16 1) ''tok'') (NewRelayServer 3478)"
    by (simp add: fresh_id_def NewRelayServer_def)
  note st = relay_step.handle [OF this]
  note r1 = reachable_by.step [where start = relay_start and step = relay_step, OF r0 st]
  show ?thesis using relay_tables_consistent [OF r1] by blast
qed

text \<open>
  C6. Data is relayed only between the two peers of a session: handling a data packet sends at
  most one datagram, the packet itself unchanged, and only when the sender is one peer of the
  session named in the header and the receiver is the other one, even if the cleanup goroutine
  removed the session meanwhile.
\<close>

theorem data_only_to_opposite_peer:
  assumes "packetHeaderSize \<le> length data" "data ! 0 = PacketTypeData"
  shows "rs_out (snd (handlePacket env data from s)) = rs_out s \<or>
    (\<exists>p to. getSessionByID (take 16 (drop 1 data)) s = Some p \<and>
       rs_out (snd (handlePacket env data from s)) = rs_out s @ [(data, to)] \<and>
       (sameAddr (s_PeerAAddr (rs_heap s ! p)) (Some from) \<and> s_PeerBAddr (rs_heap s ! p) = Some to \<or>
        sameAddr (s_PeerBAddr (rs_heap s ! p)) (Some from) \<and> s_PeerAAddr (rs_heap s ! p) = Some to))"
proof (cases "getSessionByID (take 16 (drop 1 data)) s")
  case None
  with assms show ?thesis by (simp add: handlePacket_def PacketTypeData_def PacketTypeConnect_def)
next
  case (Some p)
  with assms have "handlePacket env data from s = forwardPacket env p data from (interleave_cleanup env s)"
    by (simp add: handlePacket_def PacketTypeData_def PacketTypeConnect_def)
  then show ?thesis
    using Some destinationAddr_Some [of "rs_heap s ! p" "from"] by (auto simp: forwardPacket_out split: option.splits)
qed

definition host :: "u32 \<Rightarrow> UDPAddr" where
  "host a = \<lparr>ua_IP = of_v4 a, ua_Port = 4000, ua_Zone = []\<rparr>"

definition listening :: RelayServer where
  "listening = (NewRelayServer 3478)\<lparr>rs_conn := True\<rparr>"

definition one_session :: RelayServer where
  "one_session = snd (handlePacket (quiet_env 7 (replicate 16 1) ''tok'') connect_packet (host 1) listening)"

theorem data_only_to_opposite_peer_witness:
  "rs_out (snd (handlePacket (quiet_env 8 [] []) (data_packet (replicate 16 1) [42]) (host 9) one_session)) = rs_out one_session \<or>
   (\<exists>p to. getSessionByID (take 16 (drop 1 (data_packet (replicate 16 1) [42]))) one_session = Some p \<and>
      rs_out (snd (handlePacket (quiet_env 8 [] []) (data_packet (replicate 16 1) [42]) (host 9) one_session)) =
        rs_out one_session @ [(data_packet (replicate 16 1) [42], to)])"
  using data_only_to_opposite_peer [of "data_packet (replicate 16 1) [42]" "quiet_env 8 [] []" "host 9" one_session]
  by (auto simp: data_packet_def packetHeaderSize_def)

text \<open>
  Cleanup removes exactly the idle sessions: after \<open>removeStaleSessions(now)\<close> a session is
  in the table iff it was there and its last activity is at most five minutes before \<open>now\<close>, the
  token of a removed session is gone, and the tokens of the others are kept.
\<close>

lemma cleanup_removes_exactly_idle:
  assumes "relay_inv s"
  shows "map_of (rs_sessions (snd (removeStaleSessions now s))) key =
           (case map_of (rs_sessions s) key of
              None \<Rightarrow> None
            | Some p \<Rightarrow> if now - s_LastActivity (rs_heap s ! p) \<le> sessionIdleTimeout then Some p else None) \<and>
         map_of (rs_tokenToSession (snd (removeStaleSessions now s))) token =
           (case Option.bind (map_of (rs_tokenToSession s) token) (map_of (rs_sessions s)) of
              None \<Rightarrow> None
            | Some p \<Rightarrow> if now - s_LastActivity (rs_heap s ! p) \<le> sessionIdleTimeout
                        then map_of (rs_tokenToSession s) token else None)"
proof -
  have ok: "tables_ok (rs_heap s) (rs_sessions s) (rs_tokenToSession s)" using assms by (simp add: relay_inv_def)
  then have dis: "distinct (map fst (rs_sessions s))" by (simp add: tables_ok_def)
  have stale_key: "k \<in> stale_keys now (rs_heap s) (rs_sessions s) \<longleftrightarrow> stale now (rs_heap s ! p)"
    if "map_of (rs_sessions s) k = Some p" for k p
  proof -
    have "q = p" if "(k, q) \<in> set (rs_sessions s)" for q
      using that \<open>map_of (rs_sessions s) k = Some p\<close> map_of_eq_Some_iff [OF dis] by (metis option.inject)
    then show ?thesis unfolding stale_keys_def using map_of_SomeD [OF that] by blast
  qed
  have "maps_ok (rs_heap s) (map_of (rs_sessions s)) (map_of (rs_tokenToSession s))" using ok by (simp add: tables_ok_def)
  note live = maps_okD(5) [OF this]
  have 1: "map_of (rs_sessions (snd (removeStaleSessions now s))) key =
           (case map_of (rs_sessions s) key of
              None \<Rightarrow> None
            | Some p \<Rightarrow> if now - s_LastActivity (rs_heap s ! p) \<le> sessionIdleTimeout then Some p else None)"
    using stale_key [of key]
    by (cases "map_of (rs_sessions s) key") (auto simp: removeStaleSessions_eq map_of_filter_fst restrict_map_def stale_def)
  have 2: "map_of (rs_tokenToSession (snd (removeStaleSessions now s))) token =
           (case Option.bind (map_of (rs_tokenToSession s) token) (map_of (rs_sessions s)) of
              None \<Rightarrow> None
            | Some p \<Rightarrow> if now - s_LastActivity (rs_heap s ! p) \<le> sessionIdleTimeout
                        then map_of (rs_tokenToSession s) token else None)"
  proof (cases "map_of (rs_tokenToSession s) token")
    case None
    then show ?thesis by (auto simp: removeStaleSessions_eq map_of_filter_fst restrict_map_def)
  next
    case (Some k)
    then obtain p where p: "map_of (rs_sessions s) k = Some p" using live by blast
    show ?thesis
      using stale_key [OF p] stale_tokens_keys [OF ok Some, of now] Some p
      by (auto simp: removeStaleSessions_eq map_of_filter_fst restrict_map_def stale_def)
  qed
  show ?thesis using 1 2 by blast
qed

lemma one_session_inv: "relay_inv one_session"
proof -
  have "relay_inv listening"
    by (simp add: listening_def relay_inv_def tables_ok_def maps_ok_def gauge_ok_def NewRelayServer_def)
  then show ?thesis
    unfolding one_session_def by (rule handlePacket_inv) (simp add: fresh_id_def listening_def NewRelayServer_def)
qed

lemma cleanup_removes_exactly_idle_witness:
  "map_of (rs_sessions (snd (removeStaleSessions 300000000008 one_session))) (sessionKey (replicate 16 1)) = None \<and>
   map_of (rs_sessions (snd (removeStaleSessions 300000000007 one_session))) (sessionKey (replicate 16 1)) = Some 0"
proof -
  have "map_of (rs_sessions one_session) (sessionKey (replicate 16 1)) = Some 0" "s_LastActivity (rs_heap one_session ! 0) = 7"
    by code_simp+
  then show ?thesis
    using cleanup_removes_exactly_idle [OF one_session_inv, of 300000000008 "sessionKey (replicate 16 1)" "[]"]
      cleanup_removes_exactly_idle [OF one_session_inv, of 300000000007 "sessionKey (replicate 16 1)" "[]"]
    by (simp add: sessionIdleTimeout_def)
qed

lemma new_session_id_quiet: "length sid = 16 \<Longrightarrow> new_session_id (quiet_env now sid token) = sid"
  by (simp add: new_session_id_def randomSessionID_def quiet_env_def)

lemma record_packet_keeps [simp]:
  "rs_heap (record_packet n s) = rs_heap s" "rs_sessions (record_packet n s) = rs_sessions s"
  "rs_tokenToSession (record_packet n s) = rs_tokenToSession s" "rs_conn (record_packet n s) = rs_conn s"
  by (simp_all add: record_packet_def split: option.splits)

lemma sendPacket_quiet:
  "rs_conn s \<Longrightarrow> length sid' = 16 \<Longrightarrow> sendPacket (quiet_env now sid token) ty sid' payload to s =
     (Inr (), record_packet (length (ty # sid' @ payload)) (s\<lparr>rs_out := rs_out s @ [(ty # sid' @ payload, to)]\<rparr>))"
  by (simp add: sendPacket_def write_udp_def quiet_env_def)

definition waiting_session :: "int \<Rightarrow> bytes \<Rightarrow> string \<Rightarrow> UDPAddr \<Rightarrow> UDPAddr option \<Rightarrow> Session" where
  "waiting_session now sid token a b =
     \<lparr>s_ID = sid, s_Token = token, s_PeerAAddr = Some a, s_PeerBAddr = b, s_CreatedAt = now, s_LastActivity = now\<rparr>"

lemma connect_runs: "handlePacket env connect_packet from s = handle_connect env [] from s"
  by (simp add: handlePacket_def connect_packet_def packetHeaderSize_def)

lemma connect_first:
  fixes now sid token a s
  defines "s1 \<equiv> snd (handlePacket (quiet_env now sid token) connect_packet a s)"
  assumes "rs_conn s" "token \<noteq> []" "length sid = 16" "map_of (rs_tokenToSession s) token = None"
  shows "rs_heap s1 = rs_heap s @ [waiting_session now sid token a None] \<and>
    rs_sessions s1 = AList.update (sessionKey sid) (length (rs_heap s)) (rs_sessions s) \<and>
    rs_tokenToSession s1 = AList.update token (sessionKey sid) (rs_tokenToSession s) \<and> rs_conn s1 \<and>
    rs_out s1 = rs_out s @ [(status_packet sid ''waiting'', a)]"
proof -
  have env: "env_unmarshal (quiet_env now sid token) x = Inr \<lparr>cp_SessionToken = token, cp_PeerID = []\<rparr>"
    "env_between (quiet_env now sid token) = None" "env_now (quiet_env now sid token) = now" for x
    by (simp_all add: quiet_env_def)
  show ?thesis
    using assms(2-5)
    by (simp add: s1_def connect_runs handle_connect_def createSession_def new_session_def Let_def env interleave_cleanup_def
        new_session_id_quiet sendPacket_quiet waiting_session_def status_packet_def packetTypeForAck_def)
qed

lemma connect_second:
  fixes now sid token a b s
  defines "s2 \<equiv> snd (handlePacket (quiet_env now sid token) connect_packet b s)"
  assumes "rs_conn s" "token \<noteq> []" "length sid = 16" "map_of (rs_tokenToSession s) token = Some key"
    "map_of (rs_sessions s) key = Some p" "p < length (rs_heap s)" "rs_heap s ! p = waiting_session now sid token a None"
    "\<not> sameAddr (Some a) (Some b)"
  shows "rs_heap s2 = (rs_heap s)[p := waiting_session now sid token a (Some b)] \<and>
    rs_sessions s2 = rs_sessions s \<and> rs_conn s2 \<and>
    rs_out s2 = rs_out s @ [(status_packet sid ''paired'', a), (status_packet sid ''paired'', b), (status_packet sid ''paired'', b)]"
proof -
  have env: "env_unmarshal (quiet_env now sid token) x = Inr \<lparr>cp_SessionToken = token, cp_PeerID = []\<rparr>"
    "env_between (quiet_env now sid token) = None" "env_now (quiet_env now sid token) = now" for x
    by (simp_all add: quiet_env_def)
  have join: "join_existing now b (waiting_session now sid token a None) = waiting_session now sid token a (Some b)"
    using assms(9) by (simp add: join_existing_def waiting_session_def)
  show ?thesis
    using assms(2-8)
    by (simp add: s2_def connect_runs handle_connect_def createSession_def update_session_def Let_def env interleave_cleanup_def
        join sendPacket_quiet broadcastControl_def status_packet_def packetTypeForAck_def)
      (simp add: waiting_session_def sendPacket_quiet)
qed

lemma data_forwarded:
  assumes "rs_conn s" "length sid = 16" "map_of (rs_sessions s) (sessionKey sid) = Some p"
    "destinationAddr (rs_heap s ! p) (Some from) = Some to"
  shows "fst (handlePacket (quiet_env now sid' token) (data_packet sid payload) from s) = Inr () \<and>
    rs_out (snd (handlePacket (quiet_env now sid' token) (data_packet sid payload) from s)) =
      rs_out s @ [(data_packet sid payload, to)]"
proof -
  have "handlePacket (quiet_env now sid' token) (data_packet sid payload) from s =
      forwardPacket (quiet_env now sid' token) p (data_packet sid payload) from s"
    using assms(2,3)
    by (simp add: handlePacket_def data_packet_def packetHeaderSize_def PacketTypeData_def PacketTypeConnect_def
        getSessionByID_def interleave_cleanup_def) (simp add: quiet_env_def)
  then show ?thesis
    using assms(1,4) by (simp add: forwardPacket_def Let_def destinationAddr_touch touchSession_peers write_udp_def quiet_env_def)
qed



text \<open>
  A third peer that presents the token of a session that already has two peers is
  acknowledged with \<open>paired\<close>, and both real peers are notified again, although it is not part of
  the session: its data is refused.
\<close>

lemma third_peer_told_paired:
  "let e = quiet_env 7 (replicate 16 1) ''tok'';
       s2 = snd (handlePacket e connect_packet (host 2) one_session);
       s3 = snd (handlePacket e connect_packet (host 3) s2)
   in last (rs_out s3) = (status_packet (replicate 16 1) ''paired'', host 3) \<and>
      fst (handlePacket e (data_packet (replicate 16 1) [42]) (host 3) s3) =
        Inl (Errorf ''forward packet: sender is not part of session'')"
  by code_simp

end
