(* ===== verification/Store.thy ===== *)
theory Store
  imports Effects Netutil "HOL-Library.Multiset"
begin

text \<open>
  The persistent state of the server: \<open>server/internal/models\<close> and
  \<open>server/internal/database/queries\<close>. Tables are lists of rows, constrained as the migrations
  under \<open>server/internal/database/migrations\<close> say; a query is the SQL statement of the source as a
  function on the tables. PostgreSQL and the driver are external: their parsing of \<open>uuid\<close> and
  \<open>inet\<close> values is the record \<open>pg\<close>, and what they may do to a statement is the schedule of the
  world: run it, fail it with an error, or run it after other clients committed (the tables
  change under the handler between two of its statements). A statement is atomic and leaves the
  tables as they are when it fails.
\<close>

subsection \<open>Models\<close>

text \<open>The zero \<open>time.Time\<close> is \<open>None\<close>.\<close>

record Peer =
  p_ID :: string
  p_NetworkID :: string
  p_Name :: string
  p_MachineID :: string
  p_PublicKey :: string
  p_VirtualIP :: string
  p_PublicEndpoint :: string
  p_LocalEndpoints :: "string list"
  p_OS :: string
  p_Version :: string
  p_IsOnline :: bool
  p_LastSeen :: "int option"
  p_LastHandshake :: "int option"
  p_RXBytes :: int
  p_TXBytes :: int
  p_VNCPort :: int
  p_VNCAvailable :: bool
  p_RelayID :: string
  p_Status :: string
  p_MemberToken :: string
  p_CreatedAt :: "int option"

record Network =
  n_ID :: string
  n_OwnerID :: string
  n_Name :: string
  n_NetworkID :: string
  n_CIDR :: string
  n_Description :: string
  n_MaxPeers :: int
  n_IsActive :: bool
  n_AccessControl :: string
  n_CreatedAt :: int

record User =
  u_ID :: string
  u_Email :: string
  u_PasswordHash :: string
  u_Name :: string
  u_APIKey :: string
  u_CreatedAt :: int
  u_UpdatedAt :: int

definition zero_peer :: Peer where
  "zero_peer =
     \<lparr>p_ID = [], p_NetworkID = [], p_Name = [], p_MachineID = [], p_PublicKey = [], p_VirtualIP = [],
      p_PublicEndpoint = [], p_LocalEndpoints = [], p_OS = [], p_Version = [], p_IsOnline = False,
      p_LastSeen = None, p_LastHandshake = None, p_RXBytes = 0, p_TXBytes = 0, p_VNCPort = 0,
      p_VNCAvailable = False, p_RelayID = [], p_Status = [], p_MemberToken = [], p_CreatedAt = None\<rparr>"

subsection \<open>Tables\<close>

text \<open>
  A row of \<open>peers\<close>: nullable columns are options; \<open>virtual_ip\<close> is the text PostgreSQL gives for
  the stored \<open>inet\<close> value.
\<close>

record peer_row =
  r_id :: string
  r_network_id :: string
  r_name :: "string option"
  r_machine_id :: string
  r_public_key :: string
  r_virtual_ip :: string
  r_public_endpoint :: "string option"
  r_local_endpoints :: "string list"
  r_os :: "string option"
  r_version :: "string option"
  r_is_online :: bool
  r_last_seen :: "int option"
  r_last_handshake :: "int option"
  r_rx_bytes :: int
  r_tx_bytes :: int
  r_vnc_port :: int
  r_vnc_available :: bool
  r_relay_id :: "string option"
  r_status :: string
  r_member_token :: "string option"
  r_created_at :: int

record tables =
  t_users :: "User list"
  t_networks :: "Network list"
  t_peers :: "peer_row list"

text \<open>\<open>None\<close> is the error of the driver or the server for a malformed value.\<close>

record pg =
  pg_uuid :: "string \<Rightarrow> string option"
  pg_inet :: "string \<Rightarrow> string option"

datatype db_event = DbOk | DbFault go_error | DbRace tables

record world =
  w_db :: tables
  w_sched :: "db_event list"
  w_now :: int
  w_uuid :: "nat \<Rightarrow> string"
  w_seq :: nat
  w_rand :: "bytes option list"
  w_pg :: pg

subsection \<open>Statements\<close>

definition run_stmt :: "(world \<Rightarrow> go_error + 'a \<times> tables) \<Rightarrow> (world, 'a) procedure" where
  "run_stmt f w = (case f w of Inl e \<Rightarrow> (Inl e, w) | Inr (a, t) \<Rightarrow> (Inr a, w\<lparr>w_db := t, w_seq := Suc (w_seq w)\<rparr>))"

definition exec :: "(world \<Rightarrow> go_error + 'a \<times> tables) \<Rightarrow> (world, 'a) procedure" where
  "exec f w =
     (case w_sched w of
        [] \<Rightarrow> run_stmt f w
      | DbOk # es \<Rightarrow> run_stmt f (w\<lparr>w_sched := es\<rparr>)
      | DbFault e # es \<Rightarrow> (Inl e, w\<lparr>w_sched := es\<rparr>)
      | DbRace t # es \<Rightarrow> run_stmt f (w\<lparr>w_sched := es, w_db := t\<rparr>))"

definition gen_uuid :: "world \<Rightarrow> string" where
  "gen_uuid w = w_uuid w (w_seq w)"

definition ErrNotFound :: go_error where "ErrNotFound = Sentinel ''record not found''"
definition ErrNoRows :: go_error where "ErrNoRows = Sentinel ''no rows in result set''"

definition mapNotFound :: "go_error \<Rightarrow> go_error" where
  "mapNotFound e = (if errors_Is e ErrNoRows then ErrNotFound else e)"

definition mapped :: "string \<Rightarrow> (world, 'a) procedure \<Rightarrow> (world, 'a) procedure" where
  "mapped ctx m = (\<lambda>w. case m w of (Inl e, w') \<Rightarrow> (Inl (Wrapf ctx (mapNotFound e)), w') | (Inr a, w') \<Rightarrow> (Inr a, w'))"

text \<open>Errors PostgreSQL documents: unique and foreign-key violations, bad values, too long values.\<close>

definition unique_violation :: "string \<Rightarrow> go_error" where
  "unique_violation c = Errorf (''ERROR: duplicate key value violates unique constraint '' @ [CHR 0x22] @ c @ [CHR 0x22] @ '' (SQLSTATE 23505)'')"

definition bad_value :: go_error where "bad_value = Errorf ''ERROR: invalid input syntax (SQLSTATE 22P02)''"
definition too_long :: go_error where "too_long = Errorf ''ERROR: value too long for type character varying (SQLSTATE 22001)''"
definition fk_violation :: go_error where "fk_violation = Errorf ''ERROR: insert or update violates foreign key constraint (SQLSTATE 23503)''"

text \<open>\<open>VARCHAR(n)\<close> counts characters: the bytes that do not continue a UTF-8 sequence.\<close>

definition char_count :: "string \<Rightarrow> nat" where
  "char_count s = length (filter (\<lambda>c. (of_char c :: nat) < 128 \<or> 192 \<le> (of_char c :: nat)) s)"

definition varchars_fit :: "(nat \<times> string) list \<Rightarrow> bool" where
  "varchars_fit cols = list_all (\<lambda>(n, s). char_count s \<le> n) cols"

definition int4 :: "int \<Rightarrow> bool" where
  "int4 i \<longleftrightarrow> - (2 ^ 31) \<le> i \<and> i < 2 ^ 31"

definition opt_str :: "string option \<Rightarrow> string" where
  "opt_str x = (case x of None \<Rightarrow> [] | Some s \<Rightarrow> s)"

definition nullif_empty :: "string \<Rightarrow> string option" where
  "nullif_empty s = (if s = [] then None else Some s)"

definition zero_inet :: string where
  "zero_inet = ''0.0.0.0/32''"

definition peer_row_fits :: "peer_row \<Rightarrow> bool" where
  "peer_row_fits r =
     (varchars_fit [(100, opt_str (r_name r)), (64, r_machine_id r), (44, r_public_key r), (50, opt_str (r_public_endpoint r)),
        (20, opt_str (r_os r)), (20, opt_str (r_version r)), (50, opt_str (r_relay_id r)), (10, r_status r),
        (128, opt_str (r_member_token r))] \<and> int4 (r_vnc_port r))"

text \<open>The unique constraint a row would violate next to the other rows.\<close>

definition peer_conflict :: "peer_row list \<Rightarrow> peer_row \<Rightarrow> string option" where
  "peer_conflict others r =
     (if list_ex (\<lambda>q. r_id q = r_id r) others then Some ''peers_pkey''
      else if list_ex (\<lambda>q. r_machine_id q = r_machine_id r) others then Some ''peers_machine_id_key''
      else if r_member_token r \<noteq> None \<and> list_ex (\<lambda>q. r_member_token q = r_member_token r) others then Some ''peers_member_token_key''
      else if r_virtual_ip r \<noteq> zero_inet \<and>
              list_ex (\<lambda>q. r_network_id q = r_network_id r \<and> r_virtual_ip q = r_virtual_ip r) others
           then Some ''peers_network_virtual_ip_unique''
      else None)"

text \<open>A row is accepted when it fits its columns, its network exists and no constraint is violated.\<close>

definition accept_row :: "tables \<Rightarrow> peer_row list \<Rightarrow> peer_row \<Rightarrow> go_error option" where
  "accept_row t others r =
     (if \<not> peer_row_fits r then Some too_long
      else case peer_conflict others r of
             Some c \<Rightarrow> Some (unique_violation c)
           | None \<Rightarrow> if list_ex (\<lambda>n. n_ID n = r_network_id r) (t_networks t) then None else Some fk_violation)"

definition insert_peer :: "peer_row \<Rightarrow> tables \<Rightarrow> go_error + peer_row \<times> tables" where
  "insert_peer r t =
     (case accept_row t (t_peers t) r of
        Some e \<Rightarrow> Inl e
      | None \<Rightarrow> Inr (r, t\<lparr>t_peers := t_peers t @ [r]\<rparr>))"

text \<open>\<open>UPDATE peers SET ... WHERE id = ...\<close>; the result is the number of rows and the last new row.\<close>

definition update_peer :: "string \<Rightarrow> (peer_row \<Rightarrow> peer_row) \<Rightarrow> tables \<Rightarrow> go_error + peer_row option \<times> tables" where
  "update_peer pid f t =
     (case find (\<lambda>r. r_id r = pid) (t_peers t) of
        None \<Rightarrow> Inr (None, t)
      | Some r \<Rightarrow>
          (case accept_row t (filter (\<lambda>q. r_id q \<noteq> pid) (t_peers t)) (f r) of
             Some e \<Rightarrow> Inl e
           | None \<Rightarrow> Inr (Some (f r), t\<lparr>t_peers := map (\<lambda>q. if r_id q = pid then f r else q) (t_peers t)\<rparr>)))"

text \<open>A parameter compared with a \<open>uuid\<close> column must be one.\<close>

definition with_uuid :: "world \<Rightarrow> string \<Rightarrow> (string \<Rightarrow> go_error + 'a) \<Rightarrow> go_error + 'a" where
  "with_uuid w s k = (case pg_uuid (w_pg w) s of None \<Rightarrow> Inl bad_value | Some u \<Rightarrow> k u)"

definition with_inet :: "world \<Rightarrow> string \<Rightarrow> (string \<Rightarrow> go_error + 'a) \<Rightarrow> go_error + 'a" where
  "with_inet w s k = (case pg_inet (w_pg w) s of None \<Rightarrow> Inl bad_value | Some i \<Rightarrow> k i)"

subsection \<open>scanPeer\<close>

definition scanPeer :: "peer_row \<Rightarrow> Peer" where
  "scanPeer r =
     (let status = r_status r;
          port = r_vnc_port r
      in \<lparr>p_ID = r_id r, p_NetworkID = r_network_id r, p_Name = opt_str (r_name r), p_MachineID = r_machine_id r,
          p_PublicKey = r_public_key r, p_VirtualIP = normalizeHostIPv4 (r_virtual_ip r),
          p_PublicEndpoint = opt_str (r_public_endpoint r), p_LocalEndpoints = r_local_endpoints r,
          p_OS = opt_str (r_os r), p_Version = opt_str (r_version r), p_IsOnline = r_is_online r,
          p_LastSeen = r_last_seen r, p_LastHandshake = r_last_handshake r, p_RXBytes = r_rx_bytes r,
          p_TXBytes = r_tx_bytes r, p_VNCPort = (if 1 \<le> port \<and> port \<le> 65535 then port else 5900),
          p_VNCAvailable = r_vnc_available r, p_RelayID = opt_str (r_relay_id r),
          p_Status = (if status = [] then ''approved'' else status), p_MemberToken = opt_str (r_member_token r),
          p_CreatedAt = Some (r_created_at r)\<rparr>)"

subsection \<open>PeerStore\<close>

text \<open>\<open>rand.Read\<close> of 32 bytes; the list is what the random source delivers, \<open>None\<close> an error.\<close>

definition hex_byte :: "byte \<Rightarrow> string" where
  "hex_byte b = (let d = (\<lambda>n. if n < 10 then char_of (48 + n) else char_of (87 + n :: nat)) in [d (unat b div 16), d (unat b mod 16)])"

definition generateMemberToken :: "(world, string) procedure" where
  "generateMemberToken w =
     (case w_rand w of
        Some buf # rest \<Rightarrow> (Inr (''mt_'' @ concat (map hex_byte buf)), w\<lparr>w_rand := rest\<rparr>)
      | None # rest \<Rightarrow> (Inl (Errorf ''generate member token: read failed''), w\<lparr>w_rand := rest\<rparr>)
      | [] \<Rightarrow> (Inl (Errorf ''generate member token: read failed''), w))"

text \<open>The row \<open>INSERT ... ON CONFLICT (machine_id) DO UPDATE\<close> would insert, and its update.\<close>

definition registered_row :: "world \<Rightarrow> Peer \<Rightarrow> string \<Rightarrow> string \<Rightarrow> string \<Rightarrow> peer_row" where
  "registered_row w peer net ip token =
     \<lparr>r_id = gen_uuid w, r_network_id = net, r_name = Some (p_Name peer), r_machine_id = p_MachineID peer,
      r_public_key = p_PublicKey peer, r_virtual_ip = ip, r_public_endpoint = Some (p_PublicEndpoint peer),
      r_local_endpoints = p_LocalEndpoints peer, r_os = Some (p_OS peer), r_version = Some (p_Version peer),
      r_is_online = True, r_last_seen = None, r_last_handshake = None, r_rx_bytes = 0, r_tx_bytes = 0,
      r_vnc_port = p_VNCPort peer, r_vnc_available = p_VNCAvailable peer, r_relay_id = nullif_empty (p_RelayID peer),
      r_status = p_Status peer, r_member_token = nullif_empty token, r_created_at = w_now w\<rparr>"

definition register_update :: "world \<Rightarrow> peer_row \<Rightarrow> peer_row \<Rightarrow> peer_row" where
  "register_update w ex r =
     r\<lparr>r_network_id := r_network_id ex, r_name := r_name ex, r_public_key := r_public_key ex, r_virtual_ip := r_virtual_ip ex,
       r_public_endpoint := r_public_endpoint ex, r_local_endpoints := r_local_endpoints ex, r_os := r_os ex,
       r_version := r_version ex, r_is_online := True, r_last_seen := Some (w_now w), r_vnc_port := r_vnc_port ex,
       r_vnc_available := r_vnc_available ex, r_relay_id := r_relay_id ex\<rparr>"

text \<open>
  The proposed row must fit its columns before the conflict is looked at; the row with the same
  machine is then updated, or else the proposed row inserted.
\<close>

definition upsert_machine :: "peer_row \<Rightarrow> (peer_row \<Rightarrow> peer_row) \<Rightarrow> tables \<Rightarrow> go_error + peer_row \<times> tables" where
  "upsert_machine ex f t =
     (if \<not> peer_row_fits ex then Inl too_long
      else case find (\<lambda>r. r_machine_id r = r_machine_id ex) (t_peers t) of
             None \<Rightarrow> insert_peer ex t
           | Some r \<Rightarrow>
               (case update_peer (r_id r) f t of
                  Inl e \<Rightarrow> Inl e
                | Inr (Some r', t') \<Rightarrow> Inr (r', t')
                | Inr (None, t') \<Rightarrow> Inl ErrNoRows))"

definition RegisterPeer_stmt :: "Peer \<Rightarrow> string \<Rightarrow> world \<Rightarrow> go_error + peer_row \<times> tables" where
  "RegisterPeer_stmt peer token w =
     with_uuid w (p_NetworkID peer) (\<lambda>net. with_inet w (p_VirtualIP peer) (\<lambda>ip.
       let ex = registered_row w peer net ip token in upsert_machine ex (register_update w ex) (w_db w)))"

definition RegisterPeer :: "Peer \<Rightarrow> (world, Peer) procedure" where
  "RegisterPeer peer =
     andThen (if TrimSpace (p_MemberToken peer) = []
              then wrap ''register peer: generate token'' generateMemberToken
              else return (p_MemberToken peer)) (\<lambda>token.
     andThen (wrap ''register peer'' (exec (RegisterPeer_stmt peer token))) (\<lambda>row. return (scanPeer row)))"

definition pending_row :: "world \<Rightarrow> Peer \<Rightarrow> string \<Rightarrow> string \<Rightarrow> string \<Rightarrow> peer_row" where
  "pending_row w peer net ip token =
     \<lparr>r_id = gen_uuid w, r_network_id = net, r_name = Some (p_Name peer), r_machine_id = p_MachineID peer,
      r_public_key = p_PublicKey peer, r_virtual_ip = ip, r_public_endpoint = Some (p_PublicEndpoint peer),
      r_local_endpoints = p_LocalEndpoints peer, r_os = Some (p_OS peer), r_version = Some (p_Version peer),
      r_is_online = False, r_last_seen = None, r_last_handshake = None, r_rx_bytes = 0, r_tx_bytes = 0,
      r_vnc_port = p_VNCPort peer, r_vnc_available = False, r_relay_id = None,
      r_status = p_Status peer, r_member_token = Some token, r_created_at = w_now w\<rparr>"

definition pending_update :: "world \<Rightarrow> peer_row \<Rightarrow> peer_row \<Rightarrow> peer_row" where
  "pending_update w ex r =
     r\<lparr>r_name := r_name ex, r_public_key := r_public_key ex, r_os := r_os ex, r_version := r_version ex,
       r_last_seen := Some (w_now w)\<rparr>"

definition RegisterPendingPeer_stmt :: "Peer \<Rightarrow> string \<Rightarrow> world \<Rightarrow> go_error + peer_row \<times> tables" where
  "RegisterPendingPeer_stmt peer token w =
     with_uuid w (p_NetworkID peer) (\<lambda>net.
       let upsert = (\<lambda>ip. let ex = pending_row w peer net ip token in upsert_machine ex (pending_update w ex) (w_db w))
       in if p_VirtualIP peer = [] then upsert zero_inet else with_inet w (p_VirtualIP peer) upsert)"

definition RegisterPendingPeer :: "Peer \<Rightarrow> (world, Peer) procedure" where
  "RegisterPendingPeer peer =
     andThen (if p_MemberToken peer = []
              then wrap ''register pending peer: generate token'' generateMemberToken
              else return (p_MemberToken peer)) (\<lambda>token.
     andThen (wrap ''register pending peer'' (exec (RegisterPendingPeer_stmt peer token))) (\<lambda>row. return (scanPeer row)))"

text \<open>\<open>QueryRow\<close> takes the first row of the result and gives \<open>ErrNoRows\<close> when there is none.\<close>

definition select_peer :: "(peer_row \<Rightarrow> bool) \<Rightarrow> world \<Rightarrow> go_error + peer_row \<times> tables" where
  "select_peer P w = (case find P (t_peers (w_db w)) of None \<Rightarrow> Inl ErrNoRows | Some r \<Rightarrow> Inr (r, w_db w))"

definition GetPeer :: "string \<Rightarrow> (world, Peer) procedure" where
  "GetPeer peerID =
     andThen (mapped ''get peer'' (exec (\<lambda>w. with_uuid w peerID (\<lambda>u. select_peer (\<lambda>r. r_id r = u) w)))) (\<lambda>row. return (scanPeer row))"

definition GetPeerByMemberToken :: "string \<Rightarrow> (world, Peer) procedure" where
  "GetPeerByMemberToken token =
     andThen (mapped ''get peer by member token'' (exec (select_peer (\<lambda>r. r_member_token r = Some token)))) (\<lambda>row. return (scanPeer row))"

definition GetPeerByPublicKey :: "string \<Rightarrow> string \<Rightarrow> (world, Peer) procedure" where
  "GetPeerByPublicKey networkID publicKey =
     andThen (mapped ''get peer by public key''
       (exec (\<lambda>w. with_uuid w networkID (\<lambda>u. select_peer (\<lambda>r. r_network_id r = u \<and> r_public_key r = publicKey) w)))) (\<lambda>row.
     return (scanPeer row))"

text \<open>\<open>SELECT id FROM networks WHERE is_active = true AND (id::text = $1 OR network_id = $1)\<close>\<close>

definition active_network_ids :: "string \<Rightarrow> tables \<Rightarrow> string list" where
  "active_network_ids key t =
     map n_ID (filter (\<lambda>n. n_IsActive n \<and> (n_ID n = key \<or> n_NetworkID n = key)) (t_networks t))"

definition ListNetworkPeers :: "string \<Rightarrow> (world, Peer list) procedure" where
  "ListNetworkPeers networkID =
     andThen (wrap ''list network peers'' (exec (\<lambda>w. Inr
       (sort_key r_created_at (filter (\<lambda>r. r_network_id r \<in> set (active_network_ids networkID (w_db w))) (t_peers (w_db w))), w_db w)))) (\<lambda>rows.
     return (map scanPeer rows))"

definition ListMembers :: "string \<Rightarrow> (world, Peer list) procedure" where
  "ListMembers networkID =
     andThen (wrap ''list members'' (exec (\<lambda>w. with_uuid w networkID (\<lambda>u. Inr
       (sort_key r_created_at (filter (\<lambda>r. r_network_id r = u) (t_peers (w_db w))), w_db w))))) (\<lambda>rows.
     return (map scanPeer rows))"

text \<open>\<open>RETURNING\<close> of an update that matched no row gives \<open>ErrNoRows\<close>.\<close>

definition returning :: "go_error + peer_row option \<times> tables \<Rightarrow> go_error + peer_row \<times> tables" where
  "returning r = (case r of Inl e \<Rightarrow> Inl e | Inr (None, t) \<Rightarrow> Inl ErrNoRows | Inr (Some row, t) \<Rightarrow> Inr (row, t))"

definition ApprovePeer :: "string \<Rightarrow> string \<Rightarrow> (world, Peer) procedure" where
  "ApprovePeer peerID virtualIP =
     andThen (mapped ''approve peer'' (exec (\<lambda>w. with_uuid w peerID (\<lambda>u. with_inet w virtualIP (\<lambda>ip.
       returning (update_peer u (\<lambda>r. r\<lparr>r_status := ''approved'', r_virtual_ip := ip, r_is_online := False\<rparr>) (w_db w))))))) (\<lambda>row.
     return (scanPeer row))"

text \<open>\<open>Exec\<close> followed by the test of \<open>RowsAffected\<close>.\<close>

definition affected :: "string \<Rightarrow> (world, 'a option) procedure \<Rightarrow> (world, unit) procedure" where
  "affected ctx m =
     andThen (wrap ctx m) (\<lambda>n. case n of None \<Rightarrow> raise (Wrapf ctx ErrNotFound) | Some _ \<Rightarrow> return ())"

definition RejectPeer :: "string \<Rightarrow> (world, unit) procedure" where
  "RejectPeer peerID =
     affected ''reject peer'' (exec (\<lambda>w. with_uuid w peerID (\<lambda>u. update_peer u (\<lambda>r. r\<lparr>r_status := ''rejected''\<rparr>) (w_db w))))"

record PeerStatusUpdate =
  su_PublicEndpoint :: string
  su_LocalEndpoints :: "string list"
  su_VNCAvailable :: bool
  su_RXBytes :: int
  su_TXBytes :: int
  su_RelayID :: string

definition UpdatePeerStatus :: "string \<Rightarrow> PeerStatusUpdate \<Rightarrow> (world, unit) procedure" where
  "UpdatePeerStatus peerID st =
     andThen (wrap ''update peer status'' (exec (\<lambda>w. with_uuid w peerID (\<lambda>u.
       update_peer u (\<lambda>r. r\<lparr>r_public_endpoint := Some (su_PublicEndpoint st), r_local_endpoints := su_LocalEndpoints st,
           r_vnc_available := su_VNCAvailable st, r_rx_bytes := su_RXBytes st, r_tx_bytes := su_TXBytes st,
           r_relay_id := nullif_empty (su_RelayID st), r_is_online := True, r_last_seen := Some (w_now w)\<rparr>) (w_db w))))) (\<lambda>_.
     return ())"

definition delete_peers :: "(peer_row \<Rightarrow> bool) \<Rightarrow> tables \<Rightarrow> go_error + unit option \<times> tables" where
  "delete_peers P t =
     Inr (if list_ex P (t_peers t) then Some () else None, t\<lparr>t_peers := filter (\<lambda>r. \<not> P r) (t_peers t)\<rparr>)"

definition DeletePeer :: "string \<Rightarrow> (world, unit) procedure" where
  "DeletePeer peerID =
     affected ''delete peer'' (exec (\<lambda>w. with_uuid w peerID (\<lambda>u. delete_peers (\<lambda>r. r_id r = u) (w_db w))))"

definition DeletePeerByMachineID :: "string \<Rightarrow> string \<Rightarrow> (world, unit) procedure" where
  "DeletePeerByMachineID networkID machineID =
     affected ''delete peer by machine id'' (exec (\<lambda>w.
       delete_peers (\<lambda>r. r_machine_id r = machineID \<and> r_network_id r \<in> set (active_network_ids networkID (w_db w))) (w_db w)))"

text \<open>\<open>ORDER BY last_seen DESC\<close> puts the rows without a value first.\<close>

definition by_last_seen_desc :: "peer_row list \<Rightarrow> peer_row list" where
  "by_last_seen_desc rows =
     filter (\<lambda>r. r_last_seen r = None) rows @
     sort_key (\<lambda>r. case r_last_seen r of None \<Rightarrow> 0 | Some t \<Rightarrow> - t) (filter (\<lambda>r. r_last_seen r \<noteq> None) rows)"

definition GetOnlinePeers :: "string \<Rightarrow> (world, Peer list) procedure" where
  "GetOnlinePeers networkID =
     andThen (wrap ''get online peers'' (exec (\<lambda>w. Inr
       (by_last_seen_desc (filter (\<lambda>r. r_network_id r \<in> set (active_network_ids networkID (w_db w)) \<and>
          r_is_online r \<and> r_status r = ''approved'') (t_peers (w_db w))), w_db w)))) (\<lambda>rows.
     return (map scanPeer rows))"

definition MarkPeerOffline :: "string \<Rightarrow> (world, unit) procedure" where
  "MarkPeerOffline peerID =
     affected ''mark peer offline'' (exec (\<lambda>w. with_uuid w peerID (\<lambda>u. update_peer u (\<lambda>r. r\<lparr>r_is_online := False\<rparr>) (w_db w))))"

text \<open>\<open>staleAfter\<close> is a number of nanoseconds, truncated to seconds; times are in nanoseconds.\<close>

definition ExpireStalePeers :: "int \<Rightarrow> (world, unit) procedure" where
  "ExpireStalePeers staleAfter =
     wrap ''expire stale peers'' (exec (\<lambda>w. Inr ((),
       (w_db w)\<lparr>t_peers := map (\<lambda>r. if r_is_online r \<and> (case r_last_seen r of None \<Rightarrow> False
             | Some t \<Rightarrow> t < w_now w - (staleAfter div 1000000000) * 1000000000) then r\<lparr>r_is_online := False\<rparr> else r)
           (t_peers (w_db w))\<rparr>)))"

subsection \<open>NetworkStore\<close>

definition CreateNetwork_stmt :: "Network \<Rightarrow> world \<Rightarrow> go_error + Network \<times> tables" where
  "CreateNetwork_stmt network w =
     with_uuid w (n_OwnerID network) (\<lambda>owner.
       let row = network\<lparr>n_ID := gen_uuid w, n_OwnerID := owner, n_CreatedAt := w_now w\<rparr>; t = w_db w
       in if \<not> varchars_fit [(100, n_Name row), (16, n_NetworkID row), (18, n_CIDR row), (10, n_AccessControl row)] \<or> \<not> int4 (n_MaxPeers row)
          then Inl too_long
          else if list_ex (\<lambda>n. n_ID n = n_ID row) (t_networks t) then Inl (unique_violation ''networks_pkey'')
          else if list_ex (\<lambda>n. n_NetworkID n = n_NetworkID row) (t_networks t) then Inl (unique_violation ''networks_network_id_key'')
          else if \<not> list_ex (\<lambda>u. u_ID u = owner) (t_users t) then Inl fk_violation
          else Inr (row, t\<lparr>t_networks := t_networks t @ [row]\<rparr>))"

definition CreateNetwork :: "Network \<Rightarrow> (world, Network) procedure" where
  "CreateNetwork network = wrap ''create network'' (exec (CreateNetwork_stmt network))"

definition select_network :: "(Network \<Rightarrow> bool) \<Rightarrow> world \<Rightarrow> go_error + Network \<times> tables" where
  "select_network P w = (case find P (t_networks (w_db w)) of None \<Rightarrow> Inl ErrNoRows | Some n \<Rightarrow> Inr (n, w_db w))"

definition GetNetwork :: "string \<Rightarrow> (world, Network) procedure" where
  "GetNetwork networkID =
     mapped ''get network'' (exec (select_network (\<lambda>n. n_IsActive n \<and> (n_ID n = networkID \<or> n_NetworkID n = networkID))))"

definition GetNetworkByPublicID :: "string \<Rightarrow> (world, Network) procedure" where
  "GetNetworkByPublicID publicNetworkID =
     mapped ''get network by public id'' (exec (select_network (\<lambda>n. n_IsActive n \<and> n_NetworkID n = publicNetworkID)))"

definition ListUserNetworks :: "string \<Rightarrow> (world, Network list) procedure" where
  "ListUserNetworks userID =
     wrap ''list user networks'' (exec (\<lambda>w. with_uuid w userID (\<lambda>u. Inr
       (sort_key (\<lambda>n. - n_CreatedAt n) (filter (\<lambda>n. n_OwnerID n = u \<and> n_IsActive n) (t_networks (w_db w))), w_db w))))"

text \<open>\<open>UPDATE networks SET ... WHERE id = $1 ...\<close>; \<open>f\<close> changes neither identifier nor owner.\<close>

definition update_network :: "(Network \<Rightarrow> bool) \<Rightarrow> (Network \<Rightarrow> Network) \<Rightarrow> tables \<Rightarrow> go_error + Network option \<times> tables" where
  "update_network P f t =
     (case find P (t_networks t) of
        None \<Rightarrow> Inr (None, t)
      | Some n \<Rightarrow>
          if \<not> varchars_fit [(100, n_Name (f n)), (10, n_AccessControl (f n))] then Inl too_long
          else Inr (Some (f n), t\<lparr>t_networks := map (\<lambda>m. if P m then f m else m) (t_networks t)\<rparr>))"

definition DeleteNetwork :: "string \<Rightarrow> (world, unit) procedure" where
  "DeleteNetwork networkID =
     affected ''delete network'' (exec (\<lambda>w. with_uuid w networkID (\<lambda>u.
       update_network (\<lambda>n. n_ID n = u) (\<lambda>n. n\<lparr>n_IsActive := False\<rparr>) (w_db w))))"

definition returning_network :: "go_error + Network option \<times> tables \<Rightarrow> go_error + Network \<times> tables" where
  "returning_network r = (case r of Inl e \<Rightarrow> Inl e | Inr (None, t) \<Rightarrow> Inl ErrNoRows | Inr (Some row, t) \<Rightarrow> Inr (row, t))"

definition UpdateNetwork :: "string \<Rightarrow> string \<Rightarrow> string \<Rightarrow> (world, Network) procedure" where
  "UpdateNetwork networkID name description =
     mapped ''update network'' (exec (\<lambda>w. with_uuid w networkID (\<lambda>u. returning_network
       (update_network (\<lambda>n. n_ID n = u \<and> n_IsActive n) (\<lambda>n. n\<lparr>n_Name := name, n_Description := description\<rparr>) (w_db w)))))"

definition UpdateNetworkAccessControl :: "string \<Rightarrow> string \<Rightarrow> (world, Network) procedure" where
  "UpdateNetworkAccessControl networkID accessControl =
     mapped ''update network access control'' (exec (\<lambda>w. with_uuid w networkID (\<lambda>u. returning_network
       (update_network (\<lambda>n. n_ID n = u \<and> n_IsActive n) (\<lambda>n. n\<lparr>n_AccessControl := accessControl\<rparr>) (w_db w)))))"

subsection \<open>UserStore\<close>

definition CreateUser_stmt :: "User \<Rightarrow> world \<Rightarrow> go_error + User \<times> tables" where
  "CreateUser_stmt user w =
     (let row = user\<lparr>u_ID := gen_uuid w, u_CreatedAt := w_now w, u_UpdatedAt := w_now w\<rparr>; t = w_db w
      in if \<not> varchars_fit [(255, u_Email row), (255, u_PasswordHash row), (100, u_Name row), (64, u_APIKey row)] then Inl too_long
         else if list_ex (\<lambda>u. u_ID u = u_ID row) (t_users t) then Inl (unique_violation ''users_pkey'')
         else if list_ex (\<lambda>u. u_Email u = u_Email row) (t_users t) then Inl (unique_violation ''users_email_key'')
         else if list_ex (\<lambda>u. u_APIKey u = u_APIKey row) (t_users t) then Inl (unique_violation ''users_api_key_key'')
         else Inr (row, t\<lparr>t_users := t_users t @ [row]\<rparr>))"

definition CreateUser :: "User \<Rightarrow> (world, User) procedure" where
  "CreateUser user = wrap ''create user'' (exec (CreateUser_stmt user))"

definition select_user :: "(User \<Rightarrow> bool) \<Rightarrow> world \<Rightarrow> go_error + User \<times> tables" where
  "select_user P w = (case find P (t_users (w_db w)) of None \<Rightarrow> Inl ErrNoRows | Some u \<Rightarrow> Inr (u, w_db w))"

definition GetUserByEmail :: "string \<Rightarrow> (world, User) procedure" where
  "GetUserByEmail email = mapped ''get user by email'' (exec (select_user (\<lambda>u. u_Email u = email)))"

definition GetUserByAPIKey :: "string \<Rightarrow> (world, User) procedure" where
  "GetUserByAPIKey apiKey = mapped ''get user by api key'' (exec (select_user (\<lambda>u. u_APIKey u = apiKey)))"

subsection \<open>The constraints as an invariant\<close>

text \<open>
  Identifiers, machines, member tokens and e-mail addresses are unique, no two peers of a network
  share a real virtual address, and references lead to rows.
\<close>

definition peers_ok :: "Network list \<Rightarrow> peer_row list \<Rightarrow> bool" where
  "peers_ok nets ps \<longleftrightarrow>
     distinct (map r_id ps) \<and> distinct (map r_machine_id ps) \<and>
     distinct (filter (\<lambda>x. x \<noteq> None) (map r_member_token ps)) \<and>
     distinct (map (\<lambda>r. (r_network_id r, r_virtual_ip r)) (filter (\<lambda>r. r_virtual_ip r \<noteq> zero_inet) ps)) \<and>
     (\<forall>r \<in> set ps. r_network_id r \<in> n_ID ` set nets)"

definition db_ok :: "tables \<Rightarrow> bool" where
  "db_ok t \<longleftrightarrow>
     distinct (map u_ID (t_users t)) \<and> distinct (map u_Email (t_users t)) \<and> distinct (map u_APIKey (t_users t)) \<and>
     distinct (map n_ID (t_networks t)) \<and> distinct (map n_NetworkID (t_networks t)) \<and>
     (\<forall>n \<in> set (t_networks t). n_OwnerID n \<in> u_ID ` set (t_users t)) \<and>
     peers_ok (t_networks t) (t_peers t)"

text \<open>Other clients keep the constraints too: PostgreSQL enforces them on every transaction.\<close>

definition world_ok :: "world \<Rightarrow> bool" where
  "world_ok w \<longleftrightarrow> db_ok (w_db w) \<and> (\<forall>t. DbRace t \<in> set (w_sched w) \<longrightarrow> db_ok t)"

lemma keeps_mapped [intro]: "keeps I m \<Longrightarrow> keeps I (mapped ctx m)"
  by (auto simp: keeps_def mapped_def split: prod.splits sum.splits)

lemma keeps_affected [intro]: "keeps I m \<Longrightarrow> keeps I (affected ctx m)"
  unfolding affected_def by (intro keeps_andThen keeps_wrap) (auto split: option.splits)

text \<open>A statement keeps the constraints when its effect on the tables does.\<close>

definition stmt_ok :: "(world \<Rightarrow> go_error + 'a \<times> tables) \<Rightarrow> bool" where
  "stmt_ok f \<longleftrightarrow> (\<forall>w a t. db_ok (w_db w) \<longrightarrow> f w = Inr (a, t) \<longrightarrow> db_ok t)"

lemma run_stmt_keeps: "stmt_ok f \<Longrightarrow> keeps world_ok (run_stmt f)"
  by (auto simp: keeps_def run_stmt_def stmt_ok_def world_ok_def split: sum.splits)

lemma keeps_exec [intro]: "stmt_ok f \<Longrightarrow> keeps world_ok (exec f)"
proof (rule keepsI)
  fix w
  assume f: "stmt_ok f" and w: "world_ok w"
  have run: "world_ok w' \<Longrightarrow> world_ok (snd (run_stmt f w'))" for w' using run_stmt_keeps [OF f] by (simp add: keeps_def)
  show "world_ok (snd (exec f w))"
  proof (cases "w_sched w")
    case Nil
    then show ?thesis using run [OF w] by (simp add: exec_def)
  next
    case (Cons ev es)
    then have es: "world_ok (w\<lparr>w_sched := es\<rparr>)" "\<And>t. ev = DbRace t \<Longrightarrow> world_ok (w\<lparr>w_sched := es, w_db := t\<rparr>)"
      using w by (auto simp: world_ok_def)
    show ?thesis by (cases ev) (use es Cons run in \<open>simp_all add: exec_def\<close>)
  qed
qed

lemmas keeps_rules = keeps_andThen keeps_wrap keeps_mapped keeps_return keeps_affected keeps_if keeps_exec

lemma peer_conflict_None:
  "peer_conflict others r = None \<Longrightarrow>
     (\<forall>q \<in> set others. r_id q \<noteq> r_id r \<and> r_machine_id q \<noteq> r_machine_id r \<and>
        (r_member_token r \<noteq> None \<longrightarrow> r_member_token q \<noteq> r_member_token r) \<and>
        (r_virtual_ip r \<noteq> zero_inet \<longrightarrow> \<not> (r_network_id q = r_network_id r \<and> r_virtual_ip q = r_virtual_ip r)))"
  by (auto simp: peer_conflict_def list_ex_iff split: if_splits)

lemma accept_row_None:
  "accept_row t others r = None \<longleftrightarrow>
     peer_row_fits r \<and> peer_conflict others r = None \<and> r_network_id r \<in> n_ID ` set (t_networks t)"
  by (auto simp: accept_row_def list_ex_iff image_iff split: option.splits) metis

text \<open>Adding a row that conflicts with none keeps the constraints on peers.\<close>

lemma peers_ok_snoc:
  assumes "peers_ok nets ps" "peer_conflict ps r = None" "r_network_id r \<in> n_ID ` set nets"
  shows "peers_ok nets (ps @ [r])"
proof -
  note c = peer_conflict_None [OF assms(2)]
  show ?thesis using assms(1,3) c by (force simp: peers_ok_def)
qed

lemma peers_ok_filter: "peers_ok nets ps \<Longrightarrow> peers_ok nets (filter P ps)"
proof -
  have d: "distinct (filter Q (map f (filter P ps)))" if "distinct (filter Q (map f ps))" for Q and f :: "peer_row \<Rightarrow> 'x"
    using that by (induction ps) auto
  have e: "distinct (map g (filter Q (filter P ps)))" if "distinct (map g (filter Q ps))" for Q and g :: "peer_row \<Rightarrow> 'y"
    using that by (induction ps) auto
  assume "peers_ok nets ps"
  then show ?thesis
    unfolding peers_ok_def by (auto simp: distinct_map_filter simp del: filter_filter intro!: d e)
qed

text \<open>Constraints do not depend on the order of the rows.\<close>

lemma peers_ok_mset: "mset ps = mset qs \<Longrightarrow> peers_ok nets ps \<longleftrightarrow> peers_ok nets qs"
proof -
  assume eq: "mset ps = mset qs"
  have d: "distinct (map f ps) \<longleftrightarrow> distinct (map f qs)" for f :: "peer_row \<Rightarrow> 'x"
    by (rule mset_eq_imp_distinct_iff) (use eq in simp)
  have d2: "distinct (filter P (map f ps)) \<longleftrightarrow> distinct (filter P (map f qs))" for P and f :: "peer_row \<Rightarrow> 'x"
    by (rule mset_eq_imp_distinct_iff) (use eq in simp)
  have d3: "distinct (map f (filter P ps)) \<longleftrightarrow> distinct (map f (filter P qs))" for P and f :: "peer_row \<Rightarrow> 'x"
    by (rule mset_eq_imp_distinct_iff) (use eq in simp)
  have "set ps = set qs" using eq by (rule mset_eq_setD)
  then show ?thesis by (simp only: peers_ok_def d d2 d3)
qed

lemma replace_row_mset:
  assumes "distinct (map r_id ps)" "r \<in> set ps" "r_id r = pid"
  shows "mset (map (\<lambda>q. if r_id q = pid then r' else q) ps) = mset (filter (\<lambda>q. r_id q \<noteq> pid) ps @ [r'])"
  using assms
proof (induction ps)
  case (Cons p ps)
  show ?case
  proof (cases "r_id p = pid")
    case True
    then have "map (\<lambda>q. if r_id q = pid then r' else q) ps = ps" "filter (\<lambda>q. r_id q \<noteq> pid) ps = ps"
      using Cons.prems(1) by (auto simp: filter_id_conv image_iff intro!: map_idI)
    with True show ?thesis by simp
  next
    case False
    with Cons show ?thesis by auto
  qed
qed simp

lemma peers_ok_replace:
  assumes "peers_ok nets ps" "find (\<lambda>q. r_id q = pid) ps = Some r"
    "peer_conflict (filter (\<lambda>q. r_id q \<noteq> pid) ps) r' = None" "r_network_id r' \<in> n_ID ` set nets"
  shows "peers_ok nets (map (\<lambda>q. if r_id q = pid then r' else q) ps)"
proof -
  have r: "r \<in> set ps" "r_id r = pid" using find_Some_set [OF assms(2)] by auto
  have "distinct (map r_id ps)" using assms(1) by (simp add: peers_ok_def)
  note m = replace_row_mset [OF this r, of r']
  show ?thesis
    using peers_ok_snoc [OF peers_ok_filter [OF assms(1)] assms(3,4)] by (simp only: peers_ok_mset [OF m])
qed

lemma db_ok_set_peers: "db_ok t \<Longrightarrow> peers_ok (t_networks t) ps \<Longrightarrow> db_ok (t\<lparr>t_peers := ps\<rparr>)"
  by (simp add: db_ok_def)

lemma db_ok_peers: "db_ok t \<Longrightarrow> peers_ok (t_networks t) (t_peers t)"
  by (simp add: db_ok_def)

lemma insert_peer_Inr:
  "insert_peer r t = Inr (r', t') \<longleftrightarrow> accept_row t (t_peers t) r = None \<and> r' = r \<and> t' = t\<lparr>t_peers := t_peers t @ [r]\<rparr>"
  by (cases "accept_row t (t_peers t) r") (auto simp: insert_peer_def)

lemma update_peer_Inr:
  "update_peer pid f t = Inr (x, t') \<longleftrightarrow>
     (case find (\<lambda>r. r_id r = pid) (t_peers t) of
        None \<Rightarrow> x = None \<and> t' = t
      | Some r \<Rightarrow> accept_row t (filter (\<lambda>q. r_id q \<noteq> pid) (t_peers t)) (f r) = None \<and> x = Some (f r) \<and>
                  t' = t\<lparr>t_peers := map (\<lambda>q. if r_id q = pid then f r else q) (t_peers t)\<rparr>)"
proof (cases "find (\<lambda>r. r_id r = pid) (t_peers t)")
  case (Some r)
  then show ?thesis
    by (cases "accept_row t (filter (\<lambda>q. r_id q \<noteq> pid) (t_peers t)) (f r)") (auto simp: update_peer_def)
qed (auto simp: update_peer_def)

lemma insert_peer_ok: "db_ok t \<Longrightarrow> insert_peer r t = Inr (r', t') \<Longrightarrow> db_ok t'"
  by (auto simp: insert_peer_Inr accept_row_None intro!: db_ok_set_peers peers_ok_snoc db_ok_peers)

lemma update_peer_ok: "db_ok t \<Longrightarrow> update_peer pid f t = Inr (r', t') \<Longrightarrow> db_ok t'"
  by (cases "find (\<lambda>r. r_id r = pid) (t_peers t)")
    (auto simp: update_peer_Inr accept_row_None intro!: db_ok_set_peers peers_ok_replace db_ok_peers)

lemma upsert_machine_Inr:
  "upsert_machine ex f t = Inr (r', t') \<longleftrightarrow> peer_row_fits ex \<and>
     (case find (\<lambda>r. r_machine_id r = r_machine_id ex) (t_peers t) of
        None \<Rightarrow> insert_peer ex t = Inr (r', t')
      | Some r \<Rightarrow> update_peer (r_id r) f t = Inr (Some r', t'))"
  by (cases "find (\<lambda>r. r_machine_id r = r_machine_id ex) (t_peers t)")
    (auto simp: upsert_machine_def split: sum.split prod.split option.split)

lemma upsert_machine_ok: "db_ok t \<Longrightarrow> upsert_machine ex f t = Inr (r', t') \<Longrightarrow> db_ok t'"
  by (cases "find (\<lambda>r. r_machine_id r = r_machine_id ex) (t_peers t)")
    (auto simp: upsert_machine_Inr dest: insert_peer_ok update_peer_ok)

lemma delete_peers_ok: "db_ok t \<Longrightarrow> delete_peers P t = Inr (r', t') \<Longrightarrow> db_ok t'"
  using peers_ok_filter by (auto simp: delete_peers_def db_ok_def)

lemma update_network_ok:
  assumes "db_ok t" "update_network P f t = Inr (r', t')"
    "\<And>n. n_ID (f n) = n_ID n" "\<And>n. n_NetworkID (f n) = n_NetworkID n" "\<And>n. n_OwnerID (f n) = n_OwnerID n"
  shows "db_ok t'"
proof -
  let ?g = "\<lambda>m. if P m then f m else m"
  have g: "n_ID (?g m) = n_ID m" "n_NetworkID (?g m) = n_NetworkID m" "n_OwnerID (?g m) = n_OwnerID m" for m
    using assms(3-5) by auto
  have "map n_ID (map ?g ns) = map n_ID ns" "map n_NetworkID (map ?g ns) = map n_NetworkID ns" "n_ID ` ?g ` set ns = n_ID ` set ns" for ns
    by (simp_all only: map_map comp_def g image_image)
  moreover have "(\<forall>n \<in> ?g ` set ns. n_OwnerID n \<in> U) \<longleftrightarrow> (\<forall>n \<in> set ns. n_OwnerID n \<in> U)" for ns U
    by (simp only: ball_simps g)
  ultimately have "db_ok (t\<lparr>t_networks := map ?g (t_networks t)\<rparr>)"
    using assms(1) by (simp add: db_ok_def peers_ok_def del: map_map)
  moreover have "t' = t \<or> t' = t\<lparr>t_networks := map ?g (t_networks t)\<rparr>"
    using assms(2) by (auto simp: update_network_def split: option.splits if_splits)
  ultimately show ?thesis using assms(1) by auto
qed

text \<open>Every query of the stores keeps the constraints.\<close>

named_theorems keeps_db \<open>operations that keep the constraints of the database\<close>

lemma with_uuid_Inr: "with_uuid w s k = Inr x \<Longrightarrow> \<exists>u. k u = Inr x"
  by (auto simp: with_uuid_def split: option.splits)

lemma with_inet_Inr: "with_inet w s k = Inr x \<Longrightarrow> \<exists>u. k u = Inr x"
  by (auto simp: with_inet_def split: option.splits)

lemma stmt_ok_upsert: "stmt_ok (RegisterPeer_stmt peer token)" "stmt_ok (RegisterPendingPeer_stmt peer token)"
  by (auto simp: stmt_ok_def RegisterPeer_stmt_def RegisterPendingPeer_stmt_def Let_def split: if_splits
      dest!: with_uuid_Inr with_inet_Inr dest: upsert_machine_ok)

lemma stmt_ok_read:
  "stmt_ok (\<lambda>w. Inr (g w, w_db w))" "stmt_ok (select_peer P)" "stmt_ok (select_network Q)" "stmt_ok (select_user R)"
  by (auto simp: stmt_ok_def select_peer_def select_network_def select_user_def split: option.splits)

lemma stmt_ok_uuid [intro]: "(\<And>u. stmt_ok (\<lambda>w. f w u)) \<Longrightarrow> stmt_ok (\<lambda>w. with_uuid w s (f w))"
  by (auto simp: stmt_ok_def dest!: with_uuid_Inr)

lemma stmt_ok_inet [intro]: "(\<And>u. stmt_ok (\<lambda>w. f w u)) \<Longrightarrow> stmt_ok (\<lambda>w. with_inet w s (f w))"
  by (auto simp: stmt_ok_def dest!: with_inet_Inr)

lemma stmt_ok_update [intro]: "stmt_ok (\<lambda>w. update_peer pid (f w) (w_db w))"
  by (auto simp: stmt_ok_def dest: update_peer_ok)

lemma stmt_ok_returning [intro]: "stmt_ok (\<lambda>w. update_peer pid (f w) (w_db w)) \<Longrightarrow> stmt_ok (\<lambda>w. returning (update_peer pid (f w) (w_db w)))"
  by (auto simp: stmt_ok_def returning_def dest: update_peer_ok split: sum.splits prod.splits option.splits)

lemma stmt_ok_delete [intro]: "stmt_ok (\<lambda>w. delete_peers (P w) (w_db w))"
  by (auto simp: stmt_ok_def dest: delete_peers_ok)

lemma keeps_token [keeps_db, intro]: "keeps world_ok generateMemberToken"
  by (auto simp: keeps_def generateMemberToken_def world_ok_def split: list.splits option.splits)

lemma keeps_RegisterPeer [keeps_db]: "keeps world_ok (RegisterPeer peer)" "keeps world_ok (RegisterPendingPeer peer)"
  unfolding RegisterPeer_def RegisterPendingPeer_def by (intro keeps_rules stmt_ok_upsert keeps_token)+

lemma stmt_ok_update_network:
  assumes "\<And>n w. n_ID (f w n) = n_ID n" "\<And>n w. n_NetworkID (f w n) = n_NetworkID n" "\<And>n w. n_OwnerID (f w n) = n_OwnerID n"
  shows "stmt_ok (\<lambda>w. update_network (P w) (f w) (w_db w))"
    and "stmt_ok (\<lambda>w. returning_network (update_network (P w) (f w) (w_db w)))"
  using update_network_ok [OF _ _ assms]
  by (auto simp: stmt_ok_def returning_network_def split: sum.splits prod.splits option.splits)

lemma db_ok_add_network:
  assumes "db_ok t" "n_ID row \<notin> n_ID ` set (t_networks t)" "n_NetworkID row \<notin> n_NetworkID ` set (t_networks t)"
    "n_OwnerID row \<in> u_ID ` set (t_users t)"
  shows "db_ok (t\<lparr>t_networks := t_networks t @ [row]\<rparr>)"
  using assms by (auto simp: db_ok_def peers_ok_def)

lemma db_ok_add_user:
  assumes "db_ok t" "u_ID row \<notin> u_ID ` set (t_users t)" "u_Email row \<notin> u_Email ` set (t_users t)"
    "u_APIKey row \<notin> u_APIKey ` set (t_users t)"
  shows "db_ok (t\<lparr>t_users := t_users t @ [row]\<rparr>)"
  using assms by (auto simp: db_ok_def)

lemma list_ex_image: "list_ex (\<lambda>x. f x = y) xs \<longleftrightarrow> y \<in> f ` set xs"
  by (auto simp: list_ex_iff)

lemma stmt_ok_create: "stmt_ok (CreateNetwork_stmt network)" "stmt_ok (CreateUser_stmt user)"
  by (auto simp: stmt_ok_def CreateNetwork_stmt_def CreateUser_stmt_def Let_def list_ex_image split: if_splits
      dest!: with_uuid_Inr intro!: db_ok_add_network db_ok_add_user)

lemmas stmt_rules = stmt_ok_uuid stmt_ok_inet stmt_ok_update stmt_ok_returning stmt_ok_delete stmt_ok_read stmt_ok_create

lemma keeps_peer_reads [keeps_db]:
  "keeps world_ok (GetPeer pid)" "keeps world_ok (GetPeerByMemberToken tok)" "keeps world_ok (GetPeerByPublicKey net key)"
  "keeps world_ok (ListNetworkPeers net)" "keeps world_ok (ListMembers net)" "keeps world_ok (GetOnlinePeers net)"
  unfolding GetPeer_def GetPeerByMemberToken_def GetPeerByPublicKey_def ListNetworkPeers_def ListMembers_def GetOnlinePeers_def
  by (intro keeps_rules stmt_rules)+

lemma keeps_peer_writes [keeps_db]:
  "keeps world_ok (ApprovePeer pid ip)" "keeps world_ok (RejectPeer pid)" "keeps world_ok (UpdatePeerStatus pid st)"
  "keeps world_ok (DeletePeer pid)" "keeps world_ok (DeletePeerByMachineID net mach)" "keeps world_ok (MarkPeerOffline pid)"
  unfolding ApprovePeer_def RejectPeer_def UpdatePeerStatus_def DeletePeer_def DeletePeerByMachineID_def MarkPeerOffline_def
  by (intro keeps_rules stmt_rules)+

lemma peers_ok_map:
  assumes "peers_ok nets ps" "\<And>r. r_id (f r) = r_id r \<and> r_machine_id (f r) = r_machine_id r \<and> r_member_token (f r) = r_member_token r \<and>
    r_network_id (f r) = r_network_id r \<and> r_virtual_ip (f r) = r_virtual_ip r"
  shows "peers_ok nets (map f ps)"
proof -
  have "filter (\<lambda>r. r_virtual_ip r \<noteq> zero_inet) (map f ps) = map f (filter (\<lambda>r. r_virtual_ip r \<noteq> zero_inet) ps)"
    by (simp add: filter_map comp_def assms(2))
  then show ?thesis using assms by (simp add: peers_ok_def comp_def)
qed

lemma keeps_ExpireStalePeers [keeps_db]: "keeps world_ok (ExpireStalePeers d)"
  unfolding ExpireStalePeers_def
proof (intro keeps_wrap keeps_exec)
  show "stmt_ok (\<lambda>w. Inr ((), (w_db w)\<lparr>t_peers := map (\<lambda>r. if r_is_online r \<and> (case r_last_seen r of None \<Rightarrow> False
             | Some t \<Rightarrow> t < w_now w - (d div 1000000000) * 1000000000) then r\<lparr>r_is_online := False\<rparr> else r)
           (t_peers (w_db w))\<rparr>))"
    by (auto simp: stmt_ok_def intro!: db_ok_set_peers peers_ok_map db_ok_peers)
qed

lemma keeps_networks [keeps_db]:
  "keeps world_ok (CreateNetwork n)" "keeps world_ok (GetNetwork k)" "keeps world_ok (GetNetworkByPublicID k)"
  "keeps world_ok (ListUserNetworks u)" "keeps world_ok (DeleteNetwork k)" "keeps world_ok (UpdateNetwork k nm d)"
  "keeps world_ok (UpdateNetworkAccessControl k ac)"
  unfolding CreateNetwork_def GetNetwork_def GetNetworkByPublicID_def ListUserNetworks_def DeleteNetwork_def UpdateNetwork_def
    UpdateNetworkAccessControl_def
  by (intro keeps_rules stmt_rules stmt_ok_update_network; simp)+

lemma keeps_users [keeps_db]:
  "keeps world_ok (CreateUser u)" "keeps world_ok (GetUserByEmail e)" "keeps world_ok (GetUserByAPIKey k)"
  unfolding CreateUser_def GetUserByEmail_def GetUserByAPIKey_def by (intro keeps_rules stmt_rules)+

subsection \<open>What the results of the queries say about the tables\<close>

text \<open>The tables a statement runs on: those of the world, or those other clients left.\<close>

definition stmt_tables :: "world \<Rightarrow> tables" where
  "stmt_tables w = (case w_sched w of DbRace t # _ \<Rightarrow> t | _ \<Rightarrow> w_db w)"

lemma stmt_tables_ok: "world_ok w \<Longrightarrow> db_ok (stmt_tables w)"
  by (auto simp: world_ok_def stmt_tables_def split: list.splits db_event.splits)

lemma exec_Inr:
  assumes "exec f w = (Inr a, w')"
  obtains v where "f v = Inr (a, w_db w')" "w_db v = stmt_tables w" "w_pg v = w_pg w" "w_now v = w_now w" "w_pg w' = w_pg w" "w_now w' = w_now w"
proof -
  have run: "\<exists>v. f v = Inr (a, w_db w') \<and> w_db v = w_db u \<and> w_pg v = w_pg u \<and> w_now v = w_now u \<and> w_pg w' = w_pg u \<and> w_now w' = w_now u"
    if "run_stmt f u = (Inr a, w')" for u
    using that by (auto simp: run_stmt_def split: sum.splits intro!: exI [of _ u])
  show ?thesis
    using assms run that
    by (cases "w_sched w"; force simp: exec_def stmt_tables_def split: list.splits db_event.splits)
qed

lemma mapped_Inr: "mapped ctx m w = (Inr a, w') \<longleftrightarrow> m w = (Inr a, w')"
  by (auto simp: mapped_def split: prod.splits sum.splits)

lemma exec_Inl: "exec f w = (Inl e, w') \<Longrightarrow> w_db w' = w_db w \<or> w_db w' = stmt_tables w"
  by (cases "w_sched w") (auto simp: exec_def run_stmt_def stmt_tables_def split: db_event.splits sum.splits)

text \<open>With an empty schedule every statement runs, on the tables as the handler left them.\<close>

lemma exec_quiet_Inr:
  "w_sched w = [] \<Longrightarrow> exec f w = (Inr a, w') \<longleftrightarrow> (\<exists>t. f w = Inr (a, t) \<and> w' = w\<lparr>w_db := t, w_seq := Suc (w_seq w)\<rparr>)"
  by (auto simp: exec_def run_stmt_def split: sum.splits)

lemma with_uuid_eq_Inr: "with_uuid w s k = Inr x \<longleftrightarrow> (\<exists>u. pg_uuid (w_pg w) s = Some u \<and> k u = Inr x)"
  by (auto simp: with_uuid_def split: option.splits)

lemma with_inet_eq_Inr: "with_inet w s k = Inr x \<longleftrightarrow> (\<exists>u. pg_inet (w_pg w) s = Some u \<and> k u = Inr x)"
  by (auto simp: with_inet_def split: option.splits)

lemma select_eq_Inr:
  "select_peer P w = Inr (r, t) \<longleftrightarrow> find P (t_peers (w_db w)) = Some r \<and> t = w_db w"
  "select_network Q w = Inr (n, t) \<longleftrightarrow> find Q (t_networks (w_db w)) = Some n \<and> t = w_db w"
  by (auto simp: select_peer_def select_network_def split: option.splits)

lemmas query_success = success_iff mapped_Inr with_uuid_eq_Inr with_inet_eq_Inr select_eq_Inr

lemma GetNetwork_Inr:
  assumes "GetNetwork k w = (Inr n, w')"
  shows "n \<in> set (t_networks (stmt_tables w)) \<and> n_IsActive n \<and> (n_ID n = k \<or> n_NetworkID n = k) \<and> w_db w' = stmt_tables w"
proof -
  let ?P = "\<lambda>n. n_IsActive n \<and> (n_ID n = k \<or> n_NetworkID n = k)"
  have "exec (select_network ?P) w = (Inr n, w')" using assms by (simp add: GetNetwork_def mapped_Inr)
  then obtain v where "select_network ?P v = Inr (n, w_db w')" "w_db v = stmt_tables w" by (rule exec_Inr)
  then show ?thesis using find_Some_set [of ?P] by (auto simp: select_eq_Inr)
qed

lemma GetNetwork_Inl: "GetNetwork k w = (Inl e, w') \<Longrightarrow> w_db w' = w_db w \<or> w_db w' = stmt_tables w"
  by (auto simp: GetNetwork_def mapped_def split: prod.splits sum.splits dest: exec_Inl)

text \<open>
  What the program relies on of PostgreSQL's \<open>inet\<close> type: a host address is accepted, and its text
  form carries the prefix length 32.
\<close>

definition pg_ok :: "pg \<Rightarrow> bool" where
  "pg_ok p \<longleftrightarrow> (\<forall>a. pg_inet p (IPv4_String a) = Some (IPv4_String a @ ''/32''))"

text \<open>An instance: canonical text for IPv4 addresses, identifiers taken as they are.\<close>

definition sample_pg :: pg where
  "sample_pg = \<lparr>pg_uuid = (\<lambda>s. Some s), pg_inet = (\<lambda>s. map_option (\<lambda>a. IPv4_String a @ ''/32'') (v4_text s))\<rparr>"

lemma sample_pg_ok: "pg_ok sample_pg"
  by (simp add: pg_ok_def sample_pg_def)

subsection \<open>Quiet runs\<close>

text \<open>A read in a quiet world changes nothing a later statement can see.\<close>

definition same_view :: "world \<Rightarrow> world \<Rightarrow> bool" where
  "same_view w w' \<longleftrightarrow> w_db w' = w_db w \<and> w_sched w' = [] \<and> w_pg w' = w_pg w \<and> w_now w' = w_now w"

lemma exec_read_quiet:
  "w_sched w = [] \<Longrightarrow> exec f w = (Inr a, w') \<Longrightarrow> (\<And>t. f w = Inr (a, t) \<Longrightarrow> t = w_db w) \<Longrightarrow>
   (\<exists>t. f w = Inr (a, t)) \<and> same_view w w'"
  by (auto simp: exec_quiet_Inr same_view_def)

lemma GetNetwork_quiet:
  "w_sched w = [] \<Longrightarrow> GetNetwork k w = (Inr n, w') \<Longrightarrow>
   n \<in> set (t_networks (w_db w)) \<and> n_IsActive n \<and> (n_ID n = k \<or> n_NetworkID n = k) \<and> same_view w w'"
  by (auto simp: GetNetwork_def query_success exec_quiet_Inr same_view_def dest: find_Some_set)

lemma GetPeer_quiet:
  "w_sched w = [] \<Longrightarrow> GetPeer pid w = (Inr p, w') \<Longrightarrow>
   \<exists>u r. pg_uuid (w_pg w) pid = Some u \<and> find (\<lambda>r. r_id r = u) (t_peers (w_db w)) = Some r \<and> p = scanPeer r \<and> same_view w w'"
  by (auto simp: GetPeer_def query_success exec_quiet_Inr same_view_def)

lemma ListNetworkPeers_quiet:
  "w_sched w = [] \<Longrightarrow> ListNetworkPeers net w = (Inr ps, w') \<Longrightarrow>
   set ps = scanPeer ` {r \<in> set (t_peers (w_db w)). r_network_id r \<in> set (active_network_ids net (w_db w))} \<and> same_view w w'"
  by (auto simp: ListNetworkPeers_def query_success exec_quiet_Inr same_view_def)

lemma active_network_ids_self: "n \<in> set (t_networks t) \<Longrightarrow> n_IsActive n \<Longrightarrow> n_ID n \<in> set (active_network_ids (n_ID n) t)"
  by (force simp: active_network_ids_def)

lemma returning_Inr: "returning x = Inr (r, t) \<longleftrightarrow> x = Inr (Some r, t)"
  by (auto simp: returning_def split: sum.splits prod.splits option.splits)

lemma ApprovePeer_quiet:
  assumes "w_sched w = []" "ApprovePeer pid ip w = (Inr p, w')"
  shows "\<exists>u i r. pg_uuid (w_pg w) pid = Some u \<and> pg_inet (w_pg w) ip = Some i \<and> find (\<lambda>r. r_id r = u) (t_peers (w_db w)) = Some r \<and>
     p = scanPeer (r\<lparr>r_status := ''approved'', r_virtual_ip := i, r_is_online := False\<rparr>) \<and>
     t_peers (w_db w') = map (\<lambda>q. if r_id q = u then r\<lparr>r_status := ''approved'', r_virtual_ip := i, r_is_online := False\<rparr> else q)
       (t_peers (w_db w))"
  using assms(2)
  by (auto simp: ApprovePeer_def query_success exec_quiet_Inr [OF assms(1)] returning_Inr update_peer_Inr split: option.splits)

lemma scanPeer_simps [simp]:
  "p_ID (scanPeer r) = r_id r" "p_NetworkID (scanPeer r) = r_network_id r" "p_MachineID (scanPeer r) = r_machine_id r"
  "p_VirtualIP (scanPeer r) = normalizeHostIPv4 (r_virtual_ip r)" "p_MemberToken (scanPeer r) = opt_str (r_member_token r)"
  "p_Status (scanPeer r) = (if r_status r = [] then ''approved'' else r_status r)" "p_PublicKey (scanPeer r) = r_public_key r"
  by (simp_all add: scanPeer_def Let_def)

end
