(* ===== verification/Api.thy ===== *)
theory Api
  imports Store
begin

text \<open>
  The HTTP handlers of \<open>server/internal/api\<close> that manage networks and their members:
  \<open>join_handler.go\<close>, \<open>member_handler.go\<close>, \<open>peer_handler.go\<close> and \<open>network_handler.go\<close>, with the
  responses of \<open>response.go\<close>. A handler is a function from the world to the response and the
  world it leaves. Its arguments are what it reads from the request: the authenticated user
  (\<open>auth.UserIDFromContext\<close>), the URL parameters, the \<open>Authorization\<close> header and the outcome of
  decoding the JSON body (\<open>None\<close> when \<open>decodeJSONBody\<close> gives an error). Log lines are left out.
\<close>

subsection \<open>Responses\<close>

text \<open>\<open>writeSuccess\<close>, \<open>writeError\<close>, and a run-time panic, which \<open>net/http\<close> turns into a dropped connection.\<close>

datatype 'd response = Success int 'd | Failure int string | Panicked string

type_synonym 'd handler = "world \<Rightarrow> 'd response \<times> world"

definition reply :: "'d response \<Rightarrow> 'd handler" where
  "reply r = (\<lambda>w. (r, w))"

text \<open>A call of a store: the error branch answers at once.\<close>

definition call :: "(world, 'a) procedure \<Rightarrow> (go_error \<Rightarrow> 'd response) \<Rightarrow> ('a \<Rightarrow> 'd handler) \<Rightarrow> 'd handler" where
  "call m onerr k = (\<lambda>w. case m w of (Inl e, w') \<Rightarrow> (onerr e, w') | (Inr a, w') \<Rightarrow> k a w')"

text \<open>A call whose failure is only told apart by \<open>queries.ErrNotFound\<close>.\<close>

definition not_found_or :: "string \<Rightarrow> string \<Rightarrow> go_error \<Rightarrow> 'd response" where
  "not_found_or missing broken e = (if errors_Is e ErrNotFound then Failure 404 missing else Failure 500 broken)"

text \<open>
  The first lines of every handler of an authenticated user: load the network and check its
  owner. The wording of the refusal differs between the files.
\<close>

definition with_owned_network :: "string \<Rightarrow> string option \<Rightarrow> string \<Rightarrow> (string \<Rightarrow> Network \<Rightarrow> 'd handler) \<Rightarrow> 'd handler" where
  "with_owned_network denied user networkID k =
     (case user of
        None \<Rightarrow> reply (Failure 401 ''missing authenticated user'')
      | Some userID \<Rightarrow>
          call (GetNetwork networkID) (not_found_or ''network not found'' ''failed to load network'') (\<lambda>network.
          if n_OwnerID network \<noteq> userID then reply (Failure 403 denied) else k userID network))"

subsection \<open>join_handler.go\<close>

record joinRequest =
  jr_NetworkID :: string
  jr_Hostname :: string
  jr_WGPublicKey :: string
  jr_OS :: string
  jr_Arch :: string

record joinResponse =
  jp_MemberID :: string
  jp_MemberToken :: string
  jp_Status :: string
  jp_VirtualIP :: string
  jp_NetworkCIDR :: string
  jp_NetworkName :: string
  jp_Message :: string

text \<open>\<open>runtime.GOOS\<close> and \<open>runtime.GOARCH\<close> of the server are arguments.\<close>

definition normalize_join :: "string \<Rightarrow> string \<Rightarrow> joinRequest \<Rightarrow> joinRequest" where
  "normalize_join goos goarch req =
     (let dflt = (\<lambda>d s. if s = [] then d else s)
      in \<lparr>jr_NetworkID = TrimSpace (jr_NetworkID req), jr_Hostname = dflt ''unknown-device'' (TrimSpace (jr_Hostname req)),
          jr_WGPublicKey = TrimSpace (jr_WGPublicKey req), jr_OS = dflt goos (TrimSpace (jr_OS req)),
          jr_Arch = dflt goarch (TrimSpace (jr_Arch req))\<rparr>)"

definition rejoin_response :: "Network \<Rightarrow> Peer \<Rightarrow> joinResponse" where
  "rejoin_response network existing =
     \<lparr>jp_MemberID = p_ID existing, jp_MemberToken = p_MemberToken existing, jp_Status = p_Status existing,
      jp_VirtualIP = (if p_Status existing = ''approved'' then p_VirtualIP existing else []),
      jp_NetworkCIDR = n_CIDR network, jp_NetworkName = n_Name network,
      jp_Message = (if p_Status existing = ''approved'' then ''Already approved. Tunnel can be configured.''
                    else if p_Status existing = ''pending'' then ''Waiting for network admin to approve your device.''
                    else ''Your device was rejected by the network admin.'')\<rparr>"

text \<open>The addresses in use, as the join and the approve handler collect them.\<close>

definition used_ips :: "Peer list \<Rightarrow> string list" where
  "used_ips peers = map p_VirtualIP (filter (\<lambda>p. p_VirtualIP p \<noteq> [] \<and> p_VirtualIP p \<noteq> ''0.0.0.0'') peers)"

definition joining_peer :: "Network \<Rightarrow> joinRequest \<Rightarrow> string \<Rightarrow> string \<Rightarrow> string \<Rightarrow> Peer" where
  "joining_peer network req machineID virtualIP status =
     zero_peer\<lparr>p_NetworkID := n_ID network, p_Name := jr_Hostname req, p_MachineID := machineID,
       p_PublicKey := jr_WGPublicKey req, p_VirtualIP := virtualIP, p_LocalEndpoints := [], p_OS := jr_OS req,
       p_Version := jr_Arch req, p_VNCPort := 5900, p_Status := status\<rparr>"

definition join_auto :: "Network \<Rightarrow> joinRequest \<Rightarrow> string \<Rightarrow> joinResponse handler" where
  "join_auto network req machineID =
     call (ListNetworkPeers (n_ID network)) (\<lambda>_. Failure 500 ''failed to allocate IP'') (\<lambda>currentPeers.
     case coordinator_AllocateIP (n_CIDR network) (used_ips currentPeers) of
       Inl _ \<Rightarrow> reply (Failure 409 ''no available IP addresses in network'')
     | Inr virtualIP \<Rightarrow>
         call (RegisterPeer (joining_peer network req machineID virtualIP ''approved'')) (\<lambda>_. Failure 500 ''failed to register peer'') (\<lambda>registered.
         reply (Success 201 \<lparr>jp_MemberID = p_ID registered, jp_MemberToken = p_MemberToken registered, jp_Status = ''approved'',
           jp_VirtualIP = virtualIP, jp_NetworkCIDR = n_CIDR network, jp_NetworkName = n_Name network,
           jp_Message = ''Approved! Tunnel is being configured.''\<rparr>)))"

definition join_pending :: "Network \<Rightarrow> joinRequest \<Rightarrow> string \<Rightarrow> joinResponse handler" where
  "join_pending network req machineID =
     call (RegisterPendingPeer (joining_peer network req machineID [] ''pending'')) (\<lambda>_. Failure 500 ''failed to register pending peer'') (\<lambda>pending.
     reply (Success 201 \<lparr>jp_MemberID = p_ID pending, jp_MemberToken = p_MemberToken pending, jp_Status = ''pending'',
       jp_VirtualIP = [], jp_NetworkCIDR = n_CIDR network, jp_NetworkName = n_Name network,
       jp_Message = ''Your device is pending approval. Ask the network admin to approve you in the dashboard.''\<rparr>))"

text \<open>
  A failure of \<open>GetPeerByPublicKey\<close> of any kind counts as "not joined yet". The slice
  \<open>req.WGPublicKey[:12]\<close> panics on a shorter key.
\<close>

definition join_network :: "Network \<Rightarrow> joinRequest \<Rightarrow> joinResponse handler" where
  "join_network network req =
     (\<lambda>w. case GetPeerByPublicKey (n_ID network) (jr_WGPublicKey req) w of
            (Inr existing, w') \<Rightarrow> (Success 200 (rejoin_response network existing), w')
          | (Inl _, w') \<Rightarrow>
              let accessControl = (if n_AccessControl network = [] then ''approve'' else n_AccessControl network)
              in if length (jr_WGPublicKey req) < 12
                 then (Panicked ''slice bounds out of range'', w')
                 else
                   let machineID = ''join_'' @ take 12 (jr_WGPublicKey req)
                   in if accessControl = ''auto'' then join_auto network req machineID w'
                      else join_pending network req machineID w')"

definition Join :: "string \<Rightarrow> string \<Rightarrow> joinRequest option \<Rightarrow> joinResponse handler" where
  "Join goos goarch body =
     (case body of
        None \<Rightarrow> reply (Failure 400 ''invalid request body'')
      | Some raw \<Rightarrow>
          let req = normalize_join goos goarch raw
          in if jr_NetworkID req = [] \<or> jr_WGPublicKey req = []
             then reply (Failure 400 ''network_id and wg_public_key are required'')
             else
               call (GetNetworkByPublicID (jr_NetworkID req)) (not_found_or ''network not found'' ''failed to look up network'') (\<lambda>network.
               if \<not> n_IsActive network then reply (Failure 404 ''network not found'') else join_network network req))"

subsection \<open>member_handler.go: management by the owner\<close>

definition hide_token :: "Peer \<Rightarrow> Peer" where
  "hide_token p = p\<lparr>p_MemberToken := []\<rparr>"

definition not_yours :: string where "not_yours = ''not your network''"

definition MemberHandler_ListMembers :: "string option \<Rightarrow> string \<Rightarrow> Peer list handler" where
  "MemberHandler_ListMembers user networkID =
     with_owned_network not_yours user networkID (\<lambda>_ network.
     call (ListMembers (n_ID network)) (\<lambda>_. Failure 500 ''failed to list members'') (\<lambda>members.
     reply (Success 200 (map hide_token members))))"

definition approve_pending :: "Network \<Rightarrow> string \<Rightarrow> Peer handler" where
  "approve_pending network memberID =
     call (ListNetworkPeers (n_ID network)) (\<lambda>_. Failure 500 ''failed to list peers for IP allocation'') (\<lambda>currentPeers.
     case coordinator_AllocateIP (n_CIDR network) (used_ips currentPeers) of
       Inl _ \<Rightarrow> reply (Failure 409 ''no available IP addresses in network'')
     | Inr virtualIP \<Rightarrow>
         call (ApprovePeer memberID virtualIP) (\<lambda>_. Failure 500 ''failed to approve member'') (\<lambda>approved.
         reply (Success 200 (hide_token approved))))"

definition ApproveMember :: "string option \<Rightarrow> string \<Rightarrow> string \<Rightarrow> Peer handler" where
  "ApproveMember user networkID memberID =
     with_owned_network not_yours user networkID (\<lambda>_ network.
     call (GetPeer memberID) (not_found_or ''member not found'' ''failed to load member'') (\<lambda>member.
     if p_NetworkID member \<noteq> n_ID network then reply (Failure 404 ''member not found in this network'')
     else if p_Status member = ''approved'' then reply (Success 200 (hide_token member))
     else approve_pending network memberID))"

definition RejectMember :: "string option \<Rightarrow> string \<Rightarrow> string \<Rightarrow> string handler" where
  "RejectMember user networkID memberID =
     with_owned_network not_yours user networkID (\<lambda>_ _.
     call (RejectPeer memberID) (not_found_or ''member not found'' ''failed to reject member'') (\<lambda>_.
     reply (Success 200 ''rejected'')))"

definition KickMember :: "string option \<Rightarrow> string \<Rightarrow> string \<Rightarrow> string handler" where
  "KickMember user networkID memberID =
     with_owned_network not_yours user networkID (\<lambda>_ network.
     call (GetPeer memberID) (not_found_or ''member not found'' ''failed to load member'') (\<lambda>member.
     if p_NetworkID member \<noteq> n_ID network then reply (Failure 404 ''member not found in this network'')
     else call (DeletePeer memberID) (not_found_or ''member not found'' ''failed to remove member'') (\<lambda>_.
          reply (Success 200 ''removed''))))"

subsection \<open>member_handler.go: devices\<close>

definition readBearerToken :: "string \<Rightarrow> string" where
  "readBearerToken header = TrimSpace (TrimPrefix (TrimSpace header) ''Bearer '')"

definition errMissingMemberToken :: go_error where "errMissingMemberToken = Sentinel ''missing member token''"
definition errInvalidMemberToken :: go_error where "errInvalidMemberToken = Sentinel ''invalid member token''"
definition errMemberMismatch :: go_error where "errMemberMismatch = Sentinel ''token does not match member''"

definition authenticateMember :: "string \<Rightarrow> string \<Rightarrow> (world, Peer) procedure" where
  "authenticateMember memberID0 token0 =
     (let memberID = TrimSpace memberID0; token = TrimSpace token0
      in if token = [] then raise errMissingMemberToken
         else (\<lambda>w. case GetPeerByMemberToken token w of
                     (Inl e, w') \<Rightarrow> (Inl (if errors_Is e ErrNotFound then errInvalidMemberToken else e), w')
                   | (Inr peer, w') \<Rightarrow> if p_ID peer \<noteq> memberID then (Inl errMemberMismatch, w') else (Inr peer, w')))"

definition memberAuthError :: "go_error \<Rightarrow> 'd response" where
  "memberAuthError e =
     (if errors_Is e errMissingMemberToken then Failure 401 ''member_token is required''
      else if errors_Is e errInvalidMemberToken then Failure 401 ''invalid member token''
      else if errors_Is e errMemberMismatch then Failure 403 ''token does not match member''
      else Failure 500 ''failed to verify token'')"

record member_status =
  ms_status :: string
  ms_member_id :: string
  ms_network_id :: string
  ms_network_name :: string
  ms_network_cidr :: string
  ms_virtual_ip :: "string option"

definition MemberStatus :: "string \<Rightarrow> string \<Rightarrow> member_status handler" where
  "MemberStatus memberID header =
     call (authenticateMember memberID (readBearerToken header)) memberAuthError (\<lambda>peer.
     call (GetNetwork (p_NetworkID peer)) (\<lambda>_. Failure 500 ''failed to load network'') (\<lambda>network.
     reply (Success 200
       \<lparr>ms_status = p_Status peer, ms_member_id = p_ID peer, ms_network_id = n_NetworkID network,
        ms_network_name = n_Name network, ms_network_cidr = n_CIDR network,
        ms_virtual_ip = (if p_Status peer = ''approved'' \<and> p_VirtualIP peer \<noteq> [] \<and> p_VirtualIP peer \<noteq> ''0.0.0.0''
                         then Some (p_VirtualIP peer) else None)\<rparr>)))"

record heartbeatRequest =
  hb_PublicEndpoint :: string
  hb_LocalEndpoints :: "string list"
  hb_VNCAvailable :: bool
  hb_RXBytes :: int
  hb_TXBytes :: int
  hb_RelayID :: string

definition status_of_heartbeat :: "heartbeatRequest \<Rightarrow> PeerStatusUpdate" where
  "status_of_heartbeat req =
     \<lparr>su_PublicEndpoint = TrimSpace (hb_PublicEndpoint req), su_LocalEndpoints = hb_LocalEndpoints req,
      su_VNCAvailable = hb_VNCAvailable req, su_RXBytes = hb_RXBytes req, su_TXBytes = hb_TXBytes req,
      su_RelayID = TrimSpace (hb_RelayID req)\<rparr>"

text \<open>Authentication of an approved device and decoding of its request, shared by two handlers.\<close>

definition with_approved_member :: "string \<Rightarrow> string \<Rightarrow> (Peer \<Rightarrow> 'd handler) \<Rightarrow> 'd handler" where
  "with_approved_member memberID header k =
     call (authenticateMember memberID (readBearerToken header)) memberAuthError (\<lambda>peer.
     if p_Status peer \<noteq> ''approved'' then reply (Failure 409 ''member is not approved'') else k peer)"

definition MemberHeartbeat :: "string \<Rightarrow> string \<Rightarrow> heartbeatRequest option \<Rightarrow> string handler" where
  "MemberHeartbeat memberID header body =
     with_approved_member memberID header (\<lambda>peer.
     case body of
       None \<Rightarrow> reply (Failure 400 ''invalid request body'')
     | Some req \<Rightarrow>
         call (UpdatePeerStatus (p_ID peer) (status_of_heartbeat req))
           (not_found_or ''member not found'' ''failed to update member status'') (\<lambda>_.
         reply (Success 200 ''updated'')))"

definition MemberAnnounce :: "string \<Rightarrow> string \<Rightarrow> heartbeatRequest option \<Rightarrow> string handler" where
  "MemberAnnounce memberID header body =
     with_approved_member memberID header (\<lambda>peer.
     case body of
       None \<Rightarrow> reply (Failure 400 ''invalid request body'')
     | Some req \<Rightarrow>
         call (UpdatePeerStatus (p_ID peer)
             \<lparr>su_PublicEndpoint = TrimSpace (hb_PublicEndpoint req), su_LocalEndpoints = hb_LocalEndpoints req,
              su_VNCAvailable = False, su_RXBytes = 0, su_TXBytes = 0, su_RelayID = []\<rparr>)
           (not_found_or ''member not found'' ''failed to update member endpoints'') (\<lambda>_.
         reply (Success 200 ''announced'')))"

definition MemberPeers :: "string \<Rightarrow> string \<Rightarrow> Peer list handler" where
  "MemberPeers memberID header =
     with_approved_member memberID header (\<lambda>peer.
     call (GetOnlinePeers (p_NetworkID peer)) (\<lambda>_. Failure 500 ''failed to list peers'') (\<lambda>peers.
     reply (Success 200 (map hide_token (filter (\<lambda>c. p_ID c \<noteq> p_ID peer \<and> p_Status c = ''approved'') peers)))))"

subsection \<open>peer_handler.go\<close>

definition no_access :: string where "no_access = ''you do not have access to this network''"

record peerRegisterRequest =
  pr_MachineID :: string
  pr_PublicKey :: string
  pr_Name :: string
  pr_OS :: string
  pr_Version :: string
  pr_VNCPort :: int

record peerRegistrationResponse =
  prr_VirtualIP :: string
  prr_NetworkCIDR :: string
  prr_PeerID :: string
  prr_PublicKey :: string
  prr_Peers :: "Peer list"

definition isVirtualIPConflict :: "go_error \<Rightarrow> bool" where
  "isVirtualIPConflict e =
     (let message = ToLower (error_string e)
      in if \<not> Contains message ''duplicate key value violates unique constraint'' then False
         else if Contains message ''peers_network_virtual_ip_unique'' then True
         else Contains message ''(network_id, virtual_ip)'')"

text \<open>The loop over the current peers: the used addresses and the address of this machine.\<close>

fun inspect_peers :: "string \<Rightarrow> Peer list \<Rightarrow> string list \<times> string \<Rightarrow> string list \<times> string" where
  "inspect_peers machineID [] acc = acc"
| "inspect_peers machineID (existing # rest) (usedIPs, assignedIP) =
     (let normalizedExisting = normalizePeerVirtualIPv4 (p_VirtualIP existing)
      in inspect_peers machineID rest
           (if normalizedExisting \<noteq> [] then usedIPs @ [normalizedExisting] else usedIPs,
            if p_MachineID existing = machineID then normalizedExisting else assignedIP))"

definition assigned_elsewhere :: "string \<Rightarrow> Peer list \<Rightarrow> string \<Rightarrow> bool" where
  "assigned_elsewhere machineID peers ip =
     list_ex (\<lambda>existing. p_MachineID existing \<noteq> machineID \<and> normalizePeerVirtualIPv4 (p_VirtualIP existing) = ip) peers"

definition choose_ip :: "Network \<Rightarrow> string \<Rightarrow> Peer list \<Rightarrow> alloc_error + string" where
  "choose_ip network machineID currentPeers =
     (let (usedIPs, assigned) = inspect_peers machineID currentPeers ([], []);
          kept = (if assigned \<noteq> [] \<and> assigned_elsewhere machineID currentPeers assigned then [] else assigned)
      in if kept = [] then coordinator_AllocateIP (n_CIDR network) usedIPs else Inr kept)"

definition registering_peer :: "Network \<Rightarrow> peerRegisterRequest \<Rightarrow> string \<Rightarrow> Peer" where
  "registering_peer network req ip =
     zero_peer\<lparr>p_NetworkID := n_ID network, p_Name := pr_Name req, p_MachineID := pr_MachineID req,
       p_PublicKey := pr_PublicKey req, p_VirtualIP := ip, p_LocalEndpoints := [], p_OS := pr_OS req,
       p_Version := pr_Version req, p_VNCPort := pr_VNCPort req, p_VNCAvailable := False\<rparr>"

text \<open>The attempts, counted down: \<open>left\<close> of them remain after the current one.\<close>

fun register_loop :: "nat \<Rightarrow> Network \<Rightarrow> peerRegisterRequest \<Rightarrow> (Peer option \<Rightarrow> 'd handler) \<Rightarrow> 'd handler" where
  "register_loop 0 network req k = k None"
| "register_loop (Suc left) network req k =
     call (ListNetworkPeers (n_ID network)) (\<lambda>_. Failure 500 ''failed to inspect existing peers'') (\<lambda>currentPeers.
     case choose_ip network (pr_MachineID req) currentPeers of
       Inl _ \<Rightarrow> reply (Failure 409 ''no available virtual ip in network'')
     | Inr assignedIP \<Rightarrow>
         (\<lambda>w. case RegisterPeer (registering_peer network req assignedIP) w of
                (Inr registered, w') \<Rightarrow> k (Some registered) w'
              | (Inl e, w') \<Rightarrow>
                  if isVirtualIPConflict e then
                    (if 0 < left then register_loop left network req k w'
                     else (Failure 409 ''virtual ip allocation conflict, retry'', w'))
                  else (Failure 500 ''failed to register peer'', w')))"

definition maxRegisterAttempts :: nat where "maxRegisterAttempts = 3"

definition normalize_register :: "peerRegisterRequest \<Rightarrow> peerRegisterRequest" where
  "normalize_register req =
     \<lparr>pr_MachineID = TrimSpace (pr_MachineID req), pr_PublicKey = TrimSpace (pr_PublicKey req), pr_Name = TrimSpace (pr_Name req),
      pr_OS = TrimSpace (pr_OS req), pr_Version = TrimSpace (pr_Version req),
      pr_VNCPort = (if pr_VNCPort req = 0 then 5900 else pr_VNCPort req)\<rparr>"

definition register_snapshot :: "Network \<Rightarrow> Peer option \<Rightarrow> peerRegistrationResponse handler" where
  "register_snapshot network registered0 =
     (case registered0 of
        None \<Rightarrow> reply (Failure 409 ''virtual ip allocation conflict, retry'')
      | Some registered \<Rightarrow>
          call (ListNetworkPeers (n_ID network)) (\<lambda>_. Failure 500 ''failed to load peer snapshot'') (\<lambda>networkPeers.
          reply (Success 200
            \<lparr>prr_VirtualIP = p_VirtualIP registered, prr_NetworkCIDR = n_CIDR network, prr_PeerID = p_ID registered,
             prr_PublicKey = p_PublicKey registered,
             prr_Peers = filter (\<lambda>c. p_ID c = p_ID registered \<or> p_IsOnline c) networkPeers\<rparr>)))"

definition PeerHandler_RegisterPeer :: "string option \<Rightarrow> string \<Rightarrow> peerRegisterRequest option \<Rightarrow> peerRegistrationResponse handler" where
  "PeerHandler_RegisterPeer user networkID body =
     with_owned_network no_access user networkID (\<lambda>_ network.
     case body of
       None \<Rightarrow> reply (Failure 400 ''invalid request body'')
     | Some raw \<Rightarrow>
         let req = normalize_register raw
         in if pr_MachineID req = [] \<or> pr_PublicKey req = []
            then reply (Failure 400 ''machine_id and public_key are required'')
            else register_loop maxRegisterAttempts network req (register_snapshot network))"

definition ListPeers :: "string option \<Rightarrow> string \<Rightarrow> Peer list handler" where
  "ListPeers user networkID =
     with_owned_network no_access user networkID (\<lambda>_ network.
     call (ListNetworkPeers (n_ID network)) (\<lambda>_. Failure 500 ''failed to load peers'') (\<lambda>peers. reply (Success 200 peers)))"

definition UnregisterPeer :: "string option \<Rightarrow> string \<Rightarrow> string option \<Rightarrow> (string \<times> string) handler" where
  "UnregisterPeer user networkID body =
     with_owned_network no_access user networkID (\<lambda>_ network.
     case body of
       None \<Rightarrow> reply (Failure 400 ''invalid request body'')
     | Some raw \<Rightarrow>
         let machineID = TrimSpace raw
         in if machineID = [] then reply (Failure 400 ''machine_id is required'')
            else
              (\<lambda>w. case DeletePeerByMachineID (n_ID network) machineID w of
                     (Inr _, w') \<Rightarrow> (Success 200 (''unregistered'', machineID), w')
                   | (Inl e, w') \<Rightarrow>
                       if errors_Is e ErrNotFound then (Success 200 (''already_removed'', machineID), w')
                       else (Failure 500 ''failed to unregister peer'', w')))"

definition Heartbeat :: "string option \<Rightarrow> string \<Rightarrow> string \<Rightarrow> heartbeatRequest option \<Rightarrow> string handler" where
  "Heartbeat user networkID peerID body =
     with_owned_network no_access user networkID (\<lambda>_ network.
     call (GetPeer peerID) (not_found_or ''peer not found'' ''failed to load peer'') (\<lambda>peer.
     if p_NetworkID peer \<noteq> n_ID network then reply (Failure 404 ''peer not found in network'')
     else
       case body of
         None \<Rightarrow> reply (Failure 400 ''invalid request body'')
       | Some req \<Rightarrow>
           call (UpdatePeerStatus peerID (status_of_heartbeat req))
             (not_found_or ''peer not found'' ''failed to update peer status'') (\<lambda>_. reply (Success 200 ''updated''))))"

subsection \<open>network_handler.go\<close>

record createNetworkRequest =
  cn_Name :: string
  cn_Description :: string
  cn_MaxPeers :: int
  cn_CIDR :: string
  cn_AccessControl :: string

text \<open>The outcome of \<open>generateNetworkID(12)\<close>: an index below 36 for each character, or an error.\<close>

definition network_id_alphabet :: string where
  "network_id_alphabet = ''abcdefghijklmnopqrstuvwxyz0123456789''"

fun network_id_loop :: "nat \<Rightarrow> nat option list \<Rightarrow> go_error + string" where
  "network_id_loop 0 rnd = Inr []"
| "network_id_loop (Suc n) (Some i # rnd) =
     (case network_id_loop n rnd of Inl e \<Rightarrow> Inl e | Inr s \<Rightarrow> Inr (network_id_alphabet ! (i mod length network_id_alphabet) # s))"
| "network_id_loop (Suc n) rnd = Inl (Errorf ''generate network id: random index'')"

definition generateNetworkID :: "int \<Rightarrow> nat option list \<Rightarrow> go_error + string" where
  "generateNetworkID len rnd =
     (if len \<le> 0 then Inl (Errorf ''generate network id: invalid length'') else network_id_loop (nat len) rnd)"

definition normalize_create :: "createNetworkRequest \<Rightarrow> createNetworkRequest" where
  "normalize_create req =
     \<lparr>cn_Name = TrimSpace (cn_Name req), cn_Description = TrimSpace (cn_Description req),
      cn_MaxPeers = (if cn_MaxPeers req \<le> 0 then 25 else cn_MaxPeers req),
      cn_CIDR = (if cn_CIDR req = [] then ''10.7.0.0/16'' else cn_CIDR req),
      cn_AccessControl = (if cn_AccessControl req = [] then ''approve'' else cn_AccessControl req)\<rparr>"

definition NetworkHandler_CreateNetwork :: "nat option list \<Rightarrow> string option \<Rightarrow> createNetworkRequest option \<Rightarrow> Network handler" where
  "NetworkHandler_CreateNetwork rnd user body =
     (case user of
        None \<Rightarrow> reply (Failure 401 ''missing authenticated user'')
      | Some userID \<Rightarrow>
     (case body of
        None \<Rightarrow> reply (Failure 400 ''invalid request body'')
      | Some raw \<Rightarrow>
          let req = normalize_create raw
          in if cn_Name req = [] then reply (Failure 400 ''name is required'')
             else if cn_AccessControl req \<noteq> ''approve'' \<and> cn_AccessControl req \<noteq> ''auto''
             then reply (Failure 400 (''access_control must be 'approve' or 'auto'' @ [CHR 0x27]))
             else
               (case generateNetworkID 12 rnd of
                  Inl _ \<Rightarrow> reply (Failure 500 ''failed to generate network id'')
                | Inr networkID \<Rightarrow>
                    call (CreateNetwork \<lparr>n_ID = [], n_OwnerID = userID, n_Name = cn_Name req, n_NetworkID = networkID,
                        n_CIDR = cn_CIDR req, n_Description = cn_Description req, n_MaxPeers = cn_MaxPeers req,
                        n_IsActive = True, n_AccessControl = cn_AccessControl req, n_CreatedAt = 0\<rparr>)
                      (\<lambda>_. Failure 500 ''failed to create network'') (\<lambda>created. reply (Success 201 created)))))"

definition ListNetworks :: "string option \<Rightarrow> Network list handler" where
  "ListNetworks user =
     (case user of
        None \<Rightarrow> reply (Failure 401 ''missing authenticated user'')
      | Some userID \<Rightarrow>
          call (ListUserNetworks userID) (\<lambda>_. Failure 500 ''failed to load networks'') (\<lambda>networks. reply (Success 200 networks)))"

definition NetworkHandler_GetNetwork :: "string option \<Rightarrow> string \<Rightarrow> (Network \<times> nat) handler" where
  "NetworkHandler_GetNetwork user networkID =
     with_owned_network no_access user networkID (\<lambda>_ network.
     call (ListNetworkPeers (n_ID network)) (\<lambda>_. Failure 500 ''failed to load peers'') (\<lambda>peers.
     reply (Success 200 (network, length peers))))"

record updateNetworkRequest =
  un_Name :: string
  un_Description :: string

definition NetworkHandler_UpdateNetwork :: "string option \<Rightarrow> string \<Rightarrow> updateNetworkRequest option \<Rightarrow> Network handler" where
  "NetworkHandler_UpdateNetwork user networkID body =
     with_owned_network no_access user networkID (\<lambda>_ existing.
     case body of
       None \<Rightarrow> reply (Failure 400 ''invalid request body'')
     | Some req \<Rightarrow>
         let name = (if TrimSpace (un_Name req) = [] then n_Name existing else TrimSpace (un_Name req));
             description = (if TrimSpace (un_Description req) = [] then n_Description existing else TrimSpace (un_Description req))
         in call (UpdateNetwork networkID name description) (not_found_or ''network not found'' ''failed to update network'')
              (\<lambda>updated. reply (Success 200 updated)))"

definition NetworkHandler_DeleteNetwork :: "string option \<Rightarrow> string \<Rightarrow> string handler" where
  "NetworkHandler_DeleteNetwork user networkID =
     with_owned_network no_access user networkID (\<lambda>_ _.
     call (DeleteNetwork networkID) (not_found_or ''network not found'' ''failed to delete network'')
       (\<lambda>_. reply (Success 200 ''deleted'')))"

subsection \<open>Every handler keeps the constraints of the database\<close>

lemma keeps_reply: "keeps I (reply r)"
  by (simp add: keeps_def reply_def)

lemma keeps_call: "keeps I m \<Longrightarrow> (\<And>a. keeps I (k a)) \<Longrightarrow> keeps I (call m onerr k)"
  by (auto simp: keeps_def call_def split: prod.splits sum.splits)

lemma keeps_case_proc:
  "keeps I m \<Longrightarrow> (\<And>a. keeps I (k a)) \<Longrightarrow> (\<And>e. keeps I (h e)) \<Longrightarrow>
   keeps I (\<lambda>w. case m w of (Inl e, w') \<Rightarrow> h e w' | (Inr a, w') \<Rightarrow> k a w')"
  by (auto simp: keeps_def split: prod.splits sum.splits)

lemma keeps_pair: "keeps I (\<lambda>w. (r, w))"
  by (simp add: keeps_def)

lemma keeps_owned: "(\<And>u n. keeps world_ok (k u n)) \<Longrightarrow> keeps world_ok (with_owned_network denied user networkID k)"
  unfolding with_owned_network_def
  by (cases user) (auto intro!: keeps_reply keeps_call keeps_networks)

lemma keeps_authenticate: "keeps world_ok (authenticateMember mid tok)"
proof -
  have "keeps world_ok (\<lambda>w. case GetPeerByMemberToken t w of
          (Inl e, w') \<Rightarrow> (Inl (if errors_Is e ErrNotFound then errInvalidMemberToken else e), w')
        | (Inr peer, w') \<Rightarrow> if p_ID peer \<noteq> m then (Inl errMemberMismatch, w') else (Inr peer, w'))" for t m
    using keeps_peer_reads(2) [of t] by (auto simp: keeps_def split: prod.splits sum.splits)
  then show ?thesis by (auto simp: authenticateMember_def Let_def)
qed

lemma keeps_approved: "(\<And>p. keeps world_ok (k p)) \<Longrightarrow> keeps world_ok (with_approved_member mid hdr k)"
  unfolding with_approved_member_def by (auto intro!: keeps_call keeps_authenticate keeps_reply)

lemmas handler_rules = keeps_reply keeps_call keeps_owned keeps_approved keeps_authenticate keeps_pair keeps_if

lemma keeps_join_network: "keeps world_ok (join_network network req)"
proof -
  have auto: "keeps world_ok (join_auto network req m)" for m
    unfolding join_auto_def by (auto intro!: handler_rules keeps_peer_reads keeps_RegisterPeer split: sum.splits)
  have pending: "keeps world_ok (join_pending network req m)" for m
    unfolding join_pending_def by (auto intro!: handler_rules keeps_RegisterPeer)
  show ?thesis
    using keeps_peer_reads(3) [of "n_ID network" "jr_WGPublicKey req"] auto pending
    by (auto simp: join_network_def keeps_def Let_def split: prod.splits sum.splits)
qed

lemma keeps_Join: "keeps world_ok (Join goos goarch body)"
  unfolding Join_def Let_def
  by (auto intro!: handler_rules keeps_networks keeps_join_network split: option.splits)

lemma keeps_members:
  "keeps world_ok (MemberHandler_ListMembers user net)" "keeps world_ok (ApproveMember user net mid)"
  "keeps world_ok (RejectMember user net mid)" "keeps world_ok (KickMember user net mid)"
  unfolding MemberHandler_ListMembers_def ApproveMember_def approve_pending_def RejectMember_def KickMember_def
  by (auto intro!: handler_rules keeps_peer_reads keeps_peer_writes split: sum.splits)

lemma keeps_devices:
  "keeps world_ok (MemberStatus mid hdr)" "keeps world_ok (MemberHeartbeat mid hdr body)"
  "keeps world_ok (MemberAnnounce mid hdr body)" "keeps world_ok (MemberPeers mid hdr)"
  unfolding MemberStatus_def MemberHeartbeat_def MemberAnnounce_def MemberPeers_def
  by (auto intro!: handler_rules keeps_peer_reads keeps_peer_writes keeps_networks split: option.splits)

lemma keeps_register_loop: "(\<And>p. keeps world_ok (k p)) \<Longrightarrow> keeps world_ok (register_loop n network req k)"
proof (induction n)
  case 0
  then show ?case by simp
next
  case (Suc n)
  have "keeps world_ok (\<lambda>w. case RegisterPeer peer w of
           (Inr registered, w') \<Rightarrow> k (Some registered) w'
         | (Inl e, w') \<Rightarrow>
             if isVirtualIPConflict e then
               (if 0 < n then register_loop n network req k w'
                else (Failure 409 ''virtual ip allocation conflict, retry'', w'))
             else (Failure 500 ''failed to register peer'', w'))" for peer
    using keeps_RegisterPeer(1) [of peer] Suc by (auto simp: keeps_def split: prod.splits sum.splits)
  then show ?case
    by (auto intro!: handler_rules keeps_peer_reads split: sum.splits)
qed

lemma keeps_peer_handler:
  "keeps world_ok (PeerHandler_RegisterPeer user net rbody)" "keeps world_ok (ListPeers user net)"
  "keeps world_ok (Heartbeat user net pid hbody)"
  unfolding PeerHandler_RegisterPeer_def ListPeers_def Heartbeat_def register_snapshot_def Let_def
  by (auto intro!: handler_rules keeps_register_loop keeps_peer_reads keeps_peer_writes split: option.splits)

lemma keeps_UnregisterPeer: "keeps world_ok (UnregisterPeer user net ubody)"
proof -
  have "keeps world_ok (\<lambda>w. case DeletePeerByMachineID n m w of
          (Inr _, w') \<Rightarrow> (Success 200 (''unregistered'', m), w')
        | (Inl e, w') \<Rightarrow>
            if errors_Is e ErrNotFound then (Success 200 (''already_removed'', m), w')
            else (Failure 500 ''failed to unregister peer'', w'))" for n m
    using keeps_peer_writes(5) [of n m] by (auto simp: keeps_def split: prod.splits sum.splits)
  then show ?thesis
    unfolding UnregisterPeer_def Let_def by (auto intro!: handler_rules split: option.splits)
qed

lemma keeps_network_handler:
  "keeps world_ok (NetworkHandler_CreateNetwork rnd user cbody)" "keeps world_ok (ListNetworks user)"
  "keeps world_ok (NetworkHandler_GetNetwork user net)" "keeps world_ok (NetworkHandler_UpdateNetwork user net unbody)"
  "keeps world_ok (NetworkHandler_DeleteNetwork user net)"
  unfolding NetworkHandler_CreateNetwork_def ListNetworks_def NetworkHandler_GetNetwork_def NetworkHandler_UpdateNetwork_def
    NetworkHandler_DeleteNetwork_def Let_def
  by (auto intro!: handler_rules keeps_networks keeps_peer_reads split: option.splits sum.splits)

subsection \<open>The server as a transition system\<close>

datatype request =
    ReqJoin string string "joinRequest option"
  | ReqListMembers "string option" string
  | ReqApprove "string option" string string
  | ReqReject "string option" string string
  | ReqKick "string option" string string
  | ReqStatus string string
  | ReqMemberHeartbeat string string "heartbeatRequest option"
  | ReqAnnounce string string "heartbeatRequest option"
  | ReqMemberPeers string string
  | ReqRegister "string option" string "peerRegisterRequest option"
  | ReqListPeers "string option" string
  | ReqUnregister "string option" string "string option"
  | ReqHeartbeat "string option" string string "heartbeatRequest option"
  | ReqCreateNetwork "nat option list" "string option" "createNetworkRequest option"
  | ReqListNetworks "string option"
  | ReqGetNetwork "string option" string
  | ReqUpdateNetwork "string option" string "updateNetworkRequest option"
  | ReqDeleteNetwork "string option" string
  | ReqExpire int
  | ReqCreateUser User

fun serve :: "request \<Rightarrow> world \<Rightarrow> world" where
  "serve (ReqJoin goos goarch body) w = snd (Join goos goarch body w)"
| "serve (ReqListMembers user net) w = snd (MemberHandler_ListMembers user net w)"
| "serve (ReqApprove user net mid) w = snd (ApproveMember user net mid w)"
| "serve (ReqReject user net mid) w = snd (RejectMember user net mid w)"
| "serve (ReqKick user net mid) w = snd (KickMember user net mid w)"
| "serve (ReqStatus mid hdr) w = snd (MemberStatus mid hdr w)"
| "serve (ReqMemberHeartbeat mid hdr body) w = snd (MemberHeartbeat mid hdr body w)"
| "serve (ReqAnnounce mid hdr body) w = snd (MemberAnnounce mid hdr body w)"
| "serve (ReqMemberPeers mid hdr) w = snd (MemberPeers mid hdr w)"
| "serve (ReqRegister user net body) w = snd (PeerHandler_RegisterPeer user net body w)"
| "serve (ReqListPeers user net) w = snd (ListPeers user net w)"
| "serve (ReqUnregister user net body) w = snd (UnregisterPeer user net body w)"
| "serve (ReqHeartbeat user net pid body) w = snd (Heartbeat user net pid body w)"
| "serve (ReqCreateNetwork rnd user body) w = snd (NetworkHandler_CreateNetwork rnd user body w)"
| "serve (ReqListNetworks user) w = snd (ListNetworks user w)"
| "serve (ReqGetNetwork user net) w = snd (NetworkHandler_GetNetwork user net w)"
| "serve (ReqUpdateNetwork user net body) w = snd (NetworkHandler_UpdateNetwork user net body w)"
| "serve (ReqDeleteNetwork user net) w = snd (NetworkHandler_DeleteNetwork user net w)"
| "serve (ReqExpire d) w = snd (ExpireStalePeers d w)"
| "serve (ReqCreateUser u) w = snd (CreateUser u w)"

definition empty_tables :: tables where
  "empty_tables = \<lparr>t_users = [], t_networks = [], t_peers = []\<rparr>"

text \<open>
  The states of the database. A request is served on a reachable state with any clock, any random
  values and any schedule: a statement may fail, and before each statement other requests may have
  committed, which leaves the database in some other reachable state. A failing statement ends most
  handlers, so the states between two statements of a request are reachable as well, and every
  interleaving of the statements of concurrent requests is covered.
\<close>

inductive server_reachable :: "tables \<Rightarrow> bool" where
  initially: "server_reachable empty_tables"
| serves: "server_reachable (w_db w) \<Longrightarrow> (\<And>t. DbRace t \<in> set (w_sched w) \<Longrightarrow> server_reachable t) \<Longrightarrow>
    server_reachable (w_db (serve req w))"

lemmas handlers_keep = keeps_Join keeps_members keeps_devices keeps_peer_handler keeps_UnregisterPeer keeps_network_handler
  keeps_ExpireStalePeers keeps_users

lemma serve_ok: "world_ok w \<Longrightarrow> world_ok (serve req w)"
  by (cases req; simp only: serve.simps; erule keepsD [rotated]; rule handlers_keep)

lemma server_reachable_ok: "server_reachable t \<Longrightarrow> db_ok t"
proof (induction rule: server_reachable.induct)
  case initially
  show ?case by (simp add: empty_tables_def db_ok_def peers_ok_def)
next
  case (serves w req)
  then have "world_ok w" by (simp add: world_ok_def)
  then have "world_ok (serve req w)" by (rule serve_ok)
  then show ?case by (simp only: world_ok_def)
qed

subsection \<open>Successful calls\<close>

lemma call_Success:
  assumes "\<And>e. onerr e \<noteq> Success c x"
  shows "call m onerr k w = (Success c x, w') \<longleftrightarrow> (\<exists>a w1. m w = (Inr a, w1) \<and> k a w1 = (Success c x, w'))"
  using assms by (auto simp: call_def split: prod.splits sum.splits)

lemma not_Success [simp]:
  "not_found_or a b e \<noteq> Success c x" "memberAuthError e \<noteq> Success c x" "Failure i s \<noteq> Success c x"
  by (simp_all add: not_found_or_def memberAuthError_def)

lemma reply_Success: "reply r w = (Success c x, w') \<longleftrightarrow> r = Success c x \<and> w' = w"
  by (auto simp: reply_def)

lemma owned_Success:
  "with_owned_network denied user net k w = (Success c x, w') \<longleftrightarrow>
     (\<exists>u n w1. user = Some u \<and> GetNetwork net w = (Inr n, w1) \<and> n_OwnerID n = u \<and> k u n w1 = (Success c x, w'))"
  by (cases user) (auto simp: with_owned_network_def reply_Success call_Success)

text \<open>Refusals of the ownership check: nothing is written.\<close>

definition owns :: "world \<Rightarrow> string option \<Rightarrow> string \<Rightarrow> bool" where
  "owns w user net \<longleftrightarrow> (\<exists>u n. user = Some u \<and> n \<in> set (t_networks (stmt_tables w)) \<and> n_IsActive n \<and>
     (n_ID n = net \<or> n_NetworkID n = net) \<and> n_OwnerID n = u)"

definition refuses :: "'d handler \<Rightarrow> world \<Rightarrow> bool" where
  "refuses h w \<longleftrightarrow> (\<exists>c m. fst (h w) = Failure c m) \<and> (w_db (snd (h w)) = w_db w \<or> w_db (snd (h w)) = stmt_tables w)"

lemma owned_refuses: "\<not> owns w user net \<Longrightarrow> refuses (with_owned_network denied user net k) w"
proof (cases user)
  case None
  then show ?thesis by (simp add: refuses_def with_owned_network_def reply_def)
next
  case (Some u)
  assume not: "\<not> owns w user net"
  show ?thesis
  proof (cases "GetNetwork net w")
    case (Pair r w')
    show ?thesis
    proof (cases r)
      case (Inl e)
      then show ?thesis using Pair Some GetNetwork_Inl [of net w e w']
        by (simp add: refuses_def with_owned_network_def call_def not_found_or_def)
    next
      case (Inr n)
      then have "n_OwnerID n \<noteq> u" using Pair Some not GetNetwork_Inr [of net w n w'] by (auto simp: owns_def)
      then show ?thesis using Pair Inr Some GetNetwork_Inr [of net w n w']
        by (simp add: refuses_def with_owned_network_def call_def reply_def)
    qed
  qed
qed

subsection \<open>Choosing the address of a registering machine\<close>

lemma inspect_peers_eq:
  "inspect_peers m ps (us, asg) =
     (us @ filter (\<lambda>s. s \<noteq> []) (map (\<lambda>q. normalizePeerVirtualIPv4 (p_VirtualIP q)) ps),
      fold (\<lambda>q a. if p_MachineID q = m then normalizePeerVirtualIPv4 (p_VirtualIP q) else a) ps asg)"
  by (induction ps arbitrary: us asg) (auto simp: Let_def)

lemma normalizePeer_shape: "normalizePeerVirtualIPv4 s = [] \<or> (\<exists>a. normalizePeerVirtualIPv4 s = IPv4_String a)"
  by (auto simp: normalizePeerVirtualIPv4_def Let_def split: option.splits)

lemma fold_assigned:
  "fold (\<lambda>q a. if p_MachineID q = m then f q else a) ps asg = asg \<or>
   (\<exists>q \<in> set ps. p_MachineID q = m \<and> fold (\<lambda>q a. if p_MachineID q = m then f q else a) ps asg = f q)"
proof (induction ps arbitrary: asg)
  case (Cons p ps)
  then show ?case using Cons.IH [of "if p_MachineID p = m then f p else asg"] by (auto split: if_splits)
qed simp

lemma choose_ip_fresh:
  assumes "choose_ip network m ps = Inr ip"
  shows "(\<exists>a. ip = IPv4_String a \<and> (cidr_contains (n_CIDR network) a \<or>
            (\<exists>q \<in> set ps. p_MachineID q = m \<and> normalizePeerVirtualIPv4 (p_VirtualIP q) = ip))) \<and>
         (\<forall>q \<in> set ps. p_MachineID q \<noteq> m \<longrightarrow> normalizePeerVirtualIPv4 (p_VirtualIP q) \<noteq> ip)"
proof -
  let ?norm = "\<lambda>q. normalizePeerVirtualIPv4 (p_VirtualIP q)"
  let ?asg = "fold (\<lambda>q a. if p_MachineID q = m then ?norm q else a) ps []"
  let ?used = "filter (\<lambda>s. s \<noteq> []) (map ?norm ps)"
  have i: "inspect_peers m ps ([], []) = (?used, ?asg)" by (simp add: inspect_peers_eq)
  show ?thesis
  proof (cases "?asg \<noteq> [] \<and> \<not> assigned_elsewhere m ps ?asg")
    case True
    then have ip: "ip = ?asg" using assms by (auto simp: choose_ip_def i)
    obtain q where q: "q \<in> set ps" "p_MachineID q = m" "?asg = ?norm q" using fold_assigned [of m ?norm ps "[]"] True by auto
    then obtain a where "ip = IPv4_String a" using normalizePeer_shape [of "p_VirtualIP q"] True ip by auto
    moreover have "\<exists>q \<in> set ps. p_MachineID q = m \<and> ?norm q = ip" using q ip by auto
    moreover have "\<forall>q \<in> set ps. p_MachineID q \<noteq> m \<longrightarrow> ?norm q \<noteq> ip"
      using True ip by (auto simp: assigned_elsewhere_def list_ex_iff)
    ultimately show ?thesis by blast
  next
    case False
    then have "coordinator_AllocateIP (n_CIDR network) ?used = Inr ip"
      using assms by (auto simp: choose_ip_def i split: if_splits)
    then obtain a where a: "ip = IPv4_String a" "cidr_contains (n_CIDR network) a" "\<forall>u \<in> set ?used. v4_text u \<noteq> Some a"
      using AllocateIP_nonempty by (metis coordinator_AllocateIP_Inr)
    have "?norm q \<noteq> ip" if "q \<in> set ps" for q
    proof
      assume eq: "?norm q = ip"
      have "?norm q \<in> set (map ?norm ps)" unfolding set_map using that by (rule imageI)
      then have "ip \<in> set (map ?norm ps)" by (simp only: eq)
      moreover have "ip \<noteq> []" using a(1) by simp
      ultimately have "ip \<in> set ?used" by (simp only: set_filter mem_Collect_eq) simp
      then have "v4_text ip \<noteq> Some a" using a(3) by (rule bspec [rotated])
      then show False using a(1) by simp
    qed
    with a show ?thesis by blast
  qed
qed

lemma choose_ip_keeps:
  assumes "q \<in> set ps" "p_MachineID q = m" "\<forall>q' \<in> set ps. p_MachineID q' = m \<longrightarrow> q' = q"
    "normalizePeerVirtualIPv4 (p_VirtualIP q) = IPv4_String a"
    "\<forall>q' \<in> set ps. q' \<noteq> q \<longrightarrow> normalizePeerVirtualIPv4 (p_VirtualIP q') \<noteq> IPv4_String a"
  shows "choose_ip network m ps = Inr (IPv4_String a)"
proof -
  let ?norm = "\<lambda>q. normalizePeerVirtualIPv4 (p_VirtualIP q)"
  have "fold (\<lambda>q a. if p_MachineID q = m then ?norm q else a) xs asg = IPv4_String a"
    if "q \<in> set xs \<or> asg = IPv4_String a" "set xs \<subseteq> set ps" for xs asg
    using that assms(2-4) by (induction xs arbitrary: asg) auto
  from this [of ps "[]"] have asg: "fold (\<lambda>q a. if p_MachineID q = m then ?norm q else a) ps [] = IPv4_String a"
    using assms(1) by simp
  have "\<not> assigned_elsewhere m ps (IPv4_String a)"
    using assms(2,5) by (auto simp: assigned_elsewhere_def list_ex_iff)
  then show ?thesis by (simp add: choose_ip_def inspect_peers_eq asg)
qed

lemma approve_pending_hides: "approve_pending n mid w = (Success c p, w') \<Longrightarrow> \<exists>q. p = hide_token q"
  by (auto simp: approve_pending_def call_def reply_def split: sum.splits prod.splits)

subsection \<open>Device authentication\<close>

lemma GetPeerByMemberToken_Inr:
  assumes "GetPeerByMemberToken tok w = (Inr p, w')"
  shows "\<exists>r \<in> set (t_peers (stmt_tables w)). r_member_token r = Some tok \<and> p = scanPeer r"
proof -
  obtain r w1 where "exec (select_peer (\<lambda>r. r_member_token r = Some tok)) w = (Inr r, w1)" "p = scanPeer r"
    using assms by (auto simp: GetPeerByMemberToken_def success_iff mapped_Inr)
  moreover from this(1) obtain v where "select_peer (\<lambda>r. r_member_token r = Some tok) v = Inr (r, w_db w1)" "w_db v = stmt_tables w"
    by (rule exec_Inr)
  ultimately show ?thesis using find_Some_set [of "\<lambda>r. r_member_token r = Some tok"] by (auto simp: select_eq_Inr)
qed

lemma authenticateMember_Inr:
  assumes "authenticateMember mid tok w = (Inr p, w')"
  shows "\<exists>r \<in> set (t_peers (stmt_tables w)). r_member_token r = Some (TrimSpace tok) \<and> r_id r = TrimSpace mid \<and> p = scanPeer r"
proof -
  have "GetPeerByMemberToken (TrimSpace tok) w = (Inr p, w') \<and> p_ID p = TrimSpace mid"
    using assms by (auto simp: authenticateMember_def Let_def raise_def split: if_splits prod.splits sum.splits)
  then show ?thesis using GetPeerByMemberToken_Inr by fastforce
qed

lemma approved_Success:
  assumes "with_approved_member mid hdr k w = (Success c x, w')"
  shows "\<exists>r \<in> set (t_peers (stmt_tables w)). r_member_token r = Some (TrimSpace (readBearerToken hdr)) \<and> r_id r = TrimSpace mid \<and>
     p_Status (scanPeer r) = ''approved''"
proof -
  obtain p w1 where "authenticateMember mid (readBearerToken hdr) w = (Inr p, w1)" "p_Status p = ''approved''"
    using assms by (auto simp: with_approved_member_def call_Success reply_Success split: if_splits)
  then show ?thesis using authenticateMember_Inr by blast
qed

subsection \<open>A sample server\<close>

text \<open>Two owners with a network each; one approved device in the second, a pending one in the first.\<close>

definition sample_network :: "string \<Rightarrow> string \<Rightarrow> string \<Rightarrow> string \<Rightarrow> string \<Rightarrow> Network" where
  "sample_network nid owner pub cidr ac =
     \<lparr>n_ID = nid, n_OwnerID = owner, n_Name = pub, n_NetworkID = pub, n_CIDR = cidr, n_Description = [], n_MaxPeers = 25,
      n_IsActive = True, n_AccessControl = ac, n_CreatedAt = 1\<rparr>"

definition sample_user :: "string \<Rightarrow> User" where
  "sample_user uid = \<lparr>u_ID = uid, u_Email = uid, u_PasswordHash = [], u_Name = uid, u_APIKey = uid, u_CreatedAt = 1, u_UpdatedAt = 1\<rparr>"

definition sample_row :: "string \<Rightarrow> string \<Rightarrow> string \<Rightarrow> string \<Rightarrow> string \<Rightarrow> string \<Rightarrow> peer_row" where
  "sample_row pid net key ip status token =
     \<lparr>r_id = pid, r_network_id = net, r_name = Some pid, r_machine_id = pid, r_public_key = key, r_virtual_ip = ip,
      r_public_endpoint = Some [], r_local_endpoints = [], r_os = Some ''linux'', r_version = Some [], r_is_online = True,
      r_last_seen = Some 5, r_last_handshake = None, r_rx_bytes = 0, r_tx_bytes = 0, r_vnc_port = 5900, r_vnc_available = False,
      r_relay_id = None, r_status = status, r_member_token = Some token, r_created_at = 5\<rparr>"

definition sample_tables :: tables where
  "sample_tables =
     \<lparr>t_users = [sample_user ''alice'', sample_user ''bob''],
      t_networks = [sample_network ''net-a'' ''alice'' ''aaa'' ''10.7.0.0/24'' ''approve'',
                    sample_network ''net-b'' ''bob'' ''bbb'' ''10.8.0.0/24'' ''auto''],
      t_peers = [sample_row ''peer-1'' ''net-b'' ''public-key-of-peer-1'' ''10.8.0.2/32'' ''approved'' ''mt_1'',
                 sample_row ''peer-2'' ''net-a'' ''public-key-of-peer-2'' ''0.0.0.0/32'' ''pending'' ''mt_2'']\<rparr>"

definition sample_world :: world where
  "sample_world =
     \<lparr>w_db = sample_tables, w_sched = [], w_now = 100, w_uuid = (\<lambda>n. ''id-'' @ nat_digits n), w_seq = 0,
      w_rand = [Some (replicate 32 1)], w_pg = sample_pg\<rparr>"

text \<open>A run from the empty database: two devices join a network that admits them at once.\<close>

fun sample_run :: "request list \<Rightarrow> tables \<Rightarrow> tables" where
  "sample_run [] t = t"
| "sample_run (req # reqs) t = sample_run reqs (w_db (serve req (sample_world\<lparr>w_db := t, w_seq := length reqs,
     w_rand := [Some (replicate 32 (word_of_nat (length reqs)))]\<rparr>)))"

lemma sample_run_reachable: "server_reachable t \<Longrightarrow> server_reachable (sample_run reqs t)"
proof (induction reqs arbitrary: t)
  case (Cons req reqs)
  show ?case unfolding sample_run.simps by (rule Cons.IH, rule serves) (use Cons.prems in \<open>simp_all add: sample_world_def\<close>)
qed simp

definition sample_join :: "string \<Rightarrow> request" where
  "sample_join key = ReqJoin ''linux'' ''amd64'' (Some \<lparr>jr_NetworkID = ''aaaaaaaaaaaa'', jr_Hostname = key, jr_WGPublicKey = key, jr_OS = [], jr_Arch = []\<rparr>)"

definition sample_reqs :: "request list" where
  "sample_reqs =
     [ReqCreateUser (sample_user ''carol''),
      ReqCreateNetwork (replicate 12 (Some 0)) (Some ''id-3'')
        (Some \<lparr>cn_Name = ''lab'', cn_Description = [], cn_MaxPeers = 0, cn_CIDR = [], cn_AccessControl = ''auto''\<rparr>),
      sample_join ''public-key-one'', sample_join ''public-key-two'']"

subsection \<open>Properties\<close>



text \<open>
  Only the owner manages a network. When the authenticated user is missing, or owns no active
  network that the URL names, by identifier or by public identifier, every management handler
  answers with an error and writes nothing.
\<close>

lemma only_owner_manages:
  assumes "\<not> owns w user net"
  shows "refuses (MemberHandler_ListMembers user net) w \<and> refuses (ApproveMember user net mid) w \<and>
         refuses (RejectMember user net mid) w \<and> refuses (KickMember user net mid) w \<and>
         refuses (PeerHandler_RegisterPeer user net rbody) w \<and> refuses (ListPeers user net) w \<and>
         refuses (UnregisterPeer user net ubody) w \<and> refuses (Heartbeat user net mid hbody) w \<and>
         refuses (NetworkHandler_GetNetwork user net) w \<and> refuses (NetworkHandler_UpdateNetwork user net nbody) w \<and>
         refuses (NetworkHandler_DeleteNetwork user net) w"
  unfolding MemberHandler_ListMembers_def ApproveMember_def RejectMember_def KickMember_def PeerHandler_RegisterPeer_def
      ListPeers_def UnregisterPeer_def Heartbeat_def NetworkHandler_GetNetwork_def NetworkHandler_UpdateNetwork_def
      NetworkHandler_DeleteNetwork_def
  by (intro conjI owned_refuses assms)

lemma only_owner_manages_witness:
  "refuses (ApproveMember (Some ''alice'') ''net-b'' ''peer-1'') sample_world \<and> \<not> owns sample_world (Some ''alice'') ''net-b''"
proof -
  have "\<not> owns sample_world (Some ''alice'') ''net-b''"
    by (auto simp: owns_def stmt_tables_def sample_world_def sample_tables_def sample_network_def)
  then show ?thesis using only_owner_manages by blast
qed

text \<open>
  C10. Approval assigns an address. When no other request interferes, a successful approval of a
  member that was not approved means: the user owns the network, the member belongs to it, the
  answer shows it approved, without its token and with an IPv4 address inside the network's
  prefix that no other peer of the network has; its row now carries that address, and every
  other row is as before.
\<close>

theorem ApproveMember_assigns_free_address:
  assumes "ApproveMember user net mid w = (Success c p, w')" "w_sched w = []" "pg_ok (w_pg w)"
    and "\<forall>r \<in> set (t_peers (w_db w)). r_id r = p_ID p \<longrightarrow> p_Status (scanPeer r) \<noteq> ''approved''"
  shows "\<exists>n r a. user = Some (n_OwnerID n) \<and> n \<in> set (t_networks (w_db w)) \<and> r \<in> set (t_peers (w_db w)) \<and>
     r_network_id r = n_ID n \<and> p_ID p = r_id r \<and> p_NetworkID p = n_ID n \<and> p_Status p = ''approved'' \<and> p_MemberToken p = [] \<and>
     p_VirtualIP p = IPv4_String a \<and> cidr_contains (n_CIDR n) a \<and>
     (\<forall>q \<in> set (t_peers (w_db w)). r_network_id q = n_ID n \<longrightarrow> p_VirtualIP (scanPeer q) = ''0.0.0.0'' \<or> p_VirtualIP (scanPeer q) \<noteq> IPv4_String a) \<and>
     t_peers (w_db w') = map (\<lambda>q. if r_id q = r_id r
        then r\<lparr>r_status := ''approved'', r_virtual_ip := IPv4_String a @ ''/32'', r_is_online := False\<rparr> else q) (t_peers (w_db w))"
proof -
  obtain u n w1 m w2 where s1: "user = Some u" "GetNetwork net w = (Inr n, w1)" "n_OwnerID n = u" "GetPeer mid w1 = (Inr m, w2)"
    and rest: "(if p_NetworkID m \<noteq> n_ID n then reply (Failure 404 ''member not found in this network'')
      else if p_Status m = ''approved'' then reply (Success 200 (hide_token m)) else approve_pending n mid) w2 = (Success c p, w')"
    using assms(1) by (auto simp: ApproveMember_def owned_Success call_Success)
  have v1: "n \<in> set (t_networks (w_db w))" "n_IsActive n" "same_view w w1" using GetNetwork_quiet [OF assms(2) s1(2)] by auto
  obtain uu r where r: "pg_uuid (w_pg w) mid = Some uu" "find (\<lambda>r. r_id r = uu) (t_peers (w_db w)) = Some r" "m = scanPeer r" "same_view w w2"
    using GetPeer_quiet [OF _ s1(4)] v1(3) by (auto simp: same_view_def)
  have r_in: "r \<in> set (t_peers (w_db w))" "r_id r = uu" using find_Some_set [OF r(2)] by auto
  have net: "r_network_id r = n_ID n" using rest r(3) by (auto simp: reply_Success split: if_splits)
  have "p_Status m \<noteq> ''approved''"
  proof
    assume "p_Status m = ''approved''"
    then have "p = hide_token m" using rest net r(3) by (simp add: reply_Success)
    then have "p_ID p = r_id r" using r(3) by (simp add: hide_token_def)
    with assms(4) r_in(1) \<open>p_Status m = ''approved''\<close> r(3) show False by auto
  qed
  then have "approve_pending n mid w2 = (Success c p, w')" using rest net r(3) by simp
  then obtain ps w3 where l: "ListNetworkPeers (n_ID n) w2 = (Inr ps, w3)" and alloc:
    "(case coordinator_AllocateIP (n_CIDR n) (used_ips ps) of
       Inl _ \<Rightarrow> reply (Failure 409 ''no available IP addresses in network'')
     | Inr virtualIP \<Rightarrow>
         call (ApprovePeer mid virtualIP) (\<lambda>_. Failure 500 ''failed to approve member'') (\<lambda>approved.
         reply (Success 200 (hide_token approved)))) w3 = (Success c p, w')"
    unfolding approve_pending_def by (subst (asm) call_Success) auto
  then obtain s p0 where s2: "ListNetworkPeers (n_ID n) w2 = (Inr ps, w3)" "coordinator_AllocateIP (n_CIDR n) (used_ips ps) = Inr s"
    "ApprovePeer mid s w3 = (Inr p0, w')" "p = hide_token p0"
    by (cases "coordinator_AllocateIP (n_CIDR n) (used_ips ps)") (auto simp: call_Success reply_Success)
  have v3: "set ps = scanPeer ` {r \<in> set (t_peers (w_db w)). r_network_id r \<in> set (active_network_ids (n_ID n) (w_db w))}" "same_view w w3"
    using ListNetworkPeers_quiet [OF _ s2(1)] r(4) by (auto simp: same_view_def)
  obtain a where a: "s = IPv4_String a" "cidr_contains (n_CIDR n) a" "\<forall>u \<in> set (used_ips ps). v4_text u \<noteq> Some a"
    using AllocateIP_nonempty s2(2) by (metis coordinator_AllocateIP_Inr)
  have inet: "pg_inet (w_pg w) (IPv4_String a) = Some (IPv4_String a @ ''/32'')" using assms(3) by (simp add: pg_ok_def)
  have app: "p0 = scanPeer (r\<lparr>r_status := ''approved'', r_virtual_ip := IPv4_String a @ ''/32'', r_is_online := False\<rparr>)"
    "t_peers (w_db w') = map (\<lambda>q. if r_id q = uu then r\<lparr>r_status := ''approved'', r_virtual_ip := IPv4_String a @ ''/32'', r_is_online := False\<rparr> else q) (t_peers (w_db w))"
    using ApprovePeer_quiet [OF _ s2(3)] v3(2) r(1,2) a(1) inet by (auto simp: same_view_def)
  have fresh: "p_VirtualIP (scanPeer q) = ''0.0.0.0'' \<or> p_VirtualIP (scanPeer q) \<noteq> IPv4_String a"
    if "q \<in> set (t_peers (w_db w))" "r_network_id q = n_ID n" for q
  proof -
    have "scanPeer q \<in> set ps" using that v1(1,2) active_network_ids_self by (auto simp: v3(1))
    then show ?thesis using a(3) by (force simp: used_ips_def)
  qed
  show ?thesis
    using s1 v1 r_in net app fresh a(2) s2(4)
    by (intro exI [of _ n] exI [of _ r] exI [of _ a]) (simp add: hide_token_def normalizeHostIPv4_host_prefix)
qed

theorem ApproveMember_assigns_free_address_witness:
  "\<exists>p w'. ApproveMember (Some ''alice'') ''net-a'' ''peer-2'' sample_world = (Success 200 p, w') \<and>
     p_VirtualIP p = ''10.7.0.2'' \<and> (\<exists>(n :: Network) a. p_NetworkID p = n_ID n \<and> p_VirtualIP p = IPv4_String a \<and> cidr_contains (n_CIDR n) a)"
proof -
  let ?h = "ApproveMember (Some ''alice'') ''net-a'' ''peer-2''"
  have "case fst (?h sample_world) of Success c p \<Rightarrow> c = 200 \<and> p_ID p = ''peer-2'' \<and> p_VirtualIP p = ''10.7.0.2'' | _ \<Rightarrow> False"
    by code_simp
  then obtain p w' where p: "?h sample_world = (Success 200 p, w')" "p_ID p = ''peer-2''" "p_VirtualIP p = ''10.7.0.2''"
    by (cases "?h sample_world") (auto split: response.splits)
  have sch: "w_sched sample_world = []" "pg_ok (w_pg sample_world)" by (simp_all add: sample_world_def sample_pg_ok)
  have "list_all (\<lambda>r. r_id r = ''peer-2'' \<longrightarrow> p_Status (scanPeer r) \<noteq> ''approved'') (t_peers (w_db sample_world))"
    by code_simp
  then have "\<forall>r \<in> set (t_peers (w_db sample_world)). r_id r = p_ID p \<longrightarrow> p_Status (scanPeer r) \<noteq> ''approved''"
    by (simp add: list_all_iff p(2))
  from ApproveMember_assigns_free_address [OF p(1) sch this]
  obtain n :: Network and a where na: "p_NetworkID p = n_ID n" "p_VirtualIP p = IPv4_String a" "cidr_contains (n_CIDR n) a" by blast
  show ?thesis by (intro exI conjI) (rule p(1) p(3) na)+
qed

text \<open>
  Reject is not confined to the owner's network: unlike approve and kick, it does not check
  that the member belongs to the network of the URL. Here \<open>alice\<close>, who owns only \<open>net-a\<close>, rejects
  the approved device \<open>peer-1\<close> of \<open>bob\<close>'s network \<open>net-b\<close>.
\<close>

lemma RejectMember_crosses_networks:
  "\<not> list_ex (\<lambda>n. n_ID n = ''net-b'' \<and> n_OwnerID n = ''alice'') (t_networks (w_db sample_world)) \<and>
   fst (RejectMember (Some ''alice'') ''net-a'' ''peer-1'' sample_world) = Success 200 ''rejected'' \<and>
   map (\<lambda>r. (r_network_id r, r_status r)) (filter (\<lambda>r. r_id r = ''peer-1'')
     (t_peers (w_db (snd (RejectMember (Some ''alice'') ''net-a'' ''peer-1'' sample_world))))) = [(''net-b'', ''rejected'')] \<and>
   fst (KickMember (Some ''alice'') ''net-a'' ''peer-1'' sample_world) = Failure 404 ''member not found in this network''"
  by code_simp

text \<open>
  The join endpoint, which needs no authentication, discloses member tokens: whoever posts the
  public identifier of a network and the WireGuard public key of one of its devices, which every
  other member is sent, receives that device's member token, and can act as that device.
\<close>

lemma Join_discloses_member_token:
  "let attacker = \<lparr>jr_NetworkID = ''bbb'', jr_Hostname = ''x'', jr_WGPublicKey = ''public-key-of-peer-1'', jr_OS = [], jr_Arch = []\<rparr>
   in (case fst (Join ''linux'' ''amd64'' (Some attacker) sample_world) of
         Success c resp \<Rightarrow> jp_MemberID resp = ''peer-1'' \<and> jp_MemberToken resp = ''mt_1'' \<and>
           fst (MemberPeers (jp_MemberID resp) (''Bearer '' @ jp_MemberToken resp) sample_world) = Success 200 []
       | _ \<Rightarrow> False)"
  by code_simp

text \<open>
  A join with a public key of fewer than 12 bytes makes the handler panic, because it slices the
  first 12 bytes of the key without checking its length.
\<close>

lemma Join_panics_on_short_key:
  "fst (Join ''linux'' ''amd64'' (Some \<lparr>jr_NetworkID = ''aaa'', jr_Hostname = [], jr_WGPublicKey = ''short'', jr_OS = [], jr_Arch = []\<rparr>) sample_world) =
     Panicked ''slice bounds out of range''"
  by code_simp

text \<open>
  A peer registered by its owner is stored with the empty status, which reading maps to
  approved, while the query of the online peers compares the stored column: the peer is shown as
  online and approved to its owner and is never listed to the other devices of its network.
\<close>

lemma registered_peer_never_listed_online:
  "let req = \<lparr>pr_MachineID = ''m'', pr_PublicKey = ''k'', pr_Name = ''n'', pr_OS = ''linux'', pr_Version = ''1'', pr_VNCPort = 0\<rparr>;
       w1 = snd (PeerHandler_RegisterPeer (Some ''alice'') ''net-a'' (Some req) sample_world)
   in (case fst (ListPeers (Some ''alice'') ''net-a'' w1) of
         Success c ps \<Rightarrow> list_ex (\<lambda>p. p_MachineID p = ''m'' \<and> p_Status p = ''approved'' \<and> p_IsOnline p \<and> p_VirtualIP p = ''10.7.0.2'') ps
       | _ \<Rightarrow> False) \<and>
      (case fst (GetOnlinePeers ''net-a'' w1) of Inr ps \<Rightarrow> \<not> list_ex (\<lambda>p. p_MachineID p = ''m'') ps | Inl _ \<Rightarrow> False)"
  by code_simp



text \<open>
  The address chosen for a registering machine is the text of an IPv4 address that no peer of
  another machine has; it is new and inside the network's prefix, or the machine's own; and a
  machine that is registered once, with an address nobody else has, keeps it.
\<close>

lemma choose_ip_correct:
  "(choose_ip network m ps = Inr ip \<longrightarrow>
      (\<exists>a. ip = IPv4_String a \<and> (cidr_contains (n_CIDR network) a \<or>
         (\<exists>q \<in> set ps. p_MachineID q = m \<and> normalizePeerVirtualIPv4 (p_VirtualIP q) = ip))) \<and>
      (\<forall>q \<in> set ps. p_MachineID q \<noteq> m \<longrightarrow> normalizePeerVirtualIPv4 (p_VirtualIP q) \<noteq> ip)) \<and>
   (\<forall>q a. q \<in> set ps \<and> p_MachineID q = m \<and> (\<forall>q' \<in> set ps. p_MachineID q' = m \<longrightarrow> q' = q) \<and>
      normalizePeerVirtualIPv4 (p_VirtualIP q) = IPv4_String a \<and>
      (\<forall>q' \<in> set ps. q' \<noteq> q \<longrightarrow> normalizePeerVirtualIPv4 (p_VirtualIP q') \<noteq> IPv4_String a) \<longrightarrow>
      choose_ip network m ps = Inr (IPv4_String a))"
  using choose_ip_fresh choose_ip_keeps by blast

lemma choose_ip_correct_witness:
  "\<exists>a. ''10.8.0.3'' = IPv4_String a \<and> (cidr_contains ''10.8.0.0/24'' a \<or>
     (\<exists>q \<in> set [scanPeer (sample_row ''peer-1'' ''net-b'' ''k'' ''10.8.0.2/32'' ''approved'' ''mt_1'')].
        p_MachineID q = ''new'' \<and> normalizePeerVirtualIPv4 (p_VirtualIP q) = ''10.8.0.3''))"
proof -
  let ?n = "sample_network ''net-b'' ''bob'' ''bbb'' ''10.8.0.0/24'' ''auto''"
  let ?ps = "[scanPeer (sample_row ''peer-1'' ''net-b'' ''k'' ''10.8.0.2/32'' ''approved'' ''mt_1'')]"
  have "choose_ip ?n ''new'' ?ps = Inr ''10.8.0.3''" by code_simp
  moreover have "n_CIDR ?n = ''10.8.0.0/24''" by (simp add: sample_network_def)
  ultimately show ?thesis using choose_ip_correct [of ?n "''new''" ?ps "''10.8.0.3''"] by metis
qed

text \<open>
  Member tokens stay with the server in the member endpoints: no answer of the member list, of
  an approval or of a device's peer list carries a token, whatever the state of the database.
\<close>

lemma member_endpoints_hide_tokens:
  "(MemberHandler_ListMembers user net w = (Success c ms, w1) \<longrightarrow> (\<forall>p \<in> set ms. p_MemberToken p = [])) \<and>
   (ApproveMember user net mid w = (Success c p, w2) \<longrightarrow> p_MemberToken p = []) \<and>
   (MemberPeers mid hdr w = (Success c ps, w3) \<longrightarrow> (\<forall>p \<in> set ps. p_MemberToken p = []))"
proof (intro conjI impI)
  assume "MemberHandler_ListMembers user net w = (Success c ms, w1)"
  then show "\<forall>p \<in> set ms. p_MemberToken p = []"
    by (auto simp: MemberHandler_ListMembers_def owned_Success call_Success reply_Success hide_token_def)
next
  assume "ApproveMember user net mid w = (Success c p, w2)"
  then have "\<exists>q. p = hide_token q"
    using approve_pending_hides by (auto simp: ApproveMember_def owned_Success call_Success reply_Success split: if_splits)
  then show "p_MemberToken p = []" by (auto simp: hide_token_def)
next
  assume "MemberPeers mid hdr w = (Success c ps, w3)"
  then show "\<forall>p \<in> set ps. p_MemberToken p = []"
    by (auto simp: MemberPeers_def with_approved_member_def call_Success reply_Success hide_token_def split: if_splits)
qed

lemma member_endpoints_hide_tokens_witness:
  "\<exists>p w2. ApproveMember (Some ''bob'') ''net-b'' ''peer-1'' sample_world = (Success 200 p, w2) \<and> p_MemberToken p = []"
proof -
  let ?h = "ApproveMember (Some ''bob'') ''net-b'' ''peer-1''"
  have "case fst (?h sample_world) of Success c p \<Rightarrow> c = 200 | _ \<Rightarrow> False" by code_simp
  then obtain p w' where "?h sample_world = (Success 200 p, w')"
    by (cases "?h sample_world") (auto split: response.splits)
  then show ?thesis using member_endpoints_hide_tokens by blast
qed

text \<open>
  The peer list of the owner is not sanitised: it carries the member tokens that the member
  list hides.
\<close>

lemma ListPeers_exposes_tokens:
  "(case fst (ListPeers (Some ''bob'') ''net-b'' sample_world) of
      Success c ps \<Rightarrow> map p_MemberToken ps = [''mt_1''] | _ \<Rightarrow> False) \<and>
   (case fst (MemberHandler_ListMembers (Some ''bob'') ''net-b'' sample_world) of
      Success c ps \<Rightarrow> map p_MemberToken ps = [[]] | _ \<Rightarrow> False)"
  by code_simp

text \<open>
  The text-based test for address conflicts tells the violation of the address constraint
  apart from every other violation of a constraint of \<open>peers\<close> and from the other database errors.
\<close>

lemma conflict_test_exact:
  "isVirtualIPConflict (Wrapf ''register peer'' (unique_violation ''peers_network_virtual_ip_unique'')) \<and>
   \<not> isVirtualIPConflict (Wrapf ''register peer'' (unique_violation ''peers_pkey'')) \<and>
   \<not> isVirtualIPConflict (Wrapf ''register peer'' (unique_violation ''peers_machine_id_key'')) \<and>
   \<not> isVirtualIPConflict (Wrapf ''register peer'' (unique_violation ''peers_member_token_key'')) \<and>
   \<not> isVirtualIPConflict (Wrapf ''register peer'' too_long) \<and> \<not> isVirtualIPConflict (Wrapf ''register peer'' fk_violation) \<and>
   \<not> isVirtualIPConflict (Wrapf ''register peer'' bad_value) \<and> \<not> isVirtualIPConflict (Wrapf ''register peer'' ErrNoRows)"
  by code_simp

end
