(* ===== verification/Endpoints.thy ===== *)
theory Endpoints
  imports GoUrl Effects
begin

text \<open>
  How the program chooses and cleans the UDP endpoints it hands to WireGuard: the endpoint
  functions of \<open>client/internal/peer/manager.go\<close>, the relay host functions of
  \<open>client/internal/api_client/client.go\<close> and the relay endpoint functions of
  \<open>server/internal/api/relay_handler.go\<close>. They are pure; what they read from the machine
  (\<open>net.InterfaceAddrs\<close>, environment variables) is an argument.
\<close>

subsection \<open>Hosts\<close>

definition isInternalHostName :: "string \<Rightarrow> bool" where
  "isInternalHostName host =
     (let h = ToLower (TrimSpace host)
      in if h = [] then True
         else if h = ''relay'' \<or> h = ''server'' \<or> h = ''localhost'' then True
         else case ParseIP h of
                Some ip \<Rightarrow> IsLoopback ip \<or> IsUnspecified ip
              | None \<Rightarrow> \<not> Contains h ''.'')"

definition isRoutableIPv4 :: "IP \<Rightarrow> bool" where
  "isRoutableIPv4 ip =
     (case To4 ip of
        None \<Rightarrow> False
      | Some v4 \<Rightarrow>
          if IsLoopback ip \<or> IsMulticast ip \<or> IsUnspecified ip then False
          else if IsPrivate ip then False
          else if octet v4 0 = 169 \<and> octet v4 1 = 254 then False
          else if octet v4 0 = 100 \<and> 64 \<le> octet v4 1 \<and> octet v4 1 \<le> 127 then False
          else True)"

text \<open>\<open>strconv.Atoi\<close> of a trimmed text, accepted only as a port number.\<close>

definition port_or :: "int \<Rightarrow> string \<Rightarrow> int" where
  "port_or dflt p = (case Atoi (TrimSpace p) of Some n \<Rightarrow> if 0 < n \<and> n \<le> 65535 then n else dflt | None \<Rightarrow> dflt)"

subsection \<open>manager.go\<close>

definition normalizePublicEndpoint :: "string \<Rightarrow> string" where
  "normalizePublicEndpoint publicEndpoint0 =
     (let publicEndpoint = TrimSpace publicEndpoint0
      in if publicEndpoint = [] then []
         else case SplitHostPort publicEndpoint of
                Some (host0, port0) \<Rightarrow>
                  let host = TrimSpace host0;
                      port = (if TrimSpace port0 = [] then ''51820'' else TrimSpace port0)
                  in (case ParseIP host of
                        Some ip \<Rightarrow> if \<not> isRoutableIPv4 ip then [] else JoinHostPort (IP_String ip) port
                      | None \<Rightarrow> if isInternalHostName host then [] else JoinHostPort host port)
              | None \<Rightarrow>
                  (case ParseIP publicEndpoint of
                     Some ip \<Rightarrow> if \<not> isRoutableIPv4 ip then [] else JoinHostPort (IP_String ip) ''51820''
                   | None \<Rightarrow> []))"

text \<open>An entry of \<open>net.InterfaceAddrs\<close>: a \<open>*net.IPNet\<close>, or another kind of address.\<close>

datatype iface_addr = NetAddr IPNet | OtherIfaceAddr

fun IPNet_IP :: "IPNet \<Rightarrow> IP" where
  "IPNet_IP (IPNet4 a m) = of_v4 a"
| "IPNet_IP (IPNet6 ip m) = ip"

fun on_lan :: "IP \<Rightarrow> iface_addr \<Rightarrow> bool" where
  "on_lan peerIP (NetAddr ipnet) \<longleftrightarrow>
     \<not> IsLoopback (IPNet_IP ipnet) \<and> To4 (IPNet_IP ipnet) \<noteq> None \<and> IPNet_Contains ipnet peerIP"
| "on_lan peerIP OtherIfaceAddr \<longleftrightarrow> False"

definition lan_host_port :: "string \<Rightarrow> string \<times> string" where
  "lan_host_port ep = (case SplitHostPort ep of Some hp \<Rightarrow> hp | None \<Rightarrow> (ep, ''51820''))"

definition lan_usable :: "iface_addr list \<Rightarrow> string \<Rightarrow> string \<Rightarrow> bool" where
  "lan_usable addrs tunCIDR ep =
     (let peerHost = fst (lan_host_port ep)
      in case ParseIP peerHost of
           None \<Rightarrow> False
         | Some peerIP \<Rightarrow>
             To4 peerIP \<noteq> None \<and>
             \<not> (HasPrefix peerHost ''169.254.'' \<or> peerHost = ''127.0.0.1'') \<and>
             (case ParseCIDR tunCIDR of Some (_, tunNet) \<Rightarrow> \<not> IPNet_Contains tunNet peerIP | None \<Rightarrow> True) \<and>
             list_ex (on_lan peerIP) addrs)"

fun preferLANEndpoint :: "iface_addr list \<Rightarrow> string list \<Rightarrow> string \<Rightarrow> string" where
  "preferLANEndpoint addrs [] tunCIDR = []"
| "preferLANEndpoint addrs (ep # rest) tunCIDR =
     (if lan_usable addrs tunCIDR ep
      then JoinHostPort (fst (lan_host_port ep)) (snd (lan_host_port ep))
      else preferLANEndpoint addrs rest tunCIDR)"

definition lanFallbackEnabled :: "string \<Rightarrow> bool" where
  "lanFallbackEnabled envValue = (let v = ToLower (TrimSpace envValue) in v = ''1'' \<or> v = ''true'' \<or> v = ''yes'')"

definition preferIPv4 :: "string \<Rightarrow> iface_addr list \<Rightarrow> string \<Rightarrow> string list \<Rightarrow> string \<Rightarrow> string" where
  "preferIPv4 lanEnv addrs publicEndpoint localEndpoints tunCIDR =
     (let endpoint = normalizePublicEndpoint publicEndpoint
      in if endpoint \<noteq> [] then endpoint
         else if \<not> lanFallbackEnabled lanEnv then []
         else preferLANEndpoint addrs localEndpoints tunCIDR)"

text \<open>
  \<open>sanitizeEndpoint\<close>; the first argument is \<open>apiClient.PublicHost()\<close>, \<open>None\<close> when the client is
  nil.
\<close>

definition sanitize_split :: "string \<Rightarrow> int \<Rightarrow> string \<times> int" where
  "sanitize_split endpoint defaultPort =
     (case SplitHostPort endpoint of
        Some (h, p) \<Rightarrow> (TrimSpace h, port_or defaultPort p)
      | None \<Rightarrow>
          if count_char (CHR '':'') endpoint = 1 \<and> \<not> HasPrefix endpoint ''[''
          then (let (a, b, _) = Cut endpoint (CHR '':'') in (TrimSpace a, port_or defaultPort b))
          else (endpoint, defaultPort))"

definition sanitizeEndpoint :: "string option \<Rightarrow> string \<Rightarrow> int \<Rightarrow> string" where
  "sanitizeEndpoint publicHost endpoint0 defaultPort =
     (let endpoint = TrimSpace endpoint0
      in if endpoint = [] then []
         else
           let (host0, port0) = sanitize_split endpoint defaultPort;
               host1 = TrimCutset host0 ''[]'';
               host = (case publicHost of
                         Some fallback \<Rightarrow>
                           if isInternalHostName host1 \<and> \<not> isInternalHostName (TrimSpace fallback)
                           then TrimSpace fallback else host1
                       | None \<Rightarrow> host1);
               port = (if port0 \<le> 0 \<or> 65535 < port0 then defaultPort else port0)
           in if isInternalHostName host then [] else JoinHostPort host (Itoa port))"

definition endpointHost :: "string \<Rightarrow> string" where
  "endpointHost endpoint0 =
     (let endpoint = TrimSpace endpoint0
      in if endpoint = [] then []
         else case SplitHostPort endpoint of
                Some (host, _) \<Rightarrow> TrimCutset (TrimSpace host) ''[]''
              | None \<Rightarrow>
                  (case ParseIP endpoint of Some ip \<Rightarrow> IP_String ip | None \<Rightarrow> TrimCutset endpoint ''[]''))"

text \<open>\<open>strings.EqualFold\<close> on ASCII names.\<close>

definition samePublicNAT :: "string \<Rightarrow> string \<Rightarrow> bool" where
  "samePublicNAT local peerPublicEndpoint =
     (let localHost = endpointHost local; peerHost = endpointHost peerPublicEndpoint
      in if localHost = [] \<or> peerHost = [] then False else ToLower localHost = ToLower peerHost)"

definition manager_splitHostPort :: "string \<Rightarrow> go_error + string \<times> int" where
  "manager_splitHostPort endpoint =
     (case SplitHostPort (TrimSpace endpoint) of
        None \<Rightarrow> Inl (Errorf ''split host port'')
      | Some (host, portStr) \<Rightarrow>
          (case Atoi portStr of
             None \<Rightarrow> Inl (Errorf ''split host port: invalid port'')
           | Some port \<Rightarrow> if port \<le> 0 \<or> 65535 < port then Inl (Errorf ''split host port: port out of range'') else Inr (host, port)))"

subsection \<open>client.go: the relay host\<close>

record RelayInfo =
  ri_PeerID :: string
  ri_RelayID :: string
  ri_RelayHost :: string
  ri_RelayPort :: int
  ri_Token :: string
  ri_Region :: string
  ri_RelayEndpoint :: string

definition client_isInternalRelayHost :: "string \<Rightarrow> bool" where
  "client_isInternalRelayHost host =
     (let h0 = TrimSpace host;
          h1 = (case SplitHostPort h0 of Some (hostOnly, _) \<Rightarrow> hostOnly | None \<Rightarrow> h0);
          h = ToLower (TrimSpace h1)
      in if h = [] then True
         else if h = ''relay'' \<or> h = ''server'' \<or> h = ''localhost'' then True
         else case ParseIP h of
                Some ip \<Rightarrow> IsLoopback ip \<or> IsUnspecified ip
              | None \<Rightarrow> \<not> Contains h ''.'')"

definition relayHostFromURL :: "string \<Rightarrow> string" where
  "relayHostFromURL raw =
     (case url_Host (TrimSpace raw) of None \<Rightarrow> [] | Some hostPort \<Rightarrow> TrimSpace (url_Hostname hostPort))"

definition hostFromEndpoint :: "string \<Rightarrow> string" where
  "hostFromEndpoint raw0 =
     (let raw = TrimSpace raw0
      in if raw = [] then [] else case SplitHostPort raw of Some (host, _) \<Rightarrow> TrimSpace host | None \<Rightarrow> raw)"

definition PublicHost :: "string \<Rightarrow> string" where
  "PublicHost baseURL =
     (let host = relayHostFromURL baseURL in if host = [] \<or> client_isInternalRelayHost host then [] else host)"

definition normalizeRelayInfo :: "string \<Rightarrow> RelayInfo \<Rightarrow> RelayInfo" where
  "normalizeRelayInfo baseURL info0 =
     (let info = (if ri_RelayPort info0 \<le> 0 \<or> 65535 < ri_RelayPort info0 then info0\<lparr>ri_RelayPort := 3478\<rparr> else info0);
          host = TrimSpace (ri_RelayHost info)
      in if \<not> client_isInternalRelayHost host then info
         else
           let endpointHost = hostFromEndpoint (ri_RelayEndpoint info)
           in if endpointHost \<noteq> [] \<and> \<not> client_isInternalRelayHost endpointHost then info\<lparr>ri_RelayHost := endpointHost\<rparr>
              else if PublicHost baseURL \<noteq> [] then info\<lparr>ri_RelayHost := PublicHost baseURL\<rparr>
              else info)"

text \<open>The end of \<open>resolveRelayEndpoint\<close> of \<open>manager.go\<close>: the endpoint of an assigned relay.\<close>

definition relay_info_host :: "string \<Rightarrow> RelayInfo \<Rightarrow> string" where
  "relay_info_host publicHost info =
     (let host0 = TrimSpace (ri_RelayHost info);
          host1 = (case SplitHostPort host0 of
                     Some (h, _) \<Rightarrow> h
                   | None \<Rightarrow>
                       if count_char (CHR '':'') host0 = 1 \<and> hd host0 \<noteq> CHR '':'' then before_last (CHR '':'') host0 else host0);
          host2 = TrimCutset host1 ''[]'';
          host3 = (if isInternalHostName host2
                   then (case SplitHostPort (TrimSpace (ri_RelayEndpoint info)) of
                           Some (h, _) \<Rightarrow> if \<not> isInternalHostName h then h else host2
                         | None \<Rightarrow> host2)
                   else host2)
      in if isInternalHostName host3 then publicHost else host3)"

definition relay_info_endpoint :: "string \<Rightarrow> RelayInfo \<Rightarrow> go_error + string" where
  "relay_info_endpoint publicHost info =
     (let port = (if ri_RelayPort info \<le> 0 \<or> 65535 < ri_RelayPort info then 3478 else ri_RelayPort info);
          endpoint = sanitizeEndpoint (Some publicHost) (JoinHostPort (relay_info_host publicHost info) (Itoa port)) 3478
      in if endpoint = [] then Inl (Errorf ''invalid relay endpoint'') else Inr endpoint)"

subsection \<open>relay\_handler.go: the public relay endpoint\<close>

text \<open>\<open>strings.Index\<close>: the position of the first occurrence.\<close>

fun str_index :: "string \<Rightarrow> string \<Rightarrow> nat option" where
  "str_index [] sub = (if sub = [] then Some 0 else None)"
| "str_index (c # s) sub = (if prefix sub (c # s) then Some 0 else map_option Suc (str_index s sub))"

text \<open>\<open>if i := strings.Index(raw, key); i > 0 { raw = strings.TrimSpace(raw[:i]) }\<close>\<close>

definition cut_at_key :: "string \<Rightarrow> string \<Rightarrow> string" where
  "cut_at_key key raw = (case str_index raw key of Some (Suc i) \<Rightarrow> TrimSpace (take (Suc i) raw) | _ \<Rightarrow> raw)"

definition server_isInternalRelayHost :: "string \<Rightarrow> bool" where
  "server_isInternalRelayHost host =
     (let h = ToLower (TrimSpace host)
      in if h = [] then True
         else if h = ''relay'' \<or> h = ''server'' \<or> h = ''localhost'' then True
         else case ParseIP h of
                Some ip \<Rightarrow> IsLoopback ip \<or> IsUnspecified ip
              | None \<Rightarrow> \<not> Contains h ''.'')"

definition splitHostPortWithDefault :: "string \<Rightarrow> int \<Rightarrow> string \<times> int" where
  "splitHostPortWithDefault raw defaultPort =
     (case SplitHostPort raw of
        Some (h, p) \<Rightarrow> (TrimSpace h, port_or defaultPort p)
      | None \<Rightarrow>
          if count_char (CHR '':'') raw = 1 \<and> \<not> HasPrefix raw ''[''
          then (let (a, b, _) = Cut raw (CHR '':'') in (TrimSpace a, port_or defaultPort b))
          else (TrimSpace raw, defaultPort))"

definition hostPortFromURL :: "string \<Rightarrow> string" where
  "hostPortFromURL raw = (case url_Host raw of None \<Rightarrow> [] | Some h \<Rightarrow> TrimSpace h)"

definition clean_candidate :: "string \<Rightarrow> string" where
  "clean_candidate raw0 =
     (let raw1 = cut_at_key ''PUBLIC_SERVER_URL='' (cut_at_key ''RELAY_ENDPOINT='' raw0);
          raw2 = (if CHR '','' \<in> set raw1 then TrimSpace (fst (Cut raw1 (CHR '',''))) else raw1)
      in TrimRight (TrimSpace raw2) ''/'')"

definition normalizeRelayEndpointCandidate :: "string \<Rightarrow> int \<Rightarrow> bool \<Rightarrow> string option" where
  "normalizeRelayEndpointCandidate raw0 defaultPort keepExplicitPort =
     (let raw1 = TrimSpace raw0; raw2 = clean_candidate raw1
      in if raw1 = [] \<or> raw2 = [] then None
         else
           let raw = (if Contains raw2 ''://'' then hostPortFromURL raw2 else raw2)
           in if Contains raw2 ''://'' \<and> raw = [] then None
              else
                let (host0, port0) = splitHostPortWithDefault raw defaultPort;
                    host = TrimCutset host0 ''[]'';
                    port = (if keepExplicitPort then port0 else defaultPort)
                in if server_isInternalRelayHost host then None else Some (JoinHostPort host (Itoa port)))"

definition normalizePublicHostCandidate :: "string \<Rightarrow> string option" where
  "normalizePublicHostCandidate raw =
     (case normalizeRelayEndpointCandidate raw 3478 False of
        None \<Rightarrow> None
      | Some endpoint \<Rightarrow>
          let host0 = (case SplitHostPort endpoint of Some (h, _) \<Rightarrow> h | None \<Rightarrow> TrimCutset (TrimSpace endpoint) ''[]'');
              host = (case SplitHostPort host0 of Some (h, _) \<Rightarrow> h | None \<Rightarrow> host0)
          in Some (TrimSpace host))"

text \<open>The arguments are the two environment variables and the three headers, in the order they are tried.\<close>

fun first_public_host :: "string list \<Rightarrow> string option" where
  "first_public_host [] = None"
| "first_public_host (c # cs) =
     (case normalizePublicHostCandidate c of Some host \<Rightarrow> Some host | None \<Rightarrow> first_public_host cs)"

definition derivePublicRelayEndpoint :: "string \<Rightarrow> string \<Rightarrow> string list \<Rightarrow> go_error + string" where
  "derivePublicRelayEndpoint relayEnv serverEnv headers =
     (case normalizeRelayEndpointCandidate relayEnv 3478 True of
        Some endpoint \<Rightarrow> Inr endpoint
      | None \<Rightarrow>
          (case normalizePublicHostCandidate serverEnv of
             Some host \<Rightarrow> Inr (JoinHostPort host ''3478'')
           | None \<Rightarrow>
               (case first_public_host headers of
                  Some host \<Rightarrow> Inr (JoinHostPort host ''3478'')
                | None \<Rightarrow> Inl (Errorf ''relay endpoint unavailable: set PUBLIC_SERVER_URL or RELAY_ENDPOINT to a public host''))))"

subsection \<open>What a cleaned endpoint is\<close>

text \<open>A host that is not internal to the server's deployment, and a port number.\<close>

definition public_endpoint :: "string \<Rightarrow> bool" where
  "public_endpoint e \<longleftrightarrow>
     (\<exists>host port. e = JoinHostPort host (Itoa port) \<and> \<not> isInternalHostName host \<and> 0 < port \<and> port \<le> 65535)"

lemma port_or_range: "0 < d \<Longrightarrow> d \<le> 65535 \<Longrightarrow> 0 < port_or d p \<and> port_or d p \<le> 65535"
  by (simp add: port_or_def split: option.split)

lemma sanitize_public:
  assumes "0 < defaultPort" "defaultPort \<le> 65535" "sanitizeEndpoint publicHost e defaultPort \<noteq> []"
  shows "public_endpoint (sanitizeEndpoint publicHost e defaultPort)"
proof -
  obtain host port where "sanitizeEndpoint publicHost e defaultPort = JoinHostPort host (Itoa port)"
    "\<not> isInternalHostName host" "0 < port" "port \<le> 65535"
    using assms by (auto simp: sanitizeEndpoint_def Let_def split: prod.splits option.splits if_splits)
  then show ?thesis unfolding public_endpoint_def by blast
qed

lemma sanitize_default_port:
  "sanitizeEndpoint publicHost e 51820 \<noteq> [] \<Longrightarrow> public_endpoint (sanitizeEndpoint publicHost e 51820)"
  "sanitizeEndpoint publicHost e 3478 \<noteq> [] \<Longrightarrow> public_endpoint (sanitizeEndpoint publicHost e 3478)"
  by (simp_all add: sanitize_public)

lemma relay_info_endpoint_public: "relay_info_endpoint publicHost info = Inr e \<Longrightarrow> e \<noteq> [] \<and> public_endpoint e"
  using sanitize_default_port(2) by (auto simp: relay_info_endpoint_def Let_def split: if_splits)

lemma JoinHostPort_nonempty [simp]: "JoinHostPort h p \<noteq> []"
  by (simp add: JoinHostPort_def)

lemma preferLAN_usable:
  "preferLANEndpoint addrs eps tunCIDR \<noteq> [] \<Longrightarrow>
   \<exists>ep \<in> set eps. lan_usable addrs tunCIDR ep \<and>
     preferLANEndpoint addrs eps tunCIDR = JoinHostPort (fst (lan_host_port ep)) (snd (lan_host_port ep))"
  by (induction eps) (auto split: if_splits)

lemma normalizePublic_routable:
  assumes "normalizePublicEndpoint e \<noteq> []"
  shows "\<exists>host port. normalizePublicEndpoint e = JoinHostPort host port \<and>
     ((\<exists>ip. isRoutableIPv4 ip \<and> host = IP_String ip) \<or> ParseIP host = None \<and> \<not> isInternalHostName host)"
  using assms by (auto simp: normalizePublicEndpoint_def Let_def split: option.splits if_splits)

end
