(* ===== verification/Tunnel.thy ===== *)
theory Tunnel
  imports Endpoints "HOL-Library.AList"
begin

text \<open>
  The WireGuard tunnel of the client: \<open>client/internal/tunnel/wireguard.go\<close> on Linux, with
  \<open>platform_linux.go\<close> and \<open>tun_linux.go\<close> below it, and the keys of \<open>pkg/crypto/keys.go\<close>. The
  machine is a list of commands the program ran, each with its success, and a script of the
  outcomes of the commands to come: any command may fail. What the kernel then holds is computed
  from the commands that succeeded, as the manual of \<open>wg\<close> documents them.
\<close>

subsection \<open>Base64\<close>

text \<open>\<open>base64.StdEncoding\<close>: the alphabet, and three bytes as four characters.\<close>

definition b64_alphabet :: string where
  "b64_alphabet = ''ABCDEFGHIJKLMNOPQRSTUVWXYZabcdefghijklmnopqrstuvwxyz0123456789+/''"

definition b64_char :: "nat \<Rightarrow> char" where
  "b64_char n = b64_alphabet ! n"

definition b64_val :: "char \<Rightarrow> nat option" where
  "b64_val c = (let n = length (takeWhile (\<lambda>d. d \<noteq> c) b64_alphabet) in if n < 64 then Some n else None)"

fun EncodeToString :: "bytes \<Rightarrow> string" where
  "EncodeToString (x # y # z # r) =
     (let n = 65536 * unat x + 256 * unat y + unat z
      in [b64_char (n div 262144), b64_char (n div 4096 mod 64), b64_char (n div 64 mod 64), b64_char (n mod 64)] @ EncodeToString r)"
| "EncodeToString [x, y] =
     (let n = 65536 * unat x + 256 * unat y
      in [b64_char (n div 262144), b64_char (n div 4096 mod 64), b64_char (n div 64 mod 64), CHR ''=''])"
| "EncodeToString [x] = (let n = 65536 * unat x in [b64_char (n div 262144), b64_char (n div 4096 mod 64), CHR ''='', CHR ''=''])"
| "EncodeToString [] = []"

fun b64_quads :: "string \<Rightarrow> bytes option" where
  "b64_quads (a # b # c # d # r) =
     (case (b64_val a, b64_val b) of
        (Some i, Some j) \<Rightarrow>
          if c = CHR ''='' then (if d = CHR ''='' \<and> r = [] then Some [of_nat ((64 * i + j) div 16)] else None)
          else (case b64_val c of
                  None \<Rightarrow> None
                | Some k \<Rightarrow>
                    if d = CHR ''='' then
                      (if r = [] then (let n = 4096 * i + 64 * j + k in Some [of_nat (n div 1024), of_nat (n div 4 mod 256)]) else None)
                    else (case b64_val d of
                            None \<Rightarrow> None
                          | Some l \<Rightarrow>
                              (let n = 262144 * i + 4096 * j + 64 * k + l
                               in map_option (\<lambda>t. [of_nat (n div 65536), of_nat (n div 256 mod 256), of_nat (n mod 256)] @ t) (b64_quads r))))
      | _ \<Rightarrow> None)"
| "b64_quads [] = Some []"
| "b64_quads s = None"

text \<open>Carriage returns and line feeds are ignored by the decoder.\<close>

definition DecodeString :: "string \<Rightarrow> bytes option" where
  "DecodeString s = b64_quads (filter (\<lambda>c. c \<noteq> CHR 0x0A \<and> c \<noteq> CHR 0x0D) s)"

subsection \<open>keys.go\<close>

text \<open>\<open>curve25519.X25519\<close> with the base point is the parameter \<open>x25519_base\<close>; \<open>random\<close> is what \<open>rand.Read\<close> delivers.\<close>

definition clampPrivateKey :: "bytes \<Rightarrow> bytes" where
  "clampPrivateKey private =
     (let p1 = private[0 := (private ! 0) AND 248];
          p2 = p1[31 := (p1 ! 31) AND 127]
      in p2[31 := (p2 ! 31) OR 64])"

definition GenerateKeyPair :: "(bytes \<Rightarrow> go_error + bytes) \<Rightarrow> go_error + bytes \<Rightarrow> go_error + string \<times> string" where
  "GenerateKeyPair x25519_base random =
     (case random of
        Inl e \<Rightarrow> Inl (Wrapf ''generate key pair: read random bytes'' e)
      | Inr buf \<Rightarrow>
          let private = clampPrivateKey buf
          in case x25519_base private of
               Inl e \<Rightarrow> Inl (Wrapf ''generate key pair: derive public key'' e)
             | Inr public \<Rightarrow> Inr (EncodeToString private, EncodeToString public))"

definition validateWireGuardKey :: "string \<Rightarrow> go_error + unit" where
  "validateWireGuardKey key =
     (case DecodeString (TrimSpace key) of
        None \<Rightarrow> Inl (Errorf ''validate key: decode base64'')
      | Some decoded \<Rightarrow>
          if length decoded \<noteq> 32 then Inl (Errorf (''validate key: expected 32 bytes, got '' @ nat_digits (length decoded)))
          else Inr ())"

subsection \<open>The machine\<close>

text \<open>The commands of \<open>platform_linux.go\<close> and \<open>tun_linux.go\<close>.\<close>

datatype command =
    WgSetKey string string int
  | WgSetPeer string string string string
  | WgRemovePeer string string
  | WgSetEndpoint string string string
  | LinkDelete string
  | Modprobe
  | LinkAdd string
  | LinkUp string int
  | AddrAdd string string
  | ForwardingOn
  | RouteAdd string string
  | RouteDel string string

datatype cmd_outcome = CmdOk | CmdFails string

record machine =
  m_trace :: "(command \<times> bool) list"
  m_script :: "cmd_outcome list"

text \<open>Running a command: \<open>None\<close> when it succeeds, otherwise its output. Beyond the script, commands succeed.\<close>

definition run_cmd :: "command \<Rightarrow> machine \<Rightarrow> string option \<times> machine" where
  "run_cmd c m =
     (case m_script m of
        CmdFails out # rest \<Rightarrow> (Some out, m\<lparr>m_trace := m_trace m @ [(c, False)], m_script := rest\<rparr>)
      | CmdOk # rest \<Rightarrow> (None, m\<lparr>m_trace := m_trace m @ [(c, True)], m_script := rest\<rparr>)
      | [] \<Rightarrow> (None, m\<lparr>m_trace := m_trace m @ [(c, True)]\<rparr>))"

definition exit_error :: go_error where "exit_error = Errorf ''exit status 1''"

text \<open>A command whose failure is wrapped with its output.\<close>

definition checked_cmd :: "string \<Rightarrow> command \<Rightarrow> (machine, unit) procedure" where
  "checked_cmd ctx c =
     (\<lambda>m. case run_cmd c m of (Some out, m') \<Rightarrow> (Inl (Wrapf (ctx @ '': '' @ out) exit_error), m') | (None, m') \<Rightarrow> (Inr (), m'))"

text \<open>A command whose outcome is ignored.\<close>

definition ignored_cmd :: "command \<Rightarrow> (machine, unit) procedure" where
  "ignored_cmd c = (\<lambda>m. (Inr (), snd (run_cmd c m)))"

subsection \<open>platform\_linux.go and tun\_linux.go\<close>

definition configureWG :: "string \<Rightarrow> string \<Rightarrow> int \<Rightarrow> (machine, bool) procedure" where
  "configureWG ifName privateKey listenPort =
     andThen (checked_cmd ''wg set'' (WgSetKey ifName privateKey listenPort)) (\<lambda>_. return True)"

definition addWGPeer :: "string \<Rightarrow> string \<Rightarrow> string \<Rightarrow> string \<Rightarrow> (machine, unit) procedure" where
  "addWGPeer ifName publicKey endpoint allowedIP = checked_cmd ''wg set peer'' (WgSetPeer ifName publicKey endpoint allowedIP)"

definition removeWGPeer :: "string \<Rightarrow> string \<Rightarrow> (machine, unit) procedure" where
  "removeWGPeer ifName publicKey = checked_cmd ''wg remove'' (WgRemovePeer ifName publicKey)"

definition updateWGPeerEndpoint :: "string \<Rightarrow> string \<Rightarrow> string \<Rightarrow> (machine, unit) procedure" where
  "updateWGPeerEndpoint ifName publicKey endpoint = checked_cmd ''wg update'' (WgSetEndpoint ifName publicKey endpoint)"

text \<open>A route that exists already is no error.\<close>

definition route_cmd :: "string \<Rightarrow> string \<Rightarrow> string \<Rightarrow> (machine, unit) procedure" where
  "route_cmd ctx cidr ifName =
     (\<lambda>m. case run_cmd (RouteAdd cidr ifName) m of
            (Some out, m') \<Rightarrow> if Contains out ''File exists'' then (Inr (), m') else (Inl (Wrapf (ctx @ '': '' @ out) exit_error), m')
          | (None, m') \<Rightarrow> (Inr (), m'))"

definition addSubnetRoute :: "string \<Rightarrow> string \<Rightarrow> (machine, unit) procedure" where
  "addSubnetRoute cidr ifName = route_cmd ''add subnet route'' cidr ifName"

definition addHostRoute :: "string \<Rightarrow> string \<Rightarrow> (machine, unit) procedure" where
  "addHostRoute ip ifName = route_cmd ''add host route'' (ip @ ''/32'') ifName"

definition removeHostRoute :: "string \<Rightarrow> string \<Rightarrow> (machine, unit) procedure" where
  "removeHostRoute ip ifName = ignored_cmd (RouteDel (ip @ ''/32'') ifName)"

definition maskBitsFromCIDR :: "string \<Rightarrow> int" where
  "maskBitsFromCIDR cidr =
     (let parts = Split cidr (CHR ''/'');
          bits = (if length parts = 2 then Atoi (parts ! 1) else None)
      in case bits of
           Some n \<Rightarrow> n
         | None \<Rightarrow> (case Atoi cidr of Some n \<Rightarrow> n | None \<Rightarrow> 24))"

definition CreateTUN :: "string \<Rightarrow> int \<Rightarrow> (machine, string) procedure" where
  "CreateTUN name mtu =
     andThen (ignored_cmd (LinkDelete name)) (\<lambda>_.
     andThen (ignored_cmd Modprobe) (\<lambda>_.
     andThen (\<lambda>m. case run_cmd (LinkAdd name) m of
                    (None, m') \<Rightarrow> (Inr (), m')
                  | (Some out, m') \<Rightarrow>
                      let msg = TrimSpace out
                      in (Inl (if Contains msg ''Operation not supported'' \<or> Contains msg ''Unknown device type''
                               then Errorf (''ip link add: '' @ msg @ '': wireguard kernel support missing'')
                               else Wrapf (''ip link add: '' @ msg) exit_error), m')) (\<lambda>_.
     andThen (\<lambda>m. case run_cmd (LinkUp name mtu) m of
                    (None, m') \<Rightarrow> (Inr (), m')
                  | (Some _, m') \<Rightarrow> (Inl (Wrapf ''ip link set'' exit_error), m')) (\<lambda>_.
     return name))))"

definition device_Configure :: "string \<Rightarrow> string \<Rightarrow> string \<Rightarrow> (machine, unit) procedure" where
  "device_Configure name ip cidr =
     (let prefixLen = (if Contains cidr ''/'' then last (Split cidr (CHR ''/'')) else cidr);
          addr = ip @ ''/'' @ prefixLen
      in (\<lambda>m. case run_cmd (AddrAdd addr name) m of
                (None, m') \<Rightarrow> (Inr (), m')
              | (Some out, m') \<Rightarrow> (Inl (Wrapf (''ip addr add '' @ addr @ '': '' @ TrimSpace out) exit_error), m')))"

definition device_Close :: "string \<Rightarrow> (machine, unit) procedure" where
  "device_Close name = (\<lambda>m. case run_cmd (LinkDelete name) m of (None, m') \<Rightarrow> (Inr (), m') | (Some _, m') \<Rightarrow> (Inl exit_error, m'))"

subsection \<open>wireguard.go\<close>

record PeerConfig =
  pc_PublicKey :: string
  pc_Endpoint :: string
  pc_AllowedIP :: string
  pc_AddedAt :: int
  pc_LastHandshake :: int

record TunnelStats =
  ts_RXBytes :: u64
  ts_TXBytes :: u64
  ts_LastHandshake :: "int option"

text \<open>The map of peers is an association list, in the order the keys were first added; its order is never observed.\<close>

record WGTunnel =
  wt_privateKey :: string
  wt_virtualIP :: string
  wt_cidr :: string
  wt_listenPort :: int
  wt_deviceName :: string
  wt_mtu :: int
  wt_wgReady :: bool
  wt_started :: bool
  wt_device :: "string option"
  wt_peers :: "(string \<times> PeerConfig) list"
  wt_stats :: TunnelStats
  wt_os :: machine

text \<open>A function of the platform, run on the tunnel's machine.\<close>

definition on_os :: "(machine, 'a) procedure \<Rightarrow> (WGTunnel, 'a) procedure" where
  "on_os p = on_field wt_os (\<lambda>m t. t\<lparr>wt_os := m\<rparr>) p"

definition networkAddr :: "string \<Rightarrow> int \<Rightarrow> string" where
  "networkAddr ip maskBits =
     (case ParseIP ip of
        None \<Rightarrow> ip
      | Some parsed \<Rightarrow>
          (case To4 parsed of
             Some a \<Rightarrow> if 0 \<le> maskBits \<and> maskBits \<le> 32 then IPv4_String (a AND CIDRMask32 (nat maskBits)) else ''<nil>''
           | None \<Rightarrow> ''<nil>''))"

definition NewWGTunnel :: "machine \<Rightarrow> string \<Rightarrow> string \<Rightarrow> string \<Rightarrow> int \<Rightarrow> go_error + WGTunnel" where
  "NewWGTunnel os privateKey virtualIP cidr listenPort =
     (if TrimSpace privateKey = [] then Inl (Errorf ''new wg tunnel: private key is required'')
      else if TrimSpace virtualIP = [] then Inl (Errorf ''new wg tunnel: virtual ip is required'')
      else if TrimSpace cidr = [] then Inl (Errorf ''new wg tunnel: cidr is required'')
      else if listenPort \<le> 0 \<or> 65535 < listenPort then Inl (Errorf ''new wg tunnel: listen port out of range'')
      else case validateWireGuardKey privateKey of
             Inl e \<Rightarrow> Inl (Wrapf ''new wg tunnel'' e)
           | Inr _ \<Rightarrow> Inr \<lparr>wt_privateKey = privateKey, wt_virtualIP = virtualIP, wt_cidr = cidr, wt_listenPort = listenPort,
               wt_deviceName = ''qtun0'', wt_mtu = 1420, wt_wgReady = False, wt_started = False, wt_device = None,
               wt_peers = [], wt_stats = \<lparr>ts_RXBytes = 0, ts_TXBytes = 0, ts_LastHandshake = None\<rparr>, wt_os = os\<rparr>)"

text \<open>
  \<open>Start\<close>; \<open>wgInstalled\<close> is the outcome of \<open>exec.LookPath("wg")\<close> and \<open>now\<close> the clock. A failure of
  \<open>configureWG\<close> leaves the tunnel in raw mode; the routes and the forwarding are best effort.
\<close>

definition setup_wg :: "bool \<Rightarrow> (WGTunnel, unit) procedure" where
  "setup_wg wgInstalled =
     (\<lambda>t. if wgInstalled
          then (case on_os (configureWG (wt_deviceName t) (wt_privateKey t) (wt_listenPort t)) t of
                  (Inl _, t') \<Rightarrow> (Inr (), t')
                | (Inr ready, t') \<Rightarrow> (Inr (), if ready then t'\<lparr>wt_wgReady := True\<rparr> else t'))
          else (Inr (), t))"

definition start_routes :: "int \<Rightarrow> WGTunnel \<Rightarrow> WGTunnel" where
  "start_routes now t =
     (let t1 = snd (on_os (ignored_cmd ForwardingOn) t);
          maskBits = maskBitsFromCIDR (wt_cidr t1);
          subnetCIDR = networkAddr (wt_virtualIP t1) maskBits @ ''/'' @ Itoa maskBits;
          t2 = snd (on_os (addSubnetRoute subnetCIDR (wt_deviceName t1)) t1)
      in t2\<lparr>wt_started := True, wt_stats := (wt_stats t2)\<lparr>ts_LastHandshake := Some now\<rparr>\<rparr>)"

definition Start :: "bool \<Rightarrow> int \<Rightarrow> (WGTunnel, unit) procedure" where
  "Start wgInstalled now =
     (\<lambda>t. if wt_started t then (Inr (), t)
          else (case on_os (CreateTUN (wt_deviceName t) (wt_mtu t)) t of
                  (Inl e, t1) \<Rightarrow> (Inl (Wrapf ''wg tunnel start: create tun'' e), t1)
                | (Inr dev, t1) \<Rightarrow>
                    (case on_os (device_Configure dev (wt_virtualIP t1) (wt_cidr t1)) t1 of
                       (Inl e, t2) \<Rightarrow> (Inl (Wrapf ''wg tunnel start: configure tun'' e), snd (on_os (device_Close dev) t2))
                     | (Inr _, t2) \<Rightarrow>
                         let t3 = snd (setup_wg wgInstalled (t2\<lparr>wt_device := Some dev, wt_deviceName := dev\<rparr>))
                         in (Inr (), start_routes now t3))))"

definition host_part :: "string \<Rightarrow> string" where
  "host_part allowedIP = hd (Split allowedIP (CHR ''/''))"

definition AddPeer :: "int \<Rightarrow> string \<Rightarrow> string \<Rightarrow> string \<Rightarrow> (WGTunnel, unit) procedure" where
  "AddPeer now publicKey endpoint allowedIP0 =
     (\<lambda>t. if \<not> wt_started t then (Inl (Errorf ''add peer: tunnel not started''), t)
          else if TrimSpace publicKey = [] \<or> TrimSpace endpoint = [] \<or> TrimSpace allowedIP0 = []
          then (Inl (Errorf ''add peer: publicKey, endpoint and allowedIP are required''), t)
          else
            let allowedIP = (if Contains allowedIP0 ''/'' then allowedIP0 else allowedIP0 @ ''/32'')
            in andThen (if wt_wgReady t
                        then wrap ''add peer: wg set peer'' (on_os (addWGPeer (wt_deviceName t) publicKey endpoint allowedIP))
                        else return ()) (\<lambda>_.
               andThen (wrap ''add peer: add host route'' (on_os (addHostRoute (host_part allowedIP) (wt_deviceName t)))) (\<lambda>_.
               modifies (\<lambda>u. u\<lparr>wt_peers := AList.update publicKey
                   \<lparr>pc_PublicKey = publicKey, pc_Endpoint = endpoint, pc_AllowedIP = allowedIP, pc_AddedAt = now, pc_LastHandshake = now\<rparr> (wt_peers u),
                 wt_stats := (wt_stats u)\<lparr>ts_LastHandshake := Some now\<rparr>\<rparr>))) t)"

definition RemovePeer :: "string \<Rightarrow> (WGTunnel, unit) procedure" where
  "RemovePeer publicKey =
     (\<lambda>t. if \<not> wt_started t then (Inl (Errorf ''remove peer: tunnel not started''), t)
          else (case map_of (wt_peers t) publicKey of
                  None \<Rightarrow> (Inl (Errorf ''remove peer: not found''), t)
                | Some peer \<Rightarrow>
                    andThen (if wt_wgReady t then wrap ''remove peer: wg remove'' (on_os (removeWGPeer (wt_deviceName t) publicKey))
                             else return ()) (\<lambda>_.
                    andThen (wrap ''remove peer: remove host route'' (on_os (removeHostRoute (host_part (pc_AllowedIP peer)) (wt_deviceName t)))) (\<lambda>_.
                    modifies (\<lambda>u. u\<lparr>wt_peers := AList.delete publicKey (wt_peers u)\<rparr>))) t))"

definition UpdatePeerEndpoint :: "int \<Rightarrow> string \<Rightarrow> string \<Rightarrow> (WGTunnel, unit) procedure" where
  "UpdatePeerEndpoint now publicKey newEndpoint =
     (\<lambda>t. if \<not> wt_started t then (Inl (Errorf ''update peer endpoint: tunnel not started''), t)
          else (case map_of (wt_peers t) publicKey of
                  None \<Rightarrow> (Inl (Errorf ''update peer endpoint: not found''), t)
                | Some peer \<Rightarrow>
                    andThen (if wt_wgReady t
                             then wrap ''update peer endpoint: wg update'' (on_os (updateWGPeerEndpoint (wt_deviceName t) publicKey newEndpoint))
                             else return ()) (\<lambda>_.
                    modifies (\<lambda>u. u\<lparr>wt_peers := AList.update publicKey (peer\<lparr>pc_Endpoint := newEndpoint, pc_LastHandshake := now\<rparr>) (wt_peers u),
                      wt_stats := (wt_stats u)\<lparr>ts_LastHandshake := Some now\<rparr>\<rparr>)) t))"

definition RecordRX :: "u64 \<Rightarrow> WGTunnel \<Rightarrow> WGTunnel" where
  "RecordRX n t = t\<lparr>wt_stats := (wt_stats t)\<lparr>ts_RXBytes := ts_RXBytes (wt_stats t) + n\<rparr>\<rparr>"

definition RecordTX :: "u64 \<Rightarrow> WGTunnel \<Rightarrow> WGTunnel" where
  "RecordTX n t = t\<lparr>wt_stats := (wt_stats t)\<lparr>ts_TXBytes := ts_TXBytes (wt_stats t) + n\<rparr>\<rparr>"

fun stop_peers :: "(string \<times> PeerConfig) list \<Rightarrow> WGTunnel \<Rightarrow> WGTunnel" where
  "stop_peers [] t = t"
| "stop_peers ((pubKey, peer) # rest) t =
     (let t1 = (if wt_wgReady t then snd (on_os (removeWGPeer (wt_deviceName t) pubKey) t) else t);
          t2 = snd (on_os (removeHostRoute (host_part (pc_AllowedIP peer)) (wt_deviceName t1)) t1)
      in stop_peers rest t2)"

definition Stop :: "(WGTunnel, unit) procedure" where
  "Stop =
     (\<lambda>t. if \<not> wt_started t then (Inr (), t)
          else
            let t1 = stop_peers (wt_peers t) t
            in andThen (case wt_device t1 of
                          Some dev \<Rightarrow> wrap ''wg tunnel stop'' (on_os (device_Close dev))
                        | None \<Rightarrow> return ()) (\<lambda>_.
               modifies (\<lambda>u. u\<lparr>wt_device := None, wt_peers := [], wt_started := False, wt_wgReady := False\<rparr>)) t1)"

text \<open>The first peer, in the order of the map's iteration, whose prefix holds the address.\<close>

definition FindEndpointByVirtualIP :: "string \<Rightarrow> WGTunnel \<Rightarrow> string option" where
  "FindEndpointByVirtualIP destIP t =
     (case ParseIP destIP of
        None \<Rightarrow> None
      | Some parsed \<Rightarrow>
          map_option (\<lambda>(_, p). pc_Endpoint p)
            (find (\<lambda>(_, p). case ParseCIDR (pc_AllowedIP p) of Some (_, network) \<Rightarrow> IPNet_Contains network parsed | None \<Rightarrow> False) (wt_peers t)))"

subsection \<open>Finite maps as association lists\<close>

lemma update_key_set [simp]: "fst ` set (AList.update k v xs) = insert k (fst ` set xs)"
  by (simp add: dom_update)

lemma delete_key_set [simp]: "fst ` set (AList.delete k xs) = fst ` set xs - {k}"
  using arg_cong [OF AList.delete_keys [of k xs], of set] by simp

lemma map_of_keys: "k \<in> fst ` set xs \<longleftrightarrow> (\<exists>v. map_of xs k = Some v)"
  by (metis domIff dom_map_of_conv_image_fst not_None_eq)

subsection \<open>What the kernel holds\<close>

text \<open>The endpoint of each configured key, from the commands that succeeded.\<close>

fun kernel_step :: "command \<times> bool \<Rightarrow> (string \<rightharpoonup> string) \<Rightarrow> (string \<rightharpoonup> string)" where
  "kernel_step (WgSetPeer dev k e a, True) K = K(k \<mapsto> e)"
| "kernel_step (WgSetEndpoint dev k e, True) K = K(k \<mapsto> e)"
| "kernel_step (WgRemovePeer dev k, True) K = K(k := None)"
| "kernel_step (LinkDelete dev, True) K = Map.empty"
| "kernel_step c K = K"

definition kernel_peers :: "machine \<Rightarrow> (string \<rightharpoonup> string)" where
  "kernel_peers m = fold kernel_step (m_trace m) Map.empty"

lemma run_cmd_kernel: "run_cmd c m = (r, m') \<Longrightarrow> kernel_peers m' = kernel_step (c, r = None) (kernel_peers m)"
  by (auto simp: run_cmd_def kernel_peers_def split: list.splits cmd_outcome.splits)

lemma checked_cmd_kernel: "checked_cmd ctx c m = (r, m') \<Longrightarrow> kernel_peers m' = kernel_step (c, r = Inr ()) (kernel_peers m)"
  using run_cmd_kernel [of c m] by (auto simp: checked_cmd_def split: prod.splits option.splits)

lemma run_cmd_keeps_kernel:
  "kernel_peers (snd (run_cmd (RouteAdd a b) m)) = kernel_peers m" "kernel_peers (snd (run_cmd (RouteDel a b) m)) = kernel_peers m"
  "kernel_peers (snd (run_cmd ForwardingOn m)) = kernel_peers m" "kernel_peers (snd (run_cmd (WgSetKey a b n) m)) = kernel_peers m"
  by (auto simp: run_cmd_def kernel_peers_def split: list.splits cmd_outcome.splits)

lemma other_cmds_kernel [simp]:
  "kernel_peers (snd (route_cmd ctx cidr dev m)) = kernel_peers m"
  "kernel_peers (snd (ignored_cmd (RouteDel ip dev) m)) = kernel_peers m"
  "kernel_peers (snd (ignored_cmd ForwardingOn m)) = kernel_peers m"
  "kernel_peers (snd (configureWG dev key port m)) = kernel_peers m"
proof -
  show "kernel_peers (snd (route_cmd ctx cidr dev m)) = kernel_peers m"
    using run_cmd_keeps_kernel(1) [of cidr dev m] by (auto simp: route_cmd_def split: prod.splits option.splits)
  show "kernel_peers (snd (ignored_cmd (RouteDel ip dev) m)) = kernel_peers m"
    "kernel_peers (snd (ignored_cmd ForwardingOn m)) = kernel_peers m"
    by (simp_all add: ignored_cmd_def run_cmd_keeps_kernel)
  show "kernel_peers (snd (configureWG dev key port m)) = kernel_peers m"
    using run_cmd_keeps_kernel(4) [of dev key port m]
    by (auto simp: configureWG_def checked_cmd_def andThen_def return_def split: prod.splits option.splits sum.splits)
qed

subsection \<open>Effects of the operations\<close>

text \<open>An operation on the machine leaves the rest of the tunnel as it is.\<close>

lemma on_os_eq: "on_os p t = (r, t') \<longleftrightarrow> (\<exists>m. p (wt_os t) = (r, m) \<and> t' = t\<lparr>wt_os := m\<rparr>)"
  by (auto simp: on_os_def on_field_def split: prod.splits)

lemma on_os_snd: "snd (on_os p t) = t\<lparr>wt_os := snd (p (wt_os t))\<rparr>"
  by (simp add: on_os_def on_field_def split: prod.splits)

lemma wrap_snd: "snd (wrap ctx p t) = snd (p t)"
  by (simp add: wrap_def split: prod.splits sum.splits)

lemma AddPeer_cases:
  assumes "AddPeer now k e a t = (r, t')"
  obtains (refused) "r \<noteq> Inr ()" "t' = t"
    | (wg_failed) m where "r \<noteq> Inr ()" "wt_started t" "wt_wgReady t" "t' = t\<lparr>wt_os := m\<rparr>" "kernel_peers m = kernel_peers (wt_os t)"
    | (route_failed) m where "r \<noteq> Inr ()" "wt_started t" "t' = t\<lparr>wt_os := m\<rparr>"
        "kernel_peers m = (if wt_wgReady t then (kernel_peers (wt_os t))(k \<mapsto> e) else kernel_peers (wt_os t))"
    | (added) m c where "r = Inr ()" "wt_started t" "pc_PublicKey c = k" "pc_Endpoint c = e"
        "t' = t\<lparr>wt_os := m, wt_peers := AList.update k c (wt_peers t), wt_stats := (wt_stats t)\<lparr>ts_LastHandshake := Some now\<rparr>\<rparr>"
        "kernel_peers m = (if wt_wgReady t then (kernel_peers (wt_os t))(k \<mapsto> e) else kernel_peers (wt_os t))"
proof (cases "wt_started t \<and> TrimSpace k \<noteq> [] \<and> TrimSpace e \<noteq> [] \<and> TrimSpace a \<noteq> []")
  case False
  then show ?thesis using assms refused by (auto simp: AddPeer_def split: if_splits)
next
  case True
  define al where "al = (if Contains a ''/'' then a else a @ ''/32'')"
  define wg where "wg = (if wt_wgReady t then wrap ''add peer: wg set peer'' (on_os (addWGPeer (wt_deviceName t) k e al)) else return ())"
  define rt where "rt = wrap ''add peer: add host route'' (on_os (addHostRoute (host_part al) (wt_deviceName t)))"
  define c where "c = \<lparr>pc_PublicKey = k, pc_Endpoint = e, pc_AllowedIP = al, pc_AddedAt = now, pc_LastHandshake = now\<rparr>"
  have run: "andThen wg (\<lambda>_. andThen rt (\<lambda>_. modifies (\<lambda>u. u\<lparr>wt_peers := AList.update k c (wt_peers u),
      wt_stats := (wt_stats u)\<lparr>ts_LastHandshake := Some now\<rparr>\<rparr>))) t = (r, t')"
    using assms True by (simp add: AddPeer_def al_def [symmetric] wg_def rt_def c_def Let_def)
  obtain r1 t1 where w: "wg t = (r1, t1)" by (cases "wg t")
  have w': "\<exists>m. t1 = t\<lparr>wt_os := m\<rparr> \<and> kernel_peers m =
      (if wt_wgReady t \<and> r1 = Inr () then (kernel_peers (wt_os t))(k \<mapsto> e) else kernel_peers (wt_os t))" "\<not> wt_wgReady t \<longrightarrow> r1 = Inr ()"
    using w checked_cmd_kernel
    by (auto simp: wg_def wrap_def addWGPeer_def return_def on_os_eq intro: exI [of _ "wt_os t"] split: if_splits prod.splits sum.splits)
  show ?thesis
  proof (cases r1)
    case (Inl x)
    with w' obtain m where "t1 = t\<lparr>wt_os := m\<rparr>" "kernel_peers m = kernel_peers (wt_os t)" "wt_wgReady t" by auto
    with run w Inl True show ?thesis by (intro wg_failed [of m]) auto
  next
    case (Inr u)
    then obtain m1 where m1: "t1 = t\<lparr>wt_os := m1\<rparr>"
      "kernel_peers m1 = (if wt_wgReady t then (kernel_peers (wt_os t))(k \<mapsto> e) else kernel_peers (wt_os t))" using w'(1) by auto
    obtain r2 t2 where r2: "rt t1 = (r2, t2)" by (cases "rt t1")
    define m2 where "m2 = snd (addHostRoute (host_part al) (wt_deviceName t) m1)"
    have m2: "t2 = t1\<lparr>wt_os := m2\<rparr>" "kernel_peers m2 = kernel_peers m1"
      using arg_cong [OF r2, of snd] m1(1) by (simp_all add: m2_def rt_def wrap_snd on_os_snd addHostRoute_def)
    show ?thesis
    proof (cases r2)
      case (Inl x)
      with run w \<open>r1 = Inr u\<close> r2 m1 m2 True show ?thesis by (intro route_failed [of m2]) auto
    next
      case (Inr u2)
      with run w \<open>r1 = Inr u\<close> r2 m1 m2 True show ?thesis by (intro added [of c m2]) (simp_all add: c_def)
    qed
  qed
qed

lemma RemovePeer_cases:
  assumes "RemovePeer k t = (r, t')"
  obtains (refused) "r \<noteq> Inr ()" "t' = t"
    | (wg_failed) m where "r \<noteq> Inr ()" "t' = t\<lparr>wt_os := m\<rparr>" "kernel_peers m = kernel_peers (wt_os t)"
    | (removed) m where "r = Inr ()" "wt_started t" "t' = t\<lparr>wt_os := m, wt_peers := AList.delete k (wt_peers t)\<rparr>"
        "kernel_peers m = (if wt_wgReady t then (kernel_peers (wt_os t))(k := None) else kernel_peers (wt_os t))"
proof (cases "wt_started t \<and> map_of (wt_peers t) k \<noteq> None")
  case False
  then show ?thesis using assms refused by (auto simp: RemovePeer_def split: if_splits option.splits)
next
  case True
  then obtain c where c: "map_of (wt_peers t) k = Some c" by blast
  define wg where "wg = (if wt_wgReady t then wrap ''remove peer: wg remove'' (on_os (removeWGPeer (wt_deviceName t) k)) else return ())"
  define rt where "rt = wrap ''remove peer: remove host route'' (on_os (removeHostRoute (host_part (pc_AllowedIP c)) (wt_deviceName t)))"
  have run: "andThen wg (\<lambda>_. andThen rt (\<lambda>_. modifies (\<lambda>u. u\<lparr>wt_peers := AList.delete k (wt_peers u)\<rparr>))) t = (r, t')"
    using assms True c by (simp add: RemovePeer_def wg_def rt_def)
  obtain r1 t1 where w: "wg t = (r1, t1)" by (cases "wg t")
  have w': "\<exists>m. t1 = t\<lparr>wt_os := m\<rparr> \<and> kernel_peers m =
      (if wt_wgReady t \<and> r1 = Inr () then (kernel_peers (wt_os t))(k := None) else kernel_peers (wt_os t))"
    using w checked_cmd_kernel
    by (auto simp: wg_def wrap_def removeWGPeer_def return_def on_os_eq intro: exI [of _ "wt_os t"] split: if_splits prod.splits sum.splits)
  show ?thesis
  proof (cases r1)
    case (Inl x)
    with w' obtain m where "t1 = t\<lparr>wt_os := m\<rparr>" "kernel_peers m = kernel_peers (wt_os t)" by auto
    with run w Inl show ?thesis by (intro wg_failed [of m]) auto
  next
    case (Inr u)
    then obtain m1 where m1: "t1 = t\<lparr>wt_os := m1\<rparr>"
      "kernel_peers m1 = (if wt_wgReady t then (kernel_peers (wt_os t))(k := None) else kernel_peers (wt_os t))" using w' by auto
    define m2 where "m2 = snd (ignored_cmd (RouteDel (host_part (pc_AllowedIP c) @ ''/32'') (wt_deviceName t)) m1)"
    have rt: "rt t1 = (Inr (), t1\<lparr>wt_os := m2\<rparr>)" and k: "kernel_peers m2 = kernel_peers m1"
      using m1(1) by (simp_all add: m2_def rt_def wrap_def removeHostRoute_def on_os_def on_field_def) (simp add: ignored_cmd_def)
    from run w Inr m1 True rt k show ?thesis by (intro removed [of m2]) auto
  qed
qed

lemma UpdatePeerEndpoint_cases:
  assumes "UpdatePeerEndpoint now k e t = (r, t')"
  obtains (refused) "r \<noteq> Inr ()" "t' = t"
    | (wg_failed) m where "r \<noteq> Inr ()" "t' = t\<lparr>wt_os := m\<rparr>" "kernel_peers m = kernel_peers (wt_os t)"
    | (updated) m c where "r = Inr ()" "wt_started t" "k \<in> fst ` set (wt_peers t)" "pc_Endpoint c = e"
        "map_option pc_PublicKey (map_of (wt_peers t) k) = Some (pc_PublicKey c)"
        "t' = t\<lparr>wt_os := m, wt_peers := AList.update k c (wt_peers t), wt_stats := (wt_stats t)\<lparr>ts_LastHandshake := Some now\<rparr>\<rparr>"
        "kernel_peers m = (if wt_wgReady t then (kernel_peers (wt_os t))(k \<mapsto> e) else kernel_peers (wt_os t))"
proof (cases "wt_started t \<and> map_of (wt_peers t) k \<noteq> None")
  case False
  then show ?thesis using assms refused by (auto simp: UpdatePeerEndpoint_def split: if_splits option.splits)
next
  case True
  then obtain c where c: "map_of (wt_peers t) k = Some c" by blast
  define wg where "wg = (if wt_wgReady t then wrap ''update peer endpoint: wg update'' (on_os (updateWGPeerEndpoint (wt_deviceName t) k e)) else return ())"
  have run: "andThen wg (\<lambda>_. modifies (\<lambda>u. u\<lparr>wt_peers := AList.update k (c\<lparr>pc_Endpoint := e, pc_LastHandshake := now\<rparr>) (wt_peers u),
      wt_stats := (wt_stats u)\<lparr>ts_LastHandshake := Some now\<rparr>\<rparr>)) t = (r, t')"
    using assms True c by (simp add: UpdatePeerEndpoint_def wg_def)
  obtain r1 t1 where w: "wg t = (r1, t1)" by (cases "wg t")
  have w': "\<exists>m. t1 = t\<lparr>wt_os := m\<rparr> \<and> kernel_peers m =
      (if wt_wgReady t \<and> r1 = Inr () then (kernel_peers (wt_os t))(k \<mapsto> e) else kernel_peers (wt_os t))"
    using w checked_cmd_kernel
    by (auto simp: wg_def wrap_def updateWGPeerEndpoint_def return_def on_os_eq intro: exI [of _ "wt_os t"] split: if_splits prod.splits sum.splits)
  show ?thesis
  proof (cases r1)
    case (Inl x)
    with w' obtain m where "t1 = t\<lparr>wt_os := m\<rparr>" "kernel_peers m = kernel_peers (wt_os t)" by auto
    with run w Inl show ?thesis by (intro wg_failed [of m]) auto
  next
    case (Inr u)
    then obtain m1 where m1: "t1 = t\<lparr>wt_os := m1\<rparr>"
      "kernel_peers m1 = (if wt_wgReady t then (kernel_peers (wt_os t))(k \<mapsto> e) else kernel_peers (wt_os t))" using w' by auto
    have "k \<in> fst ` set (wt_peers t)" using c by (auto simp: map_of_keys)
    with run w Inr m1 True c show ?thesis
      by (intro updated [of "c\<lparr>pc_Endpoint := e, pc_LastHandshake := now\<rparr>" m1]) auto
  qed
qed

subsection \<open>The interface of the tunnel\<close>

text \<open>
  What the peer manager relies on: which keys are configured after each operation. A failed
  operation changes none.
\<close>

locale peer_table =
  fixes keys :: "'s \<Rightarrow> string set"
    and add :: "int \<Rightarrow> string \<Rightarrow> string \<Rightarrow> string \<Rightarrow> ('s, unit) procedure"
    and remove :: "string \<Rightarrow> ('s, unit) procedure"
    and update :: "int \<Rightarrow> string \<Rightarrow> string \<Rightarrow> ('s, unit) procedure"
  assumes add_keys: "add now k e a s = (r, s') \<Longrightarrow> keys s' = (if r = Inr () then insert k (keys s) else keys s)"
    and remove_keys: "remove k s = (r, s') \<Longrightarrow> keys s' = (if r = Inr () then keys s - {k} else keys s)"
    and update_keys: "update now k e s = (r, s') \<Longrightarrow> keys s' = keys s"
begin

lemma add_grows: "keys s \<subseteq> keys (snd (add now k e a s))"
  using add_keys [of now k e a s, OF surjective_pairing] by auto

lemma remove_shrinks: "keys (snd (remove k s)) \<subseteq> keys s" "keys s - {k} \<subseteq> keys (snd (remove k s))"
  using remove_keys [of k s, OF surjective_pairing] by auto

lemma failed_remove_keeps: "fst (remove k s) \<noteq> Inr () \<Longrightarrow> keys (snd (remove k s)) = keys s"
  using remove_keys [of k s, OF surjective_pairing] by simp

lemma remove_after_add: "add now k e a s = (Inr (), s1) \<Longrightarrow> remove k s1 = (Inr (), s2) \<Longrightarrow> keys s2 = keys s - {k}"
  using add_keys [of now k e a s "Inr ()" s1] remove_keys [of k s1 "Inr ()" s2] by auto

end

interpretation wg: peer_table "\<lambda>t. fst ` set (wt_peers t)" AddPeer RemovePeer UpdatePeerEndpoint
proof
  show "fst ` set (wt_peers t') = (if r = Inr () then insert k (fst ` set (wt_peers t)) else fst ` set (wt_peers t))"
    if "AddPeer now k e a t = (r, t')" for now k e a t r t'
    using that by (cases rule: AddPeer_cases) simp_all
  show "fst ` set (wt_peers t') = (if r = Inr () then fst ` set (wt_peers t) - {k} else fst ` set (wt_peers t))"
    if "RemovePeer k t = (r, t')" for k t r t'
    using that by (cases rule: RemovePeer_cases) simp_all
  show "fst ` set (wt_peers t') = fst ` set (wt_peers t)" if "UpdatePeerEndpoint now k e t = (r, t')" for now k e t r t'
    using that by (cases rule: UpdatePeerEndpoint_cases) (simp_all add: insert_absorb)
qed

subsection \<open>The tunnel and the kernel\<close>

text \<open>Every peer of the table is configured in the kernel, unless WireGuard is not used at all.\<close>

definition tunnel_inv :: "WGTunnel \<Rightarrow> bool" where
  "tunnel_inv t \<longleftrightarrow>
     distinct (map fst (wt_peers t)) \<and> (\<forall>(k, c) \<in> set (wt_peers t). pc_PublicKey c = k) \<and>
     (\<not> wt_started t \<longrightarrow> wt_peers t = [] \<and> \<not> wt_wgReady t) \<and>
     (wt_wgReady t \<longrightarrow> fst ` set (wt_peers t) \<subseteq> dom (kernel_peers (wt_os t)))"

datatype tunnel_op = OpStart bool int | OpAdd int string string string | OpRemove string | OpUpdate int string string | OpStop

fun tunnel_apply :: "tunnel_op \<Rightarrow> (WGTunnel, unit) procedure" where
  "tunnel_apply (OpStart wgInstalled now) = Start wgInstalled now"
| "tunnel_apply (OpAdd now k e a) = AddPeer now k e a"
| "tunnel_apply (OpRemove k) = RemovePeer k"
| "tunnel_apply (OpUpdate now k e) = UpdatePeerEndpoint now k e"
| "tunnel_apply OpStop = Stop"

text \<open>Any operation with any outcome, except a \<open>Stop\<close> that cannot delete the device.\<close>

inductive tunnel_step :: "WGTunnel \<Rightarrow> tunnel_op \<Rightarrow> WGTunnel \<Rightarrow> bool" where
  "tunnel_apply op t = (r, t') \<Longrightarrow> op = OpStop \<longrightarrow> r = Inr () \<Longrightarrow> tunnel_step t op t'"

inductive_cases tunnel_stepE: "tunnel_step t op t'"

inductive new_tunnel :: "WGTunnel \<Rightarrow> bool" where
  "NewWGTunnel os privateKey virtualIP cidr listenPort = Inr t \<Longrightarrow> new_tunnel t"

lemma new_tunnel_inv: "new_tunnel t \<Longrightarrow> tunnel_inv t"
  by (auto simp: new_tunnel.simps NewWGTunnel_def tunnel_inv_def split: if_splits sum.splits)

lemma set_update_subset: "set (AList.update k v xs) \<subseteq> insert (k, v) (set xs)"
  by (induction xs) auto

lemma set_delete_subset: "set (AList.delete k xs) \<subseteq> set xs"
  by (auto simp: AList.delete_eq)

lemma named_update: "\<forall>(j, c) \<in> set xs. pc_PublicKey c = j \<Longrightarrow> pc_PublicKey c = k \<Longrightarrow> \<forall>(j, d) \<in> set (AList.update k c xs). pc_PublicKey d = j"
  using set_update_subset [of k c xs] by blast

lemma AddPeer_inv: "tunnel_inv t \<Longrightarrow> AddPeer now k e a t = (r, t') \<Longrightarrow> tunnel_inv t'"
proof (erule AddPeer_cases)
  fix m c
  assume t: "tunnel_inv t" "wt_started t" "pc_PublicKey c = k"
    "t' = t\<lparr>wt_os := m, wt_peers := AList.update k c (wt_peers t), wt_stats := (wt_stats t)\<lparr>ts_LastHandshake := Some now\<rparr>\<rparr>"
    "kernel_peers m = (if wt_wgReady t then (kernel_peers (wt_os t))(k \<mapsto> e) else kernel_peers (wt_os t))"
  then show "tunnel_inv t'" using named_update [of "wt_peers t" c k] by (auto simp: tunnel_inv_def distinct_update)
qed (auto simp: tunnel_inv_def)

lemma RemovePeer_inv: "tunnel_inv t \<Longrightarrow> RemovePeer k t = (r, t') \<Longrightarrow> tunnel_inv t'"
proof (erule RemovePeer_cases)
  fix m
  assume t: "tunnel_inv t" "wt_started t" "t' = t\<lparr>wt_os := m, wt_peers := AList.delete k (wt_peers t)\<rparr>"
    "kernel_peers m = (if wt_wgReady t then (kernel_peers (wt_os t))(k := None) else kernel_peers (wt_os t))"
  then show "tunnel_inv t'" using set_delete_subset [of k "wt_peers t"] by (auto simp: tunnel_inv_def distinct_delete)
qed (auto simp: tunnel_inv_def)

lemma UpdatePeerEndpoint_inv: "tunnel_inv t \<Longrightarrow> UpdatePeerEndpoint now k e t = (r, t') \<Longrightarrow> tunnel_inv t'"
proof (erule UpdatePeerEndpoint_cases)
  fix m c
  assume t: "tunnel_inv t" "wt_started t" "k \<in> fst ` set (wt_peers t)"
    "map_option pc_PublicKey (map_of (wt_peers t) k) = Some (pc_PublicKey c)"
    "t' = t\<lparr>wt_os := m, wt_peers := AList.update k c (wt_peers t), wt_stats := (wt_stats t)\<lparr>ts_LastHandshake := Some now\<rparr>\<rparr>"
    "kernel_peers m = (if wt_wgReady t then (kernel_peers (wt_os t))(k \<mapsto> e) else kernel_peers (wt_os t))"
  then have "pc_PublicKey c = k" by (force simp: tunnel_inv_def dest: map_of_SomeD)
  with t show "tunnel_inv t'" using named_update [of "wt_peers t" c k] by (auto simp: tunnel_inv_def distinct_update)
qed (auto simp: tunnel_inv_def)

lemma setup_wg_same: "snd (setup_wg b t) = t\<lparr>wt_os := wt_os (snd (setup_wg b t)), wt_wgReady := wt_wgReady (snd (setup_wg b t))\<rparr>"
  by (auto simp: setup_wg_def on_os_eq split: prod.splits sum.splits)

lemma start_routes_same: "\<exists>m s. start_routes now t = t\<lparr>wt_os := m, wt_started := True, wt_stats := s\<rparr>"
  by (auto simp: start_routes_def Let_def on_os_snd)

lemma Start_inv: "tunnel_inv t \<Longrightarrow> Start b now t = (r, t') \<Longrightarrow> tunnel_inv t'"
proof (cases "wt_started t")
  case False
  assume inv: "tunnel_inv t" and run: "Start b now t = (r, t')"
  define idle where "idle = (\<lambda>u :: WGTunnel. wt_peers u = [] \<and> \<not> wt_started u \<and> \<not> wt_wgReady u)"
  have idle: "idle t" using inv False by (simp add: idle_def tunnel_inv_def)
  obtain r1 t1 where c: "on_os (CreateTUN (wt_deviceName t) (wt_mtu t)) t = (r1, t1)" by (cases "on_os (CreateTUN (wt_deviceName t) (wt_mtu t)) t")
  have t1: "idle t1" using idle c by (auto simp: idle_def on_os_eq)
  show ?thesis
  proof (cases r1)
    case (Inl e)
    then have "t' = t1" using run c False by (simp add: Start_def)
    then show ?thesis using t1 by (simp add: tunnel_inv_def idle_def)
  next
    case (Inr dev)
    obtain r2 t2 where f: "on_os (device_Configure dev (wt_virtualIP t1) (wt_cidr t1)) t1 = (r2, t2)"
      by (cases "on_os (device_Configure dev (wt_virtualIP t1) (wt_cidr t1)) t1")
    have t2: "idle t2" using t1 f by (auto simp: idle_def on_os_eq)
    show ?thesis
    proof (cases r2)
      case (Inl e)
      then have "t' = snd (on_os (device_Close dev) t2)" using run c f Inr False by (simp add: Start_def)
      then show ?thesis using t2 by (simp add: tunnel_inv_def idle_def on_os_snd)
    next
      case u: (Inr u)
      define t3 where "t3 = snd (setup_wg b (t2\<lparr>wt_device := Some dev, wt_deviceName := dev\<rparr>))"
      have "t' = start_routes now t3" using run c f Inr u False by (simp add: Start_def t3_def Let_def)
      then obtain m s where "t' = t3\<lparr>wt_os := m, wt_started := True, wt_stats := s\<rparr>" using start_routes_same by blast
      moreover have "wt_peers t3 = []"
        using arg_cong [OF setup_wg_same [of b "t2\<lparr>wt_device := Some dev, wt_deviceName := dev\<rparr>"], of wt_peers] t2
        by (simp add: t3_def idle_def)
      ultimately show ?thesis by (simp add: tunnel_inv_def)
    qed
  qed
qed (auto simp: Start_def)

lemma Stop_inv: "tunnel_inv t \<Longrightarrow> Stop t = (Inr (), t') \<Longrightarrow> tunnel_inv t'"
  by (auto simp: Stop_def tunnel_inv_def andThen_eq_Inr Let_def split: if_splits)

interpretation tun: inductive_invariant new_tunnel tunnel_step tunnel_inv
proof
  show "new_tunnel t \<Longrightarrow> tunnel_inv t" for t by (rule new_tunnel_inv)
  fix t op t'
  assume inv: "tunnel_inv t" and "tunnel_step t op t'"
  then obtain r where "tunnel_apply op t = (r, t')" "op = OpStop \<longrightarrow> r = Inr ()" by (auto elim: tunnel_stepE)
  with inv show "tunnel_inv t'"
    by (cases op) (auto intro: Start_inv AddPeer_inv RemovePeer_inv UpdatePeerEndpoint_inv Stop_inv)
qed

subsection \<open>Generated keys are valid\<close>

lemma b64_val_char: "n < 64 \<Longrightarrow> b64_val (b64_char n) = Some n"
proof -
  have "\<forall>n \<in> set [0..<64]. b64_val (b64_char n) = Some n" by code_simp
  then show "n < 64 \<Longrightarrow> b64_val (b64_char n) = Some n" by simp
qed

lemma b64_char_plain: "n < 64 \<Longrightarrow> b64_char n \<noteq> CHR ''='' \<and> b64_char n \<noteq> CHR 0x0A \<and> b64_char n \<noteq> CHR 0x0D \<and>
   b64_char n \<notin> set space_heads \<and> b64_char n \<notin> set space_lasts"
proof -
  have "\<forall>n \<in> set [0..<64]. b64_char n \<noteq> CHR ''='' \<and> b64_char n \<noteq> CHR 0x0A \<and> b64_char n \<noteq> CHR 0x0D \<and>
     b64_char n \<notin> set space_heads \<and> b64_char n \<notin> set space_lasts" by code_simp
  then show "n < 64 \<Longrightarrow> b64_char n \<noteq> CHR ''='' \<and> b64_char n \<noteq> CHR 0x0A \<and> b64_char n \<noteq> CHR 0x0D \<and>
     b64_char n \<notin> set space_heads \<and> b64_char n \<notin> set space_lasts" by simp
qed

lemma byte_bound: "unat (x :: byte) < 256"
  using unsigned_less [of x] by simp

text \<open>The decoder undoes the encoder on three bytes, two and one.\<close>

lemma sextets:
  fixes n :: nat
  shows "64 * (n div 262144) + n div 4096 mod 64 = n div 4096"
    "4096 * (n div 262144) + 64 * (n div 4096 mod 64) + n div 64 mod 64 = n div 64"
    "262144 * (n div 262144) + 4096 * (n div 4096 mod 64) + 64 * (n div 64 mod 64) + n mod 64 = n"
proof -
  have d: "n div 64 div 64 = n div 4096" "n div 4096 div 64 = n div 262144" by (simp_all add: div_mult2_eq [symmetric])
  show a: "64 * (n div 262144) + n div 4096 mod 64 = n div 4096"
    using d(2) div_mult_mod_eq [of "n div 4096" 64] by linarith
  show b: "4096 * (n div 262144) + 64 * (n div 4096 mod 64) + n div 64 mod 64 = n div 64"
    using a d(1) div_mult_mod_eq [of "n div 64" 64] by linarith
  show "262144 * (n div 262144) + 4096 * (n div 4096 mod 64) + 64 * (n div 64 mod 64) + n mod 64 = n"
    using b div_mult_mod_eq [of n 64] by linarith
qed

lemma sextet_bounds: "n < 16777216 \<Longrightarrow> n div 262144 < 64" "n mod 64 < 64" for n :: nat
  by (simp_all add: less_mult_imp_div_less)

lemma b64_quads_encoded:
  fixes n :: nat
  assumes "n < 16777216"
  shows "b64_quads (b64_char (n div 262144) # b64_char (n div 4096 mod 64) # b64_char (n div 64 mod 64) # b64_char (n mod 64) # s) =
      map_option (\<lambda>t. [of_nat (n div 65536), of_nat (n div 256 mod 256), of_nat (n mod 256)] @ t) (b64_quads s)"
    "b64_quads [b64_char (n div 262144), b64_char (n div 4096 mod 64), b64_char (n div 64 mod 64), CHR ''=''] =
      Some [of_nat (n div 65536), of_nat (n div 256 mod 256)]"
    "b64_quads [b64_char (n div 262144), b64_char (n div 4096 mod 64), CHR ''='', CHR ''=''] = Some [of_nat (n div 65536)]"
proof -
  note v = b64_val_char [OF sextet_bounds(1) [OF assms]] b64_val_char [OF sextet_bounds(2)]
  note c = b64_char_plain [OF sextet_bounds(2)]
  show "b64_quads (b64_char (n div 262144) # b64_char (n div 4096 mod 64) # b64_char (n div 64 mod 64) # b64_char (n mod 64) # s) =
      map_option (\<lambda>t. [of_nat (n div 65536), of_nat (n div 256 mod 256), of_nat (n mod 256)] @ t) (b64_quads s)"
    by (simp only: b64_quads.simps v c prod.case option.case if_False Let_def sextets(3) simp_thms)
  have "n div 64 div 1024 = n div 65536" "n div 64 div 4 = n div 256" "n div 4096 div 16 = n div 65536"
    by (simp_all add: div_mult2_eq [symmetric])
  then show "b64_quads [b64_char (n div 262144), b64_char (n div 4096 mod 64), b64_char (n div 64 mod 64), CHR ''=''] =
      Some [of_nat (n div 65536), of_nat (n div 256 mod 256)]"
    "b64_quads [b64_char (n div 262144), b64_char (n div 4096 mod 64), CHR ''='', CHR ''=''] = Some [of_nat (n div 65536)]"
    by (simp_all only: b64_quads.simps v c prod.case option.case if_False if_True Let_def sextets simp_thms)
qed

lemma bytes_of_sum:
  assumes "x < 256" "y < 256" "z < 256"
  defines "n \<equiv> 65536 * x + 256 * y + (z :: nat)"
  shows "n < 16777216" "n div 65536 = x" "n div 256 mod 256 = y" "n mod 256 = z"
proof -
  show "n < 16777216" using assms by simp
  have n: "n div 256 = 256 * x + y" using assms(3) by (simp add: n_def)
  have "n = 256 * (256 * x + y) + z" by (simp add: n_def)
  then show "n mod 256 = z" using assms(3) by (simp only: mod_mult_self4 mod_less)
  show "n div 256 mod 256 = y" using assms(2) by (simp add: n)
  have "n div 65536 = n div 256 div 256" by (simp add: div_mult2_eq [symmetric])
  then show "n div 65536 = x" using assms(2) by (simp add: n)
qed

lemma decode_encode: "b64_quads (EncodeToString bs) = Some bs"
proof (induction bs rule: EncodeToString.induct)
  case (1 x y z r)
  note b = bytes_of_sum [OF byte_bound byte_bound byte_bound, of x y z]
  show ?case
    unfolding EncodeToString.simps Let_def append.simps b64_quads_encoded(1) [OF b(1)] b(2-4) 1 [OF refl] by simp
next
  case (2 x y)
  note b = bytes_of_sum [OF byte_bound [of x] byte_bound [of y], of 0, unfolded add_0_right]
  show ?case
    unfolding EncodeToString.simps Let_def b64_quads_encoded(2) [OF b(1) [OF zero_less_numeral]] b(2-4) [OF zero_less_numeral] by simp
next
  case (3 x)
  note b = bytes_of_sum [OF byte_bound [of x], of 0 0, unfolded mult_0_right add_0_right]
  show ?case
    unfolding EncodeToString.simps Let_def b64_quads_encoded(3) [OF b(1) [OF zero_less_numeral zero_less_numeral]]
      b(2) [OF zero_less_numeral zero_less_numeral] by simp
qed simp

lemma b64_quads_chars: "b64_quads s = Some bs \<Longrightarrow> c \<in> set s \<Longrightarrow> c = CHR ''='' \<or> b64_val c \<noteq> None"
  by (induction s arbitrary: bs rule: b64_quads.induct) (auto simp: Let_def split: option.splits if_splits)

lemma b64_val_plain: "b64_val c \<noteq> None \<Longrightarrow> c \<in> set b64_alphabet"
proof (rule ccontr)
  assume some: "b64_val c \<noteq> None" and "c \<notin> set b64_alphabet"
  then have all: "takeWhile (\<lambda>d. d \<noteq> c) b64_alphabet = b64_alphabet" by (intro takeWhile_eq_all_conv [THEN iffD2] ballI) auto
  have "length b64_alphabet = 64" by (simp add: b64_alphabet_def)
  then have "b64_val c = None" unfolding b64_val_def all by simp
  then show False using some by simp
qed

lemma alphabet_plain: "list_all (\<lambda>c. c \<noteq> CHR 0x0A \<and> c \<noteq> CHR 0x0D \<and> c \<notin> set space_heads \<and> c \<notin> set space_lasts) (CHR ''='' # b64_alphabet)"
  by code_simp

lemma encode_plain: "c \<in> set (EncodeToString bs) \<Longrightarrow>
   c \<noteq> CHR 0x0A \<and> c \<noteq> CHR 0x0D \<and> c \<notin> set space_heads \<and> c \<notin> set space_lasts"
  using b64_quads_chars [OF decode_encode, of c bs] b64_val_plain [of c] alphabet_plain by (auto simp: list_all_iff)

lemma encode_nonempty: "bs \<noteq> [] \<Longrightarrow> EncodeToString bs \<noteq> []"
  by (cases bs rule: EncodeToString.cases) (auto simp: Let_def)

lemma encoded_key_valid: "length bs = 32 \<Longrightarrow> validateWireGuardKey (EncodeToString bs) = Inr () \<and> TrimSpace (EncodeToString bs) \<noteq> []"
proof -
  assume len: "length bs = 32"
  then have ne: "EncodeToString bs \<noteq> []" by (intro encode_nonempty) auto
  then have "TrimSpace (EncodeToString bs) = EncodeToString bs"
    using encode_plain hd_in_set last_in_set by (intro TrimSpace_id) blast+
  moreover have "filter (\<lambda>c. c \<noteq> CHR 0x0A \<and> c \<noteq> CHR 0x0D) (EncodeToString bs) = EncodeToString bs"
    using encode_plain by (simp add: filter_id_conv)
  ultimately show ?thesis using len ne by (simp add: validateWireGuardKey_def DecodeString_def decode_encode)
qed

subsection \<open>Properties\<close>


text \<open>A tunnel with a generated key, on a machine where every command succeeds.\<close>

definition sample_key :: string where
  "sample_key = EncodeToString (clampPrivateKey (replicate 32 7))"

definition sample_tunnel :: WGTunnel where
  "sample_tunnel = \<lparr>wt_privateKey = sample_key, wt_virtualIP = ''10.0.0.2'', wt_cidr = ''10.0.0.0/24'', wt_listenPort = 51820,
     wt_deviceName = ''qtun0'', wt_mtu = 1420, wt_wgReady = False, wt_started = False, wt_device = None,
     wt_peers = [], wt_stats = \<lparr>ts_RXBytes = 0, ts_TXBytes = 0, ts_LastHandshake = None\<rparr>, wt_os = \<lparr>m_trace = [], m_script = []\<rparr>\<rparr>"

lemma sample_tunnel_new: "new_tunnel sample_tunnel"
proof
  have "TrimSpace ''10.0.0.2'' \<noteq> []" "TrimSpace ''10.0.0.0/24'' \<noteq> []" by code_simp+
  moreover have "validateWireGuardKey sample_key = Inr () \<and> TrimSpace sample_key \<noteq> []"
    unfolding sample_key_def by (rule encoded_key_valid) (simp add: clampPrivateKey_def Let_def)
  ultimately show "NewWGTunnel \<lparr>m_trace = [], m_script = []\<rparr> sample_key ''10.0.0.2'' ''10.0.0.0/24'' 51820 = Inr sample_tunnel"
    by (simp add: NewWGTunnel_def sample_tunnel_def)
qed

lemmas platform_defs = run_cmd_def checked_cmd_def ignored_cmd_def configureWG_def addWGPeer_def route_cmd_def addSubnetRoute_def
  addHostRoute_def CreateTUN_def device_Configure_def on_os_def on_field_def setup_wg_def start_routes_def Let_def

lemma sample_start: "\<exists>t. Start True 0 sample_tunnel = (Inr (), t) \<and> wt_started t \<and> wt_wgReady t \<and> m_script (wt_os t) = []"
  by (simp add: Start_def sample_tunnel_def platform_defs)

lemma sample_add:
  assumes "wt_started t" "wt_wgReady t" "m_script (wt_os t) = []"
  shows "\<exists>t'. AddPeer 1 ''k'' ''1.2.3.4:5'' ''10.0.0.3'' t = (Inr (), t')"
proof -
  have "TrimSpace ''k'' \<noteq> []" "TrimSpace ''1.2.3.4:5'' \<noteq> []" "TrimSpace ''10.0.0.3'' \<noteq> []" by code_simp+
  then show ?thesis using assms by (simp add: AddPeer_def platform_defs)
qed


text \<open>
  Keys made by \<open>GenerateKeyPair\<close> are accepted by the tunnel: the base64 text of a clamped
  32-byte key passes the validation of \<open>NewWGTunnel\<close>, which then fails only for a missing address
  or prefix or a port out of range.
\<close>

lemma generated_keys_accepted:
  assumes "GenerateKeyPair x25519_base (Inr buf) = Inr (priv, pub)" "length buf = 32"
    and "TrimSpace ip \<noteq> []" "TrimSpace cidr \<noteq> []" "0 < port" "port \<le> 65535"
  shows "\<exists>t. NewWGTunnel os priv ip cidr port = Inr t \<and> wt_privateKey t = priv \<and>
     DecodeString priv = Some (clampPrivateKey buf)"
proof -
  have priv: "priv = EncodeToString (clampPrivateKey buf)" and len: "length (clampPrivateKey buf) = 32"
    using assms(1,2) by (auto simp: GenerateKeyPair_def clampPrivateKey_def Let_def split: sum.splits)
  have "DecodeString priv = Some (clampPrivateKey buf)"
    using encode_plain by (simp add: priv DecodeString_def decode_encode filter_id_conv)
  then show ?thesis using encoded_key_valid [OF len] assms(3-) by (simp add: NewWGTunnel_def priv)
qed

lemma generated_keys_accepted_witness:
  "GenerateKeyPair Inr (Inr (replicate 32 7)) = Inr (EncodeToString (clampPrivateKey (replicate 32 7)), EncodeToString (clampPrivateKey (replicate 32 7))) \<and>
   (\<exists>t. NewWGTunnel \<lparr>m_trace = [], m_script = []\<rparr> (EncodeToString (clampPrivateKey (replicate 32 7))) ''10.0.0.2'' ''10.0.0.0/24'' 51820 = Inr t \<and>
      wt_privateKey t = EncodeToString (clampPrivateKey (replicate 32 7)) \<and>
      DecodeString (EncodeToString (clampPrivateKey (replicate 32 7))) = Some (clampPrivateKey (replicate 32 7)))"
proof -
  have "GenerateKeyPair Inr (Inr (replicate 32 7)) = Inr (EncodeToString (clampPrivateKey (replicate 32 7)), EncodeToString (clampPrivateKey (replicate 32 7)))"
    by (simp only: GenerateKeyPair_def Let_def sum.case)
  moreover have "TrimSpace ''10.0.0.2'' \<noteq> []" "TrimSpace ''10.0.0.0/24'' \<noteq> []" by code_simp+
  ultimately show ?thesis
    using generated_keys_accepted [of Inr "replicate 32 7" _ _ "''10.0.0.2''" "''10.0.0.0/24''" 51820 "\<lparr>m_trace = [], m_script = []\<rparr>"] by simp
qed

end
