(* ===== verification/ApiClient.thy ===== *)
theory ApiClient
  imports Endpoints
begin

text \<open>
  The API client of the device: \<open>client/internal/api_client/client.go\<close>. The network is a list of
  the outcomes of the round trips to come; the requests that were sent and the time slept
  between them are recorded. \<open>encoding/json\<close> is the record \<open>json_codec\<close> of decoding functions,
  one for each type the client decodes; request bodies are kept as the values that are encoded.
\<close>

subsection \<open>Messages\<close>

record PeerRegisterRequest =
  prr_MachineID :: string
  prr_PublicKey :: string
  prr_Name :: string
  prr_OS :: string
  prr_Version :: string
  prr_VNCPort :: int

record PeerInfo =
  pi_ID :: string
  pi_NetworkID :: string
  pi_Name :: string
  pi_MachineID :: string
  pi_PublicKey :: string
  pi_VirtualIP :: string
  pi_PublicEndpoint :: string
  pi_LocalEndpoints :: "string list"
  pi_OS :: string
  pi_Version :: string
  pi_IsOnline :: bool
  pi_VNCPort :: int
  pi_VNCAvailable :: bool
  pi_RelayID :: string

record PeerRegistrationResult =
  prs_VirtualIP :: string
  prs_NetworkCIDR :: string
  prs_PeerID :: string

record PeerStatus =
  pst_PublicEndpoint :: string
  pst_LocalEndpoints :: "string list"
  pst_VNCAvailable :: bool
  pst_RXBytes :: int
  pst_TXBytes :: int
  pst_RelayID :: string

record AnnounceRequest =
  anr_PeerID :: string
  anr_NetworkID :: string
  anr_PublicEndpoint :: string
  anr_LocalEndpoints :: "string list"

record AuthResponse =
  aur_AccessToken :: string
  aur_RefreshToken :: string
  aur_APIKey :: string
  aur_UserID :: string
  aur_UserEmail :: string
  aur_UserName :: string

record MemberHeartbeatRequest =
  mhr_PublicEndpoint :: string
  mhr_LocalEndpoints :: "string list"
  mhr_VNCAvailable :: bool
  mhr_RXBytes :: int
  mhr_TXBytes :: int

record MemberAnnounceRequest =
  mar_PublicEndpoint :: string
  mar_LocalEndpoints :: "string list"

record responseEnvelope =
  re_Success :: bool
  re_Data :: string
  re_Error :: string

datatype request_body =
    NilBody
  | LoginBody string string
  | RegisterBody PeerRegisterRequest
  | StatusBody PeerStatus
  | AnnounceBody AnnounceRequest
  | MemberHeartbeatBody MemberHeartbeatRequest
  | MemberAnnounceBody MemberAnnounceRequest

record json_codec =
  jc_envelope :: "string \<Rightarrow> go_error + responseEnvelope"
  jc_auth :: "string \<Rightarrow> go_error + AuthResponse"
  jc_registration :: "string \<Rightarrow> go_error + PeerRegistrationResult"
  jc_peers :: "string \<Rightarrow> go_error + PeerInfo list"
  jc_relay :: "string \<Rightarrow> go_error + RelayInfo"

datatype requestAuthMode = authNone | authJWT | authAPIKey | authMemberToken

subsection \<open>The client\<close>

datatype http_outcome =
    TransportError go_error
  | BodyError int go_error
  | Response int string

record http_request =
  hr_method :: string
  hr_url :: string
  hr_headers :: "(string \<times> string) list"
  hr_body :: request_body

record Client =
  ac_baseURL :: string
  ac_apiKey :: string
  ac_token :: string
  ac_memberToken :: string
  ac_outcomes :: "http_outcome list"
  ac_sent :: "http_request list"
  ac_slept :: nat

definition NewClient :: "http_outcome list \<Rightarrow> string \<Rightarrow> string \<Rightarrow> Client" where
  "NewClient network serverURL apiKey =
     \<lparr>ac_baseURL = TrimRight (TrimSpace serverURL) ''/'', ac_apiKey = TrimSpace apiKey, ac_token = [], ac_memberToken = [],
      ac_outcomes = network, ac_sent = [], ac_slept = 0\<rparr>"

definition SetToken :: "string \<Rightarrow> Client \<Rightarrow> Client" where
  "SetToken token c = c\<lparr>ac_token := TrimSpace token\<rparr>"

definition SetAPIKey :: "string \<Rightarrow> Client \<Rightarrow> Client" where
  "SetAPIKey apiKey c = c\<lparr>ac_apiKey := TrimSpace apiKey\<rparr>"

definition SetMemberToken :: "string \<Rightarrow> Client \<Rightarrow> Client" where
  "SetMemberToken token c = c\<lparr>ac_memberToken := TrimSpace token\<rparr>"

text \<open>The headers \<open>applyAuth\<close> adds.\<close>

fun applyAuth :: "Client \<Rightarrow> requestAuthMode \<Rightarrow> go_error + (string \<times> string) list" where
  "applyAuth c authNone = Inr []"
| "applyAuth c authJWT =
     (if ac_token c = [] then Inl (Errorf ''missing jwt token'') else Inr [(''Authorization'', ''Bearer '' @ ac_token c)])"
| "applyAuth c authAPIKey =
     (if ac_apiKey c = [] then Inl (Errorf ''missing api key'')
      else Inr [(''X-API-Key'', ac_apiKey c), (''Authorization'', ''ApiKey '' @ ac_apiKey c)])"
| "applyAuth c authMemberToken =
     (if ac_memberToken c = [] then Inl (Errorf ''missing member_token'')
      else Inr [(''Authorization'', ''Bearer '' @ ac_memberToken c)])"

text \<open>\<open>httpClient.Do\<close>: the request is recorded and the next outcome taken; beyond the list the network is down.\<close>

definition httpDo :: "http_request \<Rightarrow> Client \<Rightarrow> http_outcome \<times> Client" where
  "httpDo req c =
     (case ac_outcomes c of
        [] \<Rightarrow> (TransportError (Errorf ''connection refused''), c\<lparr>ac_sent := ac_sent c @ [req]\<rparr>)
      | out # rest \<Rightarrow> (out, c\<lparr>ac_sent := ac_sent c @ [req], ac_outcomes := rest\<rparr>))"

text \<open>\<open>http.StatusText\<close>\<close>

definition status_texts :: "(int \<times> string) list" where
  "status_texts =
     [(100, ''Continue''), (101, ''Switching Protocols''), (102, ''Processing''), (103, ''Early Hints''),
      (200, ''OK''), (201, ''Created''), (202, ''Accepted''), (203, ''Non-Authoritative Information''), (204, ''No Content''),
      (205, ''Reset Content''), (206, ''Partial Content''), (207, ''Multi-Status''), (208, ''Already Reported''), (226, ''IM Used''),
      (300, ''Multiple Choices''), (301, ''Moved Permanently''), (302, ''Found''), (303, ''See Other''), (304, ''Not Modified''),
      (305, ''Use Proxy''), (307, ''Temporary Redirect''), (308, ''Permanent Redirect''),
      (400, ''Bad Request''), (401, ''Unauthorized''), (402, ''Payment Required''), (403, ''Forbidden''), (404, ''Not Found''),
      (405, ''Method Not Allowed''), (406, ''Not Acceptable''), (407, ''Proxy Authentication Required''), (408, ''Request Timeout''),
      (409, ''Conflict''), (410, ''Gone''), (411, ''Length Required''), (412, ''Precondition Failed''), (413, ''Request Entity Too Large''),
      (414, ''Request URI Too Long''), (415, ''Unsupported Media Type''), (416, ''Requested Range Not Satisfiable''),
      (417, ''Expectation Failed''), (418, ''I'' @ [CHR 0x27] @ ''m a teapot''), (421, ''Misdirected Request''), (422, ''Unprocessable Entity''),
      (423, ''Locked''), (424, ''Failed Dependency''), (425, ''Too Early''), (426, ''Upgrade Required''), (428, ''Precondition Required''),
      (429, ''Too Many Requests''), (431, ''Request Header Fields Too Large''), (451, ''Unavailable For Legal Reasons''),
      (500, ''Internal Server Error''), (501, ''Not Implemented''), (502, ''Bad Gateway''), (503, ''Service Unavailable''),
      (504, ''Gateway Timeout''), (505, ''HTTP Version Not Supported''), (506, ''Variant Also Negotiates''), (507, ''Insufficient Storage''),
      (508, ''Loop Detected''), (510, ''Not Extended''), (511, ''Network Authentication Required'')]"

definition StatusText :: "int \<Rightarrow> string" where
  "StatusText code = (case map_of status_texts code of Some s \<Rightarrow> s | None \<Rightarrow> [])"

text \<open>
  What one attempt of \<open>doJSON\<close> does with the outcome: return, or go on with the next attempt
  after noting the error. The response target is the value it holds before the call with the
  decoder of its type, \<open>None\<close> for a nil target.
\<close>

datatype 'a verdict = Return "go_error + 'a" | Again go_error

definition maxRetries :: nat where "maxRetries = 3"

definition empty_envelope :: responseEnvelope where
  "empty_envelope = \<lparr>re_Success = False, re_Data = [], re_Error = []\<rparr>"

definition error_message :: "responseEnvelope \<Rightarrow> int \<Rightarrow> string \<Rightarrow> string" where
  "error_message envelope status raw =
     (if re_Error envelope \<noteq> [] then re_Error envelope
      else if TrimSpace raw \<noteq> [] then TrimSpace raw
      else StatusText status)"

definition decode_target :: "'a \<Rightarrow> (string \<Rightarrow> go_error + 'a) option \<Rightarrow> responseEnvelope \<Rightarrow> go_error + 'a" where
  "decode_target out target envelope =
     (case target of
        Some unmarshal \<Rightarrow>
          if re_Data envelope \<noteq> [] \<and> re_Data envelope \<noteq> ''null''
          then (case unmarshal (re_Data envelope) of
                  Inl e \<Rightarrow> Inl (Wrapf ''do json: decode response data'' e)
                | Inr v \<Rightarrow> Inr v)
          else Inr out
      | None \<Rightarrow> Inr out)"

fun judge :: "json_codec \<Rightarrow> 'a \<Rightarrow> (string \<Rightarrow> go_error + 'a) option \<Rightarrow> nat \<Rightarrow> http_outcome \<Rightarrow> 'a verdict" where
  "judge jc out target attempt (TransportError e) = Again (Wrapf ''do json: perform request'' e)"
| "judge jc out target attempt (BodyError status e) = Again (Wrapf ''do json: read response body'' e)"
| "judge jc out target attempt (Response status raw) =
     (case (if raw \<noteq> [] then jc_envelope jc raw else Inr empty_envelope) of
        Inl e \<Rightarrow>
          if 500 \<le> status \<and> attempt < maxRetries - 1 then Again (Wrapf ''do json: decode envelope'' e)
          else Return (Inl (Wrapf ''do json: decode envelope'' e))
      | Inr envelope \<Rightarrow>
          if 400 \<le> status \<or> \<not> re_Success envelope then
            let httpErr = HTTPError status (error_message envelope status raw)
            in if 500 \<le> status \<and> attempt < maxRetries - 1 then Again httpErr else Return (Inl httpErr)
          else Return (decode_target out target envelope))"

text \<open>The wait before an attempt, in milliseconds: \<open>1<<uint(attempt-1) * 200ms\<close>.\<close>

definition backoff_ms :: "nat \<Rightarrow> nat" where
  "backoff_ms attempt = (if 0 < attempt then 2 ^ (attempt - 1) * 200 else 0)"

definition build_request :: "string \<Rightarrow> string \<Rightarrow> request_body \<Rightarrow> (string \<times> string) list \<Rightarrow> http_request" where
  "build_request verb fullURL body auth =
     \<lparr>hr_method = verb, hr_url = fullURL,
      hr_headers = [(''Content-Type'', ''application/json''), (''Accept'', ''application/json'')] @ auth, hr_body = body\<rparr>"

function retry_loop :: "json_codec \<Rightarrow> 'a \<Rightarrow> (string \<Rightarrow> go_error + 'a) option \<Rightarrow> string \<Rightarrow> string \<Rightarrow> request_body \<Rightarrow>
    requestAuthMode \<Rightarrow> nat \<Rightarrow> go_error option \<Rightarrow> (Client, 'a) procedure" where
  "retry_loop jc out target verb fullURL body mode attempt lastErr c =
     (if maxRetries \<le> attempt
      then (Inl (case lastErr of Some e \<Rightarrow> e | None \<Rightarrow> Errorf ''do json: request failed after retries''), c)
      else
        let c1 = c\<lparr>ac_slept := ac_slept c + backoff_ms attempt\<rparr>
        in if url_Host fullURL = None then (Inl (Errorf ''do json: build request''), c1)
           else case applyAuth c1 mode of
                  Inl e \<Rightarrow> (Inl (Wrapf ''do json: apply auth'' e), c1)
                | Inr auth \<Rightarrow>
                    (case httpDo (build_request verb fullURL body auth) c1 of
                       (outcome, c2) \<Rightarrow>
                         (case judge jc out target attempt outcome of
                            Return r \<Rightarrow> (r, c2)
                          | Again e \<Rightarrow> retry_loop jc out target verb fullURL body mode (Suc attempt) (Some e) c2)))"
  by pat_completeness auto
termination
  by (relation "measure (\<lambda>(_, _, _, _, _, _, _, attempt, _, _). maxRetries - attempt)") auto

declare retry_loop.simps [simp del]

definition doJSON :: "json_codec \<Rightarrow> string \<Rightarrow> string \<Rightarrow> request_body \<Rightarrow> requestAuthMode \<Rightarrow>
    'a \<Rightarrow> (string \<Rightarrow> go_error + 'a) option \<Rightarrow> (Client, 'a) procedure" where
  "doJSON jc verb path body mode out target = (\<lambda>c. retry_loop jc out target verb (ac_baseURL c @ path) body mode 0 None c)"

subsection \<open>The calls\<close>

definition zero_auth :: AuthResponse where
  "zero_auth = \<lparr>aur_AccessToken = [], aur_RefreshToken = [], aur_APIKey = [], aur_UserID = [], aur_UserEmail = [], aur_UserName = []\<rparr>"

definition zero_registration :: PeerRegistrationResult where
  "zero_registration = \<lparr>prs_VirtualIP = [], prs_NetworkCIDR = [], prs_PeerID = []\<rparr>"

definition zero_relay :: RelayInfo where
  "zero_relay = \<lparr>ri_PeerID = [], ri_RelayID = [], ri_RelayHost = [], ri_RelayPort = 0, ri_Token = [], ri_Region = [], ri_RelayEndpoint = []\<rparr>"

definition Login :: "json_codec \<Rightarrow> string \<Rightarrow> string \<Rightarrow> (Client, AuthResponse) procedure" where
  "Login jc email password =
     andThen (wrap ''login'' (doJSON jc ''POST'' ''/api/v1/auth/login'' (LoginBody (TrimSpace email) password) authNone zero_auth (Some (jc_auth jc)))) (\<lambda>out.
     andThen (modifies (SetToken (aur_AccessToken out))) (\<lambda>_.
     andThen (modifies (\<lambda>c. if aur_APIKey out \<noteq> [] then SetAPIKey (aur_APIKey out) c else c)) (\<lambda>_.
     return out)))"

definition client_RegisterPeer :: "json_codec \<Rightarrow> string \<Rightarrow> PeerRegisterRequest \<Rightarrow> (Client, PeerRegistrationResult) procedure" where
  "client_RegisterPeer jc networkID req =
     wrap ''register peer'' (doJSON jc ''POST'' (''/api/v1/networks/'' @ PathEscape networkID @ ''/peers/register'')
       (RegisterBody req) authAPIKey zero_registration (Some (jc_registration jc)))"

definition client_Heartbeat :: "json_codec \<Rightarrow> string \<Rightarrow> string \<Rightarrow> PeerStatus \<Rightarrow> (Client, unit) procedure" where
  "client_Heartbeat jc networkID peerID status =
     wrap ''heartbeat'' (doJSON jc ''PUT'' (''/api/v1/networks/'' @ PathEscape networkID @ ''/peers/'' @ PathEscape peerID @ ''/heartbeat'')
       (StatusBody status) authAPIKey () None)"

definition GetPeers :: "json_codec \<Rightarrow> string \<Rightarrow> (Client, PeerInfo list) procedure" where
  "GetPeers jc networkID =
     wrap ''get peers'' (doJSON jc ''GET'' (''/api/v1/coord/peers/'' @ PathEscape networkID) NilBody authAPIKey [] (Some (jc_peers jc)))"

definition client_Announce :: "json_codec \<Rightarrow> AnnounceRequest \<Rightarrow> (Client, unit) procedure" where
  "client_Announce jc endpoint = wrap ''announce'' (doJSON jc ''POST'' ''/api/v1/coord/announce'' (AnnounceBody endpoint) authAPIKey () None)"

text \<open>\<open>url.Values.Encode\<close> of the two parameters, sorted by key.\<close>

definition relay_query :: "string \<Rightarrow> string \<Rightarrow> string" where
  "relay_query networkID peerID =
     (if TrimSpace networkID \<noteq> [] then ''network_id='' @ QueryEscape networkID @ ''&'' else []) @ ''peer_id='' @ QueryEscape peerID"

definition GetNearestRelay :: "json_codec \<Rightarrow> string \<Rightarrow> string \<Rightarrow> (Client, RelayInfo) procedure" where
  "GetNearestRelay jc networkID peerID =
     andThen (wrap ''get nearest relay'' (doJSON jc ''GET'' (''/api/v1/coord/relay/assign?'' @ relay_query networkID peerID)
        NilBody authAPIKey zero_relay (Some (jc_relay jc)))) (\<lambda>out.
     reads (\<lambda>c. normalizeRelayInfo (ac_baseURL c) out))"

definition MemberGetNearestRelay :: "json_codec \<Rightarrow> string \<Rightarrow> string \<Rightarrow> string \<Rightarrow> (Client, RelayInfo) procedure" where
  "MemberGetNearestRelay jc memberID networkID targetPeerID =
     andThen (wrap ''member get nearest relay'' (doJSON jc ''GET''
        (''/api/v1/members/'' @ PathEscape memberID @ ''/relay?'' @ relay_query networkID targetPeerID)
        NilBody authMemberToken zero_relay (Some (jc_relay jc)))) (\<lambda>out.
     reads (\<lambda>c. normalizeRelayInfo (ac_baseURL c) out))"

definition client_MemberHeartbeat :: "json_codec \<Rightarrow> string \<Rightarrow> MemberHeartbeatRequest \<Rightarrow> (Client, unit) procedure" where
  "client_MemberHeartbeat jc memberID req =
     wrap ''member heartbeat'' (doJSON jc ''PUT'' (''/api/v1/members/'' @ PathEscape memberID @ ''/heartbeat'') (MemberHeartbeatBody req) authMemberToken () None)"

definition MemberGetPeers :: "json_codec \<Rightarrow> string \<Rightarrow> (Client, PeerInfo list) procedure" where
  "MemberGetPeers jc memberID =
     wrap ''member get peers'' (doJSON jc ''GET'' (''/api/v1/members/'' @ PathEscape memberID @ ''/peers'') NilBody authMemberToken [] (Some (jc_peers jc)))"

definition client_MemberAnnounce :: "json_codec \<Rightarrow> string \<Rightarrow> MemberAnnounceRequest \<Rightarrow> (Client, unit) procedure" where
  "client_MemberAnnounce jc memberID req =
     wrap ''member announce'' (doJSON jc ''POST'' (''/api/v1/members/'' @ PathEscape memberID @ ''/announce'') (MemberAnnounceBody req) authMemberToken () None)"

definition MemberGoOffline :: "json_codec \<Rightarrow> string \<Rightarrow> (Client, unit) procedure" where
  "MemberGoOffline jc memberID =
     wrap ''member go offline'' (doJSON jc ''POST'' (''/api/v1/members/'' @ PathEscape memberID @ ''/offline'') NilBody authMemberToken () None)"

subsection \<open>Retries\<close>

definition outcome_at :: "http_outcome list \<Rightarrow> nat \<Rightarrow> http_outcome" where
  "outcome_at outs i = (if i < length outs then outs ! i else TransportError (Errorf ''connection refused''))"

text \<open>An outcome after which the client may try again, and one it takes for success.\<close>

fun retryable :: "http_outcome \<Rightarrow> bool" where
  "retryable (Response status raw) \<longleftrightarrow> 500 \<le> status"
| "retryable _ \<longleftrightarrow> True"

fun accepted :: "json_codec \<Rightarrow> http_outcome \<Rightarrow> bool" where
  "accepted jc (Response status raw) \<longleftrightarrow>
     status < 400 \<and> (\<exists>envelope. jc_envelope jc raw = Inr envelope \<and> re_Success envelope)"
| "accepted jc _ \<longleftrightarrow> False"

lemma judge_Again: "judge jc out target attempt outcome = Again e \<Longrightarrow> retryable outcome"
  by (cases "(jc, out, target, attempt, outcome)" rule: judge.cases) (auto simp: Let_def split: sum.splits if_splits)

lemma judge_Inr: "judge jc out target attempt outcome = Return (Inr v) \<Longrightarrow> accepted jc outcome"
  by (cases "(jc, out, target, attempt, outcome)" rule: judge.cases)
    (auto simp: Let_def empty_envelope_def split: sum.splits if_splits)

lemma judge_accepted: "accepted jc outcome \<Longrightarrow> \<exists>r. judge jc out target attempt outcome = Return r"
  by (cases outcome) auto

lemma httpDo_effect: "httpDo req c = (outcome_at (ac_outcomes c) 0, c\<lparr>ac_sent := ac_sent c @ [req], ac_outcomes := drop 1 (ac_outcomes c)\<rparr>)"
  by (cases "ac_outcomes c") (simp_all add: httpDo_def outcome_at_def)

lemma outcome_at_drop: "outcome_at (drop n outs) i = outcome_at outs (n + i)"
  by (auto simp: outcome_at_def)

lemma applyAuth_cong [simp]:
  "applyAuth (c\<lparr>ac_slept := n\<rparr>) mode = applyAuth c mode" "applyAuth (c\<lparr>ac_sent := ss\<rparr>) mode = applyAuth c mode"
  "applyAuth (c\<lparr>ac_outcomes := os\<rparr>) mode = applyAuth c mode"
  by (cases mode; simp)+

text \<open>The run of the loop from an attempt on: the same request, sent until an outcome is final.\<close>

definition loop_run :: "json_codec \<Rightarrow> http_request \<Rightarrow> nat \<Rightarrow> nat \<Rightarrow> Client \<Rightarrow> go_error + 'a \<Rightarrow> Client \<Rightarrow> bool" where
  "loop_run jc req left k c r c' \<longleftrightarrow>
     k \<le> left \<and> (\<exists>w. c' = c\<lparr>ac_sent := ac_sent c @ replicate k req, ac_outcomes := drop k (ac_outcomes c), ac_slept := ac_slept c + w\<rparr>) \<and>
     (\<forall>i < k - 1. retryable (outcome_at (ac_outcomes c) i)) \<and>
     (\<forall>v. r = Inr v \<longrightarrow> 0 < k \<and> accepted jc (outcome_at (ac_outcomes c) (k - 1)))"

lemma retry_loop_run:
  assumes "applyAuth c mode = Inr auth" "url_Host fullURL = Some h"
    and "retry_loop jc out target verb fullURL body mode attempt lastErr c = (r, c')"
  shows "\<exists>k. loop_run jc (build_request verb fullURL body auth) (maxRetries - attempt) k c r c'"
  using assms
proof (induction jc out target verb fullURL body mode attempt lastErr c rule: retry_loop.induct)
  case (1 jc out target verb fullURL body mode attempt lastErr c)
  let ?req = "build_request verb fullURL body auth"
  let ?c1 = "c\<lparr>ac_slept := ac_slept c + backoff_ms attempt\<rparr>"
  let ?c2 = "?c1\<lparr>ac_sent := ac_sent c @ [?req], ac_outcomes := drop 1 (ac_outcomes c)\<rparr>"
  show ?case
  proof (cases "maxRetries \<le> attempt")
    case True
    with 1(4) show ?thesis by (intro exI [of _ 0]) (auto simp: retry_loop.simps loop_run_def intro!: exI [of _ 0])
  next
    case False
    show ?thesis
    proof (cases "judge jc out target attempt (outcome_at (ac_outcomes c) 0)")
      case (Return r')
      with 1(2-4) False have "r = r'" "c' = ?c2"
        by (auto simp: retry_loop.simps [of _ _ _ _ _ _ _ attempt] Let_def httpDo_effect)
      with Return False judge_Inr show ?thesis
        by (intro exI [of _ 1]) (auto simp: loop_run_def intro!: exI [of _ "backoff_ms attempt"])
    next
      case (Again e)
      with 1(2-4) False have "retry_loop jc out target verb fullURL body mode (Suc attempt) (Some e) ?c2 = (r, c')"
        by (simp add: retry_loop.simps [of _ _ _ _ _ _ _ attempt] Let_def httpDo_effect)
      with 1(1) [OF False refl, of auth "outcome_at (ac_outcomes c) 0" ?c2 e] Again 1(2,3)
      obtain k where k: "loop_run jc ?req (maxRetries - Suc attempt) k ?c2 r c'" by (auto simp: httpDo_effect)
      have "retryable (outcome_at (ac_outcomes c) i)" if "i < Suc k - 1" for i
        using k that judge_Again [OF Again] by (cases i) (auto simp: loop_run_def outcome_at_drop)
      moreover have "0 < k \<and> accepted jc (outcome_at (ac_outcomes c) (Suc k - 1))" if "r = Inr v" for v
        using k that by (cases k) (auto simp: loop_run_def outcome_at_drop)
      moreover have "\<exists>w. c' = c\<lparr>ac_sent := ac_sent c @ replicate (Suc k) ?req, ac_outcomes := drop (Suc k) (ac_outcomes c),
          ac_slept := ac_slept c + w\<rparr>"
      proof -
        from k obtain w where "c' = ?c2\<lparr>ac_sent := ac_sent ?c2 @ replicate k ?req, ac_outcomes := drop k (ac_outcomes ?c2),
          ac_slept := ac_slept ?c2 + w\<rparr>" by (auto simp: loop_run_def)
        then show ?thesis by (intro exI [of _ "backoff_ms attempt + w"]) simp
      qed
      moreover have "Suc k \<le> maxRetries - attempt" using k False by (auto simp: loop_run_def)
      ultimately show ?thesis unfolding loop_run_def by (intro exI [of _ "Suc k"]) blast
    qed
  qed
qed

lemma retry_loop_slept:
  "ac_slept (snd (retry_loop jc out target verb fullURL body mode attempt lastErr c)) \<le>
     ac_slept c + (\<Sum>i \<leftarrow> [attempt..<maxRetries]. backoff_ms i)"
proof (induction jc out target verb fullURL body mode attempt lastErr c rule: retry_loop.induct)
  case (1 jc out target verb fullURL body mode attempt lastErr c)
  show ?case
  proof (cases "maxRetries \<le> attempt")
    case True
    then show ?thesis by (simp add: retry_loop.simps)
  next
    case False
    then have "[attempt..<maxRetries] = attempt # [Suc attempt..<maxRetries]" by (simp add: upt_rec)
    with 1 [OF False refl] False show ?thesis
      by (subst retry_loop.simps) (fastforce simp: Let_def httpDo_effect split: sum.splits verdict.splits)
  qed
qed

lemma retry_loop_no_credential:
  "applyAuth c mode = Inl e \<or> url_Host fullURL = None \<Longrightarrow>
   \<exists>e' w. retry_loop jc out target verb fullURL body mode 0 None c = (Inl e', c\<lparr>ac_slept := ac_slept c + w\<rparr>)"
  by (auto simp: retry_loop.simps maxRetries_def Let_def)

subsection \<open>Properties\<close>

text \<open>
  C21. Every call of the API client ends after at most three requests and 0.6 seconds of waiting.
  The requests of one call are all the same, with the credential of the call's mode and no
  other; without that credential nothing is sent. A request is repeated only after a transport
  error, an unreadable body or a status of 500 and more, and the call succeeds only on a response
  below 400 whose envelope says success. The call changes neither the client's credentials nor
  its server.
\<close>

theorem doJSON_retries:
  assumes "doJSON jc verb path body mode out target c = (r, c')"
  shows "\<exists>k auth. k \<le> 3 \<and> (0 < k \<longrightarrow> applyAuth c mode = Inr auth) \<and>
     ac_sent c' = ac_sent c @ replicate k (build_request verb (ac_baseURL c @ path) body auth) \<and>
     ac_outcomes c' = drop k (ac_outcomes c) \<and> ac_slept c' \<le> ac_slept c + 600 \<and>
     (\<forall>i < k - 1. retryable (outcome_at (ac_outcomes c) i)) \<and>
     (\<forall>v. r = Inr v \<longrightarrow> 0 < k \<and> accepted jc (outcome_at (ac_outcomes c) (k - 1))) \<and>
     (ac_baseURL c', ac_apiKey c', ac_token c', ac_memberToken c') = (ac_baseURL c, ac_apiKey c, ac_token c, ac_memberToken c)"
proof -
  let ?url = "ac_baseURL c @ path"
  have run: "retry_loop jc out target verb ?url body mode 0 None c = (r, c')" using assms by (simp add: doJSON_def)
  then have slept: "ac_slept c' \<le> ac_slept c + 600"
    using retry_loop_slept [of jc out target verb ?url body mode 0 None c] by (simp add: maxRetries_def backoff_ms_def upt_rec)
  show ?thesis
  proof (cases "(\<exists>auth. applyAuth c mode = Inr auth) \<and> url_Host ?url \<noteq> None")
    case True
    then obtain auth h where auth: "applyAuth c mode = Inr auth" "url_Host ?url = Some h" by blast
    from retry_loop_run [OF this run] obtain k where k: "loop_run jc (build_request verb ?url body auth) 3 k c r c'"
      by (auto simp: maxRetries_def)
    with slept auth show ?thesis by (intro exI [of _ k] exI [of _ auth]) (auto simp: loop_run_def)
  next
    case False
    then have "\<exists>e. applyAuth c mode = Inl e \<or> url_Host ?url = None" by (cases "applyAuth c mode") auto
    then obtain e' w where "(r, c') = (Inl e', c\<lparr>ac_slept := ac_slept c + w\<rparr>)"
      using retry_loop_no_credential [of c mode _ ?url jc out target verb body] run by metis
    then show ?thesis using slept by (intro exI [of _ 0]) simp
  qed
qed

text \<open>A server that answers the second request, and a decoder that takes every text for success.\<close>

definition sample_codec :: json_codec where
  "sample_codec = \<lparr>jc_envelope = (\<lambda>_. Inr \<lparr>re_Success = True, re_Data = [], re_Error = []\<rparr>), jc_auth = (\<lambda>_. Inr zero_auth),
     jc_registration = (\<lambda>_. Inr zero_registration), jc_peers = (\<lambda>_. Inr []), jc_relay = (\<lambda>_. Inr zero_relay)\<rparr>"

definition sample_client :: Client where
  "sample_client = \<lparr>ac_baseURL = ''http://h'', ac_apiKey = [], ac_token = [], ac_memberToken = ''m'',
     ac_outcomes = [TransportError (Errorf ''timeout''), Response 200 ''ok''], ac_sent = [], ac_slept = 0\<rparr>"

lemma sample_url: "url_Host ''http://h/p'' = Some ''h''"
  by code_simp

theorem doJSON_retries_witness:
  "\<exists>c'. doJSON sample_codec ''PUT'' ''/p'' NilBody authMemberToken () None sample_client = (Inr (), c') \<and> ac_slept c' \<le> 600 \<and>
     length (ac_sent c') = 2 \<and> retryable (outcome_at (ac_outcomes sample_client) 0) \<and> accepted sample_codec (outcome_at (ac_outcomes sample_client) 1)"
proof -
  obtain c' where c': "doJSON sample_codec ''PUT'' ''/p'' NilBody authMemberToken () None sample_client = (Inr (), c')" "length (ac_sent c') = 2"
    using sample_url
    by (simp add: doJSON_def retry_loop.simps maxRetries_def Let_def httpDo_def sample_client_def sample_codec_def decode_target_def)
  from doJSON_retries [OF c'(1)] obtain k auth where k: "ac_sent c' = replicate k (build_request ''PUT'' ''http://h/p'' NilBody auth)"
    "ac_slept c' \<le> 600" "\<forall>i < k - 1. retryable (outcome_at (ac_outcomes sample_client) i)"
    "accepted sample_codec (outcome_at (ac_outcomes sample_client) (k - 1))" by (auto simp: sample_client_def)
  with c' show ?thesis by auto
qed

end
