(* ===== verification/PeerManager.thy ===== *)
theory PeerManager
  imports Tunnel ApiClient
begin

text \<open>
  The peer manager of the device: \<open>client/internal/peer/manager.go\<close>. It holds the tunnel and the
  API client, which the agent always gives it, so the tests of the source for nil pointers are
  not modelled. A method is a procedure on the manager; the goroutine of \<open>Start\<close> is the sequence
  of the calls of \<open>syncPeersOnce\<close> it makes. The map of connections is an association list, whose
  order stands for the order of the map's iteration.
\<close>

subsection \<open>State\<close>

record PeerConnection =
  cn_PeerID :: string
  cn_PeerName :: string
  cn_PublicKey :: string
  cn_VirtualIP :: string
  cn_Endpoint :: string
  cn_ConnectedVia :: string
  cn_LastSeen :: int

record PeerManager =
  pm_tunnel :: WGTunnel
  pm_api :: Client
  pm_peers :: "(string \<times> PeerConnection) list"
  pm_networkID :: string
  pm_localPeerID :: string
  pm_memberID :: string
  pm_localPublicEndpoint :: string
  pm_syncInterval :: int

text \<open>The surroundings of a call: the decoder of the API client, the interfaces of the machine, the variable that enables the LAN fallback.\<close>

record surroundings =
  su_codec :: json_codec
  su_addrs :: "iface_addr list"
  su_lanEnv :: string

definition on_tunnel :: "(WGTunnel, 'a) procedure \<Rightarrow> (PeerManager, 'a) procedure" where
  "on_tunnel p = on_field pm_tunnel (\<lambda>t m. m\<lparr>pm_tunnel := t\<rparr>) p"

definition on_api :: "(Client, 'a) procedure \<Rightarrow> (PeerManager, 'a) procedure" where
  "on_api p = on_field pm_api (\<lambda>c m. m\<lparr>pm_api := c\<rparr>) p"

definition NewPeerManager :: "WGTunnel \<Rightarrow> Client \<Rightarrow> string \<Rightarrow> string \<Rightarrow> PeerManager" where
  "NewPeerManager tun apiClient networkID localPeerID =
     \<lparr>pm_tunnel = tun, pm_api = apiClient, pm_peers = [], pm_networkID = TrimSpace networkID, pm_localPeerID = TrimSpace localPeerID,
      pm_memberID = [], pm_localPublicEndpoint = [], pm_syncInterval = 15\<rparr>"

definition SetMemberID :: "string \<Rightarrow> PeerManager \<Rightarrow> PeerManager" where
  "SetMemberID memberID m = m\<lparr>pm_memberID := memberID\<rparr>"

definition SetLocalPublicEndpoint :: "string \<Rightarrow> PeerManager \<Rightarrow> PeerManager" where
  "SetLocalPublicEndpoint endpoint m = m\<lparr>pm_localPublicEndpoint := TrimSpace endpoint\<rparr>"

text \<open>The interval in seconds.\<close>

definition SetSyncInterval :: "int \<Rightarrow> PeerManager \<Rightarrow> PeerManager" where
  "SetSyncInterval d m = m\<lparr>pm_syncInterval := (if d < 10 then 10 else d)\<rparr>"

subsection \<open>Endpoints\<close>

definition manager_sanitize :: "PeerManager \<Rightarrow> string \<Rightarrow> int \<Rightarrow> string" where
  "manager_sanitize m endpoint port = sanitizeEndpoint (Some (PublicHost (ac_baseURL (pm_api m)))) endpoint port"

definition selectDirectOrLANEndpoint :: "surroundings \<Rightarrow> PeerManager \<Rightarrow> PeerInfo \<Rightarrow> string \<times> string" where
  "selectDirectOrLANEndpoint su m peer =
     (let direct = manager_sanitize m (normalizePublicEndpoint (pi_PublicEndpoint peer)) 51820;
          lan = manager_sanitize m (preferLANEndpoint (su_addrs su) (pi_LocalEndpoints peer) (wt_cidr (pm_tunnel m))) 51820
      in if samePublicNAT (pm_localPublicEndpoint m) (pi_PublicEndpoint peer)
         then (if lan \<noteq> [] then (lan, ''lan'') else ([], []))
         else if direct \<noteq> [] then (direct, ''p2p'')
         else if lan \<noteq> [] \<and> lanFallbackEnabled (su_lanEnv su) then (lan, ''lan'')
         else ([], []))"

text \<open>
  \<open>resolveRelayEndpoint\<close>: the relay the server assigns. Without a member ID the API key is used,
  and the local peer's ID as a member ID when there is no key.
\<close>

definition assigned_relay :: "surroundings \<Rightarrow> string \<Rightarrow> (PeerManager, RelayInfo) procedure" where
  "assigned_relay su peerID =
     (\<lambda>m. if pm_memberID m \<noteq> [] then on_api (MemberGetNearestRelay (su_codec su) (pm_memberID m) (pm_networkID m) peerID) m
          else (case on_api (GetNearestRelay (su_codec su) (pm_networkID m) peerID) m of
                  (Inl e, m1) \<Rightarrow>
                    if Contains (ToLower (error_string e)) ''missing api key'' \<and> TrimSpace (pm_localPeerID m1) \<noteq> []
                    then on_api (MemberGetNearestRelay (su_codec su) (pm_localPeerID m1) (pm_networkID m1) peerID) m1
                    else (Inl e, m1)
                | (Inr info, m1) \<Rightarrow> (Inr info, m1)))"

definition resolveRelayEndpoint :: "surroundings \<Rightarrow> string \<Rightarrow> (PeerManager, string) procedure" where
  "resolveRelayEndpoint su peerID =
     andThen (assigned_relay su peerID) (\<lambda>info m. (relay_info_endpoint (PublicHost (ac_baseURL (pm_api m))) info, m))"

text \<open>The endpoint of a peer: direct or on the LAN, otherwise a relay, otherwise none.\<close>

definition endpoint_or_relay :: "surroundings \<Rightarrow> PeerInfo \<Rightarrow> PeerManager \<Rightarrow> (string \<times> string) \<times> PeerManager" where
  "endpoint_or_relay su peer m =
     (let (endpoint, via) = selectDirectOrLANEndpoint su m peer
      in if endpoint \<noteq> [] then ((endpoint, via), m)
         else (case resolveRelayEndpoint su (pi_ID peer) m of
                 (Inr relayEndpoint, m1) \<Rightarrow> (if relayEndpoint \<noteq> [] then (relayEndpoint, ''relay'') else (endpoint, via), m1)
               | (Inl _, m1) \<Rightarrow> ((endpoint, via), m1)))"

subsection \<open>Connecting\<close>

definition addCandidate :: "PeerManager \<Rightarrow> string \<times> string \<Rightarrow> (string \<times> string) list \<Rightarrow> (string \<times> string) list" where
  "addCandidate m c candidates =
     (let endpoint = manager_sanitize m (fst c) 51820
      in if endpoint = [] then candidates
         else if endpoint \<in> fst ` set candidates then candidates
         else candidates @ [(endpoint, snd c)])"

definition candidates_of :: "surroundings \<Rightarrow> PeerManager \<Rightarrow> PeerInfo \<Rightarrow> string \<Rightarrow> string \<Rightarrow> (string \<times> string) list" where
  "candidates_of su m peer primaryEndpoint primaryVia =
     addCandidate m (preferLANEndpoint (su_addrs su) (pi_LocalEndpoints peer) (wt_cidr (pm_tunnel m)), ''lan'')
       (addCandidate m (normalizePublicEndpoint (pi_PublicEndpoint peer), ''p2p'')
         (addCandidate m (primaryEndpoint, primaryVia) []))"

fun try_candidates :: "int \<Rightarrow> string \<Rightarrow> string \<Rightarrow> go_error option \<Rightarrow> (string \<times> string) list \<Rightarrow> (WGTunnel, string \<times> string) procedure" where
  "try_candidates now publicKey allowedIP lastErr [] t =
     (Inl (case lastErr of Some e \<Rightarrow> e | None \<Rightarrow> Errorf ''no endpoint candidates available''), t)"
| "try_candidates now publicKey allowedIP lastErr (c # cs) t =
     (case AddPeer now publicKey (fst c) allowedIP t of
        (Inl e, t') \<Rightarrow> try_candidates now publicKey allowedIP (Some e) cs t'
      | (Inr _, t') \<Rightarrow> (Inr c, t'))"

definition addPeerWithFallback ::
    "surroundings \<Rightarrow> int \<Rightarrow> PeerInfo \<Rightarrow> string \<Rightarrow> string \<Rightarrow> string \<Rightarrow> (PeerManager, string \<times> string) procedure" where
  "addPeerWithFallback su now peer primaryEndpoint primaryVia allowedIP =
     (\<lambda>m. on_tunnel (try_candidates now (pi_PublicKey peer) allowedIP None (candidates_of su m peer primaryEndpoint primaryVia)) m)"

definition new_connection :: "int \<Rightarrow> PeerInfo \<Rightarrow> string \<times> string \<Rightarrow> PeerConnection" where
  "new_connection now peer final =
     \<lparr>cn_PeerID = pi_ID peer, cn_PeerName = pi_Name peer, cn_PublicKey = pi_PublicKey peer, cn_VirtualIP = pi_VirtualIP peer,
      cn_Endpoint = fst final, cn_ConnectedVia = snd final, cn_LastSeen = now\<rparr>"

definition connectToPeer :: "surroundings \<Rightarrow> int \<Rightarrow> PeerInfo \<Rightarrow> (PeerManager, unit) procedure" where
  "connectToPeer su now peer =
     (\<lambda>m0. let ((endpoint0, connectedVia), m) = endpoint_or_relay su peer m0;
               endpoint = manager_sanitize m endpoint0 51820;
               ip = TrimSpace (pi_VirtualIP peer);
               allowedIP = (if Contains ip ''/'' then ip else ip @ ''/32'')
           in if endpoint0 = [] then (Inl (Errorf (''connect to peer: no endpoint available for '' @ pi_Name peer)), m)
              else if endpoint = [] then (Inl (Errorf (''connect to peer: invalid endpoint for '' @ pi_Name peer)), m)
              else if ip = [] then (Inl (Errorf ''connect to peer: peer virtual ip is required''), m)
              else andThen (wrap ''connect to peer: add tunnel peer'' (addPeerWithFallback su now peer endpoint connectedVia allowedIP)) (\<lambda>final.
                   modifies (\<lambda>n. n\<lparr>pm_peers := AList.update (pi_ID peer) (new_connection now peer final) (pm_peers n)\<rparr>)) m)"

definition disconnectPeer :: "string \<Rightarrow> PeerManager \<Rightarrow> PeerManager" where
  "disconnectPeer peerID m =
     (case map_of (pm_peers m) peerID of
        None \<Rightarrow> m
      | Some conn \<Rightarrow>
          let m1 = (if cn_PublicKey conn \<noteq> [] then snd (on_tunnel (RemovePeer (cn_PublicKey conn)) m) else m)
          in m1\<lparr>pm_peers := AList.delete peerID (pm_peers m1)\<rparr>)"

subsection \<open>Synchronisation\<close>

definition fetchPeers :: "surroundings \<Rightarrow> (PeerManager, PeerInfo list) procedure" where
  "fetchPeers su =
     (\<lambda>m. if pm_memberID m \<noteq> [] then on_api (MemberGetPeers (su_codec su) (pm_memberID m)) m
          else on_api (GetPeers (su_codec su) (pm_networkID m)) m)"

text \<open>A connection that is kept: its endpoint is updated when it changed. A failed update of the tunnel is only printed.\<close>

definition update_connection :: "surroundings \<Rightarrow> int \<Rightarrow> PeerInfo \<Rightarrow> PeerConnection \<Rightarrow> PeerManager \<Rightarrow> PeerManager" where
  "update_connection su now peer existing m0 =
     (let ((endpoint0, via), m) = endpoint_or_relay su peer m0;
          newEndpoint = manager_sanitize m endpoint0 51820
      in if newEndpoint \<noteq> [] \<and> newEndpoint \<noteq> cn_Endpoint existing
         then (let m1 = snd (on_tunnel (UpdatePeerEndpoint now (cn_PublicKey existing) newEndpoint) m)
               in m1\<lparr>pm_peers := AList.update (pi_ID peer)
                    (existing\<lparr>cn_Endpoint := newEndpoint, cn_ConnectedVia := via, cn_LastSeen := now\<rparr>) (pm_peers m1)\<rparr>)
         else m\<lparr>pm_peers := AList.update (pi_ID peer) (existing\<lparr>cn_LastSeen := now\<rparr>) (pm_peers m)\<rparr>)"

definition sync_one :: "surroundings \<Rightarrow> int \<Rightarrow> PeerInfo \<Rightarrow> PeerManager \<Rightarrow> PeerManager" where
  "sync_one su now peer m =
     (if pi_ID peer = [] \<or> pi_ID peer = pm_localPeerID m then m
      else case map_of (pm_peers m) (pi_ID peer) of
             None \<Rightarrow> snd (connectToPeer su now peer m)
           | Some existing \<Rightarrow> update_connection su now peer existing m)"

definition observed :: "PeerManager \<Rightarrow> PeerInfo list \<Rightarrow> string set" where
  "observed m peerList = pi_ID ` {p \<in> set peerList. pi_ID p \<noteq> [] \<and> pi_ID p \<noteq> pm_localPeerID m}"

definition syncPeersOnce :: "surroundings \<Rightarrow> int \<Rightarrow> (PeerManager, unit) procedure" where
  "syncPeersOnce su now =
     andThen (wrap ''sync peers: fetch peers'' (fetchPeers su)) (\<lambda>peerList m.
       let m1 = fold (sync_one su now) peerList m;
           gone = filter (\<lambda>peerID. peerID \<notin> observed m peerList) (map fst (pm_peers m1))
       in (Inr (), fold disconnectPeer gone m1))"

definition manager_Stop :: "PeerManager \<Rightarrow> PeerManager" where
  "manager_Stop m = fold disconnectPeer (map fst (pm_peers m)) m"

definition ListConnections :: "PeerManager \<Rightarrow> PeerConnection list" where
  "ListConnections m = map snd (pm_peers m)"

text \<open>The end of \<open>ForceRelay\<close> and \<open>AttemptDirect\<close>: the connection's record after the tunnel took the endpoint.\<close>

definition set_endpoint :: "string \<Rightarrow> string \<Rightarrow> string \<Rightarrow> int \<Rightarrow> PeerManager \<Rightarrow> PeerManager" where
  "set_endpoint peerID endpoint via now m =
     (case map_of (pm_peers m) peerID of
        None \<Rightarrow> m
      | Some current \<Rightarrow>
          m\<lparr>pm_peers := AList.update peerID (current\<lparr>cn_Endpoint := endpoint, cn_ConnectedVia := via, cn_LastSeen := now\<rparr>) (pm_peers m)\<rparr>)"

definition ForceRelay :: "surroundings \<Rightarrow> int \<Rightarrow> string \<Rightarrow> (PeerManager, unit) procedure" where
  "ForceRelay su now peerID =
     (\<lambda>m. case map_of (pm_peers m) peerID of
            None \<Rightarrow> (Inl (Errorf ''force relay: peer not connected''), m)
          | Some conn \<Rightarrow>
              andThen (wrap ''force relay: assign relay'' (resolveRelayEndpoint su peerID)) (\<lambda>endpoint.
              andThen (wrap ''force relay: update tunnel endpoint'' (on_tunnel (UpdatePeerEndpoint now (cn_PublicKey conn) endpoint))) (\<lambda>_.
              modifies (set_endpoint peerID endpoint ''relay'' now))) m)"

definition AttemptDirect :: "surroundings \<Rightarrow> int \<Rightarrow> string \<Rightarrow> (PeerManager, unit) procedure" where
  "AttemptDirect su now peerID =
     (\<lambda>m0. if wt_wgReady (pm_tunnel m0) then (Inr (), m0)
           else
             andThen (wrap ''attempt direct: fetch peers'' (fetchPeers su)) (\<lambda>peers m.
               case find (\<lambda>p. pi_ID p = peerID) peers of
                 None \<Rightarrow> (Inl (Errorf ''attempt direct: peer not found''), m)
               | Some target \<Rightarrow>
                   let endpoint = preferIPv4 (su_lanEnv su) (su_addrs su) (pi_PublicEndpoint target) (pi_LocalEndpoints target) (wt_cidr (pm_tunnel m))
                   in if endpoint = [] then (Inl (Errorf ''attempt direct: peer has no direct endpoint''), m)
                      else case map_of (pm_peers m) peerID of
                             None \<Rightarrow> (Inl (Errorf ''attempt direct: peer not connected''), m)
                           | Some conn \<Rightarrow>
                               andThen (wrap ''attempt direct: update tunnel endpoint'' (on_tunnel (UpdatePeerEndpoint now (cn_PublicKey conn) endpoint))) (\<lambda>_.
                               modifies (set_endpoint peerID endpoint ''p2p'' now)) m) m0)"

subsection \<open>What the calls leave alone\<close>

text \<open>No command of the machine fails, and the tunnel runs.\<close>

definition quiet :: "WGTunnel \<Rightarrow> bool" where
  "quiet t \<longleftrightarrow> wt_started t \<and> m_script (wt_os t) = []"

lemma run_cmd_quiet: "m_script m = [] \<Longrightarrow> run_cmd c m = (None, m\<lparr>m_trace := m_trace m @ [(c, True)]\<rparr>)"
  by (simp add: run_cmd_def)

lemmas tunnel_cmds = addWGPeer_def removeWGPeer_def updateWGPeerEndpoint_def addHostRoute_def removeHostRoute_def
  checked_cmd_def route_cmd_def ignored_cmd_def

lemma AddPeer_quiet:
  assumes "quiet t" "TrimSpace k \<noteq> []" "TrimSpace e \<noteq> []" "TrimSpace a \<noteq> []"
  shows "\<exists>t'. AddPeer now k e a t = (Inr (), t') \<and> quiet t'"
  using assms by (simp add: AddPeer_def Let_def quiet_def on_os_def on_field_def tunnel_cmds run_cmd_quiet)

lemma RemovePeer_quiet:
  assumes "quiet t" "k \<in> fst ` set (wt_peers t)"
  shows "\<exists>t'. RemovePeer k t = (Inr (), t') \<and> quiet t'"
proof -
  obtain c where "map_of (wt_peers t) k = Some c" using assms(2) by (auto simp: map_of_keys)
  then show ?thesis using assms(1)
    by (simp add: RemovePeer_def quiet_def on_os_def on_field_def tunnel_cmds run_cmd_quiet)
qed

lemma tunnel_ops_quiet:
  "quiet t \<Longrightarrow> quiet (snd (AddPeer now k e a t))" "quiet t \<Longrightarrow> quiet (snd (RemovePeer k t))"
  "quiet t \<Longrightarrow> quiet (snd (UpdatePeerEndpoint now k e t))"
  by (auto simp: AddPeer_def RemovePeer_def UpdatePeerEndpoint_def Let_def quiet_def on_os_def on_field_def tunnel_cmds
      run_cmd_quiet split: option.splits)

text \<open>What every operation on a peer keeps of the tunnel.\<close>

definition steady :: "WGTunnel \<Rightarrow> WGTunnel \<Rightarrow> bool" where
  "steady t t' \<longleftrightarrow> wt_cidr t' = wt_cidr t \<and> (quiet t \<longrightarrow> quiet t')"

lemma steady_trans: "steady t t1 \<Longrightarrow> steady t1 t2 \<Longrightarrow> steady t t2"
  by (simp add: steady_def)

lemma AddPeer_steady: "AddPeer now k e a t = (r, t') \<Longrightarrow> steady t t'"
  using tunnel_ops_quiet(1) [of t now k e a] by (auto simp: steady_def elim!: AddPeer_cases)

lemma RemovePeer_steady: "RemovePeer k t = (r, t') \<Longrightarrow> steady t t'"
  using tunnel_ops_quiet(2) [of t k] by (auto simp: steady_def elim!: RemovePeer_cases)

lemma UpdatePeerEndpoint_steady: "UpdatePeerEndpoint now k e t = (r, t') \<Longrightarrow> steady t t'"
  using tunnel_ops_quiet(3) [of t now k e] by (auto simp: steady_def elim!: UpdatePeerEndpoint_cases)

text \<open>Calls of the API keep the client's server and nothing of the manager but the client changes.\<close>

lemma retry_loop_base: "ac_baseURL (snd (retry_loop jc out target verb fullURL body mode attempt lastErr c)) = ac_baseURL c"
proof (induction jc out target verb fullURL body mode attempt lastErr c rule: retry_loop.induct)
  case (1 jc out target verb fullURL body mode attempt lastErr c)
  then show ?case
    by (subst retry_loop.simps) (fastforce simp: Let_def httpDo_effect split: sum.splits verdict.splits)
qed

definition same_but_api :: "PeerManager \<Rightarrow> PeerManager \<Rightarrow> bool" where
  "same_but_api m m' \<longleftrightarrow> (\<exists>c. m' = m\<lparr>pm_api := c\<rparr> \<and> ac_baseURL c = ac_baseURL (pm_api m))"

lemma same_but_api_refl [simp]: "same_but_api m m"
  unfolding same_but_api_def by (rule exI [of _ "pm_api m"]) simp

lemma same_but_api_trans: "same_but_api m m1 \<Longrightarrow> same_but_api m1 m2 \<Longrightarrow> same_but_api m m2"
  by (auto simp: same_but_api_def)

lemma on_api_same: "ac_baseURL (snd (p (pm_api m))) = ac_baseURL (pm_api m) \<Longrightarrow> same_but_api m (snd (on_api p m))"
  by (auto simp: same_but_api_def on_api_def on_field_def split: prod.splits)

lemma doJSON_base: "ac_baseURL (snd (doJSON jc verb path body mode out target c)) = ac_baseURL c"
  by (simp add: doJSON_def retry_loop_base)

lemma wrap_snd_eq: "snd (wrap ctx p s) = snd (p s)"
  by (simp add: wrap_def split: prod.split sum.split)

lemma relay_calls_base:
  "ac_baseURL (snd (MemberGetNearestRelay jc mid nid pid c)) = ac_baseURL c" "ac_baseURL (snd (GetNearestRelay jc nid pid c)) = ac_baseURL c"
  "ac_baseURL (snd (MemberGetPeers jc mid c)) = ac_baseURL c" "ac_baseURL (snd (GetPeers jc nid c)) = ac_baseURL c"
proof -
  have step: "ac_baseURL (snd (andThen p (\<lambda>out. reads (\<lambda>c. g c out)) c)) = ac_baseURL c" if "ac_baseURL (snd (p c)) = ac_baseURL c"
    for p :: "(Client, RelayInfo) procedure" and g :: "Client \<Rightarrow> RelayInfo \<Rightarrow> RelayInfo"
    using that by (auto simp: andThen_def reads_def split: prod.split sum.split)
  show "ac_baseURL (snd (MemberGetNearestRelay jc mid nid pid c)) = ac_baseURL c" "ac_baseURL (snd (GetNearestRelay jc nid pid c)) = ac_baseURL c"
    unfolding MemberGetNearestRelay_def GetNearestRelay_def by (rule step, simp add: wrap_snd_eq doJSON_base)+
  show "ac_baseURL (snd (MemberGetPeers jc mid c)) = ac_baseURL c" "ac_baseURL (snd (GetPeers jc nid c)) = ac_baseURL c"
    by (simp_all add: MemberGetPeers_def GetPeers_def wrap_snd_eq doJSON_base)
qed

lemma fetchPeers_same: "same_but_api m (snd (fetchPeers su m))"
  by (simp add: fetchPeers_def on_api_same relay_calls_base)

lemma assigned_relay_same: "same_but_api m (snd (assigned_relay su pid m))"
  by (auto simp: assigned_relay_def on_api_same relay_calls_base split: prod.split sum.split)
    (metis on_api_same relay_calls_base same_but_api_trans snd_conv)+

lemma resolveRelayEndpoint_same: "same_but_api m (snd (resolveRelayEndpoint su pid m))"
  using assigned_relay_same [of m su pid] by (auto simp: resolveRelayEndpoint_def andThen_def split: prod.splits sum.splits)

lemma resolveRelayEndpoint_public: "resolveRelayEndpoint su pid m = (Inr e, m') \<Longrightarrow> e \<noteq> [] \<and> public_endpoint e"
  by (auto simp: resolveRelayEndpoint_def andThen_eq_Inr dest: relay_info_endpoint_public)

lemma endpoint_or_relay_same: "endpoint_or_relay su peer m = (ev, m') \<Longrightarrow> same_but_api m m'"
  using resolveRelayEndpoint_same [of m su "pi_ID peer"]
  by (auto simp: endpoint_or_relay_def Let_def split: prod.splits sum.splits if_splits)

subsection \<open>Effects of connecting and disconnecting\<close>

abbreviation peer_ids :: "PeerManager \<Rightarrow> string set" where
  "peer_ids m \<equiv> fst ` set (pm_peers m)"

abbreviation tunnel_keys :: "PeerManager \<Rightarrow> string set" where
  "tunnel_keys m \<equiv> fst ` set (wt_peers (pm_tunnel m))"

lemma addCandidate_public:
  "\<forall>c \<in> set cs. public_endpoint (fst c) \<Longrightarrow> \<forall>c \<in> set (addCandidate m c0 cs). public_endpoint (fst c)"
  using sanitize_default_port(1) by (auto simp: addCandidate_def Let_def manager_sanitize_def)

lemma candidates_public: "\<forall>c \<in> set (candidates_of su m peer e via). public_endpoint (fst c)"
  unfolding candidates_of_def by (intro addCandidate_public) simp

lemma try_candidates_cases:
  assumes "try_candidates now k a lastErr cs t = (r, t')"
  shows "steady t t' \<and> (case r of
      Inl _ \<Rightarrow> fst ` set (wt_peers t') = fst ` set (wt_peers t)
    | Inr c \<Rightarrow> c \<in> set cs \<and> fst ` set (wt_peers t') = insert k (fst ` set (wt_peers t)) \<and> TrimSpace k \<noteq> [])"
  using assms
proof (induction cs arbitrary: lastErr t)
  case Nil
  then show ?case by (auto simp: steady_def)
next
  case (Cons c cs)
  obtain r1 t1 where add: "AddPeer now k (fst c) a t = (r1, t1)" by fastforce
  note step = AddPeer_steady [OF add] wg.add_keys [OF add]
  show ?case
  proof (cases r1)
    case (Inl e)
    with Cons.prems add have "try_candidates now k a (Some e) cs t1 = (r, t')" by simp
    from Cons.IH [OF this] step Inl show ?thesis by (auto split: sum.splits intro: steady_trans)
  next
    case (Inr u)
    then have "TrimSpace k \<noteq> []" using add by (auto simp: AddPeer_def Let_def split: if_splits)
    with Inr Cons.prems add step show ?thesis by auto
  qed
qed

lemma connectToPeer_cases:
  assumes "connectToPeer su now peer m = (r, m')"
  obtains (failed) c t where "r \<noteq> Inr ()" "m' = m\<lparr>pm_api := c, pm_tunnel := t\<rparr>" "ac_baseURL c = ac_baseURL (pm_api m)"
      "steady (pm_tunnel m) t" "fst ` set (wt_peers t) = tunnel_keys m"
    | (connected) c t final where "r = Inr ()" "ac_baseURL c = ac_baseURL (pm_api m)" "steady (pm_tunnel m) t"
      "m' = m\<lparr>pm_api := c, pm_tunnel := t, pm_peers := AList.update (pi_ID peer) (new_connection now peer final) (pm_peers m)\<rparr>"
      "fst ` set (wt_peers t) = insert (pi_PublicKey peer) (tunnel_keys m)" "TrimSpace (pi_PublicKey peer) \<noteq> []" "public_endpoint (fst final)"
proof -
  obtain ep via m1 where er: "endpoint_or_relay su peer m = ((ep, via), m1)" by (metis surj_pair)
  obtain c where c: "m1 = m\<lparr>pm_api := c\<rparr>" "ac_baseURL c = ac_baseURL (pm_api m)"
    using endpoint_or_relay_same [OF er] by (auto simp: same_but_api_def)
  let ?e = "manager_sanitize m1 ep 51820"
  let ?ip = "TrimSpace (pi_VirtualIP peer)"
  let ?a = "if Contains ?ip ''/'' then ?ip else ?ip @ ''/32''"
  show thesis
  proof (cases "ep = [] \<or> ?e = [] \<or> ?ip = []")
    case True
    then have "r \<noteq> Inr ()" "m' = m1" using assms er by (auto simp: connectToPeer_def Let_def split: if_splits)
    with c show thesis by (intro failed [where c = c and t = "pm_tunnel m"]) (simp_all add: steady_def)
  next
    case False
    obtain r1 t where t: "try_candidates now (pi_PublicKey peer) ?a None (candidates_of su m1 peer ?e via) (pm_tunnel m) = (r1, t)" by fastforce
    then have run: "addPeerWithFallback su now peer ?e via ?a m1 = (r1, m1\<lparr>pm_tunnel := t\<rparr>)"
      using c by (simp add: addPeerWithFallback_def on_tunnel_def on_field_def)
    note tc = try_candidates_cases [OF t]
    show thesis
    proof (cases r1)
      case (Inl e)
      with assms er False run have "r \<noteq> Inr ()" "m' = m1\<lparr>pm_tunnel := t\<rparr>" by (auto simp: connectToPeer_def Let_def)
      with Inl tc c show thesis by (intro failed [where c = c and t = t]) simp_all
    next
      case (Inr final)
      with assms er False run have "r = Inr ()"
        "m' = m1\<lparr>pm_tunnel := t, pm_peers := AList.update (pi_ID peer) (new_connection now peer final) (pm_peers m1)\<rparr>"
        by (auto simp: connectToPeer_def Let_def)
      with Inr tc c candidates_public show thesis by (intro connected [where c = c and t = t and final = final]) auto
    qed
  qed
qed

lemma update_connection_cases:
  assumes "map_of (pm_peers m) (pi_ID peer) = Some existing"
  obtains c t conn where "ac_baseURL c = ac_baseURL (pm_api m)" "steady (pm_tunnel m) t"
    "update_connection su now peer existing m = m\<lparr>pm_api := c, pm_tunnel := t, pm_peers := AList.update (pi_ID peer) conn (pm_peers m)\<rparr>"
    "fst ` set (wt_peers t) = tunnel_keys m" "cn_PublicKey conn = cn_PublicKey existing"
    "cn_Endpoint conn = cn_Endpoint existing \<or> public_endpoint (cn_Endpoint conn)"
proof -
  obtain ep via m1 where er: "endpoint_or_relay su peer m = ((ep, via), m1)" by (metis surj_pair)
  obtain c where c: "m1 = m\<lparr>pm_api := c\<rparr>" "ac_baseURL c = ac_baseURL (pm_api m)"
    using endpoint_or_relay_same [OF er] by (auto simp: same_but_api_def)
  let ?e = "manager_sanitize m1 ep 51820"
  show thesis
  proof (cases "?e \<noteq> [] \<and> ?e \<noteq> cn_Endpoint existing")
    case True
    obtain r t where t: "UpdatePeerEndpoint now (cn_PublicKey existing) ?e (pm_tunnel m) = (r, t)" by fastforce
    note facts = UpdatePeerEndpoint_steady [OF t] wg.update_keys [OF t]
    have "public_endpoint ?e" using True sanitize_default_port(1) by (simp add: manager_sanitize_def)
    with facts c True er t show thesis
      by (intro that [where c = c and t = t and conn = "existing\<lparr>cn_Endpoint := ?e, cn_ConnectedVia := via, cn_LastSeen := now\<rparr>"])
        (simp_all add: update_connection_def on_tunnel_def on_field_def Let_def)
  next
    case False
    then show thesis using c er
      by (intro that [where c = c and t = "pm_tunnel m" and conn = "existing\<lparr>cn_LastSeen := now\<rparr>"]) (auto simp: update_connection_def Let_def steady_def)
  qed
qed

text \<open>A peer of the server's list that is neither nameless nor this device.\<close>

definition wanted :: "PeerManager \<Rightarrow> PeerInfo \<Rightarrow> bool" where
  "wanted m peer \<longleftrightarrow> pi_ID peer \<noteq> [] \<and> pi_ID peer \<noteq> pm_localPeerID m"

lemma sync_one_cases:
  obtains (idle) c t where "sync_one su now peer m = m\<lparr>pm_api := c, pm_tunnel := t\<rparr>" "ac_baseURL c = ac_baseURL (pm_api m)"
      "steady (pm_tunnel m) t" "fst ` set (wt_peers t) = tunnel_keys m"
      "wanted m peer \<Longrightarrow> map_of (pm_peers m) (pi_ID peer) = None \<and> fst (connectToPeer su now peer m) \<noteq> Inr ()"
    | (added) c t conn where "wanted m peer" "map_of (pm_peers m) (pi_ID peer) = None" "ac_baseURL c = ac_baseURL (pm_api m)"
      "sync_one su now peer m = m\<lparr>pm_api := c, pm_tunnel := t, pm_peers := AList.update (pi_ID peer) conn (pm_peers m)\<rparr>"
      "steady (pm_tunnel m) t" "cn_PublicKey conn = pi_PublicKey peer" "TrimSpace (pi_PublicKey peer) \<noteq> []"
      "fst ` set (wt_peers t) = insert (pi_PublicKey peer) (tunnel_keys m)" "public_endpoint (cn_Endpoint conn)"
    | (updated) c t conn existing where "wanted m peer" "map_of (pm_peers m) (pi_ID peer) = Some existing" "ac_baseURL c = ac_baseURL (pm_api m)"
      "sync_one su now peer m = m\<lparr>pm_api := c, pm_tunnel := t, pm_peers := AList.update (pi_ID peer) conn (pm_peers m)\<rparr>"
      "steady (pm_tunnel m) t" "cn_PublicKey conn = cn_PublicKey existing" "fst ` set (wt_peers t) = tunnel_keys m"
      "cn_Endpoint conn = cn_Endpoint existing \<or> public_endpoint (cn_Endpoint conn)"
proof (cases "wanted m peer")
  case False
  then show thesis by (intro idle [where c = "pm_api m" and t = "pm_tunnel m"]) (auto simp: sync_one_def wanted_def steady_def)
next
  case True
  show thesis
  proof (cases "map_of (pm_peers m) (pi_ID peer)")
    case (Some existing)
    with True have eq: "sync_one su now peer m = update_connection su now peer existing m" by (simp add: sync_one_def wanted_def)
    show thesis by (rule update_connection_cases [OF Some, of su now, folded eq]) (rule updated [OF True Some]; assumption)
  next
    case None
    obtain r m' where con: "connectToPeer su now peer m = (r, m')" by fastforce
    with None True have "sync_one su now peer m = m'" by (simp add: sync_one_def wanted_def)
    with con None True show thesis
    proof (cases rule: connectToPeer_cases [consumes 1, case_names failed connected])
      case (failed c t)
      with con None \<open>sync_one su now peer m = m'\<close> show thesis by (intro idle [where c = c and t = t]) auto
    next
      case (connected c t final)
      with None True \<open>sync_one su now peer m = m'\<close> show thesis
        by (intro added [where c = c and t = t and conn = "new_connection now peer final"]) (simp_all add: new_connection_def)
    qed
  qed
qed

lemma disconnectPeer_cases:
  obtains t where "disconnectPeer i m = m\<lparr>pm_tunnel := t, pm_peers := AList.delete i (pm_peers m)\<rparr>" "steady (pm_tunnel m) t"
    "\<And>conn. map_of (pm_peers m) i = Some conn \<Longrightarrow> tunnel_keys m - {cn_PublicKey conn} \<subseteq> fst ` set (wt_peers t) \<and> fst ` set (wt_peers t) \<subseteq> tunnel_keys m \<and>
        (quiet (pm_tunnel m) \<and> cn_PublicKey conn \<noteq> [] \<and> cn_PublicKey conn \<in> tunnel_keys m \<longrightarrow> fst ` set (wt_peers t) = tunnel_keys m - {cn_PublicKey conn})"
    "map_of (pm_peers m) i = None \<Longrightarrow> t = pm_tunnel m"
proof (cases "map_of (pm_peers m) i")
  case None
  then have "AList.delete i (pm_peers m) = pm_peers m" by (simp add: map_of_eq_None_iff delete_idem)
  with None show thesis by (intro that [of "pm_tunnel m"]) (simp_all add: disconnectPeer_def steady_def)
next
  case (Some conn)
  show thesis
  proof (cases "cn_PublicKey conn = []")
    case True
    with Some show thesis by (intro that [of "pm_tunnel m"]) (simp_all add: disconnectPeer_def steady_def)
  next
    case False
    obtain r t where t: "RemovePeer (cn_PublicKey conn) (pm_tunnel m) = (r, t)" by fastforce
    note facts = RemovePeer_steady [OF t] wg.remove_keys [OF t]
    have "quiet (pm_tunnel m) \<and> cn_PublicKey conn \<in> tunnel_keys m \<longrightarrow> r = Inr ()" using RemovePeer_quiet t by fastforce
    with facts False Some t show thesis
      by (intro that [of t]) (auto simp: disconnectPeer_def on_tunnel_def on_field_def Let_def)
  qed
qed

subsection \<open>A whole synchronisation\<close>

text \<open>What no step of a synchronisation changes: the device's identity, its server and its prefix.\<close>

definition same_setting :: "PeerManager \<Rightarrow> PeerManager \<Rightarrow> bool" where
  "same_setting m m' \<longleftrightarrow> pm_localPeerID m' = pm_localPeerID m \<and> pm_localPublicEndpoint m' = pm_localPublicEndpoint m \<and>
     ac_baseURL (pm_api m') = ac_baseURL (pm_api m) \<and> steady (pm_tunnel m) (pm_tunnel m')"

lemma same_setting_refl [simp]: "same_setting m m"
  by (simp add: same_setting_def steady_def)

lemma same_setting_trans: "same_setting m m1 \<Longrightarrow> same_setting m1 m2 \<Longrightarrow> same_setting m m2"
  by (auto simp: same_setting_def intro: steady_trans)

lemma sync_one_setting: "same_setting m (sync_one su now peer m)"
  by (rule sync_one_cases [of su now peer m]) (simp_all add: same_setting_def)

lemma wanted_setting: "same_setting m m' \<Longrightarrow> wanted m' p = wanted m p"
  by (simp add: wanted_def same_setting_def)

lemma observed_wanted: "observed m peerList = pi_ID ` {p \<in> set peerList. wanted m p}"
  by (simp add: observed_def wanted_def)

lemma sync_one_ids: "peer_ids m \<subseteq> peer_ids (sync_one su now peer m)"
  "peer_ids (sync_one su now peer m) \<subseteq> peer_ids m \<union> (if wanted m peer then {pi_ID peer} else {})"
  by (rule sync_one_cases [of su now peer m]; auto)+

lemma sync_one_distinct: "distinct (map fst (pm_peers m)) \<Longrightarrow> distinct (map fst (pm_peers (sync_one su now peer m)))"
  by (rule sync_one_cases [of su now peer m]) (simp_all add: distinct_update)

text \<open>An endpoint is the one the connection had, or a public one.\<close>

definition endpoints_from :: "PeerManager \<Rightarrow> PeerManager \<Rightarrow> bool" where
  "endpoints_from m0 m \<longleftrightarrow> (\<forall>i conn. map_of (pm_peers m) i = Some conn \<longrightarrow>
     public_endpoint (cn_Endpoint conn) \<or> map_option cn_Endpoint (map_of (pm_peers m0) i) = Some (cn_Endpoint conn))"

lemma sync_one_endpoints: "endpoints_from m0 m \<Longrightarrow> endpoints_from m0 (sync_one su now peer m)"
proof (rule sync_one_cases [of su now peer m])
  fix c t conn existing
  assume inv: "endpoints_from m0 m" and ex: "map_of (pm_peers m) (pi_ID peer) = Some existing"
    and eq: "sync_one su now peer m = m\<lparr>pm_api := c, pm_tunnel := t, pm_peers := AList.update (pi_ID peer) conn (pm_peers m)\<rparr>"
    and ep: "cn_Endpoint conn = cn_Endpoint existing \<or> public_endpoint (cn_Endpoint conn)"
  have "public_endpoint (cn_Endpoint existing) \<or> map_option cn_Endpoint (map_of (pm_peers m0) (pi_ID peer)) = Some (cn_Endpoint existing)"
    using inv ex by (simp only: endpoints_from_def)
  then show "endpoints_from m0 (sync_one su now peer m)" using inv ep unfolding eq by (auto simp: endpoints_from_def update_conv')
qed (auto simp: endpoints_from_def update_conv')

text \<open>A relation between managers that every step of the loop extends holds over the whole loop.\<close>

lemma fold_sync_rel:
  assumes "\<And>m. R m m" "\<And>m m1 p. R m m1 \<Longrightarrow> same_setting m m1 \<Longrightarrow> p \<in> set ps \<Longrightarrow> R m (sync_one su now p m1)"
  shows "R m (fold (sync_one su now) ps m) \<and> same_setting m (fold (sync_one su now) ps m)"
proof -
  have "R m (fold (sync_one su now) qs m1) \<and> same_setting m (fold (sync_one su now) qs m1)"
    if "set qs \<subseteq> set ps" "R m m1" "same_setting m m1" for qs m1
    using that
  proof (induction qs arbitrary: m1)
    case (Cons q qs)
    then show ?case using assms(2) [of m m1 q] same_setting_trans [OF _ sync_one_setting] by simp
  qed simp
  from this [of ps m] assms(1) show ?thesis by simp
qed

lemma fold_sync_ids:
  "peer_ids m \<subseteq> peer_ids (fold (sync_one su now) ps m) \<and> peer_ids (fold (sync_one su now) ps m) \<subseteq> peer_ids m \<union> observed m ps"
proof (rule fold_sync_rel [THEN conjunct1])
  fix m m1 p
  assume ids: "peer_ids m \<subseteq> peer_ids m1 \<and> peer_ids m1 \<subseteq> peer_ids m \<union> observed m ps" and "same_setting m m1" "p \<in> set ps"
  then have w: "wanted m1 p \<Longrightarrow> pi_ID p \<in> observed m ps" by (auto simp: observed_wanted wanted_setting)
  then have "peer_ids (sync_one su now p m1) \<subseteq> peer_ids m \<union> observed m ps"
    using ids by (intro order_trans [OF sync_one_ids(2)] Un_least) (simp_all add: w)
  moreover have "peer_ids m \<subseteq> peer_ids (sync_one su now p m1)"
    using ids by (intro order_trans [OF _ sync_one_ids(1)]) simp
  ultimately show "peer_ids m \<subseteq> peer_ids (sync_one su now p m1) \<and> peer_ids (sync_one su now p m1) \<subseteq> peer_ids m \<union> observed m ps" by simp
qed simp

lemma fold_sync_distinct:
  "distinct (map fst (pm_peers m)) \<Longrightarrow> distinct (map fst (pm_peers (fold (sync_one su now) ps m)))"
  by (induction ps arbitrary: m) (simp_all add: sync_one_distinct)

lemma fold_sync_endpoints: "endpoints_from m0 m \<Longrightarrow> endpoints_from m0 (fold (sync_one su now) ps m)"
  by (induction ps arbitrary: m) (simp_all add: sync_one_endpoints)

lemma fold_disconnect:
  "pm_peers (fold disconnectPeer ids m) = filter (\<lambda>p. fst p \<notin> set ids) (pm_peers m) \<and> same_setting m (fold disconnectPeer ids m)"
proof (induction ids arbitrary: m)
  case (Cons i ids)
  have "pm_peers (disconnectPeer i m) = AList.delete i (pm_peers m)" "same_setting m (disconnectPeer i m)"
    by (rule disconnectPeer_cases [of i m]; simp add: same_setting_def)+
  with Cons [of "disconnectPeer i m"] show ?case
    by (auto simp: AList.delete_eq intro: filter_cong same_setting_trans)
qed simp

lemma map_of_filter_key: "map_of (filter (\<lambda>p. Q (fst p)) xs) i = (if Q i then map_of xs i else None)"
  by (induction xs) auto

lemma syncPeersOnce_run:
  assumes "fetchPeers su m = (Inr peerList, m1)"
  shows "same_but_api m m1 \<and> syncPeersOnce su now m =
    (Inr (), fold disconnectPeer (filter (\<lambda>i. i \<notin> observed m1 peerList) (map fst (pm_peers (fold (sync_one su now) peerList m1))))
       (fold (sync_one su now) peerList m1))"
  using assms fetchPeers_same [of m su] by (simp add: syncPeersOnce_def Let_def)

subsection \<open>Connections and tunnel\<close>

text \<open>
  Peers are identified by their keys: \<open>key\<close> is the key of each peer. Every connection has the key
  of its peer, and the tunnel has a peer for each connection; it is exact when it has no other.
\<close>

definition agrees :: "(string \<Rightarrow> string) \<Rightarrow> PeerManager \<Rightarrow> bool" where
  "agrees key m \<longleftrightarrow> (\<forall>i conn. map_of (pm_peers m) i = Some conn \<longrightarrow> cn_PublicKey conn = key i \<and> key i \<noteq> []) \<and>
     key ` peer_ids m \<subseteq> tunnel_keys m"

definition exact :: "(string \<Rightarrow> string) \<Rightarrow> PeerManager \<Rightarrow> bool" where
  "exact key m \<longleftrightarrow> quiet (pm_tunnel m) \<and> tunnel_keys m \<subseteq> key ` peer_ids m"

lemma sync_one_agrees:
  assumes "pi_PublicKey p = key (pi_ID p)" "agrees key m"
  shows "agrees key (sync_one su now p m) \<and> (exact key m \<longrightarrow> exact key (sync_one su now p m))"
proof (rule sync_one_cases [of su now p m])
  fix c t
  assume "sync_one su now p m = m\<lparr>pm_api := c, pm_tunnel := t\<rparr>" "steady (pm_tunnel m) t" "fst ` set (wt_peers t) = tunnel_keys m"
  with assms(2) show ?thesis by (simp add: agrees_def exact_def steady_def)
next
  fix c t conn
  assume *: "map_of (pm_peers m) (pi_ID p) = None" "steady (pm_tunnel m) t" "cn_PublicKey conn = pi_PublicKey p"
    "sync_one su now p m = m\<lparr>pm_api := c, pm_tunnel := t, pm_peers := AList.update (pi_ID p) conn (pm_peers m)\<rparr>"
    "TrimSpace (pi_PublicKey p) \<noteq> []" "fst ` set (wt_peers t) = insert (pi_PublicKey p) (tunnel_keys m)"
  then have "key (pi_ID p) \<noteq> []" using assms(1) by (metis TrimSpace_Nil)
  with * assms show ?thesis by (simp add: agrees_def exact_def steady_def update_conv' subset_insertI2)
next
  fix c t conn existing
  assume *: "map_of (pm_peers m) (pi_ID p) = Some existing" "steady (pm_tunnel m) t" "cn_PublicKey conn = cn_PublicKey existing"
    "sync_one su now p m = m\<lparr>pm_api := c, pm_tunnel := t, pm_peers := AList.update (pi_ID p) conn (pm_peers m)\<rparr>"
    "fst ` set (wt_peers t) = tunnel_keys m"
  then have "pi_ID p \<in> peer_ids m" by (auto simp: map_of_keys)
  with * assms show ?thesis by (simp add: agrees_def exact_def steady_def update_conv' insert_absorb)
qed

lemma fold_sync_agrees:
  assumes "\<And>p. p \<in> set ps \<Longrightarrow> pi_PublicKey p = key (pi_ID p)" "agrees key m"
  shows "agrees key (fold (sync_one su now) ps m) \<and> (exact key m \<longrightarrow> exact key (fold (sync_one su now) ps m))"
  using assms by (induction ps arbitrary: m) (simp_all add: sync_one_agrees)

lemma disconnect_agrees:
  assumes "inj key" "agrees key m"
  shows "agrees key (disconnectPeer i m) \<and> (exact key m \<longrightarrow> exact key (disconnectPeer i m))"
proof (rule disconnectPeer_cases [of i m])
  fix t
  assume eq: "disconnectPeer i m = m\<lparr>pm_tunnel := t, pm_peers := AList.delete i (pm_peers m)\<rparr>" and st: "steady (pm_tunnel m) t"
    and some: "\<And>conn. map_of (pm_peers m) i = Some conn \<Longrightarrow> tunnel_keys m - {cn_PublicKey conn} \<subseteq> fst ` set (wt_peers t) \<and>
        fst ` set (wt_peers t) \<subseteq> tunnel_keys m \<and> (quiet (pm_tunnel m) \<and> cn_PublicKey conn \<noteq> [] \<and> cn_PublicKey conn \<in> tunnel_keys m \<longrightarrow>
        fst ` set (wt_peers t) = tunnel_keys m - {cn_PublicKey conn})"
    and none: "map_of (pm_peers m) i = None \<Longrightarrow> t = pm_tunnel m"
  have img: "key ` (peer_ids m - {i}) = key ` peer_ids m - {key i}" using assms(1) by (auto dest: injD)
  show ?thesis
  proof (cases "map_of (pm_peers m) i")
    case None
    then have "AList.delete i (pm_peers m) = pm_peers m" by (simp add: map_of_eq_None_iff delete_idem)
    with none [OF None] assms(2) eq show ?thesis by (simp add: agrees_def exact_def)
  next
    case (Some conn)
    have "i \<in> peer_ids m" using Some by (auto simp: map_of_keys)
    then have k: "cn_PublicKey conn = key i" "key i \<noteq> []" "key i \<in> tunnel_keys m"
      using assms(2) Some unfolding agrees_def by blast+
    have sub: "key ` peer_ids m - {key i} \<subseteq> fst ` set (wt_peers t)"
    proof (rule order_trans)
      show "key ` peer_ids m - {key i} \<subseteq> tunnel_keys m - {key i}" using assms(2) by (intro Diff_mono) (simp_all add: agrees_def)
      show "tunnel_keys m - {key i} \<subseteq> fst ` set (wt_peers t)" using some [OF Some] k(1) by simp
    qed
    have "agrees key (disconnectPeer i m)"
      using assms(2) sub by (simp add: agrees_def eq img delete_conv')
    moreover have "exact key (disconnectPeer i m)" if "exact key m"
    proof -
      have "fst ` set (wt_peers t) = tunnel_keys m - {key i}" "quiet t" using that some [OF Some] k st by (simp_all add: exact_def steady_def)
      moreover have "tunnel_keys m - {key i} \<subseteq> key ` peer_ids m - {key i}" using that unfolding exact_def by blast
      ultimately show ?thesis by (simp add: exact_def eq img)
    qed
    ultimately show ?thesis by blast
  qed
qed

lemma fold_disconnect_agrees:
  assumes "inj key" "agrees key m"
  shows "agrees key (fold disconnectPeer ids m) \<and> (exact key m \<longrightarrow> exact key (fold disconnectPeer ids m))"
  using assms by (induction ids arbitrary: m) (simp_all add: disconnect_agrees)

subsection \<open>IPv4 endpoints\<close>

text \<open>The text of an IPv4 address and a port number is taken as it is by every function that cleans endpoints.\<close>

definition v4_endpoint :: "u32 \<Rightarrow> int \<Rightarrow> string" where
  "v4_endpoint a port = IPv4_String a @ '':'' @ Itoa port"

lemma digits_plain: "is_digit c \<or> c = CHR ''.'' \<Longrightarrow> c \<noteq> CHR '':'' \<and> c \<noteq> CHR ''['' \<and> c \<noteq> CHR '']''"
  by (auto simp: is_digit_def)

lemma IPv4_String_plain: "CHR '':'' \<notin> set (IPv4_String a)" "CHR ''['' \<notin> set (IPv4_String a)" "CHR '']'' \<notin> set (IPv4_String a)"
  using IPv4_String_chars [of "CHR '':''" a] IPv4_String_chars [of "CHR ''[''" a] IPv4_String_chars [of "CHR '']''" a]
  by (auto simp: is_digit_def)

lemma port_text:
  assumes "0 < port"
  shows "Itoa port \<noteq> []" "list_all is_digit (Itoa port)" "TrimSpace (Itoa port) = Itoa port"
    "CHR '':'' \<notin> set (Itoa port)" "CHR ''['' \<notin> set (Itoa port)" "CHR '']'' \<notin> set (Itoa port)"
proof -
  show p: "Itoa port \<noteq> []" "list_all is_digit (Itoa port)" using Itoa_digits [of port] assms by simp_all
  then show "TrimSpace (Itoa port) = Itoa port" by (intro TrimSpace_digits_dots) (auto simp: list_all_iff)
  show "CHR '':'' \<notin> set (Itoa port)" "CHR ''['' \<notin> set (Itoa port)" "CHR '']'' \<notin> set (Itoa port)"
    using p(2) digits_plain by (auto simp: list_all_iff)
qed

lemma split_at_colon:
  assumes "CHR '':'' \<notin> set h" "CHR ''['' \<notin> set h" "CHR '']'' \<notin> set h" "CHR '':'' \<notin> set p" "CHR ''['' \<notin> set p" "CHR '']'' \<notin> set p" "h \<noteq> []"
  shows "SplitHostPort (h @ CHR '':'' # p) = Some (h, p)"
proof -
  have tp: "takeWhile (\<lambda>c. c \<noteq> CHR '':'') (rev p) = rev p" using assms(4) by (auto simp: takeWhile_eq_all_conv)
  have tw: "rev (takeWhile (\<lambda>c. c \<noteq> CHR '':'') (rev (h @ CHR '':'' # p))) = p"
    using assms(4) by (subst rev_append) (simp add: takeWhile_tail tp)
  have "hd h \<in> set h" using assms(7) by simp
  then have hd: "hd (h @ CHR '':'' # p) \<noteq> CHR ''[''" using assms(2,7) by (metis hd_append2)
  show ?thesis unfolding SplitHostPort_def tw Let_def using hd assms by simp
qed

lemma v4_endpoint_parts:
  assumes "0 < port"
  shows "TrimSpace (v4_endpoint a port) = v4_endpoint a port" "SplitHostPort (v4_endpoint a port) = Some (IPv4_String a, Itoa port)"
    "JoinHostPort (IPv4_String a) (Itoa port) = v4_endpoint a port" "v4_endpoint a port \<noteq> []"
proof -
  have last: "last (v4_endpoint a port) = last (Itoa port)" "last (Itoa port) \<in> set (Itoa port)" "hd (v4_endpoint a port) = hd (IPv4_String a)"
    using port_text [OF assms] by (simp_all add: v4_endpoint_def)
  then have "is_digit (last (Itoa port))" using port_text(2) [OF assms] by (simp add: list_all_iff)
  then have "last (v4_endpoint a port) \<notin> set space_lasts" using digit_or_dot_not_space(2) last(1) by simp
  moreover have "hd (v4_endpoint a port) \<notin> set space_heads"
    using IPv4_String_chars [of "hd (IPv4_String a)" a] digit_or_dot_not_space(1) unfolding last(3) by auto
  ultimately show "TrimSpace (v4_endpoint a port) = v4_endpoint a port" by (intro TrimSpace_id) (simp_all add: v4_endpoint_def)
  show "SplitHostPort (v4_endpoint a port) = Some (IPv4_String a, Itoa port)"
    using split_at_colon [of "IPv4_String a" "Itoa port"] IPv4_String_plain port_text [OF assms] by (simp add: v4_endpoint_def)
  show "JoinHostPort (IPv4_String a) (Itoa port) = v4_endpoint a port" using IPv4_String_plain by (simp add: JoinHostPort_def v4_endpoint_def)
qed (simp add: v4_endpoint_def)

lemma ToLower_IPv4_String: "ToLower (IPv4_String a) = IPv4_String a"
proof -
  have "lower_char c = c" if "c \<in> set (IPv4_String a)" for c
    using IPv4_String_chars [OF that] by (auto simp: lower_char_def is_digit_def)
  then show ?thesis by (simp add: ToLower_def map_idI)
qed

lemma routable_not_internal:
  assumes "isRoutableIPv4 (of_v4 a)"
  shows "\<not> isInternalHostName (IPv4_String a)"
proof -
  have ne: "IPv4_String a \<noteq> s" if "ParseIP s = None" for s using that ParseIP_IPv4_String [of a] by auto
  have "ParseIP ''relay'' = None" "ParseIP ''server'' = None" "ParseIP ''localhost'' = None" by code_simp+
  then have "IPv4_String a \<noteq> ''relay''" "IPv4_String a \<noteq> ''server''" "IPv4_String a \<noteq> ''localhost''" using ne by blast+
  then show ?thesis using assms unfolding isInternalHostName_def isRoutableIPv4_def TrimSpace_IPv4_String ToLower_IPv4_String Let_def
    by (simp split: if_splits)
qed

lemma normalize_v4_endpoint: "isRoutableIPv4 (of_v4 a) \<Longrightarrow> 0 < port \<Longrightarrow> normalizePublicEndpoint (v4_endpoint a port) = v4_endpoint a port"
  using v4_endpoint_parts [of port a] port_text [of port] by (simp add: normalizePublicEndpoint_def)

lemma TrimCutset_IPv4_String: "TrimCutset (IPv4_String a) ''[]'' = IPv4_String a"
proof -
  have "c \<notin> set ''[]''" if "c \<in> set (IPv4_String a)" for c using that IPv4_String_plain [of a] by auto
  from this [of "hd (IPv4_String a)"] this [of "hd (rev (IPv4_String a))"]
  have "hd (IPv4_String a) \<notin> set ''[]''" "hd (rev (IPv4_String a)) \<notin> set ''[]''" by (simp_all add: hd_rev)
  then have "dropWhile (\<lambda>c. c \<in> set ''[]'') (IPv4_String a) = IPv4_String a"
    "dropWhile (\<lambda>c. c \<in> set ''[]'') (rev (IPv4_String a)) = rev (IPv4_String a)"
    by (simp_all only: dropWhile_eq_self_iff simp_thms)
  then show ?thesis by (simp only: TrimCutset_def TrimRight_def rev_rev_ident)
qed

lemma sanitize_v4_endpoint:
  assumes "isRoutableIPv4 (of_v4 a)" "0 < port" "port \<le> 65535"
  shows "sanitizeEndpoint ph (v4_endpoint a port) dflt = v4_endpoint a port"
proof -
  have "port_or dflt (Itoa port) = port" using assms Atoi_Itoa [of port] by (simp add: port_or_def port_text)
  then have "sanitize_split (v4_endpoint a port) dflt = (IPv4_String a, port)"
    using v4_endpoint_parts [OF assms(2), of a] by (simp add: sanitize_split_def)
  then show ?thesis using v4_endpoint_parts [OF assms(2), of a] assms routable_not_internal [OF assms(1)]
    by (auto simp: sanitizeEndpoint_def Let_def TrimCutset_IPv4_String split: option.splits)
qed

lemma select_v4:
  assumes "pi_PublicEndpoint p = v4_endpoint a port" "isRoutableIPv4 (of_v4 a)" "0 < port" "port \<le> 65535"
    and "\<not> samePublicNAT (pm_localPublicEndpoint m) (pi_PublicEndpoint p)"
  shows "selectDirectOrLANEndpoint su m p = (v4_endpoint a port, ''p2p'')"
  using assms by (simp add: selectDirectOrLANEndpoint_def manager_sanitize_def normalize_v4_endpoint sanitize_v4_endpoint v4_endpoint_parts)

lemma connect_v4:
  assumes "quiet (pm_tunnel m)" "selectDirectOrLANEndpoint su m p = (v4_endpoint a port, via)" "isRoutableIPv4 (of_v4 a)" "0 < port" "port \<le> 65535"
    and "pi_VirtualIP p = IPv4_String b" "TrimSpace (pi_PublicKey p) \<noteq> []"
  shows "fst (connectToPeer su now p m) = Inr ()"
proof -
  let ?e = "v4_endpoint a port" and ?ip = "IPv4_String b"
  let ?al = "if Contains ?ip ''/'' then ?ip else ?ip @ ''/32''"
  have e: "manager_sanitize m ?e 51820 = ?e" "?e \<noteq> []"
    using assms(3-5) by (simp_all add: manager_sanitize_def sanitize_v4_endpoint v4_endpoint_parts)
  then have "\<exists>cs. candidates_of su m p ?e via = (?e, via) # cs" by (simp add: candidates_of_def addCandidate_def Let_def)
  then obtain cs where cs: "candidates_of su m p ?e via = (?e, via) # cs" by blast
  have "TrimSpace (?ip @ ''/32'') = ?ip @ ''/32''"
  proof (rule TrimSpace_digits_dots)
    fix c
    assume "c \<in> set (?ip @ ''/32'')"
    then have "c \<in> set ?ip \<or> c = CHR ''/'' \<or> c = CHR ''3'' \<or> c = CHR ''2''" by auto
    then show "is_digit c \<or> c = CHR ''.'' \<or> c = CHR ''/''" using IPv4_String_chars [of c b] by (auto simp: is_digit_def)
  qed simp
  then have "TrimSpace ?al \<noteq> []" by simp
  moreover have "TrimSpace ?e \<noteq> []" using assms(4) e(2) by (simp add: v4_endpoint_parts)
  ultimately obtain t where "AddPeer now (pi_PublicKey p) ?e ?al (pm_tunnel m) = (Inr (), t)"
    using AddPeer_quiet [OF assms(1) assms(7)] by blast
  then have "addPeerWithFallback su now p ?e via ?al m = (Inr (?e, via), m\<lparr>pm_tunnel := t\<rparr>)"
    by (simp add: addPeerWithFallback_def cs on_tunnel_def on_field_def)
  with e assms(2,6) show ?thesis by (simp add: connectToPeer_def endpoint_or_relay_def Let_def)
qed

text \<open>A peer that can be connected at any moment of a loop over a list that names it is connected at its end.\<close>

lemma fold_sync_connects:
  assumes "p \<in> set ps" "wanted m p" "\<And>m1. same_setting m m1 \<Longrightarrow> fst (connectToPeer su now p m1) = Inr ()"
  shows "pi_ID p \<in> peer_ids (fold (sync_one su now) ps m)"
proof -
  obtain xs ys where ps: "ps = xs @ p # ys" using split_list [OF assms(1)] by blast
  let ?m1 = "fold (sync_one su now) xs m"
  have set1: "same_setting m ?m1" using fold_sync_rel [of "\<lambda>_ _. True" xs su now m] by simp
  then have w: "wanted ?m1 p" using assms(2) wanted_setting by blast
  have "pi_ID p \<in> peer_ids (sync_one su now p ?m1)"
    by (rule sync_one_cases [of su now p ?m1]) (use w assms(3) [OF set1] in simp_all)
  then show ?thesis using fold_sync_ids [of "sync_one su now p ?m1" su now ys] by (simp add: ps) blast
qed

subsection \<open>Properties\<close>


text \<open>
  C4. Connections and tunnel stay together. When every peer keeps a key of its own, a
  synchronisation leaves each connection with a configured peer of the tunnel, whatever commands
  fail; and as long as no command fails the tunnel has no peer beyond the connections.
\<close>

theorem sync_keeps_tunnel_exact:
  assumes "inj key" "fetchPeers su m = (Inr peerList, m1)" "\<forall>p \<in> set peerList. pi_PublicKey p = key (pi_ID p)"
    and "agrees key m" "syncPeersOnce su now m = (r, m')"
  shows "agrees key m' \<and> (exact key m \<longrightarrow> exact key m' \<and> tunnel_keys m' = key ` peer_ids m')"
proof -
  obtain c where "m1 = m\<lparr>pm_api := c\<rparr>" using syncPeersOnce_run [OF assms(2), of now] unfolding same_but_api_def by blast
  then have same: "agrees key m1" "exact key m1 = exact key m" using assms(4) by (simp_all add: agrees_def exact_def)
  note f = fold_sync_agrees [where ps = peerList and key = key and su = su and now = now, OF bspec [OF assms(3)] same(1)]
  have "agrees key m' \<and> (exact key m \<longrightarrow> exact key m')"
    using syncPeersOnce_run [OF assms(2), of now] assms(5) fold_disconnect_agrees [OF assms(1) f [THEN conjunct1]] f same(2) by auto
  then show ?thesis by (simp add: agrees_def exact_def set_eq_subset)
qed

text \<open>
  C23. A peer that can be reached is connected. A listed peer with a key, an IPv4 address in the
  network and an announced public IPv4 endpoint that is not behind the device's own NAT is
  connected after the synchronisation, whatever the other peers are, as long as the tunnel runs
  and no command fails.
\<close>

theorem sync_connects_reachable:
  assumes "fetchPeers su m = (Inr peerList, m1)" "syncPeersOnce su now m = (r, m')" "quiet (pm_tunnel m)"
    and "p \<in> set peerList" "pi_ID p \<noteq> []" "pi_ID p \<noteq> pm_localPeerID m"
    and "pi_PublicEndpoint p = v4_endpoint a port" "isRoutableIPv4 (of_v4 a)" "0 < port" "port \<le> 65535"
    and "\<not> samePublicNAT (pm_localPublicEndpoint m) (pi_PublicEndpoint p)"
    and "pi_VirtualIP p = IPv4_String b" "TrimSpace (pi_PublicKey p) \<noteq> []"
  shows "pi_ID p \<in> peer_ids m'"
proof -
  obtain c where m1: "m1 = m\<lparr>pm_api := c\<rparr>" using syncPeersOnce_run [OF assms(1), of now] unfolding same_but_api_def by blast
  then have w: "wanted m1 p" using assms(5,6) by (simp add: wanted_def)
  have "fst (connectToPeer su now p m2) = Inr ()" if "same_setting m1 m2" for m2
    using that m1 assms(3,7-) connect_v4 [OF _ select_v4 [of p a port m2 su]] by (simp add: same_setting_def steady_def)
  then have "pi_ID p \<in> peer_ids (fold (sync_one su now) peerList m1)" using fold_sync_connects [OF assms(4) w] by blast
  moreover have "pi_ID p \<in> observed m1 peerList" using w assms(4) by (auto simp: observed_wanted)
  ultimately show ?thesis
    using syncPeersOnce_run [OF assms(1), of now] assms(2) fold_disconnect by (fastforce simp: image_iff)
qed


subsection \<open>Errors that are dropped\<close>

text \<open>A removal that fails is forgotten: the connection is gone, and the tunnel keeps the peer.\<close>

lemma failed_removal_forgotten:
  assumes "map_of (pm_peers m) i = Some conn" "cn_PublicKey conn \<noteq> []" "fst (RemovePeer (cn_PublicKey conn) (pm_tunnel m)) \<noteq> Inr ()"
  shows "i \<notin> peer_ids (disconnectPeer i m) \<and> tunnel_keys (disconnectPeer i m) = tunnel_keys m"
  using assms wg.failed_remove_keeps [OF assms(3)]
  by (cases "RemovePeer (cn_PublicKey conn) (pm_tunnel m)") (simp add: disconnectPeer_def on_tunnel_def on_field_def)

text \<open>An endpoint that the tunnel refused is recorded as the connection's endpoint, so the next synchronisation does not try it again.\<close>

lemma failed_update_recorded:
  assumes "map_of (pm_peers m) (pi_ID peer) = Some existing" "selectDirectOrLANEndpoint su m peer = (e, via)"
    and "manager_sanitize m e 51820 = e" "e \<noteq> []" "e \<noteq> cn_Endpoint existing"
  shows "map_option cn_Endpoint (map_of (pm_peers (update_connection su now peer existing m)) (pi_ID peer)) = Some e"
  using assms by (simp add: update_connection_def endpoint_or_relay_def Let_def on_tunnel_def on_field_def update_conv split: prod.split)

subsection \<open>An example\<close>

text \<open>A device whose tunnel runs, and a server that lists one other peer with a public endpoint.\<close>

definition sample_peer :: PeerInfo where
  "sample_peer = \<lparr>pi_ID = ''p'', pi_NetworkID = ''n'', pi_Name = ''peer'', pi_MachineID = ''mach'', pi_PublicKey = ''p'',
     pi_VirtualIP = IPv4_String 0x0A000003, pi_PublicEndpoint = v4_endpoint 0x05060708 4000, pi_LocalEndpoints = [], pi_OS = [],
     pi_Version = [], pi_IsOnline = True, pi_VNCPort = 0, pi_VNCAvailable = False, pi_RelayID = []\<rparr>"

definition listing_codec :: json_codec where
  "listing_codec = \<lparr>jc_envelope = (\<lambda>_. Inr \<lparr>re_Success = True, re_Data = ''x'', re_Error = []\<rparr>), jc_auth = (\<lambda>_. Inr zero_auth),
     jc_registration = (\<lambda>_. Inr zero_registration), jc_peers = (\<lambda>_. Inr [sample_peer]), jc_relay = (\<lambda>_. Inr zero_relay)\<rparr>"

definition sample_surroundings :: surroundings where
  "sample_surroundings = \<lparr>su_codec = listing_codec, su_addrs = [], su_lanEnv = []\<rparr>"

definition sample_manager :: PeerManager where
  "sample_manager = \<lparr>pm_tunnel = sample_tunnel\<lparr>wt_started := True\<rparr>, pm_api = sample_client\<lparr>ac_outcomes := [Response 200 ''ok'']\<rparr>,
     pm_peers = [], pm_networkID = ''n'', pm_localPeerID = ''me'', pm_memberID = ''me'', pm_localPublicEndpoint = [], pm_syncInterval = 15\<rparr>"

lemma sample_fetch: "\<exists>m1. fetchPeers sample_surroundings sample_manager = (Inr [sample_peer], m1)"
proof -
  have "url_Host (''http://h'' @ ''/api/v1/members/'' @ PathEscape ''me'' @ ''/peers'') = Some ''h''" by code_simp
  then show ?thesis
    by (simp add: fetchPeers_def sample_manager_def sample_surroundings_def on_api_def on_field_def MemberGetPeers_def wrap_def doJSON_def
        retry_loop.simps maxRetries_def Let_def httpDo_def sample_client_def listing_codec_def decode_target_def)
qed

lemma sample_peer_facts:
  "isRoutableIPv4 (of_v4 0x05060708)" "\<not> samePublicNAT [] e" "TrimSpace ''p'' \<noteq> []" "quiet (pm_tunnel sample_manager)"
proof -
  show "isRoutableIPv4 (of_v4 0x05060708)" by code_simp
  show "\<not> samePublicNAT [] e" by (simp add: samePublicNAT_def endpointHost_def)
  show "TrimSpace ''p'' \<noteq> []" by code_simp
  show "quiet (pm_tunnel sample_manager)" by (simp add: quiet_def sample_manager_def sample_tunnel_def)
qed

theorem sync_connects_reachable_witness:
  "''p'' \<in> peer_ids (snd (syncPeersOnce sample_surroundings 0 sample_manager))"
proof -
  obtain m1 where f: "fetchPeers sample_surroundings sample_manager = (Inr [sample_peer], m1)" using sample_fetch by blast
  obtain r m' where s: "syncPeersOnce sample_surroundings 0 sample_manager = (r, m')" by fastforce
  have "pi_ID sample_peer \<in> peer_ids m'"
    by (rule sync_connects_reachable [OF f s sample_peer_facts(4), where p = sample_peer and a = "0x05060708" and port = 4000 and b = "0x0A000003"])
      (simp_all add: sample_peer_def sample_manager_def sample_peer_facts)
  then show ?thesis by (simp add: s sample_peer_def)
qed


theorem sync_keeps_tunnel_exact_witness:
  "agrees id sample_manager \<and> exact id sample_manager \<and>
   tunnel_keys (snd (syncPeersOnce sample_surroundings 0 sample_manager)) = id ` peer_ids (snd (syncPeersOnce sample_surroundings 0 sample_manager))"
proof -
  obtain m1 where f: "fetchPeers sample_surroundings sample_manager = (Inr [sample_peer], m1)" using sample_fetch by blast
  obtain r m' where s: "syncPeersOnce sample_surroundings 0 sample_manager = (r, m')" by fastforce
  have "agrees id sample_manager" "exact id sample_manager"
    using sample_peer_facts(4) by (simp_all add: agrees_def exact_def) (simp_all add: sample_manager_def sample_tunnel_def)
  moreover have "inj (id :: string \<Rightarrow> string)" "\<forall>p \<in> set [sample_peer]. pi_PublicKey p = id (pi_ID p)" by (simp_all add: sample_peer_def)
  ultimately show ?thesis using sync_keeps_tunnel_exact [of id, OF _ f _ _ s] unfolding s by simp
qed

end
