(* ===== verification/Coord.thy ===== *)
theory Coord
  imports Api Endpoints
begin

text \<open>
  Coordination of the devices: the handlers \<open>coord_handler.go\<close>, \<open>member_tunnel_handler.go\<close> and
  \<open>relay_handler.go\<close> of \<open>server/internal/api\<close>, with the Redis cache they share. The cache holds
  strings and sets under text keys, each with the time it expires; commands may fail. A value
  of a key of announcements is the JSON text of a \<open>coordEntry\<close>, kept here as the entry. The
  device endpoints of this theory are the ones \<open>router.go\<close> routes to.
\<close>

subsection \<open>The cache\<close>

record coordEntry =
  ce_PeerID :: string
  ce_NetworkID :: string
  ce_PublicEndpoint :: string
  ce_LocalEndpoints :: "string list"
  ce_AnnouncedAt :: int

text \<open>\<open>rd_faults\<close> tells for the commands to come whether they fail; beyond it they succeed.\<close>

record redis =
  rd_strings :: "string \<rightharpoonup> coordEntry \<times> int"
  rd_sets :: "string \<rightharpoonup> string list \<times> int"
  rd_faults :: "bool list"

text \<open>\<open>None\<close> for the cache is a nil client.\<close>

record coord =
  co_world :: world
  co_redis :: "redis option"

definition second :: int where "second = 1000000000"

definition entryKey :: "string \<Rightarrow> string \<Rightarrow> string" where
  "entryKey networkID peerID = ''coord:announce:'' @ networkID @ '':'' @ peerID"

definition indexKey :: "string \<Rightarrow> string" where
  "indexKey networkID = ''coord:network:'' @ networkID @ '':peers''"

text \<open>One command or transaction: \<open>None\<close> when it fails.\<close>

definition redis_do :: "(redis \<Rightarrow> 'a \<times> redis) \<Rightarrow> redis \<Rightarrow> 'a option \<times> redis" where
  "redis_do f rd =
     (case rd_faults rd of
        True # fs \<Rightarrow> (None, rd\<lparr>rd_faults := fs\<rparr>)
      | False # fs \<Rightarrow> (let (a, rd') = f (rd\<lparr>rd_faults := fs\<rparr>) in (Some a, rd'))
      | [] \<Rightarrow> (let (a, rd') = f rd in (Some a, rd')))"

definition live :: "int \<Rightarrow> ('a \<times> int) option \<Rightarrow> 'a option" where
  "live now v = (case v of Some (a, expires) \<Rightarrow> if now < expires then Some a else None | None \<Rightarrow> None)"

definition members :: "int \<Rightarrow> string \<Rightarrow> redis \<Rightarrow> string list" where
  "members now key rd = (case live now (rd_sets rd key) of Some ids \<Rightarrow> ids | None \<Rightarrow> [])"

text \<open>\<open>SMEMBERS\<close>, \<open>GET\<close> (\<open>None\<close> is \<open>redis.Nil\<close>) and \<open>SREM\<close>.\<close>

definition SMembers :: "int \<Rightarrow> string \<Rightarrow> redis \<Rightarrow> string list option \<times> redis" where
  "SMembers now key = redis_do (\<lambda>rd. (members now key rd, rd))"

definition redis_Get :: "int \<Rightarrow> string \<Rightarrow> redis \<Rightarrow> coordEntry option option \<times> redis" where
  "redis_Get now key = redis_do (\<lambda>rd. (live now (rd_strings rd key), rd))"

definition remove_member :: "string \<Rightarrow> string \<Rightarrow> redis \<Rightarrow> redis" where
  "remove_member key peerID rd =
     (case rd_sets rd key of
        Some (ids, expires) \<Rightarrow> rd\<lparr>rd_sets := (rd_sets rd)(key \<mapsto> (filter (\<lambda>i. i \<noteq> peerID) ids, expires))\<rparr>
      | None \<Rightarrow> rd)"

definition SRem :: "string \<Rightarrow> string \<Rightarrow> redis \<Rightarrow> unit option \<times> redis" where
  "SRem key peerID = redis_do (\<lambda>rd. ((), remove_member key peerID rd))"

text \<open>The transaction of an announcement: \<open>SET\<close> for 60 seconds, \<open>SADD\<close>, \<open>EXPIRE\<close> after 70 seconds.\<close>

definition store_entry :: "int \<Rightarrow> coordEntry \<Rightarrow> redis \<Rightarrow> redis" where
  "store_entry now entry rd =
     (let net = ce_NetworkID entry; peerID = ce_PeerID entry; ids = members now (indexKey net) rd
      in rd\<lparr>rd_strings := (rd_strings rd)(entryKey net peerID \<mapsto> (entry, now + 60 * second)),
            rd_sets := (rd_sets rd)(indexKey net \<mapsto> (if peerID \<in> set ids then ids else ids @ [peerID], now + 70 * second))\<rparr>)"

definition drop_entry :: "string \<Rightarrow> string \<Rightarrow> redis \<Rightarrow> redis" where
  "drop_entry net peerID rd =
     remove_member (indexKey net) peerID (rd\<lparr>rd_strings := (rd_strings rd)(entryKey net peerID := None)\<rparr>)"

subsection \<open>Handlers\<close>

type_synonym 'd coord_handler = "coord \<Rightarrow> 'd response \<times> coord"

definition on_world :: "(world, 'a) procedure \<Rightarrow> (coord, 'a) procedure" where
  "on_world p = on_field co_world (\<lambda>w c. c\<lparr>co_world := w\<rparr>) p"

definition coord_call :: "(world, 'a) procedure \<Rightarrow> (go_error \<Rightarrow> 'd response) \<Rightarrow> ('a \<Rightarrow> 'd coord_handler) \<Rightarrow> 'd coord_handler" where
  "coord_call p onerr k = (\<lambda>c. case on_world p c of (Inl e, c') \<Rightarrow> (onerr e, c') | (Inr a, c') \<Rightarrow> k a c')"

abbreviation co_now :: "coord \<Rightarrow> int" where
  "co_now c \<equiv> w_now (co_world c)"

subsection \<open>coord\_handler.go\<close>

record announceRequest =
  ar_PeerID :: string
  ar_NetworkID :: string
  ar_PublicEndpoint :: string
  ar_LocalEndpoints :: "string list"

definition CoordHandler_Announce :: "announceRequest option \<Rightarrow> string coord_handler" where
  "CoordHandler_Announce body =
     (\<lambda>c. case co_redis c of
            None \<Rightarrow> (Failure 503 ''coordination cache unavailable'', c)
          | Some rd \<Rightarrow>
              (case body of
                 None \<Rightarrow> (Failure 400 ''invalid request body'', c)
               | Some req \<Rightarrow>
                   let peerID = TrimSpace (ar_PeerID req); net = TrimSpace (ar_NetworkID req); endpoint = TrimSpace (ar_PublicEndpoint req)
                   in if peerID = [] \<or> net = [] \<or> endpoint = []
                      then (Failure 400 ''peer_id, network_id, and public_endpoint are required'', c)
                      else
                        let entry = \<lparr>ce_PeerID = peerID, ce_NetworkID = net, ce_PublicEndpoint = endpoint,
                              ce_LocalEndpoints = ar_LocalEndpoints req, ce_AnnouncedAt = co_now c\<rparr>
                        in case redis_do (\<lambda>rd. ((), store_entry (co_now c) entry rd)) rd of
                             (None, rd') \<Rightarrow> (Failure 500 ''failed to store endpoint'', c\<lparr>co_redis := Some rd'\<rparr>)
                           | (Some _, rd') \<Rightarrow> (Success 200 ''announced'', c\<lparr>co_redis := Some rd'\<rparr>)))"

text \<open>
  The map of the online peers is the list of the database, in which identifiers are unique: an
  entry overwrites the endpoints of the peer it names.
\<close>

definition put_endpoints :: "coordEntry \<Rightarrow> Peer list \<Rightarrow> Peer list" where
  "put_endpoints entry = map (\<lambda>p. if p_ID p = ce_PeerID entry
     then p\<lparr>p_PublicEndpoint := ce_PublicEndpoint entry, p_LocalEndpoints := ce_LocalEndpoints entry\<rparr> else p)"

fun coord_merge :: "int \<Rightarrow> string \<Rightarrow> string list \<Rightarrow> Peer list \<Rightarrow> redis \<Rightarrow> Peer list \<times> redis" where
  "coord_merge now net [] peers rd = (peers, rd)"
| "coord_merge now net (peerID # ids) peers rd =
     (case redis_Get now (entryKey net peerID) rd of
        (Some None, rd1) \<Rightarrow> coord_merge now net ids peers (snd (SRem (indexKey net) peerID rd1))
      | (None, rd1) \<Rightarrow> coord_merge now net ids peers rd1
      | (Some (Some entry), rd1) \<Rightarrow> coord_merge now net ids (put_endpoints entry peers) rd1)"

definition CoordHandler_ListPeers :: "string \<Rightarrow> string \<Rightarrow> Peer list coord_handler" where
  "CoordHandler_ListPeers networkParam excludeParam =
     (\<lambda>c0. case co_redis c0 of
             None \<Rightarrow> (Failure 503 ''coordination cache unavailable'', c0)
           | Some _ \<Rightarrow>
               let net = TrimSpace networkParam
               in if net = [] then (Failure 400 ''network id is required'', c0)
                  else coord_call (GetOnlinePeers net) (\<lambda>_. Failure 500 ''failed to load peers'') (\<lambda>online c.
                    case co_redis c of
                      None \<Rightarrow> (Failure 503 ''coordination cache unavailable'', c)
                    | Some rd \<Rightarrow>
                        (case SMembers (co_now c) (indexKey net) rd of
                           (None, rd1) \<Rightarrow> (Failure 500 ''failed to read endpoint index'', c\<lparr>co_redis := Some rd1\<rparr>)
                         | (Some ids, rd1) \<Rightarrow>
                             let (peers, rd2) = coord_merge (co_now c) net ids online rd1;
                                 exclude = TrimSpace excludeParam;
                                 items = filter (\<lambda>p. \<not> (exclude \<noteq> [] \<and> p_ID p = exclude)) peers
                             in (Success 200 (sort_key p_Name items), c\<lparr>co_redis := Some rd2\<rparr>))) c0)"

definition AssignRelay :: "string coord_handler" where
  "AssignRelay = (\<lambda>c. (Failure 501 ''use new relay assign handler'', c))"

definition generateRelayToken :: "bytes option \<Rightarrow> go_error + string" where
  "generateRelayToken random =
     (case random of
        None \<Rightarrow> Inl (Wrapf ''generate relay token'' (Errorf ''rand''))
      | Some buf \<Rightarrow> Inr (concat (map hex_byte buf)))"

subsection \<open>member\_tunnel\_handler.go\<close>

text \<open>\<open>authMember\<close>: any error of the store counts as an invalid token; the member's status is not looked at.\<close>

definition authMember :: "string \<Rightarrow> string \<Rightarrow> (Peer \<Rightarrow> 'd coord_handler) \<Rightarrow> 'd coord_handler" where
  "authMember midParam header k =
     (let memberID = TrimSpace midParam; token = readBearerToken header
      in if token = [] then (\<lambda>c. (Failure 401 ''member_token required'', c))
         else coord_call (GetPeerByMemberToken token) (\<lambda>_. Failure 401 ''invalid member token'') (\<lambda>peer.
           if memberID \<noteq> [] \<and> p_ID peer \<noteq> memberID then (\<lambda>c. (Failure 403 ''token does not match member'', c)) else k peer))"

definition tunnel_Heartbeat :: "string \<Rightarrow> string \<Rightarrow> heartbeatRequest option \<Rightarrow> string coord_handler" where
  "tunnel_Heartbeat mid header body =
     authMember mid header (\<lambda>peer.
     case body of
       None \<Rightarrow> (\<lambda>c. (Failure 400 ''invalid request body'', c))
     | Some req \<Rightarrow>
         coord_call (UpdatePeerStatus (p_ID peer)
             \<lparr>su_PublicEndpoint = TrimSpace (hb_PublicEndpoint req), su_LocalEndpoints = hb_LocalEndpoints req,
              su_VNCAvailable = hb_VNCAvailable req, su_RXBytes = hb_RXBytes req, su_TXBytes = hb_TXBytes req, su_RelayID = []\<rparr>)
           (\<lambda>_. Failure 500 ''failed to update status'') (\<lambda>_ c. (Success 200 ''ok'', c)))"

text \<open>Fields that the announcement leaves empty are kept.\<close>

definition merge_endpoints :: "coordEntry \<Rightarrow> Peer \<Rightarrow> Peer" where
  "merge_endpoints entry p =
     (let p1 = (if ce_PublicEndpoint entry \<noteq> [] then p\<lparr>p_PublicEndpoint := ce_PublicEndpoint entry\<rparr> else p)
      in if ce_LocalEndpoints entry \<noteq> [] then p1\<lparr>p_LocalEndpoints := ce_LocalEndpoints entry\<rparr> else p1)"

fun tunnel_merge :: "int \<Rightarrow> string \<Rightarrow> string list \<Rightarrow> Peer list \<Rightarrow> redis \<Rightarrow> Peer list \<times> redis" where
  "tunnel_merge now net [] peers rd = (peers, rd)"
| "tunnel_merge now net (peerID # ids) peers rd =
     (case redis_Get now (entryKey net peerID) rd of
        (Some (Some entry), rd1) \<Rightarrow>
          tunnel_merge now net ids (map (\<lambda>p. if p_ID p = ce_PeerID entry then merge_endpoints entry p else p) peers) rd1
      | (_, rd1) \<Rightarrow> tunnel_merge now net ids peers rd1)"

definition tunnel_fresh :: "string \<Rightarrow> Peer list \<Rightarrow> coord \<Rightarrow> Peer list \<times> coord" where
  "tunnel_fresh net peers c =
     (case co_redis c of
        None \<Rightarrow> (peers, c)
      | Some rd \<Rightarrow>
          (case SMembers (co_now c) (indexKey net) rd of
             (None, rd1) \<Rightarrow> (peers, c\<lparr>co_redis := Some rd1\<rparr>)
           | (Some ids, rd1) \<Rightarrow> (let (ps, rd2) = tunnel_merge (co_now c) net ids peers rd1 in (ps, c\<lparr>co_redis := Some rd2\<rparr>))))"

definition tunnel_Peers :: "string \<Rightarrow> string \<Rightarrow> Peer list coord_handler" where
  "tunnel_Peers mid header =
     authMember mid header (\<lambda>peer.
     coord_call (GetOnlinePeers (p_NetworkID peer)) (\<lambda>_. Failure 500 ''failed to list peers'') (\<lambda>peers c.
       let (fresh, c') = tunnel_fresh (p_NetworkID peer) peers c
       in (Success 200 (map hide_token (filter (\<lambda>p. p_ID p \<noteq> p_ID peer) fresh)), c')))"

definition tunnel_Announce :: "string \<Rightarrow> string \<Rightarrow> (string \<times> string list) option \<Rightarrow> string coord_handler" where
  "tunnel_Announce mid header body =
     authMember mid header (\<lambda>peer c.
     case body of
       None \<Rightarrow> (Success 200 ''skipped'', c)
     | Some (publicEndpoint, localEndpoints) \<Rightarrow>
         (case co_redis c of
            None \<Rightarrow> (Success 200 ''announced'', c)
          | Some rd \<Rightarrow>
              if TrimSpace publicEndpoint = [] then (Success 200 ''announced'', c)
              else
                let entry = \<lparr>ce_PeerID = p_ID peer, ce_NetworkID = p_NetworkID peer, ce_PublicEndpoint = publicEndpoint,
                      ce_LocalEndpoints = localEndpoints, ce_AnnouncedAt = co_now c\<rparr>
                in (Success 200 ''announced'', c\<lparr>co_redis := Some (snd (redis_do (\<lambda>rd. ((), store_entry (co_now c) entry rd)) rd))\<rparr>)))"

definition tunnel_Offline :: "string \<Rightarrow> string \<Rightarrow> string coord_handler" where
  "tunnel_Offline mid header =
     authMember mid header (\<lambda>peer c.
     let c1 = snd (on_world (UpdatePeerStatus (p_ID peer)
                \<lparr>su_PublicEndpoint = [], su_LocalEndpoints = [], su_VNCAvailable = False, su_RXBytes = 0, su_TXBytes = 0, su_RelayID = []\<rparr>) c);
         c2 = snd (on_world (MarkPeerOffline (p_ID peer)) c1);
         c3 = (case co_redis c2 of
                 None \<Rightarrow> c2
               | Some rd \<Rightarrow> c2\<lparr>co_redis := Some (snd (redis_do (\<lambda>rd. ((), drop_entry (p_NetworkID peer) (p_ID peer) rd)) rd))\<rparr>)
     in (Success 200 ''offline'', c3))"

subsection \<open>relay\_handler.go\<close>

record RelayAssignment =
  ra_PeerID :: string
  ra_RelayID :: string
  ra_RelayHost :: string
  ra_RelayPort :: int
  ra_Token :: string
  ra_Region :: string
  ra_RelayEndpoint :: string
  ra_SessionToken :: string
  ra_ExpiresAt :: int
  ra_NetworkID :: string

text \<open>
  \<open>RelayAssignHandler\<close>; \<open>hmac\<close> stands for the hexadecimal text of HMAC-SHA256, \<open>endpoint\<close> for the
  outcome of \<open>derivePublicRelayEndpoint\<close>, and \<open>unix\<close> is the clock in seconds. No caller is checked.
\<close>

definition RelayAssignHandler :: "(string \<Rightarrow> string \<Rightarrow> string) \<Rightarrow> string \<Rightarrow> go_error + string \<Rightarrow> int \<Rightarrow> string \<Rightarrow> string \<Rightarrow> RelayAssignment response" where
  "RelayAssignHandler hmac cfgSecret endpoint unix networkParam peerParam =
     (let networkID0 = TrimSpace networkParam; peerID = TrimSpace peerParam
      in if peerID = [] then Failure 400 ''missing peer_id''
         else case endpoint of
                Inl e \<Rightarrow> Failure 503 (error_string e)
              | Inr relayEndpoint \<Rightarrow>
                  let (relayHost, relayPort) =
                        (case SplitHostPort relayEndpoint of
                           Some (host, portStr) \<Rightarrow>
                             (host, case Atoi portStr of Some p \<Rightarrow> if 0 < p \<and> p \<le> 65535 then p else 3478 | None \<Rightarrow> 3478)
                         | None \<Rightarrow> (relayEndpoint, 3478));
                      networkID = (if networkID0 = [] then ''default'' else networkID0);
                      expiresAt = unix + 300;
                      secret = (if cfgSecret = [] then ''quicktunnel-default-relay-secret'' else cfgSecret);
                      token = hmac secret (networkID @ '':'' @ peerID @ '':'' @ Itoa expiresAt)
                  in Success 200
                       \<lparr>ra_PeerID = peerID, ra_RelayID = ''relay-default'', ra_RelayHost = relayHost, ra_RelayPort = relayPort,
                        ra_Token = token, ra_Region = ''default'', ra_RelayEndpoint = relayEndpoint, ra_SessionToken = token,
                        ra_ExpiresAt = expiresAt, ra_NetworkID = networkID\<rparr>)"

subsection \<open>Keys\<close>

text \<open>Identifiers without a colon: the keys of announcements tell them apart.\<close>

abbreviation plain_id :: "string \<Rightarrow> bool" where
  "plain_id s \<equiv> CHR '':'' \<notin> set s"

lemma append_colon_eq: "plain_id p \<Longrightarrow> plain_id q \<Longrightarrow> a @ CHR '':'' # p = b @ CHR '':'' # q \<longleftrightarrow> a = b \<and> p = q"
proof
  assume p: "plain_id p" "plain_id q" and eq: "a @ CHR '':'' # p = b @ CHR '':'' # q"
  have suf: "takeWhile (\<lambda>c. c \<noteq> CHR '':'') (rev (a @ CHR '':'' # p)) = rev p" if "plain_id p" for a p
  proof -
    have "takeWhile (\<lambda>c. c \<noteq> CHR '':'') (rev p) = rev p" using that by (auto simp: takeWhile_eq_all_conv)
    moreover have "rev (a @ CHR '':'' # p) = rev p @ CHR '':'' # rev a" by simp
    ultimately show ?thesis using that by (simp only: takeWhile_tail simp_thms not_True_eq_False)
  qed
  from suf [OF p(1), of a] suf [OF p(2), of b] eq have "p = q" by simp
  with eq show "a = b \<and> p = q" by simp
qed auto

lemma entryKey_inject: "plain_id p \<Longrightarrow> plain_id q \<Longrightarrow> entryKey a p = entryKey b q \<longleftrightarrow> a = b \<and> p = q"
  using append_colon_eq [of p q a b] by (simp add: entryKey_def)

text \<open>Every stored announcement is filed under its own network and peer.\<close>

definition redis_ok :: "redis \<Rightarrow> bool" where
  "redis_ok rd \<longleftrightarrow> (\<forall>k entry expires. rd_strings rd k = Some (entry, expires) \<longrightarrow>
       k = entryKey (ce_NetworkID entry) (ce_PeerID entry) \<and> plain_id (ce_PeerID entry)) \<and>
     (\<forall>k ids expires. rd_sets rd k = Some (ids, expires) \<longrightarrow> list_all plain_id ids)"

lemma redis_okD:
  "redis_ok rd \<Longrightarrow> rd_strings rd k = Some (entry, expires) \<Longrightarrow> k = entryKey (ce_NetworkID entry) (ce_PeerID entry) \<and> plain_id (ce_PeerID entry)"
  "redis_ok rd \<Longrightarrow> rd_sets rd k = Some (ids, expires) \<Longrightarrow> i \<in> set ids \<Longrightarrow> plain_id i"
  unfolding redis_ok_def list_all_iff by blast+

lemma members_plain: "redis_ok rd \<Longrightarrow> i \<in> set (members now key rd) \<Longrightarrow> plain_id i"
  by (auto simp: members_def live_def split: option.splits if_splits dest: redis_okD(2))

lemma store_entry_ok:
  assumes "redis_ok rd" "plain_id (ce_PeerID entry)"
  shows "redis_ok (store_entry now entry rd)"
  using assms members_plain [OF assms(1)] by (auto simp: redis_ok_def store_entry_def Let_def list_all_iff)

lemma live_entry:
  "redis_ok rd \<Longrightarrow> plain_id i \<Longrightarrow> live now (rd_strings rd (entryKey net i)) = Some entry \<Longrightarrow> ce_PeerID entry = i"
  by (auto simp: live_def entryKey_inject split: option.splits if_splits dest!: redis_okD(1))

lemma live_stored:
  "live t (rd_strings (store_entry now entry rd) (entryKey (ce_NetworkID entry) (ce_PeerID entry))) =
     (if t < now + 60 * second then Some entry else None)"
  "t < now + 60 * second \<Longrightarrow> ce_PeerID entry \<in> set (members t (indexKey (ce_NetworkID entry)) (store_entry now entry rd))"
  by (auto simp: store_entry_def Let_def live_def members_def second_def)

subsection \<open>What a device is told\<close>

text \<open>The peer as the device sees it: the row of the database with the announcement that is still alive.\<close>

definition fresh_peer :: "int \<Rightarrow> string \<Rightarrow> redis \<Rightarrow> Peer \<Rightarrow> Peer" where
  "fresh_peer now net rd p =
     (if p_ID p \<in> set (members now (indexKey net) rd)
      then (case live now (rd_strings rd (entryKey net (p_ID p))) of Some entry \<Rightarrow> merge_endpoints entry p | None \<Rightarrow> p)
      else p)"

lemma merge_endpoints_simps [simp]:
  "p_ID (merge_endpoints entry p) = p_ID p" "merge_endpoints entry (merge_endpoints entry p) = merge_endpoints entry p"
  by (simp_all add: merge_endpoints_def Let_def)

lemma redis_do_quiet: "rd_faults rd = [] \<Longrightarrow> redis_do f rd = (case f rd of (a, rd') \<Rightarrow> (Some a, rd'))"
  by (simp add: redis_do_def)

lemma redis_reads_quiet:
  "rd_faults rd = [] \<Longrightarrow> redis_Get now key rd = (Some (live now (rd_strings rd key)), rd)"
  "rd_faults rd = [] \<Longrightarrow> SMembers now key rd = (Some (members now key rd), rd)"
  by (simp_all add: redis_Get_def SMembers_def redis_do_quiet)

lemma tunnel_merge_quiet:
  assumes "rd_faults rd = []" "redis_ok rd" "\<forall>i \<in> set ids. plain_id i"
  shows "tunnel_merge now net ids peers rd =
    (map (\<lambda>p. if p_ID p \<in> set ids
              then (case live now (rd_strings rd (entryKey net (p_ID p))) of Some entry \<Rightarrow> merge_endpoints entry p | None \<Rightarrow> p)
              else p) peers, rd)"
  using assms(3)
proof (induction ids arbitrary: peers)
  case (Cons i ids)
  then have i: "plain_id i" by simp
  show ?case
  proof (cases "live now (rd_strings rd (entryKey net i))")
    case None
    with Cons show ?thesis by (auto simp: redis_reads_quiet [OF assms(1)] split: option.splits)
  next
    case (Some entry)
    with live_entry [OF assms(2) i] have "ce_PeerID entry = i" by blast
    with Cons Some show ?thesis by (auto simp: redis_reads_quiet [OF assms(1)] split: option.splits)
  qed
qed simp

lemma tunnel_fresh_quiet:
  assumes "co_redis c = Some rd" "rd_faults rd = []" "redis_ok rd"
  shows "tunnel_fresh net peers c = (map (fresh_peer (co_now c) net rd) peers, c)"
  using assms members_plain [OF assms(3)]
  by (simp add: tunnel_fresh_def redis_reads_quiet tunnel_merge_quiet fresh_peer_def cong: map_cong if_cong)

lemma exec_now: "exec f w = (r, w') \<Longrightarrow> w_now w' = w_now w"
  by (auto simp: exec_def run_stmt_def split: list.splits db_event.splits sum.splits prod.splits)

lemma queries_now:
  "GetPeerByMemberToken token w = (Inr peer, w') \<Longrightarrow> w_now w' = w_now w"
  "GetOnlinePeers net w = (Inr peers, w') \<Longrightarrow> w_now w' = w_now w"
  by (auto simp: GetPeerByMemberToken_def GetOnlinePeers_def query_success dest: exec_now)

lemma coord_call_eq: "coord_call p onerr k c =
    (case p (co_world c) of (Inl e, w) \<Rightarrow> (onerr e, c\<lparr>co_world := w\<rparr>) | (Inr a, w) \<Rightarrow> k a (c\<lparr>co_world := w\<rparr>))"
  by (simp add: coord_call_def on_world_def on_field_def split: prod.split)

lemma authMember_Success:
  assumes "authMember mid header k c = (Success code d, c')"
  obtains peer w where "GetPeerByMemberToken (readBearerToken header) (co_world c) = (Inr peer, w)" "k peer (c\<lparr>co_world := w\<rparr>) = (Success code d, c')"
    "TrimSpace mid = [] \<or> p_ID peer = TrimSpace mid" "w_now w = co_now c"
  using assms queries_now(1)
  by (auto simp: authMember_def Let_def coord_call_eq split: if_splits prod.splits sum.splits)

lemma tunnel_Peers_told:
  assumes "tunnel_Peers mid header c = (Success 200 ps, c')" "co_redis c = Some rd" "rd_faults rd = []" "redis_ok rd"
    and "GetPeerByMemberToken (readBearerToken header) (co_world c) = (Inr caller, w)" "q \<in> set ps"
  shows "\<exists>online w' p. GetOnlinePeers (p_NetworkID caller) w = (Inr online, w') \<and> p \<in> set online \<and>
     q = hide_token (fresh_peer (co_now c) (p_NetworkID caller) rd p)"
proof -
  from assms(1) obtain peer w1 where a: "GetPeerByMemberToken (readBearerToken header) (co_world c) = (Inr peer, w1)" "w_now w1 = co_now c"
    and k: "coord_call (GetOnlinePeers (p_NetworkID peer)) (\<lambda>_. Failure 500 ''failed to list peers'') (\<lambda>peers c.
       let (fresh, c') = tunnel_fresh (p_NetworkID peer) peers c
       in (Success 200 (map hide_token (filter (\<lambda>p. p_ID p \<noteq> p_ID peer) fresh)), c')) (c\<lparr>co_world := w1\<rparr>) = (Success 200 ps, c')"
    unfolding tunnel_Peers_def by (rule authMember_Success)
  have same: "peer = caller" "w1 = w" using a(1) assms(5) by simp_all
  from k obtain online w2 where o: "GetOnlinePeers (p_NetworkID caller) w = (Inr online, w2)"
    and ps: "(let (fresh, c') = tunnel_fresh (p_NetworkID caller) online (c\<lparr>co_world := w2\<rparr>)
       in (Success 200 (map hide_token (filter (\<lambda>p. p_ID p \<noteq> p_ID caller) fresh)), c')) = (Success 200 ps, c')"
    by (auto simp: coord_call_eq same split: prod.splits sum.splits)
  have "w_now w2 = co_now c" using queries_now(2) [OF o] a(2) same by simp
  with ps assms(2-4) have "ps = map hide_token (filter (\<lambda>p. p_ID p \<noteq> p_ID caller) (map (fresh_peer (co_now c) (p_NetworkID caller) rd) online))"
    by (simp add: tunnel_fresh_quiet [of _ rd])
  with assms(6) o show ?thesis by auto
qed

lemma fresh_peer_stored:
  assumes "t < now + 60 * second" "p_ID p = ce_PeerID entry"
  shows "fresh_peer t (ce_NetworkID entry) (store_entry now entry rd) p = merge_endpoints entry p"
  using live_stored [of t now entry rd] assms by (simp add: fresh_peer_def)

lemma fresh_peer_expired:
  assumes "now + 60 * second \<le> t" "p_ID p = ce_PeerID entry"
  shows "fresh_peer t (ce_NetworkID entry) (store_entry now entry rd) p = p"
  using live_stored(1) [of t now entry rd] assms by (simp add: fresh_peer_def)

lemma hide_token_endpoints [simp]:
  "p_PublicEndpoint (hide_token p) = p_PublicEndpoint p" "p_LocalEndpoints (hide_token p) = p_LocalEndpoints p" "p_ID (hide_token p) = p_ID p"
  by (simp_all add: hide_token_def)

lemma fresh_peer_ID [simp]: "p_ID (fresh_peer t net rd p) = p_ID p"
  by (simp add: fresh_peer_def split: option.split)

text \<open>What the listing of any device shows of a peer after an entry for it was stored, and before another one is.\<close>

lemma stored_entry_told:
  assumes "redis_ok rd" "rd_faults rd = []" "plain_id (ce_PeerID entry)"
    and "co_redis c = Some (store_entry now entry rd)" "tunnel_Peers mid header c = (Success 200 ps, c')"
    and "GetPeerByMemberToken (readBearerToken header) (co_world c) = (Inr caller, w)" "p_NetworkID caller = ce_NetworkID entry"
    and "q \<in> set ps" "p_ID q = ce_PeerID entry"
  shows "\<exists>online w' p. GetOnlinePeers (p_NetworkID caller) w = (Inr online, w') \<and> p \<in> set online \<and>
     q = hide_token (if co_now c < now + 60 * second then merge_endpoints entry p else p)"
proof -
  have rd: "redis_ok (store_entry now entry rd)" "rd_faults (store_entry now entry rd) = []"
    using assms(1-3) store_entry_ok by (auto simp: store_entry_def Let_def)
  from tunnel_Peers_told [OF assms(5,4) rd(2,1) assms(6,8)] obtain online w' p
    where o: "GetOnlinePeers (p_NetworkID caller) w = (Inr online, w')" "p \<in> set online"
      "q = hide_token (fresh_peer (co_now c) (ce_NetworkID entry) (store_entry now entry rd) p)" using assms(7) by auto
  moreover have "p_ID p = ce_PeerID entry" using o(3) assms(9) by simp
  ultimately show ?thesis using fresh_peer_stored [of "co_now c" now p entry rd] fresh_peer_expired [of now "co_now c" p entry rd]
    by (cases "co_now c < now + 60 * second") auto
qed

lemma tunnel_Announce_stores:
  assumes "tunnel_Announce mid header (Some (endpoint, locals)) c = (Success 200 d, c1)" "co_redis c = Some rd" "rd_faults rd = []"
    and "TrimSpace endpoint \<noteq> []" "GetPeerByMemberToken (readBearerToken header) (co_world c) = (Inr peer, w)"
  shows "co_redis c1 = Some (store_entry (co_now c) \<lparr>ce_PeerID = p_ID peer, ce_NetworkID = p_NetworkID peer, ce_PublicEndpoint = endpoint,
     ce_LocalEndpoints = locals, ce_AnnouncedAt = co_now c\<rparr> rd)"
proof -
  from assms(1) show ?thesis unfolding tunnel_Announce_def
    by (rule authMember_Success) (use assms(2-) in \<open>auto simp: Let_def redis_do_quiet\<close>)
qed

lemma CoordHandler_Announce_stores:
  assumes "CoordHandler_Announce (Some req) c = (Success 200 d, c1)" "co_redis c = Some rd" "rd_faults rd = []"
  shows "TrimSpace (ar_PublicEndpoint req) \<noteq> [] \<and>
    co_redis c1 = Some (store_entry (co_now c) \<lparr>ce_PeerID = TrimSpace (ar_PeerID req), ce_NetworkID = TrimSpace (ar_NetworkID req),
      ce_PublicEndpoint = TrimSpace (ar_PublicEndpoint req), ce_LocalEndpoints = ar_LocalEndpoints req, ce_AnnouncedAt = co_now c\<rparr> rd)"
  using assms by (auto simp: CoordHandler_Announce_def Let_def redis_do_quiet split: if_splits)

lemma tunnel_fresh_ids: "map p_ID (fst (tunnel_fresh net peers c)) = map p_ID peers"
proof -
  have "map p_ID (fst (tunnel_merge now net ids peers rd)) = map p_ID peers" for now ids rd
    by (induction now net ids peers rd rule: tunnel_merge.induct) (auto split: prod.split option.split)
  then show ?thesis by (auto simp: tunnel_fresh_def split: option.split prod.split) (metis fst_conv)+
qed

subsection \<open>Properties\<close>


text \<open>
  The announcement of the coordination API takes any network and any peer: whoever may call it
  at all decides for a minute which endpoint the devices of the named network are told for the
  named peer. The handler looks at nothing but the request.
\<close>

lemma any_caller_redirects_peer:
  assumes "co_redis c = Some rd" "redis_ok rd" "rd_faults rd = []"
    and "CoordHandler_Announce (Some req) c = (Success 200 d, c1)" "plain_id (TrimSpace (ar_PeerID req))"
    and "co_redis c2 = co_redis c1" "tunnel_Peers mid header c2 = (Success 200 ps, c3)" "co_now c2 < co_now c + 60 * second"
    and "GetPeerByMemberToken (readBearerToken header) (co_world c2) = (Inr caller, w2)" "p_NetworkID caller = TrimSpace (ar_NetworkID req)"
    and "q \<in> set ps" "p_ID q = TrimSpace (ar_PeerID req)"
  shows "p_PublicEndpoint q = TrimSpace (ar_PublicEndpoint req)"
proof -
  let ?e = "\<lparr>ce_PeerID = TrimSpace (ar_PeerID req), ce_NetworkID = TrimSpace (ar_NetworkID req),
      ce_PublicEndpoint = TrimSpace (ar_PublicEndpoint req), ce_LocalEndpoints = ar_LocalEndpoints req, ce_AnnouncedAt = co_now c\<rparr>"
  have e: "TrimSpace (ar_PublicEndpoint req) \<noteq> []" "co_redis c2 = Some (store_entry (co_now c) ?e rd)"
    using CoordHandler_Announce_stores [OF assms(4,1,3)] assms(6) by simp_all
  from stored_entry_told [OF assms(2,3) _ e(2) assms(7,9) _ assms(11)] assms(5,8,10,12)
  obtain p where "q = hide_token (merge_endpoints ?e p)" by auto
  with e(1) show ?thesis by (simp add: merge_endpoints_def Let_def)
qed

text \<open>
  A device that was rejected, or never approved, is still served: with its token the routed
  peer list answers with every approved device that is online in the network, where the member
  handler of the same name refuses.
\<close>

lemma unapproved_device_served:
  assumes "w_sched (co_world c) = []"
    and "find (\<lambda>r. r_member_token r = Some (readBearerToken header)) (t_peers (w_db (co_world c))) = Some r"
    and "readBearerToken header \<noteq> []" "TrimSpace (readBearerToken header) = readBearerToken header" "TrimSpace (r_id r) = r_id r"
    and "r_status r \<noteq> []" "r_status r \<noteq> ''approved''"
  shows "\<exists>ps. fst (tunnel_Peers (r_id r) header c) = Success 200 ps \<and>
     p_ID ` set ps = {r_id q |q. q \<in> set (t_peers (w_db (co_world c))) \<and> r_is_online q \<and> r_status q = ''approved'' \<and> r_id q \<noteq> r_id r \<and>
        r_network_id q \<in> set (active_network_ids (r_network_id r) (w_db (co_world c)))} \<and>
     fst (MemberPeers (r_id r) header (co_world c)) = Failure 409 ''member is not approved''"
proof -
  let ?w = "co_world c" and ?db = "w_db (co_world c)"
  let ?online = "filter (\<lambda>q. r_network_id q \<in> set (active_network_ids (r_network_id r) ?db) \<and> r_is_online q \<and> r_status q = ''approved'') (t_peers ?db)"
  have get: "GetPeerByMemberToken (readBearerToken header) ?w = (Inr (scanPeer r), ?w\<lparr>w_seq := Suc (w_seq ?w)\<rparr>)"
    using assms(1,2) by (simp add: GetPeerByMemberToken_def mapped_def exec_def run_stmt_def select_peer_def procedure_defs)
  have list: "GetOnlinePeers (r_network_id r) (?w\<lparr>w_seq := Suc (w_seq ?w)\<rparr>) =
      (Inr (map scanPeer (by_last_seen_desc ?online)), ?w\<lparr>w_seq := Suc (Suc (w_seq ?w))\<rparr>)"
    using assms(1) by (simp add: GetOnlinePeers_def exec_def run_stmt_def procedure_defs)
  have "fst (MemberPeers (r_id r) header ?w) = Failure 409 ''member is not approved''"
    using assms(3-) get
    by (simp add: MemberPeers_def with_approved_member_def call_def authenticateMember_def reply_def Let_def)
  moreover obtain ps where ps: "fst (tunnel_Peers (r_id r) header c) = Success 200 ps"
    "map p_ID ps = filter (\<lambda>i. i \<noteq> r_id r) (map r_id (by_last_seen_desc ?online))"
  proof
    let ?fresh = "fst (tunnel_fresh (r_network_id r) (map scanPeer (by_last_seen_desc ?online)) (c\<lparr>co_world := ?w\<lparr>w_seq := Suc (Suc (w_seq ?w))\<rparr>\<rparr>))"
    show "fst (tunnel_Peers (r_id r) header c) = Success 200 (map hide_token (filter (\<lambda>p. p_ID p \<noteq> r_id r) ?fresh))"
      using assms(3,5) get list by (simp add: tunnel_Peers_def authMember_def coord_call_eq Let_def split: prod.split)
    have "map p_ID ?fresh = map r_id (by_last_seen_desc ?online)" using tunnel_fresh_ids by (simp add: comp_def)
    then show "map p_ID (map hide_token (filter (\<lambda>p. p_ID p \<noteq> r_id r) ?fresh)) = filter (\<lambda>i. i \<noteq> r_id r) (map r_id (by_last_seen_desc ?online))"
      by (simp add: filter_map comp_def flip: filter_map [of "\<lambda>i. i \<noteq> r_id r" p_ID, unfolded comp_def])
  qed
  moreover have "p_ID ` set ps = set (filter (\<lambda>i. i \<noteq> r_id r) (map r_id (by_last_seen_desc ?online)))" using ps(2) by (metis list.set_map)
  moreover have "set (by_last_seen_desc ?online) = set ?online" by (auto simp: by_last_seen_desc_def)
  ultimately show ?thesis by (intro exI [of _ ps]) auto
qed

text \<open>
  The relay tokens of two devices never match. The token handed to a device names the peer it
  wants to reach, so two devices of a network that ask for each other get tokens of different
  messages, whatever the times; with a message authentication code without collisions the tokens
  differ, and the relay, which pairs by token, cannot pair them.
\<close>

lemma relay_tokens_differ:
  assumes "inj (hmac (if secret = [] then ''quicktunnel-default-relay-secret'' else secret))"
    and "RelayAssignHandler hmac secret endpoint t network peerB = Success 200 forA"
    and "RelayAssignHandler hmac secret endpoint' t' network peerA = Success 200 forB"
    and "plain_id (TrimSpace peerA)" "plain_id (TrimSpace peerB)" "TrimSpace peerA \<noteq> TrimSpace peerB" "0 \<le> t" "0 \<le> t'"
  shows "ra_Token forA \<noteq> ra_Token forB \<and> ra_SessionToken forA \<noteq> ra_SessionToken forB"
proof -
  let ?net = "if TrimSpace network = [] then ''default'' else TrimSpace network"
  let ?key = "if secret = [] then ''quicktunnel-default-relay-secret'' else secret"
  let ?msg = "\<lambda>p t. ?net @ '':'' @ TrimSpace p @ '':'' @ Itoa (t + 300)"
  have tok: "ra_Token forA = hmac ?key (?msg peerB t)" "ra_SessionToken forA = ra_Token forA"
    "ra_Token forB = hmac ?key (?msg peerA t')" "ra_SessionToken forB = ra_Token forB"
    using assms(2,3) by (auto simp: RelayAssignHandler_def Let_def split: if_splits sum.splits prod.splits)
  have plain: "plain_id (Itoa (u + 300))" if "0 \<le> u" for u
    using Itoa_digits [of "u + 300"] that by (auto simp: list_all_iff is_digit_def)
  have "?msg peerB t \<noteq> ?msg peerA t'"
    using append_colon_eq [OF plain [OF assms(7)] plain [OF assms(8)], of "TrimSpace peerB" "TrimSpace peerA"] assms(6) by auto
  then show ?thesis using assms(1) tok by (simp add: inj_eq)
qed

subsection \<open>An example\<close>

text \<open>Two approved devices of a network and a rejected one, and an empty cache.\<close>

definition sample_members :: tables where
  "sample_members = sample_tables\<lparr>t_peers :=
     [sample_row ''p1'' ''net-b'' ''k1'' ''10.8.0.2/32'' ''approved'' ''mt_1'', sample_row ''p2'' ''net-b'' ''k2'' ''10.8.0.3/32'' ''approved'' ''mt_2'',
      sample_row ''p3'' ''net-b'' ''k3'' ''10.8.0.4/32'' ''rejected'' ''mt_3'']\<rparr>"

definition no_entries :: redis where
  "no_entries = \<lparr>rd_strings = Map.empty, rd_sets = Map.empty, rd_faults = []\<rparr>"

definition sample_coord :: coord where
  "sample_coord = \<lparr>co_world = sample_world\<lparr>w_db := sample_members\<rparr>, co_redis = Some no_entries\<rparr>"

definition listed :: "Peer list response \<Rightarrow> string list option" where
  "listed r = (case r of Success code ps \<Rightarrow> if code = 200 then Some (map p_ID ps) else None | _ \<Rightarrow> None)"

definition identity :: "go_error + Peer \<Rightarrow> (string \<times> string) option" where
  "identity r = (case r of Inr p \<Rightarrow> Some (p_ID p, p_NetworkID p) | Inl _ \<Rightarrow> None)"

lemma no_entries_ok: "redis_ok no_entries"
  by (simp add: redis_ok_def no_entries_def)

lemma listed_obtain:
  assumes "listed (fst x) = Some ids"
  obtains ps c where "x = (Success 200 ps, c)" "map p_ID ps = ids"
  using assms by (cases x) (auto simp: listed_def split: response.splits if_splits)

lemma identity_obtain:
  assumes "identity (fst x) = Some (i, n)"
  obtains p w where "x = (Inr p, w)" "p_ID p = i" "p_NetworkID p = n"
  using assms by (cases x) (auto simp: identity_def split: sum.splits)

abbreviation sample_announced :: coord where
  "sample_announced \<equiv> snd (tunnel_Announce ''p1'' ''Bearer mt_1'' (Some (''1.2.3.4:5'', [])) sample_coord)"

lemma sample_announce_run:
  "fst (tunnel_Announce ''p1'' ''Bearer mt_1'' (Some (''1.2.3.4:5'', [])) sample_coord) = Success 200 ''announced''"
  "identity (fst (GetPeerByMemberToken (readBearerToken ''Bearer mt_1'') (co_world sample_coord))) = Some (''p1'', ''net-b'')"
  "identity (fst (GetPeerByMemberToken (readBearerToken ''Bearer mt_2'') (co_world sample_announced))) = Some (''p2'', ''net-b'')"
  "listed (fst (tunnel_Peers ''p2'' ''Bearer mt_2'' sample_announced)) = Some [''p1'']"
  "TrimSpace ''1.2.3.4:5'' \<noteq> []" "co_now sample_announced = co_now sample_coord"
  by code_simp+


definition sample_spoof :: announceRequest where
  "sample_spoof = \<lparr>ar_PeerID = ''p1'', ar_NetworkID = ''net-b'', ar_PublicEndpoint = ''6.6.6.6:6'', ar_LocalEndpoints = []\<rparr>"

abbreviation sample_spoofed :: coord where
  "sample_spoofed \<equiv> snd (CoordHandler_Announce (Some sample_spoof) sample_coord)"

lemma sample_spoof_run:
  "fst (CoordHandler_Announce (Some sample_spoof) sample_coord) = Success 200 ''announced''"
  "identity (fst (GetPeerByMemberToken (readBearerToken ''Bearer mt_2'') (co_world sample_spoofed))) = Some (''p2'', ''net-b'')"
  "listed (fst (tunnel_Peers ''p2'' ''Bearer mt_2'' sample_spoofed)) = Some [''p1'']" "co_now sample_spoofed = co_now sample_coord"
  "TrimSpace (ar_PeerID sample_spoof) = ''p1''" "TrimSpace (ar_NetworkID sample_spoof) = ''net-b''" "TrimSpace (ar_PublicEndpoint sample_spoof) = ''6.6.6.6:6''"
  by code_simp+

lemma any_caller_redirects_peer_witness:
  "\<exists>ps c3 q. tunnel_Peers ''p2'' ''Bearer mt_2'' sample_spoofed = (Success 200 ps, c3) \<and> q \<in> set ps \<and> p_ID q = ''p1'' \<and> p_PublicEndpoint q = ''6.6.6.6:6''"
proof -
  obtain ps c3 where ps: "tunnel_Peers ''p2'' ''Bearer mt_2'' sample_spoofed = (Success 200 ps, c3)" "map p_ID ps = [''p1'']"
    using listed_obtain [OF sample_spoof_run(3)] by blast
  then obtain q where q: "q \<in> set ps" "p_ID q = ''p1''" by auto
  obtain caller w2 where p2: "GetPeerByMemberToken (readBearerToken ''Bearer mt_2'') (co_world sample_spoofed) = (Inr caller, w2)" "p_NetworkID caller = ''net-b''"
    using identity_obtain [OF sample_spoof_run(2)] by blast
  have ann: "CoordHandler_Announce (Some sample_spoof) sample_coord = (Success 200 ''announced'', sample_spoofed)"
    using sample_spoof_run(1) by (simp add: prod_eq_iff)
  have rd: "co_redis sample_coord = Some no_entries" "rd_faults no_entries = []" by (simp_all add: sample_coord_def no_entries_def)
  have "p_PublicEndpoint q = ''6.6.6.6:6''"
    using any_caller_redirects_peer [OF rd(1) no_entries_ok rd(2) ann _ refl ps(1) _ p2(1) _ q(1)] p2 q sample_spoof_run(4-)
    by (simp add: second_def)
  then show ?thesis using ps(1) q by blast
qed

lemma sample_rejected:
  "find (\<lambda>r. r_member_token r = Some (readBearerToken ''Bearer mt_3'')) (t_peers (w_db (co_world sample_coord))) =
     Some (sample_row ''p3'' ''net-b'' ''k3'' ''10.8.0.4/32'' ''rejected'' ''mt_3'')"
  "readBearerToken ''Bearer mt_3'' \<noteq> []" "TrimSpace (readBearerToken ''Bearer mt_3'') = readBearerToken ''Bearer mt_3''" "TrimSpace ''p3'' = ''p3''"
proof -
  have tok: "readBearerToken ''Bearer mt_3'' = ''mt_3''" by code_simp
  show "find (\<lambda>r. r_member_token r = Some (readBearerToken ''Bearer mt_3'')) (t_peers (w_db (co_world sample_coord))) =
     Some (sample_row ''p3'' ''net-b'' ''k3'' ''10.8.0.4/32'' ''rejected'' ''mt_3'')"
    unfolding tok by (simp add: sample_coord_def sample_members_def sample_row_def)
  show "TrimSpace (readBearerToken ''Bearer mt_3'') = readBearerToken ''Bearer mt_3''" "TrimSpace ''p3'' = ''p3''" by code_simp+
  show "readBearerToken ''Bearer mt_3'' \<noteq> []" by (simp add: tok)
qed

lemma unapproved_device_served_witness:
  "\<exists>ps. fst (tunnel_Peers ''p3'' ''Bearer mt_3'' sample_coord) = Success 200 ps \<and>
     fst (MemberPeers ''p3'' ''Bearer mt_3'' (co_world sample_coord)) = Failure 409 ''member is not approved''"
proof -
  have "w_sched (co_world sample_coord) = []" by (simp add: sample_coord_def sample_world_def)
  from unapproved_device_served [OF this sample_rejected(1-3)] sample_rejected(4) show ?thesis by (auto simp: sample_row_def)
qed

lemma assign_succeeds: "TrimSpace p \<noteq> [] \<Longrightarrow> \<exists>a. RelayAssignHandler h s (Inr e) t n p = Success 200 a"
  unfolding RelayAssignHandler_def Let_def by (simp add: case_prod_unfold)

lemma relay_tokens_differ_witness:
  "\<exists>a b. RelayAssignHandler (@) ''s'' (Inr ''1.2.3.4:3478'') 0 ''net'' ''p2'' = Success 200 a \<and>
     RelayAssignHandler (@) ''s'' (Inr ''1.2.3.4:3478'') 7 ''net'' ''p1'' = Success 200 b \<and> ra_Token a \<noteq> ra_Token b"
proof -
  have t: "TrimSpace ''p1'' = ''p1''" "TrimSpace ''p2'' = ''p2''" by code_simp+
  then have ne: "TrimSpace ''p1'' \<noteq> []" "TrimSpace ''p2'' \<noteq> []" by simp_all
  obtain a where a: "RelayAssignHandler (@) ''s'' (Inr ''1.2.3.4:3478'') 0 ''net'' ''p2'' = Success 200 a"
    using assign_succeeds [OF ne(2)] by blast
  obtain b where b: "RelayAssignHandler (@) ''s'' (Inr ''1.2.3.4:3478'') 7 ''net'' ''p1'' = Success 200 b"
    using assign_succeeds [OF ne(1)] by blast
  have "inj ((@) ''s'')" by (simp add: inj_def)
  with relay_tokens_differ [of "(@)" "''s''", OF _ a b] t a b show ?thesis by simp
qed

end
