(* ===== verification/Middleware.thy ===== *)
theory Middleware
  imports Complex_Main Coord
begin

text \<open>
  The middleware of the server, \<open>server/internal/api/middleware\<close>: the rate limiter, the real
  address behind trusted proxies and the CORS headers; and the quick-connect endpoint, which
  relies on that address. Times are seconds and, like the limiter's tokens, rational numbers:
  the rounding of \<open>float64\<close> is not modelled. One call reads the clock once.
\<close>

subsection \<open>ratelimit.go\<close>

record bucket =
  b_tokens :: rat
  b_lastRefil :: rat

record RateLimiter =
  rl_rate :: rat
  rl_capacity :: rat
  rl_ttl :: rat
  rl_buckets :: "string \<rightharpoonup> bucket"
  rl_lastGC :: rat

definition NewRateLimiter :: "rat \<Rightarrow> rat \<Rightarrow> rat \<Rightarrow> RateLimiter" where
  "NewRateLimiter now rate burst =
     \<lparr>rl_rate = rate, rl_capacity = burst, rl_ttl = 300, rl_buckets = Map.empty, rl_lastGC = now\<rparr>"

definition min64 :: "rat \<Rightarrow> rat \<Rightarrow> rat" where
  "min64 a b = (if a < b then a else b)"

definition gc :: "rat \<Rightarrow> RateLimiter \<Rightarrow> RateLimiter" where
  "gc now rl = rl\<lparr>rl_buckets := (\<lambda>key. case rl_buckets rl key of
       Some b \<Rightarrow> if rl_ttl rl < now - b_lastRefil b then None else Some b
     | None \<Rightarrow> None), rl_lastGC := now\<rparr>"

definition Allow :: "rat \<Rightarrow> string \<Rightarrow> RateLimiter \<Rightarrow> bool \<times> RateLimiter" where
  "Allow now key rl0 =
     (let rl = (if rl_ttl rl0 < now - rl_lastGC rl0 then gc now rl0 else rl0)
      in case rl_buckets rl key of
           None \<Rightarrow> (True, rl\<lparr>rl_buckets := (rl_buckets rl)(key \<mapsto> \<lparr>b_tokens = rl_capacity rl - 1, b_lastRefil = now\<rparr>)\<rparr>)
         | Some b \<Rightarrow>
             let tokens = min64 (b_tokens b + (now - b_lastRefil b) * rl_rate rl) (rl_capacity rl)
             in if tokens < 1 then (False, rl\<lparr>rl_buckets := (rl_buckets rl)(key \<mapsto> \<lparr>b_tokens = tokens, b_lastRefil = now\<rparr>)\<rparr>)
                else (True, rl\<lparr>rl_buckets := (rl_buckets rl)(key \<mapsto> \<lparr>b_tokens = tokens - 1, b_lastRefil = now\<rparr>)\<rparr>))"

text \<open>\<open>newRateLimiters\<close> of \<open>router.go\<close>: the limiters of all requests, of logins and joins, and of agents.\<close>

definition newRateLimiters :: "rat \<Rightarrow> RateLimiter \<times> RateLimiter \<times> RateLimiter" where
  "newRateLimiters now = (NewRateLimiter now 120 200, NewRateLimiter now 5 10, NewRateLimiter now 60 120)"

subsection \<open>realip.go\<close>

definition hostOnly :: "string \<Rightarrow> string" where
  "hostOnly raw =
     (let value = TrimSpace raw
      in if value = [] then [] else case SplitHostPort value of Some (host, _) \<Rightarrow> host | None \<Rightarrow> value)"

definition RemoteIPKey :: "string \<Rightarrow> string" where
  "RemoteIPKey remoteAddr = (if hostOnly remoteAddr \<noteq> [] then hostOnly remoteAddr else remoteAddr)"

record trustedProxySet =
  tp_exact :: "string list"
  tp_cidrs :: "IPNet list"

fun newTrustedProxySet :: "string list \<Rightarrow> trustedProxySet" where
  "newTrustedProxySet [] = \<lparr>tp_exact = [], tp_cidrs = []\<rparr>"
| "newTrustedProxySet (raw # entries) =
     (let s = newTrustedProxySet entries; value = TrimSpace raw
      in if value = [] then s
         else case ParseIP value of
                Some ip \<Rightarrow> s\<lparr>tp_exact := IP_String ip # tp_exact s\<rparr>
              | None \<Rightarrow> (case ParseCIDR value of Some (_, network) \<Rightarrow> s\<lparr>tp_cidrs := network # tp_cidrs s\<rparr> | None \<Rightarrow> s))"

definition trusted_contains :: "trustedProxySet \<Rightarrow> string \<Rightarrow> bool" where
  "trusted_contains s raw =
     (let host = hostOnly raw
      in host \<noteq> [] \<and> (case ParseIP host of
           Some ip \<Rightarrow> IP_String ip \<in> set (tp_exact s) \<or> list_ex (\<lambda>network. IPNet_Contains network ip) (tp_cidrs s)
         | None \<Rightarrow> False))"

definition parseHeaderIP :: "string \<Rightarrow> string" where
  "parseHeaderIP raw =
     (let value = TrimSpace raw in if value = [] then [] else case ParseIP value of Some ip \<Rightarrow> IP_String ip | None \<Rightarrow> [])"

definition parseForwardedFor :: "string \<Rightarrow> string" where
  "parseForwardedFor raw =
     (case find (\<lambda>part. parseHeaderIP part \<noteq> []) (Split raw (CHR '','')) of Some part \<Rightarrow> parseHeaderIP part | None \<Rightarrow> [])"

text \<open>The remote address the handlers see, from the address of the connection and the two headers.\<close>

definition RealIP :: "string list \<Rightarrow> string \<Rightarrow> string \<Rightarrow> string \<Rightarrow> string" where
  "RealIP trustedProxies remoteAddr xRealIP xForwardedFor =
     (if \<not> trusted_contains (newTrustedProxySet trustedProxies) (hostOnly remoteAddr) then remoteAddr
      else if parseHeaderIP xRealIP \<noteq> [] then JoinHostPort (parseHeaderIP xRealIP) ''0''
      else if parseForwardedFor xForwardedFor \<noteq> [] then JoinHostPort (parseForwardedFor xForwardedFor) ''0''
      else remoteAddr)"

subsection \<open>CORS\<close>

text \<open>The value of \<open>Access-Control-Allow-Origin\<close>, if any, and whether the request goes on to the handler.\<close>

definition CORS :: "string list \<Rightarrow> string \<Rightarrow> string \<Rightarrow> string option \<times> bool" where
  "CORS allowedOrigins origin httpMethod =
     (if origin \<noteq> [] \<and> (allowedOrigins = [] \<or> origin \<in> set allowedOrigins) then Some origin else None, httpMethod \<noteq> ''OPTIONS'')"

subsection \<open>Security headers and the limit of a body\<close>

text \<open>\<open>Header().Set\<close> replaces the values a header has.\<close>

definition set_header :: "string \<times> string \<Rightarrow> (string \<times> string) list \<Rightarrow> (string \<times> string) list" where
  "set_header h hs = filter (\<lambda>g. fst g \<noteq> fst h) hs @ [h]"

definition SecurityHeaders :: "(string \<times> string) list \<Rightarrow> (string \<times> string) list" where
  "SecurityHeaders hs =
     fold set_header
       [(''X-Content-Type-Options'', ''nosniff''), (''X-Frame-Options'', ''DENY''), (''X-XSS-Protection'', ''1; mode=block''),
        (''Referrer-Policy'', ''strict-origin-when-cross-origin''), (''Permissions-Policy'', ''geolocation=(), microphone=(), camera=()''),
        (''Strict-Transport-Security'', ''max-age=31536000; includeSubDomains'')] hs"

text \<open>\<open>http.MaxBytesReader\<close>: what reading the whole body gives.\<close>

definition MaxBodySize :: "int \<Rightarrow> bytes \<Rightarrow> go_error + bytes" where
  "MaxBodySize limit body = (if int (length body) \<le> limit then Inr body else Inl (Errorf ''http: request body too large''))"

subsection \<open>quick\_connect\_handler.go\<close>

record QuickConnectBootstrap =
  qc_Enabled :: bool
  qc_OwnerEmail :: string
  qc_NetworkID :: string
  qc_NetworkName :: string
  qc_APIKey :: string
  qc_CIDR :: string
  qc_MaxPeers :: int

definition isLoopbackRequest :: "string \<Rightarrow> bool" where
  "isLoopbackRequest remoteAddr =
     (let host = (case SplitHostPort (TrimSpace remoteAddr) of Some (h, _) \<Rightarrow> h | None \<Rightarrow> TrimSpace remoteAddr)
      in case ParseIP host of None \<Rightarrow> False | Some ip \<Rightarrow> IsLoopback ip)"

definition QuickConnect_Get :: "QuickConnectBootstrap option \<Rightarrow> string \<Rightarrow> QuickConnectBootstrap response" where
  "QuickConnect_Get bootstrap remoteAddr =
     (if \<not> isLoopbackRequest remoteAddr then Failure 403 ''quick connect endpoint is available only from localhost''
      else case bootstrap of
             None \<Rightarrow> Failure 503 ''quick connect bootstrap is disabled''
           | Some b \<Rightarrow> if \<not> qc_Enabled b then Failure 503 ''quick connect bootstrap is disabled'' else Success 200 b)"

subsection \<open>The tokens of a key\<close>

text \<open>What a key could spend at a time: a key without a bucket has the whole capacity.\<close>

definition available :: "rat \<Rightarrow> string \<Rightarrow> RateLimiter \<Rightarrow> rat" where
  "available now key rl =
     (case rl_buckets rl key of
        None \<Rightarrow> rl_capacity rl
      | Some b \<Rightarrow> min64 (b_tokens b + (now - b_lastRefil b) * rl_rate rl) (rl_capacity rl))"

text \<open>A bucket that is collected would have been full.\<close>

definition limiter_ok :: "rat \<Rightarrow> RateLimiter \<Rightarrow> bool" where
  "limiter_ok now rl \<longleftrightarrow> 1 \<le> rl_capacity rl \<and> 0 \<le> rl_rate rl \<and> rl_capacity rl \<le> rl_rate rl * rl_ttl rl \<and>
     (\<forall>key b. rl_buckets rl key = Some b \<longrightarrow> 0 \<le> b_tokens b \<and> b_lastRefil b \<le> now)"

fun allowed_count :: "string \<Rightarrow> (rat \<times> string) list \<Rightarrow> RateLimiter \<Rightarrow> nat \<times> RateLimiter" where
  "allowed_count key [] rl = (0, rl)"
| "allowed_count key ((now, k) # evs) rl =
     (let (ok, rl1) = Allow now k rl; (n, rl2) = allowed_count key evs rl1
      in ((if ok \<and> k = key then 1 else 0) + n, rl2))"

lemma gc_available:
  assumes "limiter_ok t rl" "t \<le> now"
  shows "available now key (gc now rl) = available now key rl" "limiter_ok now (gc now rl)"
proof -
  have full: "rl_capacity rl \<le> b_tokens b + (now - b_lastRefil b) * rl_rate rl"
    if "rl_buckets rl key = Some b" "rl_ttl rl < now - b_lastRefil b" for key b
  proof -
    have "0 \<le> b_tokens b" "0 \<le> rl_rate rl" "rl_capacity rl \<le> rl_rate rl * rl_ttl rl" using assms(1) that(1) by (auto simp: limiter_ok_def)
    moreover have "rl_rate rl * rl_ttl rl \<le> (now - b_lastRefil b) * rl_rate rl"
      using that(2) \<open>0 \<le> rl_rate rl\<close> by (subst mult.commute) (intro mult_right_mono, simp_all)
    ultimately show ?thesis by linarith
  qed
  show "available now key (gc now rl) = available now key rl"
    using full [of key] by (auto simp: available_def gc_def min64_def split: option.splits)
  show "limiter_ok now (gc now rl)"
    using assms by (force simp: limiter_ok_def gc_def split: option.splits if_splits)
qed

lemma available_time:
  assumes "limiter_ok t rl" "t \<le> now"
  shows "available now key rl \<le> available t key rl + (now - t) * rl_rate rl" "0 \<le> available t key rl" "limiter_ok now rl"
proof -
  have pos: "0 \<le> (now - t) * rl_rate rl" "0 \<le> rl_rate rl" using assms by (simp_all add: limiter_ok_def)
  show "available now key rl \<le> available t key rl + (now - t) * rl_rate rl"
    using pos by (auto simp: available_def min64_def algebra_simps split: option.splits)
  show "0 \<le> available t key rl"
    using assms(1) by (auto simp: available_def min64_def limiter_ok_def split: option.splits)
  show "limiter_ok now rl" using assms by (force simp: limiter_ok_def)
qed

lemma put_bucket:
  "available now key (rl\<lparr>rl_buckets := (rl_buckets rl)(k \<mapsto> b)\<rparr>) =
     (if key = k then min64 (b_tokens b + (now - b_lastRefil b) * rl_rate rl) (rl_capacity rl) else available now key rl)"
  "limiter_ok now rl \<Longrightarrow> 0 \<le> b_tokens b \<Longrightarrow> b_lastRefil b \<le> now \<Longrightarrow> limiter_ok now (rl\<lparr>rl_buckets := (rl_buckets rl)(k \<mapsto> b)\<rparr>)"
  by (auto simp: available_def limiter_ok_def split: option.split)

lemma Allow_step:
  assumes "limiter_ok t rl" "t \<le> now" "Allow now k rl = (ok, rl')"
  shows "limiter_ok now rl' \<and> rl_capacity rl' = rl_capacity rl \<and> rl_rate rl' = rl_rate rl \<and>
     available now key rl' = available now key rl - (if ok \<and> k = key then 1 else 0)"
proof -
  define r where "r = (if rl_ttl rl < now - rl_lastGC rl then gc now rl else rl)"
  have r: "limiter_ok now r" "\<And>key. available now key r = available now key rl" "rl_capacity r = rl_capacity rl" "rl_rate r = rl_rate rl"
    using gc_available [OF assms(1,2)] available_time(3) [OF assms(1,2)] by (auto simp: r_def gc_def)
  show ?thesis
  proof (cases "rl_buckets r k")
    case None
    with assms(3) have "ok" "rl' = r\<lparr>rl_buckets := (rl_buckets r)(k \<mapsto> \<lparr>b_tokens = rl_capacity r - 1, b_lastRefil = now\<rparr>)\<rparr>"
      by (simp_all add: Allow_def r_def [symmetric])
    moreover have "available now k r = rl_capacity r" "1 \<le> rl_capacity r" using None r(1) by (simp_all add: available_def limiter_ok_def)
    ultimately show ?thesis using r put_bucket(2) [OF r(1)] by (simp add: put_bucket(1) min64_def)
  next
    case (Some b)
    define tokens where "tokens = min64 (b_tokens b + (now - b_lastRefil b) * rl_rate r) (rl_capacity r)"
    have "0 \<le> b_tokens b" "b_lastRefil b \<le> now" "0 \<le> rl_rate r" "1 \<le> rl_capacity r" using r(1) Some by (auto simp: limiter_ok_def)
    then have tok: "0 \<le> tokens" "tokens \<le> rl_capacity r" by (auto simp: tokens_def min64_def)
    have rl': "ok = (1 \<le> tokens)"
      "rl' = r\<lparr>rl_buckets := (rl_buckets r)(k \<mapsto> \<lparr>b_tokens = (if ok then tokens - 1 else tokens), b_lastRefil = now\<rparr>)\<rparr>"
      using assms(3) Some by (auto simp: Allow_def r_def [symmetric] Let_def tokens_def split: if_splits)
    have "available now k r = tokens" using Some by (simp add: available_def tokens_def)
    with tok rl' r show ?thesis using put_bucket(2) [OF r(1)] by (auto simp: put_bucket(1) min64_def)
  qed
qed

lemma allowed_count_bound:
  assumes "limiter_ok t rl" "sorted (t # map fst evs)" "allowed_count key evs rl = (n, rl')"
  shows "of_nat n + available (last (t # map fst evs)) key rl' \<le> available t key rl + (last (t # map fst evs) - t) * rl_rate rl \<and>
    limiter_ok (last (t # map fst evs)) rl'"
  using assms
proof (induction evs arbitrary: t rl n)
  case (Cons ev evs)
  obtain now k where ev: "ev = (now, k)" by fastforce
  obtain ok rl1 where step: "Allow now k rl = (ok, rl1)" by fastforce
  obtain n1 where rest: "allowed_count key evs rl1 = (n1, rl')" and n: "n = (if ok \<and> k = key then 1 else 0) + n1"
    using Cons.prems(3) step by (auto simp: ev Let_def split: prod.splits)
  have t: "t \<le> now" "sorted (now # map fst evs)" using Cons.prems(2) by (auto simp: ev)
  note s = Allow_step [OF Cons.prems(1) t(1) step, of key]
  let ?T = "last (now # map fst evs)"
  have IH: "of_nat n1 + available ?T key rl' \<le> available now key rl1 + (?T - now) * rl_rate rl1 \<and> limiter_ok ?T rl'"
    using Cons.IH [OF _ t(2) rest] s by blast
  moreover have "available now key rl \<le> available t key rl + (now - t) * rl_rate rl" by (rule available_time(1) [OF Cons.prems(1) t(1)])
  moreover have "(?T - t) * rl_rate rl = (?T - now) * rl_rate rl + (now - t) * rl_rate rl" by (simp add: algebra_simps)
  moreover have "last (t # map fst (ev # evs)) = ?T" by (simp add: ev)
  ultimately show ?case using s n by (auto simp del: last.simps)
qed (simp add: available_def)

subsection \<open>Properties\<close>

text \<open>
  C11. The rate limiter keeps its rate. From any moment on, the requests with one key that it lets
  through up to a time are at most the burst plus the rate times the time passed, whatever
  requests with other keys come between and whatever buckets are collected, as long as a bucket
  fills up within the time after which it is collected; the three limiters of the server do.
\<close>

theorem limiter_keeps_rate:
  assumes "limiter_ok t rl" "sorted (t # map fst evs)"
  shows "of_nat (fst (allowed_count key evs rl)) \<le> rl_capacity rl + (last (t # map fst evs) - t) * rl_rate rl \<and>
     limiter_ok (last (t # map fst evs)) (snd (allowed_count key evs rl)) \<and>
     (case newRateLimiters t of (a, b, c) \<Rightarrow> limiter_ok t a \<and> limiter_ok t b \<and> limiter_ok t c)"
proof -
  obtain n rl' where run: "allowed_count key evs rl = (n, rl')" by fastforce
  let ?T = "last (t # map fst evs)"
  note b = allowed_count_bound [OF assms run]
  then have "0 \<le> available ?T key rl'" using available_time(2) by blast
  moreover have "available t key rl \<le> rl_capacity rl" by (simp add: available_def min64_def split: option.split)
  ultimately have "of_nat n \<le> rl_capacity rl + (?T - t) * rl_rate rl" using b by linarith
  moreover have "case newRateLimiters t of (a, b, c) \<Rightarrow> limiter_ok t a \<and> limiter_ok t b \<and> limiter_ok t c"
    by (simp add: newRateLimiters_def NewRateLimiter_def limiter_ok_def)
  ultimately show ?thesis using b run by simp
qed

theorem limiter_keeps_rate_witness:
  "limiter_ok 0 (NewRateLimiter 0 5 10) \<and>
   of_nat (fst (allowed_count ''a'' [(0, ''a''), (0, ''b''), (1/10, ''a''), (3/10, ''a'')] (NewRateLimiter 0 5 10))) \<le> (23/2 :: rat)"
proof -
  have "limiter_ok 0 (NewRateLimiter 0 5 10)" by (simp add: NewRateLimiter_def limiter_ok_def)
  from limiter_keeps_rate [OF this, of "[(0, ''a''), (0, ''b''), (1/10, ''a''), (3/10, ''a'')]" "''a''"] this
  show ?thesis by (simp add: NewRateLimiter_def)
qed

subsection \<open>Local requests\<close>

text \<open>
  The quick-connect credentials are given only to a connection from the machine itself, or through
  a trusted proxy that names a loopback address; headers of other senders change nothing.
\<close>

lemma loopback_not_forged:
  "QuickConnect_Get bootstrap (RealIP trusted remoteAddr xRealIP xForwardedFor) = Success 200 b \<Longrightarrow>
   isLoopbackRequest remoteAddr \<or> trusted_contains (newTrustedProxySet trusted) (hostOnly remoteAddr)"
  by (auto simp: QuickConnect_Get_def RealIP_def split: if_splits)

lemma untrusted_headers_ignored:
  "\<not> trusted_contains (newTrustedProxySet trusted) (hostOnly remoteAddr) \<Longrightarrow>
   RemoteIPKey (RealIP trusted remoteAddr xRealIP xForwardedFor) = RemoteIPKey remoteAddr"
  by (simp add: RealIP_def)

end
