(* ===== verification/Auth.thy ===== *)
theory Auth
  imports Middleware
begin

text \<open>
  Authentication: \<open>server/internal/auth\<close> (the JWT service, the two middlewares and the passwords)
  and \<open>server/internal/api/auth_handler.go\<close> with the user sessions; then the middleware chains of
  \<open>SetupRouter\<close> in \<open>router.go\<close>, which decide who reaches a handler. The libraries
  \<open>golang-jwt\<close> and \<open>bcrypt\<close> are parameters, the records \<open>jwt_lib\<close> and \<open>bcrypt_lib\<close>; what is relied
  on of them are the predicates \<open>jwt_ok\<close> and \<open>bcrypt_ok\<close>. Times are nanoseconds, as in \<open>Store\<close>.
\<close>

subsection \<open>jwt.go\<close>

definition accessTokenTTL :: int where "accessTokenTTL = 15 * 60 * 1000000000"
definition refreshTokenTTL :: int where "refreshTokenTTL = 7 * 24 * 60 * 60 * 1000000000"

text \<open>
  \<open>Claims\<close> with the embedded \<open>jwt.RegisteredClaims\<close>; numeric dates are whole seconds, and
  a token may lack them.
\<close>

record Claims =
  cl_UserID :: string
  cl_Email :: string
  cl_ExpiresAt :: int
  cl_Subject :: string
  cl_IssuedAt :: "int option"
  cl_exp :: "int option"
  cl_ID :: string

record JWTService =
  js_secret :: string

text \<open>
  \<open>Token.SignedString\<close> of a token made by \<open>NewWithClaims\<close>, from the name of the signing method, the
  key and the claims; and \<open>ParseWithClaims\<close>, from the time, the accepted methods, the key function
  and the text, with the claims and \<open>Token.Valid\<close>.
\<close>

record jwt_lib =
  jw_SignedString :: "string \<Rightarrow> string \<Rightarrow> Claims \<Rightarrow> go_error + string"
  jw_ParseWithClaims :: "int \<Rightarrow> string list \<Rightarrow> (string \<Rightarrow> go_error + string) \<Rightarrow> string \<Rightarrow> go_error + Claims \<times> bool"

definition HS256 :: string where "HS256 = ''HS256''"

definition NewJWTService :: "string \<Rightarrow> go_error + JWTService" where
  "NewJWTService secret =
     (if secret = [] then Inl (Errorf ''new jwt service: secret is required'') else Inr \<lparr>js_secret = secret\<rparr>)"

text \<open>\<open>NewNumericDate\<close> cuts a time to whole seconds, as \<open>Time.Unix\<close> does.\<close>

definition unix_seconds :: "int \<Rightarrow> int" where
  "unix_seconds t = t div 1000000000"

definition token_claims :: "int \<Rightarrow> string \<Rightarrow> string \<Rightarrow> int \<Rightarrow> string \<Rightarrow> Claims" where
  "token_claims now userID email ttl tokenType =
     \<lparr>cl_UserID = userID, cl_Email = email, cl_ExpiresAt = unix_seconds (now + ttl), cl_Subject = userID,
      cl_IssuedAt = Some (unix_seconds now), cl_exp = Some (unix_seconds (now + ttl)), cl_ID = tokenType\<rparr>"

definition generateToken :: "jwt_lib \<Rightarrow> JWTService \<Rightarrow> int \<Rightarrow> string \<Rightarrow> string \<Rightarrow> int \<Rightarrow> string \<Rightarrow> go_error + string" where
  "generateToken jl s now userID email ttl tokenType =
     (if userID = [] then Inl (Errorf ''generate token: user id is required'')
      else case jw_SignedString jl HS256 (js_secret s) (token_claims now userID email ttl tokenType) of
             Inl e \<Rightarrow> Inl (Wrapf ''generate token: sign token'' e)
           | Inr tok \<Rightarrow> Inr tok)"

definition GenerateAccessToken :: "jwt_lib \<Rightarrow> JWTService \<Rightarrow> int \<Rightarrow> string \<Rightarrow> go_error + string" where
  "GenerateAccessToken jl s now userID = generateToken jl s now userID [] accessTokenTTL ''access''"

definition GenerateRefreshToken :: "jwt_lib \<Rightarrow> JWTService \<Rightarrow> int \<Rightarrow> string \<Rightarrow> go_error + string" where
  "GenerateRefreshToken jl s now userID = generateToken jl s now userID [] refreshTokenTTL ''refresh''"

definition GenerateAccessTokenWithEmail :: "jwt_lib \<Rightarrow> JWTService \<Rightarrow> int \<Rightarrow> string \<Rightarrow> string \<Rightarrow> go_error + string" where
  "GenerateAccessTokenWithEmail jl s now userID email = generateToken jl s now userID email accessTokenTTL ''access''"

definition GenerateRefreshTokenWithEmail :: "jwt_lib \<Rightarrow> JWTService \<Rightarrow> int \<Rightarrow> string \<Rightarrow> string \<Rightarrow> go_error + string" where
  "GenerateRefreshTokenWithEmail jl s now userID email = generateToken jl s now userID email refreshTokenTTL ''refresh''"

definition key_for :: "JWTService \<Rightarrow> string \<Rightarrow> go_error + string" where
  "key_for s m = (if m \<noteq> HS256 then Inl (Errorf (''unexpected signing method: '' @ m)) else Inr (js_secret s))"

definition ValidateToken :: "jwt_lib \<Rightarrow> JWTService \<Rightarrow> int \<Rightarrow> string \<Rightarrow> go_error + Claims" where
  "ValidateToken jl s now tokenStr =
     (if tokenStr = [] then Inl (Errorf ''validate token: token is required'')
      else case jw_ParseWithClaims jl now [HS256] (key_for s) tokenStr of
             Inl e \<Rightarrow> Inl (Wrapf ''validate token: parse token'' e)
           | Inr (claims, valid) \<Rightarrow>
               if \<not> valid then Inl (Errorf ''validate token: invalid claims'') else Inr claims)"

subsection \<open>middleware.go\<close>

text \<open>The values the middlewares put into the context of a request.\<close>

record auth_ctx =
  cx_userID :: "string option"
  cx_email :: "string option"
  cx_apiKey :: "string option"

definition empty_ctx :: auth_ctx where
  "empty_ctx = \<lparr>cx_userID = None, cx_email = None, cx_apiKey = None\<rparr>"

definition writeUnauthorized :: "string \<Rightarrow> 'd response" where
  "writeUnauthorized message = Failure 401 message"

definition AuthMiddleware :: "jwt_lib \<Rightarrow> JWTService \<Rightarrow> string \<Rightarrow> (auth_ctx \<Rightarrow> 'd handler) \<Rightarrow> auth_ctx \<Rightarrow> 'd handler" where
  "AuthMiddleware jl s header next ctx w =
     (let authHeader = TrimSpace header
      in if authHeader = [] then (writeUnauthorized ''missing authorization header'', w)
         else if \<not> HasPrefix authHeader ''Bearer '' then (writeUnauthorized ''invalid authorization header'', w)
         else case ValidateToken jl s (w_now w) (TrimSpace (TrimPrefix authHeader ''Bearer '')) of
                Inl _ \<Rightarrow> (writeUnauthorized ''invalid token'', w)
              | Inr claims \<Rightarrow> next (ctx\<lparr>cx_userID := Some (cl_UserID claims), cx_email := Some (cl_Email claims)\<rparr>) w)"

definition from_ctx :: "string option \<Rightarrow> string option" where
  "from_ctx v = (case v of None \<Rightarrow> None | Some x \<Rightarrow> if x = [] then None else Some x)"

definition UserIDFromContext :: "auth_ctx \<Rightarrow> string option" where
  "UserIDFromContext ctx = from_ctx (cx_userID ctx)"

definition EmailFromContext :: "auth_ctx \<Rightarrow> string option" where
  "EmailFromContext ctx = from_ctx (cx_email ctx)"

subsection \<open>apikey\_middleware.go\<close>

type_synonym APIKeyValidator = "string \<Rightarrow> (world, string) procedure"

definition APIKeyMiddleware :: "APIKeyValidator option \<Rightarrow> string \<Rightarrow> (auth_ctx \<Rightarrow> 'd handler) \<Rightarrow> auth_ctx \<Rightarrow> 'd handler" where
  "APIKeyMiddleware validator header next ctx =
     (let apiKey = TrimSpace header
      in if apiKey = [] then reply (writeUnauthorized ''missing api key'')
         else call (case validator of None \<Rightarrow> return [] | Some v \<Rightarrow> v apiKey) (\<lambda>_. writeUnauthorized ''invalid api key'') (\<lambda>ownerID.
              let ctx1 = ctx\<lparr>cx_apiKey := Some apiKey\<rparr>
              in next (if ownerID \<noteq> [] then ctx1\<lparr>cx_userID := Some ownerID\<rparr> else ctx1)))"

definition APIKeyFromContext :: "auth_ctx \<Rightarrow> string option" where
  "APIKeyFromContext ctx = from_ctx (cx_apiKey ctx)"

subsection \<open>password.go\<close>

text \<open>
  \<open>bcrypt.GenerateFromPassword\<close>, with the salt it reads from the random source (\<open>None\<close> when that
  fails), the password and the cost; and \<open>CompareHashAndPassword\<close>, \<open>None\<close> its success.
\<close>

record bcrypt_lib =
  bc_Generate :: "bytes option \<Rightarrow> string \<Rightarrow> int \<Rightarrow> go_error + string"
  bc_Compare :: "string \<Rightarrow> string \<Rightarrow> go_error option"

definition passwordCost :: int where "passwordCost = 12"

definition next_random :: "(world, bytes option) procedure" where
  "next_random w = (case w_rand w of [] \<Rightarrow> (Inr None, w) | r # rest \<Rightarrow> (Inr r, w\<lparr>w_rand := rest\<rparr>))"

definition HashPassword :: "bcrypt_lib \<Rightarrow> string \<Rightarrow> (world, string) procedure" where
  "HashPassword bc password =
     (if password = [] then raise (Errorf ''hash password: password is required'')
      else andThen next_random (\<lambda>salt. wrap ''hash password'' (result (bc_Generate bc salt password passwordCost))))"

definition CheckPassword :: "bcrypt_lib \<Rightarrow> string \<Rightarrow> string \<Rightarrow> bool" where
  "CheckPassword bc password hash = (if password = [] \<or> hash = [] then False else bc_Compare bc hash password = None)"

subsection \<open>auth\_handler.go\<close>

record registerRequest =
  rr_Email :: string
  rr_Password :: string
  rr_Name :: string

record registerResponse =
  rp_ID :: string
  rp_Email :: string
  rp_Name :: string
  rp_APIKey :: string
  rp_CreatedAt :: int

definition generateAPIKey :: "(world, string) procedure" where
  "generateAPIKey =
     andThen next_random (\<lambda>buf. case buf of
       None \<Rightarrow> raise (Wrapf ''generate api key'' (Errorf ''read failed''))
     | Some b \<Rightarrow> return (concat (map hex_byte b)))"

definition normal_email :: "string \<Rightarrow> string" where
  "normal_email email = TrimSpace (ToLower email)"

definition AuthHandler_Register :: "bcrypt_lib \<Rightarrow> registerRequest option \<Rightarrow> registerResponse handler" where
  "AuthHandler_Register bc body =
     (case body of
        None \<Rightarrow> reply (Failure 400 ''invalid request body'')
      | Some req \<Rightarrow>
          let email = normal_email (rr_Email req); name = TrimSpace (rr_Name req); password = rr_Password req
          in if email = [] \<or> password = [] then reply (Failure 400 ''email and password are required'')
             else if length password < 8 then reply (Failure 400 ''password must be at least 8 characters'')
             else
               call (HashPassword bc password) (\<lambda>_. Failure 500 ''failed to hash password'') (\<lambda>hash.
               call generateAPIKey (\<lambda>_. Failure 500 ''failed to generate api key'') (\<lambda>apiKey.
               call (CreateUser \<lparr>u_ID = [], u_Email = email, u_PasswordHash = hash, u_Name = name, u_APIKey = apiKey,
                       u_CreatedAt = 0, u_UpdatedAt = 0\<rparr>) (\<lambda>_. Failure 400 ''failed to create user'') (\<lambda>created.
               reply (Success 201 \<lparr>rp_ID = u_ID created, rp_Email = u_Email created, rp_Name = u_Name created,
                 rp_APIKey = u_APIKey created, rp_CreatedAt = u_CreatedAt created\<rparr>)))))"

record loginRequest =
  lr_Email :: string
  lr_Password :: string

record loginResponse =
  lp_AccessToken :: string
  lp_RefreshToken :: string
  lp_APIKey :: string
  lp_UserID :: string
  lp_UserEmail :: string
  lp_UserName :: string

text \<open>The second half of \<open>Login\<close>, once the password is checked.\<close>

definition open_session :: "jwt_lib \<Rightarrow> JWTService \<Rightarrow> User \<Rightarrow> loginResponse handler" where
  "open_session jl s user =
     (\<lambda>w. case GenerateAccessTokenWithEmail jl s (w_now w) (u_ID user) (u_Email user) of
            Inl _ \<Rightarrow> (Failure 500 ''failed to issue access token'', w)
          | Inr accessToken \<Rightarrow>
              (case GenerateRefreshTokenWithEmail jl s (w_now w) (u_ID user) (u_Email user) of
                 Inl _ \<Rightarrow> (Failure 500 ''failed to issue refresh token'', w)
               | Inr refreshToken \<Rightarrow>
                   (Success 200 \<lparr>lp_AccessToken = accessToken, lp_RefreshToken = refreshToken, lp_APIKey = u_APIKey user,
                      lp_UserID = u_ID user, lp_UserEmail = u_Email user, lp_UserName = u_Name user\<rparr>, w)))"

definition AuthHandler_Login :: "bcrypt_lib \<Rightarrow> jwt_lib \<Rightarrow> JWTService \<Rightarrow> loginRequest option \<Rightarrow> loginResponse handler" where
  "AuthHandler_Login bc jl s body =
     (case body of
        None \<Rightarrow> reply (Failure 400 ''invalid request body'')
      | Some req \<Rightarrow>
          let email = normal_email (lr_Email req)
          in if email = [] \<or> lr_Password req = [] then reply (Failure 400 ''email and password are required'')
             else
               call (GetUserByEmail email)
                 (\<lambda>e. if errors_Is e ErrNotFound then Failure 401 ''invalid credentials'' else Failure 500 ''failed to load user'') (\<lambda>user.
               if \<not> CheckPassword bc (lr_Password req) (u_PasswordHash user) then reply (Failure 401 ''invalid credentials'')
               else open_session jl s user))"

text \<open>The request of \<open>Refresh\<close> is the field \<open>refresh_token\<close> alone.\<close>

definition AuthHandler_Refresh :: "jwt_lib \<Rightarrow> JWTService \<Rightarrow> string option \<Rightarrow> string handler" where
  "AuthHandler_Refresh jl s body =
     (\<lambda>w. case body of
            None \<Rightarrow> (Failure 400 ''invalid request body'', w)
          | Some raw \<Rightarrow>
              if TrimSpace raw = [] then (Failure 400 ''refresh_token is required'', w)
              else (case ValidateToken jl s (w_now w) (TrimSpace raw) of
                      Inl _ \<Rightarrow> (Failure 401 ''invalid refresh token'', w)
                    | Inr claims \<Rightarrow>
                        if cl_ID claims \<noteq> ''refresh'' then (Failure 401 ''token is not a refresh token'', w)
                        else (case GenerateAccessTokenWithEmail jl s (w_now w) (cl_UserID claims) (cl_Email claims) of
                                Inl _ \<Rightarrow> (Failure 500 ''failed to issue access token'', w)
                              | Inr accessToken \<Rightarrow> (Success 200 accessToken, w))))"

subsection \<open>What is relied on of the libraries\<close>

definition claims_text :: "Claims \<Rightarrow> bool" where
  "claims_text c \<longleftrightarrow> ValidString (cl_UserID c) \<and> ValidString (cl_Email c) \<and> ValidString (cl_Subject c) \<and> ValidString (cl_ID c)"

text \<open>A token is three parts of URL-safe base64, joined by dots.\<close>

definition token_char :: "char \<Rightarrow> bool" where
  "token_char c \<longleftrightarrow> (let n = of_char c :: nat
     in (48 \<le> n \<and> n \<le> 57) \<or> (65 \<le> n \<and> n \<le> 90) \<or> (97 \<le> n \<and> n \<le> 122) \<or> c = CHR ''-'' \<or> c = CHR ''_'' \<or> c = CHR ''.'')"

definition unexpired :: "int \<Rightarrow> Claims \<Rightarrow> bool" where
  "unexpired now c \<longleftrightarrow> (case cl_exp c of None \<Rightarrow> True | Some e \<Rightarrow> now < e * 1000000000)"

text \<open>
  The documented behaviour of \<open>golang-jwt\<close>: signing with \<open>HS256\<close> succeeds; a signed token parses to its
  claims until it expires, when its method is accepted and the key function gives the key; and a
  token parses only if its signature under the key given for its method is right (\<open>sig\<close>) and it has not
  expired.
\<close>

definition jwt_ok :: "jwt_lib \<Rightarrow> (string \<Rightarrow> string \<Rightarrow> string \<Rightarrow> bool) \<Rightarrow> bool" where
  "jwt_ok jl sig \<longleftrightarrow>
     (\<forall>key c. \<exists>tok. jw_SignedString jl HS256 key c = Inr tok \<and> tok \<noteq> [] \<and> (\<forall>x \<in> set tok. token_char x) \<and> sig HS256 key tok) \<and>
     (\<forall>m key c tok methods kf now. jw_SignedString jl m key c = Inr tok \<longrightarrow> claims_text c \<longrightarrow> m \<in> set methods \<longrightarrow> kf m = Inr key \<longrightarrow>
        unexpired now c \<longrightarrow> jw_ParseWithClaims jl now methods kf tok = Inr (c, True)) \<and>
     (\<forall>now methods kf tok c v. jw_ParseWithClaims jl now methods kf tok = Inr (c, v) \<longrightarrow>
        unexpired now c \<and> (\<exists>m \<in> set methods. \<exists>key. kf m = Inr key \<and> sig m key tok))"

text \<open>
  And of \<open>bcrypt\<close>: a hash is 60 characters of ASCII and matches its password; a password of more than
  72 bytes is refused.
\<close>

definition bcrypt_ok :: "bcrypt_lib \<Rightarrow> bool" where
  "bcrypt_ok bc \<longleftrightarrow>
     (\<forall>salt pw cost h. bc_Generate bc salt pw cost = Inr h \<longrightarrow>
        length h = 60 \<and> bc_Compare bc h pw = None \<and> length pw \<le> 72)"

subsection \<open>Tokens\<close>

lemma token_char_not_space: "token_char c \<Longrightarrow> c \<notin> set space_heads \<and> c \<notin> set space_lasts"
  by (auto simp: token_char_def space_heads_def space_lasts_def space_runes_def Let_def)

lemma TrimSpace_token: "\<forall>x \<in> set tok. token_char x \<Longrightarrow> TrimSpace tok = tok"
  using token_char_not_space by (cases "tok = []") (auto intro!: TrimSpace_id)

lemma bearer_token:
  assumes "\<forall>x \<in> set tok. token_char x" "tok \<noteq> []"
  shows "TrimSpace (''Bearer '' @ tok) = ''Bearer '' @ tok" "HasPrefix (''Bearer '' @ tok) ''Bearer ''"
    "TrimSpace (TrimPrefix (''Bearer '' @ tok) ''Bearer '') = tok"
proof -
  have "last tok \<notin> set space_lasts" using assms token_char_not_space by simp
  then show "TrimSpace (''Bearer '' @ tok) = ''Bearer '' @ tok"
    using assms(2) by (intro TrimSpace_id) (simp_all add: space_heads_def)
  show "HasPrefix (''Bearer '' @ tok) ''Bearer ''" by (simp add: HasPrefix_def)
  show "TrimSpace (TrimPrefix (''Bearer '' @ tok) ''Bearer '') = tok"
    using TrimSpace_token [OF assms(1)] by (simp add: TrimPrefix_def HasPrefix_def)
qed

lemma unexpired_token:
  "now' + 1000000000 \<le> now + ttl \<Longrightarrow> unexpired now' (token_claims now userID email ttl tokenType)"
  by (simp add: unexpired_def token_claims_def unix_seconds_def)

lemma token_claims_text:
  "ValidString userID \<Longrightarrow> ValidString email \<Longrightarrow> ValidString tokenType \<Longrightarrow> claims_text (token_claims now userID email ttl tokenType)"
  by (simp add: claims_text_def token_claims_def)

text \<open>An issued token is well formed and is validated, with its claims, until it expires.\<close>

lemma generateToken_valid:
  assumes "jwt_ok jl sig" "userID \<noteq> []" "ValidString userID" "ValidString email" "ValidString tokenType"
  obtains tok where "generateToken jl s now userID email ttl tokenType = Inr tok" "tok \<noteq> []" "\<forall>x \<in> set tok. token_char x"
    "\<And>now'. now' + 1000000000 \<le> now + ttl \<Longrightarrow> ValidateToken jl s now' tok = Inr (token_claims now userID email ttl tokenType)"
proof -
  let ?c = "token_claims now userID email ttl tokenType"
  obtain tok where tok: "jw_SignedString jl HS256 (js_secret s) ?c = Inr tok" "tok \<noteq> []" "\<forall>x \<in> set tok. token_char x"
    using assms(1) unfolding jwt_ok_def by blast
  have "jw_ParseWithClaims jl now' [HS256] (key_for s) tok = Inr (?c, True)" if "now' + 1000000000 \<le> now + ttl" for now'
  proof -
    have "claims_text ?c" "HS256 \<in> set [HS256]" "key_for s HS256 = Inr (js_secret s)" "unexpired now' ?c"
      using assms(3-5) that by (simp_all add: token_claims_text key_for_def unexpired_token)
    then show ?thesis using assms(1) tok(1) unfolding jwt_ok_def by blast
  qed
  then have "ValidateToken jl s now' tok = Inr ?c" if "now' + 1000000000 \<le> now + ttl" for now'
    using that tok(2) by (simp add: ValidateToken_def)
  with tok assms(2) show ?thesis by (intro that [of tok]) (simp_all add: generateToken_def)
qed

lemma ValidateToken_sound:
  assumes "jwt_ok jl sig" "ValidateToken jl s now tok = Inr c"
  shows "unexpired now c \<and> sig HS256 (js_secret s) tok"
proof -
  obtain v where "jw_ParseWithClaims jl now [HS256] (key_for s) tok = Inr (c, v)"
    using assms(2) by (auto simp: ValidateToken_def split: if_splits sum.splits)
  then have "unexpired now c \<and> (\<exists>m \<in> set [HS256]. \<exists>key. key_for s m = Inr key \<and> sig m key tok)"
    using assms(1) unfolding jwt_ok_def by blast
  then show ?thesis by (auto simp: key_for_def)
qed

lemma AuthMiddleware_token:
  assumes "ValidateToken jl s (w_now w) tok = Inr c" "tok \<noteq> []" "\<forall>x \<in> set tok. token_char x"
  shows "AuthMiddleware jl s (''Bearer '' @ tok) next ctx w = next (ctx\<lparr>cx_userID := Some (cl_UserID c), cx_email := Some (cl_Email c)\<rparr>) w"
  using assms(1) bearer_token [OF assms(3,2)] unfolding AuthMiddleware_def Let_def by simp

subsection \<open>Accounts\<close>

text \<open>The validator that \<open>SetupRouter\<close> gives to \<open>NewAPIKeyAuth\<close>.\<close>

definition apiKeyValidator :: APIKeyValidator where
  "apiKeyValidator apiKey = andThen (GetUserByAPIKey apiKey) (\<lambda>user. return (u_ID user))"

lemma hex_byte_token: "x \<in> set (hex_byte b) \<Longrightarrow> token_char x"
proof -
  assume x: "x \<in> set (hex_byte b)"
  have "unat b < 256" using unsigned_less [where ?w = b] by simp
  then have "unat b div 16 < 16" "unat b mod 16 < 16" by auto
  with x show ?thesis by (auto simp: hex_byte_def token_char_def Let_def split: if_splits)
qed

lemma find_unique_field:
  "distinct (map f xs) \<Longrightarrow> x \<in> set xs \<Longrightarrow> find (\<lambda>y. f y = f x) xs = Some x"
  by (induction xs) auto

text \<open>Without interference a user is found under his address and under his key.\<close>

lemma GetUser_quiet:
  assumes "w_sched w = []" "db_ok (w_db w)" "u \<in> set (t_users (w_db w))"
  shows "GetUserByEmail (u_Email u) w = (Inr u, w\<lparr>w_seq := Suc (w_seq w)\<rparr>)"
    "GetUserByAPIKey (u_APIKey u) w = (Inr u, w\<lparr>w_seq := Suc (w_seq w)\<rparr>)"
proof -
  have d: "distinct (map u_Email (t_users (w_db w)))" "distinct (map u_APIKey (t_users (w_db w)))"
    using assms(2) by (simp_all add: db_ok_def)
  show "GetUserByEmail (u_Email u) w = (Inr u, w\<lparr>w_seq := Suc (w_seq w)\<rparr>)"
    using find_unique_field [OF d(1) assms(3)] assms(1)
    by (simp add: GetUserByEmail_def mapped_def exec_def run_stmt_def select_user_def)
  show "GetUserByAPIKey (u_APIKey u) w = (Inr u, w\<lparr>w_seq := Suc (w_seq w)\<rparr>)"
    using find_unique_field [OF d(2) assms(3)] assms(1)
    by (simp add: GetUserByAPIKey_def mapped_def exec_def run_stmt_def select_user_def)
qed

text \<open>What a successful registration leaves in the database.\<close>

lemma CreateUser_quiet:
  assumes "CreateUser u w = (Inr row, w')" "w_sched w = []"
  shows "row = u\<lparr>u_ID := gen_uuid w, u_CreatedAt := w_now w, u_UpdatedAt := w_now w\<rparr> \<and>
    t_users (w_db w') = t_users (w_db w) @ [row]"
  using assms by (auto simp: CreateUser_def success_iff exec_quiet_Inr CreateUser_stmt_def Let_def split: if_splits)

lemma next_random_world:
  "next_random w = (Inr r, w') \<Longrightarrow> w_sched w' = w_sched w \<and> w_db w' = w_db w \<and> w_uuid w' = w_uuid w \<and> w_seq w' = w_seq w \<and>
   w_now w' = w_now w \<and> set (w_rand w') \<subseteq> set (w_rand w) \<and> (r = None \<or> r \<in> set (w_rand w))"
  by (auto simp: next_random_def split: list.splits)

lemma Register_Success:
  assumes "AuthHandler_Register bc (Some req) w = (Success c acc, w')" "w_sched w = []"
  obtains u b where "u \<in> set (t_users (w_db w'))" "set (t_users (w_db w)) \<subseteq> set (t_users (w_db w'))"
    "u_ID u = rp_ID acc" "u_Email u = rp_Email acc" "u_APIKey u = rp_APIKey acc" "u_Name u = rp_Name acc"
    "rp_ID acc = gen_uuid w" "rp_Email acc = normal_email (rr_Email req)" "rp_Email acc \<noteq> []" "8 \<le> length (rr_Password req)"
    "Some b \<in> set (w_rand w)" "rp_APIKey acc = concat (map hex_byte b)"
    "\<exists>salt. bc_Generate bc salt (rr_Password req) passwordCost = Inr (u_PasswordHash u)"
proof -
  let ?u = "\<lambda>hash apiKey. \<lparr>u_ID = [], u_Email = normal_email (rr_Email req), u_PasswordHash = hash, u_Name = TrimSpace (rr_Name req),
      u_APIKey = apiKey, u_CreatedAt = 0, u_UpdatedAt = 0\<rparr>"
  obtain hash w1 apiKey w2 row where
    guard: "normal_email (rr_Email req) \<noteq> []" "rr_Password req \<noteq> []" "8 \<le> length (rr_Password req)" and
    steps: "HashPassword bc (rr_Password req) w = (Inr hash, w1)" "generateAPIKey w1 = (Inr apiKey, w2)"
      "CreateUser (?u hash apiKey) w2 = (Inr row, w')" and
    acc: "acc = \<lparr>rp_ID = u_ID row, rp_Email = u_Email row, rp_Name = u_Name row, rp_APIKey = u_APIKey row, rp_CreatedAt = u_CreatedAt row\<rparr>"
    using assms(1) by (auto simp: AuthHandler_Register_def Let_def call_Success reply_Success not_less reply_def split: if_splits)
  obtain salt where salt: "bc_Generate bc salt (rr_Password req) passwordCost = Inr hash" "next_random w = (Inr salt, w1)"
    using steps(1) guard(2) by (auto simp: HashPassword_def success_iff)
  obtain b where b: "next_random w1 = (Inr (Some b), w2)" "apiKey = concat (map hex_byte b)"
    using steps(2) by (auto simp: generateAPIKey_def success_iff split: option.splits)
  note w1 = next_random_world [OF salt(2)] and w2 = next_random_world [OF b(1)]
  have "row = (?u hash apiKey)\<lparr>u_ID := gen_uuid w2, u_CreatedAt := w_now w2, u_UpdatedAt := w_now w2\<rparr>"
    "t_users (w_db w') = t_users (w_db w2) @ [row]"
    using CreateUser_quiet [OF steps(3)] w1 w2 assms(2) by simp_all
  with w1 w2 salt(1) b acc guard show ?thesis
    by (intro that [of row b]) (auto simp: gen_uuid_def)
qed

lemma ValidString_types: "ValidString ''access''" "ValidString ''refresh''"
  by (simp_all add: ValidString_def Let_def)

lemma open_session_valid:
  assumes "jwt_ok jl sig" "u_ID u \<noteq> []" "ValidString (u_ID u)" "ValidString (u_Email u)"
  obtains a r where
    "open_session jl s u w = (Success 200 \<lparr>lp_AccessToken = a, lp_RefreshToken = r, lp_APIKey = u_APIKey u,
       lp_UserID = u_ID u, lp_UserEmail = u_Email u, lp_UserName = u_Name u\<rparr>, w)"
    "a \<noteq> []" "\<forall>x \<in> set a. token_char x" "r \<noteq> []" "\<forall>x \<in> set r. token_char x"
    "\<And>t. t + 1000000000 \<le> w_now w + accessTokenTTL \<Longrightarrow>
       ValidateToken jl s t a = Inr (token_claims (w_now w) (u_ID u) (u_Email u) accessTokenTTL ''access'')"
    "\<And>t. t + 1000000000 \<le> w_now w + refreshTokenTTL \<Longrightarrow>
       ValidateToken jl s t r = Inr (token_claims (w_now w) (u_ID u) (u_Email u) refreshTokenTTL ''refresh'')"
proof -
  obtain a where a: "GenerateAccessTokenWithEmail jl s (w_now w) (u_ID u) (u_Email u) = Inr a" "a \<noteq> []" "\<forall>x \<in> set a. token_char x"
    "\<And>t. t + 1000000000 \<le> w_now w + accessTokenTTL \<Longrightarrow>
       ValidateToken jl s t a = Inr (token_claims (w_now w) (u_ID u) (u_Email u) accessTokenTTL ''access'')"
    using generateToken_valid [OF assms(1-4) ValidString_types(1)] unfolding GenerateAccessTokenWithEmail_def by metis
  obtain r where r: "GenerateRefreshTokenWithEmail jl s (w_now w) (u_ID u) (u_Email u) = Inr r" "r \<noteq> []" "\<forall>x \<in> set r. token_char x"
    "\<And>t. t + 1000000000 \<le> w_now w + refreshTokenTTL \<Longrightarrow>
       ValidateToken jl s t r = Inr (token_claims (w_now w) (u_ID u) (u_Email u) refreshTokenTTL ''refresh'')"
    using generateToken_valid [OF assms(1-4) ValidString_types(2)] unfolding GenerateRefreshTokenWithEmail_def by metis
  from a r show ?thesis by (intro that [of a r]) (simp_all add: open_session_def)
qed

lemma Refresh_valid:
  assumes "jwt_ok jl sig" "ValidateToken jl s (w_now w) r = Inr c" "r \<noteq> []" "\<forall>x \<in> set r. token_char x" "cl_ID c = ''refresh''"
    "cl_UserID c \<noteq> []" "ValidString (cl_UserID c)" "ValidString (cl_Email c)"
  obtains a where "AuthHandler_Refresh jl s (Some r) w = (Success 200 a, w)"
    "\<And>w' next ctx. w_now w' + 1000000000 \<le> w_now w + accessTokenTTL \<Longrightarrow>
       AuthMiddleware jl s (''Bearer '' @ a) next ctx w' = next (ctx\<lparr>cx_userID := Some (cl_UserID c), cx_email := Some (cl_Email c)\<rparr>) w'"
proof -
  obtain a where a: "GenerateAccessTokenWithEmail jl s (w_now w) (cl_UserID c) (cl_Email c) = Inr a" "a \<noteq> []" "\<forall>x \<in> set a. token_char x"
    "\<And>t. t + 1000000000 \<le> w_now w + accessTokenTTL \<Longrightarrow>
       ValidateToken jl s t a = Inr (token_claims (w_now w) (cl_UserID c) (cl_Email c) accessTokenTTL ''access'')"
    using generateToken_valid [OF assms(1,6-8) ValidString_types(1)] unfolding GenerateAccessTokenWithEmail_def by metis
  have "AuthHandler_Refresh jl s (Some r) w = (Success 200 a, w)"
    using assms(2,3,5) a(1) by (simp add: AuthHandler_Refresh_def TrimSpace_token [OF assms(4)])
  moreover have "AuthMiddleware jl s (''Bearer '' @ a) h ctx w' = h (ctx\<lparr>cx_userID := Some (cl_UserID c), cx_email := Some (cl_Email c)\<rparr>) w'"
    if "w_now w' + 1000000000 \<le> w_now w + accessTokenTTL" for w' h ctx
    using AuthMiddleware_token [OF a(4) [OF that] a(2,3)] by (simp add: token_claims_def)
  ultimately show ?thesis by (rule that)
qed

subsection \<open>Concrete libraries\<close>

text \<open>
  Libraries that satisfy the laws, for the witnesses: a token that spells out the key and the
  claims, and a hash that spells out the password.
\<close>

definition spell_char :: "char \<Rightarrow> string" where
  "spell_char c = [char_of (97 + of_char c div 16 :: nat), char_of (97 + of_char c mod 16 :: nat)]"

definition spell :: "string \<Rightarrow> string" where
  "spell s = concat (map spell_char s)"

fun unspell :: "string \<Rightarrow> string" where
  "unspell (a # b # s) = char_of (16 * (of_char a - 97) + (of_char b - 97) :: nat) # unspell s"
| "unspell _ = []"

definition tally :: "int \<Rightarrow> string" where
  "tally i = (if i < 0 then ''-'' else ''_'') @ replicate (nat \<bar>i\<bar>) (CHR ''1'')"

definition untally :: "string \<Rightarrow> int" where
  "untally s = (if hd s = CHR ''-'' then - int (length s - 1) else int (length s - 1))"

definition demo_token :: "string \<Rightarrow> Claims \<Rightarrow> string" where
  "demo_token key c =
     (let opt = (\<lambda>v. case v of None \<Rightarrow> [] | Some i \<Rightarrow> tally i)
      in spell key @ CHR ''.'' # spell (cl_UserID c) @ CHR ''.'' # spell (cl_Email c) @ CHR ''.'' # tally (cl_ExpiresAt c) @ CHR ''.'' #
         spell (cl_Subject c) @ CHR ''.'' # opt (cl_IssuedAt c) @ CHR ''.'' # opt (cl_exp c) @ CHR ''.'' # spell (cl_ID c))"

definition demo_parse :: "int \<Rightarrow> string list \<Rightarrow> (string \<Rightarrow> go_error + string) \<Rightarrow> string \<Rightarrow> go_error + Claims \<times> bool" where
  "demo_parse now methods kf tok =
     (let opt = (\<lambda>s. if s = [] then None else Some (untally s))
      in case (Split tok (CHR ''.''), kf HS256) of
           ([k, uid, em, ea, sub, iat, ex, jti], Inr key) \<Rightarrow>
             let c = \<lparr>cl_UserID = unspell uid, cl_Email = unspell em, cl_ExpiresAt = untally ea, cl_Subject = unspell sub,
                      cl_IssuedAt = opt iat, cl_exp = opt ex, cl_ID = unspell jti\<rparr>
             in if HS256 \<in> set methods \<and> k = spell key \<and> unexpired now c then Inr (c, True) else Inl (Errorf ''token is invalid'')
         | _ \<Rightarrow> Inl (Errorf ''token is malformed''))"

definition demo_jwt :: jwt_lib where
  "demo_jwt = \<lparr>jw_SignedString = (\<lambda>m key c. if m = HS256 then Inr (demo_token key c) else Inl (Errorf ''unavailable'')),
               jw_ParseWithClaims = demo_parse\<rparr>"

definition demo_sig :: "string \<Rightarrow> string \<Rightarrow> string \<Rightarrow> bool" where
  "demo_sig m key tok \<longleftrightarrow> m = HS256 \<and> hd (Split tok (CHR ''.'')) = spell key"

definition demo_bcrypt :: bcrypt_lib where
  "demo_bcrypt = \<lparr>bc_Generate = (\<lambda>salt pw cost. if salt \<noteq> None \<and> length pw \<le> 59 \<and> CHR ''.'' \<notin> set pw
                     then Inr (pw @ replicate (60 - length pw) (CHR ''.'')) else Inl (Errorf ''refused'')),
                  bc_Compare = (\<lambda>h pw. if takeWhile (\<lambda>c. c \<noteq> CHR ''.'') h = pw then None else Some (Errorf ''mismatch''))\<rparr>"

lemma spell_char_facts:
  "unspell (spell_char c @ s) = c # unspell s" "x \<in> set (spell_char c) \<Longrightarrow> token_char x \<and> x \<noteq> CHR ''.''"
proof -
  have n: "(of_char c :: nat) < 256" by simp
  then have d: "(of_char c :: nat) div 16 < 16" "(of_char c :: nat) mod 16 < 16" by linarith+
  show "unspell (spell_char c @ s) = c # unspell s" using d by (simp add: spell_char_def)
  show "token_char x \<and> x \<noteq> CHR ''.''" if "x \<in> set (spell_char c)"
  proof -
    from that d obtain m where "x = char_of (97 + m :: nat)" "m < 16" by (auto simp: spell_char_def)
    then have "(of_char x :: nat) = 97 + m" "m < 16" by simp_all
    then show ?thesis by (auto simp: token_char_def)
  qed
qed

lemma unspell_spell [simp]: "unspell (spell s) = s"
  by (induction s) (simp_all add: spell_def spell_char_facts(1))

lemma set_spell: "x \<in> set (spell s) \<Longrightarrow> token_char x \<and> x \<noteq> CHR ''.''"
  by (auto simp: spell_def dest: spell_char_facts(2))

lemma untally_tally [simp]: "untally (tally i) = i" "tally i \<noteq> []"
  by (simp_all add: untally_def tally_def)

lemma token_char_samples: "token_char (CHR ''-'')" "token_char (CHR ''_'')" "token_char (CHR ''1'')" "token_char (CHR ''.'')"
  by (simp_all add: token_char_def)

lemma set_tally: "x \<in> set (tally i) \<Longrightarrow> token_char x \<and> x \<noteq> CHR ''.''"
  using token_char_samples by (auto simp: tally_def split: if_splits)

lemma Split_demo_token:
  "Split (demo_token key c) (CHR ''.'') =
     [spell key, spell (cl_UserID c), spell (cl_Email c), tally (cl_ExpiresAt c), spell (cl_Subject c),
      case cl_IssuedAt c of None \<Rightarrow> [] | Some i \<Rightarrow> tally i, case cl_exp c of None \<Rightarrow> [] | Some i \<Rightarrow> tally i, spell (cl_ID c)]"
proof -
  have dot: "CHR ''.'' \<notin> set (spell s)" "CHR ''.'' \<notin> set (tally i)" "CHR ''.'' \<notin> set (case v of None \<Rightarrow> [] | Some i \<Rightarrow> tally i)" for s i v
    using set_spell set_tally by (auto split: option.splits)
  show ?thesis unfolding demo_token_def Let_def by (simp add: Split_sep Split_no_sep dot)
qed

lemma demo_jwt_ok: "jwt_ok demo_jwt demo_sig"
proof -
  have tok: "demo_token key c \<noteq> []" "\<forall>x \<in> set (demo_token key c). token_char x" "demo_sig HS256 key (demo_token key c)" for key c
  proof -
    show "demo_token key c \<noteq> []" by (simp add: demo_token_def Let_def)
    show "\<forall>x \<in> set (demo_token key c). token_char x"
      using set_spell set_tally token_char_samples by (auto simp: demo_token_def Let_def split: option.splits)
    show "demo_sig HS256 key (demo_token key c)" by (simp add: demo_sig_def Split_demo_token)
  qed
  have rt: "demo_parse now methods kf (demo_token key c) = Inr (c, True)"
    if "HS256 \<in> set methods" "kf HS256 = Inr key" "unexpired now c" for now methods key c and kf :: "string \<Rightarrow> go_error + string"
    using that by (cases c) (auto simp: demo_parse_def Split_demo_token split: option.splits)
  have snd: "unexpired now c \<and> (\<exists>m \<in> set methods. \<exists>key. kf m = Inr key \<and> demo_sig m key tok)"
    if "demo_parse now methods kf tok = Inr (c, v)" for now methods tok c v and kf :: "string \<Rightarrow> go_error + string"
    using that by (auto simp: demo_parse_def demo_sig_def Let_def split: list.splits sum.splits if_splits)
  show ?thesis
    unfolding jwt_ok_def
  proof (intro conjI allI impI)
    fix key c show "\<exists>t. jw_SignedString demo_jwt HS256 key c = Inr t \<and> t \<noteq> [] \<and> (\<forall>x \<in> set t. token_char x) \<and> demo_sig HS256 key t"
      using tok by (auto simp: demo_jwt_def)
  next
    fix m key c t methods now and kf :: "string \<Rightarrow> go_error + string"
    assume "jw_SignedString demo_jwt m key c = Inr t" "m \<in> set methods" "kf m = Inr key" "unexpired now c"
    then show "jw_ParseWithClaims demo_jwt now methods kf t = Inr (c, True)"
      using rt by (auto simp: demo_jwt_def split: if_splits)
  next
    fix now methods t c v and kf :: "string \<Rightarrow> go_error + string" assume *: "jw_ParseWithClaims demo_jwt now methods kf t = Inr (c, v)"
    then have **: "demo_parse now methods kf t = Inr (c, v)" by (simp add: demo_jwt_def)
    show "unexpired now c" using snd [OF **] by simp
    show "\<exists>m \<in> set methods. \<exists>key. kf m = Inr key \<and> demo_sig m key t" using snd [OF **] by simp
  qed
qed

lemma demo_bcrypt_ok: "bcrypt_ok demo_bcrypt"
proof -
  have "takeWhile (\<lambda>c. c \<noteq> CHR ''.'') (pw @ replicate n (CHR ''.'')) = pw" if "CHR ''.'' \<notin> set pw" for pw n
    using that by (subst takeWhile_append2) auto
  then show ?thesis by (auto simp: bcrypt_ok_def demo_bcrypt_def split: if_splits)
qed

subsection \<open>Sessions\<close>

lemma Login_finds_user:
  assumes "bcrypt_ok bc" "jwt_ok jl sig" "w_sched w = []" "db_ok (w_db w)" "u \<in> set (t_users (w_db w))"
    and "normal_email (lr_Email req) = u_Email u" "u_Email u \<noteq> []" "bc_Generate bc salt (lr_Password req) cost = Inr (u_PasswordHash u)"
    and "lr_Password req \<noteq> []"
  shows "AuthHandler_Login bc jl s (Some req) w = open_session jl s u (w\<lparr>w_seq := Suc (w_seq w)\<rparr>)"
proof -
  have "length (u_PasswordHash u) = 60" "bc_Compare bc (u_PasswordHash u) (lr_Password req) = None"
    using assms(1,8) unfolding bcrypt_ok_def by blast+
  then have "CheckPassword bc (lr_Password req) (u_PasswordHash u)" using assms(9) by (auto simp: CheckPassword_def)
  then show ?thesis
    using GetUser_quiet(1) [OF assms(3-5)] assms(6,7,9) by (simp add: AuthHandler_Login_def call_def)
qed

text \<open>
  C13. A registered user can use his account. After a successful registration, at any later time at
  which the row is still there, a login with the same password and the same address up to
  spelling opens a session: the access token is accepted by the dashboard routes, as the
  registered user, for 15 minutes less a second; the refresh token gives, for 7 days less a
  second, access tokens that are accepted in the same way; and the key of the account opens the
  agent routes as the same user.
\<close>

theorem registered_user_session:
  assumes "bcrypt_ok bc" "jwt_ok jl sig" "AuthHandler_Register bc (Some req) w = (Success c acc, w1)" "w_sched w = []"
    and "\<forall>b. Some b \<in> set (w_rand w) \<longrightarrow> length b = 32" "rp_ID acc \<noteq> []" "ValidString (rp_ID acc)" "ValidString (rp_Email acc)"
    and "w_sched w2 = []" "db_ok (w_db w2)" "set (t_users (w_db w1)) \<subseteq> set (t_users (w_db w2))"
    and "normal_email (lr_Email lreq) = normal_email (rr_Email req)" "lr_Password lreq = rr_Password req"
  shows "\<exists>sess w3. AuthHandler_Login bc jl s (Some lreq) w2 = (Success 200 sess, w3) \<and>
     lp_UserID sess = rp_ID acc \<and> lp_APIKey sess = rp_APIKey acc \<and>
     (\<forall>v ctx h. w_now v + 1000000000 \<le> w_now w2 + accessTokenTTL \<longrightarrow>
        AuthMiddleware jl s (''Bearer '' @ lp_AccessToken sess) h ctx v =
          h (ctx\<lparr>cx_userID := Some (rp_ID acc), cx_email := Some (rp_Email acc)\<rparr>) v) \<and>
     (\<forall>v. w_now v + 1000000000 \<le> w_now w2 + refreshTokenTTL \<longrightarrow>
        (\<exists>a. AuthHandler_Refresh jl s (Some (lp_RefreshToken sess)) v = (Success 200 a, v) \<and>
          (\<forall>v' ctx h. w_now v' + 1000000000 \<le> w_now v + accessTokenTTL \<longrightarrow>
             AuthMiddleware jl s (''Bearer '' @ a) h ctx v' = h (ctx\<lparr>cx_userID := Some (rp_ID acc), cx_email := Some (rp_Email acc)\<rparr>) v'))) \<and>
     (\<forall>ctx h. APIKeyMiddleware (Some apiKeyValidator) (rp_APIKey acc) h ctx w2 =
        h (ctx\<lparr>cx_apiKey := Some (rp_APIKey acc), cx_userID := Some (rp_ID acc)\<rparr>) (w2\<lparr>w_seq := Suc (w_seq w2)\<rparr>))"
proof -
  obtain u b salt where u: "u \<in> set (t_users (w_db w1))" "u_ID u = rp_ID acc" "u_Email u = rp_Email acc" "u_APIKey u = rp_APIKey acc"
    "rp_Email acc = normal_email (rr_Email req)" "rp_Email acc \<noteq> []" "8 \<le> length (rr_Password req)"
    "Some b \<in> set (w_rand w)" "rp_APIKey acc = concat (map hex_byte b)"
    "bc_Generate bc salt (rr_Password req) passwordCost = Inr (u_PasswordHash u)"
    using Register_Success [OF assms(3,4)] by metis
  have in2: "u \<in> set (t_users (w_db w2))" using u(1) assms(11) by blast
  let ?w = "w2\<lparr>w_seq := Suc (w_seq w2)\<rparr>"
  have "lr_Password lreq \<noteq> []" using u(7) assms(13) by auto
  then have login: "AuthHandler_Login bc jl s (Some lreq) w2 = open_session jl s u ?w"
    using u assms(12,13) by (intro Login_finds_user [OF assms(1,2,9,10) in2, where salt = salt and cost = passwordCost]) simp_all
  obtain a r where s: "open_session jl s u ?w = (Success 200 \<lparr>lp_AccessToken = a, lp_RefreshToken = r, lp_APIKey = u_APIKey u,
       lp_UserID = u_ID u, lp_UserEmail = u_Email u, lp_UserName = u_Name u\<rparr>, ?w)"
    "a \<noteq> []" "\<forall>x \<in> set a. token_char x" "r \<noteq> []" "\<forall>x \<in> set r. token_char x"
    "\<And>t. t + 1000000000 \<le> w_now w2 + accessTokenTTL \<Longrightarrow>
       ValidateToken jl s t a = Inr (token_claims (w_now w2) (u_ID u) (u_Email u) accessTokenTTL ''access'')"
    "\<And>t. t + 1000000000 \<le> w_now w2 + refreshTokenTTL \<Longrightarrow>
       ValidateToken jl s t r = Inr (token_claims (w_now w2) (u_ID u) (u_Email u) refreshTokenTTL ''refresh'')"
    using open_session_valid [OF assms(2), of u s ?w] u assms(6-8) by auto
  have access: "AuthMiddleware jl s (''Bearer '' @ a) h ctx v = h (ctx\<lparr>cx_userID := Some (rp_ID acc), cx_email := Some (rp_Email acc)\<rparr>) v"
    if "w_now v + 1000000000 \<le> w_now w2 + accessTokenTTL" for v ctx h
    using AuthMiddleware_token [OF s(6) [OF that] s(2,3)] u(2,3) by (simp add: token_claims_def)
  have refresh: "\<exists>a. AuthHandler_Refresh jl s (Some r) v = (Success 200 a, v) \<and>
      (\<forall>v' ctx h. w_now v' + 1000000000 \<le> w_now v + accessTokenTTL \<longrightarrow>
         AuthMiddleware jl s (''Bearer '' @ a) h ctx v' = h (ctx\<lparr>cx_userID := Some (rp_ID acc), cx_email := Some (rp_Email acc)\<rparr>) v')"
    if "w_now v + 1000000000 \<le> w_now w2 + refreshTokenTTL" for v
    by (rule Refresh_valid [OF assms(2) s(7) [OF that] s(4,5)]) (use u assms(6-8) in \<open>auto simp: token_claims_def\<close>)
  have key: "APIKeyMiddleware (Some apiKeyValidator) (rp_APIKey acc) h ctx w2 =
      h (ctx\<lparr>cx_apiKey := Some (rp_APIKey acc), cx_userID := Some (rp_ID acc)\<rparr>) ?w" for ctx h
  proof -
    have "length b = 32" using u(8) assms(5) by blast
    then have "b \<noteq> []" by auto
    then have "rp_APIKey acc \<noteq> []" using u(9) by (cases b) (simp_all add: hex_byte_def)
    moreover have "TrimSpace (rp_APIKey acc) = rp_APIKey acc" using u(9) hex_byte_token by (intro TrimSpace_token) auto
    moreover have "apiKeyValidator (rp_APIKey acc) w2 = (Inr (rp_ID acc), ?w)"
      using GetUser_quiet(2) [OF assms(9,10) in2] u(2,4) by (simp add: apiKeyValidator_def)
    ultimately show ?thesis using assms(6) by (simp add: APIKeyMiddleware_def call_def Let_def)
  qed
  show ?thesis
    unfolding login s(1) using access refresh key u(2,4) by auto
qed

definition account_world :: world where
  "account_world = sample_world\<lparr>w_db := empty_tables, w_rand := [Some (replicate 32 7), Some (replicate 32 9)]\<rparr>"

definition account_request :: registerRequest where
  "account_request = \<lparr>rr_Email = ''Eve@Example.org '', rr_Password = ''correct horse'', rr_Name = ''Eve''\<rparr>"

definition account_login :: loginRequest where
  "account_login = \<lparr>lr_Email = ''eve@example.org'', lr_Password = ''correct horse''\<rparr>"

definition account_made :: registerResponse where
  "account_made = \<lparr>rp_ID = ''id-0'', rp_Email = ''eve@example.org'', rp_Name = ''Eve'', rp_APIKey = concat (map hex_byte (replicate 32 9)), rp_CreatedAt = 100\<rparr>"

definition account_user :: User where
  "account_user = \<lparr>u_ID = ''id-0'', u_Email = ''eve@example.org'', u_PasswordHash = ''correct horse'' @ replicate 47 (CHR ''.''),
     u_Name = ''Eve'', u_APIKey = concat (map hex_byte (replicate 32 9)), u_CreatedAt = 100, u_UpdatedAt = 100\<rparr>"

definition account_after :: world where
  "account_after = account_world\<lparr>w_db := empty_tables\<lparr>t_users := [account_user]\<rparr>, w_seq := 1, w_rand := []\<rparr>"

lemma account_run: "AuthHandler_Register demo_bcrypt (Some account_request) account_world = (Success 201 account_made, account_after)"
proof -
  have "normal_email ''Eve@Example.org '' = ''eve@example.org''" "TrimSpace ''Eve'' = ''Eve''" "nat_digits 0 = ''0''"
    "varchars_fit [(255, ''eve@example.org''), (255, ''correct horse'' @ replicate 47 (CHR ''.'')), (100, ''Eve''),
       (64, concat (map hex_byte (replicate 32 9)))]"
    by code_simp+
  then show ?thesis
    by (simp add: AuthHandler_Register_def account_request_def account_world_def sample_world_def HashPassword_def next_random_def
        demo_bcrypt_def generateAPIKey_def CreateUser_def exec_def run_stmt_def CreateUser_stmt_def gen_uuid_def empty_tables_def
        call_def reply_def wrap_def andThen_def account_made_def account_after_def account_user_def passwordCost_def Let_def)
qed

lemma account_facts:
  "w_sched account_world = []" "\<forall>b. Some b \<in> set (w_rand account_world) \<longrightarrow> length b = 32" "rp_ID account_made \<noteq> []"
  "ValidString (rp_ID account_made)" "ValidString (rp_Email account_made)" "w_sched account_after = []" "db_ok (w_db account_after)"
  "normal_email (lr_Email account_login) = normal_email (rr_Email account_request)" "lr_Password account_login = rr_Password account_request"
proof -
  show "normal_email (lr_Email account_login) = normal_email (rr_Email account_request)" by code_simp
qed (simp_all add: account_world_def account_made_def account_after_def sample_world_def ValidString_def db_ok_def peers_ok_def empty_tables_def
      account_login_def account_request_def)

theorem registered_user_session_witness:
  "AuthHandler_Register demo_bcrypt (Some account_request) account_world = (Success 201 account_made, account_after) \<and>
   (\<exists>sess w3. AuthHandler_Login demo_bcrypt demo_jwt \<lparr>js_secret = ''k''\<rparr> (Some account_login) account_after = (Success 200 sess, w3) \<and>
     AuthMiddleware demo_jwt \<lparr>js_secret = ''k''\<rparr> (''Bearer '' @ lp_AccessToken sess) (\<lambda>ctx. reply (Success 200 (UserIDFromContext ctx))) empty_ctx account_after =
       (Success 200 (Some ''id-0''), account_after))"
proof -
  obtain sess w3 where l: "AuthHandler_Login demo_bcrypt demo_jwt \<lparr>js_secret = ''k''\<rparr> (Some account_login) account_after = (Success 200 sess, w3)"
    "\<And>v ctx (h :: auth_ctx \<Rightarrow> string option handler). w_now v + 1000000000 \<le> w_now account_after + accessTokenTTL \<Longrightarrow>
        AuthMiddleware demo_jwt \<lparr>js_secret = ''k''\<rparr> (''Bearer '' @ lp_AccessToken sess) h ctx v =
          h (ctx\<lparr>cx_userID := Some (rp_ID account_made), cx_email := Some (rp_Email account_made)\<rparr>) v"
    using registered_user_session [OF demo_bcrypt_ok demo_jwt_ok account_run account_facts(1-7) subset_refl account_facts(8,9)] by blast
  have "w_now account_after + 1000000000 \<le> w_now account_after + accessTokenTTL" by (simp add: accessTokenTTL_def)
  from l(2) [OF this] have "AuthMiddleware demo_jwt \<lparr>js_secret = ''k''\<rparr> (''Bearer '' @ lp_AccessToken sess)
      (\<lambda>ctx. reply (Success 200 (UserIDFromContext ctx))) empty_ctx account_after = (Success 200 (Some ''id-0''), account_after)"
    by (simp add: account_made_def UserIDFromContext_def from_ctx_def reply_def)
  with l(1) account_run show ?thesis by blast
qed

subsection \<open>Limits of the checks\<close>

text \<open>
  The middleware does not look at the kind of a token: a refresh token opens the dashboard routes
  as an access token does, and for 7 days instead of 15 minutes.
\<close>

lemma refresh_token_opens_dashboard:
  assumes "jwt_ok jl sig" "userID \<noteq> []" "ValidString userID" "ValidString email"
  shows "\<exists>tok. GenerateRefreshTokenWithEmail jl s now userID email = Inr tok \<and>
    (\<forall>w ctx h. w_now w + 1000000000 \<le> now + refreshTokenTTL \<longrightarrow>
       AuthMiddleware jl s (''Bearer '' @ tok) h ctx w = h (ctx\<lparr>cx_userID := Some userID, cx_email := Some email\<rparr>) w)"
proof -
  obtain tok where tok: "generateToken jl s now userID email refreshTokenTTL ''refresh'' = Inr tok" "tok \<noteq> []" "\<forall>x \<in> set tok. token_char x"
    "\<And>t. t + 1000000000 \<le> now + refreshTokenTTL \<Longrightarrow> ValidateToken jl s t tok = Inr (token_claims now userID email refreshTokenTTL ''refresh'')"
    using generateToken_valid [OF assms ValidString_types(2)] by metis
  have "AuthMiddleware jl s (''Bearer '' @ tok) h ctx w = h (ctx\<lparr>cx_userID := Some userID, cx_email := Some email\<rparr>) w"
    if "w_now w + 1000000000 \<le> now + refreshTokenTTL" for w ctx h
    using AuthMiddleware_token [OF tok(4) [OF that] tok(2,3)] by (simp add: token_claims_def)
  with tok(1) show ?thesis unfolding GenerateRefreshTokenWithEmail_def by blast
qed

text \<open>The other way round the kind is checked: an access token gives no new access token.\<close>

lemma access_token_does_not_refresh:
  assumes "ValidateToken jl s (w_now w) (TrimSpace tok) = Inr c" "cl_ID c = ''access''"
  shows "\<exists>st m. AuthHandler_Refresh jl s (Some tok) w = (Failure st m, w)"
  using assms by (simp add: AuthHandler_Refresh_def)

text \<open>
  A long password is answered with an internal error, because \<open>Register\<close> has no upper bound on the
  length while \<open>bcrypt\<close> has one.
\<close>

lemma Register_long_password:
  assumes "bcrypt_ok bc" "72 < length (rr_Password req)" "normal_email (rr_Email req) \<noteq> []"
  shows "fst (AuthHandler_Register bc (Some req) w) = Failure 500 ''failed to hash password''"
proof -
  have "\<exists>e. bc_Generate bc salt (rr_Password req) cost = Inl e" for salt cost
    using assms(1,2) unfolding bcrypt_ok_def by (metis not_less sum.exhaust)
  then have e: "\<And>salt. \<exists>e. bc_Generate bc salt (rr_Password req) passwordCost = Inl e" by blast
  have pw: "rr_Password req \<noteq> []" "\<not> length (rr_Password req) < 8" using assms(2) by auto
  obtain r w1 where r: "next_random w = (Inr r, w1)" by (cases "w_rand w") (simp_all add: next_random_def)
  obtain e where "bc_Generate bc r (rr_Password req) passwordCost = Inl e" using e by blast
  then have "HashPassword bc (rr_Password req) w = (Inl (Wrapf ''hash password'' e), w1)" using r pw(1) by (simp add: HashPassword_def)
  moreover note pw
  ultimately show ?thesis using assms(3) by (auto simp: AuthHandler_Register_def Let_def call_def)
qed

text \<open>A login tells a wrong password and an unknown address apart in no way.\<close>

lemma Login_unknown_or_wrong:
  assumes "w_sched w = []" "normal_email (lr_Email req) \<noteq> []" "lr_Password req \<noteq> []"
    and "\<forall>u \<in> set (t_users (w_db w)). u_Email u = normal_email (lr_Email req) \<longrightarrow> \<not> CheckPassword bc (lr_Password req) (u_PasswordHash u)"
  shows "fst (AuthHandler_Login bc jl s (Some req) w) = Failure 401 ''invalid credentials''"
proof (cases "find (\<lambda>u. u_Email u = normal_email (lr_Email req)) (t_users (w_db w))")
  case None
  then show ?thesis
    using assms(1-3) by (simp add: AuthHandler_Login_def call_def GetUserByEmail_def mapped_def exec_def run_stmt_def select_user_def mapNotFound_def Let_def
        ErrNoRows_def ErrNotFound_def)
next
  case (Some u)
  then have "u \<in> set (t_users (w_db w))" "u_Email u = normal_email (lr_Email req)" by (auto simp: find_Some_iff)
  then have "\<not> CheckPassword bc (lr_Password req) (u_PasswordHash u)" using assms(4) by blast
  with Some show ?thesis
    using assms(1-3) by (simp add: AuthHandler_Login_def call_def GetUserByEmail_def mapped_def exec_def run_stmt_def select_user_def reply_def Let_def)
qed

end
