(* ===== verification/Router.thy ===== *)
theory Router
  imports Auth
begin

text \<open>
  The middleware chains of \<open>SetupRouter\<close> in \<open>server/internal/api/router.go\<close>: which checks stand
  between a request and its handler, for each group of routes. The state is the world of the
  handlers with the three rate limiters. The matching of paths is chi's; a request comes with the
  group and the handler of its route. The request identifier, the recovery from panics and the
  log line are left out.
\<close>

subsection \<open>Requests and groups\<close>

record server_state =
  sv_world :: world
  sv_global :: RateLimiter
  sv_auth :: RateLimiter
  sv_agent :: RateLimiter

record inbound_request =
  hq_Method :: string
  hq_RemoteAddr :: string
  hq_XRealIP :: string
  hq_XForwardedFor :: string
  hq_Origin :: string
  hq_Authorization :: string
  hq_APIKey :: string

text \<open>\<open>None\<close> is the empty answer 204 to a preflight request.\<close>

type_synonym 'd service = "server_state \<Rightarrow> 'd response option \<times> server_state"

definition on_world :: "'d handler \<Rightarrow> 'd service" where
  "on_world h s = (case h (sv_world s) of (r, w) \<Rightarrow> (Some r, s\<lparr>sv_world := w\<rparr>))"

definition server_seconds :: "server_state \<Rightarrow> rat" where
  "server_seconds s = of_int (w_now (sv_world s)) / 1000000000"

definition Limit :: "(server_state \<Rightarrow> RateLimiter) \<Rightarrow> (RateLimiter \<Rightarrow> server_state \<Rightarrow> server_state) \<Rightarrow> string \<Rightarrow> 'd service \<Rightarrow> 'd service" where
  "Limit get put key next s =
     (case Allow (server_seconds s) key (get s) of
        (ok, rl) \<Rightarrow> if \<not> ok then (Some (Failure 429 ''rate limit exceeded''), put rl s) else next (put rl s))"

abbreviation limit_global :: "string \<Rightarrow> 'd service \<Rightarrow> 'd service" where
  "limit_global \<equiv> Limit sv_global (\<lambda>rl. sv_global_update (\<lambda>_. rl))"

abbreviation limit_auth :: "string \<Rightarrow> 'd service \<Rightarrow> 'd service" where
  "limit_auth \<equiv> Limit sv_auth (\<lambda>rl. sv_auth_update (\<lambda>_. rl))"

abbreviation limit_agent :: "string \<Rightarrow> 'd service \<Rightarrow> 'd service" where
  "limit_agent \<equiv> Limit sv_agent (\<lambda>rl. sv_agent_update (\<lambda>_. rl))"

text \<open>
  The groups of routes: without a group of their own (health, downloads, install scripts, quick
  connect), the join route, the device routes, the session routes, the dashboard and the agents.
\<close>

datatype route_group = PublicRoutes | JoinRoutes | MemberTunnel | AuthRoutes | UserProtected | AgentProtected

text \<open>
  A middleware that answers or goes on is used here as a step that gives the context it
  passes on; \<open>AuthMiddleware\<close> and \<open>APIKeyMiddleware\<close> never answer with success themselves.
\<close>

definition then_serve :: "auth_ctx handler \<Rightarrow> (auth_ctx \<Rightarrow> 'd service) \<Rightarrow> 'd service" where
  "then_serve mw next s =
     (case mw (sv_world s) of
        (Success _ ctx, w) \<Rightarrow> next ctx (s\<lparr>sv_world := w\<rparr>)
      | (Failure c m, w) \<Rightarrow> (Some (Failure c m), s\<lparr>sv_world := w\<rparr>)
      | (Panicked m, w) \<Rightarrow> (Some (Panicked m), s\<lparr>sv_world := w\<rparr>))"

abbreviation pass_on :: "auth_ctx \<Rightarrow> auth_ctx handler" where
  "pass_on \<equiv> \<lambda>ctx. reply (Success 200 ctx)"

definition group_chain :: "jwt_lib \<Rightarrow> JWTService \<Rightarrow> route_group \<Rightarrow> string \<Rightarrow> inbound_request \<Rightarrow> (auth_ctx \<Rightarrow> 'd service) \<Rightarrow> 'd service" where
  "group_chain jl js grp key rq h =
     (case grp of
        PublicRoutes \<Rightarrow> h empty_ctx
      | JoinRoutes \<Rightarrow> limit_auth key (h empty_ctx)
      | MemberTunnel \<Rightarrow> limit_agent key (h empty_ctx)
      | AuthRoutes \<Rightarrow> limit_auth key (h empty_ctx)
      | UserProtected \<Rightarrow> then_serve (AuthMiddleware jl js (hq_Authorization rq) pass_on empty_ctx) h
      | AgentProtected \<Rightarrow>
          then_serve (APIKeyMiddleware (Some apiKeyValidator) (hq_APIKey rq) pass_on empty_ctx) (\<lambda>ctx. limit_agent key (h ctx)))"

definition route_chain :: "jwt_lib \<Rightarrow> JWTService \<Rightarrow> string list \<Rightarrow> string list \<Rightarrow> route_group \<Rightarrow> inbound_request \<Rightarrow> (auth_ctx \<Rightarrow> 'd handler) \<Rightarrow> 'd service" where
  "route_chain jl js allowedOrigins trustedProxies grp rq h =
     (let key = RemoteIPKey (RealIP trustedProxies (hq_RemoteAddr rq) (hq_XRealIP rq) (hq_XForwardedFor rq))
      in if \<not> snd (CORS allowedOrigins (hq_Origin rq) (hq_Method rq)) then (\<lambda>s. (None, s))
         else limit_global key (group_chain jl js grp key rq (\<lambda>ctx. on_world (h ctx))))"

text \<open>
  The routes, as method, pattern and group; the quick-connect route is there only when it is
  enabled. Which handler serves a route is said by its theory: \<open>Api\<close>, \<open>Coord\<close>, \<open>Auth\<close> and \<open>Middleware\<close>.
\<close>

definition route_table :: "QuickConnectBootstrap option \<Rightarrow> (string \<times> string \<times> route_group) list" where
  "route_table quickConnect =
     [(''GET'', ''/install.sh'', PublicRoutes), (''HEAD'', ''/install.sh'', PublicRoutes),
      (''GET'', ''/join/{network_id}'', PublicRoutes), (''GET'', ''/join/{network_id}/ps1'', PublicRoutes),
      (''GET'', ''/health'', PublicRoutes)] @
     (case quickConnect of None \<Rightarrow> [] | Some b \<Rightarrow> if qc_Enabled b then [(''GET'', ''/api/v1/quick-connect'', PublicRoutes)] else []) @
     map (\<lambda>(m, p, g). (m, ''/api/v1'' @ p, g))
       [(''GET'', ''/downloads/client/{os}/{arch}'', PublicRoutes),
        (''POST'', ''/join'', JoinRoutes),
        (''GET'', ''/members/{mid}/status'', MemberTunnel), (''PUT'', ''/members/{mid}/heartbeat'', MemberTunnel),
        (''GET'', ''/members/{mid}/peers'', MemberTunnel), (''POST'', ''/members/{mid}/announce'', MemberTunnel),
        (''POST'', ''/members/{mid}/offline'', MemberTunnel), (''GET'', ''/members/{mid}/relay'', MemberTunnel),
        (''POST'', ''/auth/register'', AuthRoutes), (''POST'', ''/auth/login'', AuthRoutes), (''POST'', ''/auth/refresh'', AuthRoutes),
        (''POST'', ''/networks/'', UserProtected), (''GET'', ''/networks/'', UserProtected), (''GET'', ''/networks/{id}'', UserProtected),
        (''PUT'', ''/networks/{id}'', UserProtected), (''DELETE'', ''/networks/{id}'', UserProtected),
        (''GET'', ''/networks/{id}/peers'', UserProtected), (''GET'', ''/networks/{id}/members'', UserProtected),
        (''POST'', ''/networks/{id}/members/{mid}/approve'', UserProtected), (''POST'', ''/networks/{id}/members/{mid}/reject'', UserProtected),
        (''DELETE'', ''/networks/{id}/members/{mid}'', UserProtected),
        (''POST'', ''/networks/{id}/peers/register'', AgentProtected), (''POST'', ''/networks/{id}/peers/unregister'', AgentProtected),
        (''PUT'', ''/networks/{id}/peers/{peerId}/heartbeat'', AgentProtected), (''POST'', ''/coord/announce'', AgentProtected),
        (''GET'', ''/coord/peers/{networkId}'', AgentProtected), (''GET'', ''/coord/relay/assign'', AgentProtected)]"

text \<open>The health check; the two pings are external, and the statistics of the pool are left out.\<close>

definition health :: "go_error option \<Rightarrow> go_error option \<Rightarrow> (string \<times> string) list response" where
  "health pg_ping redis_ping =
     (let show_check = (\<lambda>r. case r of None \<Rightarrow> ''ok'' | Some e \<Rightarrow> ''degraded: '' @ error_string e);
          allOK = (pg_ping = None \<and> redis_ping = None);
          checks = [(''server'', ''ok''), (''postgres'', show_check pg_ping), (''redis'', show_check redis_ping)]
      in if allOK then Success 200 ((''status'', ''ok'') # checks) else Success 503 ((''status'', ''degraded'') # checks))"

text \<open>Every route under \<open>/networks\<close> and \<open>/coord\<close> needs credentials, and no route is registered twice.\<close>

lemma route_table_protects:
  "\<forall>(m, p, g) \<in> set (route_table q). HasPrefix p ''/api/v1/networks'' \<or> HasPrefix p ''/api/v1/coord'' \<longrightarrow> g = UserProtected \<or> g = AgentProtected"
  "distinct (map (\<lambda>(m, p, g). (m, p)) (route_table q))"
  by (auto simp: route_table_def HasPrefix_def split: option.splits)

subsection \<open>The middlewares as steps\<close>

text \<open>Running a middleware with a handler is the same as running it alone and then the handler.\<close>

lemma AuthMiddleware_step:
  "AuthMiddleware jl js hdr h ctx w =
     (case AuthMiddleware jl js hdr pass_on ctx w of
        (Success _ c, w') \<Rightarrow> h c w' | (Failure st m, w') \<Rightarrow> (Failure st m, w') | (Panicked m, w') \<Rightarrow> (Panicked m, w'))"
  by (simp add: AuthMiddleware_def writeUnauthorized_def reply_def Let_def split: sum.splits)

lemma APIKeyMiddleware_step:
  "APIKeyMiddleware v hdr h ctx w =
     (case APIKeyMiddleware v hdr pass_on ctx w of
        (Success _ c, w') \<Rightarrow> h c w' | (Failure st m, w') \<Rightarrow> (Failure st m, w') | (Panicked m, w') \<Rightarrow> (Panicked m, w'))"
  by (simp add: APIKeyMiddleware_def writeUnauthorized_def reply_def call_def Let_def split: sum.splits prod.splits)

lemma AuthMiddleware_passes:
  assumes "AuthMiddleware jl js hdr pass_on ctx w = (Success st ctx', w')"
  shows "\<exists>c. ValidateToken jl js (w_now w) (TrimSpace (TrimPrefix (TrimSpace hdr) ''Bearer '')) = Inr c \<and>
    HasPrefix (TrimSpace hdr) ''Bearer '' \<and> w' = w \<and> ctx' = ctx\<lparr>cx_userID := Some (cl_UserID c), cx_email := Some (cl_Email c)\<rparr>"
  using assms by (auto simp: AuthMiddleware_def writeUnauthorized_def reply_def Let_def split: if_splits sum.splits)

lemma GetUserByAPIKey_Inr:
  assumes "GetUserByAPIKey k w = (Inr u, w')"
  shows "u \<in> set (t_users (stmt_tables w)) \<and> u_APIKey u = k"
proof -
  have "exec (select_user (\<lambda>u. u_APIKey u = k)) w = (Inr u, w')"
    using assms by (auto simp: GetUserByAPIKey_def mapped_def split: prod.splits sum.splits)
  then obtain v where "select_user (\<lambda>u. u_APIKey u = k) v = Inr (u, w_db w')" "w_db v = stmt_tables w"
    by (rule exec_Inr)
  then show ?thesis by (auto simp: select_user_def find_Some_iff split: option.splits)
qed

lemma APIKeyMiddleware_passes:
  assumes "APIKeyMiddleware (Some apiKeyValidator) hdr pass_on ctx w = (Success st ctx', w')"
  shows "\<exists>u \<in> set (t_users (stmt_tables w)). u_APIKey u = TrimSpace hdr \<and> TrimSpace hdr \<noteq> [] \<and> cx_apiKey ctx' = Some (TrimSpace hdr) \<and>
    cx_userID ctx' = (if u_ID u = [] then cx_userID ctx else Some (u_ID u))"
proof -
  obtain oid where *: "apiKeyValidator (TrimSpace hdr) w = (Inr oid, w')" "TrimSpace hdr \<noteq> []"
    "ctx' = (let ctx1 = ctx\<lparr>cx_apiKey := Some (TrimSpace hdr)\<rparr> in if oid \<noteq> [] then ctx1\<lparr>cx_userID := Some oid\<rparr> else ctx1)"
    using assms by (auto simp: APIKeyMiddleware_def writeUnauthorized_def reply_def call_def Let_def split: if_splits sum.splits prod.splits)
  obtain u where "GetUserByAPIKey (TrimSpace hdr) w = (Inr u, w')" "oid = u_ID u"
    using *(1) by (auto simp: apiKeyValidator_def success_iff)
  with * show ?thesis using GetUserByAPIKey_Inr by (intro bexI [of _ u]) (auto simp: Let_def)
qed

subsection \<open>Who reaches a handler\<close>

text \<open>The context with which a request reaches its handler, if it does; and the address it counts under.\<close>

definition admitted :: "jwt_lib \<Rightarrow> JWTService \<Rightarrow> string list \<Rightarrow> string list \<Rightarrow> route_group \<Rightarrow> inbound_request \<Rightarrow> server_state \<Rightarrow> auth_ctx option" where
  "admitted jl js ao tp grp rq s = (case fst (route_chain jl js ao tp grp rq pass_on s) of Some (Success _ ctx) \<Rightarrow> Some ctx | _ \<Rightarrow> None)"

definition client_key :: "string list \<Rightarrow> inbound_request \<Rightarrow> string" where
  "client_key tp rq = RemoteIPKey (RealIP tp (hq_RemoteAddr rq) (hq_XRealIP rq) (hq_XForwardedFor rq))"

lemmas chain_defs = route_chain_def group_chain_def Limit_def then_serve_def on_world_def client_key_def Let_def

text \<open>A handler only runs when its request is admitted, and then with the context of the chain.\<close>

lemma route_chain_run:
  "route_chain jl js ao tp grp rq h s =
     (case route_chain jl js ao tp grp rq pass_on s of
        (None, s') \<Rightarrow> (None, s')
      | (Some (Success _ ctx), s') \<Rightarrow> on_world (h ctx) s'
      | (Some (Failure c m), s') \<Rightarrow> (Some (Failure c m), s')
      | (Some (Panicked m), s') \<Rightarrow> (Some (Panicked m), s'))"
  by (cases grp) (auto simp: chain_defs reply_def split: prod.splits if_splits response.splits)

definition auth_group :: "route_group \<Rightarrow> bool" where
  "auth_group grp \<longleftrightarrow> grp = AuthRoutes \<or> grp = JoinRoutes"

text \<open>What one request does to the limiter of logins and joins.\<close>

lemma auth_limiter_step:
  "\<not> auth_group grp \<Longrightarrow> sv_auth (snd (route_chain jl js ao tp grp rq h s)) = sv_auth s"
  "auth_group grp \<Longrightarrow>
     sv_auth (snd (route_chain jl js ao tp grp rq h s)) = sv_auth s \<and> admitted jl js ao tp grp rq s = None \<or>
     (\<exists>ok. Allow (server_seconds s) (client_key tp rq) (sv_auth s) = (ok, sv_auth (snd (route_chain jl js ao tp grp rq h s))) \<and>
       (admitted jl js ao tp grp rq s \<noteq> None \<longleftrightarrow> ok))"
  by (cases grp; auto simp: chain_defs auth_group_def admitted_def reply_def server_seconds_def split: prod.splits if_splits response.splits)+

subsection \<open>Guessing is limited\<close>

text \<open>
  A run of the server: requests at given times, each with its route group and its handler. Counted
  are the requests of one client that reach a handler of the session or the join routes.
\<close>

fun served_count :: "jwt_lib \<Rightarrow> JWTService \<Rightarrow> string list \<Rightarrow> string list \<Rightarrow> string \<Rightarrow>
    (int \<times> route_group \<times> inbound_request \<times> (auth_ctx \<Rightarrow> 'd handler)) list \<Rightarrow> server_state \<Rightarrow> nat \<times> server_state" where
  "served_count jl js ao tp k [] s = (0, s)"
| "served_count jl js ao tp k ((now, grp, rq, h) # reqs) s =
     (let s0 = s\<lparr>sv_world := (sv_world s)\<lparr>w_now := now\<rparr>\<rparr>;
          n = (if auth_group grp \<and> client_key tp rq = k \<and> admitted jl js ao tp grp rq s0 \<noteq> None then 1 else 0)
      in case served_count jl js ao tp k reqs (snd (route_chain jl js ao tp grp rq h s0)) of (m, s') \<Rightarrow> (n + m, s'))"

definition seconds_of :: "int \<Rightarrow> rat" where
  "seconds_of t = of_int t / 1000000000"

lemma served_step:
  assumes "limiter_ok (seconds_of t) (sv_auth s)" "t \<le> now" "s0 = s\<lparr>sv_world := (sv_world s)\<lparr>w_now := now\<rparr>\<rparr>"
    and "s1 = snd (route_chain jl js ao tp grp rq h s0)"
    and "n = (if auth_group grp \<and> client_key tp rq = k \<and> admitted jl js ao tp grp rq s0 \<noteq> None then 1 else 0 :: nat)"
  shows "limiter_ok (seconds_of now) (sv_auth s1) \<and> rl_rate (sv_auth s1) = rl_rate (sv_auth s) \<and>
    of_nat n + available (seconds_of now) k (sv_auth s1) \<le> available (seconds_of t) k (sv_auth s) + (seconds_of now - seconds_of t) * rl_rate (sv_auth s)"
proof -
  have le: "seconds_of t \<le> seconds_of now" using assms(2) by (simp add: seconds_of_def divide_right_mono)
  have s0: "sv_auth s0 = sv_auth s" "server_seconds s0 = seconds_of now" using assms(3) by (simp_all add: server_seconds_def seconds_of_def)
  note time = available_time(1) [OF assms(1) le, of k] available_time(3) [OF assms(1) le]
  consider (same) "sv_auth s1 = sv_auth s" "n = 0"
    | (step) ok where "Allow (seconds_of now) (client_key tp rq) (sv_auth s) = (ok, sv_auth s1)" "n = (if ok \<and> client_key tp rq = k then 1 else 0)"
    using auth_limiter_step(1) [of grp jl js ao tp rq h s0] auth_limiter_step(2) [of grp jl js ao tp rq h s0] assms(4,5) s0 by (cases "auth_group grp") auto
  then show ?thesis
  proof cases
    case same
    with time show ?thesis by simp
  next
    case step
    from Allow_step [OF assms(1) le step(1), of k] step(2) time(1) show ?thesis by auto
  qed
qed

lemma served_count_bound:
  assumes "limiter_ok (seconds_of t) (sv_auth s)" "sorted (t # map fst reqs)" "served_count jl js ao tp k reqs s = (n, s')"
  shows "of_nat n + available (seconds_of (last (t # map fst reqs))) k (sv_auth s') \<le>
      available (seconds_of t) k (sv_auth s) + (seconds_of (last (t # map fst reqs)) - seconds_of t) * rl_rate (sv_auth s) \<and>
    limiter_ok (seconds_of (last (t # map fst reqs))) (sv_auth s')"
  using assms
proof (induction reqs arbitrary: t s n)
  case (Cons r reqs)
  obtain now grp rq h where r: "r = (now, grp, rq, h)" by (cases r) auto
  define s0 where "s0 = s\<lparr>sv_world := (sv_world s)\<lparr>w_now := now\<rparr>\<rparr>"
  define s1 where "s1 = snd (route_chain jl js ao tp grp rq h s0)"
  define d where "d = (if auth_group grp \<and> client_key tp rq = k \<and> admitted jl js ao tp grp rq s0 \<noteq> None then 1 else 0 :: nat)"
  have t: "t \<le> now" "sorted (now # map fst reqs)" using Cons.prems(2) by (auto simp: r)
  note st = served_step [OF Cons.prems(1) t(1) s0_def s1_def d_def]
  obtain m where m: "served_count jl js ao tp k reqs s1 = (m, s')" "n = d + m"
    using Cons.prems(3) by (auto simp: r Let_def s0_def [symmetric] s1_def [symmetric] d_def split: prod.splits)
  let ?T = "last (now # map fst reqs)"
  have IH: "of_nat m + available (seconds_of ?T) k (sv_auth s') \<le>
      available (seconds_of now) k (sv_auth s1) + (seconds_of ?T - seconds_of now) * rl_rate (sv_auth s1) \<and> limiter_ok (seconds_of ?T) (sv_auth s')"
    using Cons.IH [OF _ t(2) m(1)] st by blast
  moreover have "(seconds_of ?T - seconds_of t) * rl_rate (sv_auth s) =
      (seconds_of ?T - seconds_of now) * rl_rate (sv_auth s) + (seconds_of now - seconds_of t) * rl_rate (sv_auth s)"
    by (simp add: algebra_simps)
  moreover have "last (t # map fst (r # reqs)) = ?T" by (simp add: r)
  ultimately show ?case using st m(2) by (auto simp del: last.simps)
qed simp

text \<open>
  C14. Guessing is limited. Whatever requests the server gets, of all clients and on all routes, the
  requests of one client that reach a handler of the session or join routes, logins among them,
  are at most ten and five a second of the time passed since the server started.
\<close>

theorem login_attempts_limited:
  assumes "(sv_global s, sv_auth s, sv_agent s) = newRateLimiters (seconds_of t)" "sorted (t # map fst reqs)"
  shows "of_nat (fst (served_count jl js ao tp k reqs s)) \<le> 10 + 5 * (seconds_of (last (t # map fst reqs)) - seconds_of t)"
proof -
  obtain n s' where run: "served_count jl js ao tp k reqs s = (n, s')" by fastforce
  have rl: "limiter_ok (seconds_of t) (sv_auth s)" "rl_rate (sv_auth s) = 5" "available (seconds_of t) k (sv_auth s) = 10"
    using assms(1) by (auto simp: newRateLimiters_def NewRateLimiter_def limiter_ok_def available_def)
  note b = served_count_bound [OF rl(1) assms(2) run]
  then have "0 \<le> available (seconds_of (last (t # map fst reqs))) k (sv_auth s')" using available_time(2) by blast
  with b rl run show ?thesis by (simp add: algebra_simps del: last.simps)
qed

definition fresh_server :: "world \<Rightarrow> server_state" where
  "fresh_server w = (case newRateLimiters (seconds_of (w_now w)) of (g, a, r) \<Rightarrow> \<lparr>sv_world = w, sv_global = g, sv_auth = a, sv_agent = r\<rparr>)"

definition sample_rq :: inbound_request where
  "sample_rq = \<lparr>hq_Method = ''POST'', hq_RemoteAddr = ''192.0.2.1:4000'', hq_XRealIP = [], hq_XForwardedFor = [], hq_Origin = [],
     hq_Authorization = [], hq_APIKey = []\<rparr>"

theorem login_attempts_limited_witness:
  "(of_nat (fst (served_count demo_jwt \<lparr>js_secret = ''k''\<rparr> [] [] ''192.0.2.1''
      (replicate 40 (100, AuthRoutes, sample_rq, \<lambda>_. AuthHandler_Login demo_bcrypt demo_jwt \<lparr>js_secret = ''k''\<rparr> (Some account_login)))
      (fresh_server sample_world))) :: rat) \<le> 10"
proof -
  let ?reqs = "replicate 40 (100 :: int, AuthRoutes, sample_rq, \<lambda>_ :: auth_ctx. AuthHandler_Login demo_bcrypt demo_jwt \<lparr>js_secret = ''k''\<rparr> (Some account_login))"
  have "(sv_global (fresh_server sample_world), sv_auth (fresh_server sample_world), sv_agent (fresh_server sample_world)) = newRateLimiters (seconds_of 100)"
    by (simp add: fresh_server_def sample_world_def newRateLimiters_def)
  moreover have "sorted (100 # map fst ?reqs)" "last (100 # map fst ?reqs) = 100" by (simp_all del: replicate.simps add: sorted_replicate)
  ultimately show ?thesis using login_attempts_limited [of "fresh_server sample_world" 100 ?reqs demo_jwt "\<lparr>js_secret = ''k''\<rparr>" "[]" "[]" "''192.0.2.1''"] by simp
qed

subsection \<open>Management needs the credentials of the owner\<close>

text \<open>
  The token of a dashboard request was signed with the secret of the service, has not expired and
  names an owner of the network; the key of an agent request belongs to an owner of the network.
\<close>

definition bearer :: "inbound_request \<Rightarrow> string" where
  "bearer rq = TrimSpace (TrimPrefix (TrimSpace (hq_Authorization rq)) ''Bearer '')"

definition owner_token :: "jwt_lib \<Rightarrow> JWTService \<Rightarrow> (string \<Rightarrow> string \<Rightarrow> string \<Rightarrow> bool) \<Rightarrow> inbound_request \<Rightarrow> string \<Rightarrow> server_state \<Rightarrow> bool" where
  "owner_token jl js sig rq net s \<longleftrightarrow>
     (\<exists>c. sig HS256 (js_secret js) (bearer rq) \<and> ValidateToken jl js (w_now (sv_world s)) (bearer rq) = Inr c \<and>
          unexpired (w_now (sv_world s)) c \<and> owns (sv_world s) (Some (cl_UserID c)) net)"

definition owner_key :: "inbound_request \<Rightarrow> string \<Rightarrow> server_state \<Rightarrow> bool" where
  "owner_key rq net s \<longleftrightarrow>
     (\<exists>u \<in> set (t_users (w_db (sv_world s))). u_APIKey u = TrimSpace (hq_APIKey rq) \<and> owns (sv_world s) (Some (u_ID u)) net)"

definition allowed_or_refused :: "bool \<Rightarrow> server_state \<Rightarrow> 'd response option \<times> server_state \<Rightarrow> bool" where
  "allowed_or_refused ok s out \<longleftrightarrow> ok \<or> (\<forall>c d. fst out \<noteq> Some (Success c d)) \<and> w_db (sv_world (snd out)) = w_db (sv_world s)"

lemma UserIDFromContext_user [simp]: "UserIDFromContext (ctx\<lparr>cx_userID := Some u, cx_email := e\<rparr>) = (if u = [] then None else Some u)"
  by (simp add: UserIDFromContext_def from_ctx_def)

lemma refuses_quiet: "refuses h w \<Longrightarrow> w_sched w = [] \<Longrightarrow> (\<forall>c d. fst (h w) \<noteq> Success c d) \<and> w_db (snd (h w)) = w_db w"
  by (auto simp: refuses_def stmt_tables_def)

lemma APIKeyMiddleware_quiet:
  assumes "APIKeyMiddleware (Some apiKeyValidator) hdr pass_on ctx w = (r, w')" "w_sched w = []"
  shows "w_db w' = w_db w \<and> w_sched w' = [] \<and> w_now w' = w_now w"
  using assms by (auto simp: APIKeyMiddleware_def reply_def call_def apiKeyValidator_def GetUserByAPIKey_def mapped_def exec_def run_stmt_def
      select_user_def andThen_def Let_def split: if_splits sum.splits prod.splits option.splits)

text \<open>
  The contract of a handler of the owner: it refuses everybody else. Behind the middleware such a
  handler serves only the owner's credentials.
\<close>

locale owner_guarded =
  fixes h :: "string option \<Rightarrow> 'd handler" and net :: string
  assumes guard: "\<not> owns w user net \<Longrightarrow> refuses (h user) w"
begin

lemma guarded_quiet:
  "w_sched w = [] \<Longrightarrow> (\<exists>u. user = Some u \<and> owns w user net) \<or> (\<forall>c d. fst (h user w) \<noteq> Success c d) \<and> w_db (snd (h user w)) = w_db w"
  using refuses_quiet [OF guard, of w user] by (auto simp: owns_def)

lemma on_world_quiet:
  assumes "w_sched (sv_world s) = []"
  shows "(\<exists>u. user = Some u \<and> owns (sv_world s) user net) \<or> (\<forall>c d. fst (on_world (h user) s) \<noteq> Some (Success c d)) \<and>
    w_db (sv_world (snd (on_world (h user) s))) = w_db (sv_world s)"
  using guarded_quiet [OF assms, of user] by (auto simp: on_world_def split: prod.splits)

lemma dashboard_route:
  assumes "jwt_ok jl sig" "w_sched (sv_world s) = []"
  shows "allowed_or_refused (owner_token jl js sig rq net s) s
    (route_chain jl js ao tp UserProtected rq (\<lambda>ctx. h (UserIDFromContext ctx)) s)"
proof (cases "route_chain jl js ao tp UserProtected rq pass_on s")
  case (Pair r s')
  have world: "sv_world s' = sv_world s"
    using Pair by (auto simp: chain_defs AuthMiddleware_def writeUnauthorized_def reply_def split: prod.splits if_splits response.splits sum.splits)
  show ?thesis
  proof (cases "\<exists>st ctx. r = Some (Success st ctx)")
    case True
    then obtain st ctx where r: "r = Some (Success st ctx)" by blast
    have run: "route_chain jl js ao tp UserProtected rq h' s = on_world (h' ctx) s'" for h' :: "auth_ctx \<Rightarrow> 'd handler"
      by (subst route_chain_run) (simp add: Pair r)
    obtain w' where "AuthMiddleware jl js (hq_Authorization rq) pass_on empty_ctx (sv_world s) = (Success 200 ctx, w')"
      using Pair r by (auto simp: chain_defs reply_def AuthMiddleware_def writeUnauthorized_def split: prod.splits if_splits response.splits sum.splits)
    from AuthMiddleware_passes [OF this] obtain c where c: "ValidateToken jl js (w_now (sv_world s)) (bearer rq) = Inr c"
      "ctx = empty_ctx\<lparr>cx_userID := Some (cl_UserID c), cx_email := Some (cl_Email c)\<rparr>" by (auto simp: bearer_def)
    have "unexpired (w_now (sv_world s)) c \<and> sig HS256 (js_secret js) (bearer rq)" by (rule ValidateToken_sound [OF assms(1) c(1)])
    then show ?thesis
      using on_world_quiet [of s' "UserIDFromContext ctx"] world assms(2) c
      unfolding run allowed_or_refused_def owner_token_def by (auto split: if_splits)
  next
    case False
    then show ?thesis unfolding allowed_or_refused_def
      by (subst route_chain_run, subst (2) route_chain_run) (auto simp: Pair world split: option.splits response.splits)
  qed
qed

lemma agent_route:
  assumes "w_sched (sv_world s) = []"
  shows "allowed_or_refused (owner_key rq net s) s (route_chain jl js ao tp AgentProtected rq (\<lambda>ctx. h (UserIDFromContext ctx)) s)"
proof (cases "route_chain jl js ao tp AgentProtected rq pass_on s")
  case (Pair r s')
  obtain m w' where mw: "APIKeyMiddleware (Some apiKeyValidator) (hq_APIKey rq) pass_on empty_ctx (sv_world s) = (m, w')" by fastforce
  note world = APIKeyMiddleware_quiet [OF mw assms]
  have s': "sv_world s' = sv_world s \<or> sv_world s' = w'" "\<And>st ctx. r = Some (Success st ctx) \<Longrightarrow> (\<exists>st. m = Success st ctx) \<and> sv_world s' = w'"
    using Pair mw by (auto simp: chain_defs reply_def split: prod.splits if_splits response.splits)
  show ?thesis
  proof (cases "\<exists>st ctx. r = Some (Success st ctx)")
    case True
    then obtain st ctx where r: "r = Some (Success st ctx)" by blast
    have run: "route_chain jl js ao tp AgentProtected rq h' s = on_world (h' ctx) s'" for h' :: "auth_ctx \<Rightarrow> 'd handler"
      by (subst route_chain_run) (simp add: Pair r)
    obtain st' where m: "m = Success st' ctx" "sv_world s' = w'" using s'(2) [OF r] by blast
    from APIKeyMiddleware_passes [OF mw [unfolded m(1)]] assms obtain u where
      u: "u \<in> set (t_users (w_db (sv_world s)))" "u_APIKey u = TrimSpace (hq_APIKey rq)"
        "UserIDFromContext ctx = (if u_ID u = [] then None else Some (u_ID u))"
      by (auto simp: stmt_tables_def UserIDFromContext_def from_ctx_def empty_ctx_def split: if_splits)
    have "owns w' user net \<longleftrightarrow> owns (sv_world s) user net" for user using world assms by (simp add: owns_def stmt_tables_def)
    then show ?thesis
      using on_world_quiet [of s' "UserIDFromContext ctx"] world m u unfolding run allowed_or_refused_def owner_key_def
      by (auto split: if_splits)
  next
    case False
    then show ?thesis unfolding allowed_or_refused_def using s'(1) world
      by (subst route_chain_run, subst (2) route_chain_run) (auto simp: Pair split: option.splits response.splits)
  qed
qed

end

text \<open>The handlers of the networks, their members and their peers keep the contract.\<close>

interpretation list_members: owner_guarded "\<lambda>user. MemberHandler_ListMembers user net" net for net
  by unfold_locales (simp add: MemberHandler_ListMembers_def owned_refuses)

interpretation approve: owner_guarded "\<lambda>user. ApproveMember user net mid" net for net mid
  by unfold_locales (simp add: ApproveMember_def owned_refuses)

interpretation reject: owner_guarded "\<lambda>user. RejectMember user net mid" net for net mid
  by unfold_locales (simp add: RejectMember_def owned_refuses)

interpretation kick: owner_guarded "\<lambda>user. KickMember user net mid" net for net mid
  by unfold_locales (simp add: KickMember_def owned_refuses)

interpretation get_network: owner_guarded "\<lambda>user. NetworkHandler_GetNetwork user net" net for net
  by unfold_locales (simp add: NetworkHandler_GetNetwork_def owned_refuses)

interpretation update_network: owner_guarded "\<lambda>user. NetworkHandler_UpdateNetwork user net body" net for net body
  by unfold_locales (simp add: NetworkHandler_UpdateNetwork_def owned_refuses)

interpretation delete_network: owner_guarded "\<lambda>user. NetworkHandler_DeleteNetwork user net" net for net
  by unfold_locales (simp add: NetworkHandler_DeleteNetwork_def owned_refuses)

interpretation list_peers: owner_guarded "\<lambda>user. ListPeers user net" net for net
  by unfold_locales (simp add: ListPeers_def owned_refuses)

interpretation register_peer: owner_guarded "\<lambda>user. PeerHandler_RegisterPeer user net body" net for net body
  by unfold_locales (simp add: PeerHandler_RegisterPeer_def owned_refuses)

interpretation unregister_peer: owner_guarded "\<lambda>user. UnregisterPeer user net body" net for net body
  by unfold_locales (simp add: UnregisterPeer_def owned_refuses)

interpretation peer_heartbeat: owner_guarded "\<lambda>user. Heartbeat user net pid body" net for net pid body
  by unfold_locales (simp add: Heartbeat_def owned_refuses)

text \<open>
  C12. Management needs the owner. When no other request interferes, a request on a dashboard route
  of a network is answered with an error and changes no table, unless its bearer token was
  signed with the secret of the server, has not expired and names the owner of the network; and
  so is a request on an agent route, unless its API key is that of the owner.
\<close>

theorem management_needs_owner_credentials:
  assumes "jwt_ok jl sig" "w_sched (sv_world s) = []"
  shows "allowed_or_refused (owner_token jl js sig rq net s) s (route_chain jl js ao tp UserProtected rq (\<lambda>ctx. MemberHandler_ListMembers (UserIDFromContext ctx) net) s) \<and>
    allowed_or_refused (owner_token jl js sig rq net s) s (route_chain jl js ao tp UserProtected rq (\<lambda>ctx. ApproveMember (UserIDFromContext ctx) net mid) s) \<and>
    allowed_or_refused (owner_token jl js sig rq net s) s (route_chain jl js ao tp UserProtected rq (\<lambda>ctx. RejectMember (UserIDFromContext ctx) net mid) s) \<and>
    allowed_or_refused (owner_token jl js sig rq net s) s (route_chain jl js ao tp UserProtected rq (\<lambda>ctx. KickMember (UserIDFromContext ctx) net mid) s) \<and>
    allowed_or_refused (owner_token jl js sig rq net s) s (route_chain jl js ao tp UserProtected rq (\<lambda>ctx. NetworkHandler_GetNetwork (UserIDFromContext ctx) net) s) \<and>
    allowed_or_refused (owner_token jl js sig rq net s) s (route_chain jl js ao tp UserProtected rq (\<lambda>ctx. NetworkHandler_UpdateNetwork (UserIDFromContext ctx) net nbody) s) \<and>
    allowed_or_refused (owner_token jl js sig rq net s) s (route_chain jl js ao tp UserProtected rq (\<lambda>ctx. NetworkHandler_DeleteNetwork (UserIDFromContext ctx) net) s) \<and>
    allowed_or_refused (owner_token jl js sig rq net s) s (route_chain jl js ao tp UserProtected rq (\<lambda>ctx. ListPeers (UserIDFromContext ctx) net) s) \<and>
    allowed_or_refused (owner_key rq net s) s (route_chain jl js ao tp AgentProtected rq (\<lambda>ctx. PeerHandler_RegisterPeer (UserIDFromContext ctx) net rbody) s) \<and>
    allowed_or_refused (owner_key rq net s) s (route_chain jl js ao tp AgentProtected rq (\<lambda>ctx. UnregisterPeer (UserIDFromContext ctx) net ubody) s) \<and>
    allowed_or_refused (owner_key rq net s) s (route_chain jl js ao tp AgentProtected rq (\<lambda>ctx. Heartbeat (UserIDFromContext ctx) net pid hbody) s)"
  by (intro conjI list_members.dashboard_route approve.dashboard_route reject.dashboard_route kick.dashboard_route get_network.dashboard_route
      update_network.dashboard_route delete_network.dashboard_route list_peers.dashboard_route register_peer.agent_route
      unregister_peer.agent_route peer_heartbeat.agent_route assms)

theorem management_needs_owner_credentials_witness:
  "jwt_ok demo_jwt demo_sig \<and> (\<forall>c d. fst (route_chain demo_jwt \<lparr>js_secret = ''k''\<rparr> [] [] UserProtected sample_rq
      (\<lambda>ctx. ApproveMember (UserIDFromContext ctx) ''net-a'' ''peer-2'') (fresh_server sample_world)) \<noteq> Some (Success c d))"
proof -
  have quiet: "w_sched (sv_world (fresh_server sample_world)) = []" by (simp add: fresh_server_def newRateLimiters_def sample_world_def)
  have "\<not> owner_token demo_jwt \<lparr>js_secret = ''k''\<rparr> demo_sig sample_rq ''net-a'' (fresh_server sample_world)"
    by (simp add: owner_token_def bearer_def sample_rq_def TrimPrefix_def HasPrefix_def ValidateToken_def)
  then show ?thesis
    using management_needs_owner_credentials [OF demo_jwt_ok quiet, where js = "\<lparr>js_secret = ''k''\<rparr>" and rq = sample_rq and net = "''net-a''" and mid = "''peer-2''"
      and ao = "[]" and tp = "[]"] demo_jwt_ok by (auto simp: allowed_or_refused_def)
qed

end
