(* ===== verification/ServerSetup.thy ===== *)
theory ServerSetup
  imports Auth "HOL-Library.List_Lexorder" "HOL-Library.Char_ord"
begin

text \<open>
  How the server comes up: \<open>server/internal/config/config.go\<close>, the pool and the migrations of
  \<open>server/internal/database/postgres.go\<close>, and the sequence of \<open>server/cmd/server/main.go\<close> up to the
  router. The process environment is a map; \<open>zerolog.ParseLevel\<close>, \<open>time.ParseDuration\<close> (which uses
  floating-point numbers) and pgx are parameters.
\<close>

subsection \<open>config.go: the environment\<close>

type_synonym environ = "string \<rightharpoonup> string"

text \<open>\<open>strings.Cut(s, "=")\<close>, when the separator is there.\<close>

definition Cut_eq :: "string \<Rightarrow> (string \<times> string) option" where
  "Cut_eq s = (if CHR ''='' \<in> set s then Some (takeWhile (\<lambda>c. c \<noteq> CHR ''='') s, tl (dropWhile (\<lambda>c. c \<noteq> CHR ''='') s)) else None)"

definition unquote :: "string \<Rightarrow> string" where
  "unquote value =
     (if 2 \<le> length value \<and> (hd value = CHR 0x22 \<and> last value = CHR 0x22 \<or> hd value = CHR 0x27 \<and> last value = CHR 0x27)
      then butlast (tl value) else value)"

text \<open>The key and the value of a line of a \<open>.env\<close> file, if it has them.\<close>

definition dotenv_line :: "string \<Rightarrow> (string \<times> string) option" where
  "dotenv_line line =
     (let entry = TrimSpace line
      in if entry = [] \<or> HasPrefix entry ''#'' then None
         else
           let entry' = (if HasPrefix entry ''export '' then TrimSpace (TrimPrefix entry ''export '') else entry)
           in case Cut_eq entry' of
                None \<Rightarrow> None
              | Some (k, v) \<Rightarrow> if TrimSpace k = [] then None else Some (TrimSpace k, unquote (TrimSpace v)))"

text \<open>\<open>os.Setenv\<close> refuses a key or a value with a NUL byte; the error is ignored.\<close>

definition Setenv :: "string \<Rightarrow> string \<Rightarrow> environ \<Rightarrow> environ" where
  "Setenv key value e = (if CHR 0x00 \<in> set key \<or> CHR 0x00 \<in> set value then e else e(key \<mapsto> value))"

definition load_line :: "string \<Rightarrow> environ \<Rightarrow> environ" where
  "load_line line e =
     (case dotenv_line line of
        None \<Rightarrow> e
      | Some (key, value) \<Rightarrow> if e key \<noteq> None then e else Setenv key value e)"

text \<open>The file's text, \<open>None\<close> when it cannot be read.\<close>

definition loadDotEnvFile :: "string option \<Rightarrow> environ \<Rightarrow> environ" where
  "loadDotEnvFile file e = (case file of None \<Rightarrow> e | Some raw \<Rightarrow> fold load_line (Split raw (CHR 0x0A)) e)"

definition loadDotEnvDefaults :: "string option \<Rightarrow> string option \<Rightarrow> environ \<Rightarrow> environ" where
  "loadDotEnvDefaults here upper e = loadDotEnvFile upper (loadDotEnvFile here e)"

definition Getenv :: "environ \<Rightarrow> string \<Rightarrow> string" where
  "Getenv e key = (case e key of None \<Rightarrow> [] | Some v \<Rightarrow> v)"

definition getEnv :: "environ \<Rightarrow> string \<Rightarrow> string \<Rightarrow> string" where
  "getEnv e key fallback = (let value = TrimSpace (Getenv e key) in if value = [] then fallback else value)"

subsection \<open>config.go: the settings\<close>

definition parsePort :: "string \<Rightarrow> go_error + int" where
  "parsePort raw =
     (case Atoi (TrimSpace raw) of
        None \<Rightarrow> Inl (Wrapf ''parse port'' (Errorf ''strconv.Atoi''))
      | Some port \<Rightarrow> if port < 1 \<or> 65535 < port then Inl (Errorf ''parse port: out of range'') else Inr port)"

definition parsePositiveInt :: "string \<Rightarrow> go_error + int" where
  "parsePositiveInt raw =
     (case Atoi (TrimSpace raw) of
        None \<Rightarrow> Inl (Wrapf ''parse int'' (Errorf ''strconv.Atoi''))
      | Some value \<Rightarrow> if value \<le> 0 then Inl (Errorf ''parse int: must be positive'') else Inr value)"

text \<open>\<open>strconv.ParseBool\<close>\<close>

definition parseBool :: "string \<Rightarrow> go_error + bool" where
  "parseBool raw =
     (let s = TrimSpace raw
      in if s \<in> {''1'', ''t'', ''T'', ''true'', ''TRUE'', ''True''} then Inr True
         else if s \<in> {''0'', ''f'', ''F'', ''false'', ''FALSE'', ''False''} then Inr False
         else Inl (Wrapf ''parse bool'' (Errorf ''strconv.ParseBool'')))"

definition parseDuration :: "(string \<Rightarrow> go_error + int) \<Rightarrow> string \<Rightarrow> go_error + int" where
  "parseDuration timeParse raw = (case timeParse (TrimSpace raw) of Inl e \<Rightarrow> Inl (Wrapf ''parse duration'' e) | Inr d \<Rightarrow> Inr d)"

definition parseStringList :: "string \<Rightarrow> string list" where
  "parseStringList raw = (if TrimSpace raw = [] then [] else filter (\<lambda>v. v \<noteq> []) (map TrimSpace (Split raw (CHR '',''))))"

record 'level server_Config =
  sc_DBURL :: string
  sc_RedisURL :: string
  sc_JWTSecret :: string
  sc_ServerPort :: int
  sc_STUNServer :: string
  sc_LogLevel :: 'level
  sc_AllowedOrigins :: "string list"
  sc_TrustedProxies :: "string list"
  sc_DBMaxConns :: int
  sc_DBMinConns :: int
  sc_DBMaxConnLifetime :: int
  sc_DBMaxConnIdleTime :: int
  sc_SimpleModeEnabled :: bool
  sc_SimpleOwnerEmail :: string
  sc_SimpleOwnerName :: string
  sc_SimpleNetworkName :: string
  sc_SimpleNetworkCIDR :: string
  sc_SimpleNetworkDescription :: string
  sc_SimpleNetworkMaxPeers :: int
  sc_RelaySessionSecret :: string

definition checked :: "string \<Rightarrow> go_error + 'a \<Rightarrow> ('a \<Rightarrow> go_error + 'b) \<Rightarrow> go_error + 'b" where
  "checked key r k = (case r of Inl e \<Rightarrow> Inl (Wrapf (''load config: parse '' @ key) e) | Inr v \<Rightarrow> k v)"

definition server_Load :: "(string \<Rightarrow> go_error + 'level) \<Rightarrow> (string \<Rightarrow> go_error + int) \<Rightarrow> string option \<Rightarrow> string option \<Rightarrow> environ \<Rightarrow>
    go_error + 'level server_Config" where
  "server_Load parseLevel timeParse here upper env0 =
     (let env = loadDotEnvDefaults here upper env0
      in checked ''SERVER_PORT'' (parsePort (getEnv env ''SERVER_PORT'' ''8080'')) (\<lambda>serverPort.
         checked ''LOG_LEVEL'' (parseLevel (ToLower (getEnv env ''LOG_LEVEL'' ''info''))) (\<lambda>level.
         checked ''DB_MAX_CONNS'' (parsePositiveInt (getEnv env ''DB_MAX_CONNS'' ''20'')) (\<lambda>dbMaxConns.
         checked ''DB_MIN_CONNS'' (parsePositiveInt (getEnv env ''DB_MIN_CONNS'' ''2'')) (\<lambda>dbMinConns.
         checked ''DB_MAX_CONN_LIFETIME'' (parseDuration timeParse (getEnv env ''DB_MAX_CONN_LIFETIME'' ''30m'')) (\<lambda>dbMaxConnLifetime.
         checked ''DB_MAX_CONN_IDLE_TIME'' (parseDuration timeParse (getEnv env ''DB_MAX_CONN_IDLE_TIME'' ''5m'')) (\<lambda>dbMaxConnIdleTime.
         checked ''SIMPLE_MODE_ENABLED'' (parseBool (getEnv env ''SIMPLE_MODE_ENABLED'' ''true'')) (\<lambda>simpleModeEnabled.
         checked ''SIMPLE_NETWORK_MAX_PEERS'' (parsePositiveInt (getEnv env ''SIMPLE_NETWORK_MAX_PEERS'' ''25'')) (\<lambda>simpleNetworkMaxPeers.
         let cfg = \<lparr>sc_DBURL = TrimSpace (Getenv env ''DB_URL''), sc_RedisURL = TrimSpace (getEnv env ''REDIS_URL'' ''redis://localhost:6379/0''),
               sc_JWTSecret = TrimSpace (Getenv env ''JWT_SECRET''), sc_ServerPort = serverPort,
               sc_STUNServer = TrimSpace (getEnv env ''STUN_SERVER'' ''stun.l.google.com:19302''), sc_LogLevel = level,
               sc_AllowedOrigins = parseStringList (getEnv env ''ALLOWED_ORIGINS'' []),
               sc_TrustedProxies = parseStringList (getEnv env ''TRUSTED_PROXIES'' ''127.0.0.1,::1''),
               sc_DBMaxConns = dbMaxConns, sc_DBMinConns = dbMinConns, sc_DBMaxConnLifetime = dbMaxConnLifetime,
               sc_DBMaxConnIdleTime = dbMaxConnIdleTime, sc_SimpleModeEnabled = simpleModeEnabled,
               sc_SimpleOwnerEmail = TrimSpace (getEnv env ''SIMPLE_OWNER_EMAIL'' ''quickconnect@quicktunnel.local''),
               sc_SimpleOwnerName = TrimSpace (getEnv env ''SIMPLE_OWNER_NAME'' ''Quick Connect Owner''),
               sc_SimpleNetworkName = TrimSpace (getEnv env ''SIMPLE_NETWORK_NAME'' ''Quick Connect Network''),
               sc_SimpleNetworkCIDR = TrimSpace (getEnv env ''SIMPLE_NETWORK_CIDR'' ''10.7.0.0/16''),
               sc_SimpleNetworkDescription = TrimSpace (getEnv env ''SIMPLE_NETWORK_DESCRIPTION'' ''Auto-created network for quick connect flow''),
               sc_SimpleNetworkMaxPeers = simpleNetworkMaxPeers, sc_RelaySessionSecret = TrimSpace (getEnv env ''RELAY_SESSION_SECRET'' [])\<rparr>
         in if sc_DBURL cfg = [] then Inl (Errorf ''load config: DB_URL is required'')
            else if sc_JWTSecret cfg = [] then Inl (Errorf ''load config: JWT_SECRET is required'')
            else if sc_SimpleOwnerEmail cfg = [] then Inl (Errorf ''load config: SIMPLE_OWNER_EMAIL is required'')
            else if sc_SimpleNetworkName cfg = [] then Inl (Errorf ''load config: SIMPLE_NETWORK_NAME is required'')
            else if sc_SimpleNetworkCIDR cfg = [] then Inl (Errorf ''load config: SIMPLE_NETWORK_CIDR is required'')
            else Inr cfg)))))))))"

subsection \<open>postgres.go: the pool\<close>

record PoolConfig =
  pc_MaxConns :: int
  pc_MinConns :: int
  pc_MaxConnLifetime :: int
  pc_MaxConnIdleTime :: int

text \<open>The conversion to \<open>int32\<close> wraps around.\<close>

definition to_int32 :: "int \<Rightarrow> int" where
  "to_int32 n = sint (word_of_int n :: 32 word)"

text \<open>
  \<open>NewPostgresDB\<close>: the settings pgx reads from the connection string, tuned; \<open>connect\<close> and \<open>ping\<close> are the
  outcomes of creating the pool and of the first ping.
\<close>

definition NewPostgresDB :: "(string \<Rightarrow> go_error + PoolConfig) \<Rightarrow> go_error option \<Rightarrow> go_error option \<Rightarrow> string \<Rightarrow> PoolConfig \<Rightarrow> go_error + PoolConfig" where
  "NewPostgresDB parseConfig connect ping connStr poolCfg =
     (case parseConfig connStr of
        Inl e \<Rightarrow> Inl (Wrapf ''new postgres db: parse config'' e)
      | Inr cfg \<Rightarrow>
          let tuned = \<lparr>pc_MaxConns = (if 0 < pc_MaxConns poolCfg then pc_MaxConns poolCfg else pc_MaxConns cfg),
                pc_MinConns = (if 0 < pc_MinConns poolCfg then pc_MinConns poolCfg else pc_MinConns cfg),
                pc_MaxConnLifetime = (if 0 < pc_MaxConnLifetime poolCfg then pc_MaxConnLifetime poolCfg else pc_MaxConnLifetime cfg),
                pc_MaxConnIdleTime = (if 0 < pc_MaxConnIdleTime poolCfg then pc_MaxConnIdleTime poolCfg else pc_MaxConnIdleTime cfg)\<rparr>
          in case connect of
               Some e \<Rightarrow> Inl (Wrapf ''new postgres db: connect'' e)
             | None \<Rightarrow> (case ping of Some e \<Rightarrow> Inl (Wrapf ''new postgres db: ping'' e) | None \<Rightarrow> Inr tuned))"

subsection \<open>postgres.go: migrations\<close>

text \<open>
  Every call of the database has an outcome: it succeeds, it fails without effect, or its
  answer is lost after it took effect, which matters for a commit only, since what precedes it in a
  transaction is rolled back. \<open>mg_applied\<close> is the table \<open>schema_migrations\<close>; \<open>mg_run\<close> are the scripts whose
  effects are committed, in order. When the list of outcomes is used up calls succeed.
\<close>

datatype op_outcome = OpOk | OpFailed go_error | OpLost go_error

record migration_db =
  mg_applied :: "string list"
  mg_run :: "string list"
  mg_outcomes :: "op_outcome list"

definition next_outcome :: "(migration_db, op_outcome) procedure" where
  "next_outcome s = (case mg_outcomes s of [] \<Rightarrow> (Inr OpOk, s) | r # rest \<Rightarrow> (Inr r, s\<lparr>mg_outcomes := rest\<rparr>))"

definition db_call :: "(migration_db, unit) procedure" where
  "db_call = andThen next_outcome (\<lambda>r. case r of OpOk \<Rightarrow> return () | OpFailed e \<Rightarrow> raise e | OpLost e \<Rightarrow> raise e)"

definition ensureMigrationsTable :: "(migration_db, unit) procedure" where
  "ensureMigrationsTable = wrap ''ensure migrations table'' db_call"

definition isMigrationApplied :: "string \<Rightarrow> (migration_db, bool) procedure" where
  "isMigrationApplied filename = andThen (wrap ''is migration applied'' db_call) (\<lambda>_. reads (\<lambda>s. filename \<in> set (mg_applied s)))"

text \<open>The insertion fails when the primary key is taken.\<close>

definition mark_applied :: "string \<Rightarrow> (migration_db, unit) procedure" where
  "mark_applied filename = andThen (reads mg_applied) (\<lambda>rows. if filename \<in> set rows then raise (Errorf ''duplicate key'') else db_call)"

definition commit_migration :: "string \<Rightarrow> (migration_db, unit) procedure" where
  "commit_migration filename =
     (let done = modifies (\<lambda>s. s\<lparr>mg_applied := mg_applied s @ [filename], mg_run := mg_run s @ [filename]\<rparr>)
      in andThen next_outcome (\<lambda>r. case r of OpOk \<Rightarrow> done | OpFailed e \<Rightarrow> raise e | OpLost e \<Rightarrow> andThen done (\<lambda>_. raise e)))"

definition applyMigration :: "(string \<Rightarrow> go_error option) \<Rightarrow> string \<Rightarrow> (migration_db, unit) procedure" where
  "applyMigration readErr filename =
     (case readErr filename of
        Some e \<Rightarrow> raise (Wrapf ''apply migration: read file'' e)
      | None \<Rightarrow>
          andThen (wrap ''apply migration: begin transaction'' db_call) (\<lambda>_.
          andThen (wrap ''apply migration: execute sql'' db_call) (\<lambda>_.
          andThen (wrap ''apply migration: mark applied'' (mark_applied filename)) (\<lambda>_.
          wrap ''apply migration: commit transaction'' (commit_migration filename)))))"

fun migrate_files :: "(string \<Rightarrow> go_error option) \<Rightarrow> string list \<Rightarrow> (migration_db, unit) procedure" where
  "migrate_files readErr [] = return ()"
| "migrate_files readErr (filename # rest) =
     andThen (wrap (''migrate: check migration '' @ filename) (isMigrationApplied filename)) (\<lambda>applied.
     andThen (if applied then return () else wrap (''migrate: apply migration '' @ filename) (applyMigration readErr filename)) (\<lambda>_.
     migrate_files readErr rest))"

text \<open>\<open>filepath.Ext\<close> of a name without slashes.\<close>

definition path_Ext :: "string \<Rightarrow> string" where
  "path_Ext name = (if CHR ''.'' \<in> set name then CHR ''.'' # after_last (CHR ''.'') name else [])"

definition migration_files :: "(string \<times> bool) list \<Rightarrow> string list" where
  "migration_files entries = sort (map fst (filter (\<lambda>(name, isDir). \<not> isDir \<and> path_Ext name = ''.sql'') entries))"

text \<open>
  \<open>Migrate\<close> keeps one connection of the pool for the advisory lock while the rest of it takes others
  from the pool: with a pool of one connection the next call waits forever, which is \<open>None\<close>.
  The entries of the directory are their names and whether they are directories.
\<close>

definition Migrate :: "int \<Rightarrow> go_error + (string \<times> bool) list \<Rightarrow> (string \<Rightarrow> go_error option) \<Rightarrow> migration_db \<Rightarrow> ((go_error + unit) \<times> migration_db) option" where
  "Migrate maxConns entries readErr s =
     (case andThen (wrap ''migrate: acquire advisory-lock connection'' db_call) (\<lambda>_. wrap ''migrate: acquire advisory lock'' db_call) s of
        (Inl e, s1) \<Rightarrow> Some (Inl e, s1)
      | (Inr _, s1) \<Rightarrow>
          if maxConns < 2 then None
          else Some (andThen (wrap ''migrate: ensure migrations table'' ensureMigrationsTable) (\<lambda>_.
                     andThen (wrap ''migrate: read migrations directory'' (result entries)) (\<lambda>es.
                     migrate_files readErr (migration_files es))) s1))"

subsection \<open>main.go\<close>

text \<open>
  The start of the server up to the router: what is handed to it, or the stage that fails. The
  outcomes of Redis are \<open>redisErr\<close>; the bootstrap record has no owner, network or key yet.
\<close>

definition pool_settings :: "'level server_Config \<Rightarrow> PoolConfig" where
  "pool_settings cfg = \<lparr>pc_MaxConns = to_int32 (sc_DBMaxConns cfg), pc_MinConns = to_int32 (sc_DBMinConns cfg),
     pc_MaxConnLifetime = sc_DBMaxConnLifetime cfg, pc_MaxConnIdleTime = sc_DBMaxConnIdleTime cfg\<rparr>"

definition bootstrap_of :: "'level server_Config \<Rightarrow> QuickConnectBootstrap option" where
  "bootstrap_of cfg =
     (if sc_SimpleModeEnabled cfg
      then Some \<lparr>qc_Enabled = True, qc_OwnerEmail = [], qc_NetworkID = [], qc_NetworkName = sc_SimpleNetworkName cfg, qc_APIKey = [],
             qc_CIDR = sc_SimpleNetworkCIDR cfg, qc_MaxPeers = sc_SimpleNetworkMaxPeers cfg\<rparr>
      else None)"

record server_parts =
  sp_jwt :: JWTService
  sp_quickConnect :: "QuickConnectBootstrap option"
  sp_addr :: string

datatype server_outcome = Exit go_error | Migrated | Serving server_parts

definition server_main :: "bool \<Rightarrow> go_error + 'level server_Config \<Rightarrow> (string \<Rightarrow> go_error + PoolConfig) \<Rightarrow> go_error option \<Rightarrow> go_error option \<Rightarrow> go_error option \<Rightarrow>
    go_error + (string \<times> bool) list \<Rightarrow> (string \<Rightarrow> go_error option) \<Rightarrow> migration_db \<Rightarrow> (server_outcome \<times> migration_db) option" where
  "server_main migrateOnly loaded parseConfig connect ping redisErr entries readErr s =
     (case loaded of
        Inl e \<Rightarrow> Some (Exit e, s)
      | Inr cfg \<Rightarrow>
          (case NewPostgresDB parseConfig connect ping (sc_DBURL cfg) (pool_settings cfg) of
             Inl e \<Rightarrow> Some (Exit e, s)
           | Inr pool \<Rightarrow>
               (case redisErr of
                  Some e \<Rightarrow> Some (Exit e, s)
                | None \<Rightarrow>
                    (case Migrate (pc_MaxConns pool) entries readErr s of
                       None \<Rightarrow> None
                     | Some (Inl e, s') \<Rightarrow> Some (Exit e, s')
                     | Some (Inr _, s') \<Rightarrow>
                         if migrateOnly then Some (Migrated, s')
                         else (case NewJWTService (sc_JWTSecret cfg) of
                                 Inl e \<Rightarrow> Some (Exit e, s')
                               | Inr js \<Rightarrow> Some (Serving \<lparr>sp_jwt = js, sp_quickConnect = bootstrap_of cfg, sp_addr = '':'' @ Itoa (sc_ServerPort cfg)\<rparr>, s'))))))"

subsection \<open>What the configuration guarantees\<close>

text \<open>The bindings of a \<open>.env\<close> file that can be set, in their order.\<close>

definition dotenv_bindings :: "string option \<Rightarrow> (string \<times> string) list" where
  "dotenv_bindings file =
     (case file of
        None \<Rightarrow> []
      | Some raw \<Rightarrow> filter (\<lambda>(k, v). CHR 0x00 \<notin> set k \<and> CHR 0x00 \<notin> set v) (List.map_filter dotenv_line (Split raw (CHR 0x0A))))"

definition orElse :: "'a option \<Rightarrow> 'a option \<Rightarrow> 'a option" where
  "orElse x y = (case x of None \<Rightarrow> y | Some _ \<Rightarrow> x)"

lemma orElse_simps [simp]: "orElse (Some v) y = Some v" "orElse None y = y" "orElse x None = x" "orElse (orElse x y) z = orElse x (orElse y z)"
  by (simp_all add: orElse_def split: option.split)

lemma load_lines:
  "fold load_line lines e k =
     orElse (e k) (map_of (filter (\<lambda>(k, v). CHR 0x00 \<notin> set k \<and> CHR 0x00 \<notin> set v) (List.map_filter dotenv_line lines)) k)"
proof (induction lines arbitrary: e)
  case Nil
  show ?case by (simp add: map_filter_simps)
next
  case (Cons line lines)
  show ?case
  proof (cases "dotenv_line line")
    case None
    then have "load_line line e = e" by (simp add: load_line_def)
    then show ?thesis using None by (simp add: Cons.IH map_filter_simps)
  next
    case (Some kv)
    obtain key v where kv: "kv = (key, v)" by fastforce
    have step: "load_line line e = (if e key \<noteq> None then e else Setenv key v e)" using Some kv by (simp add: load_line_def)
    show ?thesis
      using Some kv by (cases "e k"; cases "e key") (auto simp: Cons.IH step Setenv_def map_filter_simps)
  qed
qed

lemma loadDotEnvFile_lookup: "loadDotEnvFile file e k = orElse (e k) (map_of (dotenv_bindings file) k)"
  by (simp add: loadDotEnvFile_def dotenv_bindings_def load_lines split: option.split)

text \<open>
  Settings have one order of precedence. A variable of the process environment is never
  overridden by a \<open>.env\<close> file; a variable that is not set there has the first binding of the file in
  the working directory, and only without one the first binding of the file above it. The loop over the
  lines, which sets variables as it goes, is this lookup.
\<close>

lemma dotenv_precedence:
  "loadDotEnvDefaults here upper e k = orElse (e k) (orElse (map_of (dotenv_bindings here) k) (map_of (dotenv_bindings upper) k))"
  by (simp add: loadDotEnvDefaults_def loadDotEnvFile_lookup)

lemma checked_Inr: "checked key r k = Inr x \<longleftrightarrow> (\<exists>v. r = Inr v \<and> k v = Inr x)"
  by (simp add: checked_def split: sum.split)

lemma parse_bounds:
  "parsePort raw = Inr p \<Longrightarrow> 1 \<le> p \<and> p \<le> 65535" "parsePositiveInt raw = Inr n \<Longrightarrow> 0 < n"
  by (auto simp: parsePort_def parsePositiveInt_def split: option.splits if_splits)

lemma parseStringList_nonblank: "v \<in> set (parseStringList raw) \<Longrightarrow> v \<noteq> []"
  by (auto simp: parseStringList_def split: if_splits)

text \<open>
  C37. Every configuration the server starts with is well formed: a port between 1 and 65535, a
  positive number of connections and of peers, a database address, a secret for the tokens, an
  owner, a name and a prefix for the simple network, and no blank origin or proxy.
\<close>

theorem server_config_wellformed:
  assumes "server_Load parseLevel timeParse here upper e = Inr cfg"
  shows "1 \<le> sc_ServerPort cfg \<and> sc_ServerPort cfg \<le> 65535 \<and> 0 < sc_DBMaxConns cfg \<and> 0 < sc_DBMinConns cfg \<and> 0 < sc_SimpleNetworkMaxPeers cfg \<and>
    sc_DBURL cfg \<noteq> [] \<and> sc_JWTSecret cfg \<noteq> [] \<and> sc_SimpleOwnerEmail cfg \<noteq> [] \<and> sc_SimpleNetworkName cfg \<noteq> [] \<and> sc_SimpleNetworkCIDR cfg \<noteq> [] \<and>
    [] \<notin> set (sc_AllowedOrigins cfg) \<and> [] \<notin> set (sc_TrustedProxies cfg)"
  using assms unfolding server_Load_def Let_def checked_Inr
  by (auto dest: parse_bounds dest!: parseStringList_nonblank split: if_split_asm)

definition sample_environ :: environ where
  "sample_environ = map_of [(''DB_URL'', ''postgres://db''), (''JWT_SECRET'', ''s'')]"

definition sample_dotenv :: string where
  "sample_dotenv = ''export SERVER_PORT = 9000'' @ [CHR 0x0A] @ ''JWT_SECRET=other''"

theorem server_config_wellformed_witness:
  "\<exists>cfg. server_Load (\<lambda>_. Inr ()) (\<lambda>_. Inr 0) (Some sample_dotenv) None sample_environ = Inr cfg \<and> sc_ServerPort cfg = 9000 \<and> sc_JWTSecret cfg = ''s'' \<and>
     sc_DBURL cfg \<noteq> []"
proof -
  have "case server_Load (\<lambda>_. Inr ()) (\<lambda>_. Inr 0) (Some sample_dotenv) None sample_environ of
      Inr cfg \<Rightarrow> sc_ServerPort cfg = 9000 \<and> sc_JWTSecret cfg = ''s'' | Inl _ \<Rightarrow> False"
    by code_simp
  then obtain cfg where "server_Load (\<lambda>_. Inr ()) (\<lambda>_. Inr 0) (Some sample_dotenv) None sample_environ = Inr cfg" "sc_ServerPort cfg = 9000" "sc_JWTSecret cfg = ''s''"
    by (cases "server_Load (\<lambda>_. Inr ()) (\<lambda>_. Inr 0) (Some sample_dotenv) None sample_environ") auto
  with server_config_wellformed [OF this(1)] show ?thesis by blast
qed

subsection \<open>Migrations\<close>

lemma andThen_assoc: "andThen (andThen p f) g = andThen p (\<lambda>x. andThen (f x) g)"
  by (simp add: andThen_def fun_eq_iff split: prod.split sum.split)

definition tables_are :: "string list \<Rightarrow> string list \<Rightarrow> migration_db \<Rightarrow> bool" where
  "tables_are rows runs s \<longleftrightarrow> mg_applied s = rows \<and> mg_run s = runs"

lemma keeps_db_call: "keeps (tables_are rows runs) db_call"
  by (auto simp: keeps_def tables_are_def db_call_def next_outcome_def procedure_defs split: list.splits op_outcome.splits)

lemma keeps_before_commit:
  "keeps (tables_are rows runs) (mark_applied f)" "keeps (tables_are rows runs) (isMigrationApplied f)" "keeps (tables_are rows runs) ensureMigrationsTable"
  unfolding mark_applied_def isMigrationApplied_def ensureMigrationsTable_def
  by (intro keeps_andThen keeps_wrap keeps_if keeps_basic keeps_return keeps_db_call; simp add: keeps_def raise_def)+

lemma quiet_calls:
  assumes "mg_outcomes s = []"
  shows "db_call s = (Inr (), s)" "isMigrationApplied f s = (Inr (f \<in> set (mg_applied s)), s)" "ensureMigrationsTable s = (Inr (), s)"
    "f \<notin> set (mg_applied s) \<Longrightarrow> mark_applied f s = (Inr (), s)"
    "commit_migration f s = (Inr (), s\<lparr>mg_applied := mg_applied s @ [f], mg_run := mg_run s @ [f]\<rparr>)"
  using assms
  by (simp_all add: db_call_def next_outcome_def isMigrationApplied_def ensureMigrationsTable_def mark_applied_def commit_migration_def procedure_defs Let_def)

lemma commit_cases:
  assumes "commit_migration f s = (r, s')"
  shows "tables_are (mg_applied s @ [f]) (mg_run s @ [f]) s' \<or> (\<exists>e. r = Inl e) \<and> tables_are (mg_applied s) (mg_run s) s'"
  using assms by (auto simp: tables_are_def commit_migration_def next_outcome_def procedure_defs Let_def split: list.splits op_outcome.splits)

lemma applyMigration_cases:
  assumes "applyMigration readErr f s = (r, s')"
  shows "tables_are (mg_applied s @ [f]) (mg_run s @ [f]) s' \<or> (\<exists>e. r = Inl e) \<and> tables_are (mg_applied s) (mg_run s) s'"
proof (cases "readErr f")
  case None
  define pre where "pre = andThen (wrap ''apply migration: begin transaction'' db_call) (\<lambda>_.
      andThen (wrap ''apply migration: execute sql'' db_call) (\<lambda>_. wrap ''apply migration: mark applied'' (mark_applied f)))"
  have run: "applyMigration readErr f = andThen pre (\<lambda>_. wrap ''apply migration: commit transaction'' (commit_migration f))"
    using None by (simp add: applyMigration_def pre_def andThen_assoc)
  have "keeps (tables_are (mg_applied s) (mg_run s)) pre"
    unfolding pre_def by (intro keeps_andThen keeps_wrap keeps_db_call keeps_before_commit)
  then have t: "tables_are (mg_applied s) (mg_run s) (snd (pre s))" by (rule keepsD) (simp add: tables_are_def)
  show ?thesis
  proof (cases "fst (pre s)")
    case (Inl e)
    then have "pre s = (Inl e, snd (pre s))" by (simp add: prod_eq_iff)
    then show ?thesis using assms t run by simp
  next
    case (Inr v)
    then have "pre s = (Inr v, snd (pre s))" by (simp add: prod_eq_iff)
    then have "wrap ''apply migration: commit transaction'' (commit_migration f) (snd (pre s)) = (r, s')" using assms run by simp
    then obtain q where q: "commit_migration f (snd (pre s)) = (q, s')" "(\<exists>e. q = Inl e) \<longleftrightarrow> (\<exists>e. r = Inl e)"
      by (auto simp: wrap_def split: prod.splits sum.splits)
    from commit_cases [OF q(1)] q(2) t show ?thesis by (simp add: tables_are_def)
  qed
qed (use assms in \<open>auto simp: applyMigration_def raise_def tables_are_def\<close>)

lemma applyMigration_quiet:
  assumes "mg_outcomes s = []" "readErr f = None" "f \<notin> set (mg_applied s)"
  shows "applyMigration readErr f s = (Inr (), s\<lparr>mg_applied := mg_applied s @ [f], mg_run := mg_run s @ [f]\<rparr>)"
  using assms by (simp add: applyMigration_def quiet_calls andThen_def wrap_def)

definition missing :: "string list \<Rightarrow> migration_db \<Rightarrow> string list" where
  "missing files s = filter (\<lambda>f. f \<notin> set (mg_applied s)) files"

lemma missing_snoc: "distinct (f # files) \<Longrightarrow> mg_applied s' = mg_applied s @ [f] \<Longrightarrow> missing files s' = missing files s"
  by (auto simp: missing_def intro: filter_cong)

lemma missing_same: "mg_applied s' = mg_applied s \<Longrightarrow> missing files s' = missing files s"
  by (simp add: missing_def)

lemma isMigrationApplied_result:
  assumes "fst (isMigrationApplied f s) = Inr applied"
  shows "applied \<longleftrightarrow> f \<in> set (mg_applied s)"
proof -
  obtain u t where "wrap ''is migration applied'' db_call s = (Inr u, t)" "applied \<longleftrightarrow> f \<in> set (mg_applied t)"
    using assms by (auto simp: isMigrationApplied_def andThen_def reads_def split: prod.splits sum.splits)
  then have "applied \<longleftrightarrow> f \<in> set (mg_applied (snd (wrap ''is migration applied'' db_call s)))" by simp
  moreover have "tables_are (mg_applied s) (mg_run s) (snd (wrap ''is migration applied'' db_call s))"
    by (rule keepsD [OF keeps_wrap [OF keeps_db_call]]) (simp add: tables_are_def)
  ultimately show ?thesis by (simp add: tables_are_def)
qed

text \<open>One file of the loop: it is applied already, or it is applied now, or the loop ends with an error, with or without it.\<close>

lemma migrate_file_cases:
  assumes "migrate_files readErr (f # files) s = (r, s')"
  obtains (go_on) t where "migrate_files readErr files t = (r, s')"
      "f \<in> set (mg_applied s) \<and> tables_are (mg_applied s) (mg_run s) t \<or> f \<notin> set (mg_applied s) \<and> tables_are (mg_applied s @ [f]) (mg_run s @ [f]) t"
    | (stop) e where "r = Inl e"
      "tables_are (mg_applied s) (mg_run s) s' \<or> f \<notin> set (mg_applied s) \<and> tables_are (mg_applied s @ [f]) (mg_run s @ [f]) s'"
proof -
  define look where "look = wrap (''migrate: check migration '' @ f) (isMigrationApplied f)"
  define act where "act = (\<lambda>applied. if applied then return () else wrap (''migrate: apply migration '' @ f) (applyMigration readErr f))"
  have run: "andThen look (\<lambda>applied. andThen (act applied) (\<lambda>_. migrate_files readErr files)) s = (r, s')"
    using assms unfolding migrate_files.simps look_def act_def .
  have "keeps (tables_are (mg_applied s) (mg_run s)) look" unfolding look_def by (intro keeps_wrap keeps_before_commit)
  then have t: "tables_are (mg_applied s) (mg_run s) (snd (look s))" by (rule keepsD) (simp add: tables_are_def)
  show ?thesis
  proof (cases "fst (look s)")
    case (Inl e)
    then have l: "look s = (Inl e, snd (look s))" by (simp add: prod_eq_iff)
    have "(r, s') = (Inl e, snd (look s))" using run by (simp only: andThen_Inl [where m = look and s = s, OF l])
    then have "r = Inl e" "s' = snd (look s)" by (simp_all only: prod.inject)
    then show ?thesis using t by (intro stop) simp_all
  next
    case (Inr applied)
    then have l: "look s = (Inr applied, snd (look s))" by (simp add: prod_eq_iff)
    have "fst (isMigrationApplied f s) = Inr applied" using Inr by (auto simp: look_def wrap_def split: prod.splits sum.splits)
    then have ap: "applied \<longleftrightarrow> f \<in> set (mg_applied s)" by (rule isMigrationApplied_result)
    have rest: "andThen (act applied) (\<lambda>_. migrate_files readErr files) (snd (look s)) = (r, s')"
      using run by (simp only: andThen_Inr [where m = look and s = s, OF l])
    show ?thesis
    proof (cases applied)
      case True
      then show ?thesis using rest ap t by (intro go_on [of "snd (look s)"]) (simp_all add: act_def)
    next
      case False
      obtain q u where a: "applyMigration readErr f (snd (look s)) = (q, u)" by fastforce
      have u: "tables_are (mg_applied s @ [f]) (mg_run s @ [f]) u \<or> (\<exists>e. q = Inl e) \<and> tables_are (mg_applied s) (mg_run s) u"
        using applyMigration_cases [OF a] t by (simp add: tables_are_def)
      show ?thesis
      proof (cases q)
        case (Inl e)
        then have "r = Inl (Wrapf (''migrate: apply migration '' @ f) e)" "s' = u"
          using rest a False by (simp_all add: act_def andThen_def wrap_def)
        then show ?thesis using u ap False by (intro stop) auto
      next
        case (Inr v)
        then have "migrate_files readErr files u = (r, s')" using rest a False by (simp add: act_def andThen_def wrap_def)
        then show ?thesis using u ap False Inr by (intro go_on [of u]) auto
      qed
    qed
  qed
qed

lemma migrate_files_run:
  assumes "distinct files" "mg_run s = mg_applied s" "migrate_files readErr files s = (r, s')"
  shows "mg_run s' = mg_applied s' \<and> (\<exists>k. mg_applied s' = mg_applied s @ take k (missing files s)) \<and>
    (r = Inr () \<longrightarrow> mg_applied s' = mg_applied s @ missing files s)"
  using assms
proof (induction files arbitrary: s)
  case Nil
  then show ?case by (auto simp: return_def missing_def)
next
  case (Cons f files)
  from Cons.prems(3) show ?case
  proof (cases rule: migrate_file_cases)
    case (go_on t)
    then have run: "mg_run t = mg_applied t" using Cons.prems(2) by (auto simp: tables_are_def)
    obtain k where k: "mg_run s' = mg_applied s'" "mg_applied s' = mg_applied t @ take k (missing files t)"
      "r = Inr () \<longrightarrow> mg_applied s' = mg_applied t @ missing files t"
      using Cons.IH [OF _ run go_on(1)] Cons.prems(1) unfolding distinct.simps by blast
    from go_on(2) show ?thesis
    proof
      assume "f \<in> set (mg_applied s) \<and> tables_are (mg_applied s) (mg_run s) t"
      then have "mg_applied t = mg_applied s" "missing (f # files) s = missing files s" by (simp_all add: tables_are_def missing_def)
      then show ?thesis using k missing_same [of t s files] by auto
    next
      assume *: "f \<notin> set (mg_applied s) \<and> tables_are (mg_applied s @ [f]) (mg_run s @ [f]) t"
      then have "mg_applied t = mg_applied s @ [f]" "missing (f # files) s = f # missing files s" by (simp_all add: tables_are_def missing_def)
      moreover have "missing files t = missing files s" using * Cons.prems(1) by (intro missing_snoc [of f]) (simp_all add: tables_are_def)
      ultimately show ?thesis using k by (auto intro!: exI [of _ "Suc k"])
    qed
  next
    case (stop e)
    then show ?thesis using Cons.prems(2)
      by (auto simp: tables_are_def missing_def intro: exI [of _ 0] exI [of _ "Suc 0"])
  qed
qed

lemma migrate_files_quiet:
  assumes "mg_outcomes s = []" "\<forall>f \<in> set files. readErr f = None"
  shows "\<exists>s'. migrate_files readErr files s = (Inr (), s')"
  using assms
proof (induction files arbitrary: s)
  case (Cons f files)
  show ?case
  proof (cases "f \<in> set (mg_applied s)")
    case True
    then show ?thesis using Cons by (simp add: quiet_calls wrap_def andThen_def return_def)
  next
    case False
    let ?t = "s\<lparr>mg_applied := mg_applied s @ [f], mg_run := mg_run s @ [f]\<rparr>"
    have "migrate_files readErr (f # files) s = migrate_files readErr files ?t"
      using Cons.prems False by (simp add: quiet_calls applyMigration_quiet wrap_def andThen_def)
    moreover have "\<exists>s'. migrate_files readErr files ?t = (Inr (), s')" using Cons.prems by (intro Cons.IH) simp_all
    ultimately show ?thesis by simp
  qed
qed (simp add: return_def)

lemma distinct_migration_files: "distinct (map fst entries) \<Longrightarrow> distinct (migration_files entries)"
  by (simp add: migration_files_def distinct_map_filter)

text \<open>
  C19. Migrations run once each, in order, and all of them. With a pool of at least two
  connections \<open>Migrate\<close> returns whatever fails; the scripts whose effects are in the database are
  exactly those recorded as applied; a run adds to them, in lexical order, a first part of the \<open>.sql\<close>
  files that were not applied yet, also when the answer to a commit is lost, and all of them
  when it returns no error, which it does when nothing fails. So the next start goes on where
  this one stopped.
\<close>

theorem migrations_in_order:
  assumes "mg_run s = mg_applied s" "2 \<le> maxConns" "distinct (map fst entries)"
  shows "\<exists>r s'. Migrate maxConns (Inr entries) readErr s = Some (r, s') \<and> mg_run s' = mg_applied s' \<and>
    (\<exists>k. mg_applied s' = mg_applied s @ take k (missing (migration_files entries) s)) \<and> sorted (missing (migration_files entries) s) \<and>
    (r = Inr () \<longrightarrow> mg_applied s' = mg_applied s @ missing (migration_files entries) s) \<and>
    (mg_outcomes s = [] \<and> (\<forall>f \<in> set (migration_files entries). readErr f = None) \<longrightarrow> r = Inr ())"
proof -
  let ?files = "migration_files entries"
  have sorted: "sorted (missing ?files s)" using sorted_filter [of id ?files] by (simp add: missing_def migration_files_def filter_sort [of id, simplified])
  define lock where "lock = andThen (wrap ''migrate: acquire advisory-lock connection'' db_call) (\<lambda>_. wrap ''migrate: acquire advisory lock'' db_call)"
  define body where "body = andThen (wrap ''migrate: ensure migrations table'' ensureMigrationsTable) (\<lambda>_.
     andThen (wrap ''migrate: read migrations directory'' (result (Inr entries))) (\<lambda>es. migrate_files readErr (migration_files es)))"
  have run: "Migrate maxConns (Inr entries) readErr s = Some (andThen lock (\<lambda>_. body) s)"
    unfolding Migrate_def lock_def [symmetric] body_def [symmetric] using assms(2) by (simp add: andThen_def split: prod.split sum.split)
  define pre where "pre = andThen lock (\<lambda>_. wrap ''migrate: ensure migrations table'' ensureMigrationsTable)"
  have all: "andThen lock (\<lambda>_. body) = andThen pre (\<lambda>_. migrate_files readErr ?files)"
    by (simp add: pre_def body_def andThen_assoc fun_eq_iff) (simp add: andThen_def wrap_def result_def)
  have "keeps (tables_are (mg_applied s) (mg_run s)) pre"
    unfolding pre_def lock_def by (intro keeps_andThen keeps_wrap keeps_db_call keeps_before_commit)
  then have t: "tables_are (mg_applied s) (mg_run s) (snd (pre s))" by (rule keepsD) (simp add: tables_are_def)
  have quiet: "pre s = (Inr (), s)" if "mg_outcomes s = []" using that by (simp add: pre_def lock_def andThen_def wrap_def quiet_calls)
  show ?thesis
  proof (cases "fst (pre s)")
    case (Inl e)
    then have p: "pre s = (Inl e, snd (pre s))" by (simp add: prod_eq_iff)
    have "Migrate maxConns (Inr entries) readErr s = Some (Inl e, snd (pre s))"
      using run by (simp only: all andThen_Inl [where m = pre and s = s, OF p])
    moreover have "mg_outcomes s \<noteq> []" using p quiet by auto
    ultimately show ?thesis using t sorted assms(1) by (intro exI [of _ "Inl e"] exI [of _ "snd (pre s)"]) (auto simp: tables_are_def intro: exI [of _ 0])
  next
    case (Inr v)
    then have p: "pre s = (Inr v, snd (pre s))" by (simp add: prod_eq_iff)
    obtain r s' where m: "migrate_files readErr ?files (snd (pre s)) = (r, s')" by fastforce
    have "andThen pre (\<lambda>_. migrate_files readErr ?files) s = (r, s')" by (simp only: andThen_Inr [where m = pre and s = s, OF p] m)
    then have "Migrate maxConns (Inr entries) readErr s = Some (r, s')" using run all by simp
    moreover have "mg_run (snd (pre s)) = mg_applied (snd (pre s))" using t assms(1) by (simp add: tables_are_def)
    note migrate_files_run [OF distinct_migration_files [OF assms(3)] this m]
    moreover have "missing ?files (snd (pre s)) = missing ?files s" using t by (intro missing_same) (simp add: tables_are_def)
    moreover have "r = Inr ()" if "mg_outcomes s = []" "\<forall>f \<in> set ?files. readErr f = None"
      using migrate_files_quiet [OF that] quiet [OF that(1)] m by auto
    ultimately show ?thesis using sorted t by (auto simp: tables_are_def)
  qed
qed

text \<open>With a pool of one connection the server never comes up, and a larger number may wrap around to one.\<close>

lemma one_connection_blocks: "mg_outcomes s = [] \<Longrightarrow> Migrate 1 entries readErr s = None"
  by (simp add: Migrate_def quiet_calls andThen_def wrap_def)

lemma to_int32_wraps: "to_int32 4294967297 = 1"
  by (simp add: to_int32_def)

lemma server_hangs:
  assumes "sc_DBMaxConns cfg = 1" "parseConfig (sc_DBURL cfg) = Inr pool" "mg_outcomes s = []"
  shows "server_main migrateOnly (Inr cfg) parseConfig None None None entries readErr s = None"
proof -
  have "to_int32 1 = 1" by (simp add: to_int32_def)
  then show ?thesis using assms one_connection_blocks [OF assms(3)] by (simp add: server_main_def NewPostgresDB_def pool_settings_def Let_def)
qed

definition sample_migrations :: "(string \<times> bool) list" where
  "sample_migrations = [(''002_b.sql'', False), (''README'', False), (''old.sql'', True), (''001_a.sql'', False)]"

theorem migrations_in_order_witness:
  "\<exists>s. Migrate 20 (Inr sample_migrations) (\<lambda>_. None) \<lparr>mg_applied = [], mg_run = [], mg_outcomes = []\<rparr> = Some (Inr (), s) \<and>
     mg_applied s = [''001_a.sql'', ''002_b.sql'']"
proof -
  let ?s = "\<lparr>mg_applied = [], mg_run = [], mg_outcomes = []\<rparr> :: migration_db"
  have files: "migration_files sample_migrations = [''001_a.sql'', ''002_b.sql'']" by code_simp
  have d: "distinct (map fst sample_migrations)" by code_simp
  from migrations_in_order [of ?s 20 sample_migrations "\<lambda>_. None", OF _ _ d] obtain r s where
    "Migrate 20 (Inr sample_migrations) (\<lambda>_. None) ?s = Some (r, s)" "r = Inr () \<longrightarrow> mg_applied s = mg_applied ?s @ missing (migration_files sample_migrations) ?s"
    "r = Inr ()" by auto
  then show ?thesis by (auto simp: files missing_def)
qed

end
