(* ===== verification/Downloads.thy ===== *)
theory Downloads
  imports Router
begin

text \<open>
  What a device gets before it has a client: \<open>install_script_handler.go\<close> and
  \<open>client_download_handler.go\<close>. A script is a fixed text with holes, so an answer is which text it is and
  what is written into the holes. Files are a map from paths to their contents; the Go tool that
  builds a missing client, SHA-256 and the reading of the machine are arguments. Paths are those
  of Unix.
\<close>

subsection \<open>Package path/filepath\<close>

text \<open>\<open>Clean\<close> works through the elements with a stack of what it has written.\<close>

definition clean_step :: "bool \<Rightarrow> string \<Rightarrow> string list \<Rightarrow> string list" where
  "clean_step rooted seg out =
     (if seg = [] \<or> seg = ''.'' then out
      else if seg = ''..'' then
        (case out of
           h # rest \<Rightarrow> if h = ''..'' then seg # out else rest
         | [] \<Rightarrow> if rooted then [] else [seg])
      else seg # out)"

definition path_Clean :: "string \<Rightarrow> string" where
  "path_Clean p =
     (if p = [] then ''.''
      else
        let rooted = HasPrefix p ''/''; out = Join_with ''/'' (rev (fold (clean_step rooted) (Split p (CHR ''/'')) []))
        in if rooted then CHR ''/'' # out else if out = [] then ''.'' else out)"

definition path_Join :: "string list \<Rightarrow> string" where
  "path_Join elems = (case dropWhile (\<lambda>e. e = []) elems of [] \<Rightarrow> [] | es \<Rightarrow> path_Clean (Join_with ''/'' es))"

definition path_Dir :: "string \<Rightarrow> string" where
  "path_Dir p = path_Clean (if CHR ''/'' \<in> set p then before_last (CHR ''/'') p @ ''/'' else [])"

subsection \<open>install\_script\_handler.go\<close>

definition id_char :: "char \<Rightarrow> bool" where
  "id_char c \<longleftrightarrow> is_alnum c \<or> c = CHR ''_'' \<or> c = CHR ''-''"

definition validID :: "string \<Rightarrow> bool" where
  "validID s \<longleftrightarrow> s \<noteq> [] \<and> list_all id_char s"

definition url_char :: "char \<Rightarrow> bool" where
  "url_char c \<longleftrightarrow> is_alnum c \<or> c \<in> set ''._:/-''"

definition validServerURL :: "string \<Rightarrow> bool" where
  "validServerURL s \<longleftrightarrow>
     (HasPrefix s ''http://'' \<and> drop 7 s \<noteq> [] \<and> list_all url_char (drop 7 s)) \<or> (HasPrefix s ''https://'' \<and> drop 8 s \<noteq> [] \<and> list_all url_char (drop 8 s))"

definition NewInstallScriptHandler :: "string \<Rightarrow> string" where
  "NewInstallScriptHandler serverURL = TrimRight (TrimSpace serverURL) ''/''"

text \<open>The handler is its configured address; of the request, whether it came over TLS and its host.\<close>

definition deriveServerURL :: "string \<Rightarrow> bool \<Rightarrow> string \<Rightarrow> string" where
  "deriveServerURL configured tls reqHost =
     (if configured \<noteq> [] then configured
      else
        let derived = (if tls then ''https'' else ''http'') @ ''://'' @ reqHost
        in if \<not> validServerURL derived then [] else derived)"

text \<open>
  The texts: the shell script with the server's address and its block for the network, which either sets
  the identifier or asks for one on the command line, and the PowerShell script.
\<close>

datatype network_block = SetNetwork string | AskNetwork string

datatype script = ShellScript string network_block | PowerShellScript string string

definition buildInstallScript :: "string \<Rightarrow> string \<Rightarrow> script" where
  "buildInstallScript serverURL networkID = ShellScript serverURL (if networkID \<noteq> [] then SetNetwork networkID else AskNetwork serverURL)"

definition buildPS1Script :: "string \<Rightarrow> string \<Rightarrow> script" where
  "buildPS1Script serverURL networkID = PowerShellScript serverURL networkID"

definition ServeScript :: "string \<Rightarrow> bool \<Rightarrow> string \<Rightarrow> script response" where
  "ServeScript configured tls reqHost =
     (let serverURL = deriveServerURL configured tls reqHost
      in if serverURL = [] then Failure 400 ''unable to determine server URL'' else Success 200 (buildInstallScript serverURL []))"

definition serve_join :: "(string \<Rightarrow> string \<Rightarrow> script) \<Rightarrow> string \<Rightarrow> bool \<Rightarrow> string \<Rightarrow> string \<Rightarrow> script response" where
  "serve_join build configured tls reqHost param =
     (let networkID = TrimSpace param
      in if networkID = [] then Failure 400 ''network_id is required''
         else if \<not> validID networkID then Failure 400 ''network_id contains invalid characters''
         else
           let serverURL = deriveServerURL configured tls reqHost
           in if serverURL = [] then Failure 400 ''unable to determine server URL'' else Success 200 (build serverURL networkID))"

definition ServeJoin :: "string \<Rightarrow> bool \<Rightarrow> string \<Rightarrow> string \<Rightarrow> script response" where
  "ServeJoin = serve_join buildInstallScript"

definition ServeJoinPS1 :: "string \<Rightarrow> bool \<Rightarrow> string \<Rightarrow> string \<Rightarrow> script response" where
  "ServeJoinPS1 = serve_join buildPS1Script"

subsection \<open>client\_download\_handler.go\<close>

record clientBinarySpec =
  bs_DownloadOS :: string
  bs_DownloadArch :: string
  bs_GOOS :: string
  bs_GOARCH :: string
  bs_GOARM :: string
  bs_Filename :: string

definition binary_spec :: "string \<Rightarrow> string \<Rightarrow> string \<Rightarrow> string \<Rightarrow> string \<Rightarrow> clientBinarySpec" where
  "binary_spec os arch goarch goarm filename =
     \<lparr>bs_DownloadOS = os, bs_DownloadArch = arch, bs_GOOS = os, bs_GOARCH = goarch, bs_GOARM = goarm, bs_Filename = filename\<rparr>"

definition supportedClientBinaries :: "(string \<times> clientBinarySpec) list" where
  "supportedClientBinaries =
     [(''linux/amd64'', binary_spec ''linux'' ''amd64'' ''amd64'' [] ''quicktunnel-linux-amd64''),
      (''linux/arm64'', binary_spec ''linux'' ''arm64'' ''arm64'' [] ''quicktunnel-linux-arm64''),
      (''linux/armv7'', binary_spec ''linux'' ''armv7'' ''arm'' ''7'' ''quicktunnel-linux-armv7''),
      (''darwin/amd64'', binary_spec ''darwin'' ''amd64'' ''amd64'' [] ''quicktunnel-darwin-amd64''),
      (''darwin/arm64'', binary_spec ''darwin'' ''arm64'' ''arm64'' [] ''quicktunnel-darwin-arm64''),
      (''windows/amd64'', binary_spec ''windows'' ''amd64'' ''amd64'' [] ''quicktunnel-windows-amd64.exe'')]"

definition lookupClientBinarySpec :: "string \<Rightarrow> string \<Rightarrow> clientBinarySpec option" where
  "lookupClientBinarySpec osName arch = map_of supportedClientBinaries (ToLower (TrimSpace osName) @ ''/'' @ ToLower (TrimSpace arch))"

text \<open>Times are numbers; a file that cannot be opened still has an entry.\<close>

record file_info =
  fi_isDir :: bool
  fi_modTime :: int
  fi_readable :: bool
  fi_bytes :: bytes

type_synonym files = "string \<rightharpoonup> file_info"

definition fileExists :: "files \<Rightarrow> string \<Rightarrow> bool" where
  "fileExists fs p = (case fs p of None \<Rightarrow> False | Some info \<Rightarrow> \<not> fi_isDir info)"

text \<open>What the process knows of its machine: \<open>GOWORK\<close>, the working directory and its own path.\<close>

record machine_dirs =
  md_gowork :: string
  md_cwd :: "string option"
  md_exe :: "string option"

definition some_list :: "('a \<Rightarrow> 'b list) \<Rightarrow> 'a option \<Rightarrow> 'b list" where
  "some_list f x = (case x of None \<Rightarrow> [] | Some v \<Rightarrow> f v)"

text \<open>\<open>strings.HasSuffix\<close>\<close>

definition HasSuffix :: "string \<Rightarrow> string \<Rightarrow> bool" where
  "HasSuffix s t \<longleftrightarrow> suffix t s"

definition root_candidates :: "machine_dirs \<Rightarrow> string list" where
  "root_candidates md =
     (let gowork = TrimSpace (md_gowork md)
      in (if gowork = [] then [] else if HasSuffix (ToLower gowork) ''go.work'' then [path_Dir gowork] else [gowork]) @
         some_list (\<lambda>cwd. [cwd, path_Dir cwd]) (md_cwd md) @ some_list (\<lambda>exe. [path_Dir exe, path_Dir (path_Dir exe)]) (md_exe md))"

text \<open>The code skips a candidate it has seen before, which has no effect on the first one that fits.\<close>

definition discoverProjectRoot :: "files \<Rightarrow> machine_dirs \<Rightarrow> string" where
  "discoverProjectRoot fs md =
     (case find (\<lambda>c. fileExists fs (path_Join [c, ''client'', ''go.mod'']) \<and> fileExists fs (path_Join [c, ''server'', ''go.mod'']))
             (map path_Clean (filter (\<lambda>c. c \<noteq> []) (map TrimSpace (root_candidates md)))) of
        Some found \<Rightarrow> found
      | None \<Rightarrow> [])"

definition discoverBinaryDirs :: "machine_dirs \<Rightarrow> string \<Rightarrow> string list" where
  "discoverBinaryDirs md projectRoot =
     (let both = (\<lambda>d. [path_Join [d, ''client'', ''bin''], path_Join [d, ''binaries'']])
      in (if projectRoot \<noteq> [] then both projectRoot else []) @
         some_list (\<lambda>cwd. both cwd @ both (path_Dir cwd)) (md_cwd md) @
         some_list (\<lambda>exe. both (path_Dir exe) @ both (path_Dir (path_Dir exe))) (md_exe md))"

record ClientDownloadHandler =
  dh_projectRoot :: string
  dh_binaryDirs :: "string list"

definition NewClientDownloadHandler :: "files \<Rightarrow> machine_dirs \<Rightarrow> ClientDownloadHandler" where
  "NewClientDownloadHandler fs md =
     (let projectRoot = discoverProjectRoot fs md in \<lparr>dh_projectRoot = projectRoot, dh_binaryDirs = discoverBinaryDirs md projectRoot\<rparr>)"

text \<open>The loop of \<open>findExistingBinary\<close>: the best path with its time so far, and the directories seen.\<close>

definition consider_dir :: "files \<Rightarrow> string \<Rightarrow> string \<Rightarrow> (string \<times> int) option \<times> string list \<Rightarrow> (string \<times> int) option \<times> string list" where
  "consider_dir fs filename dir st =
     (case st of
        (best, seen) \<Rightarrow>
          let cleaned = path_Clean (TrimSpace dir)
          in if cleaned = [] \<or> cleaned \<in> set seen then st
             else
               let targetPath = path_Join [cleaned, filename]
               in (case fs targetPath of
                     None \<Rightarrow> best
                   | Some info \<Rightarrow>
                       if fi_isDir info then best
                       else (case best of
                               None \<Rightarrow> Some (targetPath, fi_modTime info)
                             | Some (_, bestModTime) \<Rightarrow> if bestModTime < fi_modTime info then Some (targetPath, fi_modTime info) else best),
                   cleaned # seen))"

definition binary_dirs :: "machine_dirs \<Rightarrow> ClientDownloadHandler \<Rightarrow> string list" where
  "binary_dirs md h = (if dh_binaryDirs h = [] \<and> dh_projectRoot h \<noteq> [] then discoverBinaryDirs md (dh_projectRoot h) else dh_binaryDirs h)"

definition findExistingBinary :: "files \<Rightarrow> machine_dirs \<Rightarrow> clientBinarySpec \<Rightarrow> ClientDownloadHandler \<Rightarrow> string option" where
  "findExistingBinary fs md spec h = map_option fst (fst (fold (consider_dir fs (bs_Filename spec)) (binary_dirs md h) (None, [])))"

text \<open>
  The build: the Go tool's path if there is one, and what running it with a directory, an
  environment and arguments does to the files, with its output and error.
\<close>

record go_tool =
  gt_path :: "string option"
  gt_run :: "string \<Rightarrow> string list \<Rightarrow> string list \<Rightarrow> files \<Rightarrow> (string \<times> go_error) option \<times> files"

definition defaultBuildBinary :: "go_tool \<Rightarrow> string \<Rightarrow> clientBinarySpec \<Rightarrow> string \<Rightarrow> files \<Rightarrow> go_error option \<times> files" where
  "defaultBuildBinary gt projectRoot spec targetPath fs =
     (case gt_path gt of
        None \<Rightarrow> (Some (Errorf (''client binary '' @ bs_Filename spec @ '' is missing and Go is not installed on the host'')), fs)
      | Some goBin \<Rightarrow>
          let env = [''CGO_ENABLED=0'', ''GOOS='' @ bs_GOOS spec, ''GOARCH='' @ bs_GOARCH spec] @
                (if bs_GOARM spec \<noteq> [] then [''GOARM='' @ bs_GOARM spec] else [])
          in case gt_run gt (path_Join [projectRoot, ''client'']) env [goBin, ''build'', ''-trimpath'', ''-o'', targetPath, ''./cmd/quicktunnel''] fs of
               (None, fs') \<Rightarrow> (None, fs')
             | (Some (output, e), fs') \<Rightarrow>
                 (Some (if TrimSpace output = [] then Wrapf (''build client binary '' @ bs_Filename spec) e
                        else Wrapf (''build client binary '' @ bs_Filename spec @ '': '' @ TrimSpace output) e), fs'))"

text \<open>\<open>mkdirErr\<close> is the outcome of creating the directory. Nothing else changes the files while the lock is held.\<close>

definition ensureBinary :: "go_tool \<Rightarrow> go_error option \<Rightarrow> machine_dirs \<Rightarrow> clientBinarySpec \<Rightarrow> ClientDownloadHandler \<Rightarrow> files \<Rightarrow> (go_error + string) \<times> files" where
  "ensureBinary gt mkdirErr md spec h fs =
     (case findExistingBinary fs md spec h of
        Some targetPath \<Rightarrow> (Inr targetPath, fs)
      | None \<Rightarrow>
          if dh_projectRoot h = [] then (Inl (Errorf (''client binary '' @ bs_Filename spec @ '' is unavailable on this server host'')), fs)
          else
            let targetPath = path_Join [dh_projectRoot h, ''client'', ''bin'', bs_Filename spec]
            in case mkdirErr of
                 Some e \<Rightarrow> (Inl (Wrapf ''prepare client artifact directory'' e), fs)
               | None \<Rightarrow>
                   (case defaultBuildBinary gt (dh_projectRoot h) spec targetPath fs of
                      (Some e, fs') \<Rightarrow> (Inl e, fs'(targetPath := None))
                    | (None, fs') \<Rightarrow>
                        if \<not> fileExists fs' targetPath then (Inl (Errorf (''client binary '' @ bs_Filename spec @ '' was not produced'')), fs')
                        else (Inr targetPath, fs')))"

definition computeFileSHA256 :: "(bytes \<Rightarrow> bytes) \<Rightarrow> files \<Rightarrow> string \<Rightarrow> string option" where
  "computeFileSHA256 sha256 fs p =
     (case fs p of None \<Rightarrow> None | Some info \<Rightarrow> if fi_readable info \<and> \<not> fi_isDir info then Some (concat (map hex_byte (sha256 (fi_bytes info)))) else None)"

record download =
  dl_filename :: string
  dl_checksum :: string
  dl_bytes :: bytes

definition Download_Get :: "(bytes \<Rightarrow> bytes) \<Rightarrow> go_tool \<Rightarrow> go_error option \<Rightarrow> machine_dirs \<Rightarrow> string \<Rightarrow> string \<Rightarrow> ClientDownloadHandler \<Rightarrow> files \<Rightarrow>
    download response \<times> files" where
  "Download_Get sha256 gt mkdirErr md osParam archParam h fs =
     (case lookupClientBinarySpec osParam archParam of
        None \<Rightarrow> (Failure 404 ''unsupported client platform'', fs)
      | Some spec \<Rightarrow>
          (case ensureBinary gt mkdirErr md spec h fs of
             (Inl e, fs') \<Rightarrow> (Failure 503 (error_string e), fs')
           | (Inr targetPath, fs') \<Rightarrow>
               (case fs' targetPath of
                  None \<Rightarrow> (Failure 503 ''client artifact is unavailable'', fs')
                | Some info \<Rightarrow>
                    if \<not> fi_readable info then (Failure 503 ''failed to open client artifact'', fs')
                    else (case computeFileSHA256 sha256 fs' targetPath of
                            None \<Rightarrow> (Failure 503 ''failed to compute checksum'', fs')
                          | Some checksum \<Rightarrow>
                              (Success 200 \<lparr>dl_filename = bs_Filename spec, dl_checksum = checksum, dl_bytes = fi_bytes info\<rparr>, fs')))))"

subsection \<open>Nothing in a script's holes is code\<close>

text \<open>Printable ASCII that neither a shell nor PowerShell interprets between double quotes, nor ends a comment with.\<close>

definition inert_char :: "char \<Rightarrow> bool" where
  "inert_char c \<longleftrightarrow> 32 \<le> (of_char c :: nat) \<and> (of_char c :: nat) < 127 \<and> c \<notin> {CHR 0x22, CHR ''$'', CHR 0x60, CHR 0x5C}"

fun script_holes :: "script \<Rightarrow> string list" where
  "script_holes (ShellScript url (SetNetwork n)) = [url, n]"
| "script_holes (ShellScript url (AskNetwork url')) = [url, url']"
| "script_holes (PowerShellScript url n) = [url, n]"

lemma alnum_inert: "is_alnum c \<Longrightarrow> inert_char c"
  by (auto simp: is_alnum_def is_alpha_def is_digit_def inert_char_def Let_def)

lemma id_url_inert: "id_char c \<Longrightarrow> inert_char c" "url_char c \<Longrightarrow> inert_char c"
  using alnum_inert by (auto simp: id_char_def url_char_def inert_char_def)

lemma validServerURL_inert: "validServerURL s \<Longrightarrow> list_all inert_char s"
proof -
  have cut: "list_all inert_char s" if "HasPrefix s p" "list_all inert_char p" "list_all url_char (drop (length p) s)" for p
  proof -
    have "s = p @ drop (length p) s" using that(1) by (auto simp: HasPrefix_def prefix_def)
    moreover have "list_all inert_char (drop (length p) s)" using that(3) id_url_inert(2) by (auto simp: list_all_iff)
    ultimately show ?thesis using that(2) by (metis list_all_append)
  qed
  have heads: "list_all inert_char ''http://''" "list_all inert_char ''https://''" by (simp_all add: inert_char_def)
  assume "validServerURL s"
  then have "HasPrefix s ''http://'' \<and> list_all url_char (drop (length ''http://'') s) \<or> HasPrefix s ''https://'' \<and> list_all url_char (drop (length ''https://'') s)"
    by (auto simp: validServerURL_def eval_nat_numeral)
  then show ?thesis using cut [OF _ heads(1)] cut [OF _ heads(2)] by blast
qed

lemma deriveServerURL_inert:
  assumes "list_all inert_char configured"
  shows "list_all inert_char (deriveServerURL configured tls reqHost)"
proof -
  define derived where "derived = (if tls then ''https'' else ''http'') @ ''://'' @ reqHost"
  have "deriveServerURL configured tls reqHost = (if configured \<noteq> [] then configured else if \<not> validServerURL derived then [] else derived)"
    by (simp only: deriveServerURL_def derived_def Let_def)
  then show ?thesis using assms validServerURL_inert [of derived] by simp
qed

text \<open>
  C20. Install scripts cannot be injected. If the configured address of the server is inert, or none is
  configured, then whatever host and network identifier a request names, the server answers with
  an error or with a script whose holes, address and identifier, are not empty and hold
  only characters that neither the shell nor PowerShell interprets there.
\<close>

theorem install_scripts_inert:
  assumes "list_all inert_char (NewInstallScriptHandler publicURL)"
    and "answer \<in> {ServeScript (NewInstallScriptHandler publicURL) tls reqHost, ServeJoin (NewInstallScriptHandler publicURL) tls reqHost param,
      ServeJoinPS1 (NewInstallScriptHandler publicURL) tls reqHost param}"
  shows "(\<exists>m. answer = Failure 400 m) \<or> (\<exists>sc. answer = Success 200 sc \<and> (\<forall>hole \<in> set (script_holes sc). hole \<noteq> [] \<and> list_all inert_char hole))"
proof -
  let ?url = "deriveServerURL (NewInstallScriptHandler publicURL) tls reqHost"
  have url: "list_all inert_char ?url" by (rule deriveServerURL_inert) (rule assms(1))
  have ident: "list_all inert_char n" if "validID n" for n using that id_url_inert(1) by (auto simp: validID_def list_all_iff)
  from assms(2) show ?thesis
    unfolding ServeScript_def ServeJoin_def ServeJoinPS1_def serve_join_def Let_def
    by (elim insertE emptyE; simp split: if_split; use url ident in \<open>auto simp: buildInstallScript_def buildPS1Script_def\<close>)
qed

theorem install_scripts_inert_witness:
  "\<exists>sc. ServeJoin (NewInstallScriptHandler []) False ''vpn.example:3000'' '' net1 '' = Success 200 sc \<and> script_holes sc = [''http://vpn.example:3000'', ''net1''] \<and>
     (\<forall>hole \<in> set (script_holes sc). hole \<noteq> [] \<and> list_all inert_char hole)"
proof -
  let ?r = "ServeJoin (NewInstallScriptHandler []) False ''vpn.example:3000'' '' net1 ''"
  have r: "?r = Success 200 (ShellScript ''http://vpn.example:3000'' (SetNetwork ''net1''))" by code_simp
  have "list_all inert_char (NewInstallScriptHandler [])" by code_simp
  from install_scripts_inert [OF this, where answer = ?r and tls = False and reqHost = "''vpn.example:3000''" and param = "'' net1 ''"]
  show ?thesis using r by auto
qed

subsection \<open>Downloads\<close>

lemma path_Clean_nonempty: "path_Clean p \<noteq> []"
  by (simp add: path_Clean_def Let_def)

definition candidate :: "string \<Rightarrow> string \<Rightarrow> string" where
  "candidate filename dir = path_Join [path_Clean (TrimSpace dir), filename]"

definition found_in :: "files \<Rightarrow> string \<Rightarrow> string list \<Rightarrow> (string \<times> int) option \<times> string list \<Rightarrow> bool" where
  "found_in fs filename ds st \<longleftrightarrow>
     set (snd st) = (\<lambda>d. path_Clean (TrimSpace d)) ` set ds \<and>
     (case fst st of
        None \<Rightarrow> \<forall>d \<in> set ds. \<not> fileExists fs (candidate filename d)
      | Some (p, t) \<Rightarrow>
          (\<exists>d \<in> set ds. p = candidate filename d \<and> fileExists fs p \<and> t = fi_modTime (the (fs p))) \<and>
          (\<forall>d \<in> set ds. fileExists fs (candidate filename d) \<longrightarrow> fi_modTime (the (fs (candidate filename d))) \<le> t))"

lemma consider_dir_found:
  assumes "found_in fs filename ds st"
  shows "found_in fs filename (ds @ [dir]) (consider_dir fs filename dir st)"
proof -
  obtain best seen where st: "st = (best, seen)" by fastforce
  show ?thesis
  proof (cases "path_Clean (TrimSpace dir) \<in> set seen")
    case True
    then obtain d where "d \<in> set ds" "path_Clean (TrimSpace dir) = path_Clean (TrimSpace d)" using assms by (auto simp: found_in_def st)
    then have "candidate filename dir = candidate filename d" "consider_dir fs filename dir st = st"
      using True by (auto simp: candidate_def consider_dir_def st Let_def)
    then show ?thesis using assms \<open>d \<in> set ds\<close> True by (auto simp: found_in_def st split: option.splits)
  next
    case False
    let ?p = "candidate filename dir"
    have step: "consider_dir fs filename dir st =
        (if fileExists fs ?p then (case best of None \<Rightarrow> Some (?p, fi_modTime (the (fs ?p)))
           | Some (q, t) \<Rightarrow> if t < fi_modTime (the (fs ?p)) then Some (?p, fi_modTime (the (fs ?p))) else best) else best, path_Clean (TrimSpace dir) # seen)"
      using False path_Clean_nonempty [of "TrimSpace dir"]
      by (simp add: consider_dir_def st candidate_def fileExists_def Let_def split: option.split)
    show ?thesis unfolding step
      using assms by (cases best) (force simp: found_in_def st split: if_splits)+
  qed
qed

lemma fold_found:
  assumes "found_in fs filename ds st"
  shows "found_in fs filename (ds @ dirs) (fold (consider_dir fs filename) dirs st)"
  using assms
proof (induction dirs arbitrary: ds st)
  case (Cons dir dirs)
  from Cons.IH [OF consider_dir_found [OF Cons.prems]] show ?case by simp
qed simp

text \<open>The newest file of the directories, if there is one.\<close>

lemma findExistingBinary_newest:
  "case findExistingBinary fs md spec h of
     None \<Rightarrow> \<forall>d \<in> set (binary_dirs md h). \<not> fileExists fs (candidate (bs_Filename spec) d)
   | Some p \<Rightarrow> (\<exists>d \<in> set (binary_dirs md h). p = candidate (bs_Filename spec) d) \<and> fileExists fs p \<and>
       (\<forall>d \<in> set (binary_dirs md h). fileExists fs (candidate (bs_Filename spec) d) \<longrightarrow>
          fi_modTime (the (fs (candidate (bs_Filename spec) d))) \<le> fi_modTime (the (fs p)))"
proof -
  have "found_in fs (bs_Filename spec) [] (None, [])" by (simp add: found_in_def)
  from fold_found [OF this, of "binary_dirs md h"] show ?thesis
    by (auto simp: findExistingBinary_def found_in_def split: option.splits)
qed

definition artifact_paths :: "machine_dirs \<Rightarrow> clientBinarySpec \<Rightarrow> ClientDownloadHandler \<Rightarrow> string set" where
  "artifact_paths md spec h = candidate (bs_Filename spec) ` set (binary_dirs md h) \<union> {path_Join [dh_projectRoot h, ''client'', ''bin'', bs_Filename spec]}"

lemma ensureBinary_Inr:
  assumes "ensureBinary gt mkdirErr md spec h fs = (Inr p, fs')"
  shows "p \<in> artifact_paths md spec h \<and> fileExists fs' p \<and>
    (findExistingBinary fs md spec h = Some p \<and> fs' = fs \<or>
     (\<forall>d \<in> set (binary_dirs md h). \<not> fileExists fs (candidate (bs_Filename spec) d)) \<and> p = path_Join [dh_projectRoot h, ''client'', ''bin'', bs_Filename spec])"
  using assms findExistingBinary_newest [where fs = fs and md = md and spec = spec and h = h]
  by (auto simp: ensureBinary_def artifact_paths_def Let_def split: option.splits if_splits prod.splits)

lemma supported_specs:
  "map_of supportedClientBinaries key = Some spec \<Longrightarrow> key = bs_DownloadOS spec @ ''/'' @ bs_DownloadArch spec \<and> spec \<in> snd ` set supportedClientBinaries"
  by (auto simp: supportedClientBinaries_def binary_spec_def split: if_splits)

text \<open>
  C36. A download is the current client of the platform asked for, and nothing else. Whatever
  texts a request has for the system and the architecture, the file that is served is one of the six known
  names in one of the server's own directories; its bytes and its checksum belong together; and
  when the file existed before, no other of these directories has a newer one.
\<close>

theorem download_is_known_artifact:
  assumes "Download_Get sha256 gt mkdirErr md osParam archParam h fs = (Success c d, fs')"
  shows "\<exists>spec p info. spec \<in> snd ` set supportedClientBinaries \<and> ToLower (TrimSpace osParam) @ ''/'' @ ToLower (TrimSpace archParam) = bs_DownloadOS spec @ ''/'' @ bs_DownloadArch spec \<and>
    c = 200 \<and> dl_filename d = bs_Filename spec \<and> p \<in> artifact_paths md spec h \<and> fs' p = Some info \<and> \<not> fi_isDir info \<and>
    dl_bytes d = fi_bytes info \<and> dl_checksum d = concat (map hex_byte (sha256 (dl_bytes d))) \<and>
    (\<forall>dir \<in> set (binary_dirs md h). fileExists fs (candidate (bs_Filename spec) dir) \<longrightarrow>
       fs' = fs \<and> fi_modTime (the (fs (candidate (bs_Filename spec) dir))) \<le> fi_modTime info)"
proof -
  obtain spec where spec: "lookupClientBinarySpec osParam archParam = Some spec"
    using assms by (auto simp: Download_Get_def split: option.splits)
  obtain p info checksum where g: "ensureBinary gt mkdirErr md spec h fs = (Inr p, fs')" "fs' p = Some info" "computeFileSHA256 sha256 fs' p = Some checksum"
    "c = 200" "d = \<lparr>dl_filename = bs_Filename spec, dl_checksum = checksum, dl_bytes = fi_bytes info\<rparr>"
    using assms spec by (auto simp: Download_Get_def split: option.splits prod.splits sum.splits if_splits)
  have sum: "\<not> fi_isDir info" "checksum = concat (map hex_byte (sha256 (fi_bytes info)))"
    using g(2,3) by (auto simp: computeFileSHA256_def split: if_splits)
  note e = ensureBinary_Inr [OF g(1)]
  have newest: "fs' = fs \<and> fi_modTime (the (fs (candidate (bs_Filename spec) dir))) \<le> fi_modTime info"
    if "dir \<in> set (binary_dirs md h)" "fileExists fs (candidate (bs_Filename spec) dir)" for dir
    using e findExistingBinary_newest [where fs = fs and md = md and spec = spec and h = h] that g(2) by auto
  show ?thesis
    using supported_specs [OF spec [unfolded lookupClientBinarySpec_def]] e g sum newest
    by (intro exI [of _ spec] exI [of _ p] exI [of _ info]) auto
qed

definition sample_files :: files where
  "sample_files = [''/srv/binaries/quicktunnel-linux-amd64'' \<mapsto> \<lparr>fi_isDir = False, fi_modTime = 7, fi_readable = True, fi_bytes = [1, 2]\<rparr>]"

definition sample_tool :: go_tool where
  "sample_tool = \<lparr>gt_path = None, gt_run = (\<lambda>_ _ _ fs. (None, fs))\<rparr>"

definition sample_dirs :: machine_dirs where
  "sample_dirs = \<lparr>md_gowork = [], md_cwd = Some ''/srv'', md_exe = None\<rparr>"

theorem download_is_known_artifact_witness:
  "\<exists>d fs'. Download_Get (\<lambda>b. b) sample_tool None sample_dirs ''Linux'' '' amd64'' (NewClientDownloadHandler sample_files sample_dirs) sample_files = (Success 200 d, fs') \<and>
     dl_bytes d = [1, 2] \<and> dl_checksum d = concat (map hex_byte (dl_bytes d))"
proof -
  let ?get = "Download_Get (\<lambda>b. b) sample_tool None sample_dirs ''Linux'' '' amd64'' (NewClientDownloadHandler sample_files sample_dirs) sample_files"
  define d where "d = \<lparr>dl_filename = ''quicktunnel-linux-amd64'', dl_checksum = ''0102'', dl_bytes = [1, 2]\<rparr>"
  have "fst ?get = Success 200 d" unfolding d_def by code_simp
  then have run: "?get = (Success 200 d, snd ?get)" by (simp add: prod_eq_iff)
  from download_is_known_artifact [OF run] have "dl_checksum d = concat (map hex_byte (dl_bytes d))" by blast
  then show ?thesis using run by (intro exI [of _ d] exI [of _ "snd ?get"]) (simp add: d_def)
qed

end
