(* ===== verification/NatTraversal.thy ===== *)
theory NatTraversal
  imports Store Relay
begin

text \<open>
  NAT traversal of the device: \<open>client/internal/nat\<close> (the discovery of the public endpoint by STUN,
  the classification of the NAT and the hole puncher) and \<open>client/internal/peer/handshake.go\<close>.
  The network, the resolver and the library \<open>pion/stun\<close> are the record \<open>stun_net\<close> of the outcome of
  each call; the sockets of the hole puncher deliver a list of events. The MAC of
  \<open>crypto/hmac\<close> with SHA-256 and \<open>encoding/json\<close> are parameters of the handshake.
\<close>

subsection \<open>stun.go\<close>

record stun_net =
  sn_LookupIP :: "string \<Rightarrow> go_error + IP list"
  sn_Dial :: "string \<Rightarrow> go_error option"
  sn_SetDeadline :: "string \<Rightarrow> go_error option"
  sn_Write :: "string \<Rightarrow> go_error option"
  sn_Read :: "string \<Rightarrow> go_error + bytes"
  sn_Decode :: "bytes \<Rightarrow> go_error option"
  sn_XORMapped :: "bytes \<Rightarrow> (IP \<times> int) option"
  sn_Mapped :: "bytes \<Rightarrow> (IP \<times> int) option"

definition stunServers :: "string list" where
  "stunServers = [''stun.l.google.com:19302'', ''stun1.l.google.com:19302'', ''stun2.l.google.com:19302'', ''stun.cloudflare.com:3478'']"

text \<open>A step whose failure ends the attempt.\<close>

definition stun_step :: "string \<Rightarrow> go_error option \<Rightarrow> (go_error + 'a) \<Rightarrow> go_error + 'a" where
  "stun_step ctx e k = (case e of Some err \<Rightarrow> Inl (Wrapf (''discover endpoint: '' @ ctx) err) | None \<Rightarrow> k)"

text \<open>An address attribute of the answer, when it is there and holds an IPv4 address.\<close>

definition v4_attr :: "(IP \<times> int) option \<Rightarrow> (string \<times> int) option" where
  "v4_attr a = (case a of Some (ip, port) \<Rightarrow> if To4 ip \<noteq> None then Some (IP_String ip, port) else None | None \<Rightarrow> None)"

definition discoverIPv4Endpoint :: "stun_net \<Rightarrow> string \<Rightarrow> go_error + string \<times> int" where
  "discoverIPv4Endpoint n stunServer =
     (case SplitHostPort stunServer of
        None \<Rightarrow> Inl (Errorf ''discover endpoint: parse server'')
      | Some (server, port) \<Rightarrow>
          (case sn_LookupIP n server of
             Inl e \<Rightarrow> Inl (Wrapf (''discover endpoint: resolve '' @ server) e)
           | Inr ips \<Rightarrow>
               (case find (\<lambda>ip. To4 ip \<noteq> None) ips of
                  None \<Rightarrow> Inl (Errorf (''discover endpoint: no IPv4 address for '' @ server))
                | Some ip \<Rightarrow>
                    let addr = JoinHostPort (IP_String ip) port
                    in stun_step ''dial stun'' (sn_Dial n addr) (
                       stun_step ''set deadline'' (sn_SetDeadline n addr) (
                       stun_step ''send binding request'' (sn_Write n addr) (
                       case sn_Read n addr of
                         Inl e \<Rightarrow> Inl (Wrapf ''discover endpoint: read response'' e)
                       | Inr buffer \<Rightarrow>
                           let raw = take 1500 buffer
                           in stun_step ''decode response'' (sn_Decode n raw) (
                              case v4_attr (sn_XORMapped n raw) of
                                Some r \<Rightarrow> Inr r
                              | None \<Rightarrow>
                                  (case v4_attr (sn_Mapped n raw) of
                                     Some r \<Rightarrow> Inr r
                                   | None \<Rightarrow> Inl (Errorf ''discover endpoint: no IPv4 mapped address in response'')))))))))"

fun try_servers :: "stun_net \<Rightarrow> go_error option \<Rightarrow> string list \<Rightarrow> (go_error option) + string \<times> int" where
  "try_servers n lastErr [] = Inl lastErr"
| "try_servers n lastErr (server # servers) =
     (case discoverIPv4Endpoint n server of Inr r \<Rightarrow> Inr r | Inl e \<Rightarrow> try_servers n (Some e) servers)"

definition servers_for :: "string \<Rightarrow> string list" where
  "servers_for stunServer0 =
     (let stunServer = (if stunServer0 = [] then ''stun.l.google.com:19302'' else stunServer0)
      in stunServer # filter (\<lambda>s. s \<noteq> stunServer) stunServers)"

definition DiscoverPublicEndpoint :: "stun_net \<Rightarrow> string \<Rightarrow> go_error + string \<times> int" where
  "DiscoverPublicEndpoint n stunServer =
     (case try_servers n None (servers_for stunServer) of
        Inr r \<Rightarrow> Inr r
      | Inl lastErr \<Rightarrow> Inl (Wrapf ''discover public endpoint: all STUN servers failed'' (case lastErr of Some e \<Rightarrow> e | None \<Rightarrow> Errorf ''<nil>'')))"

subsection \<open>detector.go\<close>

datatype NATType = NATTypeNone | NATTypeFullCone | NATTypeRestrictedCone | NATTypePortRestricted | NATTypeSymmetric

text \<open>
  The two discoveries see the network at two moments, \<open>n1\<close> and \<open>n2\<close>; \<open>outboundIP\<close> is the result of
  \<open>netutil.GetOutboundIP\<close>. Beside an error the type is \<open>NATTypeSymmetric\<close>.
\<close>

definition DetectNATType :: "stun_net \<Rightarrow> stun_net \<Rightarrow> string \<Rightarrow> string \<Rightarrow> NATType \<times> go_error option" where
  "DetectNATType n1 n2 outboundIP stunServer =
     (if TrimSpace stunServer = [] then (NATTypeSymmetric, Some (Errorf ''detect nat type: stun server is required''))
      else case DiscoverPublicEndpoint n1 stunServer of
             Inl e \<Rightarrow> (NATTypeSymmetric, Some (Wrapf ''detect nat type: first discovery'' e))
           | Inr (ip1, port1) \<Rightarrow>
               (case DiscoverPublicEndpoint n2 stunServer of
                  Inl e \<Rightarrow> (NATTypeSymmetric, Some (Wrapf ''detect nat type: second discovery'' e))
                | Inr (ip2, port2) \<Rightarrow>
                    if outboundIP \<noteq> [] \<and> outboundIP = ip1 \<and> \<not> IsPrivateIP outboundIP then (NATTypeNone, None)
                    else if ip1 \<noteq> ip2 then (NATTypeSymmetric, None)
                    else if port1 \<noteq> port2 then (NATTypeRestrictedCone, None)
                    else if \<not> IsPrivateIP ip1 then (NATTypeFullCone, None)
                    else (NATTypePortRestricted, None)))"

subsection \<open>holepunch.go\<close>

definition punchMagic :: bytes where
  "punchMagic = [0x51, 0x54, 0x50, 0x4e, 0x43, 0x48]"

text \<open>\<open>binary.BigEndian.PutUint64\<close>\<close>

definition be_bytes64 :: "u64 \<Rightarrow> bytes" where
  "be_bytes64 v = rev (le_bytes64 v)"

definition buildPunchPayload :: "go_error + bytes \<Rightarrow> int \<Rightarrow> go_error + bytes" where
  "buildPunchPayload rnd now =
     (case rnd of
        Inl e \<Rightarrow> Inl (Wrapf ''build punch payload: random bytes'' e)
      | Inr r \<Rightarrow>
          let payload = replicate (length punchMagic + 8 + 8) 0;
              p1 = copy_bytes payload punchMagic;
              p2 = take 6 p1 @ be_bytes64 (of_int now) @ drop 14 p1
          in Inr (take 14 p2 @ copy_bytes (drop 14 p2) r))"

definition sameUDPAddr :: "UDPAddr option \<Rightarrow> UDPAddr option \<Rightarrow> bool" where
  "sameUDPAddr a b = (case (a, b) of (Some x, Some y) \<Rightarrow> ua_Port x = ua_Port y \<and> ua_IP x = ua_IP y | _ \<Rightarrow> False)"

definition NewHolePuncher :: "(int \<Rightarrow> go_error + int) \<Rightarrow> int \<Rightarrow> go_error + int" where
  "NewHolePuncher listen localPort =
     (if localPort < 0 \<or> 65535 < localPort then Inl (Errorf ''new hole puncher: local port out of range'')
      else case listen localPort of Inl e \<Rightarrow> Inl (Wrapf ''new hole puncher: listen udp'' e) | Inr bound \<Rightarrow> Inr bound)"

text \<open>
  The bursts: up to 20 payloads, each with the random bytes, the clock and the outcome of the write
  of its turn. The result is the error that ends them, and what was sent.
\<close>

fun sendPunchBursts :: "((go_error + bytes) \<times> int \<times> go_error option) list \<Rightarrow> UDPAddr \<Rightarrow> go_error option \<times> (bytes \<times> UDPAddr) list" where
  "sendPunchBursts [] peerAddr = (None, [])"
| "sendPunchBursts ((rnd, now, wr) # turns) peerAddr =
     (case buildPunchPayload rnd now of
        Inl e \<Rightarrow> (Some (Wrapf ''send punch bursts: build payload'' e), [])
      | Inr payload \<Rightarrow>
          (case wr of
             Some e \<Rightarrow> (Some (Wrapf ''send punch bursts: write udp packet'' e), [])
           | None \<Rightarrow> (case sendPunchBursts turns peerAddr of (r, out) \<Rightarrow> (r, (payload, peerAddr) # out))))"

text \<open>
  The wait of \<open>Punch\<close>. A turn is the clock at the head of the loop, the outcome of setting the read
  deadline, what the read gives, and whether the error of the bursts, if they had one, has
  reached the channel by then. The clock passes the deadline after finitely many turns.
\<close>

datatype punch_read = PunchTimeout | PunchError go_error | PunchPacket bytes UDPAddr

record punch_turn =
  pt_now :: int
  pt_deadlineErr :: "go_error option"
  pt_read :: punch_read
  pt_burstDone :: bool

fun punch_loop :: "int \<Rightarrow> UDPAddr \<Rightarrow> go_error option \<Rightarrow> punch_turn list \<Rightarrow> go_error + bool" where
  "punch_loop deadline peerAddr burstErr [] =
     (case burstErr of Some e \<Rightarrow> Inl (Wrapf ''punch: send bursts failed'' e) | None \<Rightarrow> Inr False)"
| "punch_loop deadline peerAddr burstErr (t # ts) =
     (if deadline \<le> pt_now t then (case burstErr of Some e \<Rightarrow> Inl (Wrapf ''punch: send bursts failed'' e) | None \<Rightarrow> Inr False)
      else case pt_deadlineErr t of
             Some e \<Rightarrow> Inl (Wrapf ''punch: set read deadline'' e)
           | None \<Rightarrow>
               (case pt_read t of
                  PunchTimeout \<Rightarrow>
                    (if pt_burstDone t then (case burstErr of Some e \<Rightarrow> Inl (Wrapf ''punch: send bursts failed'' e)
                                                           | None \<Rightarrow> punch_loop deadline peerAddr burstErr ts)
                     else punch_loop deadline peerAddr burstErr ts)
                | PunchError e \<Rightarrow> Inl (Wrapf ''punch: read udp packet'' e)
                | PunchPacket packet from \<Rightarrow>
                    if \<not> sameUDPAddr (Some from) (Some peerAddr) then punch_loop deadline peerAddr burstErr ts
                    else if length punchMagic \<le> length packet \<and> take (length punchMagic) packet = punchMagic then Inr True
                    else if 0 < length packet then Inr True
                    else punch_loop deadline peerAddr burstErr ts))"

definition Punch :: "(string \<Rightarrow> go_error + UDPAddr) \<Rightarrow> bool \<Rightarrow> int \<Rightarrow> string \<Rightarrow> int \<Rightarrow>
    ((go_error + bytes) \<times> int \<times> go_error option) list \<Rightarrow> punch_turn list \<Rightarrow> go_error + bool" where
  "Punch resolve initialized now peerPublicIP peerPublicPort bursts turns =
     (if \<not> initialized then Inl (Errorf ''punch: hole puncher is not initialized'')
      else if peerPublicIP = [] \<or> peerPublicPort \<le> 0 \<or> 65535 < peerPublicPort then Inl (Errorf ''punch: invalid peer endpoint'')
      else case resolve (JoinHostPort peerPublicIP (Itoa peerPublicPort)) of
             Inl e \<Rightarrow> Inl (Wrapf ''punch: resolve peer address'' e)
           | Inr peerAddr \<Rightarrow> punch_loop (now + 10 * 1000000000) peerAddr (fst (sendPunchBursts (take 20 bursts) peerAddr)) turns)"

subsection \<open>handshake.go\<close>

definition handshakeMagic :: string where "handshakeMagic = ''QTHS1''"

record handshakeMessage =
  hm_Magic :: string
  hm_PeerID :: string
  hm_Timestamp :: int
  hm_HMAC :: string

record handshake_lib =
  hl_HMAC :: "bytes \<Rightarrow> bytes \<Rightarrow> bytes"
  hl_Marshal :: "handshakeMessage \<Rightarrow> go_error + bytes"
  hl_Unmarshal :: "bytes \<Rightarrow> go_error + handshakeMessage"

text \<open>\<open>hex.EncodeToString\<close> and \<open>hex.DecodeString\<close>\<close>

definition hex_EncodeToString :: "bytes \<Rightarrow> string" where
  "hex_EncodeToString b = concat (map hex_byte b)"

fun hex_DecodeString :: "string \<Rightarrow> bytes option" where
  "hex_DecodeString [] = Some []"
| "hex_DecodeString [c] = None"
| "hex_DecodeString (c # d # s) =
     (if is_hex c \<and> is_hex d then map_option (\<lambda>r. of_nat (16 * hex_digit_val c + hex_digit_val d) # r) (hex_DecodeString s) else None)"

definition computeHMAC :: "handshake_lib \<Rightarrow> string \<Rightarrow> int \<Rightarrow> bytes \<Rightarrow> bytes" where
  "computeHMAC hl peerID timestamp secret = hl_HMAC hl secret (bytes_of (handshakeMagic @ ''|'' @ peerID @ ''|'' @ Itoa timestamp))"

definition BuildHandshakePacket :: "handshake_lib \<Rightarrow> int \<Rightarrow> string \<Rightarrow> bytes \<Rightarrow> go_error + bytes" where
  "BuildHandshakePacket hl now peerID secret =
     (if peerID = [] then Inl (Errorf ''build handshake packet: peer id is required'')
      else if secret = [] then Inl (Errorf ''build handshake packet: secret is required'')
      else
        let ts = now div 1000000000; mac = computeHMAC hl peerID ts secret
        in case hl_Marshal hl \<lparr>hm_Magic = handshakeMagic, hm_PeerID = peerID, hm_Timestamp = ts, hm_HMAC = hex_EncodeToString mac\<rparr> of
             Inl e \<Rightarrow> Inl (Wrapf ''build handshake packet: marshal message'' e)
           | Inr payload \<Rightarrow> Inr payload)"

definition VerifyHandshakePacket :: "handshake_lib \<Rightarrow> int \<Rightarrow> bytes \<Rightarrow> bytes \<Rightarrow> go_error + string" where
  "VerifyHandshakePacket hl now packet secret =
     (if secret = [] then Inl (Errorf ''verify handshake packet: secret is required'')
      else case hl_Unmarshal hl packet of
             Inl e \<Rightarrow> Inl (Wrapf ''verify handshake packet: unmarshal packet'' e)
           | Inr msg \<Rightarrow>
               if hm_Magic msg \<noteq> handshakeMagic then Inl (Errorf ''verify handshake packet: invalid magic'')
               else if hm_PeerID msg = [] then Inl (Errorf ''verify handshake packet: missing peer id'')
               else if 30 * 1000000000 < now - hm_Timestamp msg * 1000000000 then Inl (Errorf ''verify handshake packet: stale timestamp'')
               else (case hex_DecodeString (hm_HMAC msg) of
                       None \<Rightarrow> Inl (Errorf ''verify handshake packet: decode hmac'')
                     | Some sig \<Rightarrow>
                         if sig \<noteq> computeHMAC hl (hm_PeerID msg) (hm_Timestamp msg) secret
                         then Inl (Errorf ''verify handshake packet: invalid hmac'')
                         else Inr (hm_PeerID msg)))"

datatype udp_read = ReadTimeout | ReadFailed go_error | ReadPacket bytes UDPAddr

text \<open>What the socket does: the outcome of the write, of setting the deadline and of the read. The clock is read once.\<close>

record handshake_conn =
  hc_write :: "go_error option"
  hc_deadline :: "go_error option"
  hc_read :: udp_read

definition ExchangeHandshake :: "handshake_lib \<Rightarrow> int \<Rightarrow> handshake_conn option \<Rightarrow> UDPAddr option \<Rightarrow> string \<Rightarrow> bytes \<Rightarrow> go_error + unit" where
  "ExchangeHandshake hl now conn peerAddr peerID secret =
     (case conn of
        None \<Rightarrow> Inl (Errorf ''exchange handshake: connection is nil'')
      | Some c \<Rightarrow>
          (case peerAddr of
             None \<Rightarrow> Inl (Errorf ''exchange handshake: peer address is nil'')
           | Some addr \<Rightarrow>
               (case BuildHandshakePacket hl now peerID secret of
                  Inl e \<Rightarrow> Inl (Wrapf ''exchange handshake: build handshake packet'' e)
                | Inr _ \<Rightarrow>
                    (case hc_write c of
                       Some e \<Rightarrow> Inl (Wrapf ''exchange handshake: send packet'' e)
                     | None \<Rightarrow>
                         (case hc_deadline c of
                            Some e \<Rightarrow> Inl (Wrapf ''exchange handshake: set read deadline'' e)
                          | None \<Rightarrow>
                              (case hc_read c of
                                 ReadTimeout \<Rightarrow> Inr ()
                               | ReadFailed e \<Rightarrow> Inl (Wrapf ''exchange handshake: read response'' e)
                               | ReadPacket buffer from \<Rightarrow>
                                   if ua_IP from \<noteq> ua_IP addr \<or> ua_Port from \<noteq> ua_Port addr
                                   then Inl (Errorf ''exchange handshake: response from unexpected peer'')
                                   else (case VerifyHandshakePacket hl now (take 2048 buffer) secret of
                                           Inl e \<Rightarrow> Inl (Wrapf ''exchange handshake: verify response'' e)
                                         | Inr _ \<Rightarrow> Inr ())))))))"

subsection \<open>Discovery\<close>

lemma discoverIPv4Endpoint_v4: "discoverIPv4Endpoint n server = Inr (ip, port) \<Longrightarrow> \<exists>a. ip = IPv4_String a"
  by (auto simp: discoverIPv4Endpoint_def stun_step_def v4_attr_def Let_def IP_String_def split: option.splits sum.splits prod.splits if_splits)

lemma try_servers_Inr:
  "try_servers n e servers = Inr r \<longleftrightarrow>
     (\<exists>pre server post. servers = pre @ server # post \<and> discoverIPv4Endpoint n server = Inr r \<and> (\<forall>s \<in> set pre. \<exists>e. discoverIPv4Endpoint n s = Inl e))"
proof (induction servers arbitrary: e)
  case (Cons x xs)
  show ?case
  proof (cases "discoverIPv4Endpoint n x")
    case (Inl e')
    then have "try_servers n e (x # xs) = Inr r \<longleftrightarrow>
        (\<exists>pre server post. xs = pre @ server # post \<and> discoverIPv4Endpoint n server = Inr r \<and> (\<forall>s \<in> set pre. \<exists>e. discoverIPv4Endpoint n s = Inl e))"
      by (simp add: Cons.IH)
    also have "\<dots> \<longleftrightarrow> (\<exists>pre server post. x # xs = pre @ server # post \<and> discoverIPv4Endpoint n server = Inr r \<and> (\<forall>s \<in> set pre. \<exists>e. discoverIPv4Endpoint n s = Inl e))"
      (is "?L \<longleftrightarrow> ?R")
    proof
      assume ?L
      then obtain pre server post where "xs = pre @ server # post" "discoverIPv4Endpoint n server = Inr r"
        "\<forall>s \<in> set pre. \<exists>e. discoverIPv4Endpoint n s = Inl e" by blast
      then show ?R using Inl by (intro exI [of _ "x # pre"]) auto
    next
      assume ?R
      then obtain pre server post where *: "x # xs = pre @ server # post" "discoverIPv4Endpoint n server = Inr r"
        "\<forall>s \<in> set pre. \<exists>e. discoverIPv4Endpoint n s = Inl e" by blast
      then show ?L using Inl by (cases pre) auto
    qed
    finally show ?thesis .
  next
    case (Inr r')
    then show ?thesis by (force simp: Cons_eq_append_conv)
  qed
qed simp

lemma try_servers_Inl: "(\<exists>e'. try_servers n e servers = Inl e') \<longleftrightarrow> (\<forall>s \<in> set servers. \<exists>e. discoverIPv4Endpoint n s = Inl e)"
  by (induction servers arbitrary: e) (auto split: sum.splits)

text \<open>
  Discovery tries all servers. The public endpoint is the answer of the first server, the
  requested one before the built-in ones, that gives an IPv4 address; it is an IPv4 address; and
  discovery fails only if every server failed. No server is asked twice.
\<close>

lemma discovery_uses_first_answer:
  "(DiscoverPublicEndpoint n requested = Inr (ip, port) \<longleftrightarrow>
     (\<exists>pre server post. servers_for requested = pre @ server # post \<and> discoverIPv4Endpoint n server = Inr (ip, port) \<and>
        (\<forall>s \<in> set pre. \<exists>e. discoverIPv4Endpoint n s = Inl e))) \<and>
   (DiscoverPublicEndpoint n requested = Inr (ip, port) \<longrightarrow> (\<exists>a. ip = IPv4_String a)) \<and>
   ((\<exists>e. DiscoverPublicEndpoint n requested = Inl e) \<longleftrightarrow> (\<forall>s \<in> set (servers_for requested). \<exists>e. discoverIPv4Endpoint n s = Inl e)) \<and>
   distinct (servers_for requested) \<and> set stunServers \<subseteq> set (servers_for requested)"
proof -
  have succ: "DiscoverPublicEndpoint n requested = Inr r \<longleftrightarrow> try_servers n None (servers_for requested) = Inr r" for r
    by (auto simp: DiscoverPublicEndpoint_def split: sum.splits)
  have fail: "(\<exists>e. DiscoverPublicEndpoint n requested = Inl e) \<longleftrightarrow> (\<exists>e. try_servers n None (servers_for requested) = Inl e)"
    by (auto simp: DiscoverPublicEndpoint_def split: sum.splits)
  have "distinct (servers_for requested)" "set stunServers \<subseteq> set (servers_for requested)"
    by (auto simp: servers_for_def stunServers_def)
  then show ?thesis
    unfolding succ fail try_servers_Inr try_servers_Inl using discoverIPv4Endpoint_v4 by blast
qed

definition demo_net :: stun_net where
  "demo_net = \<lparr>sn_LookupIP = (\<lambda>_. Inr [of_v4 0x08080808]), sn_Dial = (\<lambda>_. None), sn_SetDeadline = (\<lambda>_. None), sn_Write = (\<lambda>_. None),
     sn_Read = (\<lambda>_. Inr []), sn_Decode = (\<lambda>_. None), sn_XORMapped = (\<lambda>_. Some (of_v4 0xC6336401, 4000)), sn_Mapped = (\<lambda>_. None)\<rparr>"

lemma discovery_uses_first_answer_witness:
  "DiscoverPublicEndpoint demo_net [] = Inr (''198.51.100.1'', 4000) \<and> (\<exists>a. ''198.51.100.1'' = IPv4_String a)"
proof -
  have "DiscoverPublicEndpoint demo_net [] = Inr (''198.51.100.1'', 4000)" by code_simp
  then show ?thesis using discovery_uses_first_answer [of demo_net "[]" "''198.51.100.1''" 4000] by blast
qed

text \<open>A NAT is taken for open only if the machine has its public address itself.\<close>

lemma DetectNATType_none:
  assumes "DetectNATType n1 n2 outboundIP stunServer = (NATTypeNone, e)"
  shows "e = None \<and> \<not> IsPrivateIP outboundIP \<and> (\<exists>port. DiscoverPublicEndpoint n1 stunServer = Inr (outboundIP, port))"
  using assms by (auto simp: DetectNATType_def split: if_splits sum.splits prod.splits)

subsection \<open>Hole punching\<close>

definition punch_answer :: "UDPAddr \<Rightarrow> punch_turn \<Rightarrow> bool" where
  "punch_answer peerAddr t \<longleftrightarrow> (case pt_read t of PunchPacket packet from \<Rightarrow> sameUDPAddr (Some from) (Some peerAddr) \<and> packet \<noteq> [] | _ \<Rightarrow> False)"

definition punch_quiet :: "punch_turn \<Rightarrow> bool" where
  "punch_quiet t \<longleftrightarrow> pt_deadlineErr t = None \<and> (case pt_read t of PunchError _ \<Rightarrow> False | _ \<Rightarrow> True)"

lemma punch_loop_sound:
  "punch_loop deadline peerAddr burstErr turns = Inr True \<Longrightarrow> \<exists>t \<in> set turns. pt_now t < deadline \<and> punch_answer peerAddr t"
proof (induction turns)
  case (Cons t ts)
  show ?case
  proof (cases "punch_answer peerAddr t \<and> pt_now t < deadline")
    case False
    have "pt_now t < deadline" "pt_deadlineErr t = None"
      using Cons.prems by (cases burstErr; cases "pt_deadlineErr t"; simp split: if_split_asm)+
    with False Cons.prems have "punch_loop deadline peerAddr burstErr ts = Inr True"
      by (cases "pt_read t"; cases burstErr) (simp_all add: punch_answer_def punchMagic_def split: if_split_asm)
    then show ?thesis using Cons.IH by auto
  qed auto
qed (cases burstErr; simp)

lemma punch_loop_complete:
  assumes "\<forall>t \<in> set turns. punch_quiet t" "sorted (map pt_now turns)" "\<exists>t \<in> set turns. pt_now t < deadline \<and> punch_answer peerAddr t"
  shows "punch_loop deadline peerAddr None turns = Inr True"
  using assms
proof (induction turns)
  case (Cons t ts)
  have before: "pt_now t < deadline" using Cons.prems(2,3) by fastforce
  show ?case
  proof (cases "punch_answer peerAddr t")
    case True
    then show ?thesis using before Cons.prems(1) by (cases "pt_read t") (simp_all add: punch_answer_def punch_quiet_def punchMagic_def)
  next
    case False
    then have "punch_loop deadline peerAddr None ts = Inr True" using Cons by auto
    with False before Cons.prems(1) show ?thesis
      by (cases "pt_read t") (auto simp: punch_answer_def punch_quiet_def punchMagic_def)
  qed
qed simp

text \<open>
  A punch succeeds on the traffic of the peer and on nothing else. A result of success means that
  a datagram with some content came from the peer's address within ten seconds; and when the
  socket works and the bursts were sent, such a datagram gives success. The magic bytes of a
  punch are not needed.
\<close>

lemma punch_confirms_peer_traffic:
  assumes "resolve (JoinHostPort ip (Itoa port)) = Inr peerAddr" "ip \<noteq> []" "0 < port" "port \<le> 65535"
  shows "(Punch resolve True now ip port bursts turns = Inr True \<longrightarrow> (\<exists>t \<in> set turns. pt_now t < now + 10000000000 \<and> punch_answer peerAddr t)) \<and>
    (list_all punch_quiet turns \<and> sorted (map pt_now turns) \<and> fst (sendPunchBursts (take 20 bursts) peerAddr) = None \<and>
       (\<exists>t \<in> set turns. pt_now t < now + 10000000000 \<and> punch_answer peerAddr t) \<longrightarrow>
     Punch resolve True now ip port bursts turns = Inr True)"
proof -
  have "Punch resolve True now ip port bursts turns = punch_loop (now + 10000000000) peerAddr (fst (sendPunchBursts (take 20 bursts) peerAddr)) turns"
    using assms by (simp add: Punch_def)
  then show ?thesis using punch_loop_sound punch_loop_complete by (auto simp: list_all_iff)
qed

definition demo_peer :: UDPAddr where
  "demo_peer = \<lparr>ua_IP = of_v4 0xC6336401, ua_Port = 4000, ua_Zone = []\<rparr>"

definition demo_turn :: punch_turn where
  "demo_turn = \<lparr>pt_now = 1, pt_deadlineErr = None, pt_read = PunchPacket [7] demo_peer, pt_burstDone = False\<rparr>"

lemma punch_confirms_peer_traffic_witness:
  "Punch (\<lambda>_. Inr demo_peer) True 0 ''198.51.100.1'' 4000 [] [demo_turn] = Inr True"
  using punch_confirms_peer_traffic [of "\<lambda>_. Inr demo_peer" "''198.51.100.1''" 4000 demo_peer 0 "[]" "[demo_turn]"]
  by (simp add: demo_turn_def punch_quiet_def punch_answer_def sameUDPAddr_def)

subsection \<open>The handshake packet\<close>

text \<open>\<open>encoding/json\<close> reads back what it wrote when the texts are UTF-8.\<close>

definition handshake_json_ok :: "handshake_lib \<Rightarrow> bool" where
  "handshake_json_ok hl \<longleftrightarrow>
     (\<forall>m. ValidString (hm_Magic m) \<longrightarrow> ValidString (hm_PeerID m) \<longrightarrow> ValidString (hm_HMAC m) \<longrightarrow>
        (\<exists>p. hl_Marshal hl m = Inr p \<and> hl_Unmarshal hl p = Inr m))"

lemma hex_byte_decode: "hex_DecodeString (hex_byte b @ s) = map_option (\<lambda>r. b # r) (hex_DecodeString s)"
proof -
  have "unat b < 256" using unsigned_less [of b] by simp
  then have d: "unat b div 16 < 16" "unat b mod 16 < 16" by auto
  define dg where "dg n = (if n < 10 then char_of (48 + n) else char_of (87 + n :: nat))" for n
  have dg: "is_hex (dg n) \<and> hex_digit_val (dg n) = n" if "n < 16" for n
    using that by (auto simp: dg_def is_hex_def is_digit_def hex_digit_val_def digit_val_def)
  have "hex_byte b = [dg (unat b div 16), dg (unat b mod 16)]" by (simp add: hex_byte_def dg_def Let_def)
  moreover have "word_of_nat (16 * (unat b div 16) + unat b mod 16) = b" by simp
  ultimately show ?thesis using dg d by simp
qed

lemma hex_roundtrip [simp]: "hex_DecodeString (hex_EncodeToString b) = Some b"
  by (induction b) (simp_all add: hex_EncodeToString_def hex_byte_decode)

lemma utf8_ascii: "\<forall>n \<in> set ns. n < 128 \<Longrightarrow> utf8_ok ns"
  by (induction ns) (simp_all add: Let_def)

lemma hex_byte_ascii: "x \<in> set (hex_byte b) \<Longrightarrow> (of_char x :: nat) < 128"
proof -
  have "unat b < 256" using unsigned_less [of b] by simp
  then have "unat b div 16 < 16" "unat b mod 16 < 16" by auto
  then show "x \<in> set (hex_byte b) \<Longrightarrow> (of_char x :: nat) < 128" by (auto simp: hex_byte_def Let_def split: if_splits)
qed

lemma hex_valid: "ValidString (hex_EncodeToString b)"
  using hex_byte_ascii by (auto simp: ValidString_def hex_EncodeToString_def intro!: utf8_ascii)

lemma handshake_packet_fresh:
  assumes "handshake_json_ok hl" "secret \<noteq> []" "peerID \<noteq> []" "ValidString peerID"
  shows "\<exists>p. BuildHandshakePacket hl now peerID secret = Inr p \<and>
    (\<forall>now'. (VerifyHandshakePacket hl now' p secret = Inr peerID \<longleftrightarrow> now' \<le> (now div 1000000000 + 30) * 1000000000) \<and>
       (VerifyHandshakePacket hl now' p secret = Inr peerID \<or> (\<exists>e. VerifyHandshakePacket hl now' p secret = Inl e)))"
proof -
  define m where "m = \<lparr>hm_Magic = handshakeMagic, hm_PeerID = peerID, hm_Timestamp = now div 1000000000,
     hm_HMAC = hex_EncodeToString (computeHMAC hl peerID (now div 1000000000) secret)\<rparr>"
  have "ValidString handshakeMagic" by (simp add: ValidString_def handshakeMagic_def Let_def)
  then have "ValidString (hm_Magic m)" "ValidString (hm_PeerID m)" "ValidString (hm_HMAC m)"
    using assms(4) hex_valid by (simp_all add: m_def)
  then obtain p where p: "hl_Marshal hl m = Inr p" "hl_Unmarshal hl p = Inr m"
    using assms(1) unfolding handshake_json_ok_def by blast
  have "BuildHandshakePacket hl now peerID secret = Inr p" using p(1) assms(2,3) by (simp add: BuildHandshakePacket_def m_def Let_def)
  moreover have "VerifyHandshakePacket hl now' p secret = (if 30 * 1000000000 < now' - (now div 1000000000) * 1000000000
      then Inl (Errorf ''verify handshake packet: stale timestamp'') else Inr peerID)" for now'
    using p(2) assms(2,3) by (simp add: VerifyHandshakePacket_def m_def)
  ultimately show ?thesis by (auto simp: algebra_simps)
qed

lemma VerifyHandshakePacket_sound:
  assumes "VerifyHandshakePacket hl now packet secret = Inr peerID"
  shows "peerID \<noteq> [] \<and> secret \<noteq> [] \<and> (\<exists>m. hl_Unmarshal hl packet = Inr m \<and> hm_PeerID m = peerID \<and> now \<le> (hm_Timestamp m + 30) * 1000000000 \<and>
    hex_DecodeString (hm_HMAC m) = Some (computeHMAC hl peerID (hm_Timestamp m) secret))"
  using assms by (auto simp: VerifyHandshakePacket_def algebra_simps split: if_splits sum.splits option.splits)

text \<open>There is no bound on a time stamp in the future: the packet of a sender whose clock is ahead is fresh for as long as that.\<close>

lemma future_handshake_accepted:
  assumes "handshake_json_ok hl" "secret \<noteq> []" "peerID \<noteq> []" "ValidString peerID" "now' \<le> now"
  shows "\<exists>p. BuildHandshakePacket hl now peerID secret = Inr p \<and> VerifyHandshakePacket hl now' p secret = Inr peerID"
proof -
  have "now' \<le> (now div 1000000000 + 30) * 1000000000" using assms(5) by simp
  then show ?thesis using handshake_packet_fresh [OF assms(1-4), of now] by blast
qed

text \<open>A peer that never answers completes the exchange.\<close>

lemma silent_peer_completes_exchange:
  "BuildHandshakePacket hl now peerID secret = Inr p \<Longrightarrow>
   ExchangeHandshake hl now (Some \<lparr>hc_write = None, hc_deadline = None, hc_read = ReadTimeout\<rparr>) (Some addr) peerID secret = Inr ()"
  by (simp add: ExchangeHandshake_def)

text \<open>
  Handshake packets verify. A packet built with a secret is accepted under the same secret, as
  coming from the same peer, until 30 seconds after its time stamp and not later; and whatever is
  accepted carries a MAC made with the secret for its peer and time stamp.
\<close>

lemma handshake_packet_roundtrip:
  assumes "handshake_json_ok hl" "secret \<noteq> []" "peerID \<noteq> []" "ValidString peerID"
  shows "\<exists>p. BuildHandshakePacket hl now peerID secret = Inr p \<and>
    (\<forall>now'. (VerifyHandshakePacket hl now' p secret = Inr peerID \<longleftrightarrow> now' \<le> (now div 1000000000 + 30) * 1000000000) \<and>
       (\<forall>id packet. VerifyHandshakePacket hl now' packet secret = Inr id \<longrightarrow>
          (\<exists>m. hl_Unmarshal hl packet = Inr m \<and> hm_PeerID m = id \<and>
             hex_DecodeString (hm_HMAC m) = Some (computeHMAC hl id (hm_Timestamp m) secret))))"
  using handshake_packet_fresh [OF assms, of now] VerifyHandshakePacket_sound [of hl _ _ secret] by blast


text \<open>A coding that reads back what it wrote, for the witness: tagged bytes with a terminator, and numbers by counting.\<close>

definition put_text :: "string \<Rightarrow> bytes" where
  "put_text s = concat (map (\<lambda>c. [1, of_nat (of_char c)]) s) @ [0]"

fun get_text :: "bytes \<Rightarrow> string \<times> bytes" where
  "get_text (a # b # p) = (if a = 0 then ([], b # p) else case get_text p of (s, r) \<Rightarrow> (char_of (unat b) # s, r))"
| "get_text [a] = ([], [])"
| "get_text [] = ([], [])"

definition put_int :: "int \<Rightarrow> bytes" where
  "put_int i = (if i < 0 then 2 else 3) # replicate (nat \<bar>i\<bar>) 1 @ [0]"

definition get_int :: "bytes \<Rightarrow> int \<times> bytes" where
  "get_int p = (let n = int (length (takeWhile (\<lambda>b. b = 1) (tl p))) in (if hd p = 2 then - n else n, tl (dropWhile (\<lambda>b. b = 1) (tl p))))"

definition demo_handshake :: handshake_lib where
  "demo_handshake = \<lparr>hl_HMAC = (\<lambda>k m. k @ m),
     hl_Marshal = (\<lambda>m. Inr (put_text (hm_Magic m) @ put_text (hm_PeerID m) @ put_int (hm_Timestamp m) @ put_text (hm_HMAC m))),
     hl_Unmarshal = (\<lambda>p. let (magic, p1) = get_text p; (pid, p2) = get_text p1; (ts, p3) = get_int p2; (mac, _) = get_text p3
        in Inr \<lparr>hm_Magic = magic, hm_PeerID = pid, hm_Timestamp = ts, hm_HMAC = mac\<rparr>)\<rparr>"

lemma get_put_text: "p \<noteq> [] \<Longrightarrow> get_text (put_text s @ p) = (s, p)" "get_text (put_text s) = (s, [])"
proof -
  have byte: "(char_of (unat (of_nat (of_char c) :: byte)) :: char) = c" for c
    by (simp add: unat_of_nat take_bit_nat_def)
  show "get_text (put_text s @ p) = (s, p)" if "p \<noteq> []"
    using that byte by (induction s) (auto simp: put_text_def neq_Nil_conv)
  show "get_text (put_text s) = (s, [])" using byte by (induction s) (auto simp: put_text_def)
qed

lemma get_put_int: "get_int (put_int i @ p) = (i, p)"
proof -
  have "takeWhile (\<lambda>b. b = 1) (replicate n 1 @ 0 # p) = replicate n 1" "dropWhile (\<lambda>b. b = 1) (replicate n 1 @ 0 # p) = 0 # p"
    for n and p :: bytes by (induction n) auto
  then show ?thesis by (simp add: get_int_def put_int_def Let_def)
qed

lemma put_nonempty: "put_text s \<noteq> []" "put_int i \<noteq> []"
  by (simp_all add: put_text_def put_int_def)

lemma demo_handshake_ok: "handshake_json_ok demo_handshake"
  by (simp add: handshake_json_ok_def demo_handshake_def get_put_text get_put_int put_nonempty)

lemma handshake_packet_roundtrip_witness:
  "\<exists>p. BuildHandshakePacket demo_handshake 5000000000 ''peer'' [1] = Inr p \<and> VerifyHandshakePacket demo_handshake 35000000000 p [1] = Inr ''peer''"
proof -
  have "ValidString ''peer''" by (simp add: ValidString_def Let_def)
  then show ?thesis using handshake_packet_roundtrip [OF demo_handshake_ok, of "[1]" "''peer''" 5000000000] by auto
qed

end
