(* ===== verification/Vnc.thy ===== *)
theory Vnc
  imports Effects GoNet
begin

text \<open>
  The remote desktop helpers of the device, \<open>client/internal/vnc\<close>: the search for a local server, the
  measurement of a peer, the settings chosen from it and the launch of a viewer. Durations are
  nanoseconds; the outcome of each TCP connection, the files and the programs of the
  machine are arguments. The throughput is computed without the rounding of \<open>float64\<close>.
\<close>

subsection \<open>discovery.go\<close>

definition defaultVNCPorts :: "int list" where "defaultVNCPorts = [5900, 5901, 5902, 5800]"

text \<open>\<open>dial\<close> tells whether a connection to the port of the machine itself is accepted.\<close>

definition DiscoverVNCServer :: "(int \<Rightarrow> bool) \<Rightarrow> int \<times> bool" where
  "DiscoverVNCServer dial = (case find dial defaultVNCPorts of Some candidate \<Rightarrow> (candidate, True) | None \<Rightarrow> (0, False))"

subsection \<open>optimizer.go\<close>

record VNCSettings =
  vs_Compression :: int
  vs_ColorDepth :: int
  vs_Encoding :: string
  vs_Quality :: int

text \<open>The samples of three connection attempts: the time an accepted one took, or \<open>None\<close>.\<close>

definition latency_sample :: "int option \<Rightarrow> int" where
  "latency_sample r = (case r of None \<Rightarrow> 1200000000 | Some elapsed \<Rightarrow> elapsed)"

definition MeasureLatency :: "int option \<times> int option \<times> int option \<Rightarrow> int" where
  "MeasureLatency dials = (case dials of (a, b, c) \<Rightarrow> (latency_sample a + latency_sample b + latency_sample c) div 3)"

text \<open>
  The connection and its deadline, \<open>None\<close> when one of them failed, with the number of bytes read,
  \<open>None\<close> for an error, and the time that took.
\<close>

definition MeasureBandwidth :: "(nat option \<times> int) option \<Rightarrow> int" where
  "MeasureBandwidth r =
     (case r of
        None \<Rightarrow> 0
      | Some (n, elapsed0) \<Rightarrow>
          (case n of
             None \<Rightarrow> 0
           | Some k \<Rightarrow>
               if k = 0 then 0
               else let elapsed = (if elapsed0 \<le> 0 then 1000000 else elapsed0); bytesPerSecond = int k * 1000000000 div elapsed
                    in if bytesPerSecond < 0 then 0 else bytesPerSecond))"

definition SuggestVNCSettings :: "int \<Rightarrow> int \<Rightarrow> VNCSettings" where
  "SuggestVNCSettings latency bandwidth =
     (let mbps = 1024 * 1024
      in if 200000000 < latency \<or> bandwidth < 2 * mbps
         then \<lparr>vs_Compression = 9, vs_ColorDepth = 16, vs_Encoding = ''tight'', vs_Quality = 4\<rparr>
         else if 100000000 < latency \<or> bandwidth < 8 * mbps
         then \<lparr>vs_Compression = 6, vs_ColorDepth = 16, vs_Encoding = ''zrle'', vs_Quality = 6\<rparr>
         else \<lparr>vs_Compression = 3, vs_ColorDepth = 24, vs_Encoding = ''hextile'', vs_Quality = 8\<rparr>)"

definition targetAddress :: "string \<Rightarrow> int \<Rightarrow> string" where
  "targetAddress peerVirtualIP vncPort = JoinHostPort peerVirtualIP (Itoa vncPort)"

subsection \<open>launcher.go\<close>

definition splitHostAndPort :: "string \<Rightarrow> string \<times> string" where
  "splitHostAndPort target =
     (let parts = Split target (CHR '':'')
      in if length parts < 2 then (target, ''5900'') else (Join_with '':'' (butlast parts), last parts))"

definition viewerArgs :: "string \<Rightarrow> string \<Rightarrow> VNCSettings \<Rightarrow> string list" where
  "viewerArgs viewerName target settings =
     (if viewerName = ''tigervnc''
      then [target, ''-CompressLevel'', Itoa (vs_Compression settings), ''-QualityLevel'', Itoa (vs_Quality settings)]
      else if viewerName = ''tightvnc''
      then (case splitHostAndPort target of (h, p) \<Rightarrow> [''-host='' @ h, ''-port='' @ p])
      else [target])"

text \<open>\<open>filepath.Base\<close> is an argument; the three names looked up are their own base names.\<close>

definition normalizeViewerName :: "(string \<Rightarrow> string) \<Rightarrow> string \<Rightarrow> string" where
  "normalizeViewerName fileBase binary =
     (let b = ToLower (fileBase binary)
      in if b \<in> {''tvnviewer'', ''tvnviewer.exe'', ''xtightvncviewer''} then ''tightvnc''
         else if b \<in> {''vncviewer'', ''vncviewer.exe'', ''tigervnc viewer''} then ''tigervnc'' else ''custom'')"

definition win_path :: "string list \<Rightarrow> string" where
  "win_path parts = Join_with [CHR 0x5C] parts"

definition viewer_candidates :: "string \<Rightarrow> (string \<times> string) list" where
  "viewer_candidates goos =
     (if goos = ''windows''
      then [(win_path [''C:'', ''Program Files'', ''TigerVNC'', ''vncviewer.exe''], ''tigervnc''), (win_path [''C:'', ''Program Files'', ''RealVNC'', ''VNC Viewer'', ''vncviewer.exe''], ''realvnc''),
            (win_path [''C:'', ''Program Files'', ''TightVNC'', ''tvnviewer.exe''], ''tightvnc'')]
      else if goos = ''darwin''
      then [(''/Applications/TigerVNC Viewer.app/Contents/MacOS/TigerVNC Viewer'', ''tigervnc''),
            (''/Applications/VNC Viewer.app/Contents/MacOS/vncviewer'', ''realvnc'')]
      else [(''/usr/bin/vncviewer'', ''tigervnc''), (''/usr/local/bin/vncviewer'', ''tigervnc''), (''/usr/bin/xtightvncviewer'', ''tightvnc'')])"

text \<open>The machine: the variable \<open>QUICKTUNNEL_VNC_VIEWER\<close>, which paths are files, and the search path.\<close>

record viewer_env =
  ve_goos :: string
  ve_custom :: string
  ve_fileExists :: "string \<Rightarrow> bool"
  ve_lookPath :: "string \<Rightarrow> string option"
  ve_base :: "string \<Rightarrow> string"

definition detectViewer :: "viewer_env \<Rightarrow> go_error + string \<times> string" where
  "detectViewer ve =
     (let custom = TrimSpace (ve_custom ve)
      in if custom \<noteq> [] \<and> ve_fileExists ve custom then Inr (custom, ''custom'')
         else case find (\<lambda>c. ve_fileExists ve (fst c)) (viewer_candidates (ve_goos ve)) of
                Some c \<Rightarrow> Inr c
              | None \<Rightarrow>
                  (case find (\<lambda>b. ve_lookPath ve b \<noteq> None) [''vncviewer'', ''tvnviewer'', ''xtightvncviewer''] of
                     Some binary \<Rightarrow> Inr (the (ve_lookPath ve binary), normalizeViewerName (ve_base ve) binary)
                   | None \<Rightarrow> Inl (Errorf ''no supported VNC viewer detected (TigerVNC, RealVNC, TightVNC)'')))"

text \<open>The command that is started, and the outcome of starting it.\<close>

definition LaunchVNCViewer :: "viewer_env \<Rightarrow> int option \<times> int option \<times> int option \<Rightarrow> (nat option \<times> int) option \<Rightarrow>
    (string \<Rightarrow> string list \<Rightarrow> go_error option) \<Rightarrow> string \<Rightarrow> int \<Rightarrow> go_error + string \<times> string list" where
  "LaunchVNCViewer ve dials bw spawn peerVirtualIP vncPort =
     (if TrimSpace peerVirtualIP = [] then Inl (Errorf ''launch vnc viewer: peer virtual ip is required'')
      else if vncPort \<le> 0 \<or> 65535 < vncPort then Inl (Errorf ''launch vnc viewer: invalid vnc port'')
      else case detectViewer ve of
             Inl e \<Rightarrow> Inl (Wrapf ''launch vnc viewer'' e)
           | Inr (viewer, viewerName) \<Rightarrow>
               let target = targetAddress peerVirtualIP vncPort;
                   settings = SuggestVNCSettings (MeasureLatency dials) (MeasureBandwidth bw);
                   args = viewerArgs viewerName target settings
               in case spawn viewer args of
                    Some e \<Rightarrow> Inl (Wrapf ''launch vnc viewer: start process'' e)
                  | None \<Rightarrow> Inr (viewer, args))"

subsection \<open>Properties\<close>

text \<open>A worse connection never gets a higher quality or less compression.\<close>

lemma settings_monotone:
  assumes "latency \<le> latency'" "bandwidth' \<le> bandwidth"
  shows "vs_Quality (SuggestVNCSettings latency' bandwidth') \<le> vs_Quality (SuggestVNCSettings latency bandwidth) \<and>
    vs_Compression (SuggestVNCSettings latency bandwidth) \<le> vs_Compression (SuggestVNCSettings latency' bandwidth')"
  using assms by (auto simp: SuggestVNCSettings_def Let_def)

text \<open>A peer that accepts no connection on port 5900 counts as slow, whatever its network.\<close>

lemma latency_without_server: "MeasureLatency (None, None, None) = 1200000000"
  by (simp add: MeasureLatency_def latency_sample_def)

lemma latency_bounds:
  assumes "\<forall>x \<in> {a, b, c}. \<forall>e. x = Some e \<longrightarrow> 0 \<le> e \<and> e \<le> 1200000000"
  shows "0 \<le> MeasureLatency (a, b, c) \<and> MeasureLatency (a, b, c) \<le> 1200000000"
proof -
  have "0 \<le> latency_sample x \<and> latency_sample x \<le> 1200000000" if "x \<in> {a, b, c}" for x
    using assms that by (cases x) (auto simp: latency_sample_def)
  then have "0 \<le> latency_sample a \<and> latency_sample a \<le> 1200000000" "0 \<le> latency_sample b \<and> latency_sample b \<le> 1200000000"
    "0 \<le> latency_sample c \<and> latency_sample c \<le> 1200000000" by simp_all
  then show ?thesis by (auto simp: MeasureLatency_def)
qed

text \<open>The host and the port of an IPv4 target come back apart.\<close>

lemma split_target:
  assumes "CHR '':'' \<notin> set ip" "0 \<le> port"
  shows "splitHostAndPort (targetAddress ip port) = (ip, Itoa port)"
proof -
  have "CHR '':'' \<notin> set (nat_digits n)" for n using nat_digits_all_digits [of n] by (auto simp: list_all_iff is_digit_def)
  then have "CHR '':'' \<notin> set (Itoa port)" using assms(2) by (simp add: Itoa_def)
  then have "Split (ip @ CHR '':'' # Itoa port) (CHR '':'') = [ip, Itoa port]" using assms(1) by (simp add: Split_sep Split_no_sep)
  then show ?thesis using assms(1) by (simp add: splitHostAndPort_def targetAddress_def JoinHostPort_def)
qed

end
