(* ===== verification/ClientConfig.thy ===== *)
theory ClientConfig
  imports ApiClient Tunnel Vnc Netutil
begin

text \<open>
  The configuration of the device: \<open>client/internal/config\<close> with the overrides by the environment,
  the join of the Windows client (\<open>join.go\<close>), the machine's fingerprint of \<open>pkg/crypto\<close>, and the
  parts of \<open>client/cmd/quicktunnel/main.go\<close> that handle the configuration. Environment variables are a
  function, a file is the outcome of reading it, and \<open>encoding/json\<close> is a pair of functions.
\<close>

subsection \<open>config.go\<close>

record Config =
  cf_ServerURL :: string
  cf_APIKey :: string
  cf_NetworkID :: string
  cf_DeviceName :: string
  cf_VNCPort :: int
  cf_LogLevel :: string
  cf_WGListenPort :: int
  cf_STUNServer :: string
  cf_HeartbeatIntervalSec :: int
  cf_PeerSyncIntervalSec :: int
  cf_EndpointRefreshIntervalSec :: int
  cf_QualityMonitorIntervalSec :: int
  cf_Email :: string
  cf_Password :: string
  cf_MemberID :: string
  cf_MemberToken :: string
  cf_WGPrivateKey :: string
  cf_VirtualIP :: string
  cf_NetworkCIDR :: string

definition zero_config :: Config where
  "zero_config =
     \<lparr>cf_ServerURL = [], cf_APIKey = [], cf_NetworkID = [], cf_DeviceName = [], cf_VNCPort = 0, cf_LogLevel = [], cf_WGListenPort = 0,
      cf_STUNServer = [], cf_HeartbeatIntervalSec = 0, cf_PeerSyncIntervalSec = 0, cf_EndpointRefreshIntervalSec = 0,
      cf_QualityMonitorIntervalSec = 0, cf_Email = [], cf_Password = [], cf_MemberID = [], cf_MemberToken = [], cf_WGPrivateKey = [],
      cf_VirtualIP = [], cf_NetworkCIDR = []\<rparr>"

definition defaultConfig :: Config where
  "defaultConfig = zero_config\<lparr>cf_ServerURL := ''http://localhost:8080'', cf_LogLevel := ''info'', cf_WGListenPort := 51820,
     cf_STUNServer := ''stun.l.google.com:19302'', cf_HeartbeatIntervalSec := 30, cf_PeerSyncIntervalSec := 15,
     cf_EndpointRefreshIntervalSec := 60, cf_QualityMonitorIntervalSec := 60\<rparr>"

text \<open>\<open>json.Unmarshal\<close> into a configuration that already holds values, and \<open>json.MarshalIndent\<close>.\<close>

record config_codec =
  cc_unmarshal :: "Config \<Rightarrow> string \<Rightarrow> go_error + Config"
  cc_marshal :: "Config \<Rightarrow> go_error + string"

datatype file_read = FileText string | FileMissing | FileError go_error

definition config_env :: "(string \<Rightarrow> string) \<Rightarrow> string \<Rightarrow> string" where
  "config_env getenv key = TrimSpace (getenv key)"

definition override_text :: "(string \<Rightarrow> string) \<Rightarrow> string \<Rightarrow> (string \<Rightarrow> Config \<Rightarrow> Config) \<Rightarrow> Config \<Rightarrow> Config" where
  "override_text getenv key put cfg = (let v = config_env getenv key in if v \<noteq> [] then put v cfg else cfg)"

definition override_int :: "(string \<Rightarrow> string) \<Rightarrow> string \<Rightarrow> (int \<Rightarrow> Config \<Rightarrow> Config) \<Rightarrow> Config \<Rightarrow> Config" where
  "override_int getenv key put cfg =
     (let v = config_env getenv key in if v \<noteq> [] then (case Atoi v of Some n \<Rightarrow> put n cfg | None \<Rightarrow> cfg) else cfg)"

definition has_member_config :: "Config \<Rightarrow> bool" where
  "has_member_config cfg \<longleftrightarrow> TrimSpace (cf_MemberToken cfg) \<noteq> [] \<or> TrimSpace (cf_MemberID cfg) \<noteq> [] \<or> TrimSpace (cf_WGPrivateKey cfg) \<noteq> []"

text \<open>The warnings on standard error are left out.\<close>

definition applyEnvOverrides :: "(string \<Rightarrow> string) \<Rightarrow> Config \<Rightarrow> Config" where
  "applyEnvOverrides getenv cfg =
     (let useMemberToken = has_member_config cfg
      in override_int getenv ''QUALITY_MONITOR_INTERVAL_SEC'' (\<lambda>n c. c\<lparr>cf_QualityMonitorIntervalSec := n\<rparr>)
         (override_int getenv ''ENDPOINT_REFRESH_INTERVAL_SEC'' (\<lambda>n c. c\<lparr>cf_EndpointRefreshIntervalSec := n\<rparr>)
         (override_int getenv ''PEER_SYNC_INTERVAL_SEC'' (\<lambda>n c. c\<lparr>cf_PeerSyncIntervalSec := n\<rparr>)
         (override_int getenv ''HEARTBEAT_INTERVAL_SEC'' (\<lambda>n c. c\<lparr>cf_HeartbeatIntervalSec := n\<rparr>)
         (override_int getenv ''WG_LISTEN_PORT'' (\<lambda>n c. c\<lparr>cf_WGListenPort := n\<rparr>)
         (override_text getenv ''STUN_SERVER'' (\<lambda>v c. c\<lparr>cf_STUNServer := v\<rparr>)
         (override_text getenv ''LOG_LEVEL'' (\<lambda>v c. c\<lparr>cf_LogLevel := v\<rparr>)
         (override_text getenv ''DEVICE_NAME'' (\<lambda>v c. c\<lparr>cf_DeviceName := v\<rparr>)
         (override_text getenv ''NETWORK_ID'' (\<lambda>v c. if useMemberToken then c else c\<lparr>cf_NetworkID := v\<rparr>)
         (override_text getenv ''API_KEY'' (\<lambda>v c. c\<lparr>cf_APIKey := v\<rparr>)
         (override_text getenv ''SERVER_URL'' (\<lambda>v c. if useMemberToken then c else c\<lparr>cf_ServerURL := v\<rparr>) cfg)))))))))))"

text \<open>\<open>ConfigPath\<close>, with \<open>filepath.Join\<close> on clean parts and the outcome of \<open>os.UserHomeDir\<close>.\<close>

definition ConfigPath :: "string \<Rightarrow> (string \<Rightarrow> string) \<Rightarrow> go_error + string \<Rightarrow> go_error + string" where
  "ConfigPath goos getenv homeDir =
     (if goos = ''windows''
      then (let programData = TrimSpace (getenv ''ProgramData'')
            in Inr (win_path [if programData = [] then win_path [''C:'', ''ProgramData''] else programData, ''QuickTunnel'', ''config.json'']))
      else case homeDir of
             Inl e \<Rightarrow> Inl (Wrapf ''config path'' e)
           | Inr home \<Rightarrow> Inr (home @ ''/.quicktunnel/config.json''))"

definition Load :: "config_codec \<Rightarrow> (string \<Rightarrow> string) \<Rightarrow> go_error + string \<Rightarrow> (string \<Rightarrow> file_read) \<Rightarrow> go_error + Config" where
  "Load cc getenv path read =
     (case path of
        Inl e \<Rightarrow> Inl (Wrapf ''load config'' e)
      | Inr p \<Rightarrow>
          (case read p of
             FileText raw \<Rightarrow>
               (case cc_unmarshal cc defaultConfig raw of
                  Inl e \<Rightarrow> Inl (Wrapf ''load config: parse'' e)
                | Inr cfg \<Rightarrow> Inr (applyEnvOverrides getenv cfg))
           | FileMissing \<Rightarrow> Inr (applyEnvOverrides getenv defaultConfig)
           | FileError e \<Rightarrow> Inl (Wrapf ''load config: read'' e)))"

text \<open>\<open>Save\<close>: the text written and where, with the outcomes of creating the directory and writing.\<close>

definition Save :: "config_codec \<Rightarrow> go_error + string \<Rightarrow> go_error option \<Rightarrow> go_error option \<Rightarrow> Config \<Rightarrow> go_error + string \<times> string" where
  "Save cc path mkdir write cfg =
     (case path of
        Inl e \<Rightarrow> Inl (Wrapf ''save config'' e)
      | Inr p \<Rightarrow>
          (case mkdir of
             Some e \<Rightarrow> Inl (Wrapf ''save config: mkdir'' e)
           | None \<Rightarrow>
               (case cc_marshal cc cfg of
                  Inl e \<Rightarrow> Inl (Wrapf ''save config: marshal'' e)
                | Inr b \<Rightarrow> (case write of Some e \<Rightarrow> Inl e | None \<Rightarrow> Inr (p, b)))))"

definition LoadFromFile :: "config_codec \<Rightarrow> file_read \<Rightarrow> go_error + Config" where
  "LoadFromFile cc r =
     (case r of FileText raw \<Rightarrow> cc_unmarshal cc zero_config raw | FileMissing \<Rightarrow> Inl (Errorf ''no such file'') | FileError e \<Rightarrow> Inl e)"

subsection \<open>pkg/crypto: the fingerprint\<close>

text \<open>
  The loopback flag and the hardware address, as text, of each interface; SHA-256 and the raw URL
  base64 coding are arguments. The seed is never empty.
\<close>

definition fingerprint_seed :: "string \<Rightarrow> string \<Rightarrow> string option \<Rightarrow> (bool \<times> string) list option \<Rightarrow> string" where
  "fingerprint_seed goos goarch hostname interfaces =
     (let parts = [goos, goarch] @ (case hostname of Some n \<Rightarrow> if n \<noteq> [] then [ToLower n] else [] | None \<Rightarrow> []) @
            (case interfaces of
               None \<Rightarrow> []
             | Some is \<Rightarrow> sort (map (\<lambda>i. ToLower (snd i)) (filter (\<lambda>i. \<not> fst i \<and> snd i \<noteq> []) is)));
          seed = Join_with ''|'' parts
      in if seed = [] then ''quicktunnel-fallback'' else seed)"

definition MachineFingerprint :: "(string \<Rightarrow> bytes) \<Rightarrow> (bytes \<Rightarrow> string) \<Rightarrow> string \<Rightarrow> string \<Rightarrow> string option \<Rightarrow> (bool \<times> string) list option \<Rightarrow> string" where
  "MachineFingerprint sha256 rawURL goos goarch hostname interfaces =
     rawURL (take 16 (sha256 (fingerprint_seed goos goarch hostname interfaces)))"

subsection \<open>join.go\<close>

record JoinResponse =
  jo_Status :: string
  jo_MemberID :: string
  jo_MemberToken :: string
  jo_VirtualIP :: string
  jo_NetworkCIDR :: string
  jo_NetworkName :: string

definition join_url :: "string \<Rightarrow> string \<Rightarrow> string" where
  "join_url serverURL networkID = TrimRight serverURL ''/'' @ ''/api/v1/networks/'' @ networkID @ ''/join''"

definition join_body :: "string \<Rightarrow> string \<Rightarrow> string \<Rightarrow> string" where
  "join_body publicKey machineID hostname =
     (let q = [CHR 0x22]
      in ''{'' @ q @ ''public_key'' @ q @ '':'' @ q @ publicKey @ q @ '','' @ q @ ''machine_id'' @ q @ '':'' @ q @ machineID @ q @ '','' @
         q @ ''hostname'' @ q @ '':'' @ q @ hostname @ q @ ''}'')"

text \<open>
  The request to the server, \<open>post\<close>, gives an error or a status and a body; \<open>decode\<close> is the JSON decoder;
  \<open>saved\<close> is the outcome of writing the file, if one is to be written.
\<close>

definition JoinNetwork :: "go_error + string \<times> string \<Rightarrow> string \<Rightarrow> string \<Rightarrow> (string \<Rightarrow> string \<Rightarrow> go_error + int \<times> string) \<Rightarrow>
    (string \<Rightarrow> go_error + JoinResponse) \<Rightarrow> go_error option \<Rightarrow> string \<Rightarrow> string \<Rightarrow> string \<Rightarrow> go_error + Config" where
  "JoinNetwork keys machineID hostname post decode saved serverURL networkID configPath =
     (case keys of
        Inl e \<Rightarrow> Inl (Wrapf ''generate keys'' e)
      | Inr (privateKey, publicKey) \<Rightarrow>
          (case post (join_url serverURL networkID) (join_body publicKey machineID hostname) of
             Inl e \<Rightarrow> Inl (Wrapf ''join request'' e)
           | Inr (status, body) \<Rightarrow>
               if status \<noteq> 200 then Inl (Errorf (''join failed: HTTP '' @ Itoa status))
               else (case decode body of
                       Inl e \<Rightarrow> Inl (Wrapf ''decode response'' e)
                     | Inr jr \<Rightarrow>
                         let cfg = zero_config\<lparr>cf_ServerURL := serverURL, cf_NetworkID := networkID, cf_WGPrivateKey := privateKey,
                               cf_VirtualIP := jo_VirtualIP jr, cf_NetworkCIDR := jo_NetworkCIDR jr, cf_MemberID := jo_MemberID jr,
                               cf_MemberToken := jo_MemberToken jr, cf_WGListenPort := 51820\<rparr>
                         in if configPath \<noteq> [] then (case saved of Some e \<Rightarrow> Inl (Wrapf ''save config'' e) | None \<Rightarrow> Inr cfg) else Inr cfg)))"

subsection \<open>main.go\<close>

definition normalizeServerURL :: "string \<Rightarrow> string" where
  "normalizeServerURL raw0 =
     (let raw = TrimSpace raw0
      in if raw = [] then []
         else if HasPrefix raw ''http://'' \<or> HasPrefix raw ''https://'' then TrimRight raw ''/''
         else ''http://'' @ (if \<not> Contains raw '':'' then raw @ '':3000'' else raw))"

definition formatPeerAuthError :: "go_error option \<Rightarrow> string" where
  "formatPeerAuthError err =
     (case err of
        None \<Rightarrow> []
      | Some e \<Rightarrow>
          (case as_HTTPError e of
             Some status \<Rightarrow> if status = 401 \<or> status = 403 then ''unauthorized (member_token invalid or config mismatch)'' else error_string e
           | None \<Rightarrow> error_string e))"

text \<open>\<open>strings.SplitN(s, "=", 2)\<close>, when it gives two parts.\<close>

definition split_eq :: "string \<Rightarrow> (string \<times> string) option" where
  "split_eq s = (if CHR ''='' \<in> set s then Some (takeWhile (\<lambda>c. c \<noteq> CHR ''='') s, tl (dropWhile (\<lambda>c. c \<noteq> CHR ''='') s)) else None)"

definition set_int :: "string \<Rightarrow> (int \<Rightarrow> Config \<Rightarrow> Config) \<Rightarrow> Config \<Rightarrow> Config" where
  "set_int v put cfg = (case Atoi v of Some n \<Rightarrow> put n cfg | None \<Rightarrow> cfg)"

text \<open>The change of \<open>runConfig\<close>: the argument of \<open>--set\<close> applied to the configuration.\<close>

definition config_set :: "string \<Rightarrow> Config \<Rightarrow> Config" where
  "config_set setVal cfg =
     (case split_eq setVal of
        None \<Rightarrow> cfg
      | Some (k0, v0) \<Rightarrow>
          let k = TrimSpace k0; v = TrimSpace v0
          in if k = ''server_url'' then cfg\<lparr>cf_ServerURL := v\<rparr>
             else if k = ''api_key'' then cfg\<lparr>cf_APIKey := v\<rparr>
             else if k = ''network_id'' then cfg\<lparr>cf_NetworkID := v\<rparr>
             else if k = ''device_name'' then cfg\<lparr>cf_DeviceName := v\<rparr>
             else if k = ''log_level'' then cfg\<lparr>cf_LogLevel := v\<rparr>
             else if k = ''wg_listen_port'' then set_int v (\<lambda>n c. c\<lparr>cf_WGListenPort := n\<rparr>) cfg
             else if k = ''heartbeat_interval_sec'' then set_int v (\<lambda>n c. c\<lparr>cf_HeartbeatIntervalSec := n\<rparr>) cfg
             else if k = ''peer_sync_interval_sec'' then set_int v (\<lambda>n c. c\<lparr>cf_PeerSyncIntervalSec := n\<rparr>) cfg
             else if k = ''endpoint_refresh_interval_sec'' then set_int v (\<lambda>n c. c\<lparr>cf_EndpointRefreshIntervalSec := n\<rparr>) cfg
             else if k = ''quality_monitor_interval_sec'' then set_int v (\<lambda>n c. c\<lparr>cf_QualityMonitorIntervalSec := n\<rparr>) cfg
             else cfg)"

definition runConfig :: "go_error + Config \<Rightarrow> string \<Rightarrow> (Config \<Rightarrow> go_error option) \<Rightarrow> go_error + Config" where
  "runConfig loaded setVal save =
     (case loaded of
        Inl e \<Rightarrow> Inl (Wrapf ''config'' e)
      | Inr cfg0 \<Rightarrow>
          if setVal = [] then Inr cfg0
          else let cfg = config_set setVal cfg0
               in case save cfg of Some e \<Rightarrow> Inl (Wrapf ''config: save config'' e) | None \<Rightarrow> Inr cfg)"

text \<open>
  The join command. One request is sent; a pending device then asks for its status every four
  seconds until it is approved or rejected. A poll is the status and the address the server reports,
  or \<open>None\<close> when the request or its decoding fails or reports no success. The list of polls may end
  while the device is still pending: the loop has not returned yet, which is \<open>None\<close>.
\<close>

record joinResp =
  jq_MemberID :: string
  jq_MemberToken :: string
  jq_Status :: string
  jq_VirtualIP :: string
  jq_NetworkCIDR :: string
  jq_NetworkName :: string
  jq_Message :: string

record joinReq =
  jr_NetworkID :: string
  jr_Hostname :: string
  jr_WGPublicKey :: string
  jr_OS :: string
  jr_Arch :: string

text \<open>
  What \<open>doPost\<close> relies on: the JSON coding of the request, \<open>http.Client.Post\<close> with the reading of the
  body, and the decoding of the envelope (success, data, error) and of its data.
\<close>

record join_net =
  jn_goos :: string
  jn_goarch :: string
  jn_marshal :: "joinReq \<Rightarrow> go_error + string"
  jn_post :: "string \<Rightarrow> string \<Rightarrow> go_error + (go_error + string)"
  jn_envelope :: "string \<Rightarrow> go_error + bool \<times> string \<times> string"
  jn_data :: "string \<Rightarrow> go_error + joinResp"

definition doPost :: "join_net \<Rightarrow> string \<Rightarrow> string \<Rightarrow> string \<Rightarrow> string \<Rightarrow> go_error + joinResp" where
  "doPost jn serverURL networkID deviceName pubKey =
     (case jn_marshal jn \<lparr>jr_NetworkID = networkID, jr_Hostname = deviceName, jr_WGPublicKey = pubKey, jr_OS = jn_goos jn, jr_Arch = jn_goarch jn\<rparr> of
        Inl e \<Rightarrow> Inl (Wrapf ''marshal request'' e)
      | Inr body \<Rightarrow>
          (case jn_post jn (serverURL @ ''/api/v1/join'') body of
             Inl e \<Rightarrow> Inl (Wrapf ''cannot reach server'' e)
           | Inr (Inl e) \<Rightarrow> Inl (Wrapf ''read response'' e)
           | Inr (Inr raw) \<Rightarrow>
               (case jn_envelope jn raw of
                  Inl e \<Rightarrow> Inl (Wrapf ''parse response'' e)
                | Inr (success, data, err) \<Rightarrow>
                    if \<not> success then Inl (Errorf (''server: '' @ err))
                    else (case jn_data jn data of Inl e \<Rightarrow> Inl (Wrapf ''parse join data'' e) | Inr jr \<Rightarrow> Inr jr))))"

fun await_approval :: "(string \<times> string) option list \<Rightarrow> joinResp \<Rightarrow> (go_error + joinResp) option" where
  "await_approval [] jr = None"
| "await_approval (None # polls) jr = await_approval polls jr"
| "await_approval (Some (status, virtualIP) # polls) jr =
     (if status = ''approved'' then Some (Inr (jr\<lparr>jq_Status := ''approved'', jq_VirtualIP := virtualIP\<rparr>))
      else if status = ''rejected'' then Some (Inl (Errorf ''join: your device was rejected by the network admin''))
      else await_approval polls jr)"

definition joined_config :: "string \<Rightarrow> string \<Rightarrow> string \<Rightarrow> string \<Rightarrow> joinResp \<Rightarrow> Config" where
  "joined_config serverURL networkID deviceName privKey jr =
     zero_config\<lparr>cf_ServerURL := serverURL, cf_NetworkID := networkID, cf_DeviceName := deviceName, cf_LogLevel := ''info'', cf_WGListenPort := 51820,
       cf_STUNServer := ''stun.l.google.com:19302'', cf_HeartbeatIntervalSec := 30, cf_PeerSyncIntervalSec := 15,
       cf_EndpointRefreshIntervalSec := 60, cf_QualityMonitorIntervalSec := 60, cf_MemberID := jq_MemberID jr, cf_MemberToken := jq_MemberToken jr,
       cf_WGPrivateKey := privKey, cf_VirtualIP := jq_VirtualIP jr, cf_NetworkCIDR := jq_NetworkCIDR jr\<rparr>"

text \<open>
  The part of \<open>runJoin\<close> up to the saved configuration: the positional arguments and the name flag, the host
  name, the key pair, the network \<open>doPost\<close> uses, the polls, and the outcome of saving.
\<close>

definition runJoin :: "join_net \<Rightarrow> string list \<Rightarrow> string \<Rightarrow> string \<Rightarrow> go_error + string \<times> string \<Rightarrow> (string \<times> string) option list \<Rightarrow> (Config \<Rightarrow> go_error option) \<Rightarrow>
    (go_error + Config) option" where
  "runJoin jn rest nameFlag hostname keys polls save =
     (if length rest < 2 then Some (Inl (Errorf ''Usage: quicktunnel join <server> <network_id>''))
      else
        let serverURL = normalizeServerURL (rest ! 0); networkID = TrimSpace (rest ! 1);
            name1 = (if TrimSpace nameFlag = [] then hostname else TrimSpace nameFlag);
            deviceName = (if name1 = [] then ''unknown-device'' else name1)
        in case keys of
             Inl e \<Rightarrow> Some (Inl (Wrapf ''join: generate keys'' e))
           | Inr (privKey, pubKey) \<Rightarrow>
               (case doPost jn serverURL networkID deviceName pubKey of
                  Inl e \<Rightarrow> Some (Inl (Wrapf ''join'' e))
                | Inr jr0 \<Rightarrow>
                    (case (if jq_Status jr0 = ''pending'' then await_approval polls jr0 else Some (Inr jr0)) of
                       None \<Rightarrow> None
                     | Some (Inl e) \<Rightarrow> Some (Inl e)
                     | Some (Inr jr) \<Rightarrow>
                         if jq_Status jr \<noteq> ''approved'' then Some (Inl (Errorf (''join: unexpected status: '' @ jq_Status jr)))
                         else let cfg = joined_config serverURL networkID deviceName privKey jr
                              in case save cfg of Some e \<Rightarrow> Some (Inl (Wrapf ''join: save config'' e)) | None \<Rightarrow> Some (Inr cfg))))"

text \<open>The peers of the status, peers and vnc commands: with a member token, or else with the API key.\<close>

definition configured_peers :: "json_codec \<Rightarrow> http_outcome list \<Rightarrow> Config \<Rightarrow> go_error + PeerInfo list" where
  "configured_peers jc network cfg =
     (if cf_MemberToken cfg \<noteq> []
      then fst (MemberGetPeers jc (cf_MemberID cfg) (SetMemberToken (cf_MemberToken cfg) (NewClient network (cf_ServerURL cfg) [])))
      else fst (GetPeers jc (cf_NetworkID cfg) (NewClient network (cf_ServerURL cfg) (cf_APIKey cfg))))"

definition runPeers :: "json_codec \<Rightarrow> http_outcome list \<Rightarrow> go_error + Config \<Rightarrow> go_error + PeerInfo list" where
  "runPeers jc network loaded =
     (case loaded of
        Inl e \<Rightarrow> Inl (Wrapf ''peers'' e)
      | Inr cfg \<Rightarrow>
          if cf_MemberToken cfg \<noteq> []
          then (case configured_peers jc network cfg of
                  Inl e \<Rightarrow> Inl (Errorf (''peers: '' @ formatPeerAuthError (Some e)))
                | Inr peers \<Rightarrow> Inr peers)
          else if cf_APIKey cfg = [] then Inl (Errorf ''peers: not connected'')
          else (case configured_peers jc network cfg of Inl e \<Rightarrow> Inl (Wrapf ''peers'' e) | Inr peers \<Rightarrow> Inr peers))"

text \<open>
  The report of the status command: what the PID file holds, the configuration's view of the
  membership, and the number of peers or the error of asking for them.
\<close>

definition readPIDFile :: "file_read \<Rightarrow> int option" where
  "readPIDFile r = (case r of FileText b \<Rightarrow> Atoi (TrimSpace b) | _ \<Rightarrow> None)"

definition writePIDFile :: "int \<Rightarrow> string" where
  "writePIDFile pid = Itoa pid"

record status_report =
  sr_connected :: bool
  sr_server :: string
  sr_network_id :: string
  sr_virtual_ip :: string
  sr_device_name :: string
  sr_mode :: string
  sr_peers_online :: "nat option"
  sr_peers_error :: "string option"

definition runStatus :: "json_codec \<Rightarrow> http_outcome list \<Rightarrow> file_read \<Rightarrow> go_error + Config \<Rightarrow> go_error + status_report" where
  "runStatus jc network pidFile loaded =
     (case loaded of
        Inl e \<Rightarrow> Inl (Wrapf ''status'' e)
      | Inr cfg \<Rightarrow>
          let out = \<lparr>sr_connected = (readPIDFile pidFile \<noteq> None), sr_server = cf_ServerURL cfg, sr_network_id = cf_NetworkID cfg,
                sr_virtual_ip = cf_VirtualIP cfg, sr_device_name = cf_DeviceName cfg,
                sr_mode = (if cf_MemberToken cfg \<noteq> [] then ''zerotier'' else ''classic''), sr_peers_online = None, sr_peers_error = None\<rparr>
          in Inr (if cf_MemberToken cfg \<noteq> []
                  then (if TrimSpace (cf_MemberID cfg) = [] then out\<lparr>sr_peers_error := Some ''member_id missing in config''\<rparr>
                        else case configured_peers jc network cfg of
                               Inr peers \<Rightarrow> out\<lparr>sr_peers_online := Some (length peers)\<rparr>
                             | Inl e \<Rightarrow> out\<lparr>sr_peers_error := Some (formatPeerAuthError (Some e))\<rparr>)
                  else if cf_APIKey cfg \<noteq> []
                  then (case configured_peers jc network cfg of Inr peers \<Rightarrow> out\<lparr>sr_peers_online := Some (length peers)\<rparr> | Inl _ \<Rightarrow> out)
                  else out))"

text \<open>\<open>strings.EqualFold\<close> is case-insensitive equality, here on ASCII; \<open>launch\<close> is \<open>vnc.LaunchVNCViewer\<close>.\<close>

definition runVNC :: "json_codec \<Rightarrow> http_outcome list \<Rightarrow> go_error + Config \<Rightarrow> (string \<Rightarrow> int \<Rightarrow> go_error option) \<Rightarrow> string list \<Rightarrow> go_error + string \<times> int" where
  "runVNC jc network loaded launch args =
     (case args of
        [peerName] \<Rightarrow>
          (case loaded of
             Inl e \<Rightarrow> Inl (Wrapf ''vnc'' e)
           | Inr cfg \<Rightarrow>
               (case configured_peers jc network cfg of
                  Inl e \<Rightarrow> Inl (Wrapf ''vnc'' e)
                | Inr peers \<Rightarrow>
                    (case find (\<lambda>p. ToLower (pi_Name p) = ToLower peerName) peers of
                       None \<Rightarrow> Inl (Errorf (''vnc: peer not found: '' @ peerName))
                     | Some p \<Rightarrow>
                         let port = (if pi_VNCPort p = 0 then 5900 else pi_VNCPort p)
                         in case launch (pi_VirtualIP p) port of
                              Some e \<Rightarrow> Inl (Wrapf ''vnc: launch'' e)
                            | None \<Rightarrow> Inr (pi_VirtualIP p, port))))
      | _ \<Rightarrow> Inl (Errorf ''usage: quicktunnel vnc <peer-name>''))"

definition runLogin :: "json_codec \<Rightarrow> http_outcome list \<Rightarrow> go_error + Config \<Rightarrow> (Config \<Rightarrow> go_error option) \<Rightarrow> string \<Rightarrow> string \<Rightarrow> go_error + Config" where
  "runLogin jc network loaded save email password =
     (if email = [] \<or> password = [] then Inl (Errorf ''login: --email and --password required'')
      else
        let cfg = (case loaded of Inl _ \<Rightarrow> zero_config\<lparr>cf_ServerURL := ''http://localhost:3000''\<rparr> | Inr c \<Rightarrow> c)
        in case fst (Login jc email password (NewClient network (cf_ServerURL cfg) [])) of
             Inl e \<Rightarrow> Inl (Wrapf ''login'' e)
           | Inr resp \<Rightarrow>
               let cfg1 = cfg\<lparr>cf_APIKey := aur_APIKey resp, cf_Email := email\<rparr>
               in case save cfg1 of Some e \<Rightarrow> Inl (Wrapf ''login: save config'' e) | None \<Rightarrow> Inr cfg1)"

subsection \<open>Properties\<close>

lemma override_keeps:
  assumes "\<And>v c. f (put v c) = f c"
  shows "f (override_text getenv key put cfg) = f cfg"
  using assms by (simp add: override_text_def Let_def)

lemma override_int_keeps:
  assumes "\<And>v c. f (put v c) = f c"
  shows "f (override_int getenv key put cfg) = f cfg"
  using assms by (simp add: override_int_def Let_def split: option.splits)

text \<open>
  The environment never changes the membership of a device, and never redirects a device that has
  one to another server or network.
\<close>

lemma environment_keeps_membership:
  "cf_MemberID (applyEnvOverrides getenv cfg) = cf_MemberID cfg" "cf_MemberToken (applyEnvOverrides getenv cfg) = cf_MemberToken cfg"
  "cf_WGPrivateKey (applyEnvOverrides getenv cfg) = cf_WGPrivateKey cfg" "cf_VirtualIP (applyEnvOverrides getenv cfg) = cf_VirtualIP cfg"
  "cf_NetworkCIDR (applyEnvOverrides getenv cfg) = cf_NetworkCIDR cfg"
  unfolding applyEnvOverrides_def Let_def by (simp_all add: override_keeps override_int_keeps)

lemma environment_cannot_redirect_member:
  assumes "has_member_config cfg"
  shows "cf_ServerURL (applyEnvOverrides getenv cfg) = cf_ServerURL cfg \<and> cf_NetworkID (applyEnvOverrides getenv cfg) = cf_NetworkID cfg"
  using assms unfolding applyEnvOverrides_def Let_def by (simp add: override_keeps override_int_keeps)

text \<open>Waiting for the approval ends as soon as the server reports a decision, and follows the first one.\<close>

lemma await_approval_decides:
  assumes "\<forall>p \<in> set pre. p = None \<or> (\<exists>st ip. p = Some (st, ip) \<and> st \<noteq> ''approved'' \<and> st \<noteq> ''rejected'')"
  shows "await_approval (pre @ Some (''approved'', ip) # post) jr = Some (Inr (jr\<lparr>jq_Status := ''approved'', jq_VirtualIP := ip\<rparr>)) \<and>
    (\<exists>e. await_approval (pre @ Some (''rejected'', ip) # post) jr = Some (Inl e)) \<and> await_approval pre jr = None"
  using assms by (induction pre) auto

text \<open>A join that succeeds leaves a complete membership, with the key pair whose public half was sent.\<close>

lemma runJoin_Inr:
  assumes "runJoin jn rest nameFlag hostname keys polls save = Some (Inr cfg)"
  obtains privKey pubKey jr0 where "keys = Inr (privKey, pubKey)"
    "doPost jn (normalizeServerURL (rest ! 0)) (TrimSpace (rest ! 1)) (cf_DeviceName cfg) pubKey = Inr jr0"
    "cf_WGPrivateKey cfg = privKey" "cf_MemberID cfg = jq_MemberID jr0" "cf_MemberToken cfg = jq_MemberToken jr0" "cf_NetworkCIDR cfg = jq_NetworkCIDR jr0"
    "cf_ServerURL cfg = normalizeServerURL (rest ! 0)" "cf_NetworkID cfg = TrimSpace (rest ! 1)" "save cfg = None"
    "cf_HeartbeatIntervalSec cfg = 30" "cf_PeerSyncIntervalSec cfg = 15" "cf_EndpointRefreshIntervalSec cfg = 60" "cf_QualityMonitorIntervalSec cfg = 60"
proof -
  have keep: "jq_MemberID jr' = jq_MemberID jr \<and> jq_MemberToken jr' = jq_MemberToken jr \<and> jq_NetworkCIDR jr' = jq_NetworkCIDR jr"
    if "await_approval polls jr = Some (Inr jr')" for jr jr'
    using that by (induction polls jr rule: await_approval.induct) (auto split: if_splits)
  show ?thesis
    using assms keep
    by (auto simp: runJoin_def Let_def joined_config_def split: if_splits sum.splits prod.splits option.splits intro!: that)
qed

text \<open>
  What \<open>encoding/json\<close> gives back of a configuration: a field with \<open>omitempty\<close> that is zero keeps the
  value the target has, which for the four intervals of \<open>defaultConfig\<close> is not zero; text is coded
  without loss when it is valid UTF-8.
\<close>

definition config_text_ok :: "Config \<Rightarrow> bool" where
  "config_text_ok cfg \<longleftrightarrow>
     list_all ValidString [cf_ServerURL cfg, cf_APIKey cfg, cf_NetworkID cfg, cf_DeviceName cfg, cf_LogLevel cfg, cf_STUNServer cfg, cf_Email cfg, cf_Password cfg,
       cf_MemberID cfg, cf_MemberToken cfg, cf_WGPrivateKey cfg, cf_VirtualIP cfg, cf_NetworkCIDR cfg]"

definition config_json_ok :: "config_codec \<Rightarrow> bool" where
  "config_json_ok cc \<longleftrightarrow>
     (\<forall>cfg raw. config_text_ok cfg \<longrightarrow> 0 \<notin> {cf_HeartbeatIntervalSec cfg, cf_PeerSyncIntervalSec cfg, cf_EndpointRefreshIntervalSec cfg, cf_QualityMonitorIntervalSec cfg} \<longrightarrow>
        cc_marshal cc cfg = Inr raw \<longrightarrow> cc_unmarshal cc defaultConfig raw = Inr cfg)"

text \<open>The file the process identifier is written to is read back by the commands that stop the client.\<close>

lemma pid_roundtrip:
  assumes "0 \<le> pid" "pid < 2 ^ 63"
  shows "readPIDFile (FileText (writePIDFile pid)) = Some pid"
proof -
  have digits: "list_all is_digit (Itoa pid)" "Itoa pid \<noteq> []" using assms(1) by (simp_all add: Itoa_def nat_digits_all_digits)
  then have "TrimSpace (Itoa pid) = Itoa pid" by (intro TrimSpace_digits_dots) (auto simp: list_all_iff)
  then show ?thesis using assms Atoi_Itoa [of pid] by (simp add: readPIDFile_def writePIDFile_def)
qed

end
