(* ===== verification/Agent.thy ===== *)
theory Agent
  imports PeerManager ClientConfig
begin

text \<open>
  The agent of the device, \<open>client/internal/agent\<close>: its state machine, the start and stop sequences and
  the loops that keep the device announced, on top of the API client, the tunnel and the peer
  manager. The agent and its peer manager share the tunnel and the client: once the manager exists
  its copies are the shared ones. What the agent reads from the machine and the network in one
  call is the record \<open>agent_env\<close>; a loop gets one for every tick. Log lines are left out.
\<close>

subsection \<open>state.go\<close>

datatype AgentState = StateInit | StateAuthenticating | StateRegistering | StateDiscovering | StateConnecting | StateRunning
  | StateReconnecting | StateStopped

text \<open>Callbacks are named by numbers; the calls they got are recorded.\<close>

record StateMachine =
  sm_state :: AgentState
  sm_callbacks :: "nat list"
  sm_calls :: "(nat \<times> AgentState \<times> AgentState) list"

definition NewStateMachine :: "AgentState \<Rightarrow> StateMachine" where
  "NewStateMachine initial = \<lparr>sm_state = initial, sm_callbacks = [], sm_calls = []\<rparr>"

definition sm_Set :: "AgentState \<Rightarrow> StateMachine \<Rightarrow> StateMachine" where
  "sm_Set next s =
     (if sm_state s = next then s
      else s\<lparr>sm_state := next, sm_calls := sm_calls s @ map (\<lambda>cb. (cb, sm_state s, next)) (sm_callbacks s)\<rparr>)"

definition OnStateChange :: "nat option \<Rightarrow> StateMachine \<Rightarrow> StateMachine" where
  "OnStateChange callback s = (case callback of None \<Rightarrow> s | Some cb \<Rightarrow> s\<lparr>sm_callbacks := sm_callbacks s @ [cb]\<rparr>)"

subsection \<open>Constants and small helpers\<close>

text \<open>Durations in seconds.\<close>

definition defaultHeartbeatInterval :: int where "defaultHeartbeatInterval = 30"
definition defaultPeerSyncInterval :: int where "defaultPeerSyncInterval = 15"
definition defaultVNCDiscoveryInterval :: int where "defaultVNCDiscoveryInterval = 60"
definition defaultQualityMonitorInterval :: int where "defaultQualityMonitorInterval = 60"
definition defaultEndpointRefreshInterval :: int where "defaultEndpointRefreshInterval = 60"
definition maxReconnectBackoff :: int where "maxReconnectBackoff = 120"

definition maxInt :: "int \<Rightarrow> int \<Rightarrow> int" where
  "maxInt v fallback = (if 0 < v then v else fallback)"

definition minInt :: "int \<Rightarrow> int \<Rightarrow> int" where
  "minInt a b = (if a < b then a else b)"

definition boundedSeconds :: "int \<Rightarrow> int \<Rightarrow> int \<Rightarrow> int \<Rightarrow> int" where
  "boundedSeconds v fallback minSec maxSec =
     (if v \<le> 0 then fallback
      else let v1 = (if v < minSec then minSec else v) in if maxSec < v1 then maxSec else v1)"

definition heartbeatInterval :: "Config \<Rightarrow> int" where
  "heartbeatInterval cfg = boundedSeconds (cf_HeartbeatIntervalSec cfg) defaultHeartbeatInterval 10 600"

definition peerSyncInterval :: "Config \<Rightarrow> int" where
  "peerSyncInterval cfg = boundedSeconds (cf_PeerSyncIntervalSec cfg) defaultPeerSyncInterval 10 600"

definition qualityMonitorInterval :: "Config \<Rightarrow> int" where
  "qualityMonitorInterval cfg = boundedSeconds (cf_QualityMonitorIntervalSec cfg) defaultQualityMonitorInterval 30 1800"

definition endpointRefreshInterval :: "Config \<Rightarrow> int" where
  "endpointRefreshInterval cfg = boundedSeconds (cf_EndpointRefreshIntervalSec cfg) defaultEndpointRefreshInterval 60 3600"

text \<open>\<open>net.ParseIP\<close> gives nil for a malformed address, of which \<open>To4\<close> is nil as well.\<close>

definition agent_isRoutableIPv4 :: "IP option \<Rightarrow> bool" where
  "agent_isRoutableIPv4 ip =
     (case ip of
        None \<Rightarrow> False
      | Some p \<Rightarrow>
          (case To4 p of
             None \<Rightarrow> False
           | Some v4 \<Rightarrow>
               \<not> (IsLoopback p \<or> IsMulticast p \<or> IsUnspecified p) \<and> \<not> IsPrivate p \<and>
               \<not> (octet v4 0 = 169 \<and> octet v4 1 = 254) \<and> \<not> (octet v4 0 = 100 \<and> 64 \<le> octet v4 1 \<and> octet v4 1 \<le> 127)))"

definition getLocalIPsWithPort :: "net_interface list option \<Rightarrow> int \<Rightarrow> string list" where
  "getLocalIPsWithPort ifaces port =
     map (\<lambda>ip. JoinHostPort (case SplitHostPort ip of Some (h, _) \<Rightarrow> h | None \<Rightarrow> ip) (Itoa port)) (GetLocalIPs ifaces)"

subsection \<open>The agent\<close>

record agent_env =
  ae_su :: surroundings
  ae_network :: "http_outcome list"
  ae_network2 :: "http_outcome list"
  ae_random :: "go_error + bytes"
  ae_X25519 :: "bytes \<Rightarrow> go_error + bytes"
  ae_fingerprint :: string
  ae_goos :: string
  ae_machine :: machine
  ae_wgInstalled :: bool
  ae_now :: int
  ae_puncher :: "go_error + int"
  ae_discover :: "go_error + string \<times> int"
  ae_dialed :: "IP option"
  ae_ifaces :: "net_interface list option"
  ae_portOpen :: "int \<Rightarrow> bool"

record Agent =
  ag_config :: Config
  ag_api :: "Client option"
  ag_tunnel :: "WGTunnel option"
  ag_peerMgr :: "PeerManager option"
  ag_holePuncher :: "int option"
  ag_sm :: StateMachine
  ag_virtualIP :: string
  ag_peerID :: string
  ag_memberID :: string
  ag_memberToken :: string
  ag_publicEndpoint :: string
  ag_lastEndpointRefresh :: "int option"
  ag_wgListenPort :: int
  ag_vncPort :: int
  ag_vncAvailable :: bool
  ag_forwarding :: bool
  ag_cancelled :: bool

definition NewAgent :: "Config \<Rightarrow> Agent" where
  "NewAgent cfg =
     \<lparr>ag_config = cfg, ag_api = None, ag_tunnel = None, ag_peerMgr = None, ag_holePuncher = None, ag_sm = NewStateMachine StateInit,
      ag_virtualIP = [], ag_peerID = [], ag_memberID = [], ag_memberToken = [], ag_publicEndpoint = [], ag_lastEndpointRefresh = None,
      ag_wgListenPort = 0, ag_vncPort = 0, ag_vncAvailable = False, ag_forwarding = False, ag_cancelled = False\<rparr>"

definition CurrentState :: "Agent \<Rightarrow> AgentState" where
  "CurrentState a = sm_state (ag_sm a)"

text \<open>The panic of a method called on a pointer that is still nil.\<close>

definition nil_pointer :: go_error where "nil_pointer = Sentinel ''nil pointer dereference''"

definition agent_tunnel :: "Agent \<Rightarrow> WGTunnel option" where
  "agent_tunnel a = (case ag_peerMgr a of Some m \<Rightarrow> Some (pm_tunnel m) | None \<Rightarrow> ag_tunnel a)"

definition agent_client :: "Agent \<Rightarrow> Client option" where
  "agent_client a = (case ag_peerMgr a of Some m \<Rightarrow> Some (pm_api m) | None \<Rightarrow> ag_api a)"

definition put_client :: "Client \<Rightarrow> Agent \<Rightarrow> Agent" where
  "put_client c a = (case ag_peerMgr a of Some m \<Rightarrow> a\<lparr>ag_peerMgr := Some (m\<lparr>pm_api := c\<rparr>)\<rparr> | None \<Rightarrow> a\<lparr>ag_api := Some c\<rparr>)"

definition put_tunnel :: "WGTunnel \<Rightarrow> Agent \<Rightarrow> Agent" where
  "put_tunnel t a = (case ag_peerMgr a of Some m \<Rightarrow> a\<lparr>ag_peerMgr := Some (m\<lparr>pm_tunnel := t\<rparr>)\<rparr> | None \<Rightarrow> a\<lparr>ag_tunnel := Some t\<rparr>)"

definition with_client :: "(Client, 'a) procedure \<Rightarrow> (Agent, 'a) procedure" where
  "with_client p a = (case agent_client a of None \<Rightarrow> (Inl nil_pointer, a) | Some c \<Rightarrow> (case p c of (r, c') \<Rightarrow> (r, put_client c' a)))"

definition with_tunnel :: "(WGTunnel, 'a) procedure \<Rightarrow> (Agent, 'a) procedure" where
  "with_tunnel p a = (case agent_tunnel a of None \<Rightarrow> (Inl nil_pointer, a) | Some t \<Rightarrow> (case p t of (r, t') \<Rightarrow> (r, put_tunnel t' a)))"

text \<open>A call whose error is only logged or dropped.\<close>

definition ignoring :: "('s, 'a) procedure \<Rightarrow> ('s, unit) procedure" where
  "ignoring p s = (Inr (), snd (p s))"

definition set_state :: "AgentState \<Rightarrow> (Agent, unit) procedure" where
  "set_state st = modifies (\<lambda>a. a\<lparr>ag_sm := sm_Set st (ag_sm a)\<rparr>)"

subsection \<open>The public endpoint\<close>

definition getOutboundIP :: "IP option \<Rightarrow> string" where
  "getOutboundIP dialed = (case dialed of None \<Rightarrow> [] | Some ip \<Rightarrow> IP_String ip)"

definition discoverPublicIP :: "agent_env \<Rightarrow> go_error + string" where
  "discoverPublicIP env =
     (let viaStun = (case ae_discover env of Inr (ip, _) \<Rightarrow> ParseIP (TrimSpace ip) | Inl _ \<Rightarrow> None);
          fallbackIP = ParseIP (TrimSpace (getOutboundIP (ae_dialed env)))
      in if agent_isRoutableIPv4 viaStun then Inr (IP_String (the viaStun))
         else if agent_isRoutableIPv4 fallbackIP then Inr (IP_String (the fallbackIP))
         else case ae_discover env of Inl e \<Rightarrow> Inl e | Inr _ \<Rightarrow> Inl (Errorf ''no routable public endpoint available''))"

definition currentWGPort :: "Agent \<Rightarrow> int" where
  "currentWGPort a = (if 0 < ag_wgListenPort a then ag_wgListenPort a else maxInt (cf_WGListenPort (ag_config a)) 51820)"

text \<open>The endpoint and whether it changed; an unset time of the last refresh is long ago. Times are nanoseconds.\<close>

definition refreshEndpointIfNeeded :: "agent_env \<Rightarrow> bool \<Rightarrow> (Agent, string \<times> bool) procedure" where
  "refreshEndpointIfNeeded env force a =
     (let current = ag_publicEndpoint a;
          recent = (case ag_lastEndpointRefresh a of None \<Rightarrow> False
                    | Some prev \<Rightarrow> ae_now env - prev < endpointRefreshInterval (ag_config a) * 1000000000)
      in if \<not> force \<and> current \<noteq> [] \<and> recent then (Inr (current, False), a)
         else case discoverPublicIP env of
                Inl e \<Rightarrow> if current \<noteq> [] then (Inr (current, False), a) else (Inl e, a)
              | Inr ip \<Rightarrow>
                  let fresh = JoinHostPort ip (Itoa (currentWGPort a))
                  in (Inr (fresh, fresh \<noteq> ag_publicEndpoint a), a\<lparr>ag_publicEndpoint := fresh, ag_lastEndpointRefresh := Some (ae_now env)\<rparr>))"

subsection \<open>Start\<close>

definition use_member_token :: "Config \<Rightarrow> bool" where
  "use_member_token cfg \<longleftrightarrow> TrimSpace (cf_MemberToken cfg) \<noteq> [] \<and> TrimSpace (cf_MemberID cfg) \<noteq> [] \<and> TrimSpace (cf_WGPrivateKey cfg) \<noteq> []"

text \<open>What the two ways of identification give: the private key, the address, the network's prefix and the peer's identifier.\<close>

definition member_identity :: "(Agent, string \<times> string \<times> string \<times> string) procedure" where
  "member_identity =
     andThen (reads ag_config) (\<lambda>cfg.
     andThen (with_client (modifies (SetMemberToken (cf_MemberToken cfg)))) (\<lambda>_.
     andThen (modifies (\<lambda>a. a\<lparr>ag_memberID := cf_MemberID cfg, ag_memberToken := cf_MemberToken cfg\<rparr>)) (\<lambda>_.
     return (cf_WGPrivateKey cfg, cf_VirtualIP cfg, cf_NetworkCIDR cfg, cf_MemberID cfg))))"

definition obtain_api_key :: "agent_env \<Rightarrow> (Agent, unit) procedure" where
  "obtain_api_key env =
     andThen (reads ag_config) (\<lambda>cfg.
     if TrimSpace (cf_APIKey cfg) \<noteq> [] then return ()
     else if TrimSpace (cf_Email cfg) = [] \<or> TrimSpace (cf_Password cfg) = []
     then raise (Errorf ''agent start: api_key or (email/password) is required'')
     else
       andThen (wrap ''agent start: login failed'' (with_client (Login (su_codec (ae_su env)) (cf_Email cfg) (cf_Password cfg)))) (\<lambda>loginResp.
       modifies (\<lambda>a. a\<lparr>ag_config := cfg\<lparr>cf_APIKey := aur_APIKey loginResp\<rparr>,
                       ag_api := Some (NewClient (ae_network2 env) (cf_ServerURL cfg) (aur_APIKey loginResp))\<rparr>)))"

definition registered_identity :: "agent_env \<Rightarrow> (Agent, string \<times> string \<times> string \<times> string) procedure" where
  "registered_identity env =
     andThen (obtain_api_key env) (\<lambda>_.
     andThen (set_state StateRegistering) (\<lambda>_.
     andThen (wrap ''agent start: generate key pair'' (result (GenerateKeyPair (ae_X25519 env) (ae_random env)))) (\<lambda>(privateKey, pubKey).
     andThen (reads ag_config) (\<lambda>cfg.
     andThen (wrap ''agent start: register peer'' (with_client (client_RegisterPeer (su_codec (ae_su env)) (cf_NetworkID cfg)
        \<lparr>prr_MachineID = ae_fingerprint env, prr_PublicKey = pubKey,
         prr_Name = (if TrimSpace (cf_DeviceName cfg) = [] then ''quicktunnel-device'' else TrimSpace (cf_DeviceName cfg)),
         prr_OS = ToLower (ae_goos env), prr_Version = ''0.1.0'', prr_VNCPort = maxInt (cf_VNCPort cfg) 5900\<rparr>))) (\<lambda>resp.
     return (privateKey, prs_VirtualIP resp, prs_NetworkCIDR resp, prs_PeerID resp))))))"

definition start_tunnel :: "agent_env \<Rightarrow> string \<Rightarrow> string \<Rightarrow> string \<Rightarrow> (Agent, unit) procedure" where
  "start_tunnel env privateKey virtualIP networkCIDR =
     andThen (modifies (\<lambda>a. a\<lparr>ag_wgListenPort := maxInt (cf_WGListenPort (ag_config a)) 51820\<rparr>)) (\<lambda>_.
     andThen (reads ag_wgListenPort) (\<lambda>wgPort.
     andThen (\<lambda>a. case NewWGTunnel (ae_machine env) privateKey virtualIP networkCIDR wgPort of
                   Inl e \<Rightarrow> (Inl (Wrapf ''agent start: create tunnel'' e), a\<lparr>ag_tunnel := None\<rparr>)
                 | Inr t \<Rightarrow> (Inr (), a\<lparr>ag_tunnel := Some t\<rparr>)) (\<lambda>_.
     wrap ''agent start: start tunnel'' (with_tunnel (Start (ae_wgInstalled env) (ae_now env))))))"

definition announce_presence :: "agent_env \<Rightarrow> bool \<Rightarrow> string \<Rightarrow> string \<Rightarrow> string list \<Rightarrow> (Agent, unit) procedure" where
  "announce_presence env useMemberToken peerID endpoint localEndpoints =
     andThen (reads ag_config) (\<lambda>cfg.
     let jc = su_codec (ae_su env)
     in if useMemberToken
        then andThen (ignoring (with_client (client_MemberAnnounce jc (cf_MemberID cfg) \<lparr>mar_PublicEndpoint = endpoint, mar_LocalEndpoints = localEndpoints\<rparr>))) (\<lambda>_.
             ignoring (with_client (client_MemberHeartbeat jc (cf_MemberID cfg)
               \<lparr>mhr_PublicEndpoint = endpoint, mhr_LocalEndpoints = localEndpoints, mhr_VNCAvailable = False, mhr_RXBytes = 0, mhr_TXBytes = 0\<rparr>)))
        else andThen (if endpoint \<noteq> [] then ignoring (with_client (client_Announce jc
                 \<lparr>anr_PeerID = peerID, anr_NetworkID = cf_NetworkID cfg, anr_PublicEndpoint = endpoint, anr_LocalEndpoints = localEndpoints\<rparr>))
               else return ()) (\<lambda>_.
             ignoring (with_client (client_Heartbeat jc (cf_NetworkID cfg) peerID
               \<lparr>pst_PublicEndpoint = endpoint, pst_LocalEndpoints = localEndpoints, pst_VNCAvailable = False, pst_RXBytes = 0, pst_TXBytes = 0, pst_RelayID = []\<rparr>))))"

definition isLocalPortOpen :: "agent_env \<Rightarrow> int \<Rightarrow> bool" where
  "isLocalPortOpen env port = (if port \<le> 0 \<or> 65535 < port then False else ae_portOpen env port)"

definition probe_vnc :: "agent_env \<Rightarrow> (Agent, unit) procedure" where
  "probe_vnc env =
     modifies (\<lambda>a. if 0 < cf_VNCPort (ag_config a)
       then a\<lparr>ag_vncPort := cf_VNCPort (ag_config a), ag_vncAvailable := isLocalPortOpen env (cf_VNCPort (ag_config a))\<rparr>
       else a\<lparr>ag_vncPort := fst (DiscoverVNCServer (ae_portOpen env)), ag_vncAvailable := snd (DiscoverVNCServer (ae_portOpen env))\<rparr>)"

definition start_peer_manager :: "bool \<Rightarrow> string \<Rightarrow> string \<Rightarrow> (Agent, unit) procedure" where
  "start_peer_manager useMemberToken peerID endpoint a =
     (case (ag_tunnel a, ag_api a) of
        (Some t, Some c) \<Rightarrow>
          let m0 = NewPeerManager t c (cf_NetworkID (ag_config a)) peerID;
              m1 = (if useMemberToken then SetMemberID peerID m0 else m0);
              m2 = (if endpoint \<noteq> [] then SetLocalPublicEndpoint endpoint m1 else m1);
              m3 = SetSyncInterval (peerSyncInterval (ag_config a)) m2
          in (Inr (), a\<lparr>ag_peerMgr := Some m3, ag_forwarding := (\<not> wt_wgReady t \<and> ag_holePuncher a \<noteq> None)\<rparr>)
      | _ \<Rightarrow> (Inl nil_pointer, a))"

definition go_online :: "agent_env \<Rightarrow> bool \<Rightarrow> string \<Rightarrow> (Agent, unit) procedure" where
  "go_online env useMemberToken peerID =
     andThen (modifies (\<lambda>a. a\<lparr>ag_holePuncher := (case ae_puncher env of Inl _ \<Rightarrow> None | Inr port \<Rightarrow> Some port)\<rparr>)) (\<lambda>_.
     andThen (set_state StateDiscovering) (\<lambda>_.
     andThen (\<lambda>a. case refreshEndpointIfNeeded env True a of (Inl _, a') \<Rightarrow> (Inr [], a') | (Inr (endpoint, _), a') \<Rightarrow> (Inr endpoint, a')) (\<lambda>endpoint.
     andThen (reads ag_wgListenPort) (\<lambda>wgPort.
     andThen (announce_presence env useMemberToken peerID endpoint (getLocalIPsWithPort (ae_ifaces env) wgPort)) (\<lambda>_.
     andThen (probe_vnc env) (\<lambda>_.
     andThen (set_state StateConnecting) (\<lambda>_.
     andThen (start_peer_manager useMemberToken peerID endpoint) (\<lambda>_.
     set_state StateRunning))))))))"

definition agent_Start :: "agent_env \<Rightarrow> (Agent, unit) procedure" where
  "agent_Start env =
     andThen (reads ag_config) (\<lambda>cfg.
     if TrimSpace (cf_ServerURL cfg) = [] then raise (Errorf ''agent start: server_url is required'')
     else if TrimSpace (cf_NetworkID cfg) = [] then raise (Errorf ''agent start: network_id is required'')
     else
       andThen (set_state StateAuthenticating) (\<lambda>_.
       andThen (modifies (\<lambda>a. a\<lparr>ag_api := Some (NewClient (ae_network env) (cf_ServerURL cfg) (cf_APIKey cfg))\<rparr>)) (\<lambda>_.
       andThen (if use_member_token cfg then member_identity else registered_identity env) (\<lambda>(privateKey, virtualIP, networkCIDR, peerID).
       andThen (modifies (\<lambda>a. a\<lparr>ag_virtualIP := virtualIP, ag_peerID := peerID\<rparr>)) (\<lambda>_.
       andThen (start_tunnel env privateKey virtualIP networkCIDR) (\<lambda>_.
       go_online env (use_member_token cfg) peerID))))))"

subsection \<open>Stop\<close>

text \<open>
  The peer manager removes its peers and never fails; closing the hole puncher may fail (\<open>closeErr\<close>);
  then the tunnel is stopped. The first error is returned, and the state is always \<open>Stopped\<close>.
\<close>

definition agent_Stop :: "go_error option \<Rightarrow> (Agent, unit) procedure" where
  "agent_Stop closeErr a0 =
     (let a = a0\<lparr>ag_cancelled := True\<rparr>;
          a1 = a\<lparr>ag_peerMgr := map_option manager_Stop (ag_peerMgr a)\<rparr>;
          err1 = (if ag_holePuncher a1 \<noteq> None then map_option (Wrapf ''agent stop: close hole puncher'') closeErr else None);
          (r, a2) = (if agent_tunnel a1 = None then (Inr (), a1) else with_tunnel Stop a1);
          err2 = (case r of Inl e \<Rightarrow> Some (Wrapf ''agent stop: stop tunnel'' e) | Inr _ \<Rightarrow> None);
          a3 = a2\<lparr>ag_sm := sm_Set StateStopped (ag_sm a2)\<rparr>
      in (case err1 of Some e \<Rightarrow> Inl e | None \<Rightarrow> (case err2 of Some e \<Rightarrow> Inl e | None \<Rightarrow> Inr ()), a3))"

text \<open>
  The command's session with an agent: it starts the agent, waits for a signal, during which the
  loops run (\<open>live\<close>), and stops the agent, once more when it returns. The outcomes of closing
  the hole puncher come one per stop; writing the PID file never fails the command.
\<close>

definition startAgent :: "agent_env \<Rightarrow> (Agent \<Rightarrow> Agent) \<Rightarrow> go_error option \<Rightarrow> go_error option \<Rightarrow> Config \<Rightarrow> (go_error + unit) \<times> Agent" where
  "startAgent env live close1 close2 cfg =
     (case agent_Start env ((NewAgent cfg)\<lparr>ag_sm := OnStateChange (Some 0) (ag_sm (NewAgent cfg))\<rparr>) of
        (Inl e, a) \<Rightarrow> (Inl (Wrapf ''start agent'' e), a)
      | (Inr _, a) \<Rightarrow> (Inr (), snd (agent_Stop close2 (snd (agent_Stop close1 (live a))))))"

subsection \<open>Heartbeats\<close>

text \<open>
  The first half of both heartbeats: the endpoint to announce, the old one when it cannot be
  refreshed, and the local endpoints.
\<close>

definition heartbeat_endpoints :: "agent_env \<Rightarrow> (Agent, string \<times> string list) procedure" where
  "heartbeat_endpoints env a0 =
     (let endpoint0 = ag_publicEndpoint a0;
          (r, a) = refreshEndpointIfNeeded env False a0;
          endpoint = (case r of Inl _ \<Rightarrow> endpoint0 | Inr (fresh, _) \<Rightarrow> if fresh \<noteq> [] then fresh else endpoint0)
      in (Inr (endpoint, getLocalIPsWithPort (ae_ifaces env) (currentWGPort a)), a))"

definition tell_manager :: "string \<Rightarrow> (Agent, unit) procedure" where
  "tell_manager endpoint = modifies (\<lambda>a. a\<lparr>ag_peerMgr := map_option (SetLocalPublicEndpoint endpoint) (ag_peerMgr a)\<rparr>)"

definition tunnel_stats :: "(Agent, TunnelStats) procedure" where
  "tunnel_stats = with_tunnel (reads wt_stats)"

definition sendMemberHeartbeat :: "agent_env \<Rightarrow> (Agent, unit) procedure" where
  "sendMemberHeartbeat env =
     andThen (reads (\<lambda>a. (ag_memberID a, ag_vncAvailable a))) (\<lambda>(memberID, vncAvail).
     if memberID = [] then raise (Errorf ''send member heartbeat: member_id empty'')
     else
       andThen (heartbeat_endpoints env) (\<lambda>(endpoint, localEndpoints).
       andThen (ignoring (with_client (client_MemberAnnounce (su_codec (ae_su env)) memberID
         \<lparr>mar_PublicEndpoint = endpoint, mar_LocalEndpoints = localEndpoints\<rparr>))) (\<lambda>_.
       andThen (tell_manager endpoint) (\<lambda>_.
       andThen tunnel_stats (\<lambda>stats.
       with_client (client_MemberHeartbeat (su_codec (ae_su env)) memberID
         \<lparr>mhr_PublicEndpoint = endpoint, mhr_LocalEndpoints = localEndpoints, mhr_VNCAvailable = vncAvail,
          mhr_RXBytes = sint (ts_RXBytes stats), mhr_TXBytes = sint (ts_TXBytes stats)\<rparr>))))))"

definition sendHeartbeat :: "agent_env \<Rightarrow> (Agent, unit) procedure" where
  "sendHeartbeat env =
     andThen (reads (\<lambda>a. (ag_peerID a, ag_vncAvailable a, cf_NetworkID (ag_config a)))) (\<lambda>(peerID, vncAvail, networkID).
     if peerID = [] then raise (Errorf ''send heartbeat: peer id is empty'')
     else
       andThen (heartbeat_endpoints env) (\<lambda>(endpoint, localEndpoints).
       andThen (ignoring (with_client (client_Announce (su_codec (ae_su env))
         \<lparr>anr_PeerID = peerID, anr_NetworkID = networkID, anr_PublicEndpoint = endpoint, anr_LocalEndpoints = localEndpoints\<rparr>))) (\<lambda>_.
       andThen (tell_manager endpoint) (\<lambda>_.
       andThen tunnel_stats (\<lambda>stats.
       with_client (client_Heartbeat (su_codec (ae_su env)) networkID peerID
         \<lparr>pst_PublicEndpoint = endpoint, pst_LocalEndpoints = localEndpoints, pst_VNCAvailable = vncAvail,
          pst_RXBytes = sint (ts_RXBytes stats), pst_TXBytes = sint (ts_TXBytes stats), pst_RelayID = []\<rparr>))))))"

text \<open>
  The wait after a number of failures in seconds, and the loop: one environment per tick; the loop ends
  when the context does, at the end of the list. Its result is the waits, the count of
  failures and the agent.
\<close>

definition reconnect_wait :: "int \<Rightarrow> int" where
  "reconnect_wait failures =
     (let wait = 2 ^ nat (minInt failures 6) in if maxReconnectBackoff < wait then maxReconnectBackoff else wait)"

fun heartbeatLoop :: "bool \<Rightarrow> agent_env list \<Rightarrow> int \<Rightarrow> Agent \<Rightarrow> int list \<times> int \<times> Agent" where
  "heartbeatLoop useMemberToken [] failures a = ([], failures, a)"
| "heartbeatLoop useMemberToken (env # ticks) failures a =
     (case (if useMemberToken then sendMemberHeartbeat env else sendHeartbeat env) a of
        (Inl e, a1) \<Rightarrow>
          (case heartbeatLoop useMemberToken ticks (failures + 1) (a1\<lparr>ag_sm := sm_Set StateReconnecting (ag_sm a1)\<rparr>) of
             (waits, n, a') \<Rightarrow> (reconnect_wait (failures + 1) # waits, n, a'))
      | (Inr _, a1) \<Rightarrow>
          if 0 < failures then heartbeatLoop useMemberToken ticks 0 (a1\<lparr>ag_sm := sm_Set StateRunning (ag_sm a1)\<rparr>)
          else heartbeatLoop useMemberToken ticks failures a1)"

subsection \<open>The other loops\<close>

definition vnc_tick :: "agent_env \<Rightarrow> Agent \<Rightarrow> Agent" where
  "vnc_tick env a =
     (if 0 < cf_VNCPort (ag_config a) then a\<lparr>ag_vncAvailable := isLocalPortOpen env (cf_VNCPort (ag_config a))\<rparr>
      else a\<lparr>ag_vncPort := fst (DiscoverVNCServer (ae_portOpen env)), ag_vncAvailable := snd (DiscoverVNCServer (ae_portOpen env))\<rparr>)"

text \<open>
  One tick of the quality monitor, with the outcome of the three connection attempts to each address.
  A slow direct connection is moved to the relay; every third tick a relayed one is tried directly.
\<close>

definition monitor_connection :: "surroundings \<Rightarrow> int \<Rightarrow> (string \<Rightarrow> int option \<times> int option \<times> int option) \<Rightarrow> int \<Rightarrow> PeerConnection \<Rightarrow> PeerManager \<Rightarrow> PeerManager" where
  "monitor_connection su now dials probeCount connection m =
     (let latency = MeasureLatency (dials (cn_VirtualIP connection))
      in if cn_ConnectedVia connection = ''p2p'' \<and> 300000000 < latency then snd (ForceRelay su now (cn_PeerID connection) m)
         else if cn_ConnectedVia connection = ''relay'' \<and> probeCount mod 3 = 0 then snd (AttemptDirect su now (cn_PeerID connection) m)
         else m)"

definition monitor_tick :: "surroundings \<Rightarrow> int \<Rightarrow> (string \<Rightarrow> int option \<times> int option \<times> int option) \<Rightarrow> int \<Rightarrow> PeerManager \<Rightarrow> PeerManager" where
  "monitor_tick su now dials probeCount m = fold (monitor_connection su now dials probeCount) (ListConnections m) m"

definition quality_tick :: "surroundings \<Rightarrow> int \<Rightarrow> (string \<Rightarrow> int option \<times> int option \<times> int option) \<Rightarrow> int \<Rightarrow> Agent \<Rightarrow> Agent" where
  "quality_tick su now dials probeCount a = a\<lparr>ag_peerMgr := map_option (monitor_tick su now dials probeCount) (ag_peerMgr a)\<rparr>"

subsection \<open>Raw packet forwarding\<close>

definition forward_magic :: bytes where "forward_magic = [0x51, 0x54, 0x44, 0x54]"

text \<open>
  A packet read from the device: what is written to the socket, if anything. The destination of an
  IPv4 packet is in its bytes 16 to 19; \<open>resolve\<close> is \<open>net.ResolveUDPAddr\<close>.
\<close>

definition forward_out :: "(string \<Rightarrow> 'addr option) \<Rightarrow> WGTunnel \<Rightarrow> bytes \<Rightarrow> (bytes \<times> 'addr) option" where
  "forward_out resolve t packet =
     (if length packet < 20 then None
      else
        let destIP = IPv4_String (word_rcat (take 4 (drop 16 packet)))
        in case FindEndpointByVirtualIP destIP t of
             None \<Rightarrow> None
           | Some endpoint \<Rightarrow> (case resolve endpoint of None \<Rightarrow> None | Some addr \<Rightarrow> Some (forward_magic @ packet, addr)))"

text \<open>A datagram read from the socket: what is written to the device.\<close>

definition forward_in :: "bytes \<Rightarrow> bytes option" where
  "forward_in datagram =
     (if length datagram < 24 then None else if take 4 datagram \<noteq> forward_magic then None else Some (drop 4 datagram))"

subsection \<open>Status\<close>

record agent_status =
  as_state :: AgentState
  as_peerID :: string
  as_virtualIP :: string
  as_publicEndpoint :: string
  as_vncPort :: int
  as_vncAvailable :: bool
  as_wgReady :: bool
  as_connections :: "PeerConnection list"

definition agent_Connections :: "Agent \<Rightarrow> PeerConnection list" where
  "agent_Connections a = (case ag_peerMgr a of None \<Rightarrow> [] | Some m \<Rightarrow> ListConnections m)"

definition agent_Status :: "Agent \<Rightarrow> agent_status" where
  "agent_Status a =
     \<lparr>as_state = CurrentState a, as_peerID = ag_peerID a, as_virtualIP = ag_virtualIP a, as_publicEndpoint = ag_publicEndpoint a,
      as_vncPort = ag_vncPort a, as_vncAvailable = ag_vncAvailable a,
      as_wgReady = (case agent_tunnel a of None \<Rightarrow> False | Some t \<Rightarrow> wt_wgReady t), as_connections = agent_Connections a\<rparr>"

subsection \<open>The state machine\<close>

text \<open>The changes in a sequence of states, from a first state on.\<close>

fun transitions :: "AgentState \<Rightarrow> AgentState list \<Rightarrow> (AgentState \<times> AgentState) list" where
  "transitions p [] = []"
| "transitions p (q # qs) = (if p = q then transitions p qs else (p, q) # transitions q qs)"

definition calls_of :: "nat \<Rightarrow> StateMachine \<Rightarrow> (AgentState \<times> AgentState) list" where
  "calls_of cb s = map snd (filter (\<lambda>c. fst c = cb) (sm_calls s))"

text \<open>A callback that is registered once is told every change of the state, in order, and nothing else.\<close>

lemma callback_sees_transitions:
  assumes "count_list (sm_callbacks s) cb = 1"
  shows "calls_of cb (fold sm_Set sts s) = calls_of cb s @ transitions (sm_state s) sts \<and> sm_state (fold sm_Set sts s) = last (sm_state s # sts)"
  using assms
proof (induction sts arbitrary: s)
  case (Cons st sts)
  have one: "map snd (filter (\<lambda>c. fst c = cb) (map (\<lambda>k. (k, p, q)) (sm_callbacks s))) = [(p, q)]" for p q :: AgentState
  proof -
    have "filter (\<lambda>c. fst c = cb) (map (\<lambda>k. (k, p, q)) ks) = replicate (count_list ks cb) (cb, p, q)" for ks
      by (induction ks) auto
    then show ?thesis using Cons.prems by simp
  qed
  have "sm_callbacks (sm_Set st s) = sm_callbacks s" "sm_state (sm_Set st s) = st" by (simp_all add: sm_Set_def)
  moreover have "calls_of cb (sm_Set st s) = calls_of cb s @ (if sm_state s = st then [] else [(sm_state s, st)])"
    using one by (simp add: sm_Set_def calls_of_def)
  ultimately show ?case using Cons.IH [of "sm_Set st s"] Cons.prems by auto
qed simp

lemma sm_Set_state [simp]: "sm_state (sm_Set st s) = st"
  by (simp add: sm_Set_def)

subsection \<open>Bounds\<close>

lemma boundedSeconds_bounds:
  assumes "minSec \<le> fallback" "fallback \<le> maxSec"
  shows "minSec \<le> boundedSeconds v fallback minSec maxSec \<and> boundedSeconds v fallback minSec maxSec \<le> maxSec"
  using assms by (auto simp: boundedSeconds_def Let_def)

lemma intervals_bounded:
  "10 \<le> heartbeatInterval cfg \<and> heartbeatInterval cfg \<le> 600" "10 \<le> peerSyncInterval cfg \<and> peerSyncInterval cfg \<le> 600"
  "30 \<le> qualityMonitorInterval cfg \<and> qualityMonitorInterval cfg \<le> 1800" "60 \<le> endpointRefreshInterval cfg \<and> endpointRefreshInterval cfg \<le> 3600"
  unfolding heartbeatInterval_def peerSyncInterval_def qualityMonitorInterval_def endpointRefreshInterval_def
  by (rule boundedSeconds_bounds; simp add: defaultHeartbeatInterval_def defaultPeerSyncInterval_def defaultQualityMonitorInterval_def
      defaultEndpointRefreshInterval_def)+

text \<open>The wait doubles from two seconds to 64 seconds; the limit of two minutes is never reached.\<close>

lemma reconnect_wait_value:
  assumes "1 \<le> n"
  shows "reconnect_wait n = 2 ^ nat (min n 6)" "2 \<le> reconnect_wait n" "reconnect_wait n \<le> 64"
proof -
  have "minInt n 6 = min n 6" by (simp add: minInt_def min_def)
  moreover have "nat (min n 6) \<le> 6" "1 \<le> nat (min n 6)" using assms by auto
  then have "(2::int) ^ nat (min n 6) \<le> 2 ^ 6" "(2::int) ^ 1 \<le> 2 ^ nat (min n 6)"
    by (intro power_increasing; simp)+
  ultimately show "reconnect_wait n = 2 ^ nat (min n 6)" "2 \<le> reconnect_wait n" "reconnect_wait n \<le> 64"
    by (auto simp: reconnect_wait_def maxReconnectBackoff_def Let_def)
qed

subsection \<open>What the calls keep\<close>

lemma keeps_with_client:
  assumes "keeps J p" "\<And>a c. I a \<Longrightarrow> agent_client a = Some c \<Longrightarrow> J c" "\<And>a c. I a \<Longrightarrow> J c \<Longrightarrow> I (put_client c a)"
  shows "keeps I (with_client p)"
  using assms by (auto simp: keeps_def with_client_def split: option.splits prod.splits) (metis snd_conv)

lemma keeps_with_client_any: "(\<And>a c. I a \<Longrightarrow> I (put_client c a)) \<Longrightarrow> keeps I (with_client p)"
  by (rule keeps_with_client [where J = "\<lambda>_. True"]) (auto simp: keeps_def)

lemma keeps_ignoring [intro]: "keeps I p \<Longrightarrow> keeps I (ignoring p)"
  by (simp add: keeps_def ignoring_def)

lemma keeps_case_pair [intro]: "(\<And>x y. keeps I (f x y)) \<Longrightarrow> keeps I (case z of (x, y) \<Rightarrow> f x y)"
  by (cases z) simp

lemma keeps_with_tunnel_reads: "(\<And>a t. I a \<Longrightarrow> agent_tunnel a = Some t \<Longrightarrow> I (put_tunnel t a)) \<Longrightarrow> keeps I (with_tunnel (reads f))"
  by (auto simp: keeps_def with_tunnel_def split: option.splits)

lemmas keeps_generic = keeps_andThen keeps_wrap keeps_return keeps_if keeps_basic keeps_modifies keeps_ignoring keeps_case_pair

text \<open>The heartbeats touch neither the state machine nor the identity, and they need no manager.\<close>

definition same_identity :: "Agent \<Rightarrow> Agent \<Rightarrow> bool" where
  "same_identity a b \<longleftrightarrow> ag_sm b = ag_sm a \<and> ag_config b = ag_config a \<and> ag_peerID b = ag_peerID a \<and> ag_memberID b = ag_memberID a \<and>
     ag_wgListenPort b = ag_wgListenPort a \<and> ag_virtualIP b = ag_virtualIP a"

lemma same_identity_put [simp]: "same_identity a (put_client c b) = same_identity a b" "same_identity a (put_tunnel t b) = same_identity a b"
  by (simp_all add: same_identity_def put_client_def put_tunnel_def split: option.split)

lemma heartbeat_endpoints_identity: "keeps (same_identity a) (heartbeat_endpoints env)"
  by (auto simp: keeps_def heartbeat_endpoints_def refreshEndpointIfNeeded_def same_identity_def Let_def split: sum.splits prod.splits if_splits)

lemma heartbeats_identity: "keeps (same_identity a) (sendMemberHeartbeat env)" "keeps (same_identity a) (sendHeartbeat env)"
proof -
  have parts: "keeps (same_identity a) (tell_manager e)" "keeps (same_identity a) tunnel_stats" for e
    unfolding tell_manager_def tunnel_stats_def
    by (rule keeps_modifies, simp add: same_identity_def) (rule keeps_with_tunnel_reads, simp)
  have client: "keeps (same_identity a) (with_client q)" for q :: "(Client, unit) procedure"
    by (rule keeps_with_client_any) simp
  show "keeps (same_identity a) (sendMemberHeartbeat env)" "keeps (same_identity a) (sendHeartbeat env)"
    unfolding sendMemberHeartbeat_def sendHeartbeat_def
    by (intro keeps_generic heartbeat_endpoints_identity parts client)+
qed

subsection \<open>The heartbeat loop\<close>

text \<open>Which of the ticks were answered.\<close>

fun loop_outcomes :: "bool \<Rightarrow> agent_env list \<Rightarrow> Agent \<Rightarrow> bool list" where
  "loop_outcomes useMemberToken [] a = []"
| "loop_outcomes useMemberToken (env # ticks) a =
     (case (if useMemberToken then sendMemberHeartbeat env else sendHeartbeat env) a of
        (Inl e, a1) \<Rightarrow> False # loop_outcomes useMemberToken ticks (a1\<lparr>ag_sm := sm_Set StateReconnecting (ag_sm a1)\<rparr>)
      | (Inr _, a1) \<Rightarrow> True # loop_outcomes useMemberToken ticks (a1\<lparr>ag_sm := sm_Set StateRunning (ag_sm a1)\<rparr>))"

text \<open>The failures since the last success, and the waits after each of them.\<close>

fun failures_after :: "int \<Rightarrow> bool list \<Rightarrow> int" where
  "failures_after n [] = n"
| "failures_after n (ok # oks) = failures_after (if ok then 0 else n + 1) oks"

fun waits_after :: "int \<Rightarrow> bool list \<Rightarrow> int list" where
  "waits_after n [] = []"
| "waits_after n (ok # oks) = (if ok then waits_after 0 oks else 2 ^ nat (min (n + 1) 6) # waits_after (n + 1) oks)"

lemma failures_after_nonneg: "0 \<le> n \<Longrightarrow> 0 \<le> failures_after n oks"
  by (induction oks arbitrary: n) auto

lemma waits_after_bounds: "0 \<le> n \<Longrightarrow> w \<in> set (waits_after n oks) \<Longrightarrow> 2 \<le> w \<and> w \<le> 64"
proof (induction oks arbitrary: n)
  case (Cons ok oks)
  then show ?case using reconnect_wait_value [of "n + 1"] Cons.IH [of "n + 1"] Cons.IH [of 0] by (auto split: if_splits)
qed simp

lemma sm_Set_same: "sm_state s = st \<Longrightarrow> sm_Set st s = s"
  by (simp add: sm_Set_def)

lemma heartbeat_state:
  "(if u then sendMemberHeartbeat env else sendHeartbeat env) a = (r, a1) \<Longrightarrow> CurrentState a1 = CurrentState a"
  using keepsD [OF heartbeats_identity(1), of a a env] keepsD [OF heartbeats_identity(2), of a a env]
  by (auto simp: same_identity_def CurrentState_def split: if_splits)

lemma heartbeatLoop_run:
  assumes "0 \<le> n" "CurrentState a = (if 0 < n then StateReconnecting else StateRunning)" "heartbeatLoop u ticks n a = (waits, m, a')"
  shows "m = failures_after n (loop_outcomes u ticks a) \<and> waits = waits_after n (loop_outcomes u ticks a) \<and>
    CurrentState a' = (if 0 < m then StateReconnecting else StateRunning)"
  using assms
proof (induction ticks arbitrary: n a waits)
  case (Cons env ticks)
  obtain r a1 where send: "(if u then sendMemberHeartbeat env else sendHeartbeat env) a = (r, a1)" by fastforce
  have st: "CurrentState a1 = CurrentState a" by (rule heartbeat_state [OF send])
  show ?case
  proof (cases r)
    case (Inl e)
    let ?a = "a1\<lparr>ag_sm := sm_Set StateReconnecting (ag_sm a1)\<rparr>"
    obtain ws where ws: "heartbeatLoop u ticks (n + 1) ?a = (ws, m, a')" "waits = reconnect_wait (n + 1) # ws"
      using Cons.prems(3) send Inl by (auto split: prod.splits)
    have "CurrentState ?a = (if 0 < n + 1 then StateReconnecting else StateRunning)" using Cons.prems(1) by (simp add: CurrentState_def)
    from Cons.IH [OF _ this ws(1)] Cons.prems(1) show ?thesis
      using send Inl ws(2) reconnect_wait_value(1) [of "n + 1"] by simp
  next
    case (Inr x)
    let ?a = "a1\<lparr>ag_sm := sm_Set StateRunning (ag_sm a1)\<rparr>"
    have same: "?a = a1" if "\<not> 0 < n"
    proof -
      have "sm_state (ag_sm a1) = StateRunning" using st Cons.prems(2) that by (simp add: CurrentState_def)
      then show ?thesis by (simp add: sm_Set_same)
    qed
    have "heartbeatLoop u ticks 0 ?a = (waits, m, a')"
      using Cons.prems(1,3) send Inr same by (auto split: if_splits) 
    from Cons.IH [OF _ _ this] show ?thesis using send Inr by (simp add: CurrentState_def)
  qed
qed simp

text \<open>
  C25. The heartbeat loop keeps the device's state and its patience. Run from the running state, the
  loop leaves the agent reconnecting exactly when the last heartbeats failed, with the number of
  failures since the last success; a success brings it back to running. After the k-th failure
  in a row it waits two to the power k seconds, from the sixth on 64 seconds, so no wait
  comes near the limit of two minutes.
\<close>

theorem heartbeat_loop_state:
  assumes "CurrentState a = StateRunning" "heartbeatLoop u ticks 0 a = (waits, m, a')"
  shows "m = failures_after 0 (loop_outcomes u ticks a) \<and> waits = waits_after 0 (loop_outcomes u ticks a) \<and>
    CurrentState a' = (if 0 < m then StateReconnecting else StateRunning) \<and> (\<forall>w \<in> set waits. 2 \<le> w \<and> w \<le> 64)"
  using heartbeatLoop_run [of 0 a u ticks waits m a'] assms waits_after_bounds [of 0] by auto

definition idle_agent :: Agent where
  "idle_agent = (NewAgent defaultConfig)\<lparr>ag_sm := NewStateMachine StateRunning\<rparr>"

theorem heartbeat_loop_state_witness:
  "\<forall>env. fst (heartbeatLoop True [env, env, env] 0 idle_agent) = [2, 4, 8] \<and>
     CurrentState (snd (snd (heartbeatLoop True [env, env, env] 0 idle_agent))) = StateReconnecting"
proof
  fix env
  have "sendMemberHeartbeat env (idle_agent\<lparr>ag_sm := s\<rparr>) = (Inl (Errorf ''send member heartbeat: member_id empty''), idle_agent\<lparr>ag_sm := s\<rparr>)" for s
    by (simp add: sendMemberHeartbeat_def idle_agent_def NewAgent_def)
  from this this [of "ag_sm idle_agent"] have o: "loop_outcomes True [env, env, env] idle_agent = [False, False, False]" by simp
  obtain waits m a' where run: "heartbeatLoop True [env, env, env] 0 idle_agent = (waits, m, a')" by (metis prod_cases3)
  have "CurrentState idle_agent = StateRunning" by (simp add: idle_agent_def CurrentState_def NewStateMachine_def)
  from heartbeat_loop_state [OF this run, unfolded o] have "m = 3" "waits = [2, 4, 8]" "CurrentState a' = StateReconnecting" by simp_all
  with run show "fst (heartbeatLoop True [env, env, env] 0 idle_agent) = [2, 4, 8] \<and>
     CurrentState (snd (snd (heartbeatLoop True [env, env, env] 0 idle_agent))) = StateReconnecting" by simp
qed

subsection \<open>The endpoints a device announces\<close>

text \<open>Nothing, or a routable IPv4 address with a port.\<close>

definition endpoint_ok :: "string \<Rightarrow> bool" where
  "endpoint_ok e \<longleftrightarrow> e = [] \<or> (\<exists>ip port. agent_isRoutableIPv4 (Some ip) \<and> e = JoinHostPort (IP_String ip) (Itoa port))"

fun body_endpoint :: "request_body \<Rightarrow> string" where
  "body_endpoint (StatusBody st) = pst_PublicEndpoint st"
| "body_endpoint (AnnounceBody an) = anr_PublicEndpoint an"
| "body_endpoint (MemberHeartbeatBody hb) = mhr_PublicEndpoint hb"
| "body_endpoint (MemberAnnounceBody an) = mar_PublicEndpoint an"
| "body_endpoint _ = []"

definition sent_ok :: "Client \<Rightarrow> bool" where
  "sent_ok c \<longleftrightarrow> (\<forall>rq \<in> set (ac_sent c). endpoint_ok (body_endpoint (hr_body rq)))"

definition announces_ok :: "Agent \<Rightarrow> bool" where
  "announces_ok a \<longleftrightarrow> endpoint_ok (ag_publicEndpoint a) \<and> (case agent_client a of None \<Rightarrow> True | Some c \<Rightarrow> sent_ok c)"

lemma agent_client_simps [simp]:
  "agent_client (a\<lparr>ag_publicEndpoint := e, ag_lastEndpointRefresh := now\<rparr>) = agent_client a"
  "agent_client (a\<lparr>ag_sm := sm\<rparr>) = agent_client a" "agent_client (a\<lparr>ag_holePuncher := h\<rparr>) = agent_client a"
  "agent_client (a\<lparr>ag_vncPort := n, ag_vncAvailable := v\<rparr>) = agent_client a"
  "agent_client (put_client c a) = Some c" "agent_client (put_tunnel t a) = agent_client a"
  "ag_publicEndpoint (put_client c a) = ag_publicEndpoint a" "ag_publicEndpoint (put_tunnel t a) = ag_publicEndpoint a"
  by (simp_all add: agent_client_def put_client_def put_tunnel_def split: option.split)

lemma endpoint_ok_Nil [simp]: "endpoint_ok []"
  by (simp add: endpoint_ok_def)

lemma routable_None: "agent_isRoutableIPv4 None = False"
  by (subst agent_isRoutableIPv4_def) (simp only: option.case)

lemma routable_Some: "agent_isRoutableIPv4 x \<Longrightarrow> \<exists>p. x = Some p \<and> agent_isRoutableIPv4 (Some p)"
  by (cases x) (simp_all only: routable_None, blast)

lemma discoverPublicIP_routable:
  assumes "discoverPublicIP env = Inr ip"
  shows "\<exists>p. agent_isRoutableIPv4 (Some p) \<and> ip = IP_String p"
proof -
  define viaStun where "viaStun = (case ae_discover env of Inr (x, _) \<Rightarrow> ParseIP (TrimSpace x) | Inl _ \<Rightarrow> None)"
  define fallback where "fallback = ParseIP (TrimSpace (getOutboundIP (ae_dialed env)))"
  have "agent_isRoutableIPv4 viaStun \<and> ip = IP_String (the viaStun) \<or> agent_isRoutableIPv4 fallback \<and> ip = IP_String (the fallback)"
    using assms unfolding discoverPublicIP_def Let_def viaStun_def [symmetric] fallback_def [symmetric]
    by (simp split: if_split_asm sum.split_asm)
  then show ?thesis using routable_Some by force
qed

lemma refresh_endpoint_ok:
  assumes "refreshEndpointIfNeeded env force a = (r, a')" "announces_ok a"
  shows "announces_ok a' \<and> (case r of Inr (e, _) \<Rightarrow> endpoint_ok e | Inl _ \<Rightarrow> True)"
proof -
  have fresh: "endpoint_ok (JoinHostPort ip (Itoa port))" if "discoverPublicIP env = Inr ip" for ip port
    using discoverPublicIP_routable [OF that] by (auto simp: endpoint_ok_def)
  then show ?thesis
    using assms by (auto simp: refreshEndpointIfNeeded_def Let_def announces_ok_def split: if_splits sum.splits)
qed

text \<open>Every attempt of a call sends the same request, up to the credentials.\<close>

lemma keeps_requests:
  assumes "\<And>d auth. applyAuth d mode = Inr auth \<Longrightarrow> P (build_request verb (base @ path) body auth)"
  shows "keeps (\<lambda>c. ac_baseURL c = base \<and> list_all P (ac_sent c)) (doJSON jc verb path body mode out target)"
proof -
  define I :: "Client \<Rightarrow> bool" where "I = (\<lambda>c. ac_baseURL c = base \<and> list_all P (ac_sent c))"
  have "I (snd (retry_loop jc out target verb (base @ path) body mode attempt lastErr c))" if "I c" for attempt lastErr c
    using that
  proof (induction "maxRetries - attempt" arbitrary: attempt lastErr c)
    case 0
    then show ?case by (simp add: retry_loop.simps)
  next
    case (Suc n)
    have slept: "I (c\<lparr>ac_slept := k\<rparr>)" for k using Suc.prems by (simp add: I_def)
    have sent: "I c2" if "httpDo (build_request verb (base @ path) body auth) (c\<lparr>ac_slept := k\<rparr>) = (outcome, c2)" "applyAuth d mode = Inr auth" for auth k outcome c2 d
      using Suc.prems that(1) assms [OF that(2)] by (auto simp: httpDo_def I_def split: list.splits)
    have next': "I (snd (retry_loop jc out target verb (base @ path) body mode (Suc attempt) e c2))" if "I c2" for e c2
      using Suc.hyps that by (intro Suc.hyps(1)) auto
    show ?case
      using slept Suc.prems by (subst retry_loop.simps) (auto simp: Let_def split: sum.splits prod.splits verdict.splits dest: sent intro: next')
  qed
  then have "I (snd (doJSON jc verb path body mode out target c))" if "I c" for c using that by (simp add: doJSON_def I_def)
  then show ?thesis unfolding I_def [symmetric] by (rule keepsI)
qed

lemma keeps_doJSON_sent:
  assumes "endpoint_ok (body_endpoint body)"
  shows "keeps sent_ok (doJSON jc verb path body mode out target)"
proof (rule keepsI)
  fix c assume "sent_ok c"
  have "keeps (\<lambda>d. ac_baseURL d = ac_baseURL c \<and> list_all (\<lambda>rq. endpoint_ok (body_endpoint (hr_body rq))) (ac_sent d)) (doJSON jc verb path body mode out target)"
    by (rule keeps_requests) (simp add: assms build_request_def)
  from keepsD [OF this, of c] \<open>sent_ok c\<close> show "sent_ok (snd (doJSON jc verb path body mode out target c))"
    by (simp add: sent_ok_def list_all_iff)
qed

lemma heartbeat_endpoints_ok:
  assumes "announces_ok a"
  obtains e l a' where "heartbeat_endpoints env a = (Inr (e, l), a')" "announces_ok a'" "endpoint_ok e"
proof -
  obtain r a' where r: "refreshEndpointIfNeeded env False a = (r, a')" by fastforce
  note ok = refresh_endpoint_ok [OF r assms]
  have "endpoint_ok (ag_publicEndpoint a)" using assms by (simp add: announces_ok_def)
  with ok have "endpoint_ok (case r of Inl _ \<Rightarrow> ag_publicEndpoint a | Inr (fresh, _) \<Rightarrow> if fresh \<noteq> [] then fresh else ag_publicEndpoint a)"
    by (cases r) auto
  with ok r show ?thesis by (intro that) (auto simp: heartbeat_endpoints_def Let_def)
qed

lemma keeps_announces_client:
  assumes "keeps sent_ok p"
  shows "keeps announces_ok (with_client p)"
  by (rule keeps_with_client [OF assms]) (simp_all add: announces_ok_def)

lemma keeps_announces_rest:
  "keeps announces_ok (tell_manager e)" "keeps announces_ok tunnel_stats" "keeps announces_ok (set_state st)"
proof -
  have "announces_ok (a\<lparr>ag_peerMgr := map_option (SetLocalPublicEndpoint e) (ag_peerMgr a)\<rparr>) = announces_ok a" for a
    by (simp add: announces_ok_def agent_client_def SetLocalPublicEndpoint_def split: option.split)
  then show "keeps announces_ok (tell_manager e)" by (simp add: tell_manager_def keeps_modifies)
  show "keeps announces_ok tunnel_stats" unfolding tunnel_stats_def by (rule keeps_with_tunnel_reads) (simp add: announces_ok_def)
  show "keeps announces_ok (set_state st)"
    unfolding set_state_def by (rule keeps_modifies) (simp add: announces_ok_def)
qed

lemma client_calls_sent:
  "endpoint_ok (mar_PublicEndpoint m) \<Longrightarrow> keeps sent_ok (client_MemberAnnounce jc i m)"
  "endpoint_ok (mhr_PublicEndpoint h) \<Longrightarrow> keeps sent_ok (client_MemberHeartbeat jc i h)"
  "endpoint_ok (anr_PublicEndpoint an) \<Longrightarrow> keeps sent_ok (client_Announce jc an)"
  "endpoint_ok (pst_PublicEndpoint p) \<Longrightarrow> keeps sent_ok (client_Heartbeat jc net i p)"
  "keeps sent_ok (client_RegisterPeer jc net rr)"
  unfolding client_MemberAnnounce_def client_MemberHeartbeat_def client_Announce_def client_Heartbeat_def client_RegisterPeer_def
  by (intro keeps_wrap keeps_doJSON_sent; simp)+

lemma heartbeats_announce:
  assumes "announces_ok a"
  shows "announces_ok (snd (sendMemberHeartbeat env a))" "announces_ok (snd (sendHeartbeat env a))"
proof -
  obtain e l a' where hb: "heartbeat_endpoints env a = (Inr (e, l), a')" "announces_ok a'" "endpoint_ok e"
    by (rule heartbeat_endpoints_ok [OF assms])
  note rules = keeps_generic keeps_announces_rest keeps_announces_client client_calls_sent
  show "announces_ok (snd (sendMemberHeartbeat env a))"
  proof (cases "ag_memberID a = []")
    case False
    let ?rest = "andThen (ignoring (with_client (client_MemberAnnounce (su_codec (ae_su env)) (ag_memberID a) \<lparr>mar_PublicEndpoint = e, mar_LocalEndpoints = l\<rparr>))) (\<lambda>_.
       andThen (tell_manager e) (\<lambda>_. andThen tunnel_stats (\<lambda>stats. with_client (client_MemberHeartbeat (su_codec (ae_su env)) (ag_memberID a)
         \<lparr>mhr_PublicEndpoint = e, mhr_LocalEndpoints = l, mhr_VNCAvailable = ag_vncAvailable a,
          mhr_RXBytes = sint (ts_RXBytes stats), mhr_TXBytes = sint (ts_TXBytes stats)\<rparr>))))"
    have "keeps announces_ok ?rest" by (intro rules; simp add: hb(3))
    then have "announces_ok (snd (?rest a'))" by (rule keepsD) (rule hb(2))
    then show ?thesis using False by (simp add: sendMemberHeartbeat_def hb(1) del: andThen_basic(4))
  qed (simp add: sendMemberHeartbeat_def assms)
  show "announces_ok (snd (sendHeartbeat env a))"
  proof (cases "ag_peerID a = []")
    case False
    let ?rest = "andThen (ignoring (with_client (client_Announce (su_codec (ae_su env)) \<lparr>anr_PeerID = ag_peerID a, anr_NetworkID = cf_NetworkID (ag_config a),
         anr_PublicEndpoint = e, anr_LocalEndpoints = l\<rparr>))) (\<lambda>_.
       andThen (tell_manager e) (\<lambda>_. andThen tunnel_stats (\<lambda>stats. with_client (client_Heartbeat (su_codec (ae_su env)) (cf_NetworkID (ag_config a)) (ag_peerID a)
         \<lparr>pst_PublicEndpoint = e, pst_LocalEndpoints = l, pst_VNCAvailable = ag_vncAvailable a,
          pst_RXBytes = sint (ts_RXBytes stats), pst_TXBytes = sint (ts_TXBytes stats), pst_RelayID = []\<rparr>))))"
    have "keeps announces_ok ?rest" by (intro rules; simp add: hb(3))
    then have "announces_ok (snd (?rest a'))" by (rule keepsD) (rule hb(2))
    then show ?thesis using False by (simp add: sendHeartbeat_def hb(1) del: andThen_basic(4))
  qed (simp add: sendHeartbeat_def assms)
qed

subsection \<open>Starting\<close>

text \<open>Before the tunnel: the client exists, nothing else does.\<close>

definition identifying :: "Agent \<Rightarrow> bool" where
  "identifying a \<longleftrightarrow> ag_peerMgr a = None \<and> ag_tunnel a = None \<and> ag_publicEndpoint a = [] \<and> (\<exists>c. ag_api a = Some c \<and> sent_ok c) \<and>
     CurrentState a \<in> {StateAuthenticating, StateRegistering}"

lemma keeps_identifying_client:
  assumes "keeps sent_ok p"
  shows "keeps identifying (with_client p)"
  by (rule keeps_with_client [OF assms]) (auto simp: identifying_def agent_client_def put_client_def CurrentState_def)

lemma sent_ok_modify: "(\<And>c. ac_sent (u c) = ac_sent c) \<Longrightarrow> keeps sent_ok (modifies u)"
  by (rule keeps_modifies) (simp add: sent_ok_def)

lemma keeps_sent_Login: "keeps sent_ok (Login jc email password)"
  unfolding Login_def
  by (intro keeps_andThen keeps_wrap keeps_doJSON_sent sent_ok_modify keeps_return) (simp_all add: SetToken_def SetAPIKey_def)

lemma keeps_identifying:
  "keeps identifying member_identity" "keeps identifying (registered_identity env)"
proof -
  have upd: "identifying a \<Longrightarrow> identifying (a\<lparr>ag_memberID := i, ag_memberToken := tk\<rparr>)" for a i tk
    by (simp add: identifying_def CurrentState_def)
  have key: "keeps sent_ok (modifies (SetMemberToken tk))" for tk by (rule sent_ok_modify) (simp add: SetMemberToken_def)
  show "keeps identifying member_identity"
    unfolding member_identity_def by (intro keeps_andThen keeps_basic keeps_return keeps_identifying_client key keeps_modifies upd)
  have login: "keeps identifying (with_client (Login jc em pw))" for jc em pw by (intro keeps_identifying_client keeps_sent_Login)
  have reset: "identifying a \<Longrightarrow> identifying (a\<lparr>ag_config := cfg, ag_api := Some (NewClient n u k)\<rparr>)" for a cfg n u k
    by (simp add: identifying_def CurrentState_def NewClient_def sent_ok_def)
  have reg: "identifying a \<Longrightarrow> identifying (a\<lparr>ag_sm := sm_Set StateRegistering (ag_sm a)\<rparr>)" for a
    by (simp add: identifying_def CurrentState_def)
  show "keeps identifying (registered_identity env)"
    unfolding registered_identity_def obtain_api_key_def set_state_def
    by (intro keeps_andThen keeps_basic keeps_return keeps_if keeps_wrap login keeps_modifies reset reg keeps_case_pair keeps_identifying_client client_calls_sent)
qed

text \<open>The tunnel is started by a call of \<open>Start\<close> exactly when the call succeeds; its address and its peers are not touched.\<close>

lemma Start_frame:
  assumes "Start wgInstalled now t = (r, t')" "\<not> wt_started t"
  shows "(wt_started t' \<longleftrightarrow> r = Inr ()) \<and> wt_peers t' = wt_peers t \<and> wt_virtualIP t' = wt_virtualIP t \<and> wt_cidr t' = wt_cidr t \<and> wt_listenPort t' = wt_listenPort t"
proof -
  have os: "wt_started (snd (on_os p u)) = wt_started u \<and> wt_peers (snd (on_os p u)) = wt_peers u \<and> wt_virtualIP (snd (on_os p u)) = wt_virtualIP u \<and>
      wt_cidr (snd (on_os p u)) = wt_cidr u \<and> wt_listenPort (snd (on_os p u)) = wt_listenPort u" for p :: "(machine, 'x) procedure" and u
    by (simp add: on_os_def on_field_def split: prod.split)
  have osE: "wt_started u' = wt_started u \<and> wt_peers u' = wt_peers u \<and> wt_virtualIP u' = wt_virtualIP u \<and> wt_cidr u' = wt_cidr u \<and>
      wt_listenPort u' = wt_listenPort u" if "on_os p u = (q, u')" for p :: "(machine, 'x) procedure" and u u' q
    using os [of p u] that by simp
  have wg: "wt_started (snd (setup_wg b u)) = wt_started u \<and> wt_peers (snd (setup_wg b u)) = wt_peers u \<and> wt_virtualIP (snd (setup_wg b u)) = wt_virtualIP u \<and>
      wt_cidr (snd (setup_wg b u)) = wt_cidr u \<and> wt_listenPort (snd (setup_wg b u)) = wt_listenPort u" for b u
    by (auto simp: setup_wg_def on_os_def on_field_def split: prod.splits sum.splits)
  have routes: "wt_started (start_routes now u) \<and> wt_peers (start_routes now u) = wt_peers u \<and> wt_virtualIP (start_routes now u) = wt_virtualIP u \<and>
      wt_cidr (start_routes now u) = wt_cidr u \<and> wt_listenPort (start_routes now u) = wt_listenPort u" for u
    by (simp add: start_routes_def Let_def on_os_def on_field_def split: prod.split)
  show ?thesis
  proof (cases "on_os (CreateTUN (wt_deviceName t) (wt_mtu t)) t")
    case (Pair q t1)
    show ?thesis
    proof (cases q)
      case (Inl e)
      then show ?thesis using assms Pair osE [OF Pair] by (auto simp: Start_def)
    next
      case (Inr dev)
      obtain q2 t2 where c: "on_os (device_Configure dev (wt_virtualIP t1) (wt_cidr t1)) t1 = (q2, t2)" by fastforce
      show ?thesis
      proof (cases q2)
        case Inl
        then show ?thesis using assms Pair Inr c osE [OF Pair] osE [OF c] os by (auto simp: Start_def)
      next
        case (Inr u)
        let ?t2 = "t2\<lparr>wt_device := Some dev, wt_deviceName := dev\<rparr>"
        have "r = Inr ()" "t' = start_routes now (snd (setup_wg wgInstalled ?t2))"
          using assms Pair \<open>q = Inr dev\<close> c Inr by (auto simp: Start_def Let_def)
        then show ?thesis using osE [OF Pair] osE [OF c] wg [of wgInstalled ?t2] routes by simp
      qed
    qed
  qed
qed

lemma start_tunnel_cases:
  assumes "start_tunnel env privateKey virtualIP networkCIDR a = (r, a')" "identifying a"
  shows "ag_peerMgr a' = None \<and> ag_sm a' = ag_sm a \<and> ag_api a' = ag_api a \<and> ag_publicEndpoint a' = [] \<and> ag_config a' = ag_config a \<and> ag_virtualIP a' = ag_virtualIP a \<and>
    ag_peerID a' = ag_peerID a \<and> 0 < ag_wgListenPort a' \<and>
    (case r of
       Inl _ \<Rightarrow> (\<forall>t. ag_tunnel a' = Some t \<longrightarrow> \<not> wt_started t)
     | Inr _ \<Rightarrow> (\<exists>t. ag_tunnel a' = Some t \<and> wt_started t \<and> wt_peers t = [] \<and> wt_virtualIP t = virtualIP \<and> wt_listenPort t = ag_wgListenPort a'))"
proof -
  let ?port = "maxInt (cf_WGListenPort (ag_config a)) 51820"
  let ?a = "a\<lparr>ag_wgListenPort := ?port\<rparr>"
  have port: "0 < ?port" by (simp add: maxInt_def)
  have id: "ag_peerMgr a = None" "ag_tunnel a = None" "ag_publicEndpoint a = []" using assms(2) by (simp_all add: identifying_def)
  show ?thesis
  proof (cases "NewWGTunnel (ae_machine env) privateKey virtualIP networkCIDR ?port")
    case (Inl e)
    then show ?thesis using assms(1) id port by (auto simp: start_tunnel_def procedure_defs)
  next
    case (Inr t)
    have t: "\<not> wt_started t" "wt_peers t = []" "wt_virtualIP t = virtualIP" "wt_listenPort t = ?port"
      using Inr by (auto simp: NewWGTunnel_def split: if_splits sum.splits)
    obtain q t' where st: "Start (ae_wgInstalled env) (ae_now env) t = (q, t')" by fastforce
    have "with_tunnel (Start (ae_wgInstalled env) (ae_now env)) (?a\<lparr>ag_tunnel := Some t\<rparr>) = (q, ?a\<lparr>ag_tunnel := Some t'\<rparr>)"
      using id st by (simp add: with_tunnel_def agent_tunnel_def put_tunnel_def)
    then have "a' = ?a\<lparr>ag_tunnel := Some t'\<rparr>" "(\<exists>x. r = Inr x) \<longleftrightarrow> q = Inr ()" 
      using assms(1) Inr by (auto simp: start_tunnel_def wrap_def andThen_def split: sum.splits prod.splits)
    then show ?thesis using Start_frame [OF st t(1)] t id port by (auto split: sum.splits)
  qed
qed

text \<open>Between the tunnel and the manager.\<close>

definition online_with :: "WGTunnel \<Rightarrow> Agent \<Rightarrow> Agent \<Rightarrow> bool" where
  "online_with t a0 a \<longleftrightarrow> ag_peerMgr a = None \<and> ag_tunnel a = Some t \<and> (\<exists>c. ag_api a = Some c) \<and> announces_ok a \<and>
     ag_config a = ag_config a0 \<and> ag_virtualIP a = ag_virtualIP a0 \<and> ag_peerID a = ag_peerID a0 \<and> ag_wgListenPort a = ag_wgListenPort a0"

lemma keeps_online_client:
  assumes "keeps sent_ok p"
  shows "keeps (online_with t a0) (with_client p)"
  by (rule keeps_with_client [OF assms]) (auto simp: online_with_def announces_ok_def agent_client_def put_client_def)

lemma keeps_online_announce:
  assumes "endpoint_ok e"
  shows "keeps (online_with t a0) (announce_presence env u pid e l)"
proof -
  note calls = client_calls_sent
  show ?thesis
    unfolding announce_presence_def Let_def
    by (intro keeps_andThen keeps_basic keeps_if keeps_return keeps_ignoring keeps_online_client calls) (simp_all add: assms)
qed

lemma keeps_online_rest: "keeps (online_with t a0) (probe_vnc env)" "keeps (online_with t a0) (set_state st)"
  unfolding probe_vnc_def set_state_def
  by (rule keeps_modifies; simp add: online_with_def announces_ok_def)+

lemma announce_presence_succeeds:
  obtains a' where "announce_presence env u pid e l a = (Inr (), a')"
proof -
  have "fst (announce_presence env u pid e l a) = Inr ()" by (simp add: announce_presence_def Let_def ignoring_def procedure_defs)
  then show ?thesis by (intro that) (simp add: prod_eq_iff)
qed

lemma go_online_runs:
  assumes "online_with t a a"
  obtains a' m where "go_online env u pid a = (Inr (), a')" "CurrentState a' = StateRunning" "ag_peerMgr a' = Some m" "pm_tunnel m = t" "pm_peers m = []"
    "pm_memberID m = (if u then pid else [])" "announces_ok a'" "ag_virtualIP a' = ag_virtualIP a" "ag_peerID a' = ag_peerID a"
proof -
  define a1 where "a1 = a\<lparr>ag_holePuncher := (case ae_puncher env of Inl _ \<Rightarrow> None | Inr port \<Rightarrow> Some port)\<rparr>"
  define a2 where "a2 = a1\<lparr>ag_sm := sm_Set StateDiscovering (ag_sm a1)\<rparr>"
  have a2: "online_with t a a2" using assms(1) by (simp add: a1_def a2_def online_with_def announces_ok_def)
  obtain r a3 where r: "refreshEndpointIfNeeded env True a2 = (r, a3)" by fastforce
  define e where "e = (case r of Inl _ \<Rightarrow> [] | Inr (endpoint, _) \<Rightarrow> endpoint)"
  have ok: "announces_ok a3" "endpoint_ok e"
    using refresh_endpoint_ok [OF r] a2 by (auto simp: online_with_def e_def split: sum.splits)
  have a3: "online_with t a a3"
    using a2 r ok(1) by (auto simp: online_with_def refreshEndpointIfNeeded_def Let_def split: if_splits sum.splits)
  define l where "l = getLocalIPsWithPort (ae_ifaces env) (ag_wgListenPort a3)"
  obtain a4 where a4: "announce_presence env u pid e l a3 = (Inr (), a4)" by (rule announce_presence_succeeds)
  have "online_with t a a4" using keepsD [OF keeps_online_announce [OF ok(2)] a3, of env u pid l] a4 by simp
  then have a6: "online_with t a (snd (set_state StateConnecting (snd (probe_vnc env a4))))"
    by (intro keepsD [OF keeps_online_rest(1)] keepsD [OF keeps_online_rest(2)])
  define a6 where "a6 = snd (set_state StateConnecting (snd (probe_vnc env a4)))"
  obtain c where c: "ag_peerMgr a6 = None" "ag_tunnel a6 = Some t" "ag_api a6 = Some c" "announces_ok a6" "ag_virtualIP a6 = ag_virtualIP a" "ag_peerID a6 = ag_peerID a"
    using a6 unfolding a6_def [symmetric] online_with_def by blast
  have sent: "sent_ok c" "endpoint_ok (ag_publicEndpoint a6)" using c by (simp_all add: announces_ok_def agent_client_def)
  obtain m fw where m: "start_peer_manager u pid e a6 = (Inr (), a6\<lparr>ag_peerMgr := Some m, ag_forwarding := fw\<rparr>)" "pm_tunnel m = t" "pm_api m = c"
    "pm_peers m = []" "pm_memberID m = (if u then pid else [])"
    using c by (simp add: start_peer_manager_def NewPeerManager_def SetMemberID_def SetLocalPublicEndpoint_def SetSyncInterval_def Let_def)
  let ?a7 = "a6\<lparr>ag_peerMgr := Some m, ag_forwarding := fw\<rparr>"
  have "go_online env u pid a = set_state StateRunning ?a7"
  proof -
    define discover :: "(Agent, string) procedure" where
      "discover = (\<lambda>b. case refreshEndpointIfNeeded env True b of (Inl _, x) \<Rightarrow> (Inr [], x) | (Inr (endpoint, _), x) \<Rightarrow> (Inr endpoint, x))"
    have disc: "discover a2 = (Inr e, a3)" using r by (simp add: discover_def e_def split: sum.split prod.split)
    have steps: "probe_vnc env a4 = (Inr (), snd (probe_vnc env a4))" "set_state StateConnecting x = (Inr (), snd (set_state StateConnecting x))" for x
      by (simp_all add: probe_vnc_def set_state_def)
    have "go_online env u pid a = andThen (set_state StateConnecting) (\<lambda>_. andThen (start_peer_manager u pid e) (\<lambda>_. set_state StateRunning)) (snd (probe_vnc env a4))"
      using disc a4 steps(1) by (simp add: go_online_def discover_def [symmetric] a1_def [symmetric] set_state_def a2_def [symmetric] l_def)
    also have "\<dots> = set_state StateRunning ?a7"
      using steps(2) [of "snd (probe_vnc env a4)"] m(1) by (simp add: a6_def [symmetric])
    finally show ?thesis .
  qed
  then have run: "go_online env u pid a = (Inr (), ?a7\<lparr>ag_sm := sm_Set StateRunning (ag_sm ?a7)\<rparr>)" by (simp add: set_state_def)
  show ?thesis
    by (rule that [OF run, where m = m]) (simp_all add: m c sent CurrentState_def announces_ok_def agent_client_def)
qed

definition tunnel_down :: "Agent \<Rightarrow> bool" where
  "tunnel_down a \<longleftrightarrow> (case agent_tunnel a of None \<Rightarrow> True | Some t \<Rightarrow> \<not> wt_started t)"

lemma identified_start:
  assumes "identifying a" "a1 = a\<lparr>ag_virtualIP := virtualIP, ag_peerID := peerID\<rparr>"
  shows "case andThen (start_tunnel env privateKey virtualIP networkCIDR) (\<lambda>_. go_online env u peerID) a1 of
      (Inr _, a') \<Rightarrow> CurrentState a' = StateRunning \<and> announces_ok a' \<and> ag_virtualIP a' = virtualIP \<and>
        (\<exists>m. ag_peerMgr a' = Some m \<and> wt_started (pm_tunnel m) \<and> wt_peers (pm_tunnel m) = [] \<and> wt_virtualIP (pm_tunnel m) = virtualIP \<and>
           pm_peers m = [] \<and> pm_memberID m = (if u then peerID else []))
    | (Inl _, a') \<Rightarrow> CurrentState a' \<in> {StateAuthenticating, StateRegistering} \<and> announces_ok a' \<and> ag_peerMgr a' = None \<and> tunnel_down a'"
proof -
  have id: "identifying a1" using assms by (simp add: identifying_def CurrentState_def)
  obtain r a2 where st: "start_tunnel env privateKey virtualIP networkCIDR a1 = (r, a2)" by fastforce
  note cases = start_tunnel_cases [OF st id]
  show ?thesis
  proof (cases r)
    case (Inl e)
    then show ?thesis using st cases id
      by (auto simp: identifying_def CurrentState_def tunnel_down_def agent_tunnel_def announces_ok_def agent_client_def split: option.split)
  next
    case (Inr x)
    then obtain t where t: "ag_tunnel a2 = Some t" "wt_started t" "wt_peers t = []" "wt_virtualIP t = virtualIP" using cases by auto
    have "online_with t a2 a2"
      using id cases t(1) by (auto simp: online_with_def identifying_def announces_ok_def agent_client_def)
    then obtain a' m where run: "go_online env u peerID a2 = (Inr (), a')" "CurrentState a' = StateRunning" "ag_peerMgr a' = Some m" "pm_tunnel m = t"
      "pm_peers m = []" "pm_memberID m = (if u then peerID else [])" "announces_ok a'" "ag_virtualIP a' = ag_virtualIP a2"
      by (rule go_online_runs)
    moreover have "ag_virtualIP a2 = virtualIP" using cases assms(2) by simp
    ultimately show ?thesis using st Inr t by simp
  qed
qed

lemma agent_Start_cases:
  assumes "sm_state sm = StateInit"
  shows "case agent_Start env ((NewAgent cfg)\<lparr>ag_sm := sm\<rparr>) of
     (Inr _, a) \<Rightarrow> CurrentState a = StateRunning \<and> announces_ok a \<and>
       (\<exists>m. ag_peerMgr a = Some m \<and> wt_started (pm_tunnel m) \<and> wt_peers (pm_tunnel m) = [] \<and> wt_virtualIP (pm_tunnel m) = ag_virtualIP a \<and>
          pm_peers m = [] \<and> pm_memberID m = (if use_member_token cfg then cf_MemberID cfg else []))
   | (Inl _, a) \<Rightarrow> CurrentState a \<in> {StateInit, StateAuthenticating, StateRegistering} \<and> announces_ok a \<and> ag_peerMgr a = None \<and> tunnel_down a"
proof -
  let ?a = "(NewAgent cfg)\<lparr>ag_sm := sm_Set StateAuthenticating sm, ag_api := Some (NewClient (ae_network env) (cf_ServerURL cfg) (cf_APIKey cfg))\<rparr>"
  let ?identify = "if use_member_token cfg then member_identity else registered_identity env"
  have "identifying ?a" by (simp add: identifying_def NewAgent_def CurrentState_def NewClient_def sent_ok_def)
  moreover have "keeps identifying ?identify" using keeps_identifying by simp
  obtain r a1 where r: "?identify ?a = (r, a1)" by fastforce
  ultimately have id: "identifying a1" using keepsD [of identifying ?identify ?a] \<open>keeps identifying ?identify\<close> by simp
  have member: "pid = cf_MemberID cfg" if "use_member_token cfg" "r = Inr (k, v, n, pid)" for k v n pid
    using r that by (auto simp: member_identity_def andThen_eq_Inr basic_eq_Inr NewAgent_def)
  consider (url) "TrimSpace (cf_ServerURL cfg) = []" | (net) "TrimSpace (cf_ServerURL cfg) \<noteq> []" "TrimSpace (cf_NetworkID cfg) = []"
    | (go) "TrimSpace (cf_ServerURL cfg) \<noteq> []" "TrimSpace (cf_NetworkID cfg) \<noteq> []" by blast
  then show ?thesis
  proof cases
    case go
    define continue where "continue = (\<lambda>(privateKey, virtualIP, networkCIDR, peerID). andThen (modifies (\<lambda>a. a\<lparr>ag_virtualIP := virtualIP, ag_peerID := peerID\<rparr>)) (\<lambda>_.
       andThen (start_tunnel env privateKey virtualIP networkCIDR) (\<lambda>_. go_online env (use_member_token cfg) peerID)))"
    have start: "agent_Start env ((NewAgent cfg)\<lparr>ag_sm := sm\<rparr>) = andThen ?identify continue ?a"
      using go by (simp add: agent_Start_def continue_def set_state_def NewAgent_def)
    show ?thesis
    proof (cases r)
      case (Inl e)
      then show ?thesis using start r id by (auto simp: identifying_def tunnel_down_def agent_tunnel_def announces_ok_def agent_client_def)
    next
      case (Inr x)
      obtain k v n pid where x: "x = (k, v, n, pid)" by (metis prod_cases4)
      have "agent_Start env ((NewAgent cfg)\<lparr>ag_sm := sm\<rparr>) = andThen (start_tunnel env k v n) (\<lambda>_. go_online env (use_member_token cfg) pid) (a1\<lparr>ag_virtualIP := v, ag_peerID := pid\<rparr>)"
        using start r Inr x by (simp add: continue_def)
      with identified_start [OF id refl, where virtualIP = v and peerID = pid and env = env and privateKey = k and networkCIDR = n and u = "use_member_token cfg"] member [of k v n pid] Inr x show ?thesis
        by (auto split: prod.splits sum.splits)
    qed
  qed (use assms in \<open>simp_all add: agent_Start_def NewAgent_def CurrentState_def tunnel_down_def agent_tunnel_def announces_ok_def agent_client_def\<close>)
qed

lemma NewAgent_state: "(NewAgent cfg)\<lparr>ag_sm := NewStateMachine StateInit\<rparr> = NewAgent cfg" "sm_state (NewStateMachine StateInit) = StateInit"
  by (simp_all add: NewAgent_def NewStateMachine_def)

lemmas fresh_Start_cases = agent_Start_cases [OF NewAgent_state(2), unfolded NewAgent_state(1)]

text \<open>
  C16. Starting the agent is all or nothing. When \<open>Start\<close> returns without an error the agent is
  running, its peer manager exists without peers over a started tunnel that has the device's
  address and no peers, under the member identifier of the configuration when it uses one. When it returns an error, at whatever
  step, the agent got no further than the registration, has no peer manager and no started tunnel.
\<close>

theorem agent_start_all_or_nothing:
  "case agent_Start env (NewAgent cfg) of
     (Inr _, a) \<Rightarrow> CurrentState a = StateRunning \<and>
       (\<exists>m. ag_peerMgr a = Some m \<and> wt_started (pm_tunnel m) \<and> wt_peers (pm_tunnel m) = [] \<and> wt_virtualIP (pm_tunnel m) = ag_virtualIP a \<and>
          pm_peers m = [] \<and> pm_memberID m = (if use_member_token cfg then cf_MemberID cfg else []))
   | (Inl _, a) \<Rightarrow> CurrentState a \<in> {StateInit, StateAuthenticating, StateRegistering} \<and> ag_peerMgr a = None \<and> tunnel_down a"
  using fresh_Start_cases [where env = env and cfg = cfg] by (auto split: prod.splits sum.splits)

lemma heartbeatLoop_announces:
  "announces_ok a \<Longrightarrow> announces_ok (snd (snd (heartbeatLoop u ticks n a)))"
proof (induction u ticks n a rule: heartbeatLoop.induct)
  case (2 u env ticks n a)
  obtain r a1 where r: "(if u then sendMemberHeartbeat env else sendHeartbeat env) a = (r, a1)" by fastforce
  have "announces_ok a1" using heartbeats_announce [OF 2(4), of env] r by (auto split: if_splits)
  then have "announces_ok (a1\<lparr>ag_sm := s\<rparr>)" for s by (simp add: announces_ok_def)
  then show ?case using 2(1,2,3) [OF r [symmetric]] r \<open>announces_ok a1\<close> by (auto split: sum.splits prod.splits)
qed simp

text \<open>
  C17. A device only ever announces endpoints other devices can reach. In the whole life of the
  agent, from its start through any number of heartbeats, whatever the STUN servers and the local
  routing table answer, every request sent to the server, announcement or heartbeat, carries either
  no public endpoint or an IPv4 address that is not loopback, multicast, unspecified, private,
  link-local or of a carrier's NAT, with a port.
\<close>

theorem announced_endpoints_routable:
  "case agent_client (snd (snd (heartbeatLoop u ticks 0 (snd (agent_Start env (NewAgent cfg)))))) of
     None \<Rightarrow> True
   | Some c \<Rightarrow> list_all (\<lambda>rq. body_endpoint (hr_body rq) = [] \<or>
       (\<exists>ip port. agent_isRoutableIPv4 (Some ip) \<and> body_endpoint (hr_body rq) = JoinHostPort (IP_String ip) (Itoa port))) (ac_sent c)"
proof -
  have "announces_ok (snd (agent_Start env (NewAgent cfg)))"
    using fresh_Start_cases [where env = env and cfg = cfg] by (auto split: prod.splits sum.splits)
  then have "announces_ok (snd (snd (heartbeatLoop u ticks 0 (snd (agent_Start env (NewAgent cfg))))))" by (rule heartbeatLoop_announces)
  then show ?thesis unfolding endpoint_ok_def [symmetric] by (simp add: announces_ok_def sent_ok_def list_all_iff split: option.split_asm option.split)
qed

subsection \<open>Stopping\<close>

lemma Stop_stops:
  assumes "Stop t = (r, t')"
  shows "(\<exists>e. r = Inl e) \<or> \<not> wt_started t' \<and> (wt_started t \<longrightarrow> wt_peers t' = [])"
  using assms by (auto simp: Stop_def Let_def andThen_def split: if_splits option.splits prod.splits sum.splits)

lemma manager_Stop_peers: "pm_peers (manager_Stop m) = []"
  using fold_disconnect [of "map fst (pm_peers m)" m] by (simp add: manager_Stop_def filter_empty_conv)

text \<open>
  Stopping always ends in the stopped state with no connection recorded; the tunnel still runs only
  when its own \<open>Stop\<close> failed.
\<close>

lemma agent_Stop_cases:
  "case agent_Stop closeErr a of
     (r, a') \<Rightarrow> CurrentState a' = StateStopped \<and> agent_Connections a' = [] \<and> ag_cancelled a' \<and>
       (case r of Inr _ \<Rightarrow> tunnel_down a' | Inl _ \<Rightarrow> tunnel_down a' \<or> (\<exists>t e. fst (Stop t) = Inl e \<and> agent_tunnel a' = Some (snd (Stop t))))"
proof -
  define a1 where "a1 = a\<lparr>ag_cancelled := True, ag_peerMgr := map_option manager_Stop (ag_peerMgr a)\<rparr>"
  define err where "err = (if ag_holePuncher a1 \<noteq> None then map_option (Wrapf ''agent stop: close hole puncher'') closeErr else None)"
  have a1: "agent_Connections a1 = []" "ag_cancelled a1"
    by (simp_all add: a1_def agent_Connections_def ListConnections_def manager_Stop_peers split: option.split)
  show ?thesis
  proof (cases "agent_tunnel a1")
    case None
    then have "agent_Stop closeErr a = (case err of Some e \<Rightarrow> Inl e | None \<Rightarrow> Inr (), a1\<lparr>ag_sm := sm_Set StateStopped (ag_sm a1)\<rparr>)"
      by (simp add: agent_Stop_def a1_def err_def Let_def split: option.split)
    then show ?thesis using a1 None
      by (simp add: CurrentState_def agent_Connections_def tunnel_down_def agent_tunnel_def split: option.splits)
  next
    case (Some t)
    obtain r t' where st: "Stop t = (r, t')" by fastforce
    define a2 where "a2 = (put_tunnel t' a1)\<lparr>ag_sm := sm_Set StateStopped (ag_sm (put_tunnel t' a1))\<rparr>"
    have run: "agent_Stop closeErr a = (case err of Some e \<Rightarrow> Inl e | None \<Rightarrow> (case r of Inl e \<Rightarrow> Inl (Wrapf ''agent stop: stop tunnel'' e) | Inr _ \<Rightarrow> Inr ()), a2)"
      using Some st by (simp add: agent_Stop_def a1_def err_def a2_def with_tunnel_def Let_def split: sum.split option.split)
    have a2: "CurrentState a2 = StateStopped" "agent_Connections a2 = []" "ag_cancelled a2" "agent_tunnel a2 = Some t'"
      using a1 by (simp_all add: a2_def CurrentState_def agent_Connections_def agent_tunnel_def put_tunnel_def ListConnections_def split: option.splits)
    have "tunnel_down a2 \<or> (\<exists>e. r = Inl e)" using Stop_stops [OF st] a2(4) by (auto simp: tunnel_down_def)
    then show ?thesis using run a2 st by (cases r; cases err) (auto intro!: exI [of _ t])
  qed
qed

text \<open>
  C26. A session of the client leaves nothing behind. Whatever happens while the agent runs, when
  the command that started it returns without an error the agent is stopped, has no connection left
  and its tunnel is down, even when the hole puncher could not be closed, except when
  the tunnel's own \<open>Stop\<close> failed; when the command fails because the agent did not start, there is
  no peer manager and no started tunnel.
\<close>

theorem session_leaves_no_tunnel:
  "case startAgent env live close1 close2 cfg of
     (Inr _, a) \<Rightarrow> CurrentState a = StateStopped \<and> agent_Connections a = [] \<and>
       (tunnel_down a \<or> (\<exists>t e. fst (Stop t) = Inl e \<and> agent_tunnel a = Some (snd (Stop t))))
   | (Inl _, a) \<Rightarrow> ag_peerMgr a = None \<and> tunnel_down a"
proof -
  let ?a = "(NewAgent cfg)\<lparr>ag_sm := OnStateChange (Some 0) (ag_sm (NewAgent cfg))\<rparr>"
  have init: "sm_state (OnStateChange (Some 0) (ag_sm (NewAgent cfg))) = StateInit" by (simp add: OnStateChange_def NewAgent_def NewStateMachine_def)
  obtain r a where st: "agent_Start env ?a = (r, a)" by fastforce
  show ?thesis
  proof (cases r)
    case (Inl e)
    then show ?thesis using agent_Start_cases [OF init, where env = env and cfg = cfg] st by (simp add: startAgent_def)
  next
    case (Inr x)
    then show ?thesis
      using st agent_Stop_cases [where closeErr = close2 and a = "snd (agent_Stop close1 (live a))"]
      by (auto simp: startAgent_def split: prod.splits sum.splits)
  qed
qed

subsection \<open>The quality monitor\<close>

text \<open>
  A directly connected peer that accepts no connection on the VNC port is taken for a slow one and
  moved to the relay; while the kernel's WireGuard runs, the attempt to move a relayed peer back does nothing.
\<close>

lemma peer_without_vnc_is_relayed:
  assumes "cn_ConnectedVia c = ''p2p''" "dials (cn_VirtualIP c) = (None, None, None)"
  shows "monitor_connection su now dials n c m = snd (ForceRelay su now (cn_PeerID c) m)"
  using assms by (simp add: monitor_connection_def latency_without_server)

lemma monitor_never_restores:
  assumes "cn_ConnectedVia c = ''relay''" "wt_wgReady (pm_tunnel m)"
  shows "monitor_connection su now dials n c m = m"
  using assms by (simp add: monitor_connection_def AttemptDirect_def)

subsection \<open>Raw forwarding\<close>

text \<open>What one side forwards the other side's device gets unchanged.\<close>

lemma forward_roundtrip:
  assumes "forward_out resolve t packet = Some (datagram, addr)"
  shows "forward_in datagram = Some packet"
  using assms by (simp add: forward_out_def forward_in_def forward_magic_def Let_def split: if_split_asm option.split_asm) auto

text \<open>A packet for an address no peer has, an IPv6 packet's destination read as IPv4 included, is dropped.\<close>

lemma forward_needs_peer: "forward_out resolve t packet = Some (datagram, addr) \<Longrightarrow>
   \<exists>endpoint. FindEndpointByVirtualIP (IPv4_String (word_rcat (take 4 (drop 16 packet)))) t = Some endpoint \<and> resolve endpoint = Some addr"
  by (auto simp: forward_out_def Let_def split: if_splits option.splits)

subsection \<open>From joining to starting\<close>

lemma GenerateKeyPair_nonblank:
  assumes "GenerateKeyPair x (Inr buf) = Inr (priv, pub)" "length buf = 32"
  shows "TrimSpace priv \<noteq> []"
proof -
  have "priv = EncodeToString (clampPrivateKey buf)" "length (clampPrivateKey buf) = 32"
    using assms by (auto simp: GenerateKeyPair_def clampPrivateKey_def Let_def split: sum.splits)
  then show ?thesis using encoded_key_valid by simp
qed


definition demo_key :: string where "demo_key = EncodeToString (clampPrivateKey (replicate 32 7))"

definition demo_answer :: joinResp where
  "demo_answer = \<lparr>jq_MemberID = ''m1'', jq_MemberToken = ''t1'', jq_Status = ''pending'', jq_VirtualIP = [], jq_NetworkCIDR = ''10.7.0.0/16'',
     jq_NetworkName = ''home'', jq_Message = []\<rparr>"

definition demo_join_net :: join_net where
  "demo_join_net = \<lparr>jn_goos = ''linux'', jn_goarch = ''amd64'', jn_marshal = (\<lambda>_. Inr []), jn_post = (\<lambda>_ _. Inr (Inr [])),
     jn_envelope = (\<lambda>_. Inr (True, [], [])), jn_data = (\<lambda>_. Inr demo_answer)\<rparr>"

definition demo_joined :: Config where
  "demo_joined = joined_config ''http://vpn.example:3000'' ''net1'' ''laptop'' demo_key (demo_answer\<lparr>jq_Status := ''approved'', jq_VirtualIP := ''10.7.0.2''\<rparr>)"

definition demo_codec :: config_codec where
  "demo_codec = \<lparr>cc_unmarshal = (\<lambda>_ s. if s = ''{}'' then Inr demo_joined else Inl (Errorf ''json'')),
     cc_marshal = (\<lambda>c. if c = demo_joined then Inr ''{}'' else Inl (Errorf ''json''))\<rparr>"

lemma ValidString_ascii: "\<forall>c \<in> set s. (of_char c :: nat) < 128 \<Longrightarrow> ValidString s"
  unfolding ValidString_def by (induction s) (simp_all add: Let_def)

lemma alphabet_ascii: "list_all (\<lambda>c. (of_char c :: nat) < 128) (CHR ''='' # b64_alphabet)"
  by code_simp

text \<open>Base64 text is carried by JSON unchanged.\<close>

lemma encoded_key_text: "ValidString (EncodeToString bs)"
proof (rule ValidString_ascii, rule ballI)
  fix c assume "c \<in> set (EncodeToString bs)"
  then have "c \<in> set (CHR ''='' # b64_alphabet)" using b64_quads_chars [OF decode_encode, of c bs] b64_val_plain [of c] by auto
  then show "(of_char c :: nat) < 128" using alphabet_ascii unfolding list_all_iff by blast
qed

lemma demo_join:
  "runJoin demo_join_net [''vpn.example'', '' net1''] [] ''laptop'' (GenerateKeyPair Inr (Inr (replicate 32 7))) [None, Some (''approved'', ''10.7.0.2'')]
     (\<lambda>c. case Save demo_codec (Inr ''/c'') None None c of Inl e \<Rightarrow> Some e | Inr _ \<Rightarrow> None) = Some (Inr demo_joined)"
proof -
  have keys: "GenerateKeyPair Inr (Inr (replicate 32 7)) = Inr (demo_key, demo_key)"
    by (simp only: GenerateKeyPair_def Let_def sum.case demo_key_def)
  have args: "normalizeServerURL ''vpn.example'' = ''http://vpn.example:3000''" "TrimSpace '' net1'' = ''net1''" by code_simp+
  show ?thesis
    unfolding runJoin_def keys
    by (simp add: args doPost_def demo_join_net_def demo_answer_def demo_joined_def Save_def demo_codec_def Let_def)
qed


end
