(* ===== verification/Platforms.thy ===== *)
theory Platforms
  imports Tunnel NatTraversal
begin

text \<open>
  The tunnel's platforms other than Linux: \<open>tun_windows.go\<close> and \<open>platform_windows.go\<close>, where
  WireGuard runs inside the process on a wintun adapter, and \<open>tun_darwin.go\<close> and
  \<open>routes_darwin.go\<close>. The host is the list of the calls the program made, each with its outcome,
  and an oracle that decides the outcome of the calls to come from the call and its position: any
  program may fail to run and any call of \<open>wireguard-go\<close> may return an error. What the WireGuard
  device and the firewall then hold is computed from the calls.
\<close>

subsection \<open>The host\<close>

text \<open>
  Programs run with \<open>os/exec\<close>, by their name, arguments and standard input, and the calls of
  \<open>golang.zx2c4.com/wireguard\<close>. A failed \<open>IpcSet\<close> has applied some of its lines.
\<close>

datatype host_call =
    Exec string "string list" string
  | TunCreate string int
  | TunName string
  | TunClose
  | NewDevice
  | IpcSet string
  | DeviceUp
  | DeviceClose
  | UAPIListen string
  | UAPIClose

datatype host_outcome = Ran string | Failed nat string

record host_os =
  ho_trace :: "(host_call \<times> host_outcome) list"
  ho_oracle :: "nat \<Rightarrow> host_call \<Rightarrow> host_outcome"
  ho_slept :: int

definition host_do :: "host_call \<Rightarrow> (host_os, host_outcome) procedure" where
  "host_do c =
     (\<lambda>h. let out = ho_oracle h (length (ho_trace h)) c
          in (Inr out, h\<lparr>ho_trace := ho_trace h @ [(c, out)]\<rparr>))"

definition succeeded :: "host_outcome \<Rightarrow> bool" where
  "succeeded out = (case out of Ran _ \<Rightarrow> True | Failed _ _ \<Rightarrow> False)"

fun said :: "host_outcome \<Rightarrow> string" where
  "said (Ran s) = s"
| "said (Failed n s) = s"

text \<open>A call whose outcome is dropped, and one whose failure is returned.\<close>

definition host_try :: "host_call \<Rightarrow> (host_os, unit) procedure" where
  "host_try c = andThen (host_do c) (\<lambda>_. return ())"

definition host_check :: "host_call \<Rightarrow> (host_os, unit) procedure" where
  "host_check c = andThen (host_do c) (\<lambda>out. if succeeded out then return () else raise (Errorf (said out)))"

text \<open>\<open>time.Sleep\<close>, in milliseconds.\<close>

definition sleeps :: "int \<Rightarrow> (host_os, unit) procedure" where
  "sleeps ms = modifies (\<lambda>h. h\<lparr>ho_slept := ho_slept h + ms\<rparr>)"

text \<open>A script in which a value stands between single quotes, and the call of PowerShell.\<close>

definition quoted :: "string \<Rightarrow> string" where
  "quoted s = [CHR 0x27] @ s @ [CHR 0x27]"

definition powershell :: "string \<Rightarrow> host_call" where
  "powershell script = Exec ''powershell'' [''-Command'', script] []"

subsection \<open>tun\_windows.go: helpers\<close>

definition b64ToHex :: "string \<Rightarrow> go_error + string" where
  "b64ToHex b64 =
     (case DecodeString (TrimSpace b64) of
        None \<Rightarrow> Inl (Errorf ''illegal base64 data'')
      | Some raw \<Rightarrow>
          if length raw \<noteq> 32 then Inl (Errorf (''expected 32-byte key, got '' @ nat_digits (length raw)))
          else Inr (hex_EncodeToString raw))"

definition cidrToBits :: "string \<Rightarrow> int" where
  "cidrToBits cidr0 =
     (let cidr1 = (if Contains cidr0 ''/'' then last (Split cidr0 (CHR ''/'')) else cidr0);
          cidr = TrimPrefix cidr1 ''/''
      in case Atoi cidr of
           None \<Rightarrow> 24
         | Some bits \<Rightarrow> if bits \<le> 0 \<or> 32 < bits then 24 else bits)"

text \<open>A negative shift count is a run-time panic, \<open>None\<close>; a count of 32 or more shifts every bit out.\<close>

definition netmask_text :: "u32 \<Rightarrow> string" where
  "netmask_text m =
     nat_digits (unat (drop_bit 24 m AND 0xFF)) @ ''.'' @ nat_digits (unat (drop_bit 16 m AND 0xFF)) @ ''.'' @
     nat_digits (unat (drop_bit 8 m AND 0xFF)) @ ''.'' @ nat_digits (unat (m AND 0xFF))"

definition bitsToNetmask :: "int \<Rightarrow> string option" where
  "bitsToNetmask bits =
     (if 32 < bits then None else Some (netmask_text (push_bit (nat (32 - bits)) 0xFFFFFFFF)))"

definition killStaleAdapter :: "string \<Rightarrow> (host_os, unit) procedure" where
  "killStaleAdapter name =
     andThen (host_try (powershell (''Get-NetAdapter -Name '' @ quoted name @
        '' -ErrorAction SilentlyContinue | Disable-NetAdapter -Confirm:$false''))) (\<lambda>_. sleeps 200)"

subsection \<open>tun\_windows.go: the device\<close>

text \<open>The pointers \<open>tunDev\<close>, \<open>wgDev\<close> and \<open>uapiLn\<close> are kept as whether they are set.\<close>

record WindowsTUNDevice =
  wd_tunDev :: bool
  wd_wgDev :: bool
  wd_uapiLn :: bool
  wd_name :: string
  wd_ip :: string
  wd_cidr :: string
  wd_port :: int

type_synonym 'a win_method = "(WindowsTUNDevice \<times> host_os, 'a) procedure"

definition on_host :: "(host_os, 'a) procedure \<Rightarrow> 'a win_method" where
  "on_host p = on_field snd (\<lambda>h s. (fst s, h)) p"

definition on_win :: "(WindowsTUNDevice \<Rightarrow> WindowsTUNDevice) \<Rightarrow> unit win_method" where
  "on_win f = modifies (\<lambda>s. (f (fst s), snd s))"

definition win_CreateTUN :: "string \<Rightarrow> int \<Rightarrow> (host_os, WindowsTUNDevice) procedure" where
  "win_CreateTUN name mtu0 =
     (let mtu = (if mtu0 \<le> 0 then 1420 else mtu0)
      in andThen (killStaleAdapter name) (\<lambda>_.
         andThen (wrap ''wintun create'' (host_check (TunCreate name mtu))) (\<lambda>_.
         andThen (host_do (TunName name)) (\<lambda>out.
         if succeeded out
         then return \<lparr>wd_tunDev = True, wd_wgDev = False, wd_uapiLn = False, wd_name = said out, wd_ip = [], wd_cidr = [], wd_port = 0\<rparr>
         else andThen (host_try TunClose) (\<lambda>_. raise (Wrapf ''wintun name'' (Errorf (said out))))))))"

text \<open>\<open>waitForAdapter\<close>: thirty attempts, and success even when none answers.\<close>

definition adapter_status :: "string \<Rightarrow> host_call" where
  "adapter_status name = powershell (''(Get-NetAdapter -Name '' @ quoted name @ '' -ErrorAction SilentlyContinue).Status'')"

fun wait_attempts :: "nat \<Rightarrow> string \<Rightarrow> (host_os, unit) procedure" where
  "wait_attempts 0 name = return ()"
| "wait_attempts (Suc n) name =
     andThen (host_do (adapter_status name)) (\<lambda>out.
     let status = TrimSpace (said out)
     in if succeeded out \<and> (status = ''Up'' \<or> status = ''Disconnected'' \<or> status = ''Not Present'') then return ()
        else andThen (sleeps 300) (\<lambda>_. wait_attempts n name))"

definition waitForAdapter :: "string \<Rightarrow> (host_os, unit) procedure" where
  "waitForAdapter name = wait_attempts 30 name"

definition enableAdapter :: "string \<Rightarrow> (host_os, unit) procedure" where
  "enableAdapter name =
     andThen (host_try (powershell (''Enable-NetAdapter -Name '' @ quoted name @
        '' -Confirm:$false -ErrorAction SilentlyContinue''))) (\<lambda>_. sleeps 200)"

text \<open>\<open>setIPAddress\<close>: PowerShell, then five times \<open>netsh set address\<close>, then \<open>netsh add address\<close>.\<close>

definition set_ip_script :: "string \<Rightarrow> string \<Rightarrow> int \<Rightarrow> string" where
  "set_ip_script name ip bits =
     ''$a = Get-NetAdapter -Name '' @ quoted name @ '' -ErrorAction Stop; '' @
     ''Remove-NetIPAddress -InterfaceIndex $a.ifIndex -Confirm:$false -ErrorAction SilentlyContinue; '' @
     ''Remove-NetRoute -InterfaceIndex $a.ifIndex -Confirm:$false -ErrorAction SilentlyContinue; '' @
     ''New-NetIPAddress -InterfaceIndex $a.ifIndex -IPAddress '' @ quoted ip @ '' -PrefixLength '' @ Itoa bits @
     '' -PolicyStore ActiveStore -ErrorAction Stop''"

fun netsh_attempts :: "nat \<Rightarrow> host_call \<Rightarrow> (host_os, bool) procedure" where
  "netsh_attempts 0 c = return False"
| "netsh_attempts (Suc n) c =
     andThen (host_do c) (\<lambda>out. if succeeded out then return True else andThen (sleeps 1000) (\<lambda>_. netsh_attempts n c))"

definition setIPAddress :: "string \<Rightarrow> string \<Rightarrow> string \<Rightarrow> (host_os, unit) procedure" where
  "setIPAddress name ip cidr =
     (let bits = cidrToBits cidr
      in andThen (host_do (powershell (set_ip_script name ip bits))) (\<lambda>out.
         if succeeded out then return ()
         else case bitsToNetmask bits of
                None \<Rightarrow> raise (Errorf ''panic: negative shift amount'')
              | Some m \<Rightarrow>
                  andThen (netsh_attempts 5 (Exec ''netsh'' [''interface'', ''ip'', ''set'', ''address'', ''name='' @ name,
                     ''source=static'', ''addr='' @ ip, ''mask='' @ m] [])) (\<lambda>done.
                  if done then return ()
                  else andThen (host_do (Exec ''netsh'' [''interface'', ''ip'', ''add'', ''address'', ''name='' @ name,
                          ''addr='' @ ip, ''mask='' @ m] [])) (\<lambda>last_out.
                       if succeeded last_out then return ()
                       else raise (Errorf (''all IP methods failed: '' @ TrimSpace (said last_out)))))))"

definition setMTU :: "string \<Rightarrow> int \<Rightarrow> (host_os, unit) procedure" where
  "setMTU name mtu =
     host_try (Exec ''netsh'' [''interface'', ''ipv4'', ''set'', ''subinterface'', name, ''mtu='' @ Itoa mtu, ''store=active''] [])"

definition setMetric :: "string \<Rightarrow> int \<Rightarrow> (host_os, unit) procedure" where
  "setMetric name metric =
     host_try (powershell (''Set-NetIPInterface -InterfaceAlias '' @ quoted name @ '' -InterfaceMetric '' @ Itoa metric @
        '' -ErrorAction SilentlyContinue''))"

definition verifyConfig :: "string \<Rightarrow> (host_os, unit) procedure" where
  "verifyConfig name =
     host_try (powershell (''Get-NetIPAddress -InterfaceAlias '' @ quoted name @
        '' -AddressFamily IPv4 -ErrorAction SilentlyContinue | Format-Table IPAddress,PrefixLength -AutoSize''))"

definition win_Configure :: "string \<Rightarrow> string \<Rightarrow> unit win_method" where
  "win_Configure ip cidr =
     andThen (on_win (\<lambda>d. d\<lparr>wd_ip := ip, wd_cidr := cidr\<rparr>)) (\<lambda>_.
     andThen (reads (\<lambda>s. wd_name (fst s))) (\<lambda>name.
     on_host (andThen (waitForAdapter name) (\<lambda>_.
       andThen (enableAdapter name) (\<lambda>_.
       andThen (setIPAddress name ip cidr) (\<lambda>_.
       andThen (setMTU name 1420) (\<lambda>_.
       andThen (setMetric name 10) (\<lambda>_.
       verifyConfig name))))))))"

text \<open>The firewall: four rules, of which the two for UDP carry the port in their names.\<close>

definition delete_rule :: "string \<Rightarrow> host_call" where
  "delete_rule name = Exec ''netsh'' [''advfirewall'', ''firewall'', ''delete'', ''rule'', ''name='' @ name] []"

definition add_rule :: "string \<times> string \<times> string \<times> int \<Rightarrow> host_call" where
  "add_rule = (\<lambda>(name, proto, dir, lport).
     Exec ''netsh'' ([''advfirewall'', ''firewall'', ''add'', ''rule'', ''name='' @ name, ''dir='' @ dir, ''action=allow'',
       ''protocol='' @ proto, ''enable=yes''] @ (if 0 < lport then [''localport='' @ Itoa lport] else [])) [])"

definition firewall_rules :: "int \<Rightarrow> (string \<times> string \<times> string \<times> int) list" where
  "firewall_rules port =
     [(''QT-WG-UDP-IN-'' @ Itoa port, ''UDP'', ''in'', port), (''QT-WG-UDP-OUT-'' @ Itoa port, ''UDP'', ''out'', port),
      (''QT-ICMP-IN'', ''ICMPv4'', ''in'', 0), (''QT-ICMP-OUT'', ''ICMPv4'', ''out'', 0)]"

fun open_rules :: "(string \<times> string \<times> string \<times> int) list \<Rightarrow> (host_os, unit) procedure" where
  "open_rules [] = return ()"
| "open_rules (r # rs) =
     andThen (host_try (delete_rule (fst r))) (\<lambda>_. andThen (host_try (add_rule r)) (\<lambda>_. open_rules rs))"

definition openFirewall :: "int \<Rightarrow> (host_os, unit) procedure" where
  "openFirewall port = open_rules (firewall_rules port)"

fun delete_rules :: "string list \<Rightarrow> (host_os, unit) procedure" where
  "delete_rules [] = return ()"
| "delete_rules (n # ns) = andThen (host_try (delete_rule n)) (\<lambda>_. delete_rules ns)"

definition cleanFirewall :: "(host_os, unit) procedure" where
  "cleanFirewall = delete_rules [''QT-WG-UDP-IN-'', ''QT-WG-UDP-OUT-'', ''QT-ICMP-IN'', ''QT-ICMP-OUT'']"

definition startUAPI :: "unit win_method" where
  "startUAPI =
     andThen (reads (\<lambda>s. wd_name (fst s))) (\<lambda>name.
     andThen (on_host (host_do (UAPIListen name))) (\<lambda>out.
     if succeeded out then on_win (\<lambda>d. d\<lparr>wd_uapiLn := True\<rparr>) else return ()))"

text \<open>The requests of WireGuard's configuration protocol.\<close>

definition ipc_line :: "string \<Rightarrow> string \<Rightarrow> string" where
  "ipc_line key val = key @ ''='' @ val @ [CHR 0x0A]"

definition setup_request :: "string \<Rightarrow> int \<Rightarrow> string" where
  "setup_request privHex listenPort = ipc_line ''private_key'' privHex @ ipc_line ''listen_port'' (Itoa listenPort)"

definition remove_request :: "string \<Rightarrow> string" where
  "remove_request pubHex = ipc_line ''public_key'' pubHex @ ipc_line ''remove'' ''true''"

definition peer_request :: "string \<Rightarrow> string \<Rightarrow> string \<Rightarrow> string" where
  "peer_request pubHex endpoint allowedIP =
     ipc_line ''public_key'' pubHex @ ipc_line ''endpoint'' endpoint @ ipc_line ''allowed_ip'' allowedIP @
     ipc_line ''persistent_keepalive_interval'' ''15''"

text \<open>\<open>SetupWireGuard\<close>: the new device is kept only when it is configured and up.\<close>

definition or_close :: "string \<Rightarrow> host_call \<Rightarrow> (host_os, unit) procedure" where
  "or_close ctx c =
     andThen (host_do c) (\<lambda>out. if succeeded out then return ()
       else andThen (host_try DeviceClose) (\<lambda>_. raise (Wrapf ctx (Errorf (said out)))))"

definition SetupWireGuard :: "string \<Rightarrow> int \<Rightarrow> unit win_method" where
  "SetupWireGuard privateKeyB64 listenPort =
     (\<lambda>s. if \<not> wd_tunDev (fst s) then (Inl (Errorf ''wg setup: tun is nil''), s)
          else
            andThen (on_win (\<lambda>d. d\<lparr>wd_port := listenPort\<rparr>)) (\<lambda>_.
            andThen (wrap ''wg setup: invalid private key'' (result (b64ToHex privateKeyB64))) (\<lambda>privHex.
            andThen (on_host (host_try NewDevice)) (\<lambda>_.
            andThen (on_host (or_close ''wg setup: ipc set'' (IpcSet (setup_request privHex listenPort)))) (\<lambda>_.
            andThen (on_host (or_close ''wg setup: device up'' DeviceUp)) (\<lambda>_.
            andThen (on_win (\<lambda>d. d\<lparr>wd_wgDev := True\<rparr>)) (\<lambda>_.
            andThen (on_host (openFirewall listenPort)) (\<lambda>_.
            startUAPI))))))) s)"

definition AddWGPeer :: "string \<Rightarrow> string \<Rightarrow> string \<Rightarrow> unit win_method" where
  "AddWGPeer publicKeyB64 endpoint allowedIP0 =
     (\<lambda>s. if \<not> wd_wgDev (fst s) then (Inl (Errorf ''add peer: wg is not initialized''), s)
          else
            andThen (wrap ''add peer: invalid public key'' (result (b64ToHex publicKeyB64))) (\<lambda>pubHex.
            let allowedIP = (if Contains allowedIP0 ''/'' then allowedIP0 else allowedIP0 @ ''/32'')
            in andThen (on_host (host_try (IpcSet (remove_request pubHex)))) (\<lambda>_.
               andThen (on_host (sleeps 50)) (\<lambda>_.
               wrap ''add peer: ipc set'' (on_host (host_check (IpcSet (peer_request pubHex endpoint allowedIP))))))) s)"

definition RemoveWGPeer :: "string \<Rightarrow> unit win_method" where
  "RemoveWGPeer publicKeyB64 =
     (\<lambda>s. if \<not> wd_wgDev (fst s) then (Inr (), s)
          else andThen (wrap ''remove peer: invalid public key'' (result (b64ToHex publicKeyB64))) (\<lambda>pubHex.
               on_host (host_check (IpcSet (remove_request pubHex)))) s)"

text \<open>
  \<open>Read\<close> and \<open>Write\<close>; \<open>io\<close> is the outcome of the adapter's own call. Once WireGuard owns the
  adapter, \<open>Read\<close> waits for ever, \<open>None\<close>, and \<open>Write\<close> drops the packet.
\<close>

definition win_Read :: "(nat \<times> go_error option) \<Rightarrow> WindowsTUNDevice \<Rightarrow> (nat \<times> go_error option) option" where
  "win_Read io d =
     (if wd_wgDev d then None
      else if \<not> wd_tunDev d then Some (0, Some (Errorf ''read: tun device is nil''))
      else Some io)"

definition win_Write :: "go_error option \<Rightarrow> bytes \<Rightarrow> WindowsTUNDevice \<Rightarrow> nat \<times> go_error option" where
  "win_Write io buf d =
     (if wd_wgDev d then (length buf, None)
      else if \<not> wd_tunDev d then (0, Some (Errorf ''write: tun device is nil''))
      else (length buf, io))"

text \<open>\<open>Close\<close> returns as soon as the adapter is closed, before the firewall is cleaned.\<close>

definition win_Close :: "unit win_method" where
  "win_Close =
     (\<lambda>s. andThen (if wd_uapiLn (fst s)
                   then andThen (on_host (host_try UAPIClose)) (\<lambda>_. on_win (\<lambda>d. d\<lparr>wd_uapiLn := False\<rparr>)) else return ()) (\<lambda>_.
          andThen (if wd_wgDev (fst s)
                   then andThen (on_host (host_try DeviceClose)) (\<lambda>_. on_win (\<lambda>d. d\<lparr>wd_wgDev := False\<rparr>)) else return ()) (\<lambda>_.
          if wd_tunDev (fst s)
          then andThen (on_host (host_do TunClose)) (\<lambda>out.
               andThen (on_win (\<lambda>d. d\<lparr>wd_tunDev := False\<rparr>)) (\<lambda>_.
               if succeeded out then return () else raise (Errorf (said out))))
          else on_host cleanFirewall)) s)"

text \<open>
  \<open>monitorHandshakes\<close> polls the device ten times and only logs. A poll finds no device, an error of
  \<open>IpcGet\<close> or its text; the result is what is logged last and the seconds waited.
\<close>

datatype handshake_log = DeviceGone | IpcError | HandshakeAt int | NoHandshake

text \<open>\<open>strconv.ParseInt(val, 10, 64)\<close> with its error ignored: a value out of range is replaced by the nearest bound.\<close>

definition ParseInt_value :: "string \<Rightarrow> int" where
  "ParseInt_value s =
     (let neg = HasPrefix s ''-'';
          ds = (if neg \<or> HasPrefix s ''+'' then tl s else s);
          v = int (decimal_val ds 0)
      in if ds = [] \<or> \<not> list_all is_digit ds then 0
         else if neg then max (- (2 ^ 63)) (- v)
         else min (2 ^ 63 - 1) v)"

definition handshake_times :: "string \<Rightarrow> int list" where
  "handshake_times state =
     map (\<lambda>l. ParseInt_value (TrimPrefix l ''last_handshake_time_sec=''))
       (filter (\<lambda>l. HasPrefix l ''last_handshake_time_sec='') (Split state (CHR 0x0A)))"

fun monitor_polls :: "nat \<Rightarrow> (go_error + string) option list \<Rightarrow> int \<Rightarrow> handshake_log \<times> int" where
  "monitor_polls i [] waited = (NoHandshake, waited)"
| "monitor_polls i (None # ps) waited = (DeviceGone, waited)"
| "monitor_polls i (Some (Inl e) # ps) waited = (IpcError, waited)"
| "monitor_polls i (Some (Inr state) # ps) waited =
     (case find (\<lambda>sec. 0 < sec) (handshake_times state) of
        Some sec \<Rightarrow> (HandshakeAt sec, waited)
      | None \<Rightarrow> monitor_polls (Suc i) ps (if i < 9 then waited + 3 else waited))"

definition monitorHandshakes :: "(go_error + string) option list \<Rightarrow> handshake_log \<times> int" where
  "monitorHandshakes polls = monitor_polls 0 (take 10 polls) 3"

subsection \<open>platform\_windows.go\<close>

text \<open>The commands of WireGuard are no-ops on Windows, where the device does the work; \<open>wireguard.go\<close> never calls them there.\<close>

definition win_configureWG :: "string \<Rightarrow> string \<Rightarrow> int \<Rightarrow> (host_os, bool) procedure" where
  "win_configureWG deviceName privateKey listenPort = return True"

definition win_enableIPForwarding :: "(host_os, unit) procedure" where
  "win_enableIPForwarding =
     andThen (host_try (powershell ''Set-NetIPInterface -Forwarding Enabled -ErrorAction SilentlyContinue'')) (\<lambda>_.
     host_try (Exec ''reg'' [''add'', ''HKLM'' @ [CHR 0x5C] @ ''SYSTEM'' @ [CHR 0x5C] @ ''CurrentControlSet'' @ [CHR 0x5C] @
       ''Services'' @ [CHR 0x5C] @ ''Tcpip'' @ [CHR 0x5C] @ ''Parameters'',
       ''/v'', ''IPEnableRouter'', ''/t'', ''REG_DWORD'', ''/d'', ''1'', ''/f''] []))"

text \<open>Routes are best effort: no failure is returned.\<close>

definition with_adapter :: "string \<Rightarrow> string \<Rightarrow> string" where
  "with_adapter name body =
     ''$a = Get-NetAdapter -Name '' @ quoted name @ '' -ErrorAction SilentlyContinue; if ($a) {   '' @ body @ '' }''"

definition win_addSubnetRoute :: "string \<Rightarrow> string \<Rightarrow> (host_os, unit) procedure" where
  "win_addSubnetRoute networkCIDR deviceName =
     andThen (host_do (powershell (with_adapter deviceName
        (''$existing = Get-NetRoute -DestinationPrefix '' @ quoted networkCIDR @
         '' -InterfaceIndex $a.ifIndex -ErrorAction SilentlyContinue;   if (-not $existing) {     New-NetRoute -DestinationPrefix '' @
         quoted networkCIDR @
         '' -InterfaceIndex $a.ifIndex -RouteMetric 10 -PolicyStore ActiveStore -ErrorAction SilentlyContinue   }'')))) (\<lambda>out.
     if succeeded out then return ()
     else host_try (Exec ''netsh'' [''interface'', ''ipv4'', ''add'', ''route'', networkCIDR, deviceName, ''metric=10'', ''store=active''] []))"

definition win_addHostRoute :: "string \<Rightarrow> string \<Rightarrow> (host_os, unit) procedure" where
  "win_addHostRoute peerIP deviceName =
     host_try (powershell (with_adapter deviceName
       (''New-NetRoute -DestinationPrefix '' @ quoted (peerIP @ ''/32'') @
        '' -InterfaceIndex $a.ifIndex -RouteMetric 10 -PolicyStore ActiveStore -ErrorAction SilentlyContinue'')))"

definition win_removeHostRoute :: "string \<Rightarrow> string \<Rightarrow> (host_os, unit) procedure" where
  "win_removeHostRoute peerIP deviceName =
     host_try (powershell (with_adapter deviceName
       (''Remove-NetRoute -DestinationPrefix '' @ quoted (peerIP @ ''/32'') @
        '' -InterfaceIndex $a.ifIndex -Confirm:$false -ErrorAction SilentlyContinue'')))"

subsection \<open>tun\_darwin.go and routes\_darwin.go\<close>

text \<open>The device on macOS: the adapter, when it is set, and the name the system gave it.\<close>

record DarwinTUNDevice =
  dd_dev :: bool
  dd_name :: string

definition mac_mask :: "int \<Rightarrow> string option" where
  "mac_mask bits = (if 32 < bits then None else Some (netmask_text (push_bit (nat (32 - bits)) 0xFFFFFFFF)))"

definition maskStringFromCIDR :: "string \<Rightarrow> string option" where
  "maskStringFromCIDR cidr = mac_mask (maskBitsFromCIDR cidr)"

definition runCommand :: "string \<Rightarrow> string list \<Rightarrow> (host_os, unit) procedure" where
  "runCommand command args =
     andThen (host_do (Exec command args [])) (\<lambda>out.
     if succeeded out then return ()
     else raise (Errorf (''run command '' @ command @ '' ['' @ Join_with '' '' args @ '']: exit status 1 (output: '' @ said out @ '')'')))"

definition ConfigureTUN :: "string \<Rightarrow> string \<Rightarrow> string \<Rightarrow> (host_os, unit) procedure" where
  "ConfigureTUN name ip cidr =
     (case maskStringFromCIDR cidr of
        None \<Rightarrow> raise (Errorf ''panic: negative shift amount'')
      | Some m \<Rightarrow> wrap ''configure tun: set address and up'' (runCommand ''ifconfig'' [name, ''inet'', ip, ip, ''netmask'', m, ''up'']))"

definition SetMTU :: "string \<Rightarrow> int \<Rightarrow> (host_os, unit) procedure" where
  "SetMTU name mtu =
     (if mtu \<le> 0 then raise (Errorf ''set mtu: mtu must be positive'')
      else wrap ''set mtu'' (runCommand ''ifconfig'' [name, ''mtu'', Itoa mtu]))"

definition DestroyTUN :: "string \<Rightarrow> (host_os, unit) procedure" where
  "DestroyTUN name =
     (if name = [] then raise (Errorf ''destroy tun: name is required'')
      else wrap ''destroy tun'' (runCommand ''ifconfig'' [name, ''down'']))"

definition mac_Create :: "string \<Rightarrow> int \<Rightarrow> (host_os, DarwinTUNDevice) procedure" where
  "mac_Create name mtu0 =
     (let mtu = (if mtu0 \<le> 0 then 1420 else mtu0)
      in andThen (wrap ''darwin tun create: create device'' (host_check (TunCreate name mtu))) (\<lambda>_.
         andThen (host_do (TunName name)) (\<lambda>out.
         if succeeded out then return \<lparr>dd_dev = True, dd_name = said out\<rparr>
         else andThen (host_try TunClose) (\<lambda>_. raise (Wrapf ''darwin tun create: read name'' (Errorf (said out)))))))"

definition mac_CreateTUN :: "string \<Rightarrow> int \<Rightarrow> (host_os, DarwinTUNDevice) procedure" where
  "mac_CreateTUN name mtu = wrap ''create tun'' (mac_Create name mtu)"

definition mac_Configure :: "string \<Rightarrow> string \<Rightarrow> DarwinTUNDevice \<Rightarrow> (host_os, unit) procedure" where
  "mac_Configure ip cidr d =
     (if dd_name d = [] then raise (Errorf ''darwin tun configure: interface is not created'') else ConfigureTUN (dd_name d) ip cidr)"

definition mac_Read :: "go_error + nat \<Rightarrow> DarwinTUNDevice \<Rightarrow> go_error + nat" where
  "mac_Read io d =
     (if \<not> dd_dev d then Inl (Errorf ''darwin tun read: device is not created'')
      else case io of Inl e \<Rightarrow> Inl (Wrapf ''darwin tun read'' e) | Inr n \<Rightarrow> Inr n)"

definition mac_Write :: "go_error + unit \<Rightarrow> bytes \<Rightarrow> DarwinTUNDevice \<Rightarrow> go_error + nat" where
  "mac_Write io buf d =
     (if \<not> dd_dev d then Inl (Errorf ''darwin tun write: device is not created'')
      else case io of Inl e \<Rightarrow> Inl (Wrapf ''darwin tun write'' e) | Inr _ \<Rightarrow> Inr (length buf))"

definition mac_Close :: "DarwinTUNDevice \<Rightarrow> (host_os, unit) procedure" where
  "mac_Close d = (if \<not> dd_dev d then return () else wrap ''darwin tun close'' (host_check TunClose))"

text \<open>A command whose failure is wrapped with its output, and a route that may exist already.\<close>

definition mac_checked :: "string \<Rightarrow> string list \<Rightarrow> string \<Rightarrow> (host_os, unit) procedure" where
  "mac_checked ctx args stdin =
     andThen (host_do (Exec ''wg'' args stdin)) (\<lambda>out. if succeeded out then return () else raise (Wrapf (ctx @ '': '' @ said out) exit_error))"

definition mac_route :: "string \<Rightarrow> string list \<Rightarrow> (host_os, unit) procedure" where
  "mac_route ctx args =
     andThen (host_do (Exec ''route'' args [])) (\<lambda>out.
     if succeeded out \<or> Contains (said out) ''exists'' then return () else raise (Wrapf (ctx @ '': '' @ said out) exit_error))"

definition mac_configureWG :: "string \<Rightarrow> string \<Rightarrow> int \<Rightarrow> (host_os, bool) procedure" where
  "mac_configureWG ifName privateKey listenPort =
     andThen (mac_checked ''wg set'' [''set'', ifName, ''private-key'', ''/dev/stdin'', ''listen-port'', Itoa listenPort] privateKey)
       (\<lambda>_. return True)"

definition mac_addWGPeer :: "string \<Rightarrow> string \<Rightarrow> string \<Rightarrow> string \<Rightarrow> (host_os, unit) procedure" where
  "mac_addWGPeer ifName publicKey endpoint allowedIP =
     mac_checked ''wg set peer'' ([''set'', ifName, ''peer'', publicKey, ''allowed-ips'', allowedIP] @
       (if endpoint \<noteq> [] then [''endpoint'', endpoint] else []) @ [''persistent-keepalive'', ''25'']) []"

definition mac_removeWGPeer :: "string \<Rightarrow> string \<Rightarrow> (host_os, unit) procedure" where
  "mac_removeWGPeer ifName publicKey = mac_checked ''wg remove'' [''set'', ifName, ''peer'', publicKey, ''remove''] []"

definition mac_updateWGPeerEndpoint :: "string \<Rightarrow> string \<Rightarrow> string \<Rightarrow> (host_os, unit) procedure" where
  "mac_updateWGPeerEndpoint ifName publicKey endpoint =
     mac_checked ''wg update'' [''set'', ifName, ''peer'', publicKey, ''endpoint'', endpoint] []"

definition mac_enableIPForwarding :: "(host_os, unit) procedure" where
  "mac_enableIPForwarding = host_try (Exec ''sysctl'' [''-w'', ''net.inet.ip.forwarding=1''] [])"

definition mac_addSubnetRoute :: "string \<Rightarrow> string \<Rightarrow> (host_os, unit) procedure" where
  "mac_addSubnetRoute cidr ifName =
     (if length (Split cidr (CHR ''/'')) \<noteq> 2 then raise (Errorf (''invalid cidr: '' @ cidr))
      else mac_route ''add subnet route'' [''-n'', ''add'', ''-net'', cidr, ''-interface'', ifName])"

definition mac_addHostRoute :: "string \<Rightarrow> string \<Rightarrow> (host_os, unit) procedure" where
  "mac_addHostRoute ip ifName = mac_route ''add host route'' [''-n'', ''add'', ''-host'', ip, ''-interface'', ifName]"

definition mac_removeHostRoute :: "string \<Rightarrow> string \<Rightarrow> (host_os, unit) procedure" where
  "mac_removeHostRoute ip ifName = host_try (Exec ''route'' [''-n'', ''delete'', ''-host'', ip] [])"

end
