(* ===== verification/WinTunnel.thy ===== *)
theory WinTunnel
  imports Platforms
begin

text \<open>
  The tunnel of \<open>client/internal/tunnel/wireguard.go\<close> as it runs on Windows, over the device of
  \<open>tun_windows.go\<close>: the same object as on Linux, with the branches the code takes when
  \<open>runtime.GOOS\<close> is \<open>"windows"\<close>. The theory shows that WireGuard never routes to a peer that
  the tunnel does not list, whatever calls fail, and what an update and a stop leave behind.
\<close>

subsection \<open>wireguard.go on Windows\<close>

record WinWG =
  wn_privateKey :: string
  wn_virtualIP :: string
  wn_cidr :: string
  wn_listenPort :: int
  wn_deviceName :: string
  wn_mtu :: int
  wn_wgReady :: bool
  wn_started :: bool
  wn_device :: "WindowsTUNDevice option"
  wn_peers :: "(string \<times> PeerConfig) list"
  wn_stats :: TunnelStats
  wn_os :: host_os

text \<open>The constructor is the one of every platform.\<close>

definition win_NewWGTunnel :: "host_os \<Rightarrow> string \<Rightarrow> string \<Rightarrow> string \<Rightarrow> int \<Rightarrow> go_error + WinWG" where
  "win_NewWGTunnel os privateKey virtualIP cidr listenPort =
     (case NewWGTunnel \<lparr>m_trace = [], m_script = []\<rparr> privateKey virtualIP cidr listenPort of
        Inl e \<Rightarrow> Inl e
      | Inr t \<Rightarrow> Inr \<lparr>wn_privateKey = wt_privateKey t, wn_virtualIP = wt_virtualIP t, wn_cidr = wt_cidr t,
          wn_listenPort = wt_listenPort t, wn_deviceName = wt_deviceName t, wn_mtu = wt_mtu t, wn_wgReady = wt_wgReady t,
          wn_started = wt_started t, wn_device = None, wn_peers = wt_peers t, wn_stats = wt_stats t, wn_os = os\<rparr>)"

text \<open>A method of the device, when there is one, and a function of the platform.\<close>

definition on_device :: "unit win_method \<Rightarrow> (WinWG, unit) procedure" where
  "on_device m =
     (\<lambda>t. case wn_device t of
            None \<Rightarrow> (Inr (), t)
          | Some d \<Rightarrow> (case m (d, wn_os t) of (r, (d', h)) \<Rightarrow> (r, t\<lparr>wn_device := Some d', wn_os := h\<rparr>)))"

definition on_platform :: "(host_os, 'a) procedure \<Rightarrow> (WinWG, 'a) procedure" where
  "on_platform p = on_field wn_os (\<lambda>h t. t\<lparr>wn_os := h\<rparr>) p"

text \<open>The call of the device that an operation makes while WireGuard is ready.\<close>

definition wg_call :: "string \<Rightarrow> unit win_method \<Rightarrow> (WinWG, unit) procedure" where
  "wg_call ctx m = (\<lambda>t. if wn_wgReady t then wrap ctx (on_device m) t else (Inr (), t))"

text \<open>A failure of \<open>SetupWireGuard\<close> leaves the tunnel in raw mode.\<close>

definition win_setup :: "WinWG \<Rightarrow> WinWG" where
  "win_setup t =
     (case on_device (SetupWireGuard (wn_privateKey t) (wn_listenPort t)) t of
        (Inl _, t') \<Rightarrow> t'
      | (Inr _, t') \<Rightarrow> t'\<lparr>wn_wgReady := True\<rparr>)"

definition win_start_routes :: "int \<Rightarrow> WinWG \<Rightarrow> WinWG" where
  "win_start_routes now t =
     (let t1 = snd (on_platform win_enableIPForwarding t);
          maskBits = maskBitsFromCIDR (wn_cidr t1);
          subnetCIDR = networkAddr (wn_virtualIP t1) maskBits @ ''/'' @ Itoa maskBits;
          t2 = snd (on_platform (win_addSubnetRoute subnetCIDR (wn_deviceName t1)) t1)
      in t2\<lparr>wn_started := True, wn_stats := (wn_stats t2)\<lparr>ts_LastHandshake := Some now\<rparr>\<rparr>)"

definition win_Start :: "int \<Rightarrow> (WinWG, unit) procedure" where
  "win_Start now =
     (\<lambda>t. if wn_started t then (Inr (), t)
          else (case win_CreateTUN (wn_deviceName t) (wn_mtu t) (wn_os t) of
                  (Inl e, h) \<Rightarrow> (Inl (Wrapf ''wg tunnel start: create tun'' e), t\<lparr>wn_os := h\<rparr>)
                | (Inr dev, h) \<Rightarrow>
                    (case win_Configure (wn_virtualIP t) (wn_cidr t) (dev, h) of
                       (Inl e, s) \<Rightarrow> (Inl (Wrapf ''wg tunnel start: configure tun'' e), t\<lparr>wn_os := snd (snd (win_Close s))\<rparr>)
                     | (Inr _, (dev', h')) \<Rightarrow>
                         (Inr (), win_start_routes now
                            (win_setup (t\<lparr>wn_device := Some dev', wn_deviceName := wd_name dev', wn_os := h'\<rparr>))))))"

definition win_AddPeer :: "int \<Rightarrow> string \<Rightarrow> string \<Rightarrow> string \<Rightarrow> (WinWG, unit) procedure" where
  "win_AddPeer now publicKey endpoint allowedIP0 =
     (\<lambda>t. if \<not> wn_started t then (Inl (Errorf ''add peer: tunnel not started''), t)
          else if TrimSpace publicKey = [] \<or> TrimSpace endpoint = [] \<or> TrimSpace allowedIP0 = []
          then (Inl (Errorf ''add peer: publicKey, endpoint and allowedIP are required''), t)
          else
            let allowedIP = (if Contains allowedIP0 ''/'' then allowedIP0 else allowedIP0 @ ''/32'')
            in andThen (wg_call ''add peer: windows wg peer'' (AddWGPeer publicKey endpoint allowedIP)) (\<lambda>_.
               andThen (wrap ''add peer: add host route'' (on_platform (win_addHostRoute (host_part allowedIP) (wn_deviceName t)))) (\<lambda>_.
               modifies (\<lambda>u. u\<lparr>wn_peers := AList.update publicKey
                   \<lparr>pc_PublicKey = publicKey, pc_Endpoint = endpoint, pc_AllowedIP = allowedIP, pc_AddedAt = now, pc_LastHandshake = now\<rparr> (wn_peers u),
                 wn_stats := (wn_stats u)\<lparr>ts_LastHandshake := Some now\<rparr>\<rparr>))) t)"

definition win_RemovePeer :: "string \<Rightarrow> (WinWG, unit) procedure" where
  "win_RemovePeer publicKey =
     (\<lambda>t. if \<not> wn_started t then (Inl (Errorf ''remove peer: tunnel not started''), t)
          else (case map_of (wn_peers t) publicKey of
                  None \<Rightarrow> (Inl (Errorf ''remove peer: not found''), t)
                | Some peer \<Rightarrow>
                    andThen (wg_call ''remove peer: windows wg remove'' (RemoveWGPeer publicKey)) (\<lambda>_.
                    andThen (wrap ''remove peer: remove host route''
                       (on_platform (win_removeHostRoute (host_part (pc_AllowedIP peer)) (wn_deviceName t)))) (\<lambda>_.
                    modifies (\<lambda>u. u\<lparr>wn_peers := AList.delete publicKey (wn_peers u)\<rparr>))) t))"

definition win_UpdatePeerEndpoint :: "int \<Rightarrow> string \<Rightarrow> string \<Rightarrow> (WinWG, unit) procedure" where
  "win_UpdatePeerEndpoint now publicKey newEndpoint =
     (\<lambda>t. if \<not> wn_started t then (Inl (Errorf ''update peer endpoint: tunnel not started''), t)
          else (case map_of (wn_peers t) publicKey of
                  None \<Rightarrow> (Inl (Errorf ''update peer endpoint: not found''), t)
                | Some peer \<Rightarrow>
                    andThen (wg_call ''update peer endpoint: windows wg update'' (AddWGPeer publicKey newEndpoint (pc_AllowedIP peer))) (\<lambda>_.
                    modifies (\<lambda>u. u\<lparr>wn_peers := AList.update publicKey (peer\<lparr>pc_Endpoint := newEndpoint, pc_LastHandshake := now\<rparr>) (wn_peers u),
                      wn_stats := (wn_stats u)\<lparr>ts_LastHandshake := Some now\<rparr>\<rparr>)) t))"

text \<open>\<open>Stop\<close> removes the routes of the peers; the peers of WireGuard go with its device.\<close>

fun win_stop_peers :: "(string \<times> PeerConfig) list \<Rightarrow> WinWG \<Rightarrow> WinWG" where
  "win_stop_peers [] t = t"
| "win_stop_peers ((pubKey, peer) # rest) t =
     win_stop_peers rest (snd (on_platform (win_removeHostRoute (host_part (pc_AllowedIP peer)) (wn_deviceName t)) t))"

definition win_Stop :: "(WinWG, unit) procedure" where
  "win_Stop =
     (\<lambda>t. if \<not> wn_started t then (Inr (), t)
          else andThen (wrap ''wg tunnel stop'' (on_device win_Close)) (\<lambda>_.
               modifies (\<lambda>u. u\<lparr>wn_device := None, wn_peers := [], wn_started := False, wn_wgReady := False\<rparr>))
                 (win_stop_peers (wn_peers t) t))"

definition win_ReadPacket :: "(nat \<times> go_error option) \<Rightarrow> WinWG \<Rightarrow> (nat \<times> go_error option) option" where
  "win_ReadPacket io t =
     (case wn_device t of None \<Rightarrow> Some (0, Some (Errorf ''read packet: tunnel not started'')) | Some d \<Rightarrow> win_Read io d)"

definition win_WritePacket :: "go_error option \<Rightarrow> bytes \<Rightarrow> WinWG \<Rightarrow> nat \<times> go_error option" where
  "win_WritePacket io buf t =
     (case wn_device t of None \<Rightarrow> (0, Some (Errorf ''write packet: tunnel not started'')) | Some d \<Rightarrow> win_Write io buf d)"

subsection \<open>What WireGuard holds\<close>

text \<open>
  The configuration protocol of WireGuard, as it is documented: a request is a list of lines
  \<open>key=value\<close> ended by an empty line; \<open>public_key\<close> selects a peer and creates it when it is new,
  \<open>endpoint\<close> and \<open>allowed_ip\<close> configure it, \<open>remove=true\<close> removes it. An allowed address that
  another peer has moves. Addresses are compared as they are written.
\<close>

type_synonym wg_peer = "string option \<times> string list"

definition strip_cr :: "string \<Rightarrow> string" where
  "strip_cr l = (if l \<noteq> [] \<and> last l = CHR 0x0D then butlast l else l)"

definition uapi_lines :: "string \<Rightarrow> string list" where
  "uapi_lines txt = takeWhile (\<lambda>l. l \<noteq> []) (map strip_cr (Split txt (CHR 0x0A)))"

definition uapi_cut :: "string \<Rightarrow> string \<times> string" where
  "uapi_cut l = (takeWhile (\<lambda>c. c \<noteq> CHR ''='') l, tl (dropWhile (\<lambda>c. c \<noteq> CHR ''='') l))"

definition move_allowed :: "string \<Rightarrow> string \<Rightarrow> (string \<rightharpoonup> wg_peer) \<Rightarrow> (string \<rightharpoonup> wg_peer)" where
  "move_allowed k a K =
     (\<lambda>j. map_option (\<lambda>(ep, al). (ep, if j = k then removeAll a al @ [a] else removeAll a al)) (K j))"

definition uapi_field :: "string \<times> string \<Rightarrow> string option \<times> (string \<rightharpoonup> wg_peer) \<Rightarrow> string option \<times> (string \<rightharpoonup> wg_peer)" where
  "uapi_field = (\<lambda>(key, v) (cur, K).
     if key = ''public_key'' then (Some v, if K v = None then K(v \<mapsto> (None, [])) else K)
     else case cur of
            None \<Rightarrow> (cur, K)
          | Some k \<Rightarrow>
              if key = ''endpoint'' then (cur, K(k := map_option (\<lambda>(ep, al). (Some v, al)) (K k)))
              else if key = ''allowed_ip'' then (cur, move_allowed k v K)
              else if key = ''remove'' \<and> v = ''true'' then (None, K(k := None))
              else (cur, K))"

definition uapi_apply :: "string list \<Rightarrow> (string \<rightharpoonup> wg_peer) \<Rightarrow> (string \<rightharpoonup> wg_peer)" where
  "uapi_apply ls K = snd (fold uapi_field (map uapi_cut ls) (None, K))"

fun device_step :: "host_call \<times> host_outcome \<Rightarrow> (string \<rightharpoonup> wg_peer) \<Rightarrow> (string \<rightharpoonup> wg_peer)" where
  "device_step (IpcSet txt, Ran out) K = uapi_apply (uapi_lines txt) K"
| "device_step (IpcSet txt, Failed n out) K = uapi_apply (take n (uapi_lines txt)) K"
| "device_step (NewDevice, out) K = Map.empty"
| "device_step (DeviceClose, out) K = Map.empty"
| "device_step c K = K"

definition device_peers :: "host_os \<Rightarrow> (string \<rightharpoonup> wg_peer)" where
  "device_peers h = fold device_step (ho_trace h) Map.empty"

text \<open>The names of the firewall rules.\<close>

fun firewall_step :: "host_call \<times> host_outcome \<Rightarrow> string set \<Rightarrow> string set" where
  "firewall_step (Exec prog args stdin, Ran out) S =
     (if prog = ''netsh'' \<and> take 2 args = [''advfirewall'', ''firewall''] \<and> 4 < length args
      then (if args ! 2 = ''add'' then insert (args ! 4) S else if args ! 2 = ''delete'' then S - {args ! 4} else S)
      else S)"
| "firewall_step c S = S"

definition firewall_names :: "host_os \<Rightarrow> string set" where
  "firewall_names h = fold firewall_step (ho_trace h) {}"

text \<open>
  The laws of the library: removing a peer by a well-formed key never fails, and a request that
  fails does so at the endpoint or at the allowed address at the latest, because the keepalive of
  fifteen seconds is always accepted.
\<close>

definition uapi_ok :: "(nat \<Rightarrow> host_call \<Rightarrow> host_outcome) \<Rightarrow> bool" where
  "uapi_ok oracle \<longleftrightarrow>
     (\<forall>i k h. b64ToHex k = Inr h \<longrightarrow> succeeded (oracle i (IpcSet (remove_request h)))) \<and>
     (\<forall>i txt n out. oracle i (IpcSet txt) = Failed n out \<longrightarrow> n \<le> 2)"

subsection \<open>Requests\<close>

text \<open>A value without line breaks, as it is written into a request.\<close>

definition one_line :: "string \<Rightarrow> bool" where
  "one_line s \<longleftrightarrow> CHR 0x0A \<notin> set s \<and> CHR 0x0D \<notin> set s"

lemma uapi_lines_Nil [simp]: "uapi_lines [] = []"
  by (simp add: uapi_lines_def strip_cr_def)

lemma strip_cr_id: "CHR 0x0D \<notin> set l \<Longrightarrow> strip_cr l = l"
  by (metis last_in_set strip_cr_def)

lemma uapi_lines_line:
  assumes "one_line key" "one_line v"
  shows "uapi_lines (ipc_line key v @ rest) = (key @ ''='' @ v) # uapi_lines rest"
proof -
  have "Split ((key @ ''='' @ v) @ CHR 0x0A # rest) (CHR 0x0A) = (key @ ''='' @ v) # Split rest (CHR 0x0A)"
    using assms by (intro Split_sep) (simp add: one_line_def)
  moreover have "strip_cr (key @ ''='' @ v) = key @ ''='' @ v" using assms by (intro strip_cr_id) (simp add: one_line_def)
  ultimately show ?thesis by (simp add: uapi_lines_def ipc_line_def)
qed

lemma uapi_cut_line: "CHR ''='' \<notin> set key \<Longrightarrow> uapi_cut (key @ ''='' @ v) = (key, v)"
proof -
  assume "CHR ''='' \<notin> set key"
  then have "\<forall>c \<in> set key. c \<noteq> CHR ''=''" by auto
  then show "uapi_cut (key @ ''='' @ v) = (key, v)" by (simp add: uapi_cut_def)
qed

lemma hex_one_line: "one_line (hex_EncodeToString b)"
proof -
  have "c \<noteq> CHR 0x0A \<and> c \<noteq> CHR 0x0D" if "c \<in> set (hex_byte x)" for c x
  proof -
    have "unat x < 256" using unsigned_less [of x] by simp
    then have "unat x div 16 < 16" "unat x mod 16 < 16" by auto
    then have "48 \<le> (of_char c :: nat)" using that by (auto simp: hex_byte_def Let_def split: if_splits)
    then show ?thesis by auto
  qed
  then show ?thesis by (auto simp: one_line_def hex_EncodeToString_def)
qed

lemma b64ToHex_one_line: "b64ToHex k = Inr h \<Longrightarrow> one_line h"
  using hex_one_line by (auto simp: b64ToHex_def split: option.splits if_splits)

lemma Itoa_one_line: "one_line (Itoa i)"
proof -
  have "c \<noteq> CHR 0x0A \<and> c \<noteq> CHR 0x0D" if "is_digit c" for c using that by (auto simp: is_digit_def)
  then have "one_line (nat_digits n)" for n using nat_digits_all_digits [of n] by (auto simp: one_line_def list_all_iff)
  then show ?thesis by (auto simp: Itoa_def one_line_def)
qed

lemma request_lines:
  "one_line h \<Longrightarrow> map uapi_cut (uapi_lines (remove_request h)) = [(''public_key'', h), (''remove'', ''true'')]"
  "one_line h \<Longrightarrow> map uapi_cut (uapi_lines (setup_request h port)) = [(''private_key'', h), (''listen_port'', Itoa port)]"
  "one_line h \<Longrightarrow> one_line e \<Longrightarrow> one_line a \<Longrightarrow> map uapi_cut (uapi_lines (peer_request h e a)) =
     [(''public_key'', h), (''endpoint'', e), (''allowed_ip'', a), (''persistent_keepalive_interval'', ''15'')]"
proof -
  note line = uapi_lines_line [of _ _ "[]", simplified]
  have keys: "one_line ''public_key''" "one_line ''remove''" "one_line ''true''" "one_line ''private_key''" "one_line ''listen_port''"
    "one_line ''endpoint''" "one_line ''allowed_ip''" "one_line ''persistent_keepalive_interval''" "one_line ''15''"
    by (simp_all add: one_line_def)
  note cut = uapi_cut_line [of "''public_key''", simplified] uapi_cut_line [of "''remove''", simplified]
    uapi_cut_line [of "''private_key''", simplified] uapi_cut_line [of "''listen_port''", simplified]
    uapi_cut_line [of "''endpoint''", simplified] uapi_cut_line [of "''allowed_ip''", simplified]
    uapi_cut_line [of "''persistent_keepalive_interval''", simplified]
  show "one_line h \<Longrightarrow> map uapi_cut (uapi_lines (remove_request h)) = [(''public_key'', h), (''remove'', ''true'')]"
    by (simp add: remove_request_def uapi_lines_line line keys cut)
  show "one_line h \<Longrightarrow> map uapi_cut (uapi_lines (setup_request h port)) = [(''private_key'', h), (''listen_port'', Itoa port)]"
    by (simp add: setup_request_def uapi_lines_line line keys cut Itoa_one_line)
  show "one_line h \<Longrightarrow> one_line e \<Longrightarrow> one_line a \<Longrightarrow> map uapi_cut (uapi_lines (peer_request h e a)) =
     [(''public_key'', h), (''endpoint'', e), (''allowed_ip'', a), (''persistent_keepalive_interval'', ''15'')]"
    by (simp add: peer_request_def uapi_lines_line line keys cut)
qed

text \<open>What the requests do to the peers: a removal, the set-up of a device, and a peer, entire or cut short.\<close>

lemma apply_remove: "one_line h \<Longrightarrow> uapi_apply (uapi_lines (remove_request h)) K = K(h := None)"
  by (auto simp: uapi_apply_def request_lines uapi_field_def)

lemma apply_setup: "one_line h \<Longrightarrow> uapi_apply (take n (uapi_lines (setup_request h port))) K = K"
  by (simp add: uapi_apply_def take_map [symmetric] request_lines uapi_field_def take_Cons' )

lemma apply_peer:
  assumes "one_line h" "one_line e" "one_line a" "K h = None"
  shows "uapi_apply (uapi_lines (peer_request h e a)) K =
      (\<lambda>j. if j = h then Some (Some e, [a]) else map_option (\<lambda>(ep, al). (ep, removeAll a al)) (K j))"
  using assms by (simp add: uapi_apply_def request_lines uapi_field_def move_allowed_def fun_eq_iff)

lemma apply_peer_cut:
  assumes "one_line h" "one_line e" "one_line a" "K h = None" "n \<le> 2"
  obtains x where "uapi_apply (take n (uapi_lines (peer_request h e a))) K = K(h := x)" "\<forall>ep al. x = Some (ep, al) \<longrightarrow> al = []"
proof -
  have "n = 0 \<or> n = 1 \<or> n = 2" using assms(5) by auto
  then show ?thesis
  proof (elim disjE)
    assume "n = 0"
    then show ?thesis using assms by (intro that [of None]) (auto simp: uapi_apply_def)
  next
    assume "n = 1"
    then show ?thesis using assms
      by (intro that [of "Some (None, [])"]) (auto simp: uapi_apply_def take_map [symmetric] request_lines uapi_field_def)
  next
    assume "n = 2"
    then show ?thesis using assms
      by (intro that [of "Some (Some e, [])"]) (auto simp: uapi_apply_def take_map [symmetric] request_lines uapi_field_def numeral_2_eq_2)
  qed
qed

subsection \<open>Effects on the host\<close>

text \<open>The peers of WireGuard and the laws of the library, as a predicate that most calls keep.\<close>

definition holds_peers :: "(string \<rightharpoonup> wg_peer) \<Rightarrow> (nat \<Rightarrow> host_call \<Rightarrow> host_outcome) \<Rightarrow> host_os \<Rightarrow> bool" where
  "holds_peers K orc h \<longleftrightarrow> device_peers h = K \<and> ho_oracle h = orc"

fun touches_peers :: "host_call \<Rightarrow> bool" where
  "touches_peers (IpcSet txt) = True"
| "touches_peers NewDevice = True"
| "touches_peers DeviceClose = True"
| "touches_peers c = False"

lemma host_do_run:
  "host_do c h = (Inr (ho_oracle h (length (ho_trace h)) c), h\<lparr>ho_trace := ho_trace h @ [(c, ho_oracle h (length (ho_trace h)) c)]\<rparr>)"
  by (simp add: host_do_def Let_def)

lemma device_peers_append [simp]: "device_peers (h\<lparr>ho_trace := ho_trace h @ calls\<rparr>) = fold device_step calls (device_peers h)"
  by (simp add: device_peers_def)

lemma device_peers_slept [simp]: "device_peers (h\<lparr>ho_slept := n\<rparr>) = device_peers h"
  by (simp add: device_peers_def)

lemma device_step_quiet: "\<not> touches_peers c \<Longrightarrow> device_step (c, out) K = K"
  by (cases c) auto

lemma keeps_sleeps [intro]: "keeps (holds_peers K orc) (sleeps n)"
  by (auto simp: keeps_def sleeps_def holds_peers_def modifies_def)

lemma keeps_host_do [intro]: "\<not> touches_peers c \<Longrightarrow> keeps (holds_peers K orc) (host_do c)"
  by (auto simp: keeps_def host_do_run holds_peers_def device_step_quiet)

lemma keeps_host_try [intro]: "\<not> touches_peers c \<Longrightarrow> keeps (holds_peers K orc) (host_try c)"
  unfolding host_try_def by (rule keeps_andThen) auto

lemma keeps_host_check [intro]: "\<not> touches_peers c \<Longrightarrow> keeps (holds_peers K orc) (host_check c)"
  unfolding host_check_def by (rule keeps_andThen) auto

lemma keeps_Pair [intro, simp]: "keeps I (Pair r)"
  by (simp add: keeps_def)

text \<open>A procedure of the platform that makes no call to WireGuard.\<close>

lemmas keeps_steps = keeps_andThen keeps_wrap keeps_host_do keeps_host_try keeps_host_check keeps_sleeps

lemma powershell_quiet [simp]: "\<not> touches_peers (powershell script)"
  by (simp add: powershell_def)

lemma rule_calls_quiet [simp]: "\<not> touches_peers (delete_rule name)" "\<not> touches_peers (add_rule r)"
  by (cases r; simp add: delete_rule_def add_rule_def)+

lemma keeps_wait: "keeps (holds_peers K orc) (wait_attempts n name)"
  by (induction n) (auto simp: Let_def adapter_status_def intro!: keeps_steps)

lemma keeps_netsh: "\<not> touches_peers c \<Longrightarrow> keeps (holds_peers K orc) (netsh_attempts n c)"
  by (induction n) (auto intro!: keeps_steps)

lemma keeps_open_rules: "keeps (holds_peers K orc) (open_rules rs)"
  by (induction rs) (auto intro!: keeps_steps)

lemma keeps_delete_rules: "keeps (holds_peers K orc) (delete_rules ns)"
  by (induction ns) (auto intro!: keeps_steps)

lemma keeps_setIPAddress: "keeps (holds_peers K orc) (setIPAddress name ip cidr)"
  unfolding setIPAddress_def Let_def by (auto intro!: keeps_steps keeps_netsh split: option.splits)

lemma keeps_CreateTUN: "keeps (holds_peers K orc) (win_CreateTUN name mtu)"
  unfolding win_CreateTUN_def killStaleAdapter_def Let_def by (auto intro!: keeps_steps)

lemma keeps_routes:
  "keeps (holds_peers K orc) win_enableIPForwarding" "keeps (holds_peers K orc) (win_addSubnetRoute cidr dev)"
  "keeps (holds_peers K orc) (win_addHostRoute ip dev)" "keeps (holds_peers K orc) (win_removeHostRoute ip dev)"
  unfolding win_enableIPForwarding_def win_addSubnetRoute_def win_addHostRoute_def win_removeHostRoute_def
  by (auto intro!: keeps_steps)

text \<open>The same on the device and the host together.\<close>

lemma on_host_run: "on_host p (d, h) = (fst (p h), (d, snd (p h)))"
  by (simp add: on_host_def on_field_def split: prod.splits)

lemma on_win_run: "on_win f (d, h) = (Inr (), (f d, h))"
  by (simp add: on_win_def)

lemma keeps_on_host: "keeps I p \<Longrightarrow> keeps (\<lambda>s. I (snd s) \<and> P (fst s)) (on_host p)"
  by (auto simp: keeps_def on_host_run)

lemma keeps_on_win: "(\<And>d. P d \<Longrightarrow> P (f d)) \<Longrightarrow> keeps (\<lambda>s. I (snd s) \<and> P (fst s)) (on_win f)"
  by (auto simp: keeps_def on_win_run)

lemma keeps_Configure: "keeps (\<lambda>s. holds_peers K orc (snd s) \<and> \<not> wd_wgDev (fst s)) (win_Configure ip cidr)"
  unfolding win_Configure_def waitForAdapter_def enableAdapter_def setMTU_def setMetric_def verifyConfig_def
  by (intro keeps_andThen keeps_on_win keeps_on_host keeps_basic keeps_wait keeps_setIPAddress keeps_host_try keeps_sleeps) auto

lemma keeps_firewall_uapi:
  "keeps (\<lambda>s. holds_peers K orc (snd s) \<and> wd_wgDev (fst s)) (andThen (on_host (openFirewall port)) (\<lambda>_. startUAPI))"
  unfolding openFirewall_def startUAPI_def
  by (intro keeps_andThen keeps_on_host keeps_open_rules keeps_basic keeps_host_do keeps_if keeps_on_win keeps_return) auto

subsection \<open>Effects of the device\<close>

lemma host_try_run: "host_try c h = (Inr (), snd (host_do c h))"
  by (simp add: host_try_def andThen_def host_do_run)

lemma open_rules_succeed: "fst (open_rules rs h) = Inr ()"
  by (induction rs arbitrary: h) (simp_all add: andThen_def host_try_run)

lemma startUAPI_succeeds: "fst (startUAPI (d, h)) = Inr ()"
  by (simp add: startUAPI_def on_host_run host_do_run on_win_run andThen_def)

lemma firewall_uapi_succeeds: "fst (andThen (on_host (openFirewall port)) (\<lambda>_. startUAPI) (d, h)) = Inr ()"
  using open_rules_succeed [of "firewall_rules port" h] startUAPI_succeeds
  by (simp add: andThen_def on_host_run openFirewall_def)

lemma or_close_peers:
  assumes "or_close ctx c h = (r, h')" "device_peers h = Map.empty" "device_step (c, ho_oracle h (length (ho_trace h)) c) Map.empty = Map.empty"
  shows "device_peers h' = Map.empty \<and> ho_oracle h' = ho_oracle h"
  using assms by (auto simp: or_close_def andThen_def host_do_run host_try_run split: if_splits)

lemma setup_request_step: "b64ToHex k = Inr x \<Longrightarrow> device_step (IpcSet (setup_request x port), out) K = K"
  using apply_setup [OF b64ToHex_one_line, of k x _ port K] apply_setup [OF b64ToHex_one_line, of k x "length (uapi_lines (setup_request x port))" port K]
  by (cases out) simp_all

lemma SetupWireGuard_device:
  assumes run: "SetupWireGuard pk port (d, h) = (r, (d', h'))" and "\<not> wd_wgDev d" "holds_peers Map.empty orc h"
  shows "holds_peers Map.empty orc h' \<and> (wd_wgDev d' \<longleftrightarrow> r = Inr ())"
proof (cases "wd_tunDev d")
  case True
  define d1 where "d1 = d\<lparr>wd_port := port\<rparr>"
  show ?thesis
  proof (cases "b64ToHex pk")
    case (Inl e)
    with run True assms show ?thesis by (auto simp: SetupWireGuard_def on_win_run)
  next
    case (Inr x)
    define h1 where "h1 = snd (host_try NewDevice h)"
    have h1: "device_peers h1 = Map.empty" "ho_oracle h1 = orc" using assms by (auto simp: h1_def host_try_run host_do_run holds_peers_def)
    obtain r2 h2 where c2: "or_close ''wg setup: ipc set'' (IpcSet (setup_request x port)) h1 = (r2, h2)"
      by (cases "or_close ''wg setup: ipc set'' (IpcSet (setup_request x port)) h1")
    have h2: "device_peers h2 = Map.empty" "ho_oracle h2 = orc" using or_close_peers [OF c2] h1 setup_request_step [OF Inr] by auto
    obtain r3 h3 where c3: "or_close ''wg setup: device up'' DeviceUp h2 = (r3, h3)"
      by (cases "or_close ''wg setup: device up'' DeviceUp h2")
    have h3: "device_peers h3 = Map.empty" "ho_oracle h3 = orc" using or_close_peers [OF c3] h2 by auto
    define s4 where "s4 = andThen (on_host (openFirewall port)) (\<lambda>_. startUAPI) (d1\<lparr>wd_wgDev := True\<rparr>, h3)"
    have s4: "holds_peers Map.empty orc (snd (snd s4)) \<and> wd_wgDev (fst (snd s4))" "fst s4 = Inr ()"
      using keepsD [OF keeps_firewall_uapi, of Map.empty orc "(d1\<lparr>wd_wgDev := True\<rparr>, h3)" port] h3 firewall_uapi_succeeds
      by (auto simp: s4_def holds_peers_def)
    have "SetupWireGuard pk port (d, h) = (case r2 of Inl e \<Rightarrow> (Inl e, (d1, h2)) | Inr _ \<Rightarrow> (case r3 of Inl e \<Rightarrow> (Inl e, (d1, h3)) | Inr _ \<Rightarrow> s4))"
    proof -
      have new: "on_host (host_try NewDevice) (d1, h) = (Inr (), (d1, h1))" by (simp add: on_host_run host_try_run h1_def)
      have ipc: "on_host (or_close ''wg setup: ipc set'' (IpcSet (setup_request x port))) (d1, h1) = (r2, (d1, h2))"
        and up: "on_host (or_close ''wg setup: device up'' DeviceUp) (d1, h2) = (r3, (d1, h3))"
        by (simp_all add: on_host_run c2 c3)
      have first: "on_win (\<lambda>d. d\<lparr>wd_port := port\<rparr>) (d, h) = (Inr (), (d1, h))" by (simp add: on_win_run d1_def)
      show ?thesis using True Inr new ipc up first
        by (cases r2; cases r3) (simp_all add: SetupWireGuard_def s4_def on_win_run)
    qed
    then show ?thesis using run s4 h2 h3 assms(2) by (cases r2; cases r3) (auto simp: holds_peers_def d1_def)
  qed
qed (use assms in \<open>auto simp: SetupWireGuard_def\<close>)

text \<open>The peers after a peer was set, and after it could not be.\<close>

definition peer_set :: "string \<Rightarrow> string \<Rightarrow> string \<Rightarrow> (string \<rightharpoonup> wg_peer) \<Rightarrow> (string \<rightharpoonup> wg_peer)" where
  "peer_set h e a K = (\<lambda>j. if j = h then Some (Some e, [a]) else map_option (\<lambda>(ep, al). (ep, removeAll a al)) (K j))"

lemma AddWGPeer_device:
  assumes run: "AddWGPeer k e a (d, h) = (r, (d', h'))" and "uapi_ok (ho_oracle h)" "one_line e" "one_line a" "Contains a ''/''"
    and live: "\<not> wd_wgDev d \<longrightarrow> device_peers h = Map.empty"
  obtains (unchanged) "r \<noteq> Inr ()" "d' = d" "h' = h" "\<not> wd_wgDev d \<or> (\<forall>x. b64ToHex k \<noteq> Inr x)"
    | (dropped) x y where "r \<noteq> Inr ()" "d' = d" "ho_oracle h' = ho_oracle h" "wd_wgDev d" "b64ToHex k = Inr x"
        "device_peers h' = (device_peers h)(x := y)" "\<forall>ep al. y = Some (ep, al) \<longrightarrow> al = []"
    | (added) x where "r = Inr ()" "d' = d" "ho_oracle h' = ho_oracle h" "wd_wgDev d" "b64ToHex k = Inr x"
        "device_peers h' = peer_set x e a (device_peers h)"
proof (cases "wd_wgDev d \<and> (\<exists>x. b64ToHex k = Inr x)")
  case False
  then show ?thesis using run by (cases "b64ToHex k") (auto simp: AddWGPeer_def intro!: unchanged split: if_splits)
next
  case True
  then obtain x where x: "b64ToHex k = Inr x" and w: "wd_wgDev d" by auto
  note line = b64ToHex_one_line [OF x]
  define h1 where "h1 = snd (host_do (IpcSet (remove_request x)) h)"
  define h2 where "h2 = h1\<lparr>ho_slept := ho_slept h1 + 50\<rparr>"
  define out where "out = ho_oracle h2 (length (ho_trace h2)) (IpcSet (peer_request x e a))"
  have "succeeded (ho_oracle h (length (ho_trace h)) (IpcSet (remove_request x)))" using assms(2) x by (auto simp: uapi_ok_def)
  then have "device_peers h1 = (device_peers h)(x := None)"
    by (auto simp: h1_def host_do_run succeeded_def apply_remove [OF line] split: host_outcome.splits)
  then have h2: "device_peers h2 = (device_peers h)(x := None)" "ho_oracle h2 = ho_oracle h"
    by (simp_all add: h2_def h1_def host_do_run)
  have r: "r = (if succeeded out then Inr () else Inl (Wrapf ''add peer: ipc set'' (Errorf (said out))))" "d' = d"
    "h' = h2\<lparr>ho_trace := ho_trace h2 @ [(IpcSet (peer_request x e a), out)]\<rparr>"
    using run x w assms(5)
    by (auto simp: AddWGPeer_def andThen_def wrap_def on_host_run host_try_run h1_def h2_def out_def sleeps_def host_check_def host_do_run
        split: if_splits)
  then have h': "device_peers h' = device_step (IpcSet (peer_request x e a), out) ((device_peers h)(x := None))" "ho_oracle h' = ho_oracle h"
    using h2 by simp_all
  show ?thesis
  proof (cases out)
    case (Ran m)
    have "device_peers h' = peer_set x e a (device_peers h)"
      using h'(1) Ran apply_peer [OF line assms(3,4), of "(device_peers h)(x := None)"] by (auto simp: peer_set_def fun_eq_iff)
    then show ?thesis using r h' Ran w x by (intro added) (auto simp: succeeded_def)
  next
    case (Failed n m)
    have "n \<le> 2" using assms(2) Failed h2(2) unfolding uapi_ok_def out_def by metis
    then obtain y where "uapi_apply (take n (uapi_lines (peer_request x e a))) ((device_peers h)(x := None)) = (device_peers h)(x := None, x := y)"
      "\<forall>ep al. y = Some (ep, al) \<longrightarrow> al = []"
      using apply_peer_cut [OF line assms(3,4), of "(device_peers h)(x := None)" n] by auto
    then show ?thesis using r h' Failed w x by (intro dropped [of x y]) (auto simp: succeeded_def)
  qed
qed

lemma RemoveWGPeer_device:
  assumes run: "RemoveWGPeer k (d, h) = (r, (d', h'))" and "uapi_ok (ho_oracle h)"
  obtains (unchanged) "d' = d" "h' = h" "r = Inr () \<longrightarrow> \<not> wd_wgDev d"
    | (removed) x where "r = Inr ()" "d' = d" "ho_oracle h' = ho_oracle h" "b64ToHex k = Inr x" "device_peers h' = (device_peers h)(x := None)"
proof (cases "wd_wgDev d \<and> (\<exists>x. b64ToHex k = Inr x)")
  case False
  then show ?thesis using run by (cases "b64ToHex k") (auto simp: RemoveWGPeer_def intro: unchanged split: if_splits)
next
  case True
  then obtain x where x: "b64ToHex k = Inr x" and w: "wd_wgDev d" by auto
  have "succeeded (ho_oracle h (length (ho_trace h)) (IpcSet (remove_request x)))" using assms(2) x by (auto simp: uapi_ok_def)
  then show ?thesis using run x w
    by (intro removed [of x])
      (auto simp: RemoveWGPeer_def on_host_run host_check_def andThen_def host_do_run succeeded_def apply_remove [OF b64ToHex_one_line [OF x]]
        split: host_outcome.splits)
qed

lemma Close_device:
  assumes "win_Close (d, h) = (r, (d', h'))" "\<not> wd_wgDev d \<longrightarrow> device_peers h = Map.empty"
  shows "device_peers h' = Map.empty \<and> ho_oracle h' = ho_oracle h \<and> \<not> wd_wgDev d'"
proof -
  have clean: "device_peers (snd (cleanFirewall g)) = device_peers g \<and> ho_oracle (snd (cleanFirewall g)) = ho_oracle g" for g
    unfolding cleanFirewall_def using keepsD [OF keeps_delete_rules, of "device_peers g" "ho_oracle g" g]
    by (auto simp: holds_peers_def simp del: delete_rules.simps)
  show ?thesis using assms clean
    by (cases "wd_uapiLn d"; cases "wd_wgDev d"; cases "wd_tunDev d")
      (auto simp: win_Close_def andThen_def on_host_run on_win_run host_try_run host_do_run split: if_splits)
qed

subsection \<open>The table of peers\<close>

text \<open>The calls of the device and the platform leave the rest of the tunnel as it is.\<close>

lemma on_device_same: "on_device m t = (r, t') \<Longrightarrow> t' = t\<lparr>wn_device := wn_device t', wn_os := wn_os t'\<rparr>"
  by (auto simp: on_device_def split: option.splits prod.splits)

lemma on_platform_run: "on_platform p t = (fst (p (wn_os t)), t\<lparr>wn_os := snd (p (wn_os t))\<rparr>)"
  by (simp add: on_platform_def on_field_def split: prod.splits)

lemma host_routes_run:
  "win_addHostRoute ip dev h = (Inr (), snd (win_addHostRoute ip dev h))"
  "win_removeHostRoute ip dev h = (Inr (), snd (win_removeHostRoute ip dev h))"
  by (simp_all add: win_addHostRoute_def win_removeHostRoute_def host_try_run)

lemma routed:
  "wrap ctx (on_platform (win_addHostRoute ip dev)) t = (Inr (), t\<lparr>wn_os := snd (win_addHostRoute ip dev (wn_os t))\<rparr>)"
  "wrap ctx (on_platform (win_removeHostRoute ip dev)) t = (Inr (), t\<lparr>wn_os := snd (win_removeHostRoute ip dev (wn_os t))\<rparr>)"
proof -
  show "wrap ctx (on_platform (win_addHostRoute ip dev)) t = (Inr (), t\<lparr>wn_os := snd (win_addHostRoute ip dev (wn_os t))\<rparr>)"
    using arg_cong [OF host_routes_run(1) [of ip dev "wn_os t"], of fst] by (intro wrap_Inr) (simp add: on_platform_run)
  show "wrap ctx (on_platform (win_removeHostRoute ip dev)) t = (Inr (), t\<lparr>wn_os := snd (win_removeHostRoute ip dev (wn_os t))\<rparr>)"
    using arg_cong [OF host_routes_run(2) [of ip dev "wn_os t"], of fst] by (intro wrap_Inr) (simp add: on_platform_run)
qed

lemma wrap_device_same:
  "wrap ctx (on_device m) t = (r, t') \<Longrightarrow> t' = t\<lparr>wn_device := wn_device t', wn_os := wn_os t'\<rparr>"
  using on_device_same [of m t] by (auto simp: wrap_def split: prod.splits sum.splits)

lemma wg_call_same: "wg_call ctx m t = (r, t') \<Longrightarrow> t' = t\<lparr>wn_device := wn_device t', wn_os := wn_os t'\<rparr>"
  using wrap_device_same [of ctx m t] by (auto simp: wg_call_def split: if_splits)

lemma AddPeer_run:
  assumes "win_AddPeer now k e a t = (r, t')"
  obtains (refused) "r \<noteq> Inr ()" "t' = t"
    | (wg_failed) al where "r \<noteq> Inr ()" "wn_started t" "wg_call ''add peer: windows wg peer'' (AddWGPeer k e al) t = (r, t')"
        "al = (if Contains a ''/'' then a else a @ ''/32'')"
    | (added) al t1 c where "r = Inr ()" "wn_started t" "wg_call ''add peer: windows wg peer'' (AddWGPeer k e al) t = (Inr (), t1)"
        "al = (if Contains a ''/'' then a else a @ ''/32'')" "pc_Endpoint c = e" "pc_AllowedIP c = al"
        "t' = t1\<lparr>wn_os := snd (win_addHostRoute (host_part al) (wn_deviceName t) (wn_os t1)),
           wn_peers := AList.update k c (wn_peers t1), wn_stats := (wn_stats t1)\<lparr>ts_LastHandshake := Some now\<rparr>\<rparr>"
proof (cases "wn_started t \<and> TrimSpace k \<noteq> [] \<and> TrimSpace e \<noteq> [] \<and> TrimSpace a \<noteq> []")
  case False
  then show ?thesis using assms refused by (auto simp: win_AddPeer_def split: if_splits)
next
  case True
  define al where "al = (if Contains a ''/'' then a else a @ ''/32'')"
  obtain r1 t1 where w: "wg_call ''add peer: windows wg peer'' (AddWGPeer k e al) t = (r1, t1)"
    by (cases "wg_call ''add peer: windows wg peer'' (AddWGPeer k e al) t")
  show ?thesis
  proof (cases r1)
    case (Inl x)
    then have "win_AddPeer now k e a t = (Inl x, t1)"
      using True w by (simp add: win_AddPeer_def al_def [symmetric] Let_def)
    then show ?thesis using assms w Inl True by (intro wg_failed [of al]) (auto simp: al_def)
  next
    case (Inr u)
    then have "win_AddPeer now k e a t = (Inr (), t1\<lparr>wn_os := snd (win_addHostRoute (host_part al) (wn_deviceName t) (wn_os t1)),
       wn_peers := AList.update k \<lparr>pc_PublicKey = k, pc_Endpoint = e, pc_AllowedIP = al, pc_AddedAt = now, pc_LastHandshake = now\<rparr> (wn_peers t1),
       wn_stats := (wn_stats t1)\<lparr>ts_LastHandshake := Some now\<rparr>\<rparr>)"
      using True w by (simp add: win_AddPeer_def al_def [symmetric] Let_def routed)
    then show ?thesis using assms w Inr True
      by (intro added [of al t1 "\<lparr>pc_PublicKey = k, pc_Endpoint = e, pc_AllowedIP = al, pc_AddedAt = now, pc_LastHandshake = now\<rparr>"]) (auto simp: al_def)
  qed
qed

lemma RemovePeer_run:
  assumes "win_RemovePeer k t = (r, t')"
  obtains (refused) "r \<noteq> Inr ()" "t' = t"
    | (wg_failed) "r \<noteq> Inr ()" "wn_started t" "wg_call ''remove peer: windows wg remove'' (RemoveWGPeer k) t = (r, t')"
    | (removed) t1 ip where "r = Inr ()" "wn_started t" "wg_call ''remove peer: windows wg remove'' (RemoveWGPeer k) t = (Inr (), t1)"
        "t' = t1\<lparr>wn_os := snd (win_removeHostRoute ip (wn_deviceName t) (wn_os t1)), wn_peers := AList.delete k (wn_peers t1)\<rparr>"
proof (cases "wn_started t \<and> map_of (wn_peers t) k \<noteq> None")
  case False
  then show ?thesis using assms refused by (auto simp: win_RemovePeer_def split: if_splits option.splits)
next
  case True
  then obtain c where c: "map_of (wn_peers t) k = Some c" by blast
  obtain r1 t1 where w: "wg_call ''remove peer: windows wg remove'' (RemoveWGPeer k) t = (r1, t1)"
    by (cases "wg_call ''remove peer: windows wg remove'' (RemoveWGPeer k) t")
  show ?thesis
  proof (cases r1)
    case (Inl x)
    then have "win_RemovePeer k t = (Inl x, t1)" using True c w by (simp add: win_RemovePeer_def)
    then show ?thesis using assms w Inl True by (intro wg_failed) auto
  next
    case (Inr u)
    then have "win_RemovePeer k t = (Inr (), t1\<lparr>wn_os := snd (win_removeHostRoute (host_part (pc_AllowedIP c)) (wn_deviceName t) (wn_os t1)),
        wn_peers := AList.delete k (wn_peers t1)\<rparr>)"
      using True c w by (simp add: win_RemovePeer_def routed)
    then show ?thesis using assms w Inr True by (intro removed [of t1]) auto
  qed
qed

lemma UpdatePeerEndpoint_run:
  assumes "win_UpdatePeerEndpoint now k e t = (r, t')"
  obtains (refused) "r \<noteq> Inr ()" "t' = t" "\<not> wn_started t \<or> map_of (wn_peers t) k = None"
    | (wg_failed) c where "r \<noteq> Inr ()" "wn_started t" "map_of (wn_peers t) k = Some c"
        "wg_call ''update peer endpoint: windows wg update'' (AddWGPeer k e (pc_AllowedIP c)) t = (r, t')"
    | (updated) c c' t1 where "r = Inr ()" "wn_started t" "map_of (wn_peers t) k = Some c"
        "wg_call ''update peer endpoint: windows wg update'' (AddWGPeer k e (pc_AllowedIP c)) t = (Inr (), t1)"
        "pc_Endpoint c' = e" "pc_AllowedIP c' = pc_AllowedIP c"
        "t' = t1\<lparr>wn_peers := AList.update k c' (wn_peers t1), wn_stats := (wn_stats t1)\<lparr>ts_LastHandshake := Some now\<rparr>\<rparr>"
proof (cases "wn_started t \<and> map_of (wn_peers t) k \<noteq> None")
  case False
  then show ?thesis using assms refused by (auto simp: win_UpdatePeerEndpoint_def split: if_splits option.splits)
next
  case True
  then obtain c where c: "map_of (wn_peers t) k = Some c" by blast
  let ?ctx = "''update peer endpoint: windows wg update''"
  obtain r1 t1 where w: "wg_call ?ctx (AddWGPeer k e (pc_AllowedIP c)) t = (r1, t1)"
    by (cases "wg_call ?ctx (AddWGPeer k e (pc_AllowedIP c)) t")
  show ?thesis
  proof (cases r1)
    case (Inl x)
    then have "win_UpdatePeerEndpoint now k e t = (Inl x, t1)" using True c w by (simp add: win_UpdatePeerEndpoint_def)
    then show ?thesis using assms w c Inl True by (intro wg_failed) auto
  next
    case (Inr u)
    then have "win_UpdatePeerEndpoint now k e t = (Inr (), t1\<lparr>wn_peers := AList.update k (c\<lparr>pc_Endpoint := e, pc_LastHandshake := now\<rparr>) (wn_peers t1),
        wn_stats := (wn_stats t1)\<lparr>ts_LastHandshake := Some now\<rparr>\<rparr>)"
      using True c w by (simp add: win_UpdatePeerEndpoint_def)
    then show ?thesis using assms w c Inr True by (intro updated [of c t1 "c\<lparr>pc_Endpoint := e, pc_LastHandshake := now\<rparr>"]) auto
  qed
qed

text \<open>The table keeps the contract the peer manager relies on, as on Linux.\<close>

interpretation winwg: peer_table "\<lambda>t. fst ` set (wn_peers t)" win_AddPeer win_RemovePeer win_UpdatePeerEndpoint
proof
  have same: "wn_peers t' = wn_peers t" if "wg_call ctx m t = (r, t')" for ctx m t r t'
    using arg_cong [OF wg_call_same [OF that], of wn_peers] by simp
  show "fst ` set (wn_peers t') = (if r = Inr () then insert k (fst ` set (wn_peers t)) else fst ` set (wn_peers t))"
    if "win_AddPeer now k e a t = (r, t')" for now k e a t r t'
    using that by (cases rule: AddPeer_run) (simp_all add: same)
  show "fst ` set (wn_peers t') = (if r = Inr () then fst ` set (wn_peers t) - {k} else fst ` set (wn_peers t))"
    if "win_RemovePeer k t = (r, t')" for k t r t'
    using that by (cases rule: RemovePeer_run) (simp_all add: same)
  show "fst ` set (wn_peers t') = fst ` set (wn_peers t)" if "win_UpdatePeerEndpoint now k e t = (r, t')" for now k e t r t'
    using that
  proof (cases rule: UpdatePeerEndpoint_run)
    case (updated c c' t1)
    then have "k \<in> fst ` set (wn_peers t)" by (simp add: map_of_keys)
    then show ?thesis using updated same [OF updated(4)] by (simp add: insert_absorb)
  qed (simp_all add: same)
qed

subsection \<open>The tunnel and WireGuard\<close>

text \<open>WireGuard runs for the tunnel; then every peer it routes to is one of the table.\<close>

definition wg_live :: "WinWG \<Rightarrow> bool" where
  "wg_live t \<longleftrightarrow> wn_wgReady t \<and> (\<exists>d. wn_device t = Some d \<and> wd_wgDev d)"

definition listed_peer :: "(string \<times> PeerConfig) list \<Rightarrow> string \<Rightarrow> wg_peer \<Rightarrow> bool" where
  "listed_peer peers x w \<longleftrightarrow>
     (\<exists>k c. map_of peers k = Some c \<and> b64ToHex k = Inr x \<and> fst w = Some (pc_Endpoint c) \<and> snd w = [pc_AllowedIP c])"

definition win_inv :: "WinWG \<Rightarrow> bool" where
  "win_inv t \<longleftrightarrow>
     uapi_ok (ho_oracle (wn_os t)) \<and>
     (\<not> wn_started t \<longrightarrow> wn_peers t = [] \<and> \<not> wn_wgReady t) \<and>
     (\<forall>k c. map_of (wn_peers t) k = Some c \<longrightarrow> one_line (pc_AllowedIP c) \<and> Contains (pc_AllowedIP c) ''/'') \<and>
     (wn_wgReady t \<longrightarrow> wn_device t \<noteq> None) \<and>
     (\<not> wg_live t \<longrightarrow> device_peers (wn_os t) = Map.empty) \<and>
     (\<forall>x w. device_peers (wn_os t) x = Some w \<longrightarrow> snd w \<noteq> [] \<longrightarrow> listed_peer (wn_peers t) x w)"

lemma listed_update:
  assumes "listed_peer peers y w" "b64ToHex k = Inr x" "y \<noteq> x"
  shows "listed_peer (AList.update k c peers) y w" "listed_peer (AList.delete k peers) y w"
proof -
  from assms(1) obtain j d where j: "map_of peers j = Some d" "b64ToHex j = Inr y" "fst w = Some (pc_Endpoint d)" "snd w = [pc_AllowedIP d]"
    by (auto simp: listed_peer_def)
  then have "j \<noteq> k" using assms by auto
  with j show "listed_peer (AList.update k c peers) y w" "listed_peer (AList.delete k peers) y w"
    unfolding listed_peer_def by (intro exI [of _ j] exI [of _ d]; simp add: update_conv' delete_conv')+
qed

text \<open>The device was asked to add a peer, and did or did not.\<close>

lemma wg_call_add:
  assumes "wg_call ctx (AddWGPeer k e a) t = (r, t')" "win_inv t" "one_line e" "one_line a" "Contains a ''/''"
  obtains (failed) h where "r \<noteq> Inr ()" "t' = t\<lparr>wn_os := h\<rparr>" "win_inv t'"
    | (not_live) "r = Inr ()" "t' = t" "\<not> wg_live t"
    | (added) h x where "r = Inr ()" "t' = t\<lparr>wn_os := h\<rparr>" "wg_live t" "b64ToHex k = Inr x" "ho_oracle h = ho_oracle (wn_os t)"
        "device_peers h = peer_set x e a (device_peers (wn_os t))"
proof (cases "wn_wgReady t \<and> wn_device t \<noteq> None")
  case False
  then have "wg_call ctx (AddWGPeer k e a) t = (Inr (), t)" by (auto simp: wg_call_def on_device_def wrap_def)
  then show ?thesis using False assms(1) by (intro not_live) (auto simp: wg_live_def)
next
  case True
  then obtain d where d: "wn_device t = Some d" by auto
  obtain r0 d' h where run: "AddWGPeer k e a (d, wn_os t) = (r0, (d', h))" by (cases "AddWGPeer k e a (d, wn_os t)") auto
  have t': "t' = t\<lparr>wn_device := Some d', wn_os := h\<rparr>" and r: "r = Inr () \<longleftrightarrow> r0 = Inr ()"
    using assms(1) True d run by (auto simp: wg_call_def wrap_def on_device_def split: sum.splits)
  have live: "\<not> wd_wgDev d \<longrightarrow> device_peers (wn_os t) = Map.empty" and orc: "uapi_ok (ho_oracle (wn_os t))"
    using assms(2) d by (auto simp: win_inv_def wg_live_def)
  have keep: "t' = t\<lparr>wn_os := h\<rparr>" if "d' = d" using t' d that by simp
  show ?thesis using run orc assms(3-5) live
  proof (cases rule: AddWGPeer_device)
    case unchanged
    then show ?thesis using keep r assms(2) by (intro failed [of h]) auto
  next
    case (dropped x y)
    have "win_inv t'" using assms(2) keep dropped True d by (auto simp: win_inv_def wg_live_def)
    then show ?thesis using keep r dropped by (intro failed [of h]) auto
  next
    case (added x)
    then show ?thesis using keep r True d by (intro that(3) [of h x]) (auto simp: wg_live_def)
  qed
qed

lemma inv_peer_set:
  assumes "win_inv t" "wn_started t" "wg_live t" "b64ToHex k = Inr x" "ho_oracle h = ho_oracle (wn_os t)"
    "device_peers h = peer_set x (pc_Endpoint c) (pc_AllowedIP c) (device_peers (wn_os t))"
    "one_line (pc_AllowedIP c)" "Contains (pc_AllowedIP c) ''/''"
  shows "win_inv (t\<lparr>wn_os := h, wn_peers := AList.update k c (wn_peers t), wn_stats := st\<rparr>)"
proof -
  have "listed_peer (AList.update k c (wn_peers t)) y w" if "device_peers h y = Some w" "snd w \<noteq> []" for y w
  proof (cases "y = x")
    case True
    then show ?thesis using that assms by (auto simp: peer_set_def listed_peer_def update_conv' fun_eq_iff)
  next
    case False
    then have "map_option (\<lambda>(ep, al). (ep, removeAll (pc_AllowedIP c) al)) (device_peers (wn_os t) y) = Some w"
      using that(1) assms(6) by (simp add: peer_set_def)
    then obtain ep al where v: "device_peers (wn_os t) y = Some (ep, al)" "w = (ep, removeAll (pc_AllowedIP c) al)"
      by auto
    then have "al \<noteq> []" using that by auto
    then have l: "listed_peer (wn_peers t) y (ep, al)" using assms(1) v by (auto simp: win_inv_def)
    then have "w = (ep, al)" using v that by (auto simp: listed_peer_def split: if_splits)
    then show ?thesis using listed_update(1) [OF l assms(4) False] by simp
  qed
  then show ?thesis using assms by (auto simp: win_inv_def wg_live_def update_conv' split: if_splits)
qed

lemma inv_table:
  assumes "win_inv t" "wn_started t" "\<not> wg_live t" "one_line (pc_AllowedIP c)" "Contains (pc_AllowedIP c) ''/''"
  shows "win_inv (t\<lparr>wn_peers := AList.update k c (wn_peers t), wn_stats := st\<rparr>)"
  using assms by (auto simp: win_inv_def wg_live_def update_conv' split: if_splits)

text \<open>A call of the platform changes nothing the invariant mentions.\<close>

lemma inv_platform:
  assumes "win_inv t" "\<And>K orc. keeps (holds_peers K orc) p"
  shows "win_inv (t\<lparr>wn_os := snd (p (wn_os t))\<rparr>)"
  using assms(1) keepsD [OF assms(2), of "device_peers (wn_os t)" "ho_oracle (wn_os t)" "wn_os t"]
  by (auto simp: win_inv_def wg_live_def holds_peers_def)

lemma allowed_line: "one_line a \<Longrightarrow> al = (if Contains a ''/'' then a else a @ ''/32'') \<Longrightarrow> one_line al \<and> Contains al ''/''"
  using Contains_append [of "''/32''" "''/''" a] by (auto simp: one_line_def)

lemma win_AddPeer_inv:
  assumes "win_inv t" "win_AddPeer now k e a t = (r, t')" "one_line e" "one_line a"
  shows "win_inv t'"
  using assms(2)
proof (cases rule: AddPeer_run)
  case (wg_failed al)
  note al = allowed_line [OF assms(4) wg_failed(4)]
  from wg_failed(3) assms(1,3) al show ?thesis by (elim wg_call_add) (use wg_failed(1) in auto)
next
  case (added al t1 c)
  note al = allowed_line [OF assms(4) added(4)]
  define u where "u = t1\<lparr>wn_peers := AList.update k c (wn_peers t1), wn_stats := (wn_stats t1)\<lparr>ts_LastHandshake := Some now\<rparr>\<rparr>"
  from added(3) assms(1,3) al have "win_inv u"
  proof (elim wg_call_add)
    assume "t1 = t" "\<not> wg_live t"
    then show ?thesis using inv_table [OF assms(1) added(2)] added al by (simp add: u_def)
  next
    fix h x
    assume "t1 = t\<lparr>wn_os := h\<rparr>" "wg_live t" "b64ToHex k = Inr x" "ho_oracle h = ho_oracle (wn_os t)"
      "device_peers h = peer_set x e al (device_peers (wn_os t))"
    then show ?thesis using inv_peer_set [OF assms(1) added(2), of k x h c] added al by (simp add: u_def)
  qed auto
  then have "win_inv (u\<lparr>wn_os := snd (win_addHostRoute (host_part al) (wn_deviceName t) (wn_os u))\<rparr>)"
    by (rule inv_platform) (rule keeps_routes)
  also have "u\<lparr>wn_os := snd (win_addHostRoute (host_part al) (wn_deviceName t) (wn_os u))\<rparr> = t'"
    by (rule WinWG.equality) (simp_all add: added(7) u_def)
  finally show ?thesis .
qed (use assms in simp)

lemma win_UpdatePeerEndpoint_inv:
  assumes "win_inv t" "win_UpdatePeerEndpoint now k e t = (r, t')" "one_line e"
  shows "win_inv t'"
  using assms(2)
proof (cases rule: UpdatePeerEndpoint_run)
  case (wg_failed c)
  then have "one_line (pc_AllowedIP c)" "Contains (pc_AllowedIP c) ''/''" using assms(1) by (auto simp: win_inv_def)
  with wg_failed(4) assms(1,3) show ?thesis by (elim wg_call_add) (use wg_failed(1) in auto)
next
  case (updated c c' t1)
  then have al: "one_line (pc_AllowedIP c)" "Contains (pc_AllowedIP c) ''/''" using assms(1) by (auto simp: win_inv_def)
  from updated(4) assms(1,3) al show ?thesis
  proof (elim wg_call_add)
    assume "t1 = t" "\<not> wg_live t"
    then show ?thesis using inv_table [OF assms(1) updated(2)] updated al by simp
  next
    fix h x
    assume "t1 = t\<lparr>wn_os := h\<rparr>" "wg_live t" "b64ToHex k = Inr x" "ho_oracle h = ho_oracle (wn_os t)"
      "device_peers h = peer_set x e (pc_AllowedIP c) (device_peers (wn_os t))"
    then show ?thesis using inv_peer_set [OF assms(1) updated(2), of k x h c'] updated al by simp
  qed auto
qed (use assms in simp)

lemma wg_call_remove:
  assumes "wg_call ctx (RemoveWGPeer k) t = (r, t')" "win_inv t"
  obtains (same) "t' = t" "r = Inr () \<longrightarrow> \<not> wg_live t"
    | (removed) h x where "r = Inr ()" "t' = t\<lparr>wn_os := h\<rparr>" "wg_live t" "b64ToHex k = Inr x" "ho_oracle h = ho_oracle (wn_os t)"
        "device_peers h = (device_peers (wn_os t))(x := None)"
proof (cases "wg_live t")
  case False
  then show ?thesis using assms(1)
    by (intro same) (auto simp: wg_call_def on_device_def wg_live_def wrap_def RemoveWGPeer_def split: if_splits option.splits prod.splits sum.splits)
next
  case True
  then obtain d where d: "wn_device t = Some d" "wd_wgDev d" "wn_wgReady t" by (auto simp: wg_live_def)
  obtain r0 d' h where run: "RemoveWGPeer k (d, wn_os t) = (r0, (d', h))" by (cases "RemoveWGPeer k (d, wn_os t)") auto
  have t': "t' = t\<lparr>wn_device := Some d', wn_os := h\<rparr>" and r: "r = Inr () \<longleftrightarrow> r0 = Inr ()"
    using assms(1) d run by (auto simp: wg_call_def wrap_def on_device_def split: sum.splits)
  have "uapi_ok (ho_oracle (wn_os t))" using assms(2) by (simp add: win_inv_def)
  with run show ?thesis
  proof (cases rule: RemoveWGPeer_device)
    case unchanged
    then show ?thesis using t' r d by (intro same) auto
  next
    case (removed x)
    then show ?thesis using t' r d True by (intro that(2) [of h x]) auto
  qed
qed

lemma inv_delete:
  assumes "win_inv t" "wg_live t" "b64ToHex k = Inr x" "ho_oracle h = ho_oracle (wn_os t)" "device_peers h = (device_peers (wn_os t))(x := None)"
  shows "win_inv (t\<lparr>wn_os := h, wn_peers := AList.delete k (wn_peers t)\<rparr>)"
proof -
  have "listed_peer (AList.delete k (wn_peers t)) y w" if "device_peers h y = Some w" "snd w \<noteq> []" for y w
  proof -
    have y: "y \<noteq> x" "device_peers (wn_os t) y = Some w" using that assms(5) by (auto split: if_splits)
    then have "listed_peer (wn_peers t) y w" using assms(1) that(2) unfolding win_inv_def by blast
    then show ?thesis using listed_update(2) assms(3) y(1) by blast
  qed
  then show ?thesis using assms by (auto simp: win_inv_def wg_live_def delete_conv' split: if_splits)
qed

lemma win_RemovePeer_inv:
  assumes "win_inv t" "win_RemovePeer k t = (r, t')"
  shows "win_inv t'"
  using assms(2)
proof (cases rule: RemovePeer_run)
  case wg_failed
  from wg_failed(3) assms(1) show ?thesis by (cases rule: wg_call_remove) (use wg_failed(1) assms in auto)
next
  case (removed t1 ip)
  define u where "u = t1\<lparr>wn_peers := AList.delete k (wn_peers t1)\<rparr>"
  from removed(3) assms(1) have "win_inv u"
  proof (cases rule: wg_call_remove)
    case same
    then have "device_peers (wn_os t) = Map.empty" using assms(1) by (simp add: win_inv_def)
    then show ?thesis using assms(1) same by (auto simp: u_def win_inv_def wg_live_def delete_conv' split: if_splits)
  next
    case (removed h x)
    then show ?thesis using inv_delete [OF assms(1)] by (simp add: u_def)
  qed
  then have "win_inv (u\<lparr>wn_os := snd (win_removeHostRoute ip (wn_deviceName t) (wn_os u))\<rparr>)"
    by (rule inv_platform) (rule keeps_routes)
  also have "u\<lparr>wn_os := snd (win_removeHostRoute ip (wn_deviceName t) (wn_os u))\<rparr> = t'"
    by (rule WinWG.equality) (simp_all add: removed(4) u_def)
  finally show ?thesis .
qed (use assms in simp)

lemma setup_device:
  assumes "\<not> wd_wgDev d" "holds_peers Map.empty orc h" "wn_device t = Some d" "wn_os t = h" "\<not> wn_wgReady t"
  shows "holds_peers Map.empty orc (wn_os (win_setup t)) \<and> wn_peers (win_setup t) = wn_peers t \<and> wn_device (win_setup t) \<noteq> None"
proof -
  obtain r d' h' where run: "SetupWireGuard (wn_privateKey t) (wn_listenPort t) (d, h) = (r, (d', h'))"
    by (cases "SetupWireGuard (wn_privateKey t) (wn_listenPort t) (d, h)") auto
  show ?thesis using SetupWireGuard_device [OF run assms(1,2)] assms run
    by (auto simp: win_setup_def on_device_def split: sum.splits)
qed

lemma start_routes_device:
  assumes "holds_peers K orc (wn_os t)"
  shows "holds_peers K orc (wn_os (win_start_routes now t)) \<and> wn_peers (win_start_routes now t) = wn_peers t \<and> wn_started (win_start_routes now t) \<and>
    wn_device (win_start_routes now t) = wn_device t"
  using assms keepsD [OF keeps_routes(1), of K orc] keepsD [OF keeps_routes(2), of K orc]
  by (auto simp: win_start_routes_def Let_def on_platform_run)

lemma inv_empty:
  assumes "holds_peers Map.empty orc (wn_os t)" "uapi_ok orc" "wn_peers t = []" "wn_started t \<or> \<not> wn_wgReady t"
    "wn_wgReady t \<longrightarrow> wn_device t \<noteq> None"
  shows "win_inv t"
  using assms by (auto simp: win_inv_def holds_peers_def)

lemma win_Start_inv:
  assumes "win_inv t" "win_Start now t = (r, t')"
  shows "win_inv t'"
proof (cases "wn_started t")
  case False
  then have t: "wn_peers t = []" "\<not> wn_wgReady t" "device_peers (wn_os t) = Map.empty"
    and orc: "uapi_ok (ho_oracle (wn_os t))" using assms(1) by (auto simp: win_inv_def wg_live_def)
  define O' where "O' = ho_oracle (wn_os t)"
  obtain r1 h1 where c: "win_CreateTUN (wn_deviceName t) (wn_mtu t) (wn_os t) = (r1, h1)"
    by (cases "win_CreateTUN (wn_deviceName t) (wn_mtu t) (wn_os t)")
  have h1: "holds_peers Map.empty O' h1"
    using keepsD [OF keeps_CreateTUN, of Map.empty O' "wn_os t" "wn_deviceName t" "wn_mtu t"] t c by (simp add: holds_peers_def O'_def)
  show ?thesis
  proof (cases r1)
    case (Inl e)
    then have "t' = t\<lparr>wn_os := h1\<rparr>" using assms(2) False c by (simp add: win_Start_def)
    then show ?thesis using h1 orc t by (intro inv_empty) (auto simp: O'_def)
  next
    case (Inr dev)
    then have dev: "\<not> wd_wgDev dev" using c by (auto simp: win_CreateTUN_def success_iff Let_def split: if_splits)
    obtain r2 d2 h2 where f: "win_Configure (wn_virtualIP t) (wn_cidr t) (dev, h1) = (r2, (d2, h2))"
      by (cases "win_Configure (wn_virtualIP t) (wn_cidr t) (dev, h1)") auto
    have h2: "holds_peers Map.empty O' h2" "\<not> wd_wgDev d2"
      using keepsD [OF keeps_Configure, of Map.empty O' "(dev, h1)" "wn_virtualIP t" "wn_cidr t"] h1 dev f by auto
    show ?thesis
    proof (cases r2)
      case e: (Inl e)
      obtain r3 d3 h3 where cl: "win_Close (d2, h2) = (r3, (d3, h3))" by (cases "win_Close (d2, h2)") auto
      have "t' = t\<lparr>wn_os := h3\<rparr>" using assms(2) False c Inr f e cl by (simp add: win_Start_def)
      moreover have "holds_peers Map.empty O' h3" using Close_device [OF cl] h2 by (auto simp: holds_peers_def)
      ultimately show ?thesis using orc t by (intro inv_empty) (auto simp: O'_def)
    next
      case (Inr u)
      define t3 where "t3 = t\<lparr>wn_device := Some d2, wn_deviceName := wd_name d2, wn_os := h2\<rparr>"
      have "t' = win_start_routes now (win_setup t3)" using assms(2) False c \<open>r1 = Inr dev\<close> f Inr by (simp add: win_Start_def t3_def)
      moreover have "holds_peers Map.empty O' (wn_os (win_setup t3)) \<and> wn_peers (win_setup t3) = [] \<and> wn_device (win_setup t3) \<noteq> None"
        using setup_device [OF h2(2,1), of t3] t by (simp add: t3_def)
      ultimately show ?thesis using start_routes_device [of Map.empty O' "win_setup t3" now] orc by (intro inv_empty) (auto simp: O'_def)
    qed
  qed
qed (use assms in \<open>auto simp: win_Start_def\<close>)

lemma stop_peers_inv: "win_inv t \<Longrightarrow> win_inv (win_stop_peers ps t)"
  using inv_platform [OF _ keeps_routes(4)] by (induction ps t rule: win_stop_peers.induct) (simp_all add: on_platform_run)

lemma win_Stop_inv:
  assumes "win_inv t" "win_Stop t = (r, t')"
  shows "win_inv t'"
proof (cases "wn_started t")
  case True
  define u where "u = win_stop_peers (wn_peers t) t"
  have u: "win_inv u" using stop_peers_inv [OF assms(1)] by (simp add: u_def)
  obtain r1 u1 where c: "wrap ''wg tunnel stop'' (on_device win_Close) u = (r1, u1)" by (cases "wrap ''wg tunnel stop'' (on_device win_Close) u")
  have t': "(r, t') = (case r1 of Inl e \<Rightarrow> (Inl e, u1)
      | Inr _ \<Rightarrow> (Inr (), u1\<lparr>wn_device := None, wn_peers := [], wn_started := False, wn_wgReady := False\<rparr>))"
    using assms(2) True c by (cases r1) (auto simp: win_Stop_def u_def)
  have u1: "device_peers (wn_os u1) = Map.empty" "ho_oracle (wn_os u1) = ho_oracle (wn_os u)" "u1 = u\<lparr>wn_device := wn_device u1, wn_os := wn_os u1\<rparr>"
  proof -
    show "u1 = u\<lparr>wn_device := wn_device u1, wn_os := wn_os u1\<rparr>" using wrap_device_same [OF c] .
    show "device_peers (wn_os u1) = Map.empty" "ho_oracle (wn_os u1) = ho_oracle (wn_os u)"
    proof (atomize (full), cases "wn_device u")
      case None
      then show "device_peers (wn_os u1) = Map.empty \<and> ho_oracle (wn_os u1) = ho_oracle (wn_os u)"
        using c u by (auto simp: on_device_def wrap_def win_inv_def wg_live_def)
    next
      case (Some d)
      obtain r2 d2 h2 where cl: "win_Close (d, wn_os u) = (r2, (d2, h2))" by (cases "win_Close (d, wn_os u)") auto
      have "\<not> wd_wgDev d \<longrightarrow> device_peers (wn_os u) = Map.empty" using u Some by (auto simp: win_inv_def wg_live_def)
      then show "device_peers (wn_os u1) = Map.empty \<and> ho_oracle (wn_os u1) = ho_oracle (wn_os u)"
        using Close_device [OF cl] c Some cl by (auto simp: on_device_def wrap_def split: sum.splits)
    qed
  qed
  have dev: "wn_device u1 \<noteq> None" if "wn_device u \<noteq> None"
    using c that by (auto simp: on_device_def wrap_def split: option.splits prod.splits sum.splits)
  have "win_inv u1" using u u1(1,2) arg_cong [OF u1(3), of wn_started] arg_cong [OF u1(3), of wn_peers] arg_cong [OF u1(3), of wn_wgReady] dev
    by (auto simp: win_inv_def)
  then show ?thesis using t' u1(1) by (cases r1) (auto simp: win_inv_def)
qed (use assms in \<open>auto simp: win_Stop_def\<close>)

subsection \<open>A host that works\<close>

text \<open>Where every call succeeds, the tunnel starts with WireGuard and accepts peers.\<close>

definition working :: "host_os \<Rightarrow> bool" where
  "working h \<longleftrightarrow> (\<forall>i c. succeeded (ho_oracle h i c))"

lemma keeps_working: "(\<And>K orc. keeps (holds_peers K orc) p) \<Longrightarrow> working h \<Longrightarrow> working (snd (p h))"
  using keepsD [of "holds_peers (device_peers h) (ho_oracle h)" p h] by (simp add: holds_peers_def working_def)

lemma host_do_working: "working h \<Longrightarrow> \<exists>out. host_do c h = (Inr out, snd (host_do c h)) \<and> succeeded out \<and> working (snd (host_do c h))"
  by (simp add: host_do_run working_def)

lemma wait_attempts_succeed: "fst (wait_attempts n name h) = Inr ()"
  by (induction n arbitrary: h) (auto simp: andThen_def host_do_run sleeps_def Let_def)

lemma CreateTUN_works:
  assumes "working h"
  obtains d h' where "win_CreateTUN name mtu h = (Inr d, h')" "wd_tunDev d" "\<not> wd_wgDev d"
  using assms by (auto simp: win_CreateTUN_def killStaleAdapter_def andThen_def host_try_run host_do_run sleeps_def host_check_def wrap_def
      working_def Let_def)

lemma Configure_works:
  assumes "working h"
  obtains d' h' where "win_Configure ip cidr (d, h) = (Inr (), (d', h'))" "wd_tunDev d' = wd_tunDev d"
proof -
  define d' where "d' = d\<lparr>wd_ip := ip, wd_cidr := cidr\<rparr>"
  define h1 where "h1 = snd (waitForAdapter (wd_name d) h)"
  define h2 where "h2 = snd (enableAdapter (wd_name d) h1)"
  have "waitForAdapter (wd_name d) h = (Inr (), h1)"
    using wait_attempts_succeed [of 30 "wd_name d" h] by (simp add: waitForAdapter_def h1_def prod_eq_iff del: wait_attempts.simps)
  moreover have "working h1" using keeps_working [OF keeps_wait assms] by (simp add: h1_def waitForAdapter_def)
  moreover have "enableAdapter (wd_name d) h1 = (Inr (), h2)"
    by (simp add: h2_def enableAdapter_def andThen_def host_try_run sleeps_def)
  moreover have "working h2" using \<open>working h1\<close> by (simp add: h2_def enableAdapter_def andThen_def host_try_run sleeps_def host_do_run working_def)
  then have "setIPAddress (wd_name d) ip cidr h2 = (Inr (), snd (setIPAddress (wd_name d) ip cidr h2))"
    by (simp add: setIPAddress_def andThen_def host_do_run working_def Let_def)
  ultimately have "\<exists>h'. win_Configure ip cidr (d, h) = (Inr (), (d', h'))"
    by (simp add: win_Configure_def on_win_run on_host_run d'_def setMTU_def setMetric_def verifyConfig_def host_try_run)
  then show ?thesis using that by (auto simp: d'_def)
qed

lemma SetupWireGuard_works:
  assumes "working h" "wd_tunDev d" "b64ToHex pk = Inr x"
  shows "fst (SetupWireGuard pk port (d, h)) = Inr ()"
proof -
  have run: "or_close ctx c g = (Inr (), snd (host_do c g))" if "working g" for ctx c g
    using that by (simp add: or_close_def andThen_def host_do_run working_def)
  have w: "working (snd (host_do c g))" if "working g" for c g using that by (simp add: host_do_run working_def)
  show ?thesis using assms run w firewall_uapi_succeeds
    by (simp add: SetupWireGuard_def on_win_run on_host_run host_try_run)
qed

lemma AddWGPeer_works:
  assumes "working h" "wd_wgDev d" "b64ToHex k = Inr x"
  shows "fst (AddWGPeer k e a (d, h)) = Inr ()"
  using assms by (simp add: AddWGPeer_def andThen_def wrap_def on_host_run host_try_run sleeps_def host_check_def host_do_run working_def Let_def)

lemma Start_works:
  assumes inv: "win_inv t" and "\<not> wn_started t" "working (wn_os t)" "b64ToHex (wn_privateKey t) = Inr x"
  obtains t' where "win_Start now t = (Inr (), t')" "wn_started t'" "wg_live t'" "working (wn_os t')"
proof -
  define O' where "O' = ho_oracle (wn_os t)"
  have empty: "holds_peers Map.empty O' (wn_os t)" using assms by (auto simp: win_inv_def wg_live_def holds_peers_def O'_def)
  have w: "working g" if "holds_peers Map.empty O' g" for g using that assms(3) by (auto simp: working_def holds_peers_def O'_def)
  obtain d h1 where c: "win_CreateTUN (wn_deviceName t) (wn_mtu t) (wn_os t) = (Inr d, h1)" "wd_tunDev d" "\<not> wd_wgDev d"
    using CreateTUN_works [OF assms(3)] by metis
  have h1: "holds_peers Map.empty O' h1"
    using keepsD [OF keeps_CreateTUN empty, of "wn_deviceName t" "wn_mtu t"] c by simp
  obtain d2 h2 where f: "win_Configure (wn_virtualIP t) (wn_cidr t) (d, h1) = (Inr (), (d2, h2))" "wd_tunDev d2"
    using Configure_works [OF w [OF h1], of "wn_virtualIP t" "wn_cidr t" d] c(2) by metis
  have h2: "holds_peers Map.empty O' h2" "\<not> wd_wgDev d2"
    using keepsD [OF keeps_Configure, of Map.empty O' "(d, h1)" "wn_virtualIP t" "wn_cidr t"] h1 c f by auto
  define t3 where "t3 = t\<lparr>wn_device := Some d2, wn_deviceName := wd_name d2, wn_os := h2\<rparr>"
  obtain d3 h3 where s: "SetupWireGuard (wn_privateKey t) (wn_listenPort t) (d2, h2) = (Inr (), (d3, h3))"
    using SetupWireGuard_works [OF w [OF h2(1)] f(2) assms(4), of "wn_listenPort t"]
    by (cases "SetupWireGuard (wn_privateKey t) (wn_listenPort t) (d2, h2)") auto
  note h3 = SetupWireGuard_device [OF s h2(2,1)]
  have t4: "win_setup t3 = t3\<lparr>wn_device := Some d3, wn_os := h3, wn_wgReady := True\<rparr>" using s by (simp add: win_setup_def on_device_def t3_def)
  have "win_Start now t = (Inr (), win_start_routes now (win_setup t3))" using assms(2) c f by (simp add: win_Start_def t3_def)
  moreover have "wn_wgReady (win_start_routes now u) = wn_wgReady u" for u by (simp add: win_start_routes_def Let_def on_platform_run)
  ultimately show ?thesis using start_routes_device [of Map.empty O' "win_setup t3" now] h3 w
    by (intro that [of "win_start_routes now (win_setup t3)"]) (auto simp: t4 wg_live_def)
qed

lemma AddPeer_works:
  assumes "working (wn_os t)" "wn_started t" "wg_live t" "b64ToHex k = Inr x" "TrimSpace k \<noteq> []" "TrimSpace e \<noteq> []" "TrimSpace a \<noteq> []"
  obtains t' where "win_AddPeer now k e a t = (Inr (), t')"
proof -
  obtain d where d: "wn_device t = Some d" "wd_wgDev d" "wn_wgReady t" using assms(3) by (auto simp: wg_live_def)
  define al where "al = (if Contains a ''/'' then a else a @ ''/32'')"
  obtain d' h' where r: "AddWGPeer k e al (d, wn_os t) = (Inr (), (d', h'))"
    using AddWGPeer_works [OF assms(1) d(2) assms(4), of e al] by (cases "AddWGPeer k e al (d, wn_os t)") auto
  have "wg_call ''add peer: windows wg peer'' (AddWGPeer k e al) t = (Inr (), t\<lparr>wn_device := Some d', wn_os := h'\<rparr>)"
    using d r by (simp add: wg_call_def on_device_def wrap_def)
  then have "\<exists>t'. win_AddPeer now k e a t = (Inr (), t')"
    using assms by (simp add: win_AddPeer_def al_def [symmetric] Let_def routed)
  then show ?thesis using that by blast
qed

subsection \<open>Properties\<close>

text \<open>Any operation with any outcome, on values without line breaks.\<close>

fun win_apply :: "tunnel_op \<Rightarrow> (WinWG, unit) procedure" where
  "win_apply (OpStart wgInstalled now) = win_Start now"
| "win_apply (OpAdd now k e a) = win_AddPeer now k e a"
| "win_apply (OpRemove k) = win_RemovePeer k"
| "win_apply (OpUpdate now k e) = win_UpdatePeerEndpoint now k e"
| "win_apply OpStop = win_Stop"

fun plain_op :: "tunnel_op \<Rightarrow> bool" where
  "plain_op (OpAdd now k e a) = (one_line e \<and> one_line a)"
| "plain_op (OpUpdate now k e) = one_line e"
| "plain_op op = True"

inductive win_step :: "WinWG \<Rightarrow> tunnel_op \<Rightarrow> WinWG \<Rightarrow> bool" where
  "win_apply op t = (r, t') \<Longrightarrow> plain_op op \<Longrightarrow> win_step t op t'"

inductive_cases win_stepE: "win_step t op t'"

inductive win_new :: "WinWG \<Rightarrow> bool" where
  "win_NewWGTunnel os privateKey virtualIP cidr listenPort = Inr t \<Longrightarrow> ho_trace os = [] \<Longrightarrow> uapi_ok (ho_oracle os) \<Longrightarrow> win_new t"

interpretation wintun: inductive_invariant win_new win_step win_inv
proof
  show "win_new t \<Longrightarrow> win_inv t" for t
    by (auto simp: win_new.simps win_NewWGTunnel_def NewWGTunnel_def win_inv_def device_peers_def split: if_splits sum.splits)
  fix t op t'
  assume inv: "win_inv t" and "win_step t op t'"
  then obtain r where "win_apply op t = (r, t')" "plain_op op" by (auto elim: win_stepE)
  with inv show "win_inv t'"
    by (cases op) (auto intro: win_Start_inv win_AddPeer_inv win_RemovePeer_inv win_UpdatePeerEndpoint_inv win_Stop_inv)
qed

text \<open>A peer that was added is held by WireGuard.\<close>

lemma added_peer_configured:
  assumes inv: "win_inv t" and "win_AddPeer now k e a t = (Inr (), t')" "wn_wgReady t" "one_line e" "one_line a"
  shows "\<exists>x. b64ToHex k = Inr x \<and>
    device_peers (wn_os t') x = Some (Some e, [if Contains a ''/'' then a else a @ ''/32''])"
  using assms(2)
proof (cases rule: AddPeer_run)
  case (added al t1 c)
  note al = allowed_line [OF assms(5) added(4)]
  from added(3) inv assms(4) al [THEN conjunct1] al [THEN conjunct2] show ?thesis
  proof (cases rule: wg_call_add)
    case not_live
    then obtain d where d: "wn_device t = Some d" "\<not> wd_wgDev d" using inv assms(3) by (auto simp: win_inv_def wg_live_def)
    then show ?thesis using added(3) assms(3) by (simp add: wg_call_def wrap_def on_device_def AddWGPeer_def)
  next
    case (added h x)
    have "device_peers (wn_os t') = device_peers h"
      using keepsD [OF keeps_routes(3), of "device_peers h" "ho_oracle h" h "host_part al" "wn_deviceName t"] added \<open>t' = _\<close>
      by (simp add: holds_peers_def)
    then show ?thesis using added \<open>al = _\<close> by (auto simp: peer_set_def)
  qed simp
qed simp_all



subsection \<open>What is left behind\<close>

text \<open>
  An endpoint update on Windows first removes the peer: when the second request fails, WireGuard no
  longer routes to the peer, while the table keeps it with its old endpoint.
\<close>

lemma failed_update_drops_peer:
  assumes "win_inv t" "wn_started t" "wg_live t" "map_of (wn_peers t) k = Some c" "b64ToHex k = Inr x" "one_line e"
    and run: "win_UpdatePeerEndpoint now k e t = (Inl err, t')"
  shows "map_of (wn_peers t') k = Some c \<and> (\<forall>ep al. device_peers (wn_os t') x = Some (ep, al) \<longrightarrow> al = [])"
  using run
proof (cases rule: UpdatePeerEndpoint_run)
  case (wg_failed c1)
  have same: "wn_peers t' = wn_peers t" using arg_cong [OF wg_call_same [OF wg_failed(4)], of wn_peers] by simp
  obtain d where d: "wn_device t = Some d" "wd_wgDev d" "wn_wgReady t" using assms(3) by (auto simp: wg_live_def)
  obtain r0 d' h where dev: "AddWGPeer k e (pc_AllowedIP c) (d, wn_os t) = (r0, (d', h))"
    by (cases "AddWGPeer k e (pc_AllowedIP c) (d, wn_os t)") auto
  have t': "wn_os t' = h" "r0 \<noteq> Inr ()"
    using wg_failed(3,4) assms(4) d dev by (auto simp: wg_call_def wrap_def on_device_def split: sum.splits)
  have "one_line (pc_AllowedIP c)" "Contains (pc_AllowedIP c) ''/''" "uapi_ok (ho_oracle (wn_os t))"
    using assms(1,4) by (auto simp: win_inv_def)
  with dev assms(6) have "\<forall>ep al. device_peers h x = Some (ep, al) \<longrightarrow> al = []"
    by (elim AddWGPeer_device) (use d assms(5) t' in auto)
  then show ?thesis using same assms(4) t' by simp
qed (use assms in simp_all)

text \<open>
  The firewall stays open: closing the device returns before the rules are deleted, and the names
  \<open>cleanFirewall\<close> deletes lack the port, so that it would leave the two rules for UDP.
\<close>

lemma firewall_names_append [simp]: "firewall_names (h\<lparr>ho_trace := ho_trace h @ calls\<rparr>) = fold firewall_step calls (firewall_names h)"
  by (simp add: firewall_names_def)

lemma firewall_stays_open:
  "wd_tunDev d \<Longrightarrow> firewall_names (snd (snd (win_Close (d, h)))) = firewall_names h"
  "''name=QT-WG-UDP-IN-'' @ Itoa port \<in> firewall_names h \<Longrightarrow> ''name=QT-WG-UDP-IN-'' @ Itoa port \<in> firewall_names (snd (cleanFirewall h))"
proof -
  show "firewall_names (snd (snd (win_Close (d, h)))) = firewall_names h" if "wd_tunDev d"
    using that by (cases "wd_uapiLn d"; cases "wd_wgDev d")
      (simp_all add: win_Close_def andThen_def on_host_run on_win_run host_try_run host_do_run)
  have keep: "rule \<in> firewall_names (snd (delete_rules ns g))" if "rule \<in> firewall_names g" "\<forall>n \<in> set ns. ''name='' @ n \<noteq> rule" for rule ns g
    using that
  proof (induction ns arbitrary: g)
    case (Cons n ns)
    have "rule \<in> firewall_names (snd (host_do (delete_rule n) g))"
      using Cons.prems by (cases "ho_oracle g (length (ho_trace g)) (delete_rule n)") (auto simp: host_do_run delete_rule_def)
    then show ?case using Cons by (simp add: andThen_def host_try_run)
  qed simp
  show "''name=QT-WG-UDP-IN-'' @ Itoa port \<in> firewall_names (snd (cleanFirewall h))"
    if "''name=QT-WG-UDP-IN-'' @ Itoa port \<in> firewall_names h"
    unfolding cleanFirewall_def using that by (rule keep) (simp add: Itoa_def nat_digits_nonempty [THEN not_sym])
qed

subsection \<open>Netmasks\<close>

lemma netmask_text_IPv4: "netmask_text m = IPv4_String m"
  by (simp add: netmask_text_def IPv4_String_def octet_def)

lemma push_ones: "n \<le> 32 \<Longrightarrow> push_bit n (0xFFFFFFFF :: u32) = NOT (mask n)"
proof -
  have "(0xFFFFFFFF :: u32) = NOT 0" by simp
  then show ?thesis by (simp only:) (auto intro!: bit_eqI simp: bit_simps)
qed

text \<open>The prefix length read on Windows is always between 1 and 32, and its netmask is that of the prefix.\<close>

lemma windows_netmask:
  "1 \<le> cidrToBits cidr \<and> cidrToBits cidr \<le> 32"
  "bitsToNetmask (cidrToBits cidr) = Some (IPv4_String (CIDRMask32 (nat (cidrToBits cidr))))"
proof -
  show b: "1 \<le> cidrToBits cidr \<and> cidrToBits cidr \<le> 32" by (auto simp: cidrToBits_def Let_def split: option.splits)
  then have "nat (32 - cidrToBits cidr) = 32 - nat (cidrToBits cidr)" by (simp add: nat_diff_distrib)
  then show "bitsToNetmask (cidrToBits cidr) = Some (IPv4_String (CIDRMask32 (nat (cidrToBits cidr))))"
    using b push_ones [of "32 - nat (cidrToBits cidr)"] by (simp add: bitsToNetmask_def netmask_text_IPv4 CIDRMask32_def)
qed

text \<open>On macOS a prefix length above 32 makes the program panic.\<close>

lemma macos_netmask_panics: "maskStringFromCIDR cidr = None \<longleftrightarrow> 32 < maskBitsFromCIDR cidr"
  by (simp add: maskStringFromCIDR_def mac_mask_def)

subsection \<open>A tunnel with a peer\<close>

definition win_sample_os :: host_os where
  "win_sample_os = \<lparr>ho_trace = [], ho_oracle = (\<lambda>i c. Ran ''Up''), ho_slept = 0\<rparr>"

lemma sample_key_facts:
  assumes "length bs = 32"
  shows "b64ToHex (EncodeToString bs) = Inr (hex_EncodeToString bs)" "TrimSpace (EncodeToString bs) \<noteq> []"
    "validateWireGuardKey (EncodeToString bs) = Inr ()"
proof -
  have v: "validateWireGuardKey (EncodeToString bs) = Inr () \<and> TrimSpace (EncodeToString bs) \<noteq> []" using assms by (rule encoded_key_valid)
  then show "TrimSpace (EncodeToString bs) \<noteq> []" "validateWireGuardKey (EncodeToString bs) = Inr ()" by simp_all
  have "EncodeToString bs \<noteq> []" using assms by (intro encode_nonempty) auto
  then have "TrimSpace (EncodeToString bs) = EncodeToString bs"
    using encode_plain hd_in_set last_in_set by (intro TrimSpace_id) blast+
  then have "DecodeString (TrimSpace (EncodeToString bs)) = Some bs"
    using encode_plain by (simp add: DecodeString_def filter_id_conv decode_encode)
  then show "b64ToHex (EncodeToString bs) = Inr (hex_EncodeToString bs)" using assms by (simp add: b64ToHex_def)
qed

lemma win_sample_run:
  obtains t t' where "reachable_by win_new win_step [OpStart True 1] t" "wn_wgReady t"
    "win_AddPeer 2 (EncodeToString (replicate 32 9)) ''198.51.100.7:51820'' ''10.7.0.3'' t = (Inr (), t')"
    "reachable_by win_new win_step ([OpStart True 1] @ [OpAdd 2 (EncodeToString (replicate 32 9)) ''198.51.100.7:51820'' ''10.7.0.3'']) t'"
proof -
  let ?key = "EncodeToString (replicate 32 7)" and ?peer = "EncodeToString (replicate 32 9)"
  note texts = sample_key_facts [of "replicate 32 7", simplified] sample_key_facts [of "replicate 32 9", simplified]
  have plain: "TrimSpace ''10.7.0.2'' \<noteq> []" "TrimSpace ''10.7.0.0/16'' \<noteq> []" "TrimSpace ''10.7.0.3'' \<noteq> []"
    "TrimSpace ''198.51.100.7:51820'' \<noteq> []" by code_simp+
  obtain t0 where t0: "win_NewWGTunnel win_sample_os ?key ''10.7.0.2'' ''10.7.0.0/16'' 51820 = Inr t0" "wn_privateKey t0 = ?key"
    "wn_os t0 = win_sample_os" "\<not> wn_started t0"
    using texts(2,3) plain(1,2) by (auto simp: win_NewWGTunnel_def NewWGTunnel_def)
  have new: "win_new t0" using t0(1) by (rule win_new.intros) (simp_all add: win_sample_os_def uapi_ok_def succeeded_def)
  have works: "working (wn_os t0)" by (simp add: t0 win_sample_os_def working_def succeeded_def)
  obtain t where t: "win_Start 1 t0 = (Inr (), t)" "wn_started t" "wg_live t" "working (wn_os t)"
    using Start_works [OF wintun.start_inv [OF new] t0(4) works] t0(2) texts(1) by metis
  obtain t' where t': "win_AddPeer 2 ?peer ''198.51.100.7:51820'' ''10.7.0.3'' t = (Inr (), t')"
    using AddPeer_works [OF t(4,2,3) texts(4,5) plain(4,3)] by metis
  have r: "reachable_by win_new win_step [OpStart True 1] t"
  proof -
    have "win_step t0 (OpStart True 1) t" using t(1) by (intro win_step.intros) simp_all
    from reachable_by.step [OF reachable_by.start [of win_new t0 win_step, OF new] this] show ?thesis by simp
  qed
  have step: "win_step t (OpAdd 2 ?peer ''198.51.100.7:51820'' ''10.7.0.3'') t'"
    by (rule win_step.intros [of _ _ "Inr ()"]) (simp_all only: win_apply.simps t' plain_op.simps, simp add: one_line_def)
  have "wn_wgReady t" using t(3) by (simp add: wg_live_def)
  have "reachable_by win_new win_step ([OpStart True 1] @ [OpAdd 2 ?peer ''198.51.100.7:51820'' ''10.7.0.3'']) t'"
    using r step by (rule reachable_by.step)
  with r \<open>wn_wgReady t\<close> t' show ?thesis by (rule that)
qed



end
