(* ===== verification/Services.thy ===== *)
theory Services
  imports ClientConfig Platforms
begin

text \<open>
  The commands of the clients that act on the machine: the dispatch of \<open>client/cmd/quicktunnel/main.go\<close>
  with its commands down, install, uninstall and reset, and
  \<open>client/cmd/quicktunnel-win/main_windows.go\<close> with join, leave, status, install and uninstall. The
  machine is its files, the host that runs programs (\<open>Platforms\<close>) and the signals sent to processes.
\<close>

subsection \<open>The machine\<close>

record service_host =
  sh_files :: "string \<rightharpoonup> string"
  sh_os :: host_os
  sh_signals :: "(int \<times> bool) list"

text \<open>
  What the commands depend on: the system, the directories, the program's own path, JSON, and
  which writes, removals, lookups of processes and terminations fail. A signal is a process and
  whether it is the termination, not the kill.
\<close>

record service_env =
  se_goos :: string
  se_tempDir :: string
  se_homeDir :: "go_error + string"
  se_getenv :: "string \<Rightarrow> string"
  se_executable :: "go_error + string"
  se_codec :: config_codec
  se_write_fails :: "string \<Rightarrow> go_error option"
  se_remove_fails :: "string \<Rightarrow> go_error option"
  se_find_fails :: "int \<Rightarrow> go_error option"
  se_term_fails :: "int \<Rightarrow> go_error option"

definition on_sh :: "(host_os, 'a) procedure \<Rightarrow> (service_host, 'a) procedure" where
  "on_sh p = on_field sh_os (\<lambda>h s. s\<lparr>sh_os := h\<rparr>) p"

definition read_file :: "service_host \<Rightarrow> string \<Rightarrow> file_read" where
  "read_file s path = (case sh_files s path of Some b \<Rightarrow> FileText b | None \<Rightarrow> FileMissing)"

definition write_file :: "service_env \<Rightarrow> string \<Rightarrow> string \<Rightarrow> (service_host, unit) procedure" where
  "write_file env path b =
     (\<lambda>s. case se_write_fails env path of Some e \<Rightarrow> (Inl e, s) | None \<Rightarrow> (Inr (), s\<lparr>sh_files := (sh_files s)(path \<mapsto> b)\<rparr>))"

text \<open>\<open>os.Remove\<close> with its error ignored.\<close>

definition remove_file :: "service_env \<Rightarrow> string \<Rightarrow> (service_host, unit) procedure" where
  "remove_file env path =
     modifies (\<lambda>s. if se_remove_fails env path = None then s\<lparr>sh_files := (sh_files s)(path := None)\<rparr> else s)"

text \<open>A program whose failure is ignored, and the result of a procedure ignored.\<close>

definition run_ignored :: "string \<Rightarrow> string list \<Rightarrow> (service_host, unit) procedure" where
  "run_ignored prog args = on_sh (host_try (Exec prog args []))"

definition ignoring_error :: "(service_host, unit) procedure \<Rightarrow> (service_host, unit) procedure" where
  "ignoring_error p = (\<lambda>s. (Inr (), snd (p s)))"

subsection \<open>main.go: the running client\<close>

definition pidFilePath :: "service_env \<Rightarrow> string" where
  "pidFilePath env =
     (if se_goos env = ''windows'' then win_path [se_tempDir env, ''quicktunnel.pid''] else se_tempDir env @ ''/quicktunnel.pid'')"

definition removePIDFile :: "service_env \<Rightarrow> (service_host, unit) procedure" where
  "removePIDFile env = remove_file env (pidFilePath env)"

definition runDown :: "service_env \<Rightarrow> (service_host, unit) procedure" where
  "runDown env =
     (\<lambda>s. case readPIDFile (read_file s (pidFilePath env)) of
            None \<Rightarrow> (Inl (Errorf ''not connected (no pid file)''), s)
          | Some pid \<Rightarrow>
              (case se_find_fails env pid of
                 Some e \<Rightarrow> (Inl (Wrapf ''down: find process'' e), s)
               | None \<Rightarrow>
                   removePIDFile env
                     (s\<lparr>sh_signals := sh_signals s @ (case se_term_fails env pid of None \<Rightarrow> [(pid, True)] | Some _ \<Rightarrow> [(pid, False)])\<rparr>)))"

subsection \<open>main.go: services\<close>

definition unit_path :: string where
  "unit_path = ''/etc/systemd/system/quicktunnel.service''"

definition unit_text :: "string \<Rightarrow> string" where
  "unit_text exePath =
     Join_with [CHR 0x0A]
       [''[Unit]'', ''Description=QuickTunnel VPN Agent'', ''After=network-online.target'', ''Wants=network-online.target'', '''',
        ''[Service]'', ''Type=simple'', ''ExecStart='' @ exePath @ '' up'', ''Restart=always'', ''RestartSec=5'', ''LimitNOFILE=65535'',
        ''Environment=LOG_LEVEL=info'', '''', ''[Install]'', ''WantedBy=multi-user.target'', '''']"

fun systemctl_steps :: "string list list \<Rightarrow> (service_host, unit) procedure" where
  "systemctl_steps [] = return ()"
| "systemctl_steps (args # rest) =
     andThen (on_sh (host_do (Exec ''systemctl'' args []))) (\<lambda>out.
     if succeeded out then systemctl_steps rest
     else raise (Wrapf (''install: systemctl ['' @ Join_with '' '' args @ '']'') (Errorf (said out))))"

definition installSystemdService :: "service_env \<Rightarrow> string \<Rightarrow> (service_host, unit) procedure" where
  "installSystemdService env exePath =
     andThen (wrap ''install: write service file'' (write_file env unit_path (unit_text exePath))) (\<lambda>_.
     systemctl_steps [[''daemon-reload''], [''enable'', ''quicktunnel''], [''start'', ''quicktunnel'']])"

definition uninstallSystemdService :: "service_env \<Rightarrow> (service_host, unit) procedure" where
  "uninstallSystemdService env =
     andThen (run_ignored ''systemctl'' [''stop'', ''quicktunnel'']) (\<lambda>_.
     andThen (run_ignored ''systemctl'' [''disable'', ''quicktunnel'']) (\<lambda>_.
     andThen (remove_file env unit_path) (\<lambda>_.
     run_ignored ''systemctl'' [''daemon-reload''])))"

definition uninstallWindowsService :: "service_env \<Rightarrow> (service_host, unit) procedure" where
  "uninstallWindowsService env =
     andThen (ignoring_error (runDown env)) (\<lambda>_.
     andThen (run_ignored ''schtasks'' [''/end'', ''/tn'', ''QuickTunnel'']) (\<lambda>_.
     andThen (on_sh (sleeps 1000)) (\<lambda>_.
     andThen (on_sh (host_do (Exec ''schtasks'' [''/delete'', ''/tn'', ''QuickTunnel'', ''/f''] []))) (\<lambda>out.
     if \<not> succeeded out \<and> \<not> Contains (said out) ''The system cannot find the file specified''
     then raise (Wrapf ''uninstall: schtasks delete'' (Errorf (said out)))
     else return ()))))"

definition installWindowsService :: "service_env \<Rightarrow> string \<Rightarrow> (service_host, unit) procedure" where
  "installWindowsService env exePath =
     (let q = [CHR 0x22]
      in andThen (ignoring_error (uninstallWindowsService env)) (\<lambda>_.
         andThen (on_sh (host_do (Exec ''schtasks'' [''/create'', ''/tn'', ''QuickTunnel'', ''/tr'', q @ exePath @ q @ '' up'', ''/sc'', ''onstart'',
            ''/ru'', ''SYSTEM'', ''/rl'', ''HIGHEST'', ''/f''] []))) (\<lambda>out.
         if \<not> succeeded out then raise (Wrapf ''install: schtasks create'' (Errorf (said out)))
         else run_ignored ''schtasks'' [''/run'', ''/tn'', ''QuickTunnel''])))"

definition runInstall :: "service_env \<Rightarrow> (service_host, unit) procedure" where
  "runInstall env =
     (\<lambda>s. let loaded = Load (se_codec env) (se_getenv env) (ConfigPath (se_goos env) (se_getenv env) (se_homeDir env)) (read_file s)
          in (case loaded of
                Inl _ \<Rightarrow> raise (Errorf ''install: no config found'')
              | Inr cfg \<Rightarrow>
                  if cf_NetworkID cfg = [] then raise (Errorf ''install: no config found'')
                  else (case se_executable env of
                          Inl e \<Rightarrow> raise (Wrapf ''install: cannot determine executable path'' e)
                        | Inr exePath \<Rightarrow>
                            if se_goos env = ''linux'' then installSystemdService env exePath
                            else if se_goos env = ''windows'' then installWindowsService env exePath
                            else raise (Errorf (''install: unsupported OS '' @ se_goos env)))) s)"

definition runUninstall :: "service_env \<Rightarrow> (service_host, unit) procedure" where
  "runUninstall env =
     (if se_goos env = ''linux'' then uninstallSystemdService env
      else if se_goos env = ''windows'' then uninstallWindowsService env
      else raise (Errorf (''uninstall: unsupported OS '' @ se_goos env)))"

definition global_config :: string where
  "global_config = ''/etc/quicktunnel/config.json''"

definition runReset :: "service_env \<Rightarrow> (service_host, unit) procedure" where
  "runReset env =
     andThen (ignoring_error (runDown env)) (\<lambda>_.
     andThen (if se_goos env = ''linux'' then ignoring_error (uninstallSystemdService env)
              else if se_goos env = ''windows'' then ignoring_error (uninstallWindowsService env) else return ()) (\<lambda>_.
     andThen (case ConfigPath (se_goos env) (se_getenv env) (se_homeDir env) of
                Inr cfgPath \<Rightarrow> remove_file env cfgPath
              | Inl _ \<Rightarrow> return ()) (\<lambda>_.
     if se_goos env = ''linux'' then remove_file env global_config else return ())))"

subsection \<open>main.go: the dispatch\<close>

datatype client_command =
    RunJoin | RunDown | RunUp | RunStatus | RunPeers | RunVNC | RunLogin | RunConfig | RunInstall | RunUninstall | RunReset

definition client_commands :: "(string \<times> client_command) list" where
  "client_commands =
     [(''join'', RunJoin), (''leave'', RunDown), (''down'', RunDown), (''up'', RunUp), (''status'', RunStatus), (''peers'', RunPeers), (''vnc'', RunVNC),
      (''login'', RunLogin), (''config'', RunConfig), (''install'', RunInstall), (''uninstall'', RunUninstall), (''reset'', RunReset)]"

text \<open>
  \<open>main\<close>: the exit status and whether the usage was printed; \<open>run\<close> is the outcome of the commands on their arguments.
\<close>

definition client_main :: "(client_command \<Rightarrow> string list \<Rightarrow> go_error + unit) \<Rightarrow> string list \<Rightarrow> int \<times> bool" where
  "client_main run args =
     (if length args < 2 then (1, True)
      else
        let command = ToLower (TrimSpace (args ! 1)); rest = drop 2 args
        in case map_of client_commands command of
             Some c \<Rightarrow> (case run c rest of Inl _ \<Rightarrow> (1, False) | Inr _ \<Rightarrow> (0, False))
           | None \<Rightarrow> if command \<in> {''help'', ''-h'', ''--help''} then (0, True) else (1, True))"

subsection \<open>main\_windows.go\<close>

definition win_configDir :: string where
  "win_configDir = win_path [''C:'', ''ProgramData'', ''QuickTunnel'']"

definition win_configFile :: string where
  "win_configFile = win_path [''C:'', ''ProgramData'', ''QuickTunnel'', ''config.json'']"

definition serviceName :: string where
  "serviceName = ''QuickTunnelSvc''"

datatype win_command =
    WinJoin string string | WinLeave | WinStatus | WinStart | WinInstall | WinUninstall | WinVersion | WinUsage

text \<open>\<open>main\<close>: what is done with the arguments; \<open>WinUsage\<close> ends the program with status 1.\<close>

definition win_main :: "string list \<Rightarrow> win_command" where
  "win_main args =
     (if length args < 2 then WinUsage
      else
        let command = ToLower (args ! 1)
        in if command = ''join'' then (if length args < 4 then WinUsage else WinJoin (args ! 2) (args ! 3))
           else if command = ''leave'' then WinLeave
           else if command = ''status'' then WinStatus
           else if command = ''start'' then WinStart
           else if command = ''install'' then WinInstall
           else if command = ''uninstall'' then WinUninstall
           else if command = ''version'' then WinVersion
           else if 3 \<le> length args \<and> (HasPrefix (args ! 1) ''http'' \<or> Contains (args ! 1) ''.'') then WinJoin (args ! 1) (args ! 2)
           else WinUsage)"

definition win_server_url :: "string \<Rightarrow> string" where
  "win_server_url server = (if \<not> HasPrefix server ''http'' then ''http://'' @ server @ '':3000'' else server)"

text \<open>The part of \<open>joinNetwork\<close> before the agent starts.\<close>

definition win_joinNetwork :: "go_error + string \<times> string \<Rightarrow> string \<Rightarrow> string \<Rightarrow> (string \<Rightarrow> string \<Rightarrow> go_error + int \<times> string) \<Rightarrow>
    (string \<Rightarrow> go_error + JoinResponse) \<Rightarrow> go_error option \<Rightarrow> string \<Rightarrow> string \<Rightarrow> go_error + Config" where
  "win_joinNetwork keys machineID hostname post decode saved server networkID =
     JoinNetwork keys machineID hostname post decode saved (win_server_url server) networkID win_configFile"

definition leaveNetwork :: "service_env \<Rightarrow> (service_host, unit) procedure" where
  "leaveNetwork env =
     andThen (run_ignored ''sc'' [''stop'', serviceName]) (\<lambda>_.
     andThen (run_ignored ''sc'' [''delete'', serviceName]) (\<lambda>_.
     remove_file env win_configFile))"

text \<open>
  \<open>showStatus\<close>: nothing when no network was joined; otherwise the configuration, whether the adapter is up,
  and whether the gateway, the first address of the /24 of the virtual address, answers.
\<close>

record win_status =
  ws_config :: Config
  ws_connected :: bool
  ws_gateway :: "(string \<times> bool) option"

definition gateway_of :: "string \<Rightarrow> string option" where
  "gateway_of virtualIP =
     (let p = Split virtualIP (CHR ''.'')
      in if length p = 4 then Some (p ! 0 @ ''.'' @ p ! 1 @ ''.'' @ p ! 2 @ ''.1'') else None)"

definition showStatus :: "service_env \<Rightarrow> (service_host, win_status option) procedure" where
  "showStatus env =
     (\<lambda>s. case LoadFromFile (se_codec env) (read_file s win_configFile) of
            Inl _ \<Rightarrow> (Inr None, s)
          | Inr cfg \<Rightarrow>
              andThen (on_sh (host_do (powershell (''Get-NetAdapter -Name '' @ quoted ''qtun0'' @ '' -ErrorAction SilentlyContinue | Select-Object Status'')))) (\<lambda>out.
              let up = Contains (TrimSpace (said out)) ''Up''
              in case gateway_of (cf_VirtualIP cfg) of
                   None \<Rightarrow> return (Some \<lparr>ws_config = cfg, ws_connected = up, ws_gateway = None\<rparr>)
                 | Some gw \<Rightarrow>
                     andThen (on_sh (host_do (Exec ''ping'' [''-n'', ''1'', ''-w'', ''1000'', gw] []))) (\<lambda>pong.
                     return (Some \<lparr>ws_config = cfg, ws_connected = up,
                       ws_gateway = Some (gw, succeeded pong \<and> Contains (said pong) ''TTL='')\<rparr>))) s)"

text \<open>\<open>installService\<close>: the state the service is reported in; a failed creation ends the program with status 1.\<close>

datatype service_state = ServiceRunning | ServiceStarting | ServiceUnknown

definition installService :: "string \<Rightarrow> (service_host, service_state) procedure" where
  "installService absPath =
     (let q = [CHR 0x22]
      in andThen (on_sh (host_do (Exec ''sc'' [''create'', serviceName, ''binpath='', q @ absPath @ q @ '' start'', ''start='', ''auto'',
            ''DisplayName='', ''QuickTunnel VPN Service''] []))) (\<lambda>out.
         if \<not> succeeded out then raise (Errorf (TrimSpace (said out)))
         else
           andThen (run_ignored ''sc'' [''description'', serviceName,
              map (\<lambda>n. char_of (n :: nat)) [81,117,105,99,107,84,117,110,110,101,108,32,86,80,78,32,226,128,148,32] @ ''ZeroTier-style mesh networking'']) (\<lambda>_.
           andThen (run_ignored ''sc'' [''failure'', serviceName, ''reset='', ''60'', ''actions='', ''restart/5000/restart/10000/restart/30000'']) (\<lambda>_.
           andThen (on_sh (sleeps 1000)) (\<lambda>_.
           andThen (run_ignored ''sc'' [''start'', serviceName]) (\<lambda>_.
           andThen (on_sh (sleeps 2000)) (\<lambda>_.
           andThen (on_sh (host_do (Exec ''sc'' [''query'', serviceName] []))) (\<lambda>status.
           return (if Contains (said status) ''RUNNING'' then ServiceRunning
                   else if Contains (said status) ''START_PENDING'' then ServiceStarting else ServiceUnknown)))))))))"

definition uninstallService :: "(service_host, unit) procedure" where
  "uninstallService =
     andThen (run_ignored ''sc'' [''stop'', serviceName]) (\<lambda>_.
     andThen (on_sh (sleeps 2000)) (\<lambda>_.
     run_ignored ''sc'' [''delete'', serviceName]))"

subsection \<open>What the commands do to the files\<close>

lemma on_sh_run: "on_sh p s = (fst (p (sh_os s)), s\<lparr>sh_os := snd (p (sh_os s))\<rparr>)"
  by (simp add: on_sh_def on_field_def split: prod.splits)

lemma host_try_result: "fst (host_try c h) = Inr ()"
  by (simp add: host_try_def andThen_def host_do_def Let_def)

lemma run_ignored_run: "run_ignored prog args s = (Inr (), s\<lparr>sh_os := sh_os (snd (run_ignored prog args s))\<rparr>)"
  by (simp add: run_ignored_def on_sh_run host_try_result)

text \<open>The process that \<open>runDown\<close> stops, if it can find one.\<close>

definition running_client :: "service_env \<Rightarrow> service_host \<Rightarrow> int option" where
  "running_client env s =
     (case readPIDFile (read_file s (pidFilePath env)) of
        Some pid \<Rightarrow> if se_find_fails env pid = None then Some pid else None
      | None \<Rightarrow> None)"

text \<open>The files after the running client was stopped.\<close>

definition files_down :: "service_env \<Rightarrow> service_host \<Rightarrow> string \<rightharpoonup> string" where
  "files_down env s = (if running_client env s = None then sh_files s else (sh_files s)(pidFilePath env := None))"

definition signals_down :: "service_env \<Rightarrow> service_host \<Rightarrow> (int \<times> bool) list" where
  "signals_down env s =
     (case running_client env s of None \<Rightarrow> sh_signals s | Some pid \<Rightarrow> sh_signals s @ [(pid, se_term_fails env pid = None)])"

definition removals_succeed :: "service_env \<Rightarrow> bool" where
  "removals_succeed env \<longleftrightarrow> (\<forall>path. se_remove_fails env path = None)"

lemma runDown_files:
  assumes "removals_succeed env"
  shows "sh_files (snd (runDown env s)) = files_down env s \<and> sh_signals (snd (runDown env s)) = signals_down env s"
  using assms
  by (auto simp: runDown_def removePIDFile_def remove_file_def files_down_def signals_down_def running_client_def removals_succeed_def split: option.splits)

lemma runDown_again:
  assumes "removals_succeed env" "sh_files s' = files_down env s" "sh_signals s' = signals_down env s"
  shows "files_down env s' = files_down env s \<and> signals_down env s' = signals_down env s"
proof -
  have "running_client env s' = None"
    using assms(2) by (auto simp: running_client_def files_down_def read_file_def readPIDFile_def split: option.splits if_splits)
  then show ?thesis using assms(2,3) by (simp add: files_down_def signals_down_def)
qed

lemma uninstallSystemd_run:
  assumes "removals_succeed env"
  obtains h where "uninstallSystemdService env s = (Inr (), s\<lparr>sh_os := h, sh_files := (sh_files s)(unit_path := None)\<rparr>)"
proof -
  define u where "u = snd (run_ignored ''systemctl'' [''stop'', ''quicktunnel''] s)"
  define v where "v = snd (run_ignored ''systemctl'' [''disable'', ''quicktunnel''] u)"
  define w where "w = v\<lparr>sh_files := (sh_files v)(unit_path := None)\<rparr>"
  define z where "z = snd (run_ignored ''systemctl'' [''daemon-reload''] w)"
  have run: "run_ignored prog args t = (Inr (), snd (run_ignored prog args t))" for prog args t
    by (simp add: run_ignored_def on_sh_run host_try_result)
  have "uninstallSystemdService env s = (Inr (), z)"
    using run [of "''systemctl''" "[''stop'', ''quicktunnel'']" s] run [of "''systemctl''" "[''disable'', ''quicktunnel'']" u]
      run [of "''systemctl''" "[''daemon-reload'']" w] assms
    by (simp add: uninstallSystemdService_def u_def v_def w_def z_def remove_file_def removals_succeed_def)
  moreover have "z = s\<lparr>sh_os := sh_os z, sh_files := (sh_files s)(unit_path := None)\<rparr>"
    by (simp add: z_def w_def v_def u_def run_ignored_def on_sh_run)
  ultimately show ?thesis using that by metis
qed

lemma uninstallWindows_files:
  assumes "removals_succeed env"
  shows "sh_files (snd (uninstallWindowsService env s)) = files_down env s \<and> sh_signals (snd (uninstallWindowsService env s)) = signals_down env s"
  using runDown_files [OF assms, of s]
  by (simp add: uninstallWindowsService_def ignoring_error_def andThen_def run_ignored_def on_sh_run host_try_result sleeps_def host_do_def Let_def)

text \<open>
  C39. A reset succeeds and forgets the device: when files can be removed, it stops the client whose
  process identifier was recorded, and of the files exactly that record, the configuration, and on
  Linux the service's unit and the global configuration are gone afterwards.
\<close>
theorem reset_forgets_device:
  assumes "removals_succeed env"
  shows "\<exists>s'. runReset env s = (Inr (), s') \<and> sh_signals s' = signals_down env s \<and>
    (\<forall>path. sh_files s' path =
       (if path = pidFilePath env \<and> running_client env s \<noteq> None \<or>
           ConfigPath (se_goos env) (se_getenv env) (se_homeDir env) = Inr path \<or>
           se_goos env = ''linux'' \<and> (path = unit_path \<or> path = global_config)
        then None else sh_files s path))"
proof -
  define s1 where "s1 = snd (runDown env s)"
  have s1: "sh_files s1 = files_down env s" "sh_signals s1 = signals_down env s" using runDown_files [OF assms, of s] by (simp_all add: s1_def)
  define p2 where "p2 = (if se_goos env = ''linux'' then ignoring_error (uninstallSystemdService env)
      else if se_goos env = ''windows'' then ignoring_error (uninstallWindowsService env) else return ())"
  obtain s2 where s2: "p2 s1 = (Inr (), s2)" "sh_signals s2 = signals_down env s"
    "sh_files s2 = (if se_goos env = ''linux'' then (files_down env s)(unit_path := None) else files_down env s)"
  proof (cases "se_goos env = ''linux''")
    case True
    obtain h where "uninstallSystemdService env s1 = (Inr (), s1\<lparr>sh_os := h, sh_files := (sh_files s1)(unit_path := None)\<rparr>)"
      using uninstallSystemd_run [OF assms] by metis
    then show ?thesis using that True s1 by (simp add: p2_def ignoring_error_def)
  next
    case False
    then show ?thesis using that [of "snd (p2 s1)"] s1 uninstallWindows_files [OF assms, of s1] runDown_again [OF assms s1]
      by (simp add: p2_def ignoring_error_def split: if_splits)
  qed
  have "runReset env s =
      andThen (case ConfigPath (se_goos env) (se_getenv env) (se_homeDir env) of Inr cfgPath \<Rightarrow> remove_file env cfgPath | Inl _ \<Rightarrow> return ())
        (\<lambda>_. if se_goos env = ''linux'' then remove_file env global_config else return ()) s2"
    using s2(1) by (simp add: runReset_def ignoring_error_def andThen_def [of "\<lambda>s. (Inr (), snd (runDown env s))"] p2_def [symmetric] s1_def)
  moreover have remove: "remove_file env path t = (Inr (), t\<lparr>sh_files := (sh_files t)(path := None)\<rparr>)" for path t
    using assms by (simp add: remove_file_def removals_succeed_def)
  define linux where "linux = (se_goos env = ''linux'')"
  define cfg where "cfg = ConfigPath (se_goos env) (se_getenv env) (se_homeDir env)"
  define s3 where "s3 = (case cfg of Inr path \<Rightarrow> s2\<lparr>sh_files := (sh_files s2)(path := None)\<rparr> | Inl _ \<Rightarrow> s2)"
  define s4 where "s4 = (if linux then s3\<lparr>sh_files := (sh_files s3)(global_config := None)\<rparr> else s3)"
  have "(case cfg of Inr cfgPath \<Rightarrow> remove_file env cfgPath | Inl _ \<Rightarrow> return ()) s2 = (Inr (), s3)"
    by (cases cfg) (simp_all add: s3_def remove)
  ultimately have "runReset env s = (Inr (), s4)" by (simp add: cfg_def [symmetric] linux_def [symmetric] s4_def remove)
  moreover have f2: "sh_files s2 = (if linux then (files_down env s)(unit_path := None) else files_down env s)" using s2(3) by (simp add: linux_def)
  have "sh_signals s4 = signals_down env s" using s2(2) by (cases cfg) (simp_all add: s4_def s3_def)
  moreover have "sh_files s4 path =
      (if path = pidFilePath env \<and> running_client env s \<noteq> None \<or> cfg = Inr path \<or> linux \<and> (path = unit_path \<or> path = global_config)
       then None else sh_files s path)" for path
    by (cases cfg) (auto simp: s4_def s3_def f2 files_down_def)
  ultimately show ?thesis unfolding cfg_def [symmetric] linux_def [symmetric] by blast
qed

text \<open>
  Installing on Linux writes the unit that runs this program, and uninstalling takes it away again
  and leaves the other files as they were.
\<close>

lemma systemctl_files: "sh_files (snd (systemctl_steps cmds s)) = sh_files s"
  by (induction cmds arbitrary: s) (simp_all add: andThen_def on_sh_run host_do_def Let_def)

lemma install_then_uninstall:
  assumes "removals_succeed env" "se_goos env = ''linux''" "sh_files s unit_path = None" "runInstall env s = (Inr (), s1)"
  shows "(\<exists>exe. se_executable env = Inr exe \<and> sh_files s1 unit_path = Some (unit_text exe)) \<and>
    sh_files (snd (runUninstall env s1)) = sh_files s"
proof -
  obtain exe where exe: "se_executable env = Inr exe" "installSystemdService env exe s = (Inr (), s1)"
    using assms(2,4) by (auto simp: runInstall_def Let_def split: sum.splits if_splits)
  then obtain u s0 cmds where "write_file env unit_path (unit_text exe) s = (Inr u, s0)" "systemctl_steps cmds s0 = (Inr (), s1)"
    unfolding installSystemdService_def andThen_eq_Inr wrap_eq_Inr by blast
  then have s1: "sh_files s1 = (sh_files s)(unit_path \<mapsto> unit_text exe)"
    using systemctl_files [of cmds s0] by (auto simp: write_file_def split: option.splits)
  obtain h where "uninstallSystemdService env s1 = (Inr (), s1\<lparr>sh_os := h, sh_files := (sh_files s1)(unit_path := None)\<rparr>)"
    using uninstallSystemd_run [OF assms(1)] by metis
  then show ?thesis using s1 exe(1) assms(2,3) by (auto simp: runUninstall_def fun_eq_iff)
qed

text \<open>
  The Windows client adds the port 3000 to a server that already has one, where the other client
  takes the address as it is.
\<close>

lemma windows_server_port:
  "win_server_url ''vpn:8080'' = ''http://vpn:8080:3000''"
  "normalizeServerURL ''vpn:8080'' = ''http://vpn:8080''"
proof -
  have "hd ''vpn:8080'' \<notin> set space_heads" "last ''vpn:8080'' \<notin> set space_lasts" by code_simp+
  then have "TrimSpace ''vpn:8080'' = ''vpn:8080''" by (intro TrimSpace_id) simp_all
  then show "normalizeServerURL ''vpn:8080'' = ''http://vpn:8080''"
    by (simp add: normalizeServerURL_def HasPrefix_def)
  show "win_server_url ''vpn:8080'' = ''http://vpn:8080:3000''"
    by (simp add: win_server_url_def HasPrefix_def)
qed

text \<open>A Linux machine on which a client runs as process 42.\<close>

definition sample_env :: service_env where
  "sample_env = \<lparr>se_goos = ''linux'', se_tempDir = ''/tmp'', se_homeDir = Inr ''/root'', se_getenv = (\<lambda>k. []), se_executable = Inr ''/usr/bin/qt'',
     se_codec = \<lparr>cc_unmarshal = (\<lambda>c raw. Inr c), cc_marshal = (\<lambda>c. Inr [])\<rparr>, se_write_fails = (\<lambda>p. None), se_remove_fails = (\<lambda>p. None),
     se_find_fails = (\<lambda>p. None), se_term_fails = (\<lambda>p. None)\<rparr>"

definition sample_machine :: service_host where
  "sample_machine = \<lparr>sh_files = [''/tmp/quicktunnel.pid'' \<mapsto> writePIDFile 42, ''/root/.quicktunnel/config.json'' \<mapsto> ''{}'', ''/etc/hosts'' \<mapsto> ''x''],
     sh_os = \<lparr>ho_trace = [], ho_oracle = (\<lambda>i c. Ran []), ho_slept = 0\<rparr>, sh_signals = []\<rparr>"

theorem reset_forgets_device_witness:
  "\<exists>s'. runReset sample_env sample_machine = (Inr (), s') \<and> sh_signals s' = [(42, True)] \<and>
     sh_files s' ''/tmp/quicktunnel.pid'' = None \<and> sh_files s' ''/root/.quicktunnel/config.json'' = None \<and> sh_files s' ''/etc/hosts'' = Some ''x''"
proof -
  have ok: "removals_succeed sample_env" by (simp add: removals_succeed_def sample_env_def)
  have paths: "pidFilePath sample_env = ''/tmp/quicktunnel.pid''" by (simp add: pidFilePath_def sample_env_def)
  have cfg: "ConfigPath (se_goos sample_env) (se_getenv sample_env) (se_homeDir sample_env) = Inr ''/root/.quicktunnel/config.json''"
    by (simp add: ConfigPath_def sample_env_def)
  have run: "running_client sample_env sample_machine = Some 42"
    using pid_roundtrip [of 42] by (simp add: running_client_def paths read_file_def sample_machine_def) (simp add: sample_env_def)
  have killed: "signals_down sample_env sample_machine = [(42, True)]"
    by (simp add: signals_down_def run) (simp add: sample_machine_def sample_env_def)
  obtain s' where s': "runReset sample_env sample_machine = (Inr (), s')" "sh_signals s' = [(42, True)]"
    "\<And>path. sh_files s' path = (if path = pidFilePath sample_env \<and> running_client sample_env sample_machine \<noteq> None \<or>
       ConfigPath (se_goos sample_env) (se_getenv sample_env) (se_homeDir sample_env) = Inr path \<or>
       se_goos sample_env = ''linux'' \<and> (path = unit_path \<or> path = global_config) then None else sh_files sample_machine path)"
    using reset_forgets_device [OF ok, of sample_machine] killed by auto
  have "sh_files s' ''/tmp/quicktunnel.pid'' = None" "sh_files s' ''/root/.quicktunnel/config.json'' = None"
    by (simp_all add: s'(3) paths cfg run)
  moreover have "sh_files s' ''/etc/hosts'' = Some ''x''"
    by (simp add: s'(3) paths cfg run unit_path_def global_config_def) (simp add: sample_machine_def)
  ultimately show ?thesis using s'(1,2) by blast
qed

end
