(* ===== verification/RelayInventory.thy ===== *)
theory RelayInventory
  imports Complex_Main Store
begin

text \<open>
  The inventory of relays: \<open>server/internal/models/relay.go\<close> and
  \<open>server/internal/database/queries/relays.go\<close>. The columns of the coordinates are decimal numbers,
  so the distance PostgreSQL orders by is computed without rounding. The order of texts is the
  database's collation, an argument; between rows that the ordering does not tell apart, the
  table's order stands for any.
\<close>

record models_RelayServer =
  mr_ID :: string
  mr_Name :: string
  mr_Region :: string
  mr_Hostname :: string
  mr_IP :: string
  mr_Port :: int
  mr_IsHealthy :: bool
  mr_CurrentLoad :: int
  mr_MaxLoad :: int
  mr_Latitude :: rat
  mr_Longitude :: rat
  mr_CreatedAt :: int

text \<open>A row of \<open>relay_servers\<close>; the coordinates may be NULL.\<close>

record relay_row =
  rr_server :: models_RelayServer
  rr_latitude :: "rat option"
  rr_longitude :: "rat option"

text \<open>The store: the table, the outcomes of the statements to come, and the parsing of identifiers.\<close>

record RelayStore =
  st_rows :: "relay_row list"
  st_faults :: "go_error option list"
  st_pg :: pg

definition relay_stmt :: "(RelayStore \<Rightarrow> go_error + 'a \<times> relay_row list) \<Rightarrow> (RelayStore, 'a) procedure" where
  "relay_stmt f =
     (\<lambda>s. let s' = s\<lparr>st_faults := tl (st_faults s)\<rparr>
          in case (case st_faults s of Some e # _ \<Rightarrow> Inl e | _ \<Rightarrow> f s) of
               Inl e \<Rightarrow> (Inl e, s')
             | Inr (a, rows) \<Rightarrow> (Inr a, s'\<lparr>st_rows := rows\<rparr>))"

text \<open>The columns as they are scanned: \<open>COALESCE(latitude, 0), COALESCE(longitude, 0)\<close>.\<close>

definition coalesce0 :: "rat option \<Rightarrow> rat" where
  "coalesce0 v = (case v of Some x \<Rightarrow> x | None \<Rightarrow> 0)"

definition scan_relay :: "relay_row \<Rightarrow> models_RelayServer" where
  "scan_relay r = (rr_server r)\<lparr>mr_Latitude := coalesce0 (rr_latitude r), mr_Longitude := coalesce0 (rr_longitude r)\<rparr>"

definition ListRelays :: "(string \<Rightarrow> 'k :: linorder) \<Rightarrow> (RelayStore, models_RelayServer list) procedure" where
  "ListRelays collation =
     wrap ''list relays'' (relay_stmt (\<lambda>s. Inr
       (map scan_relay (sort_key (\<lambda>r. collation (mr_Region (rr_server r))) (sort_key (\<lambda>r. mr_CurrentLoad (rr_server r)) (st_rows s))), st_rows s)))"

text \<open>The square of the distance, the first key of the order.\<close>

definition relay_distance :: "rat \<Rightarrow> rat \<Rightarrow> models_RelayServer \<Rightarrow> rat" where
  "relay_distance latitude longitude r =
     (mr_Latitude r - latitude) * (mr_Latitude r - latitude) + (mr_Longitude r - longitude) * (mr_Longitude r - longitude)"

definition usable_relay :: "models_RelayServer \<Rightarrow> bool" where
  "usable_relay r \<longleftrightarrow> mr_IsHealthy r \<and> mr_CurrentLoad r < mr_MaxLoad r"

definition store_GetNearestRelay :: "rat \<Rightarrow> rat \<Rightarrow> (RelayStore, models_RelayServer) procedure" where
  "store_GetNearestRelay latitude longitude =
     (\<lambda>s. case relay_stmt (\<lambda>s.
              case sort_key (relay_distance latitude longitude) (sort_key mr_CurrentLoad (filter usable_relay (map scan_relay (st_rows s)))) of
                [] \<Rightarrow> Inl ErrNoRows
              | r # _ \<Rightarrow> Inr (r, st_rows s)) s of
            (Inl e, s') \<Rightarrow> (Inl (Wrapf ''get nearest relay'' (mapNotFound e)), s')
          | (Inr r, s') \<Rightarrow> (Inr r, s'))"

text \<open>\<open>UpdateRelayLoad\<close>: a load that does not fit the column's four bytes is refused by the driver.\<close>

definition UpdateRelayLoad :: "string \<Rightarrow> int \<Rightarrow> (RelayStore, unit) procedure" where
  "UpdateRelayLoad relayID currentLoad =
     andThen (wrap ''update relay load'' (relay_stmt (\<lambda>s.
        case pg_uuid (st_pg s) relayID of
          None \<Rightarrow> Inl bad_value
        | Some u \<Rightarrow>
            if currentLoad < - (2 ^ 31) \<or> 2 ^ 31 \<le> currentLoad then Inl bad_value
            else Inr (length (filter (\<lambda>r. mr_ID (rr_server r) = u) (st_rows s)),
                      map (\<lambda>r. if mr_ID (rr_server r) = u then r\<lparr>rr_server := (rr_server r)\<lparr>mr_CurrentLoad := currentLoad\<rparr>\<rparr> else r) (st_rows s))))) (\<lambda>n.
     if n = 0 then raise (Wrapf ''update relay load'' ErrNotFound) else return ())"

subsection \<open>Properties\<close>

text \<open>Sorting by one key after another is stable, so the first element is least in the lexicographic order.\<close>

lemma hd_sorted_key_least: "sorted (map f (y # ys)) \<Longrightarrow> x \<in> set (y # ys) \<Longrightarrow> f y \<le> f x"
  by auto

lemma hd_sort_keys_least:
  assumes "sort_key f (sort_key g xs) = y # ys" "x \<in> set xs"
  shows "f y < f x \<or> f y = f x \<and> g y \<le> g x"
proof -
  have mem: "x \<in> set (y # ys)" using assms(2) arg_cong [OF assms(1), of set] by simp
  have "f y \<le> f x" using hd_sorted_key_least [OF _ mem, of f] sorted_sort_key [of f "sort_key g xs"] assms(1) by simp
  moreover have "g y \<le> g x" if "f x = f y"
  proof -
    have "filter (\<lambda>z. f z = f y) (y # ys) = filter (\<lambda>z. f z = f y) (sort_key g xs)"
      using sort_key_stable [of f "f y" "sort_key g xs"] assms(1) by simp
    then have "sorted (map g (filter (\<lambda>z. f z = f y) (y # ys)))"
      by (simp only: sorted_map sorted_wrt_filter sorted_sort_key [unfolded sorted_map])
    then have "sorted (map g (y # filter (\<lambda>z. f z = f y) ys))" by simp
    moreover have "x \<in> set (y # filter (\<lambda>z. f z = f y) ys)" using mem that by auto
    ultimately show ?thesis by (rule hd_sorted_key_least)
  qed
  ultimately show ?thesis by auto
qed

text \<open>
  The nearest relay is healthy, has room, and is at the least distance of all such relays; among those
  at its distance it has the least load. Without such a relay the caller gets the error of a missing row.
\<close>

lemma nearest_relay:
  assumes "st_faults s = []"
  shows "case store_GetNearestRelay latitude longitude s of
      (Inr r, s') \<Rightarrow> s' = s \<and> r \<in> scan_relay ` set (st_rows s) \<and> usable_relay r \<and>
        (\<forall>q \<in> scan_relay ` set (st_rows s). usable_relay q \<longrightarrow>
           relay_distance latitude longitude r < relay_distance latitude longitude q \<or>
           relay_distance latitude longitude r = relay_distance latitude longitude q \<and> mr_CurrentLoad r \<le> mr_CurrentLoad q)
    | (Inl e, s') \<Rightarrow> s' = s \<and> errors_Is e ErrNotFound \<and> (\<forall>q \<in> scan_relay ` set (st_rows s). \<not> usable_relay q)"
proof (cases "sort_key (relay_distance latitude longitude) (sort_key mr_CurrentLoad (filter usable_relay (map scan_relay (st_rows s))))")
  case Nil
  then have none: "filter usable_relay (map scan_relay (st_rows s)) = []" by (metis length_0_conv length_sort)
  then show ?thesis using assms
    by (auto simp: store_GetNearestRelay_def relay_stmt_def mapNotFound_def ErrNoRows_def ErrNotFound_def filter_empty_conv)
next
  case (Cons r rs)
  then have run: "store_GetNearestRelay latitude longitude s = (Inr r, s)"
    using assms by (simp add: store_GetNearestRelay_def relay_stmt_def)
  have "r \<in> set (filter usable_relay (map scan_relay (st_rows s)))"
    using arg_cong [OF Cons, of set] by auto
  moreover have "relay_distance latitude longitude r < relay_distance latitude longitude q \<or>
      relay_distance latitude longitude r = relay_distance latitude longitude q \<and> mr_CurrentLoad r \<le> mr_CurrentLoad q"
    if "q \<in> scan_relay ` set (st_rows s)" "usable_relay q" for q
    using hd_sort_keys_least [OF Cons, of q] that by auto
  ultimately show ?thesis by (auto simp: run)
qed

text \<open>
  The load of exactly the named relay changes; a relay that does not exist is an error.
\<close>

lemma update_relay_load:
  assumes "UpdateRelayLoad relayID currentLoad s = (Inr (), s')"
  shows "\<exists>u. pg_uuid (st_pg s) relayID = Some u \<and> (\<exists>r \<in> set (st_rows s). mr_ID (rr_server r) = u) \<and>
    map (\<lambda>r. mr_CurrentLoad (rr_server r)) (st_rows s') = map (\<lambda>r. if mr_ID (rr_server r) = u then currentLoad else mr_CurrentLoad (rr_server r)) (st_rows s)"
  using assms
  by (auto simp: UpdateRelayLoad_def relay_stmt_def success_iff Let_def filter_empty_conv split: option.splits list.splits sum.splits if_splits prod.splits)

end
