(* ===== verification/Spec2Isabelle.thy ===== *)
theory Spec2Isabelle
  imports Prelude Replay GoNet GoUrl Netutil Effects Cipher Handshake Relay Store Api Endpoints Tunnel ApiClient PeerManager Coord Middleware Auth Router ServerSetup Downloads NatTraversal Vnc ClientConfig Agent Platforms WinTunnel Services RelayInventory Lifecycle
begin

text \<open>
  QuickTunnel is a VPN of Go programs. A coordination server (\<open>src/server\<close>) keeps users, networks
  and peers in PostgreSQL and short-lived announcements in Redis, admits devices to networks,
  gives them virtual addresses and tells them about each other. A client (\<open>src/client\<close>) runs on
  each device, registers it, keeps a WireGuard tunnel and configures in it the peers the server
  lists. A relay (\<open>src/relay\<close>) forwards UDP packets between two devices that present the same
  token. The shared packages (\<open>src/pkg\<close>) hold the Noise handshake with its replay filter, key
  generation and address allocation.

  \<^bold>\<open>Conventions.\<close> A Go function that returns a value and an error returns a sum, \<open>Inl\<close> the error. A
  method that mutates its receiver is a procedure, a function from the state to the result and
  the state it leaves, also when it fails (\<open>Effects\<close>). Structs are records and keep the names of
  their fields behind a short prefix. Byte strings are lists of 8-bit words, Go strings are lists
  of bytes, unsigned counters are words of their width. Maps that the code iterates over are
  association lists; their order stands for the order of the iteration, which no property
  depends on. Locks and goroutines appear as the order of the calls: a critical section is one
  step, and where two of them can be separated, the other party's step may come between
  (\<open>DbRace\<close> in \<open>Store\<close>, \<open>env_between\<close> in \<open>Relay\<close>). Everything that can fail outside the program
  comes as data: a schedule of faults of the database, of the commands of the machine, of the
  HTTP round trips, of the commands of Redis and of the writes to a socket.

  \<^bold>\<open>Library layer.\<close>
  \<^item> \<open>Prelude\<close>: the parts of \<open>strings\<close> and \<open>strconv\<close> in use, lists, words, options.
  \<^item> \<open>Effects\<close>: errors and procedures; the locale \<open>inductive_invariant\<close>, which turns an invariant of
    every step into one of every reachable state, and is interpreted by the components.
  \<^item> \<open>GoNet\<close>, \<open>GoUrl\<close>: parsing and printing of IP addresses, prefixes, host-port pairs and URLs.

  \<^bold>\<open>Shared packages.\<close>
  \<^item> \<open>Replay\<close> (\<open>pkg/noise/replay.go\<close>): the window of 2048 counters with its ring of 64-bit words. No
    counter is accepted twice; the window answers like the set of the counters seen; the word by
    word shift is the shift of the whole bitmap.
  \<^item> \<open>Netutil\<close> (\<open>pkg/netutil/ip.go\<close>, \<open>server/internal/coordinator/ip_allocator.go\<close>): the allocator
    finds the least free address of a network, and local addresses of the machine.
  \<^item> \<open>Cipher\<close>, \<open>Handshake\<close> (\<open>pkg/noise\<close>): cipher and symmetric states, the two-message handshake, on
    AEAD, hash and Diffie-Hellman functions as parameters of locales with their laws as
    assumptions, which instances satisfy. Channels deliver, nonces never repeat, parties agree.

  \<^bold>\<open>Relay.\<close> \<open>Relay\<close> (\<open>relay/internal\<close>, \<open>relay/cmd\<close>): session and token tables on a heap of sessions,
  all packet types, forwarding, cleanup and metrics as one step relation. The tables stay
  consistent, data goes only to the opposite peer, cleanup removes exactly the idle sessions.

  \<^bold>\<open>Server.\<close>
  \<^item> \<open>Store\<close> (\<open>server/internal/database/queries\<close>, \<open>models\<close>): the tables, every statement with its
    constraints, NULLs and conflicts; between two statements other clients may change the tables.
  \<^item> \<open>Api\<close> (\<open>join_handler.go\<close>, \<open>member_handler.go\<close>, \<open>peer_handler.go\<close>, \<open>network_handler.go\<close>): the
    handlers, with every branch of their answers. Addresses of a network stay different whatever
    requests and faults come; only owners manage; devices need their token.
  \<^item> \<open>Coord\<close> (\<open>coord_handler.go\<close>, \<open>member_tunnel_handler.go\<close>, \<open>relay_handler.go\<close>): announcements in
    Redis with their expiry, the device endpoints that are routed, relay assignment.
  \<^item> \<open>Middleware\<close> (\<open>api/middleware\<close>, \<open>quick_connect_handler.go\<close>): token buckets, proxies, CORS.
  \<^item> \<open>Auth\<close> (\<open>server/internal/auth\<close>, \<open>auth_handler.go\<close>): tokens, API keys and passwords, the two
    middlewares, registration, login and renewal. What a registration gives out is accepted.
  \<^item> \<open>Router\<close> (\<open>router.go\<close>): the table of routes with the middleware chain of each group, as steps
    of one server state. Management needs the owner's credentials; logins are limited. The
    locale \<open>owner_guarded\<close> states the contract of a management handler, interpreted on all of them.
  \<^item> \<open>ServerSetup\<close> (\<open>server/internal/config\<close>, \<open>database/postgres.go\<close>, \<open>cmd/server/main.go\<close>): settings and
    their precedence, the pool, the migrations under failures, the order of the start.
  \<^item> \<open>RelayInventory\<close> (\<open>queries/relays.go\<close>): the table of relays and the choice of the nearest one.
  \<^item> \<open>Lifecycle\<close> (\<open>health.go\<close>, the ends of \<open>cmd/server/main.go\<close> and \<open>relay/cmd/relay/main.go\<close>): the health
    check, the clean-up of peers, what ends a program and what it shuts down.
  \<^item> \<open>Downloads\<close> (\<open>install_script_handler.go\<close>, \<open>client_download_handler.go\<close>): what may be written into the
    install scripts, which file a download serves.

  \<^bold>\<open>Client.\<close>
  \<^item> \<open>Endpoints\<close>: the cleaning and the choice of endpoint texts in the peer manager, the API client
    and the relay handler of the server.
  \<^item> \<open>Tunnel\<close> (\<open>tunnel/wireguard.go\<close>, \<open>platform_linux.go\<close>, \<open>tun_linux.go\<close>, \<open>pkg/crypto/keys.go\<close>): the
    table of peers and the commands run on the machine. What the kernel holds is computed from the
    commands that succeeded; the table never claims more. The locale \<open>peer_table\<close> states what the
    manager relies on, interpreted on the tunnel.
  \<^item> \<open>Platforms\<close>, \<open>WinTunnel\<close> (\<open>tun_windows.go\<close>, \<open>platform_windows.go\<close>, \<open>tun_darwin.go\<close>,
    \<open>routes_darwin.go\<close>): the devices of Windows and macOS, where any call of the host may fail, and the
    tunnel over the Windows device, which interprets \<open>peer_table\<close> as well. What WireGuard holds is
    computed from the requests sent to it: it routes only to peers the table lists, and a peer that
    was added is held.
  \<^item> \<open>ApiClient\<close> (\<open>api_client/client.go\<close>): every call, its retries and credentials.
  \<^item> \<open>PeerManager\<close> (\<open>peer/manager.go\<close>): synchronisation with the server's list, on the tunnel and the
    API client. Connections follow the list, the tunnel follows the connections, reachable peers
    are connected, endpoints are public.
  \<^item> \<open>NatTraversal\<close> (\<open>nat\<close>, \<open>peer/handshake.go\<close>): STUN discovery, the NAT type, hole punching, the
    authenticated packet of the peers.
  \<^item> \<open>Vnc\<close> (\<open>vnc\<close>): port discovery, measured quality, the viewer and its command line.
  \<^item> \<open>ClientConfig\<close> (\<open>config\<close>, \<open>cmd/quicktunnel/main.go\<close>, \<open>pkg/crypto/keys.go\<close>): the configuration with
    its file and environment, the commands that join, report and configure.
  \<^item> \<open>Agent\<close> (\<open>agent\<close>): the state machine, the start and stop of all parts, the heartbeat loop with
    its backoff, the quality monitor, raw forwarding. Starting is all or nothing, only routable
    endpoints are announced, a session leaves no tunnel, a joined device comes back as the same member.

  \<^item> \<open>Services\<close> (\<open>cmd/quicktunnel/main.go\<close>, \<open>cmd/quicktunnel-win/main_windows.go\<close>): the dispatch of both
    programs and the commands that stop the client, install it as a service, remove it and reset
    the device. A reset removes exactly what the client left.

  This theory holds what spans components: the datagrams of the tunnel at the relay, and the
  requests of the client against the routes of the server.

  \<^bold>\<open>Parameters.\<close> \<open>encoding/json\<close> (the records \<open>json_codec\<close> and the field \<open>env_unmarshal\<close>), AEAD, hash,
  HMAC and curve operations, \<open>golang-jwt\<close> and \<open>bcrypt\<close> (the records \<open>jwt_lib\<close>, \<open>bcrypt_lib\<close>), the STUN
  message library (the record \<open>stun_net\<close>), PostgreSQL's \<open>uuid\<close> and \<open>inet\<close> types (the record \<open>pg\<close>), random sources
  and clocks are arguments. Laws about them are hypotheses of the properties that need them, and
  each such property has an instance at concrete functions.

  \<^bold>\<open>Bounds.\<close> All loops are structural or have a termination proof; the retry loop of the API client
  ends by its count of three attempts, the registration loop of the server by its own count of
  three. There is no fuel. Counters of the replay window and of the ciphers keep their 64 bits.
  Tokens of the rate limiter are rational, so the rounding of floating-point numbers is left out.

  \<^bold>\<open>Not modelled.\<close> JSON texts; logging; the matching of paths by the router's library, of which only the
  agreement of segments is stated below; the fixed text of the install scripts, which is shell and
  PowerShell code; pool statistics; the parsing of flags; on macOS the tunnel object over the modelled
  device; the message types of \<open>pkg/protocol\<close>, which no code uses; the web dashboard.
\<close>

subsection \<open>The tunnel and the relay\<close>

text \<open>
  When the peer manager falls back to a relay it gives the kernel's WireGuard the relay's address
  as the endpoint of the peer, so the relay receives WireGuard datagrams: a type between 1 and 4,
  three zero bytes, and at least 28 bytes more.
\<close>

definition wireguard_datagram :: "bytes \<Rightarrow> bool" where
  "wireguard_datagram packet \<longleftrightarrow> 32 \<le> length packet \<and> packet ! 0 \<in> {1, 2, 3, 4} \<and> take 3 (drop 1 packet) = [0, 0, 0]"

lemma ForceRelay_redirects_kernel:
  assumes "ForceRelay su now i m = (Inr (), m')" "wt_wgReady (pm_tunnel m)"
  shows "\<exists>conn e. map_of (pm_peers m) i = Some conn \<and> public_endpoint e \<and> kernel_peers (wt_os (pm_tunnel m')) (cn_PublicKey conn) = Some e"
proof -
  obtain conn where conn: "map_of (pm_peers m) i = Some conn" using assms(1) by (cases "map_of (pm_peers m) i") (auto simp: ForceRelay_def)
  obtain e m1 t where relay: "resolveRelayEndpoint su i m = (Inr e, m1)"
    and upd: "UpdatePeerEndpoint now (cn_PublicKey conn) e (pm_tunnel m1) = (Inr (), t)"
    and m': "m' = set_endpoint i e ''relay'' now (m1\<lparr>pm_tunnel := t\<rparr>)"
    using assms(1) conn by (auto simp: ForceRelay_def success_iff on_tunnel_def)
  have ready: "wt_wgReady (pm_tunnel m1)"
    using resolveRelayEndpoint_same [of m su i] relay assms(2) by (auto simp: same_but_api_def)
  have "kernel_peers (wt_os t) (cn_PublicKey conn) = Some e" using upd ready by (cases rule: UpdatePeerEndpoint_cases) simp_all
  moreover have "pm_tunnel m' = t" by (simp add: m' set_endpoint_def split: option.split)
  ultimately show ?thesis using conn resolveRelayEndpoint_public [OF relay] by auto
qed

text \<open>
  C40. The relay carries none of the tunnel's traffic. A WireGuard datagram that reaches the relay
  changes no session and is forwarded to nobody, unless the random bytes of a handshake
  initiation happen to be a connect request, or the identifier of a session begins with three
  zero bytes: the relay's packets have a session identifier where WireGuard has its own fields,
  and the tunnel never connects to the relay with a token.
\<close>

theorem relay_ignores_wireguard:
  assumes "wireguard_datagram packet"
    and "\<forall>k \<in> fst ` set (rs_sessions s). take 3 k \<noteq> [CHR 0x00, CHR 0x00, CHR 0x00]"
    and "packet ! 0 = 1 \<Longrightarrow> isl (env_unmarshal env (drop 17 packet))"
  shows "snd (handlePacket env packet from s) = s"
proof -
  have "char_of (0 :: nat) = CHR 0x00" by code_simp
  then have key: "take 3 (sessionKey (take 16 (drop 1 packet))) = [CHR 0x00, CHR 0x00, CHR 0x00]"
    using assms(1) by (simp add: wireguard_datagram_def sessionKey_def take_map)
  have none: "getSessionByID (take 16 (drop 1 packet)) s = None"
  proof (rule ccontr)
    assume "getSessionByID (take 16 (drop 1 packet)) s \<noteq> None"
    then have "sessionKey (take 16 (drop 1 packet)) \<in> fst ` set (rs_sessions s)" by (auto simp: getSessionByID_def map_of_keys)
    then show False using assms(2) key by blast
  qed
  have "length packet \<ge> packetHeaderSize" using assms(1) by (simp add: wireguard_datagram_def packetHeaderSize_def)
  then show ?thesis
    using none assms(3)
    by (auto simp: handlePacket_def Let_def handle_connect_def PacketTypeConnect_def isl_def split: sum.splits)
qed

definition sample_datagram :: bytes where
  "sample_datagram = [4, 0, 0, 0] @ replicate 28 9"

definition sample_env :: relay_env where
  "sample_env = \<lparr>env_now = 0, env_rand = None, env_nano = 0, env_between = None, env_write = (\<lambda>_ _. None),
     env_unmarshal = (\<lambda>_. Inl (Errorf ''invalid character''))\<rparr>"

definition sample_relay :: RelayServer where
  "sample_relay = \<lparr>rs_port = 3478, rs_heap = [\<lparr>s_ID = replicate 16 1, s_Token = ''t'', s_PeerAAddr = None, s_PeerBAddr = None, s_CreatedAt = 0, s_LastActivity = 0\<rparr>],
     rs_sessions = [(sessionKey (replicate 16 1), 0)], rs_tokenToSession = [(''t'', sessionKey (replicate 16 1))], rs_conn = True, rs_metrics = None, rs_out = []\<rparr>"

theorem relay_ignores_wireguard_witness:
  "wireguard_datagram sample_datagram \<and> snd (handlePacket sample_env sample_datagram \<lparr>ua_IP = 1, ua_Port = 51820, ua_Zone = []\<rparr> sample_relay) = sample_relay"
proof -
  have dg: "wireguard_datagram sample_datagram" by (simp add: wireguard_datagram_def sample_datagram_def)
  have "sessionKey (replicate 16 1) = replicate 16 (CHR 0x01)" by code_simp
  then have "\<forall>k \<in> fst ` set (rs_sessions sample_relay). take 3 k \<noteq> [CHR 0x00, CHR 0x00, CHR 0x00]" by (simp add: sample_relay_def eval_nat_numeral)
  with dg relay_ignores_wireguard [of sample_datagram sample_relay sample_env] show ?thesis by (simp add: sample_datagram_def)
qed

subsection \<open>The client's requests and the server's routes\<close>

text \<open>
  A route's pattern and the path of a request agree segment by segment; a segment in braces stands
  for any segment that is not empty. The query is not part of the path.
\<close>

definition segment_matches :: "string \<Rightarrow> string \<Rightarrow> bool" where
  "segment_matches pat seg \<longleftrightarrow> (if HasPrefix pat ''{'' then seg \<noteq> [] else pat = seg)"

definition routes_of :: "QuickConnectBootstrap option \<Rightarrow> string \<Rightarrow> string \<Rightarrow> (string \<times> string \<times> route_group) list" where
  "routes_of quickConnect verb path =
     filter (\<lambda>(m, p, g). m = verb \<and> list_all2 segment_matches (Split p (CHR ''/'')) (Split (takeWhile (\<lambda>c. c \<noteq> CHR ''?'') path) (CHR ''/'')))
       (route_table quickConnect)"

text \<open>What the middleware of a group reads: the API key's header, or the bearer token of a member.\<close>

fun carries_credentials :: "route_group \<Rightarrow> http_request \<Rightarrow> bool" where
  "carries_credentials AgentProtected rq = (\<exists>k. k \<noteq> [] \<and> (''X-API-Key'', k) \<in> set (hr_headers rq))"
| "carries_credentials MemberTunnel rq = (\<exists>t. t \<noteq> [] \<and> (''Authorization'', ''Bearer '' @ t) \<in> set (hr_headers rq))"
| "carries_credentials _ rq = True"

text \<open>Exactly one route of the server matches the request, it is in the group, and the request has what the group's middleware needs.\<close>

definition routed :: "QuickConnectBootstrap option \<Rightarrow> string \<Rightarrow> route_group \<Rightarrow> http_request \<Rightarrow> bool" where
  "routed quickConnect base g rq \<longleftrightarrow>
     (\<exists>path pattern. hr_url rq = base @ path \<and> routes_of quickConnect (hr_method rq) path = [(hr_method rq, pattern, g)]) \<and> carries_credentials g rq"

definition sends :: "(Client, 'a) procedure \<Rightarrow> Client \<Rightarrow> http_request list" where
  "sends f c = ac_sent (snd (f (c\<lparr>ac_sent := []\<rparr>)))"

lemma PathEscape_Nil_iff: "PathEscape x = [] \<longleftrightarrow> x = []"
  by (cases x) (simp_all add: PathEscape_def escape_byte_def Let_def)

lemma PathEscape_no_query: "CHR ''?'' \<notin> set (PathEscape x)"
proof -
  have "CHR ''?'' \<notin> set (if unreserved c \<or> c \<in> set ''$&+=:@'' then [c] else escape_byte c)" for c
  proof (cases "unreserved c \<or> c \<in> set ''$&+=:@''")
    case True
    then show ?thesis by (auto simp: unreserved_def is_alnum_def is_alpha_def is_digit_def)
  next
    case False
    have hx: "CHR ''?'' \<noteq> upper_hex d" if "d < 16" for d
    proof
      assume "CHR ''?'' = upper_hex d"
      then have "(of_char (upper_hex d) :: nat) = of_char (CHR ''?'')" by simp
      with that show False by (simp add: upper_hex_def split: if_splits)
    qed
    have "(of_char c :: nat) div 16 < 16"
      by (rule less_mult_imp_div_less) (use nat_of_char_less_256 [of c] in simp)
    then show ?thesis
      using False hx [of "of_char c div 16"] hx [of "of_char c mod 16"] by (simp add: escape_byte_def Let_def)
  qed
  then show ?thesis unfolding PathEscape_def set_concat set_map by blast
qed

text \<open>A segment of a path: not empty, without slash and question mark.\<close>

definition segment :: "string \<Rightarrow> bool" where
  "segment i \<longleftrightarrow> i \<noteq> [] \<and> CHR ''/'' \<notin> set i \<and> CHR ''?'' \<notin> set i"

lemma PathEscape_segment: "i \<noteq> [] \<Longrightarrow> segment (PathEscape i)"
  by (simp add: segment_def PathEscape_Nil_iff PathEscape_no_query PathEscape_no_slash)

lemma segment_path:
  assumes "segment i"
  shows "Split (takeWhile (\<lambda>c. c \<noteq> CHR ''?'') (i @ CHR ''/'' # s)) (CHR ''/'') = i # Split (takeWhile (\<lambda>c. c \<noteq> CHR ''?'') s) (CHR ''/'')"
    "Split (takeWhile (\<lambda>c. c \<noteq> CHR ''?'') i) (CHR ''/'') = [i]"
proof -
  have i: "CHR ''/'' \<notin> set i" "\<forall>c \<in> set i. c \<noteq> CHR ''?''" using assms by (auto simp: segment_def)
  have "takeWhile (\<lambda>c. c \<noteq> CHR ''?'') (i @ CHR ''/'' # s) = i @ CHR ''/'' # takeWhile (\<lambda>c. c \<noteq> CHR ''?'') s"
    using i(2) by (subst takeWhile_append2) simp_all
  then show "Split (takeWhile (\<lambda>c. c \<noteq> CHR ''?'') (i @ CHR ''/'' # s)) (CHR ''/'') = i # Split (takeWhile (\<lambda>c. c \<noteq> CHR ''?'') s) (CHR ''/'')"
    using Split_sep [OF i(1)] by simp
  have "takeWhile (\<lambda>c. c \<noteq> CHR ''?'') i = i" using i(2) by (simp only: takeWhile_eq_all_conv)
  then show "Split (takeWhile (\<lambda>c. c \<noteq> CHR ''?'') i) (CHR ''/'') = [i]" by (simp only: Split_no_sep [OF i(1)])
qed

lemmas route_rules = routes_of_def route_table_def segment_matches_def HasPrefix_def segment_path

lemma member_routes:
  assumes "segment i"
  shows "routes_of q ''PUT'' (''/api/v1/members/'' @ i @ ''/heartbeat'') = [(''PUT'', ''/api/v1/members/{mid}/heartbeat'', MemberTunnel)]"
    "routes_of q ''GET'' (''/api/v1/members/'' @ i @ ''/peers'') = [(''GET'', ''/api/v1/members/{mid}/peers'', MemberTunnel)]"
    "routes_of q ''POST'' (''/api/v1/members/'' @ i @ ''/announce'') = [(''POST'', ''/api/v1/members/{mid}/announce'', MemberTunnel)]"
    "routes_of q ''POST'' (''/api/v1/members/'' @ i @ ''/offline'') = [(''POST'', ''/api/v1/members/{mid}/offline'', MemberTunnel)]"
    "routes_of q ''GET'' (''/api/v1/members/'' @ i @ ''/relay?'' @ query) = [(''GET'', ''/api/v1/members/{mid}/relay'', MemberTunnel)]"
  using assms by (simp_all add: route_rules segment_def split: option.split)

lemma agent_routes:
  assumes "segment n" "segment i"
  shows "routes_of q ''POST'' (''/api/v1/networks/'' @ n @ ''/peers/register'') = [(''POST'', ''/api/v1/networks/{id}/peers/register'', AgentProtected)]"
    "routes_of q ''PUT'' (''/api/v1/networks/'' @ n @ ''/peers/'' @ i @ ''/heartbeat'') = [(''PUT'', ''/api/v1/networks/{id}/peers/{peerId}/heartbeat'', AgentProtected)]"
    "routes_of q ''GET'' (''/api/v1/coord/peers/'' @ n) = [(''GET'', ''/api/v1/coord/peers/{networkId}'', AgentProtected)]"
    "routes_of q ''POST'' ''/api/v1/coord/announce'' = [(''POST'', ''/api/v1/coord/announce'', AgentProtected)]"
    "routes_of q ''GET'' (''/api/v1/coord/relay/assign?'' @ query) = [(''GET'', ''/api/v1/coord/relay/assign'', AgentProtected)]"
  using assms by (simp_all add: route_rules segment_def split: option.split)

lemma join_routes:
  "routes_of q ''POST'' ''/api/v1/auth/login'' = [(''POST'', ''/api/v1/auth/login'', AuthRoutes)]"
  "routes_of q ''POST'' ''/api/v1/join'' = [(''POST'', ''/api/v1/join'', JoinRoutes)]"
  "segment n \<Longrightarrow> routes_of q ''POST'' (''/api/v1/networks/'' @ n @ ''/join'') = []"
  by (simp_all add: route_rules segment_def split: option.split)

lemma sends_routed:
  assumes "routes_of q verb path = [(verb, pattern, g)]"
    and "\<And>d auth. applyAuth d mode = Inr auth \<Longrightarrow> carries_credentials g (build_request verb (ac_baseURL c @ path) body auth)"
  shows "list_all (routed q (ac_baseURL c) g) (sends (wrap ctx (doJSON jc verb path body mode out target)) c)"
proof -
  have "keeps (\<lambda>d. ac_baseURL d = ac_baseURL c \<and> list_all (routed q (ac_baseURL c) g) (ac_sent d)) (doJSON jc verb path body mode out target)"
  proof (rule keeps_requests)
    fix d auth
    assume "applyAuth d mode = Inr auth"
    with assms show "routed q (ac_baseURL c) g (build_request verb (ac_baseURL c @ path) body auth)"
      by (simp add: routed_def) (simp add: build_request_def)
  qed
  from keepsD [OF this, of "c\<lparr>ac_sent := []\<rparr>"] show ?thesis by (simp add: sends_def wrap_snd_eq)
qed

lemma sends_andThen_reads: "sends (andThen p (\<lambda>out. reads (f out))) c = sends p c"
  by (simp add: sends_def andThen_def reads_def split: prod.split sum.split)

lemma sends_Login: "sends (Login jc email password) c =
   sends (wrap ''login'' (doJSON jc ''POST'' ''/api/v1/auth/login'' (LoginBody (TrimSpace email) password) authNone zero_auth (Some (jc_auth jc)))) c"
  by (simp add: sends_def Login_def procedure_defs SetToken_def SetAPIKey_def split: prod.split sum.split)

lemma credentials_sent:
  "applyAuth d authAPIKey = Inr auth \<Longrightarrow> carries_credentials AgentProtected (build_request verb url body auth)"
  "applyAuth d authMemberToken = Inr auth \<Longrightarrow> carries_credentials MemberTunnel (build_request verb url body auth)"
  by (auto simp: build_request_def split: if_splits)

text \<open>
  C15. Client and server agree on the interface. Whatever the network answers, every request a
  call of the API client sends, its retries included, is for a path that exactly one route of the
  server matches with its method, for every identifier that is not empty; the calls of a member are
  on the member routes with the member's bearer token, those of an agent on the API key's routes with
  the key's header, and the login is on the authentication routes.
\<close>

theorem client_requests_routed:
  assumes "memberID \<noteq> []" "networkID \<noteq> []" "peerID \<noteq> []"
  shows "list_all (routed q (ac_baseURL c) MemberTunnel)
      (sends (client_MemberHeartbeat jc memberID hb) c @ sends (MemberGetPeers jc memberID) c @ sends (client_MemberAnnounce jc memberID man) c @
       sends (MemberGoOffline jc memberID) c @ sends (MemberGetNearestRelay jc memberID networkID peerID) c) \<and>
    list_all (routed q (ac_baseURL c) AgentProtected)
      (sends (client_RegisterPeer jc networkID rr) c @ sends (client_Heartbeat jc networkID peerID ps) c @ sends (GetPeers jc networkID) c @
       sends (client_Announce jc an) c @ sends (GetNearestRelay jc networkID peerID) c) \<and>
    list_all (routed q (ac_baseURL c) AuthRoutes) (sends (Login jc email password) c)"
proof -
  note m = member_routes [OF PathEscape_segment [OF assms(1)]]
  note a = agent_routes [OF PathEscape_segment [OF assms(2)] PathEscape_segment [OF assms(3)]]
  have "list_all (routed q (ac_baseURL c) MemberTunnel) (sends (client_MemberHeartbeat jc memberID hb) c)"
    "list_all (routed q (ac_baseURL c) MemberTunnel) (sends (MemberGetPeers jc memberID) c)"
    "list_all (routed q (ac_baseURL c) MemberTunnel) (sends (client_MemberAnnounce jc memberID man) c)"
    "list_all (routed q (ac_baseURL c) MemberTunnel) (sends (MemberGoOffline jc memberID) c)"
    "list_all (routed q (ac_baseURL c) MemberTunnel) (sends (MemberGetNearestRelay jc memberID networkID peerID) c)"
    unfolding client_MemberHeartbeat_def MemberGetPeers_def client_MemberAnnounce_def MemberGoOffline_def MemberGetNearestRelay_def sends_andThen_reads
    by (rule sends_routed, rule m, erule credentials_sent)+
  moreover have "list_all (routed q (ac_baseURL c) AgentProtected) (sends (client_RegisterPeer jc networkID rr) c)"
    "list_all (routed q (ac_baseURL c) AgentProtected) (sends (client_Heartbeat jc networkID peerID ps) c)"
    "list_all (routed q (ac_baseURL c) AgentProtected) (sends (GetPeers jc networkID) c)"
    "list_all (routed q (ac_baseURL c) AgentProtected) (sends (client_Announce jc an) c)"
    "list_all (routed q (ac_baseURL c) AgentProtected) (sends (GetNearestRelay jc networkID peerID) c)"
    unfolding client_RegisterPeer_def client_Heartbeat_def GetPeers_def client_Announce_def GetNearestRelay_def sends_andThen_reads
    by (rule sends_routed, rule a, erule credentials_sent)+
  moreover have "list_all (routed q (ac_baseURL c) AuthRoutes) (sends (Login jc email password) c)"
    unfolding sends_Login by (rule sends_routed, rule join_routes) simp
  ultimately show ?thesis by simp
qed

definition routing_client :: Client where
  "routing_client = \<lparr>ac_baseURL = ''http://h'', ac_apiKey = ''k1'', ac_token = [], ac_memberToken = ''t1'',
     ac_outcomes = [TransportError (Errorf ''timeout''), Response 200 ''ok''], ac_sent = [], ac_slept = 0\<rparr>"

theorem client_requests_routed_witness:
  "length (sends (GetPeers sample_codec ''net1'') routing_client) = 2 \<and> list_all (routed None ''http://h'' AgentProtected) (sends (GetPeers sample_codec ''net1'') routing_client)"
proof -
  have url: "url_Host (''http://h/api/v1/coord/peers/'' @ PathEscape ''net1'') \<noteq> None" by code_simp
  have "length (sends (GetPeers sample_codec ''net1'') routing_client) = 2"
    using url by (simp add: sends_def GetPeers_def wrap_snd_eq doJSON_def retry_loop.simps routing_client_def httpDo_def sample_codec_def backoff_ms_def maxRetries_def Let_def)
  moreover have "ac_baseURL routing_client = ''http://h''" by (simp add: routing_client_def)
  moreover note client_requests_routed [of "''m''" "''net1''" "''p''" None routing_client sample_codec]
  ultimately show ?thesis by simp
qed

text \<open>
  The join of the Windows client is not served: no route has the path it posts to.
\<close>

lemma join_route_missing:
  assumes "segment networkID"
  shows "\<exists>path. join_url serverURL networkID = TrimRight serverURL ''/'' @ path \<and> routes_of q ''POST'' path = []"
  using join_routes(3) [OF assms, of q] by (auto simp: join_url_def)

end
